(* ===== verification/Prelude.thy ===== *)
theory Prelude
  imports Main "HOL-Library.Word" "HOL-Library.Multiset" "HOL-Library.List_Lexorder" "HOL-Library.Char_ord"
begin

text \<open>
  Shared vocabulary of the development: Go errors and contexts, Go slices, and the generic
  lemmas on lists the components use.

  A Go string and a Go byte slice are both a \<^typ>\<open>string\<close>, one \<^typ>\<open>char\<close> per byte.
  An \<^verbatim>\<open>error\<close> value is \<^verbatim>\<open>go_error\<close>: a message (\<^verbatim>\<open>errors.New\<close>, \<^verbatim>\<open>fmt.Errorf\<close>), a
  wrapped error (\<^verbatim>\<open>"text: %w"\<close>, and \<^verbatim>\<open>"%w: %s"\<close> with a detail after it) or a message that ends in
  a quoted value (\<^verbatim>\<open>"text %q"\<close>). A function that returns \<^verbatim>\<open>(T, error)\<close> and whose value is
  meaningless on error returns \<open>go_error + T\<close>; where Go returns both, so does the model.
\<close>

named_theorems go_simps \<open>rewrite rules of the Go string and digest helpers\<close>
named_theorems gate_defs \<open>definitions unfolded when a gate is taken apart\<close>

subsection \<open>Errors and contexts\<close>

datatype go_error =
    ErrMsg string
  | ErrWrap string go_error
  | ErrDetail go_error string
  | ErrQuoted string string

text \<open>
  \<^verbatim>\<open>context.Context\<close> is modelled by what the code reads of it: the result of
  \<^verbatim>\<open>ctx.Err()\<close> at each program point that polls it. Every point below is executed at most
  once in one call of the function it belongs to, so a context is a function of the point.
\<close>

datatype poll_point =
    BeforeObserve | AfterObserve
  | BeforeForward
  | BeforePinnedBackend | AfterExactExecution
  | BeforeVerifiedFork | BeforeForkSimulation

type_synonym ctx = "poll_point \<Rightarrow> go_error option"

definition background :: ctx where
  "background = (\<lambda>_. None)"

lemma background_never_done [simp]: "background p = None"
  by (simp add: background_def)

text \<open>The early return on an error: \<^verbatim>\<open>x, err := f(); if err != nil { return err }\<close>.\<close>

definition bindE :: "go_error + 'a \<Rightarrow> ('a \<Rightarrow> go_error + 'b) \<Rightarrow> go_error + 'b" where
  "bindE r k = (case r of Inl e \<Rightarrow> Inl e | Inr x \<Rightarrow> k x)"

lemma bindE_simps [simp]: "bindE (Inl e) k = Inl e" "bindE (Inr x) k = k x"
  by (simp_all add: bindE_def)

lemma bindE_Inr: "bindE r k = Inr y \<longleftrightarrow> (\<exists>x. r = Inr x \<and> k x = Inr y)"
  by (cases r) simp_all

subsection \<open>Slices\<close>

text \<open>
  A Go slice is nil or an array; the difference shows only in its JSON encoding
  (\<^verbatim>\<open>null\<close> against \<^verbatim>\<open>[]\<close>). \<open>append_nil xs\<close> is \<^verbatim>\<open>append([]T(nil), xs...)\<close>.
\<close>

type_synonym 'a slice = "'a list option"

fun elems :: "'a slice \<Rightarrow> 'a list" where
  "elems None = []"
| "elems (Some xs) = xs"

definition append_nil :: "'a list \<Rightarrow> 'a slice" where
  "append_nil xs = (if xs = [] then None else Some xs)"

lemma elems_append_nil [simp]: "elems (append_nil xs) = xs"
  by (simp add: append_nil_def)

lemma append_nil_inject [simp]: "append_nil xs = append_nil ys \<longleftrightarrow> xs = ys"
  by (auto simp: append_nil_def)

subsection \<open>Lists\<close>

text \<open>A list with distinct sort keys has exactly one sorted arrangement.\<close>

lemma sort_key_perm_unique:
  assumes "mset xs = mset ys" and "inj_on f (set xs)"
  shows "sort_key f xs = sort_key f ys"
  using assms by (intro sort_key_inj_key_eq) simp_all

lemma sorted_distinct_keys_unique:
  assumes "sort_key f xs = sort_key f ys"
  shows "mset xs = mset ys"
  using assms by (metis mset_sort)

lemma sort_eq_mset: "sort xs = sort ys \<longleftrightarrow> mset xs = mset ys"
  by (metis mset_sort sorted_list_of_multiset_mset)

lemma map_sort_key: "map f (sort_key f xs) = sort (map f xs)"
  by (rule properties_for_sort [symmetric]) simp_all

lemma distinct_filter_map: "distinct (map f xs) \<Longrightarrow> distinct (map f (filter P xs))"
  by (induction xs) auto

end
