(* ===== verification/Go_Strings.thy ===== *)
theory Go_Strings
  imports Prelude
begin

text \<open>
  The functions of Go's \<^verbatim>\<open>strings\<close> package that the modelled code calls, on byte strings.
  \<open>TrimSpace\<close> removes the UTF-8 encodings of every Unicode white-space rune, as Go does.
  \<open>ToLower\<close>, \<open>ToUpper\<close> and \<open>EqualFold\<close> map the ASCII letters and keep every other
  byte; they agree with Go on ASCII strings (identifiers, digests, addresses, versions).
\<close>

subsection \<open>Trimming\<close>

definition space_runes :: "string list" where
  "space_runes =
     map (\<lambda>n. [char_of n]) [9, 10, 11, 12, 13, 32 :: nat] @
     map (map char_of)
       ([[0xC2, 0x85], [0xC2, 0xA0], [0xE1, 0x9A, 0x80]] @
        map (\<lambda>n. [0xE2, 0x80, n]) [0x80 ..< 0x8B] @
        [[0xE2, 0x80, 0xA8], [0xE2, 0x80, 0xA9], [0xE2, 0x80, 0xAF],
         [0xE2, 0x81, 0x9F], [0xE3, 0x80, 0x80]] :: nat list list)"

fun strip_prefix :: "string \<Rightarrow> string \<Rightarrow> string option" where
  "strip_prefix [] s = Some s"
| "strip_prefix (p # ps) [] = None"
| "strip_prefix (p # ps) (c # s) = (if p = c then strip_prefix ps s else None)"

fun strip_any :: "string list \<Rightarrow> string \<Rightarrow> string option" where
  "strip_any [] s = None"
| "strip_any (p # ps) s =
     (case strip_prefix p s of Some r \<Rightarrow> Some r | None \<Rightarrow> strip_any ps s)"

lemma strip_prefix_Some: "strip_prefix p s = Some r \<longleftrightarrow> s = p @ r"
  by (induction p s rule: strip_prefix.induct) auto

lemma strip_prefix_append [simp]: "strip_prefix p (p @ r) = Some r"
  by (simp add: strip_prefix_Some)

lemma strip_any_Some:
  "strip_any ps s = Some r \<Longrightarrow> \<exists>p \<in> set ps. s = p @ r"
  by (induction ps) (auto simp: strip_prefix_Some split: option.splits)

lemma strip_any_None:
  "strip_any ps s = None \<longleftrightarrow> (\<forall>p \<in> set ps. \<forall>r. s \<noteq> p @ r)"
proof (induction ps)
  case (Cons p ps)
  show ?case
  proof (cases "strip_prefix p s")
    case None
    then have "\<forall>r. s \<noteq> p @ r"
      using strip_prefix_Some by (metis option.distinct(1))
    with None Cons show ?thesis by simp
  next
    case (Some r)
    then have "s = p @ r" by (simp add: strip_prefix_Some)
    then show ?thesis by auto
  qed
qed simp

function trim_runes :: "string list \<Rightarrow> string \<Rightarrow> string" where
  "trim_runes ps s =
     (case strip_any ps s of
        Some r \<Rightarrow> if length r < length s then trim_runes ps r else s
      | None \<Rightarrow> s)"
  by pat_completeness auto
termination
  by (relation "measure (\<lambda>(ps, s). length s)") auto

declare trim_runes.simps [simp del]

definition TrimSpace :: "string \<Rightarrow> string" where
  "TrimSpace s = rev (trim_runes (map rev space_runes) (rev (trim_runes space_runes s)))"

text \<open>A string that neither starts nor ends with a white-space rune is its own trim.\<close>

definition visible :: "char \<Rightarrow> bool" where
  "visible c \<longleftrightarrow> 33 \<le> (of_char c :: nat) \<and> (of_char c :: nat) < 127"

lemma space_rune_not_visible:
  "p \<in> set space_runes \<Longrightarrow> p \<noteq> [] \<and> \<not> visible (hd p) \<and> \<not> visible (last p)"
  by (auto simp: space_runes_def visible_def upt_rec)

lemma trim_runes_visible:
  assumes "\<And>p. p \<in> set ps \<Longrightarrow> p \<noteq> [] \<and> \<not> visible (hd p)"
    and "s = [] \<or> visible (hd s)"
  shows "trim_runes ps s = s"
proof -
  have "strip_any ps s = None"
    unfolding strip_any_None using assms by (metis append_is_Nil_conv hd_append2)
  then show ?thesis by (simp add: trim_runes.simps)
qed

lemma TrimSpace_visible:
  assumes "s = [] \<or> visible (hd s) \<and> visible (last s)"
  shows "TrimSpace s = s"
proof -
  have "trim_runes space_runes s = s"
    using assms by (intro trim_runes_visible) (auto dest: space_rune_not_visible)
  moreover have "trim_runes (map rev space_runes) (rev s) = rev s"
    using assms by (intro trim_runes_visible) (auto simp: hd_rev dest: space_rune_not_visible)
  ultimately show ?thesis by (simp add: TrimSpace_def)
qed

lemma TrimSpace_all_visible [go_simps]: "list_all visible s \<Longrightarrow> TrimSpace s = s"
  by (rule TrimSpace_visible) (cases s; simp add: list_all_iff)

lemma TrimSpace_Nil [simp]: "TrimSpace [] = []"
  by (rule TrimSpace_visible) simp

text \<open>One space before and one after visible text are trimmed.\<close>

lemma strip_space: "strip_any space_runes (CHR '' '' # s) = Some s"
    "strip_any (map rev space_runes) (CHR '' '' # s) = Some s"
  by (simp_all add: space_runes_def upt_rec char_of_def bit_0)

lemma trim_space_step: "trim_runes space_runes (CHR '' '' # s) = trim_runes space_runes s"
    "trim_runes (map rev space_runes) (CHR '' '' # s) = trim_runes (map rev space_runes) s"
  by (subst trim_runes.simps, simp add: strip_space)+

lemma TrimSpace_padded:
  assumes "list_all visible s"
  shows "TrimSpace (CHR '' '' # s) = s" and "TrimSpace (CHR '' '' # s @ '' '') = s"
proof -
  have s: "s = [] \<or> visible (hd s) \<and> visible (last s)"
    using assms by (cases s) (auto simp: list_all_iff)
  then have t: "trim_runes space_runes (s @ r) = s @ r" if "s = [] \<Longrightarrow> r = []" for r
    using that s by (intro trim_runes_visible) (cases s; auto dest: space_rune_not_visible)+
  have u: "trim_runes (map rev space_runes) (rev s) = rev s"
    using s by (intro trim_runes_visible) (auto simp: hd_rev dest: space_rune_not_visible)
  show "TrimSpace (CHR '' '' # s) = s"
    using t [of "[]"] u by (simp add: TrimSpace_def trim_space_step)
  show "TrimSpace (CHR '' '' # s @ '' '') = s"
  proof (cases "s = []")
    case True
    have "trim_runes space_runes [] = []" using t [of "[]"] True by simp
    then show ?thesis using u True by (simp add: TrimSpace_def trim_space_step)
  next
    case False
    then show ?thesis using t [of "'' ''"] u by (simp add: TrimSpace_def trim_space_step)
  qed
qed

text \<open>Trimming is idempotent, and only ever drops bytes at the two ends.\<close>

lemma trim_runes_suffix: "\<exists>p. s = p @ trim_runes ps s"
proof (induction ps s rule: trim_runes.induct)
  case (1 ps s)
  show ?case
  proof (cases "strip_any ps s")
    case None
    then show ?thesis by (simp add: trim_runes.simps)
  next
    case (Some r)
    show ?thesis
    proof (cases "length r < length s")
      case True
      from strip_any_Some [OF Some] obtain q where "s = q @ r" by blast
      moreover from "1.IH" [OF Some True] obtain p where "r = p @ trim_runes ps r" by blast
      moreover have "trim_runes ps s = trim_runes ps r"
        using Some True by (simp add: trim_runes.simps [of ps s])
      ultimately show ?thesis by (metis append.assoc)
    qed (use Some in \<open>simp add: trim_runes.simps\<close>)
  qed
qed

lemma trim_runes_done:
  assumes "\<And>p. p \<in> set ps \<Longrightarrow> p \<noteq> []"
  shows "strip_any ps (trim_runes ps s) = None"
  using assms
proof (induction ps s rule: trim_runes.induct)
  case (1 ps s)
  show ?case
  proof (cases "strip_any ps s")
    case None
    then show ?thesis by (simp add: trim_runes.simps)
  next
    case (Some r)
    then obtain q where "q \<in> set ps" and "s = q @ r" by (blast dest: strip_any_Some)
    then have "length r < length s" using "1.prems" by simp
    with Some "1.IH" "1.prems" show ?thesis by (simp add: trim_runes.simps [of ps s])
  qed
qed

lemma trim_runes_fixed: "strip_any ps s = None \<Longrightarrow> trim_runes ps s = s"
  by (simp add: trim_runes.simps)

lemma space_runes_nonempty: "p \<in> set space_runes \<Longrightarrow> p \<noteq> []"
  using space_rune_not_visible by blast

lemma TrimSpace_idem [simp]: "TrimSpace (TrimSpace s) = TrimSpace s"
proof -
  let ?t = "trim_runes space_runes s"
  let ?u = "trim_runes (map rev space_runes) (rev ?t)"
  have t: "strip_any space_runes ?t = None"
    by (rule trim_runes_done) (rule space_runes_nonempty)
  have u: "strip_any (map rev space_runes) ?u = None"
    by (rule trim_runes_done) (auto dest: space_runes_nonempty)
  obtain q where "rev ?t = q @ ?u"
    using trim_runes_suffix by blast
  then have "?t = rev ?u @ rev q"
    by (metis rev_append rev_rev_ident)
  with t have "strip_any space_runes (rev ?u) = None"
    unfolding strip_any_None by (metis append.assoc)
  then show ?thesis
    using u by (simp add: TrimSpace_def trim_runes_fixed)
qed

subsection \<open>ASCII case\<close>

definition lower_char :: "char \<Rightarrow> char" where
  "lower_char c = (let n = (of_char c :: nat) in if 65 \<le> n \<and> n \<le> 90 then char_of (n + 32) else c)"

definition upper_char :: "char \<Rightarrow> char" where
  "upper_char c = (let n = (of_char c :: nat) in if 97 \<le> n \<and> n \<le> 122 then char_of (n - 32) else c)"

definition ToLower :: "string \<Rightarrow> string" where
  "ToLower s = map lower_char s"

definition ToUpper :: "string \<Rightarrow> string" where
  "ToUpper s = map upper_char s"

definition EqualFold :: "string \<Rightarrow> string \<Rightarrow> bool" where
  "EqualFold a b \<longleftrightarrow> ToLower a = ToLower b"

definition HasPrefix :: "string \<Rightarrow> string \<Rightarrow> bool" where
  "HasPrefix s p \<longleftrightarrow> strip_prefix p s \<noteq> None"

definition TrimPrefix :: "string \<Rightarrow> string \<Rightarrow> string" where
  "TrimPrefix s p = (case strip_prefix p s of Some r \<Rightarrow> r | None \<Rightarrow> s)"

definition ascii :: "string \<Rightarrow> bool" where
  "ascii s \<longleftrightarrow> list_all (\<lambda>c. (of_char c :: nat) < 128) s"

lemma of_char_lower: "(of_char (lower_char c) :: nat) =
    (if 65 \<le> (of_char c :: nat) \<and> (of_char c :: nat) \<le> 90 then of_char c + 32 else of_char c)"
  by (simp add: lower_char_def Let_def)

lemma lower_char_idem [simp]: "lower_char (lower_char c) = lower_char c"
  by (simp add: lower_char_def Let_def)

lemma of_char_upper: "(of_char (upper_char c) :: nat) =
    (if 97 \<le> (of_char c :: nat) \<and> (of_char c :: nat) \<le> 122 then of_char c - 32 else of_char c)"
  by (auto simp: upper_char_def Let_def)

lemma upper_char_idem [simp]: "upper_char (upper_char c) = upper_char c"
  unfolding upper_char_def [of "upper_char c"] Let_def of_char_upper by auto

lemma ToLower_idem [simp]: "ToLower (ToLower s) = ToLower s"
  by (simp add: ToLower_def)

lemma ToUpper_idem [simp]: "ToUpper (ToUpper s) = ToUpper s"
  by (simp add: ToUpper_def)

lemma ToLower_Nil [simp]: "ToLower [] = []" and ToUpper_Nil [simp]: "ToUpper [] = []"
  by (simp_all add: ToLower_def ToUpper_def)

lemma ToLower_append [simp]: "ToLower (a @ b) = ToLower a @ ToLower b"
  by (simp add: ToLower_def)

lemma ToLower_eq_Nil [simp]: "ToLower s = [] \<longleftrightarrow> s = []"
  by (simp add: ToLower_def)

lemma ToUpper_eq_Nil [simp]: "ToUpper s = [] \<longleftrightarrow> s = []"
  by (simp add: ToUpper_def)

lemma length_ToLower [simp]: "length (ToLower s) = length s"
  by (simp add: ToLower_def)

lemma EqualFold_refl [simp]: "EqualFold a a"
  by (simp add: EqualFold_def)

lemma EqualFold_sym: "EqualFold a b \<Longrightarrow> EqualFold b a"
  by (simp add: EqualFold_def)

lemma EqualFold_trans: "EqualFold a b \<Longrightarrow> EqualFold b c \<Longrightarrow> EqualFold a c"
  by (simp add: EqualFold_def)

lemma EqualFold_ToLower [simp]: "EqualFold (ToLower a) b = EqualFold a b"
    "EqualFold a (ToLower b) = EqualFold a b"
  by (simp_all add: EqualFold_def)

text \<open>Mapping the letters commutes with trimming, because no white-space byte is a letter.\<close>

definition transparent :: "(char \<Rightarrow> char) \<Rightarrow> string \<Rightarrow> bool" where
  "transparent f p \<longleftrightarrow> (\<forall>c \<in> set p. \<forall>x. f x = c \<longleftrightarrow> x = c)"

lemma transparent_Cons [simp]:
  "transparent f (c # p) \<longleftrightarrow> (\<forall>x. f x = c \<longleftrightarrow> x = c) \<and> transparent f p"
  by (simp add: transparent_def)

lemma strip_prefix_map:
  "transparent f p \<Longrightarrow> strip_prefix p (map f s) = map_option (map f) (strip_prefix p s)"
proof (induction p arbitrary: s)
  case (Cons c p)
  then show ?case by (cases s) (auto simp: eq_commute [of c])
qed simp

lemma strip_any_map:
  "\<forall>p \<in> set ps. transparent f p \<Longrightarrow>
   strip_any ps (map f s) = map_option (map f) (strip_any ps s)"
  by (induction ps) (auto simp: strip_prefix_map split: option.splits)

lemma trim_runes_map:
  "\<forall>p \<in> set ps. transparent f p \<Longrightarrow> trim_runes ps (map f s) = map f (trim_runes ps s)"
proof (induction ps s rule: trim_runes.induct)
  case (1 ps s)
  then show ?case
    by (simp add: trim_runes.simps [of ps s] trim_runes.simps [of ps "map f s"] strip_any_map
        split: option.splits)
qed

lemma trim_space_map:
  assumes "\<forall>p \<in> set space_runes. transparent f p"
  shows "TrimSpace (map f s) = map f (TrimSpace s)"
proof -
  have "\<forall>p \<in> set (map rev space_runes). transparent f p"
    using assms by (auto simp: transparent_def)
  with assms show ?thesis
    by (simp add: TrimSpace_def trim_runes_map rev_map)
qed

lemma space_runes_transparent:
  "\<forall>p \<in> set space_runes. transparent lower_char p"
  "\<forall>p \<in> set space_runes. transparent upper_char p"
proof -
  have "\<forall>p \<in> set space_runes. \<forall>c \<in> set p. (of_char c :: nat) \<notin> {65..90} \<union> {97..122}"
    by (auto simp: space_runes_def upt_rec)
  then show "\<forall>p \<in> set space_runes. transparent lower_char p"
    and "\<forall>p \<in> set space_runes. transparent upper_char p"
    by (fastforce simp: transparent_def lower_char_def upper_char_def Let_def)+
qed

lemma TrimSpace_ToLower: "TrimSpace (ToLower s) = ToLower (TrimSpace s)"
  unfolding ToLower_def by (rule trim_space_map) (rule space_runes_transparent)

lemma TrimSpace_ToUpper: "TrimSpace (ToUpper s) = ToUpper (TrimSpace s)"
  unfolding ToUpper_def by (rule trim_space_map) (rule space_runes_transparent)

lemma TrimSpace_lower_trim [simp]: "TrimSpace (ToLower (TrimSpace s)) = ToLower (TrimSpace s)"
  by (simp add: TrimSpace_ToLower)

lemma TrimSpace_upper_trim [simp]: "TrimSpace (ToUpper (TrimSpace s)) = ToUpper (TrimSpace s)"
  by (simp add: TrimSpace_ToUpper)

end
