(* ===== verification/Go_Encoding.thy ===== *)
theory Go_Encoding
  imports Go_Strings
begin

text \<open>
  \<^verbatim>\<open>encoding/hex\<close>, \<^verbatim>\<open>encoding/base64\<close> (raw URL alphabet) and the number formats of
  \<^verbatim>\<open>strconv\<close> and \<^verbatim>\<open>math/big\<close> that the modelled code uses, with their round trips.
\<close>

subsection \<open>Hexadecimal\<close>

definition hex_digit :: "nat \<Rightarrow> char" where
  "hex_digit n = (if n < 10 then char_of (48 + n) else char_of (87 + n))"

definition hex_val :: "char \<Rightarrow> nat option" where
  "hex_val c = (let n = (of_char c :: nat) in
     if 48 \<le> n \<and> n \<le> 57 then Some (n - 48)
     else if 97 \<le> n \<and> n \<le> 102 then Some (n - 87)
     else if 65 \<le> n \<and> n \<le> 70 then Some (n - 55)
     else None)"

fun hex_encode :: "string \<Rightarrow> string" where
  "hex_encode [] = []"
| "hex_encode (c # s) =
     hex_digit (of_char c div 16) # hex_digit (of_char c mod 16) # hex_encode s"

fun hex_decode :: "string \<Rightarrow> string option" where
  "hex_decode [] = Some []"
| "hex_decode [c] = None"
| "hex_decode (a # b # s) =
     (case (hex_val a, hex_val b, hex_decode s) of
        (Some x, Some y, Some r) \<Rightarrow> Some (char_of (16 * x + y) # r)
      | _ \<Rightarrow> None)"

text \<open>The library's own error; its text is not modelled.\<close>

definition hexError :: go_error where
  "hexError = ErrMsg ''encoding/hex''"

lemma hex_val_digit [simp]: "n < 16 \<Longrightarrow> hex_val (hex_digit n) = Some n"
  by (auto simp: hex_digit_def hex_val_def Let_def)

lemma hex_val_bound: "hex_val c = Some n \<Longrightarrow> n < 16"
  by (auto simp: hex_val_def Let_def split: if_splits)

lemma hex_val_lower [simp]: "hex_val (lower_char c) = hex_val c"
  by (auto simp: hex_val_def of_char_lower Let_def)

lemma hex_digit_val: "hex_val c = Some n \<Longrightarrow> hex_digit n = lower_char c"
  by (auto simp: hex_val_def hex_digit_def lower_char_def Let_def split: if_splits)

lemma hex_val_visible: "hex_val c = Some n \<Longrightarrow> visible c"
  by (auto simp: hex_val_def visible_def Let_def split: if_splits)

lemma byte_div_mod: "(of_char c :: nat) div 16 < 16" "(of_char c :: nat) mod 16 < 16"
  by (rule less_mult_imp_div_less) simp_all

lemma hex_decode_encode [simp]: "hex_decode (hex_encode s) = Some s"
  by (induction s) (simp_all add: byte_div_mod)

lemma length_hex_encode [simp]: "length (hex_encode s) = 2 * length s"
  by (induction s) simp_all

lemma hex_encode_inject [simp]: "hex_encode a = hex_encode b \<longleftrightarrow> a = b"
  by (metis hex_decode_encode option.inject)

lemma hex_decode_ToLower [simp]: "hex_decode (ToLower s) = hex_decode s"
  by (induction s rule: hex_decode.induct) (simp_all add: ToLower_def)

lemma hex_encode_decode: "hex_decode s = Some b \<Longrightarrow> hex_encode b = ToLower s"
proof (induction s arbitrary: b rule: hex_decode.induct)
  case (3 x y s)
  then obtain m n r where v: "hex_val x = Some m" "hex_val y = Some n" "hex_decode s = Some r"
    and b: "b = char_of (16 * m + n) # r"
    by (auto split: option.splits)
  have "m < 16" and "n < 16"
    using v by (auto dest: hex_val_bound)
  then have "(16 * m + n) mod 256 = 16 * m + n" by simp
  with 3 v b \<open>n < 16\<close> show ?case by (simp add: ToLower_def hex_digit_val)
qed (auto simp: ToLower_def)

lemma hex_decode_length: "hex_decode s = Some b \<Longrightarrow> length s = 2 * length b"
  by (metis hex_encode_decode length_ToLower length_hex_encode)

lemma hex_decode_visible: "hex_decode s = Some b \<Longrightarrow> list_all visible s"
  by (induction s arbitrary: b rule: hex_decode.induct)
     (auto simp: hex_val_visible split: option.splits)

lemma hex_encode_visible [simp]: "list_all visible (hex_encode s)"
  by (rule hex_decode_visible) (rule hex_decode_encode)

lemma TrimSpace_hex_encode [simp]: "TrimSpace (hex_encode s) = hex_encode s"
  by (simp add: TrimSpace_all_visible)

lemma ToLower_hex_encode [simp]: "ToLower (hex_encode s) = hex_encode s"
  by (metis hex_decode_encode hex_encode_decode)

text \<open>Two hexadecimal strings are equal up to case exactly when they name the same bytes.\<close>

lemma EqualFold_hex:
  "hex_decode a = Some x \<Longrightarrow> hex_decode b = Some y \<Longrightarrow> EqualFold a b \<longleftrightarrow> x = y"
  by (metis EqualFold_def hex_encode_decode hex_decode_ToLower option.inject)

subsection \<open>Numbers\<close>

function nat_text :: "nat \<Rightarrow> nat \<Rightarrow> string" where
  "nat_text b n =
     (if n < b \<or> b < 2 then [hex_digit n] else nat_text b (n div b) @ [hex_digit (n mod b)])"
  by pat_completeness auto
termination
  by (relation "measure (\<lambda>(b, n). n)") auto

declare nat_text.simps [simp del]

definition show_nat :: "nat \<Rightarrow> string" where
  "show_nat n = nat_text 10 n"

definition int_text :: "nat \<Rightarrow> int \<Rightarrow> string" where
  "int_text b i = (if i < 0 then CHR ''-'' # nat_text b (nat (- i)) else nat_text b (nat i))"

fun parse_digits :: "nat \<Rightarrow> string \<Rightarrow> nat \<Rightarrow> nat option" where
  "parse_digits b [] acc = Some acc"
| "parse_digits b (c # s) acc =
     (case hex_val c of
        Some d \<Rightarrow> if d < b then parse_digits b s (acc * b + d) else None
      | None \<Rightarrow> None)"

definition parse_nat :: "nat \<Rightarrow> string \<Rightarrow> nat option" where
  "parse_nat b s = (if s = [] then None else parse_digits b s 0)"

text \<open>
  \<^verbatim>\<open>new(big.Int).SetString(s, base)\<close> for base 10 or 16: an optional sign, then at least
  one digit, and nothing else.
\<close>

definition SetString :: "nat \<Rightarrow> string \<Rightarrow> int option" where
  "SetString b s =
     (case s of
        [] \<Rightarrow> None
      | c # r \<Rightarrow>
          if c = CHR ''-'' then map_option (\<lambda>n. - int n) (parse_nat b r)
          else if c = CHR ''+'' then map_option int (parse_nat b r)
          else map_option int (parse_nat b s))"

lemma parse_digits_append:
  "parse_digits b (s @ t) acc =
     (case parse_digits b s acc of Some a \<Rightarrow> parse_digits b t a | None \<Rightarrow> None)"
  by (induction s arbitrary: acc) (auto split: option.splits)

lemma nat_text_nonempty [simp]: "nat_text b n \<noteq> []"
  by (subst nat_text.simps) simp

lemma parse_digits_nat_text:
  "2 \<le> b \<Longrightarrow> b \<le> 16 \<Longrightarrow> parse_digits b (nat_text b n) 0 = Some n"
proof (induction b n rule: nat_text.induct)
  case (1 b n)
  show ?case
  proof (cases "n < b")
    case True
    with 1 show ?thesis by (simp add: nat_text.simps [of b n])
  next
    case False
    have m: "n mod b < b" using "1.prems" by simp
    with "1.prems" have "n mod b < 16" by linarith
    with m False 1 show ?thesis
      by (simp add: nat_text.simps [of b n] parse_digits_append mult.commute)
  qed
qed

lemma parse_nat_text [simp]: "2 \<le> b \<Longrightarrow> b \<le> 16 \<Longrightarrow> parse_nat b (nat_text b n) = Some n"
  by (simp add: parse_nat_def parse_digits_nat_text)

lemma nat_text_inject:
  "2 \<le> b \<Longrightarrow> b \<le> 16 \<Longrightarrow> nat_text b m = nat_text b n \<longleftrightarrow> m = n"
  by (metis option.inject parse_nat_text)

lemma hex_digit_visible: "n < 16 \<Longrightarrow> visible (hex_digit n)"
  by (metis hex_val_digit hex_val_visible)

definition digit_char :: "char \<Rightarrow> bool" where
  "digit_char c \<longleftrightarrow> hex_val c \<noteq> None"

lemma nat_text_digits: "b \<le> 16 \<Longrightarrow> 2 \<le> b \<Longrightarrow> list_all digit_char (nat_text b n)"
proof (induction b n rule: nat_text.induct)
  case (1 b n)
  have m: "n mod b < b" using 1 by simp
  with "1.prems" have "n mod b < 16" by linarith
  with m 1 show ?case by (auto simp: nat_text.simps [of b n] digit_char_def)
qed

lemma digit_char_visible: "digit_char c \<Longrightarrow> visible c"
  by (auto simp: digit_char_def dest: hex_val_visible)

lemma nat_text_visible: "b \<le> 16 \<Longrightarrow> 2 \<le> b \<Longrightarrow> list_all visible (nat_text b n)"
  using nat_text_digits by (auto simp: list_all_iff digit_char_visible)

lemma digit_char_not_sign: "digit_char c \<Longrightarrow> c \<noteq> CHR ''-'' \<and> c \<noteq> CHR ''+''"
  by (auto simp: digit_char_def hex_val_def)

lemma SetString_nat_text [simp]:
  "b \<le> 16 \<Longrightarrow> 2 \<le> b \<Longrightarrow> SetString b (nat_text b n) = Some (int n)"
  using nat_text_digits [of b n]
  by (cases "nat_text b n")
     (auto simp: SetString_def digit_char_not_sign parse_nat_text [of b n, symmetric])

lemma SetString_int_text [simp]:
  "b \<le> 16 \<Longrightarrow> 2 \<le> b \<Longrightarrow> SetString b (int_text b i) = Some i"
  by (auto simp: int_text_def) (simp add: SetString_def)

subsection \<open>Raw URL base64\<close>

text \<open>
  \<^verbatim>\<open>base64.RawURLEncoding\<close>: no padding. Decoding skips line breaks and ignores the unused
  low bits of a final partial group, as Go's non-strict decoder does.
\<close>

definition b64_char :: "nat \<Rightarrow> char" where
  "b64_char n =
     (if n < 26 then char_of (65 + n)
      else if n < 52 then char_of (71 + n)
      else if n < 62 then char_of (n - 4)
      else if n = 62 then CHR ''-'' else CHR ''_'')"

definition b64_val :: "char \<Rightarrow> nat option" where
  "b64_val c = (let n = (of_char c :: nat) in
     if 65 \<le> n \<and> n \<le> 90 then Some (n - 65)
     else if 97 \<le> n \<and> n \<le> 122 then Some (n - 71)
     else if 48 \<le> n \<and> n \<le> 57 then Some (n + 4)
     else if c = CHR ''-'' then Some 62
     else if c = CHR ''_'' then Some 63
     else None)"

fun b64_encode :: "string \<Rightarrow> string" where
  "b64_encode [] = []"
| "b64_encode [a] = (let x = (of_char a :: nat) in [b64_char (x div 4), b64_char (x mod 4 * 16)])"
| "b64_encode [a, b] =
     (let x = (of_char a :: nat); y = (of_char b :: nat)
      in [b64_char (x div 4), b64_char (x mod 4 * 16 + y div 16), b64_char (y mod 16 * 4)])"
| "b64_encode (a # b # c # s) =
     (let x = (of_char a :: nat); y = (of_char b :: nat); z = (of_char c :: nat)
      in b64_char (x div 4) # b64_char (x mod 4 * 16 + y div 16) #
         b64_char (y mod 16 * 4 + z div 64) # b64_char (z mod 64) # b64_encode s)"

fun b64_quanta :: "string \<Rightarrow> string option" where
  "b64_quanta [] = Some []"
| "b64_quanta [p] = None"
| "b64_quanta [p, q] =
     (case (b64_val p, b64_val q) of
        (Some i, Some j) \<Rightarrow> Some [char_of (i * 4 + j div 16)]
      | _ \<Rightarrow> None)"
| "b64_quanta [p, q, r] =
     (case (b64_val p, b64_val q, b64_val r) of
        (Some i, Some j, Some k) \<Rightarrow>
          Some [char_of (i * 4 + j div 16), char_of (j mod 16 * 16 + k div 4)]
      | _ \<Rightarrow> None)"
| "b64_quanta (p # q # r # t # s) =
     (case (b64_val p, b64_val q, b64_val r, b64_val t, b64_quanta s) of
        (Some i, Some j, Some k, Some l, Some rest) \<Rightarrow>
          Some (char_of (i * 4 + j div 16) # char_of (j mod 16 * 16 + k div 4) #
                char_of (k mod 4 * 64 + l) # rest)
      | _ \<Rightarrow> None)"

definition b64_decode :: "string \<Rightarrow> string option" where
  "b64_decode s = b64_quanta (filter (\<lambda>c. c \<noteq> char_of (10::nat) \<and> c \<noteq> char_of (13::nat)) s)"

lemma b64_val_char [simp]: "n < 64 \<Longrightarrow> b64_val (b64_char n) = Some n"
  by (auto simp: b64_char_def b64_val_def Let_def)

lemma b64_char_visible: "visible (b64_char n)"
  by (auto simp: b64_char_def visible_def)

lemma b64_encode_visible: "list_all visible (b64_encode s)"
  by (induction s rule: b64_encode.induct) (simp_all add: b64_char_visible Let_def)

lemma visible_not_break: "visible c \<Longrightarrow> c \<noteq> char_of (10::nat) \<and> c \<noteq> char_of (13::nat)"
  by (auto simp: visible_def)

lemma b64_digit_bounds:
  fixes c :: char
  shows "(of_char c :: nat) div 4 < 64" "(of_char c :: nat) mod 4 * 16 < 64"
    "(of_char c :: nat) mod 16 * 4 < 64" "(of_char c :: nat) mod 64 < 64"
    "(of_char c :: nat) mod 4 * 16 + of_char d div 16 < 64"
    "(of_char c :: nat) mod 16 * 4 + of_char d div 64 < 64"
proof -
  have c: "(of_char c :: nat) < 4 * 64" and d: "(of_char d :: nat) < 16 * 16" by simp_all
  show "(of_char c :: nat) div 4 < 64"
    by (rule less_mult_imp_div_less) simp
  have "(of_char d :: nat) div 16 < 16" and "(of_char d :: nat) div 64 < 4"
    by (rule less_mult_imp_div_less, simp)+
  moreover have "(of_char c :: nat) mod 4 < 4" and "(of_char c :: nat) mod 16 < 16" by simp_all
  ultimately show "(of_char c :: nat) mod 4 * 16 < 64" "(of_char c :: nat) mod 16 * 4 < 64"
    "(of_char c :: nat) mod 4 * 16 + of_char d div 16 < 64"
    "(of_char c :: nat) mod 16 * 4 + of_char d div 64 < 64"
    by linarith+
qed simp

lemma regroup_4: "(x::nat) div 4 * 4 + (x mod 4 * 16 + y) div 16 = x" if "y < 16" for x y
proof -
  have "(x mod 4 * 16 + y) div 16 = x mod 4" using that by simp
  then show ?thesis by presburger
qed

lemma regroup_16: "(x * 16 + y div 16) mod 16 * 16 + (y mod 16 * 4 + z) div 4 = (y::nat)"
  if "y < 256" "z < 4" for x y z
proof -
  have "(x * 16 + y div 16) mod 16 = y div 16"
    using that by (simp add: less_mult_imp_div_less)
  moreover have "(y mod 16 * 4 + z) div 4 = y mod 16"
    using that by simp
  ultimately show ?thesis by presburger
qed

lemma regroup_64: "(x * 4 + z div 64) mod 4 * 64 + z mod 64 = (z::nat)" if "z < 256" for x z
proof -
  have "(x * 4 + z div 64) mod 4 = z div 64"
    using that by (simp add: less_mult_imp_div_less)
  then show ?thesis by presburger
qed

lemma b64_quanta_encode: "b64_quanta (b64_encode s) = Some s"
proof (induction s rule: b64_encode.induct)
  case (2 a)
  show ?case
    using regroup_4 [of 0 "of_char a"] by (simp add: b64_digit_bounds Let_def)
next
  case (3 a b)
  show ?case
    using regroup_4 [of "of_char b div 16" "of_char a"]
      regroup_16 [of "of_char b" 0 "of_char a mod 4"]
    by (simp add: b64_digit_bounds byte_div_mod Let_def del: div_mult_self1 mod_mult_self1)
next
  case (4 a b c s)
  have "(of_char c :: nat) div 64 < 4"
    by (rule less_mult_imp_div_less) simp
  with 4 show ?case
    using regroup_4 [of "of_char b div 16" "of_char a"]
      regroup_16 [of "of_char b" "of_char c div 64" "of_char a mod 4"]
      regroup_64 [of "of_char c" "of_char b mod 16"]
    by (simp add: b64_digit_bounds byte_div_mod Let_def)
qed simp

lemma b64_decode_encode [simp]: "b64_decode (b64_encode s) = Some s"
proof -
  have "filter (\<lambda>c. c \<noteq> char_of (10::nat) \<and> c \<noteq> char_of (13::nat)) (b64_encode s) = b64_encode s"
    using b64_encode_visible by (auto simp: filter_id_conv list_all_iff dest: visible_not_break)
  then show ?thesis by (simp add: b64_decode_def b64_quanta_encode)
qed

lemma TrimSpace_b64_encode [simp]: "TrimSpace (b64_encode s) = b64_encode s"
  by (simp add: TrimSpace_all_visible b64_encode_visible)

end
