(* ===== verification/Sha256.thy ===== *)
theory Sha256
  imports Go_Encoding
begin

text \<open>
  \<^verbatim>\<open>crypto/sha256\<close> as FIPS 180-4 defines it, on byte strings, with 32-bit words that wrap
  around. \<open>sha256Hex\<close> is the lower-case hexadecimal digest the code stores everywhere.
  \<open>sha256_collision\<close> names a pair of distinct byte strings with one digest: the binding
  theorems conclude either equality or such a pair, built from the two preimages.
\<close>

unbundle bit_operations_syntax

type_synonym w32 = "32 word"
type_synonym sha_state = "w32 \<times> w32 \<times> w32 \<times> w32 \<times> w32 \<times> w32 \<times> w32 \<times> w32"

definition sha_k :: "w32 list" where
  "sha_k =
    [1116352408, 1899447441, 3049323471, 3921009573, 961987163, 1508970993, 2453635748, 2870763221,
     3624381080, 310598401, 607225278, 1426881987, 1925078388, 2162078206, 2614888103, 3248222580,
     3835390401, 4022224774, 264347078, 604807628, 770255983, 1249150122, 1555081692, 1996064986,
     2554220882, 2821834349, 2952996808, 3210313671, 3336571891, 3584528711, 113926993, 338241895,
     666307205, 773529912, 1294757372, 1396182291, 1695183700, 1986661051, 2177026350, 2456956037,
     2730485921, 2820302411, 3259730800, 3345764771, 3516065817, 3600352804, 4094571909, 275423344,
     430227734, 506948616, 659060556, 883997877, 958139571, 1322822218, 1537002063, 1747873779,
     1955562222, 2024104815, 2227730452, 2361852424, 2428436474, 2756734187, 3204031479, 3329325298]"

definition sha_init :: sha_state where
  "sha_init = (0x6a09e667, 0xbb67ae85, 0x3c6ef372, 0xa54ff53a,
               0x510e527f, 0x9b05688c, 0x1f83d9ab, 0x5be0cd19)"

definition be_bytes :: "nat \<Rightarrow> int \<Rightarrow> string" where
  "be_bytes k n = map (\<lambda>i. char_of (n div 256 ^ i)) (rev [0 ..< k])"

definition be_word :: "string \<Rightarrow> w32" where
  "be_word s = fold (\<lambda>c acc. push_bit 8 acc OR of_char c) s 0"

definition sha_pad :: "string \<Rightarrow> string" where
  "sha_pad s = s @ char_of (128::nat) # replicate ((119 - length s mod 64) mod 64) (char_of (0::nat))
                 @ be_bytes 8 (8 * int (length s) mod 2 ^ 64)"

function chunks :: "nat \<Rightarrow> 'a list \<Rightarrow> 'a list list" where
  "chunks k xs = (if xs = [] \<or> k = 0 then [] else take k xs # chunks k (drop k xs))"
  by pat_completeness auto
termination
  by (relation "measure (\<lambda>(k, xs). length xs)") auto

text \<open>The message schedule, built newest word first.\<close>

fun sha_extend :: "nat \<Rightarrow> w32 list \<Rightarrow> w32 list" where
  "sha_extend 0 ws = ws"
| "sha_extend (Suc n) ws =
     (let a = ws ! 14; b = ws ! 1;
          s0 = word_rotr 7 a XOR word_rotr 18 a XOR drop_bit 3 a;
          s1 = word_rotr 17 b XOR word_rotr 19 b XOR drop_bit 10 b
      in sha_extend n ((ws ! 15 + s0 + ws ! 6 + s1) # ws))"

fun sha_round :: "w32 \<times> w32 \<Rightarrow> sha_state \<Rightarrow> sha_state" where
  "sha_round (k, w) (a, b, c, d, e, f, g, h) =
     (let s1 = word_rotr 6 e XOR word_rotr 11 e XOR word_rotr 25 e;
          ch = (e AND f) XOR (NOT e AND g);
          t1 = h + s1 + ch + k + w;
          s0 = word_rotr 2 a XOR word_rotr 13 a XOR word_rotr 22 a;
          maj = (a AND b) XOR (a AND c) XOR (b AND c)
      in (t1 + (s0 + maj), a, b, c, d + t1, e, f, g))"

fun sha_add :: "sha_state \<Rightarrow> sha_state \<Rightarrow> sha_state" where
  "sha_add (a, b, c, d, e, f, g, h) (a', b', c', d', e', f', g', h') =
     (a + a', b + b', c + c', d + d', e + e', f + f', g + g', h + h')"

definition sha_block :: "string \<Rightarrow> sha_state \<Rightarrow> sha_state" where
  "sha_block blk st =
     (let ws = rev (sha_extend 48 (rev (map be_word (chunks 4 blk))))
      in sha_add st (fold sha_round (zip sha_k ws) st))"

fun sha_output :: "sha_state \<Rightarrow> string" where
  "sha_output (a, b, c, d, e, f, g, h) =
     concat (map (\<lambda>w. be_bytes 4 (uint w)) [a, b, c, d, e, f, g, h])"

definition Sum256 :: "string \<Rightarrow> string" where
  "Sum256 s = sha_output (fold sha_block (chunks 64 (sha_pad s)) sha_init)"

definition sha256Hex :: "string \<Rightarrow> string" where
  "sha256Hex s = hex_encode (Sum256 s)"

definition sha256_collision :: "string \<Rightarrow> string \<Rightarrow> bool" where
  "sha256_collision a b \<longleftrightarrow> a \<noteq> b \<and> Sum256 a = Sum256 b"

lemma length_be_bytes [simp]: "length (be_bytes k n) = k"
  by (simp add: be_bytes_def)

lemma length_Sum256 [simp]: "length (Sum256 s) = 32"
proof -
  have "length (sha_output st) = 32" for st
    by (cases st rule: sha_output.cases) simp
  then show ?thesis by (simp add: Sum256_def)
qed

lemma length_sha256Hex [simp]: "length (sha256Hex s) = 64"
  by (simp add: sha256Hex_def)

lemma hex_decode_sha256Hex [simp]: "hex_decode (sha256Hex s) = Some (Sum256 s)"
  by (simp add: sha256Hex_def)

lemma TrimSpace_sha256Hex [simp]: "TrimSpace (sha256Hex s) = sha256Hex s"
  and ToLower_sha256Hex [simp]: "ToLower (sha256Hex s) = sha256Hex s"
  by (simp_all add: sha256Hex_def)

lemma sha256Hex_nonempty [simp]: "sha256Hex s \<noteq> []"
  by (metis length_sha256Hex list.size(3) zero_neq_numeral)

lemma sha256Hex_eq: "sha256Hex a = sha256Hex b \<Longrightarrow> a = b \<or> sha256_collision a b"
  by (auto simp: sha256Hex_def sha256_collision_def)

lemma sha256Hex_visible [simp]: "list_all visible (sha256Hex s)"
  by (simp add: sha256Hex_def)

subsection \<open>Big-endian words\<close>

text \<open>\<^verbatim>\<open>big.Int.SetBytes\<close>: the number a big-endian byte string denotes.\<close>

definition bytes_be :: "string \<Rightarrow> int" where
  "bytes_be s = fold (\<lambda>c acc. 256 * acc + of_char c) s 0"

lemma bytes_be_snoc [simp]: "bytes_be (s @ [c]) = 256 * bytes_be s + of_char c"
  by (simp add: bytes_be_def)

lemma bytes_be_Nil [simp]: "bytes_be [] = 0"
  by (simp add: bytes_be_def)

lemma be_bytes_0 [simp]: "be_bytes 0 n = []"
  by (simp add: be_bytes_def)

lemma of_char_bounds: "0 \<le> (of_char c :: int)" "(of_char c :: int) < 256"
  by (metis of_nat_0_le_iff of_nat_of_char)
     (metis nat_of_char_less_256 of_nat_less_iff of_nat_numeral of_nat_of_char)

lemma be_bytes_Suc: "be_bytes (Suc k) n = be_bytes k (n div 256) @ [char_of n]"
proof -
  have "[0 ..< Suc k] = 0 # map Suc [0 ..< k]"
    by (metis map_Suc_upt upt_conv_Cons zero_less_Suc)
  then have "rev [0 ..< Suc k] = map Suc (rev [0 ..< k]) @ [0]"
    by (simp add: rev_map del: upt_Suc)
  then show ?thesis
    by (simp add: be_bytes_def comp_def zdiv_zmult2_eq del: upt_Suc)
qed

lemma bytes_be_be_bytes: "bytes_be (be_bytes k n) = n mod 256 ^ k"
proof (induction k arbitrary: n)
  case (Suc k)
  have "n mod (256 * 256 ^ k) = 256 * (n div 256 mod 256 ^ k) + n mod 256"
    by (rule zmod_zmult2_eq) simp
  then show ?case using Suc [of "n div 256"] by (simp add: be_bytes_Suc)
qed simp

lemma be_bytes_bytes_be: "be_bytes (length s) (bytes_be s) = s"
proof (induction s rule: rev_induct)
  case (snoc c s)
  have "(256 * bytes_be s + of_char c) div 256 = bytes_be s"
    using of_char_bounds [of c] by (simp add: div_add1_eq div_pos_pos_trivial)
  moreover have "char_of (256 * bytes_be s + of_char c) = c"
    by (rule char_of_eq_iff [THEN iffD2]) (simp add: take_bit_eq_mod)
  ultimately show ?case using snoc by (simp add: be_bytes_Suc)
qed simp

lemma bytes_be_inject: "length s = length t \<Longrightarrow> bytes_be s = bytes_be t \<longleftrightarrow> s = t"
  by (metis be_bytes_bytes_be)

lemma be_bytes_inject:
  "0 \<le> m \<Longrightarrow> m < 256 ^ k \<Longrightarrow> 0 \<le> n \<Longrightarrow> n < 256 ^ k \<Longrightarrow> be_bytes k m = be_bytes k n \<longleftrightarrow> m = n"
  by (metis bytes_be_be_bytes mod_pos_pos_trivial)

lemma bytes_be_bounds: "0 \<le> bytes_be s \<and> bytes_be s < 256 ^ length s"
proof (induction s rule: rev_induct)
  case (snoc c s)
  with of_char_bounds [of c] show ?case by simp
qed simp

end
