(* ===== verification/Go_Json.thy ===== *)
theory Go_Json
  imports Sha256
begin

text \<open>
  \<^verbatim>\<open>encoding/json\<close>'s \<^verbatim>\<open>Marshal\<close>: values as a tree, printed byte for byte as Go prints them
  (no white space, fields in declaration order, HTML characters escaped, invalid UTF-8
  replaced). Printing is injective on trees whose strings are ASCII, which turns an equality
  of digests into an equality of the digested records.
\<close>

datatype json =
    JNull
  | JBool bool
  | JNum int
  | JStr string
  | JArr "json list"
  | JObj "(string \<times> json) list"

subsection \<open>Strings\<close>

text \<open>The length of the valid UTF-8 sequence at the head of a string; 0 if there is none.\<close>

fun in_range :: "nat \<Rightarrow> nat \<Rightarrow> char \<Rightarrow> bool" where
  "in_range lo hi c \<longleftrightarrow> lo \<le> of_char c \<and> of_char c \<le> hi"

fun utf8_length :: "string \<Rightarrow> nat" where
  "utf8_length [] = 0"
| "utf8_length (c # s) =
     (let n = (of_char c :: nat); cont = in_range 0x80 0xBF in
      if n < 0x80 then 1
      else if 0xC2 \<le> n \<and> n \<le> 0xDF then
        (case s of x # _ \<Rightarrow> if cont x then 2 else 0 | _ \<Rightarrow> 0)
      else if 0xE0 \<le> n \<and> n \<le> 0xEF then
        (case s of x # y # _ \<Rightarrow>
           if in_range (if n = 0xE0 then 0xA0 else 0x80) (if n = 0xED then 0x9F else 0xBF) x \<and> cont y
           then 3 else 0 | _ \<Rightarrow> 0)
      else if 0xF0 \<le> n \<and> n \<le> 0xF4 then
        (case s of x # y # z # _ \<Rightarrow>
           if in_range (if n = 0xF0 then 0x90 else 0x80) (if n = 0xF4 then 0x8F else 0xBF) x
              \<and> cont y \<and> cont z
           then 4 else 0 | _ \<Rightarrow> 0)
      else 0)"

definition u_escape :: "nat \<Rightarrow> string" where
  "u_escape n = CHR 0x5C # ''u00'' @ [hex_digit (n div 16), hex_digit (n mod 16)]"

text \<open>The two-character escapes: the byte and the letter after the backslash.\<close>

definition json_short :: "(char \<times> char) list" where
  "json_short = [(CHR 0x22, CHR 0x22), (CHR 0x5C, CHR 0x5C), (CHR 0x08, CHR ''b''),
     (CHR 0x0C, CHR ''f''), (CHR 0x0A, CHR ''n''), (CHR 0x0D, CHR ''r''), (CHR 0x09, CHR ''t'')]"

definition json_html :: "char list" where
  "json_html = ''<>&''"

definition json_char :: "char \<Rightarrow> string" where
  "json_char c =
     (case map_of json_short c of
        Some e \<Rightarrow> [CHR 0x5C, e]
      | None \<Rightarrow> if (of_char c :: nat) < 32 \<or> c \<in> set json_html then u_escape (of_char c) else [c])"

function json_body :: "string \<Rightarrow> string" where
  "json_body s =
     (case s of
        [] \<Rightarrow> []
      | c # r \<Rightarrow>
          if (of_char c :: nat) < 128 then json_char c @ json_body r
          else if utf8_length s = 0 then (CHR 0x5C # ''ufffd'') @ json_body r
          else if take 3 s = [CHR 0xE2, CHR 0x80, CHR 0xA8] then (CHR 0x5C # ''u2028'') @ json_body (drop 3 s)
          else if take 3 s = [CHR 0xE2, CHR 0x80, CHR 0xA9] then (CHR 0x5C # ''u2029'') @ json_body (drop 3 s)
          else take (utf8_length s) s @ json_body (drop (utf8_length s) s))"
  by pat_completeness auto
termination
  by (relation "measure length") auto

declare json_body.simps [simp del]

definition json_string :: "string \<Rightarrow> string" where
  "json_string s = CHR 0x22 # json_body s @ [CHR 0x22]"

subsection \<open>Values\<close>

fun sep_concat :: "string list \<Rightarrow> string" where
  "sep_concat [] = []"
| "sep_concat [s] = s"
| "sep_concat (s # t # r) = s @ CHR '','' # sep_concat (t # r)"

fun json_print :: "json \<Rightarrow> string" where
  "json_print JNull = ''null''"
| "json_print (JBool b) = (if b then ''true'' else ''false'')"
| "json_print (JNum i) = int_text 10 i"
| "json_print (JStr s) = json_string s"
| "json_print (JArr xs) = CHR ''['' # sep_concat (map json_print xs) @ '']''"
| "json_print (JObj fs) =
     CHR ''{'' # sep_concat (map (\<lambda>(k, v). json_string k @ CHR '':'' # json_print v) fs) @ ''}''"

definition json_slice :: "('a \<Rightarrow> json) \<Rightarrow> 'a slice \<Rightarrow> json" where
  "json_slice f s = (case s of None \<Rightarrow> JNull | Some xs \<Rightarrow> JArr (map f xs))"

definition json_digest :: "json \<Rightarrow> string" where
  "json_digest j = sha256Hex (json_print j)"

text \<open>Trees whose every string is ASCII.\<close>

fun json_ascii :: "json \<Rightarrow> bool" where
  "json_ascii (JStr s) = ascii s"
| "json_ascii (JArr xs) = list_all json_ascii xs"
| "json_ascii (JObj fs) = list_all (\<lambda>(k, v). ascii k \<and> json_ascii v) fs"
| "json_ascii _ = True"

subsection \<open>A printed character determines the character and the rest\<close>

definition json_unchar :: "string \<Rightarrow> (char \<times> string) option" where
  "json_unchar s =
     (case s of
        [] \<Rightarrow> None
      | c # r \<Rightarrow>
          if c \<noteq> CHR 0x5C then Some (c, r)
          else (case r of
              [] \<Rightarrow> None
            | e # t \<Rightarrow>
                if e \<noteq> CHR ''u'' then
                  map_option (\<lambda>d. (d, t)) (map_of (map prod.swap json_short) e)
                else (case t of
                     _ # _ # a # b # v \<Rightarrow>
                       (case (hex_val a, hex_val b) of
                          (Some i, Some j) \<Rightarrow> Some (char_of (16 * i + j), v)
                        | _ \<Rightarrow> None)
                   | _ \<Rightarrow> None)))"

lemma json_short_swap:
  "map_of json_short c = Some e \<Longrightarrow> map_of (map prod.swap json_short) e = Some c \<and> e \<noteq> CHR ''u''"
  by (auto simp: json_short_def split: if_splits)

lemma json_short_None:
  "map_of json_short c = None \<Longrightarrow> c \<noteq> CHR 0x22 \<and> c \<noteq> CHR 0x5C"
  by (auto simp: json_short_def split: if_splits)

lemma json_unchar_u_escape:
  "json_unchar (u_escape (of_char c) @ r) = Some (c, r)"
  by (simp add: json_unchar_def u_escape_def byte_div_mod)

lemma json_unchar_char [simp]: "json_unchar (json_char c @ r) = Some (c, r)"
proof (cases "map_of json_short c")
  case None
  then have "json_unchar (c # r) = Some (c, r)"
    by (simp add: json_unchar_def json_short_None)
  with None show ?thesis
    by (simp add: json_char_def json_unchar_u_escape)
next
  case (Some e)
  then show ?thesis
    using json_short_swap [OF Some] by (simp add: json_char_def json_unchar_def)
qed

lemma json_char_inject: "json_char c @ x = json_char d @ y \<Longrightarrow> c = d \<and> x = y"
  by (metis json_unchar_char option.inject prod.inject)

lemma json_char_not_quote: "json_char c @ x \<noteq> CHR 0x22 # y"
  by (cases "map_of json_short c") (auto simp: json_char_def u_escape_def dest: json_short_None)

lemma json_body_ascii:
  "json_body [] = []" "ascii (c # s) \<Longrightarrow> json_body (c # s) = json_char c @ json_body s"
  by (simp_all add: json_body.simps ascii_def)

lemma ascii_simps [simp]: "ascii []" "ascii (c # s) \<longleftrightarrow> (of_char c :: nat) < 128 \<and> ascii s"
  by (simp_all add: ascii_def)

lemma json_body_inject:
  "ascii s \<Longrightarrow> ascii t \<Longrightarrow> json_body s @ CHR 0x22 # x = json_body t @ CHR 0x22 # y \<Longrightarrow>
   s = t \<and> x = y"
proof (induction s arbitrary: t)
  case Nil
  show ?case
  proof (cases t)
    case Nil
    with Nil.prems show ?thesis by simp
  next
    case (Cons d u)
    with Nil.prems have "json_char d @ (json_body u @ CHR 0x22 # y) = CHR 0x22 # x"
      by (simp add: json_body_ascii)
    then show ?thesis using json_char_not_quote by blast
  qed
next
  case (Cons c s)
  show ?case
  proof (cases t)
    case Nil
    with Cons.prems show ?thesis
      by (simp add: json_body_ascii json_char_not_quote)
  next
    case t: (Cons d u)
    have "json_char c @ (json_body s @ CHR 0x22 # x) = json_char d @ (json_body u @ CHR 0x22 # y)"
      using Cons.prems t by (simp add: json_body_ascii)
    then have "c = d" and "json_body s @ CHR 0x22 # x = json_body u @ CHR 0x22 # y"
      by (blast dest: json_char_inject)+
    moreover have "ascii s" and "ascii u" using Cons.prems t by simp_all
    ultimately show ?thesis using Cons.IH t by blast
  qed
qed

lemma json_string_inject:
  assumes "ascii s" and "ascii t" and "json_string s @ x = json_string t @ y"
  shows "s = t \<and> x = y"
proof -
  have "json_body s @ CHR 0x22 # x = json_body t @ CHR 0x22 # y"
    using assms(3) by (simp add: json_string_def)
  with assms(1,2) show ?thesis by (rule json_body_inject)
qed

subsection \<open>A printed number ends where the digits end\<close>

definition dec_char :: "char \<Rightarrow> bool" where
  "dec_char c \<longleftrightarrow> 48 \<le> (of_char c :: nat) \<and> (of_char c :: nat) \<le> 57"

definition stops :: "string \<Rightarrow> bool" where
  "stops s \<longleftrightarrow> s = [] \<or> \<not> dec_char (hd s)"

lemma nat_text_dec: "list_all dec_char (nat_text 10 n)"
proof (induction "10::nat" n rule: nat_text.induct)
  case (1 n)
  have "dec_char (hex_digit m)" if "m < 10" for m
    using that by (simp add: dec_char_def hex_digit_def)
  with 1 show ?case by (auto simp: nat_text.simps [of 10 n])
qed

lemma nat_text_stops_inject:
  assumes "nat_text 10 m @ x = nat_text 10 n @ y" and "stops x" and "stops y"
  shows "m = n \<and> x = y"
proof -
  have *: "takeWhile dec_char (nat_text 10 k @ z) = nat_text 10 k" if "stops z" for k z
    using that nat_text_dec [of k]
    by (subst takeWhile_append2) (auto simp: list_all_iff stops_def takeWhile_eq_Nil_iff)
  from assms * have "nat_text 10 m = nat_text 10 n" by metis
  with assms show ?thesis by (simp add: nat_text_inject)
qed

lemma nat_text_hd_dec: "dec_char (hd (nat_text 10 n))"
  using nat_text_dec [of n] by (cases "nat_text 10 n") auto

lemma int_text_hd: "hd (int_text 10 i @ x) = CHR ''-'' \<longleftrightarrow> i < 0"
  using nat_text_hd_dec [of "nat i"] by (auto simp: int_text_def dec_char_def)

lemma int_text_stops_inject:
  assumes "int_text 10 i @ x = int_text 10 j @ y" and "stops x" and "stops y"
  shows "i = j \<and> x = y"
proof -
  have "i < 0 \<longleftrightarrow> j < 0"
    using assms(1) int_text_hd by metis
  with assms show ?thesis
    by (auto simp: int_text_def dest: nat_text_stops_inject split: if_splits)
qed

subsection \<open>A printed value determines the value and the rest\<close>

fun json_kind :: "json \<Rightarrow> nat" where
  "json_kind JNull = 0" | "json_kind (JBool _) = 1" | "json_kind (JNum _) = 2"
| "json_kind (JStr _) = 3" | "json_kind (JArr _) = 4" | "json_kind (JObj _) = 5"

definition char_kind :: "char \<Rightarrow> nat" where
  "char_kind c =
     (if c = CHR ''n'' then 0 else if c = CHR ''t'' \<or> c = CHR ''f'' then 1
      else if c = CHR ''-'' \<or> dec_char c then 2 else if c = CHR 0x22 then 3
      else if c = CHR ''['' then 4 else if c = CHR ''{'' then 5 else 6)"

lemma json_print_head:
  "json_print j \<noteq> [] \<and> char_kind (hd (json_print j)) = json_kind j"
proof (cases j)
  case (JNum i)
  have "int_text 10 i \<noteq> []" and "hd (int_text 10 i) = CHR ''-'' \<or> dec_char (hd (int_text 10 i))"
    using nat_text_hd_dec by (auto simp: int_text_def)
  with JNum show ?thesis by (auto simp: char_kind_def dec_char_def)
qed (auto simp: char_kind_def dec_char_def json_string_def)

lemma json_print_same_kind:
  "json_print a @ x = json_print b @ y \<Longrightarrow> json_kind a = json_kind b"
  by (metis json_print_head hd_append2)

definition decodes :: "('a \<Rightarrow> string) \<Rightarrow> ('a \<Rightarrow> bool) \<Rightarrow> 'a \<Rightarrow> bool" where
  "decodes f ok a \<longleftrightarrow>
     (\<forall>b x y. ok b \<longrightarrow> stops x \<longrightarrow> stops y \<longrightarrow> f a @ x = f b @ y \<longrightarrow> a = b \<and> x = y)"

lemma sep_concat_Cons:
  "sep_concat (s # r) = s @ (if r = [] then [] else CHR '','' # sep_concat r)"
  by (cases r) simp_all

lemma sep_concat_inject:
  assumes "\<forall>a \<in> set xs. decodes f ok a" and "\<forall>b \<in> set ys. ok b"
    and head: "\<And>a. f a \<noteq> [] \<and> hd (f a) \<noteq> e" and e: "\<not> dec_char e" "e \<noteq> CHR '',''"
    and "sep_concat (map f xs) @ e # x = sep_concat (map f ys) @ e # y"
  shows "xs = ys \<and> x = y"
  using assms(1,2,6)
proof (induction xs arbitrary: ys)
  case Nil
  show ?case
  proof (cases ys)
    case (Cons b r)
    with Nil head [of b] show ?thesis by (cases "f b") (auto simp: sep_concat_Cons)
  qed (use Nil in simp)
next
  case (Cons a xs)
  show ?case
  proof (cases ys)
    case Nil
    with Cons.prems head [of a] show ?thesis by (cases "f a") (auto simp: sep_concat_Cons)
  next
    case ys: (Cons b r)
    define t where "t = (\<lambda>zs. if zs = [] then [] else CHR '','' # sep_concat (map f zs))"
    have comma: "\<not> dec_char CHR '',''" by (simp add: dec_char_def)
    have "stops (t xs @ e # x)" and "stops (t r @ e # y)"
      using e comma by (auto simp: t_def stops_def)
    moreover have "f a @ (t xs @ e # x) = f b @ (t r @ e # y)"
      using Cons.prems(3) ys by (auto simp: sep_concat_Cons t_def split: if_splits)
    ultimately have "a = b" and rest: "t xs @ e # x = t r @ e # y"
      using Cons.prems(1,2) ys by (auto simp: decodes_def)
    from rest e have "xs = [] \<longleftrightarrow> r = []"
      by (auto simp: t_def split: if_splits)
    with rest have "sep_concat (map f xs) @ e # x = sep_concat (map f r) @ e # y"
      by (auto simp: t_def split: if_splits)
    then have "xs = r \<and> x = y"
      using Cons.IH [of r] Cons.prems(1,2) ys by simp
    with \<open>a = b\<close> ys show ?thesis by simp
  qed
qed

definition json_field :: "string \<times> json \<Rightarrow> string" where
  "json_field = (\<lambda>(k, v). json_string k @ CHR '':'' # json_print v)"

lemma json_print_decodes: "json_ascii a \<Longrightarrow> decodes json_print json_ascii a"
proof (induction a)
  case JNull
  show ?case unfolding decodes_def
  proof (intro allI impI)
    fix b x y
    assume eq: "json_print JNull @ x = json_print b @ y"
    then show "JNull = b \<and> x = y"
      using json_print_same_kind [OF eq] by (cases b) auto
  qed
next
  case (JBool t)
  show ?case unfolding decodes_def
  proof (intro allI impI)
    fix b x y
    assume eq: "json_print (JBool t) @ x = json_print b @ y"
    then show "JBool t = b \<and> x = y"
      using json_print_same_kind [OF eq] by (cases b) (auto split: if_splits)
  qed
next
  case (JNum i)
  show ?case unfolding decodes_def
  proof (intro allI impI)
    fix b x y
    assume "stops x" "stops y" and eq: "json_print (JNum i) @ x = json_print b @ y"
    then show "JNum i = b \<and> x = y"
      using json_print_same_kind [OF eq] by (cases b) (auto dest: int_text_stops_inject)
  qed
next
  case (JStr s)
  show ?case unfolding decodes_def
  proof (intro allI impI)
    fix b x y
    assume "json_ascii b" and eq: "json_print (JStr s) @ x = json_print b @ y"
    then show "JStr s = b \<and> x = y"
      using JStr json_print_same_kind [OF eq] by (cases b) (auto dest: json_string_inject)
  qed
next
  case (JArr xs)
  have IH: "\<forall>a \<in> set xs. decodes json_print json_ascii a"
    using JArr by (auto simp: list_all_iff)
  have head: "json_print a \<noteq> [] \<and> hd (json_print a) \<noteq> CHR '']''" for a
    using json_print_head [of a] by (cases a) (auto simp: char_kind_def dec_char_def)
  show ?case unfolding decodes_def
  proof (intro allI impI)
    fix b x y
    assume "json_ascii b" and eq: "json_print (JArr xs) @ x = json_print b @ y"
    moreover from json_print_same_kind [OF eq] obtain ys where "b = JArr ys"
      by (cases b) auto
    ultimately show "JArr xs = b \<and> x = y"
      using sep_concat_inject [OF IH _ head, of ys x y]
      by (auto simp: dec_char_def list_all_iff)
  qed
next
  case (JObj fs)
  define ok where "ok = (\<lambda>(k, v). ascii k \<and> json_ascii v)"
  have IH: "\<forall>p \<in> set fs. decodes json_field ok p"
  proof
    fix p assume "p \<in> set fs"
    moreover obtain k v where p: "p = (k, v)" by (cases p)
    ultimately have "ascii k" and v: "decodes json_print json_ascii v"
      using JObj by (force simp: list_all_iff)+
    show "decodes json_field ok p" unfolding decodes_def
    proof (intro allI impI)
      fix q x y
      assume q: "ok q" and s: "stops x" "stops y" and eq: "json_field p @ x = json_field q @ y"
      obtain l w where "q = (l, w)" by (cases q)
      with p q eq have "ascii l" "json_ascii w"
        and "json_string k @ (CHR '':'' # json_print v @ x) = json_string l @ (CHR '':'' # json_print w @ y)"
        by (simp_all add: json_field_def ok_def)
      with \<open>ascii k\<close> json_string_inject
      have "k = l" and "json_print v @ x = json_print w @ y" by blast+
      with v s p \<open>q = (l, w)\<close> \<open>json_ascii w\<close> show "p = q \<and> x = y"
        by (auto simp: decodes_def)
    qed
  qed
  have head: "json_field q \<noteq> [] \<and> hd (json_field q) \<noteq> CHR ''}''" for q
    by (cases q) (simp add: json_field_def json_string_def)
  show ?case unfolding decodes_def
  proof (intro allI impI)
    fix b x y
    assume "json_ascii b" and eq: "json_print (JObj fs) @ x = json_print b @ y"
    moreover from json_print_same_kind [OF eq] obtain gs where "b = JObj gs"
      by (cases b) auto
    ultimately show "JObj fs = b \<and> x = y"
      using sep_concat_inject [OF IH _ head, of gs x y]
      by (auto simp: dec_char_def list_all_iff ok_def json_field_def [symmetric])
  qed
qed

lemma json_print_inject:
  assumes "json_ascii a" and "json_ascii b" and "json_print a = json_print b"
  shows "a = b"
proof -
  have "stops []" by (simp add: stops_def)
  with assms json_print_decodes [of a] show ?thesis
    unfolding decodes_def by (metis append_Nil2)
qed

text \<open>Equal digests: equal trees, or a collision between the two printed texts.\<close>

lemma json_digest_binds:
  assumes "json_ascii a" and "json_ascii b" and "json_digest a = json_digest b"
  shows "a = b \<or> sha256_collision (json_print a) (json_print b)"
  using assms sha256Hex_eq [of "json_print a" "json_print b"]
  by (auto simp: json_digest_def dest: json_print_inject)

lemma json_slice_inject:
  assumes "\<And>a b. f a = f b \<Longrightarrow> a = b" and "json_slice f x = json_slice f y"
  shows "x = y"
  using assms(2) map_injective [OF _ injI [OF assms(1)]]
  by (auto simp: json_slice_def split: option.splits)

end
