(* ===== verification/Digests.thy ===== *)
theory Digests
  imports Go_Json
begin

text \<open>
  The identity helpers every gate of \<^verbatim>\<open>internal/executionproof\<close> shares: which strings are
  SHA-256 digests, 32-byte hex words or 20-byte addresses, when two of them are the same
  identity, and the canonical forms (\<^verbatim>\<open>proof.go\<close>, \<^verbatim>\<open>safe_gate.go\<close>, \<^verbatim>\<open>safe_adapter.go\<close>,
  \<^verbatim>\<open>safe_action.go\<close>, \<^verbatim>\<open>safe_isolated_runner.go\<close>, \<^verbatim>\<open>invariant_runner.go\<close>,
  \<^verbatim>\<open>evm_payload_v03.go\<close>, \<^verbatim>\<open>safe_forward_v03.go\<close>, \<^verbatim>\<open>safe_hash.go\<close>).
  A \<^verbatim>\<open>*big.Int\<close> is an \<^typ>\<open>int option\<close>, \<open>None\<close> for nil.
\<close>

unbundle bit_operations_syntax

subsection \<open>Digests and 32-byte words\<close>

definition validSHA256 :: "string \<Rightarrow> bool" where
  "validSHA256 v \<longleftrightarrow> (if length v \<noteq> 64 then False else hex_decode v \<noteq> None)"

definition validGitObjectID :: "string \<Rightarrow> bool" where
  "validGitObjectID v \<longleftrightarrow>
     (if length v \<noteq> 40 \<and> length v \<noteq> 64 then False else hex_decode v \<noteq> None)"

definition validHex32 :: "string \<Rightarrow> bool" where
  "validHex32 v \<longleftrightarrow> validSHA256 (TrimPrefix (TrimSpace v) ''0x'')"

definition equalDigest :: "string \<Rightarrow> string \<Rightarrow> bool" where
  "equalDigest a b \<longleftrightarrow> EqualFold a b"

definition equalHex32 :: "string \<Rightarrow> string \<Rightarrow> bool" where
  "equalHex32 a b \<longleftrightarrow>
     (let a = TrimPrefix (TrimSpace a) ''0x''; b = TrimPrefix (TrimSpace b) ''0x'' in EqualFold a b)"

definition normalizeHex32 :: "string \<Rightarrow> string" where
  "normalizeHex32 value =
     (let value = TrimPrefix (TrimSpace value) ''0x'' in
      if length value \<noteq> 64 then ToLower (TrimSpace value) else ''0x'' @ ToLower value)"

definition validSHA256Text :: "string \<Rightarrow> bool" where
  "validSHA256Text value \<longleftrightarrow>
     (let value = TrimPrefix (TrimSpace value) ''0x'' in
      if length value \<noteq> 64 then False else hex_decode value \<noteq> None)"

subsection \<open>Addresses\<close>

definition validAddress :: "string \<Rightarrow> bool" where
  "validAddress v \<longleftrightarrow>
     (let v = TrimPrefix (TrimSpace v) ''0x'' in
      if length v \<noteq> 40 then False else hex_decode v \<noteq> None)"

definition normalizeAddress :: "string \<Rightarrow> string" where
  "normalizeAddress value = ''0x'' @ ToLower (TrimPrefix (TrimSpace value) ''0x'')"

definition normalizeOptionalAddress :: "string \<Rightarrow> string" where
  "normalizeOptionalAddress value = (if TrimSpace value = [] then [] else normalizeAddress value)"

definition normalizeHexOrAddress :: "string \<Rightarrow> string" where
  "normalizeHexOrAddress value = ToLower (TrimSpace value)"

definition equalAddress :: "string \<Rightarrow> string \<Rightarrow> bool" where
  "equalAddress a b \<longleftrightarrow>
     EqualFold (TrimPrefix (TrimSpace a) ''0x'') (TrimPrefix (TrimSpace b) ''0x'')"

definition canonicalEVMAddress :: "string \<Rightarrow> string option" where
  "canonicalEVMAddress value =
     (let value = TrimPrefix (TrimSpace value) ''0x'' in
      if length value \<noteq> 40 then None
      else if hex_decode value = None then None
      else Some (''0x'' @ ToLower value))"

subsection \<open>Quantities and byte strings\<close>

definition fits_uint256 :: "int \<Rightarrow> bool" where
  "fits_uint256 n \<longleftrightarrow> \<bar>n\<bar> < 2 ^ 256"

definition validUint256 :: "int option \<Rightarrow> bool" where
  "validUint256 v = (case v of None \<Rightarrow> False | Some n \<Rightarrow> 0 \<le> n \<and> fits_uint256 n)"

definition canonicalHexQuantity :: "string \<Rightarrow> string option" where
  "canonicalHexQuantity value =
     (let value = TrimPrefix (ToLower (TrimSpace value)) ''0x'' in
      if value = [] then None
      else case SetString 16 value of
          None \<Rightarrow> None
        | Some n \<Rightarrow> if n < 0 \<or> \<not> fits_uint256 n then None else Some (''0x'' @ int_text 16 n))"

definition canonicalHexBytes :: "string \<Rightarrow> string option" where
  "canonicalHexBytes value =
     (let value = TrimPrefix (ToLower (TrimSpace value)) ''0x'' in
      if length value mod 2 \<noteq> 0 then None
      else if value \<noteq> [] \<and> hex_decode value = None then None
      else Some (''0x'' @ value))"

definition parseHexUint256 :: "string \<Rightarrow> int option" where
  "parseHexUint256 value =
     (let value = TrimPrefix (TrimSpace value) ''0x'';
          value = (if value = [] then ''0'' else value)
      in case SetString 16 value of
           None \<Rightarrow> None
         | Some v \<Rightarrow> if v < 0 \<or> \<not> fits_uint256 v then None else Some v)"

definition decodeCanonicalHexBytes :: "string \<Rightarrow> string option" where
  "decodeCanonicalHexBytes value =
     (let value = TrimPrefix (TrimSpace value) ''0x'';
          value = (if length value mod 2 \<noteq> 0 then CHR ''0'' # value else value)
      in hex_decode value)"

text \<open>The constant-time comparison of \<^verbatim>\<open>equalBytes\<close>: all differences are collected first.\<close>

fun diff_bytes :: "string \<Rightarrow> string \<Rightarrow> 8 word \<Rightarrow> 8 word" where
  "diff_bytes (x # a) (y # b) diff = diff_bytes a b (diff OR (of_char x XOR of_char y))"
| "diff_bytes _ _ diff = diff"

definition equalBytes :: "string \<Rightarrow> string \<Rightarrow> bool" where
  "equalBytes a b \<longleftrightarrow> (if length a \<noteq> length b then False else diff_bytes a b 0 = 0)"

subsection \<open>Keccak words\<close>

text \<open>
  \<^verbatim>\<open>golang.org/x/crypto/sha3\<close> is not part of the repository: \<open>K\<close> is its legacy Keccak-256
  hash. Copying into a 32-byte array fixes the length whatever \<open>K\<close> returns.
\<close>

type_synonym keccak = "string \<Rightarrow> string"

definition zero_bytes :: "nat \<Rightarrow> string" where
  "zero_bytes n = replicate n (char_of (0::nat))"

definition keccak256 :: "keccak \<Rightarrow> string \<Rightarrow> string" where
  "keccak256 K data = take 32 (K data @ zero_bytes 32)"

definition addressWord :: "string \<Rightarrow> go_error + string" where
  "addressWord v =
     (let raw = TrimPrefix (TrimSpace v) ''0x'' in
      if length raw \<noteq> 40 then Inl (ErrMsg ''invalid address length'')
      else case hex_decode raw of
          None \<Rightarrow> Inl (ErrWrap ''decode address'' hexError)
        | Some decoded \<Rightarrow> Inr (zero_bytes 12 @ decoded))"

definition uintWord :: "int option \<Rightarrow> go_error + string" where
  "uintWord v =
     (case v of
        None \<Rightarrow> Inl (ErrMsg ''value outside uint256'')
      | Some n \<Rightarrow>
          if n < 0 \<or> \<not> fits_uint256 n then Inl (ErrMsg ''value outside uint256'')
          else Inr (be_bytes 32 n))"

definition mustHex32 :: "string \<Rightarrow> string option" where
  "mustHex32 v = (case hex_decode v of
     None \<Rightarrow> None | Some b \<Rightarrow> if length b \<noteq> 32 then None else Some b)"

subsection \<open>Laws of the identities\<close>

text \<open>
  Every digest in the code is the hash of a JSON text. \<open>digest_binding\<close> is the contract of
  such a scheme: the JSON form of an admissible record is ASCII and determines the record.
  Its lemmas say that equal digests then mean equal records, or an explicit collision.
\<close>

locale digest_binding =
  fixes pre :: "'a \<Rightarrow> json" and ok :: "'a \<Rightarrow> bool"
  assumes pre_ascii: "ok a \<Longrightarrow> json_ascii (pre a)"
    and pre_inject: "ok a \<Longrightarrow> ok b \<Longrightarrow> pre a = pre b \<Longrightarrow> a = b"
begin

lemma binds:
  assumes "ok a" and "ok b" and "json_digest (pre a) = json_digest (pre b)"
  shows "a = b \<or> sha256_collision (json_print (pre a)) (json_print (pre b))"
  using json_digest_binds [OF pre_ascii pre_ascii] assms pre_inject by blast

lemma binds_fold:
  assumes "ok a" and "ok b" and "equalDigest (json_digest (pre a)) (json_digest (pre b))"
  shows "a = b \<or> sha256_collision (json_print (pre a)) (json_print (pre b))"
  using assms by (intro binds) (simp_all add: equalDigest_def EqualFold_def json_digest_def)

end

lemma validSHA256_iff: "validSHA256 v \<longleftrightarrow> length v = 64 \<and> hex_decode v \<noteq> None"
  by (simp add: validSHA256_def)

lemma validSHA256_sha256Hex [simp]: "validSHA256 (sha256Hex s)"
  by (simp add: validSHA256_def)

lemma validSHA256_json_digest [simp]: "validSHA256 (json_digest j)"
  by (simp add: json_digest_def)

lemma ToLower_json_digest [simp]: "ToLower (json_digest j) = json_digest j"
  and TrimSpace_json_digest [simp]: "TrimSpace (json_digest j) = json_digest j"
  and json_digest_nonempty [simp]: "json_digest j \<noteq> []"
  by (simp_all add: json_digest_def)

lemma hex_decode_TrimSpace: "hex_decode v \<noteq> None \<Longrightarrow> TrimSpace v = v"
  by (auto intro!: TrimSpace_all_visible dest: hex_decode_visible)

lemma validSHA256_TrimSpace: "validSHA256 v \<Longrightarrow> TrimSpace v = v"
  by (auto simp: validSHA256_iff intro!: hex_decode_TrimSpace)

lemma equalDigest_refl [simp]: "equalDigest a a"
  by (simp add: equalDigest_def)

lemma equalDigest_sym: "equalDigest a b \<Longrightarrow> equalDigest b a"
  by (simp add: equalDigest_def EqualFold_sym)

lemma equalDigest_trans: "equalDigest a b \<Longrightarrow> equalDigest b c \<Longrightarrow> equalDigest a c"
  by (metis equalDigest_def EqualFold_trans)

lemma equalHex32_refl [simp]: "equalHex32 a a"
  by (simp add: equalHex32_def Let_def)

lemma equalHex32_sym: "equalHex32 a b \<Longrightarrow> equalHex32 b a"
  by (simp add: equalHex32_def Let_def EqualFold_sym)

lemma equalHex32_trans: "equalHex32 a b \<Longrightarrow> equalHex32 b c \<Longrightarrow> equalHex32 a c"
  unfolding equalHex32_def Let_def by (blast intro: EqualFold_trans)

text \<open>A string of hex digits after \<^verbatim>\<open>0x\<close> is returned whole by trimming and prefix removal.\<close>

lemma visible_0: "visible CHR ''0''" "visible CHR ''x''"
  by (simp_all add: visible_def)

lemma TrimSpace_0x: "list_all visible v \<Longrightarrow> TrimSpace (''0x'' @ v) = ''0x'' @ v"
  by (rule TrimSpace_all_visible) (simp add: visible_0)

lemma strip_0x [simp]: "TrimPrefix (CHR ''0'' # CHR ''x'' # v) ''0x'' = v"
  by (simp add: TrimPrefix_def)

lemma TrimSpace_0x_Cons [simp]:
  "list_all visible v \<Longrightarrow> TrimSpace (CHR ''0'' # CHR ''x'' # v) = CHR ''0'' # CHR ''x'' # v"
  using TrimSpace_0x by simp

lemma lower_0x [simp]: "ToLower (CHR ''0'' # CHR ''x'' # v) = CHR ''0'' # CHR ''x'' # ToLower v"
  by (simp add: ToLower_def lower_char_def Let_def)

lemma TrimPrefix_0x_hex [simp]: "hex_decode v \<noteq> None \<Longrightarrow> TrimPrefix v ''0x'' = v"
proof (cases "strip_prefix ''0x'' v")
  case (Some r)
  assume "hex_decode v \<noteq> None"
  moreover have "v = CHR ''0'' # CHR ''x'' # r"
    using Some by (simp add: strip_prefix_Some)
  ultimately show ?thesis by (simp add: hex_val_def)
qed (simp add: TrimPrefix_def)

lemma hex_decode_ToLower_visible: "hex_decode v \<noteq> None \<Longrightarrow> list_all visible (ToLower v)"
  by (metis hex_decode_ToLower hex_decode_visible option.exhaust)

lemma validHex32_0x: "validSHA256 v \<Longrightarrow> validHex32 (''0x'' @ v)"
  by (auto simp: validHex32_def validSHA256_iff hex_decode_visible)

lemma validHex32_of_sha256: "validSHA256 v \<Longrightarrow> validHex32 v"
  by (auto simp: validHex32_def validSHA256_TrimSpace)
     (auto simp: validSHA256_iff)

lemma equalHex32_of_digest:
  "validSHA256 a \<Longrightarrow> validSHA256 b \<Longrightarrow> equalHex32 a b \<longleftrightarrow> equalDigest a b"
  by (simp add: equalHex32_def equalDigest_def validSHA256_TrimSpace validSHA256_iff)

text \<open>The canonical forms are idempotent: canonicalising twice changes nothing.\<close>

lemma canonicalEVMAddress_form:
  assumes "canonicalEVMAddress v = Some c"
  obtains h where "c = ''0x'' @ h" "length h = 40" "hex_decode h \<noteq> None" "ToLower h = h"
  using assms by (auto simp: canonicalEVMAddress_def Let_def split: if_splits)

lemma canonicalEVMAddress_idem:
  assumes "canonicalEVMAddress v = Some c"
  shows "canonicalEVMAddress c = Some c"
proof -
  from assms obtain h where h: "c = ''0x'' @ h" "length h = 40" "hex_decode h \<noteq> None" "ToLower h = h"
    by (rule canonicalEVMAddress_form)
  then have "TrimSpace c = c" using TrimSpace_0x hex_decode_visible by blast
  with h show ?thesis by (simp add: canonicalEVMAddress_def Let_def)
qed

lemma normalizeHex32_form:
  assumes "validHex32 v"
  obtains h where "normalizeHex32 v = ''0x'' @ h" "validSHA256 h" "ToLower h = h"
proof
  let ?h = "ToLower (TrimPrefix (TrimSpace v) ''0x'')"
  show "normalizeHex32 v = ''0x'' @ ?h"
    using assms by (simp add: normalizeHex32_def validHex32_def validSHA256_iff Let_def)
  show "validSHA256 ?h"
    using assms by (simp add: validHex32_def validSHA256_iff)
qed simp

lemma normalizeHex32_idem:
  assumes "validHex32 v"
  shows "normalizeHex32 (normalizeHex32 v) = normalizeHex32 v"
proof -
  from assms obtain h where h: "normalizeHex32 v = ''0x'' @ h" "validSHA256 h" "ToLower h = h"
    by (rule normalizeHex32_form)
  then have "TrimSpace (''0x'' @ h) = ''0x'' @ h"
    by (auto simp: validSHA256_iff dest: hex_decode_visible)
  with h show ?thesis
    by (simp add: normalizeHex32_def validSHA256_iff Let_def)
qed

lemma normalizeHex32_equal: "validHex32 v \<Longrightarrow> equalHex32 (normalizeHex32 v) v"
proof -
  assume v: "validHex32 v"
  then have h: "normalizeHex32 v = ''0x'' @ ToLower (TrimPrefix (TrimSpace v) ''0x'')"
    and d: "hex_decode (TrimPrefix (TrimSpace v) ''0x'') \<noteq> None"
    by (simp_all add: normalizeHex32_def validHex32_def validSHA256_iff Let_def)
  from d have "TrimSpace (normalizeHex32 v) = normalizeHex32 v"
    unfolding h by (intro TrimSpace_0x hex_decode_ToLower_visible)
  with h show ?thesis
    by (simp add: equalHex32_def Let_def)
qed

lemma lower_hex_digit [simp]: "n < 16 \<Longrightarrow> lower_char (hex_digit n) = hex_digit n"
  by (metis hex_digit_val hex_val_digit)

lemma ToLower_nat_text [simp]: "2 \<le> b \<Longrightarrow> b \<le> 16 \<Longrightarrow> ToLower (nat_text b n) = nat_text b n"
proof (induction b n rule: nat_text.induct)
  case (1 b n)
  have "n mod b < b" using 1 by simp
  with "1.prems" have "n mod b < 16" by linarith
  with 1 show ?case by (auto simp: nat_text.simps [of b n]) (simp_all add: ToLower_def)
qed

lemma canonicalHexQuantity_form:
  assumes "canonicalHexQuantity v = Some q"
  obtains n where "q = ''0x'' @ nat_text 16 n" "n < 2 ^ 256"
proof -
  from assms obtain i where i: "0 \<le> i" "fits_uint256 i" "q = ''0x'' @ int_text 16 i"
    unfolding canonicalHexQuantity_def Let_def
    by (auto split: if_splits option.splits simp: not_less)
  show thesis
  proof
    show "q = ''0x'' @ nat_text 16 (nat i)" using i by (simp add: int_text_def)
    show "nat i < 2 ^ 256" using i by (simp add: fits_uint256_def nat_less_iff)
  qed
qed

lemma nat_text_16_visible [simp]: "list_all visible (nat_text 16 n)"
  by (simp add: nat_text_visible)

lemma fits_uint256_nat: "n < 2 ^ 256 \<Longrightarrow> fits_uint256 (int n)"
  by (simp add: fits_uint256_def)

lemma canonicalHexQuantity_text:
  "n < 2 ^ 256 \<Longrightarrow> canonicalHexQuantity (''0x'' @ nat_text 16 n) = Some (''0x'' @ nat_text 16 n)"
  by (simp add: canonicalHexQuantity_def Let_def int_text_def fits_uint256_nat)

lemma canonicalHexQuantity_idem:
  "canonicalHexQuantity v = Some q \<Longrightarrow> canonicalHexQuantity q = Some q"
  by (metis canonicalHexQuantity_form canonicalHexQuantity_text)

lemma parseHexUint256_text: "n < 2 ^ 256 \<Longrightarrow> parseHexUint256 (''0x'' @ nat_text 16 n) = Some (int n)"
  by (simp add: parseHexUint256_def Let_def fits_uint256_nat)

lemma canonicalHexBytes_form:
  assumes "canonicalHexBytes v = Some d"
  obtains h where "d = ''0x'' @ h" "hex_decode h \<noteq> None" "ToLower h = h"
proof -
  let ?h = "TrimPrefix (ToLower (TrimSpace v)) ''0x''"
  from assms have d: "d = ''0x'' @ ?h" and "hex_decode ?h \<noteq> None"
    by (auto simp: canonicalHexBytes_def Let_def split: if_splits)
  moreover have "ToLower ?h = ?h"
    by (auto simp: TrimPrefix_def strip_prefix_Some ToLower_def map_eq_append_conv map_eq_Cons_conv
        split: option.splits) (metis ToLower_def ToLower_idem append_Cons append_Nil
        map_append list.simps(9))?
  ultimately show thesis using that by blast
qed

lemma canonicalHexBytes_idem:
  assumes "canonicalHexBytes v = Some d"
  shows "canonicalHexBytes d = Some d"
proof -
  from assms obtain h where h: "d = ''0x'' @ h" "hex_decode h \<noteq> None" "ToLower h = h"
    by (rule canonicalHexBytes_form)
  then have t: "TrimSpace d = d" using TrimSpace_0x hex_decode_visible by blast
  have "even (length h)" using h(2) by (auto dest: hex_decode_length)
  then show ?thesis
    unfolding canonicalHexBytes_def t using h
    by (simp add: Let_def even_iff_mod_2_eq_zero)
qed

text \<open>The constant-time loop decides equality of byte strings.\<close>

lemma diff_bytes_or: "diff_bytes a b d = d OR diff_bytes a b 0"
proof (induction a b arbitrary: d rule: list_induct2')
  case (4 x a y b)
  let ?z = "of_char x XOR of_char y :: 8 word"
  have "diff_bytes a b (d OR ?z) = (d OR ?z) OR diff_bytes a b 0"
    and "diff_bytes a b (0 OR ?z) = (0 OR ?z) OR diff_bytes a b 0"
    using 4 by blast+
  then show ?case by (simp add: or.assoc)
qed simp_all

lemma unat_byte: "unat (of_char c :: 8 word) = of_char c"
proof -
  have "(of_char c :: 8 word) = of_nat (of_char c :: nat)"
    by (rule of_nat_of_char [symmetric])
  then show ?thesis
    by (simp only: unat_of_nat) simp
qed

lemma byte_word_inject: "of_char x = (of_char y :: 8 word) \<longleftrightarrow> x = y"
proof
  assume "of_char x = (of_char y :: 8 word)"
  then have "unat (of_char x :: 8 word) = unat (of_char y :: 8 word)" by simp
  then show "x = y" by (simp only: unat_byte of_char_eq_iff)
qed simp

lemma word_xor_eq_0: "(a :: 8 word) XOR b = 0 \<longleftrightarrow> a = b"
proof
  assume "a XOR b = 0"
  then have "(a XOR b) XOR b = 0 XOR b" by (rule arg_cong)
  then show "a = b" by (simp only: xor.assoc xor_self_eq xor.left_neutral xor.right_neutral)
qed simp

lemma diff_bytes_zero:
  "length a = length b \<Longrightarrow> diff_bytes a b 0 = 0 \<longleftrightarrow> a = b"
proof (induction a b rule: list_induct2)
  case (Cons x a y b)
  have "diff_bytes (x # a) (y # b) 0 = (of_char x XOR of_char y) OR diff_bytes a b 0"
    by (subst diff_bytes.simps(1), subst diff_bytes_or) simp
  with Cons show ?case
    by (simp only: or_eq_0_iff word_xor_eq_0 byte_word_inject list.inject)
qed simp

lemma equalBytes_iff [simp]: "equalBytes a b \<longleftrightarrow> a = b"
  by (auto simp: equalBytes_def diff_bytes_zero)

lemma length_keccak256 [simp]: "length (keccak256 K d) = 32"
  by (simp add: keccak256_def zero_bytes_def)

end
