(* ===== verification/Containment.thy ===== *)
theory Containment
  imports Digests
begin

text \<open>
  \<^verbatim>\<open>internal/executioncontainment\<close>: the containment cell. \<open>EvaluateContainment\<close> turns the
  input of a cell and what the isolated runner observed into a decision with reason codes and
  a receipt bound by two digests; \<open>VerifyReceipt\<close> recomputes a presented receipt;
  \<open>EvaluateWithRunner\<close> is the only path from a runner to a receipt. Every comparison, its
  order and the three-valued decision are the code's. \<^verbatim>\<open>json.Marshal\<close> cannot fail on these
  types, so the marshal errors of the Go signatures have no branch here.
\<close>

type_synonym u64 = "64 word"

definition json_u64 :: "u64 \<Rightarrow> json" where
  "json_u64 w = JNum (uint w)"

lemma json_u64_inject [simp]: "json_u64 a = json_u64 b \<longleftrightarrow> a = b"
  by (simp add: json_u64_def uint_word_of_int_eq word_uint_eq_iff)

lemma json_u64_ascii [simp]: "json_ascii (json_u64 a)"
  by (simp add: json_u64_def)

definition ContainmentVersion :: string where
  "ContainmentVersion = ''koschei-execution-containment/v0.1''"

subsection \<open>Decisions and reasons\<close>

type_synonym Decision = string
type_synonym ReasonCode = string

definition DecisionRelease :: Decision where "DecisionRelease = ''RELEASE''"
definition DecisionContain :: Decision where "DecisionContain = ''CONTAIN''"
definition DecisionUnavailable :: Decision where "DecisionUnavailable = ''UNAVAILABLE''"

definition ECInvalidEvidence :: ReasonCode where "ECInvalidEvidence = ''EC-001-INVALID-EVIDENCE''"
definition ECBackendUnavailable :: ReasonCode where "ECBackendUnavailable = ''EC-002-BACKEND-UNAVAILABLE''"
definition ECPinnedStateMismatch :: ReasonCode where "ECPinnedStateMismatch = ''EC-003-PINNED-STATE-MISMATCH''"
definition ECIntentMismatch :: ReasonCode where "ECIntentMismatch = ''EC-004-INTENT-MISMATCH''"
definition ECAuthorityChanged :: ReasonCode where "ECAuthorityChanged = ''EC-005-AUTHORITY-CHANGED''"
definition ECAssetBoundsExceeded :: ReasonCode where "ECAssetBoundsExceeded = ''EC-006-ASSET-BOUNDS-EXCEEDED''"
definition ECCodeIntegrityChanged :: ReasonCode where "ECCodeIntegrityChanged = ''EC-007-CODE-INTEGRITY-CHANGED''"
definition ECHiddenExecutionPath :: ReasonCode where "ECHiddenExecutionPath = ''EC-008-HIDDEN-EXECUTION-PATH''"
definition ECInvariantFailed :: ReasonCode where "ECInvariantFailed = ''EC-009-INVARIANT-FAILED''"
definition ECRunnerIdentityMismatch :: ReasonCode where "ECRunnerIdentityMismatch = ''EC-010-RUNNER-IDENTITY-MISMATCH''"

lemmas decision_defs = DecisionRelease_def DecisionContain_def DecisionUnavailable_def

lemma decisions_distinct [simp]:
  "DecisionRelease \<noteq> DecisionContain" "DecisionContain \<noteq> DecisionRelease"
  "DecisionRelease \<noteq> DecisionUnavailable" "DecisionUnavailable \<noteq> DecisionRelease"
  "DecisionContain \<noteq> DecisionUnavailable" "DecisionUnavailable \<noteq> DecisionContain"
  by (simp_all add: decision_defs)

subsection \<open>Inputs, observations, receipts\<close>

record CellInput =
  ci_Version :: string
  ci_ChainID :: u64
  ci_BlockNumber :: u64
  ci_BlockHash :: string
  ci_Target :: string
  ci_ApprovedIntentSHA256 :: string
  ci_CandidateIntentSHA256 :: string
  ci_ApprovedPayloadSHA256 :: string
  ci_CandidatePayloadSHA256 :: string
  ci_ActionSHA256 :: string
  ci_InvariantSetSHA256 :: string
  ci_ApprovedRunnerSHA256 :: string

record Observation =
  ob_BackendAvailable :: bool
  ob_ObservedChainID :: u64
  ob_ObservedBlockNumber :: u64
  ob_ObservedBlockHash :: string
  ob_ObservedRunnerSHA256 :: string
  ob_PreStateSHA256 :: string
  ob_PostStateSHA256 :: string
  ob_EffectSetSHA256 :: string
  ob_AuthorityPreserved :: bool
  ob_AssetBoundsPreserved :: bool
  ob_CodeIntegrityPreserved :: bool
  ob_ExecutionPathFullyObserved :: bool
  ob_InvariantsPass :: bool

record Receipt =
  rc_Version :: string
  rc_Input :: CellInput
  rc_Observation :: Observation
  rc_Decision :: Decision
  rc_Reasons :: "ReasonCode list"
  rc_InputSHA256 :: string
  rc_ReceiptSHA256 :: string

definition json_CellInput :: "CellInput \<Rightarrow> json" where
  "json_CellInput i = JObj
    [(''version'', JStr (ci_Version i)), (''chain_id'', json_u64 (ci_ChainID i)),
     (''block_number'', json_u64 (ci_BlockNumber i)), (''block_hash'', JStr (ci_BlockHash i)),
     (''target'', JStr (ci_Target i)),
     (''approved_intent_sha256'', JStr (ci_ApprovedIntentSHA256 i)),
     (''candidate_intent_sha256'', JStr (ci_CandidateIntentSHA256 i)),
     (''approved_payload_sha256'', JStr (ci_ApprovedPayloadSHA256 i)),
     (''candidate_payload_sha256'', JStr (ci_CandidatePayloadSHA256 i)),
     (''action_sha256'', JStr (ci_ActionSHA256 i)),
     (''invariant_set_sha256'', JStr (ci_InvariantSetSHA256 i)),
     (''approved_runner_sha256'', JStr (ci_ApprovedRunnerSHA256 i))]"

definition json_Observation :: "Observation \<Rightarrow> json" where
  "json_Observation v = JObj
    [(''backend_available'', JBool (ob_BackendAvailable v)),
     (''observed_chain_id'', json_u64 (ob_ObservedChainID v)),
     (''observed_block_number'', json_u64 (ob_ObservedBlockNumber v)),
     (''observed_block_hash'', JStr (ob_ObservedBlockHash v)),
     (''observed_runner_sha256'', JStr (ob_ObservedRunnerSHA256 v)),
     (''pre_state_sha256'', JStr (ob_PreStateSHA256 v)),
     (''post_state_sha256'', JStr (ob_PostStateSHA256 v)),
     (''effect_set_sha256'', JStr (ob_EffectSetSHA256 v)),
     (''authority_preserved'', JBool (ob_AuthorityPreserved v)),
     (''asset_bounds_preserved'', JBool (ob_AssetBoundsPreserved v)),
     (''code_integrity_preserved'', JBool (ob_CodeIntegrityPreserved v)),
     (''execution_path_fully_observed'', JBool (ob_ExecutionPathFullyObserved v)),
     (''invariants_pass'', JBool (ob_InvariantsPass v))]"

subsection \<open>Validity\<close>

definition ec_validSHA256 :: "string \<Rightarrow> bool" where
  "ec_validSHA256 value \<longleftrightarrow> (if length value \<noteq> 32 * 2 then False else hex_decode value \<noteq> None)"

definition ec_equalDigest :: "string \<Rightarrow> string \<Rightarrow> bool" where
  "ec_equalDigest a b \<longleftrightarrow> EqualFold (TrimSpace a) (TrimSpace b)"

definition validInput :: "CellInput \<Rightarrow> bool" where
  "validInput i \<longleftrightarrow>
     ci_Version i = ContainmentVersion \<and>
     ci_ChainID i \<noteq> 0 \<and>
     ci_BlockNumber i \<noteq> 0 \<and>
     TrimSpace (ci_Target i) \<noteq> [] \<and>
     ec_validSHA256 (ci_BlockHash i) \<and>
     ec_validSHA256 (ci_ApprovedIntentSHA256 i) \<and>
     ec_validSHA256 (ci_CandidateIntentSHA256 i) \<and>
     ec_validSHA256 (ci_ApprovedPayloadSHA256 i) \<and>
     ec_validSHA256 (ci_CandidatePayloadSHA256 i) \<and>
     ec_validSHA256 (ci_ActionSHA256 i) \<and>
     ec_validSHA256 (ci_InvariantSetSHA256 i) \<and>
     ec_validSHA256 (ci_ApprovedRunnerSHA256 i)"

definition validObservationShape :: "Observation \<Rightarrow> bool" where
  "validObservationShape v \<longleftrightarrow>
     (if \<not> ob_BackendAvailable v then True
      else ob_ObservedChainID v \<noteq> 0 \<and>
           ob_ObservedBlockNumber v \<noteq> 0 \<and>
           ec_validSHA256 (ob_ObservedBlockHash v) \<and>
           ec_validSHA256 (ob_ObservedRunnerSHA256 v) \<and>
           ec_validSHA256 (ob_PreStateSHA256 v) \<and>
           ec_validSHA256 (ob_PostStateSHA256 v) \<and>
           ec_validSHA256 (ob_EffectSetSHA256 v))"

subsection \<open>The evaluation\<close>

definition defaultVersion :: "CellInput \<Rightarrow> CellInput" where
  "defaultVersion i = (if ci_Version i = [] then i\<lparr>ci_Version := ContainmentVersion\<rparr> else i)"

definition containment_reasons :: "CellInput \<Rightarrow> Observation \<Rightarrow> ReasonCode list" where
  "containment_reasons i v =
     (if \<not> validInput i \<or> \<not> validObservationShape v then [ECInvalidEvidence] else []) @
     (if \<not> ob_BackendAvailable v then [ECBackendUnavailable] else []) @
     (if ob_BackendAvailable v then
        (if ob_ObservedChainID v \<noteq> ci_ChainID i \<or> ob_ObservedBlockNumber v \<noteq> ci_BlockNumber i \<or>
            \<not> ec_equalDigest (ob_ObservedBlockHash v) (ci_BlockHash i)
         then [ECPinnedStateMismatch] else []) @
        (if \<not> ec_equalDigest (ob_ObservedRunnerSHA256 v) (ci_ApprovedRunnerSHA256 i)
         then [ECRunnerIdentityMismatch] else [])
      else []) @
     (if \<not> ec_equalDigest (ci_ApprovedIntentSHA256 i) (ci_CandidateIntentSHA256 i) \<or>
         \<not> ec_equalDigest (ci_ApprovedPayloadSHA256 i) (ci_CandidatePayloadSHA256 i)
      then [ECIntentMismatch] else []) @
     (if \<not> ob_AuthorityPreserved v then [ECAuthorityChanged] else []) @
     (if \<not> ob_AssetBoundsPreserved v then [ECAssetBoundsExceeded] else []) @
     (if \<not> ob_CodeIntegrityPreserved v then [ECCodeIntegrityChanged] else []) @
     (if \<not> ob_ExecutionPathFullyObserved v then [ECHiddenExecutionPath] else []) @
     (if \<not> ob_InvariantsPass v then [ECInvariantFailed] else [])"

definition json_withoutDigest ::
  "CellInput \<times> Observation \<times> Decision \<times> ReasonCode list \<times> string \<Rightarrow> json" where
  "json_withoutDigest = (\<lambda>(i, v, d, rs, h). JObj
     [(''version'', JStr ContainmentVersion), (''input'', json_CellInput i),
      (''observation'', json_Observation v), (''decision'', JStr d),
      (''reasons'', JArr (map JStr rs)), (''input_sha256'', JStr h)])"

definition EvaluateContainment :: "CellInput \<Rightarrow> Observation \<Rightarrow> Receipt" where
  "EvaluateContainment input observation =
     (let input = defaultVersion input;
          inputDigest = json_digest (json_CellInput input);
          reasons = containment_reasons input observation;
          decision = (if \<not> ob_BackendAvailable observation then DecisionUnavailable else DecisionRelease);
          decision = (if reasons \<noteq> [] \<and> decision \<noteq> DecisionUnavailable then DecisionContain else decision)
      in \<lparr>rc_Version = ContainmentVersion, rc_Input = input, rc_Observation = observation,
          rc_Decision = decision, rc_Reasons = reasons, rc_InputSHA256 = inputDigest,
          rc_ReceiptSHA256 =
            json_digest (json_withoutDigest (input, observation, decision, reasons, inputDigest))\<rparr>)"

fun equalReasonCodes :: "ReasonCode list \<Rightarrow> ReasonCode list \<Rightarrow> bool" where
  "equalReasonCodes [] [] = True"
| "equalReasonCodes (a # as) (b # bs) = (if a \<noteq> b then False else equalReasonCodes as bs)"
| "equalReasonCodes _ _ = False"

definition VerifyReceipt :: "Receipt \<Rightarrow> bool" where
  "VerifyReceipt r =
     (if rc_Version r \<noteq> ContainmentVersion \<or> rc_InputSHA256 r = [] \<or> rc_ReceiptSHA256 r = [] then False
      else let recomputed = EvaluateContainment (rc_Input r) (rc_Observation r)
           in rc_Decision recomputed = rc_Decision r \<and>
              equalReasonCodes (rc_Reasons recomputed) (rc_Reasons r) \<and>
              ec_equalDigest (rc_InputSHA256 recomputed) (rc_InputSHA256 r) \<and>
              ec_equalDigest (rc_ReceiptSHA256 recomputed) (rc_ReceiptSHA256 r))"

subsection \<open>The runner\<close>

record ActionArtifact =
  aa_Kind :: string
  aa_Canonical :: string

definition action_SHA256 :: "ActionArtifact \<Rightarrow> string" where
  "action_SHA256 a = sha256Hex (aa_Canonical a)"

definition action_validFor :: "ActionArtifact \<Rightarrow> CellInput \<Rightarrow> bool" where
  "action_validFor a input \<longleftrightarrow>
     TrimSpace (aa_Kind a) \<noteq> [] \<and> length (aa_Canonical a) \<noteq> 0 \<and>
     ec_equalDigest (action_SHA256 a) (ci_ActionSHA256 input)"

type_synonym Runner = "ctx \<Rightarrow> CellInput \<Rightarrow> ActionArtifact \<Rightarrow> go_error + Observation"

text \<open>The zero value of \<^verbatim>\<open>Observation\<close>, which is also \<^verbatim>\<open>Observation{BackendAvailable: false}\<close>.\<close>

definition noObservation :: Observation where
  "noObservation =
     \<lparr>ob_BackendAvailable = False, ob_ObservedChainID = 0, ob_ObservedBlockNumber = 0,
      ob_ObservedBlockHash = [], ob_ObservedRunnerSHA256 = [], ob_PreStateSHA256 = [],
      ob_PostStateSHA256 = [], ob_EffectSetSHA256 = [], ob_AuthorityPreserved = False,
      ob_AssetBoundsPreserved = False, ob_CodeIntegrityPreserved = False,
      ob_ExecutionPathFullyObserved = False, ob_InvariantsPass = False\<rparr>"

definition EvaluateWithRunner ::
  "ctx \<Rightarrow> CellInput \<Rightarrow> ActionArtifact \<Rightarrow> Runner option \<Rightarrow> Receipt" where
  "EvaluateWithRunner ctx input action runner =
     (case runner of
        None \<Rightarrow> EvaluateContainment input noObservation
      | Some observe \<Rightarrow>
          if \<not> action_validFor action input then EvaluateContainment input noObservation
          else if ctx BeforeObserve \<noteq> None then EvaluateContainment input noObservation
          else (case observe ctx input action of
              Inl err \<Rightarrow> EvaluateContainment input noObservation
            | Inr observation \<Rightarrow>
                if ctx AfterObserve \<noteq> None then EvaluateContainment input noObservation
                else EvaluateContainment input observation))"

subsection \<open>The digests bind\<close>

definition ascii_CellInput :: "CellInput \<Rightarrow> bool" where
  "ascii_CellInput i \<longleftrightarrow> json_ascii (json_CellInput i)"

definition ascii_Receipt :: "Receipt \<Rightarrow> bool" where
  "ascii_Receipt r \<longleftrightarrow>
     json_ascii (json_CellInput (rc_Input r)) \<and> json_ascii (json_Observation (rc_Observation r)) \<and>
     ascii (rc_Decision r) \<and> list_all ascii (rc_Reasons r)"

lemma json_CellInput_inject: "json_CellInput i = json_CellInput j \<Longrightarrow> i = j"
  by (cases i; cases j) (simp add: json_CellInput_def)

lemma json_Observation_inject: "json_Observation v = json_Observation w \<Longrightarrow> v = w"
  by (cases v; cases w) (simp add: json_Observation_def)

lemma map_JStr_inject [simp]: "map JStr a = map JStr b \<longleftrightarrow> a = b"
  by (auto intro: map_injective simp: inj_def)

lemma ascii_visible: "list_all visible s \<Longrightarrow> ascii s"
  by (auto simp: ascii_def visible_def list_all_iff)

lemma ascii_json_digest [simp]: "ascii (json_digest j)"
  by (simp add: json_digest_def ascii_visible)

lemma ascii_ContainmentVersion [simp]: "ascii ContainmentVersion"
  by (simp add: ContainmentVersion_def)

definition ok_withoutDigest ::
  "CellInput \<times> Observation \<times> Decision \<times> ReasonCode list \<times> string \<Rightarrow> bool" where
  "ok_withoutDigest = (\<lambda>(i, v, d, rs, h). json_ascii (json_CellInput i) \<and>
     json_ascii (json_Observation v) \<and> ascii d \<and> list_all ascii rs \<and> ascii h)"

lemma list_all_JStr [simp]: "list_all json_ascii (map JStr rs) = list_all ascii rs"
  by (induction rs) simp_all

interpretation receipt_binding: digest_binding json_withoutDigest ok_withoutDigest
proof unfold_locales
  show "json_ascii (json_withoutDigest a)" if "ok_withoutDigest a" for a
    using that by (auto simp: json_withoutDigest_def ok_withoutDigest_def split: prod.splits)
  show "a = b" if "json_withoutDigest a = json_withoutDigest b" for a b
    using that by (auto simp: json_withoutDigest_def split: prod.splits
        dest: json_CellInput_inject json_Observation_inject)
qed

subsection \<open>Decisions\<close>

lemma ec_validSHA256_eq: "ec_validSHA256 = validSHA256"
  by (rule ext) (simp add: ec_validSHA256_def validSHA256_def)

lemma ec_equalDigest_refl [simp]: "ec_equalDigest a a"
  by (simp add: ec_equalDigest_def)

lemma ec_equalDigest_sym: "ec_equalDigest a b \<Longrightarrow> ec_equalDigest b a"
  by (simp add: ec_equalDigest_def EqualFold_sym)

lemma ec_equalDigest_trans: "ec_equalDigest a b \<Longrightarrow> ec_equalDigest b c \<Longrightarrow> ec_equalDigest a c"
  unfolding ec_equalDigest_def by (rule EqualFold_trans)

lemma ec_equalDigest_digests:
  "ec_equalDigest (json_digest a) (json_digest b) \<longleftrightarrow> json_digest a = json_digest b"
  by (simp add: ec_equalDigest_def EqualFold_def)

lemma equalReasonCodes_iff [simp]: "equalReasonCodes a b \<longleftrightarrow> a = b"
  by (induction a b rule: equalReasonCodes.induct) auto

text \<open>Two strings that name the same bytes in hexadecimal.\<close>

definition same_bytes :: "string \<Rightarrow> string \<Rightarrow> bool" where
  "same_bytes a b \<longleftrightarrow> (\<exists>x. hex_decode a = Some x \<and> hex_decode b = Some x)"

lemma ec_equalDigest_bytes:
  "ec_validSHA256 a \<Longrightarrow> ec_validSHA256 b \<Longrightarrow> ec_equalDigest a b \<longleftrightarrow> same_bytes a b"
  by (auto simp: ec_validSHA256_eq ec_equalDigest_def same_bytes_def validSHA256_TrimSpace
      validSHA256_iff EqualFold_hex)

text \<open>
  What a release promises, said without reason codes: well-formed evidence, the pinned state
  and the approved runner observed, the candidate byte-identical to what was approved, and
  every effect check passed.
\<close>

definition release_spec :: "CellInput \<Rightarrow> Observation \<Rightarrow> bool" where
  "release_spec i v \<longleftrightarrow>
     validInput i \<and> ob_BackendAvailable v \<and> validObservationShape v \<and>
     ob_ObservedChainID v = ci_ChainID i \<and> ob_ObservedBlockNumber v = ci_BlockNumber i \<and>
     same_bytes (ob_ObservedBlockHash v) (ci_BlockHash i) \<and>
     same_bytes (ob_ObservedRunnerSHA256 v) (ci_ApprovedRunnerSHA256 i) \<and>
     same_bytes (ci_ApprovedIntentSHA256 i) (ci_CandidateIntentSHA256 i) \<and>
     same_bytes (ci_ApprovedPayloadSHA256 i) (ci_CandidatePayloadSHA256 i) \<and>
     ob_AuthorityPreserved v \<and> ob_AssetBoundsPreserved v \<and> ob_CodeIntegrityPreserved v \<and>
     ob_ExecutionPathFullyObserved v \<and> ob_InvariantsPass v"

lemma containment_reasons_empty:
  "containment_reasons i v = [] \<longleftrightarrow> release_spec i v"
proof (cases "validInput i \<and> validObservationShape v \<and> ob_BackendAvailable v")
  case True
  then show ?thesis
    by (auto simp: containment_reasons_def release_spec_def validInput_def validObservationShape_def
        ec_equalDigest_bytes)
qed (auto simp: containment_reasons_def release_spec_def)

lemma EvaluateContainment_fields [simp]:
  "rc_Version (EvaluateContainment i v) = ContainmentVersion"
  "rc_Input (EvaluateContainment i v) = defaultVersion i"
  "rc_Observation (EvaluateContainment i v) = v"
  "rc_Reasons (EvaluateContainment i v) = containment_reasons (defaultVersion i) v"
  "rc_InputSHA256 (EvaluateContainment i v) = json_digest (json_CellInput (defaultVersion i))"
  by (simp_all add: EvaluateContainment_def Let_def)

lemma rc_Decision_EvaluateContainment:
  "rc_Decision (EvaluateContainment i v) =
     (if \<not> ob_BackendAvailable v then DecisionUnavailable
      else if containment_reasons (defaultVersion i) v \<noteq> [] then DecisionContain
      else DecisionRelease)"
  by (simp add: EvaluateContainment_def Let_def)

lemma rc_ReceiptSHA256_EvaluateContainment:
  "rc_ReceiptSHA256 (EvaluateContainment i v) =
     json_digest (json_withoutDigest (defaultVersion i, v, rc_Decision (EvaluateContainment i v),
       containment_reasons (defaultVersion i) v, json_digest (json_CellInput (defaultVersion i))))"
  by (simp add: EvaluateContainment_def Let_def)

lemma defaultVersion_idem [simp]: "defaultVersion (defaultVersion i) = defaultVersion i"
  by (simp add: defaultVersion_def ContainmentVersion_def)

lemma EvaluateContainment_defaultVersion [simp]:
  "EvaluateContainment (defaultVersion i) v = EvaluateContainment i v"
  by (simp add: EvaluateContainment_def Let_def)

lemma release_iff:
  "rc_Decision (EvaluateContainment i v) = DecisionRelease \<longleftrightarrow> release_spec (defaultVersion i) v"
  by (auto simp: rc_Decision_EvaluateContainment containment_reasons_empty [symmetric])
     (auto simp: containment_reasons_def split: if_splits)

lemma no_observation_unavailable [simp]:
  "rc_Decision (EvaluateContainment i noObservation) = DecisionUnavailable"
  by (simp add: rc_Decision_EvaluateContainment noObservation_def)

subsection \<open>Recomputing a presented receipt\<close>

lemma VerifyReceipt_iff:
  "VerifyReceipt r \<longleftrightarrow>
     rc_Version r = ContainmentVersion \<and>
     rc_Decision r = rc_Decision (EvaluateContainment (rc_Input r) (rc_Observation r)) \<and>
     rc_Reasons r = containment_reasons (defaultVersion (rc_Input r)) (rc_Observation r) \<and>
     rc_InputSHA256 r \<noteq> [] \<and> rc_ReceiptSHA256 r \<noteq> [] \<and>
     ec_equalDigest (json_digest (json_CellInput (defaultVersion (rc_Input r)))) (rc_InputSHA256 r) \<and>
     ec_equalDigest (rc_ReceiptSHA256 (EvaluateContainment (rc_Input r) (rc_Observation r)))
       (rc_ReceiptSHA256 r)"
  by (auto simp: VerifyReceipt_def Let_def)

text \<open>The exact bytes whose SHA-256 a verified receipt carries.\<close>

definition receipt_preimage :: "Receipt \<Rightarrow> string" where
  "receipt_preimage r =
     json_print (json_withoutDigest
       (defaultVersion (rc_Input r), rc_Observation r, rc_Decision r, rc_Reasons r,
        json_digest (json_CellInput (defaultVersion (rc_Input r)))))"

lemma VerifyReceipt_digest:
  "VerifyReceipt r \<Longrightarrow> ec_equalDigest (sha256Hex (receipt_preimage r)) (rc_ReceiptSHA256 r)"
  by (simp add: VerifyReceipt_iff receipt_preimage_def rc_ReceiptSHA256_EvaluateContainment
      flip: json_digest_def)

lemma verified_receipt_binds:
  assumes r: "VerifyReceipt r" "ascii_Receipt r" and s: "VerifyReceipt s" "ascii_Receipt s"
    and same: "ec_equalDigest (rc_ReceiptSHA256 r) (rc_ReceiptSHA256 s)"
  shows "defaultVersion (rc_Input r) = defaultVersion (rc_Input s) \<and>
           rc_Observation r = rc_Observation s \<and> rc_Decision r = rc_Decision s \<and>
           rc_Reasons r = rc_Reasons s
         \<or> sha256_collision (receipt_preimage r) (receipt_preimage s)"
proof -
  have ok: "ok_withoutDigest (defaultVersion (rc_Input q), rc_Observation q, rc_Decision q,
      rc_Reasons q, json_digest (json_CellInput (defaultVersion (rc_Input q))))"
    if "ascii_Receipt q" for q
    using that
    by (auto simp: ok_withoutDigest_def ascii_Receipt_def defaultVersion_def json_CellInput_def)
  have "ec_equalDigest (sha256Hex (receipt_preimage r)) (sha256Hex (receipt_preimage s))"
    using VerifyReceipt_digest [OF r(1)] VerifyReceipt_digest [OF s(1)] same
    by (meson ec_equalDigest_sym ec_equalDigest_trans)
  then have "sha256Hex (receipt_preimage r) = sha256Hex (receipt_preimage s)"
    by (simp add: ec_equalDigest_def EqualFold_def)
  then show ?thesis
    using receipt_binding.binds [OF ok [OF r(2)] ok [OF s(2)]]
    by (auto simp: receipt_preimage_def json_digest_def)
qed

subsection \<open>The runner contract\<close>

text \<open>
  The client side of the \<^verbatim>\<open>Runner\<close> interface: whatever a runner guarantees about every
  observation it returns (\<open>justified\<close>) holds of the observation behind a release. The
  provider is \<^verbatim>\<open>SafeIsolatedRunner\<close>, in the theory of the isolated runner.
\<close>

lemma EvaluateWithRunner_release:
  assumes "rc_Decision (EvaluateWithRunner ctx i a runner) = DecisionRelease"
  obtains observe v where "runner = Some observe" "observe ctx i a = Inr v"
    "action_validFor a i" "ctx BeforeObserve = None" "ctx AfterObserve = None"
    "EvaluateWithRunner ctx i a runner = EvaluateContainment i v"
  using assms by (auto simp: EvaluateWithRunner_def split: option.splits if_splits sum.splits)

locale isolated_runner =
  fixes observe :: Runner
    and justified :: "CellInput \<Rightarrow> ActionArtifact \<Rightarrow> Observation \<Rightarrow> bool"
  assumes observe_justified: "observe ctx i a = Inr v \<Longrightarrow> justified i a v"
begin

lemma release_justified:
  assumes "rc_Decision (EvaluateWithRunner ctx i a (Some observe)) = DecisionRelease"
  shows "\<exists>v. observe ctx i a = Inr v \<and> justified i a v \<and> release_spec (defaultVersion i) v \<and>
             ec_equalDigest (action_SHA256 a) (ci_ActionSHA256 i)"
proof -
  from assms obtain v where v: "observe ctx i a = Inr v" "action_validFor a i"
    and eq: "EvaluateWithRunner ctx i a (Some observe) = EvaluateContainment i v"
    by (auto elim: EvaluateWithRunner_release)
  from assms eq have "release_spec (defaultVersion i) v" by (simp add: release_iff)
  with v show ?thesis using observe_justified by (auto simp: action_validFor_def)
qed

end

subsection \<open>A concrete cell\<close>

definition sample_input :: CellInput where
  "sample_input =
     \<lparr>ci_Version = ContainmentVersion, ci_ChainID = 1, ci_BlockNumber = 22000000,
      ci_BlockHash = sha256Hex ''block'', ci_Target = ''0x00000000000000000000000000000000000000aa'',
      ci_ApprovedIntentSHA256 = sha256Hex ''intent'', ci_CandidateIntentSHA256 = sha256Hex ''intent'',
      ci_ApprovedPayloadSHA256 = sha256Hex ''payload'', ci_CandidatePayloadSHA256 = sha256Hex ''payload'',
      ci_ActionSHA256 = sha256Hex ''action'', ci_InvariantSetSHA256 = sha256Hex ''invariants'',
      ci_ApprovedRunnerSHA256 = sha256Hex ''runner''\<rparr>"

definition sample_observation :: Observation where
  "sample_observation =
     \<lparr>ob_BackendAvailable = True, ob_ObservedChainID = 1, ob_ObservedBlockNumber = 22000000,
      ob_ObservedBlockHash = sha256Hex ''block'', ob_ObservedRunnerSHA256 = sha256Hex ''runner'',
      ob_PreStateSHA256 = sha256Hex ''pre'', ob_PostStateSHA256 = sha256Hex ''post'',
      ob_EffectSetSHA256 = sha256Hex ''effects'', ob_AuthorityPreserved = True,
      ob_AssetBoundsPreserved = True, ob_CodeIntegrityPreserved = True,
      ob_ExecutionPathFullyObserved = True, ob_InvariantsPass = True\<rparr>"

definition sample_action :: ActionArtifact where
  "sample_action = \<lparr>aa_Kind = ''safe-transaction/v1'', aa_Canonical = ''action''\<rparr>"

lemma same_bytes_sha256Hex [simp]: "same_bytes (sha256Hex s) (sha256Hex s)"
  by (simp add: same_bytes_def)

lemma ascii_sha256Hex [simp]: "ascii (sha256Hex s)"
  by (simp add: ascii_visible)

lemma TrimSpace_first_visible:
  "s \<noteq> [] \<Longrightarrow> visible (hd s) \<Longrightarrow> visible (last s) \<Longrightarrow> TrimSpace s = s"
  by (rule TrimSpace_visible) simp

lemma sample_valid: "validInput sample_input" "validObservationShape sample_observation"
  by (simp_all add: validInput_def validObservationShape_def sample_input_def
      sample_observation_def ec_validSHA256_eq TrimSpace_first_visible visible_def)

lemma sample_default [simp]: "defaultVersion sample_input = sample_input"
  by (simp add: defaultVersion_def sample_input_def ContainmentVersion_def)

lemma sample_release: "release_spec sample_input sample_observation"
  using sample_valid by (simp add: release_spec_def) (simp add: sample_input_def sample_observation_def)

lemma sample_released: "rc_Decision (EvaluateContainment sample_input sample_observation) = DecisionRelease"
  by (simp add: release_iff sample_release)

lemma VerifyReceipt_Evaluate: "VerifyReceipt (EvaluateContainment i v)"
proof -
  have "rc_ReceiptSHA256 (EvaluateContainment i v) \<noteq> []"
    by (simp add: EvaluateContainment_def Let_def)
  then show ?thesis by (simp add: VerifyReceipt_iff)
qed

lemma sample_ascii: "ascii_Receipt (EvaluateContainment sample_input sample_observation)"
  by (simp add: ascii_Receipt_def json_CellInput_def json_Observation_def
      rc_Decision_EvaluateContainment)
     (simp add: sample_input_def sample_observation_def decision_defs
       containment_reasons_empty [THEN iffD2, OF sample_release, unfolded sample_input_def sample_observation_def])

subsection \<open>Properties\<close>

text \<open>C1: A containment cell is fail-closed and three-valued: it releases exactly the evidence
  that meets the release specification (valid, pinned, byte-identical candidate, every effect
  check passed), it reports an absent backend as unavailable, and contains everything else.\<close>

theorem containment_three_valued:
  "(rc_Decision (EvaluateContainment i v) = DecisionRelease \<longleftrightarrow> release_spec (defaultVersion i) v) \<and>
   (rc_Decision (EvaluateContainment i v) = DecisionUnavailable \<longleftrightarrow> \<not> ob_BackendAvailable v) \<and>
   (rc_Decision (EvaluateContainment i v) = DecisionContain \<longleftrightarrow>
      ob_BackendAvailable v \<and> \<not> release_spec (defaultVersion i) v)"
  by (simp add: release_iff)
     (simp add: rc_Decision_EvaluateContainment containment_reasons_empty)

text \<open>C2: Recomputation is complete and sound: every receipt the evaluation issues verifies, and
  a presented receipt that verifies carries exactly the decision and the reasons that
  recomputing its input and observation gives, so a verified release meets the release
  specification.\<close>

theorem receipt_recomputation:
  "VerifyReceipt (EvaluateContainment i v) \<and>
   (VerifyReceipt r \<longrightarrow>
      rc_Decision r = rc_Decision (EvaluateContainment (rc_Input r) (rc_Observation r)) \<and>
      rc_Reasons r = rc_Reasons (EvaluateContainment (rc_Input r) (rc_Observation r)) \<and>
      (rc_Decision r = DecisionRelease \<longrightarrow> release_spec (defaultVersion (rc_Input r)) (rc_Observation r)))"
  using VerifyReceipt_Evaluate release_iff by (auto simp: VerifyReceipt_iff)

theorem receipt_recomputation_witness:
  "VerifyReceipt (EvaluateContainment sample_input sample_observation) \<and>
   release_spec (defaultVersion sample_input) sample_observation"
  using receipt_recomputation [of sample_input sample_observation
      "EvaluateContainment sample_input sample_observation"]
  by (simp add: sample_released)

text \<open>The receipt digest binds the whole receipt: two verified receipts with one digest agree
  on input, observation, decision and reasons, unless their two preimages are a SHA-256
  collision.\<close>

theorem receipts_bind:
  assumes "VerifyReceipt r" "ascii_Receipt r" and "VerifyReceipt s" "ascii_Receipt s"
    and "ec_equalDigest (rc_ReceiptSHA256 r) (rc_ReceiptSHA256 s)"
  shows "defaultVersion (rc_Input r) = defaultVersion (rc_Input s) \<and>
           rc_Observation r = rc_Observation s \<and> rc_Decision r = rc_Decision s \<and>
           rc_Reasons r = rc_Reasons s
         \<or> sha256_collision (receipt_preimage r) (receipt_preimage s)"
  using assms by (rule verified_receipt_binds)

theorem receipts_bind_witness:
  "\<exists>r s. VerifyReceipt r \<and> VerifyReceipt s \<and> rc_Decision r = DecisionRelease \<and>
     (rc_Observation r = rc_Observation s \<or> sha256_collision (receipt_preimage r) (receipt_preimage s))"
proof -
  let ?r = "EvaluateContainment sample_input sample_observation"
  have v: "VerifyReceipt ?r" by (rule VerifyReceipt_Evaluate)
  have "ec_equalDigest (rc_ReceiptSHA256 ?r) (rc_ReceiptSHA256 ?r)" by simp
  from receipts_bind [OF v sample_ascii v sample_ascii this] v sample_released
  show ?thesis by blast
qed

text \<open>A release never comes without an execution: when the orchestration returns RELEASE, a
  runner was present, the action bytes hash to the digest the cell pins, the context was live
  before and after the run, the runner returned an observation, and it is that observation
  that meets the release specification.\<close>

theorem runner_release_observed:
  assumes "rc_Decision (EvaluateWithRunner ctx i a runner) = DecisionRelease"
  shows "\<exists>observe v. runner = Some observe \<and> observe ctx i a = Inr v \<and>
           ctx BeforeObserve = None \<and> ctx AfterObserve = None \<and>
           TrimSpace (aa_Kind a) \<noteq> [] \<and> aa_Canonical a \<noteq> [] \<and>
           ec_equalDigest (sha256Hex (aa_Canonical a)) (ci_ActionSHA256 i) \<and>
           release_spec (defaultVersion i) v"
proof -
  from assms obtain observe v where
    "runner = Some observe" "observe ctx i a = Inr v" "action_validFor a i"
    "ctx BeforeObserve = None" "ctx AfterObserve = None"
    "EvaluateWithRunner ctx i a runner = EvaluateContainment i v"
    by (rule EvaluateWithRunner_release)
  with assms show ?thesis
    by (auto simp: release_iff action_validFor_def action_SHA256_def)
qed

theorem runner_release_observed_witness:
  "rc_Decision (EvaluateWithRunner background sample_input sample_action
      (Some (\<lambda>_ _ _. Inr sample_observation))) = DecisionRelease \<and>
   release_spec (defaultVersion sample_input) sample_observation"
proof -
  let ?run = "EvaluateWithRunner background sample_input sample_action (Some (\<lambda>_ _ _. Inr sample_observation))"
  have "action_validFor sample_action sample_input"
    by (simp add: action_validFor_def action_SHA256_def sample_action_def sample_input_def
        TrimSpace_first_visible visible_def)
  then have d: "rc_Decision ?run = DecisionRelease"
    by (simp add: EvaluateWithRunner_def sample_released)
  from runner_release_observed [OF d] d show ?thesis by auto
qed

end
