(* ===== verification/Proof_Gate.thy ===== *)
theory Proof_Gate
  imports Containment
begin

text \<open>
  \<^verbatim>\<open>internal/executionproof/proof.go\<close>, \<^verbatim>\<open>gate.go\<close> and \<^verbatim>\<open>safe_gate.go\<close>: the evidence envelope and
  its deterministic evaluation, the gate that recomputes a presented proof before signing, and
  the gate that ties a signing request to the approved one.
\<close>

definition ProofVersion :: string where
  "ProofVersion = ''koschei-execution-proof/v0.1''"

definition DecisionAllow :: Decision where "DecisionAllow = ''ALLOW''"
definition DecisionBlock :: Decision where "DecisionBlock = ''BLOCK''"

lemma gate_decisions_distinct [simp]: "DecisionAllow \<noteq> DecisionBlock" "DecisionBlock \<noteq> DecisionAllow"
  by (simp_all add: DecisionAllow_def DecisionBlock_def)

definition EPInvalidEvidence :: ReasonCode where "EPInvalidEvidence = ''EP-001-INVALID-EVIDENCE''"
definition EPArtifactMismatch :: ReasonCode where "EPArtifactMismatch = ''EP-002-ARTIFACT-MISMATCH''"
definition EPRuntimeArtifactMismatch :: ReasonCode where
  "EPRuntimeArtifactMismatch = ''EP-003-RUNTIME-ARTIFACT-MISMATCH''"
definition EPPayloadMismatch :: ReasonCode where "EPPayloadMismatch = ''EP-004-PAYLOAD-MISMATCH''"
definition EPInvariantFailed :: ReasonCode where "EPInvariantFailed = ''EP-005-INVARIANT-NOT-PASS''"
definition EPProofHashMismatch :: ReasonCode where "EPProofHashMismatch = ''EP-006-PROOF-HASH-MISMATCH''"
definition EPSigningRequestMismatch :: ReasonCode where
  "EPSigningRequestMismatch = ''EP-007-SIGNING-REQUEST-MISMATCH''"
definition EPInvalidSigningRequest :: ReasonCode where
  "EPInvalidSigningRequest = ''EP-008-INVALID-SIGNING-REQUEST''"

subsection \<open>The envelope\<close>

record SourceEvidence =
  se_CommitID :: string
  se_TreeID :: string

record BuildEvidence =
  be_ToolchainSHA256 :: string
  be_ApprovedArtifactSHA256 :: string
  be_BuiltArtifactSHA256 :: string

record RuntimeEvidence =
  re_ObservedArtifactSHA256 :: string
  re_PolicySHA256 :: string
  re_NodeShieldAttestation :: string

record PayloadEvidence =
  pe_ChainID :: u64
  pe_Target :: string
  pe_ApprovedCalldataSHA256 :: string
  pe_GeneratedCalldataSHA256 :: string
  pe_GeneratorSHA256 :: string

record SimulationEvidence =
  sm_InvariantSetSHA256 :: string
  sm_Result :: string

record AuthorizationEvidence =
  ae_SigningPolicySHA256 :: string
  ae_ApprovedSigningRequestID :: string

record Envelope =
  en_Version :: string
  en_Source :: SourceEvidence
  en_Build :: BuildEvidence
  en_Runtime :: RuntimeEvidence
  en_Payload :: PayloadEvidence
  en_Simulation :: SimulationEvidence
  en_Authorization :: AuthorizationEvidence

record Evaluation =
  ev_Decision :: Decision
  ev_Reasons :: "ReasonCode list"

record Proof =
  pf_Envelope :: Envelope
  pf_Evaluation :: Evaluation
  pf_EnvelopeSHA256 :: string

definition json_Envelope :: "Envelope \<Rightarrow> json" where
  "json_Envelope e = JObj
    [(''version'', JStr (en_Version e)),
     (''source'', JObj [(''commit_id'', JStr (se_CommitID (en_Source e))),
                        (''tree_id'', JStr (se_TreeID (en_Source e)))]),
     (''build'', JObj [(''toolchain_sha256'', JStr (be_ToolchainSHA256 (en_Build e))),
                       (''approved_artifact_sha256'', JStr (be_ApprovedArtifactSHA256 (en_Build e))),
                       (''built_artifact_sha256'', JStr (be_BuiltArtifactSHA256 (en_Build e)))]),
     (''runtime'', JObj ([(''observed_artifact_sha256'', JStr (re_ObservedArtifactSHA256 (en_Runtime e))),
                          (''policy_sha256'', JStr (re_PolicySHA256 (en_Runtime e)))] @
        (if re_NodeShieldAttestation (en_Runtime e) = [] then []
         else [(''nodeshield_attestation'', JStr (re_NodeShieldAttestation (en_Runtime e)))]))),
     (''payload'', JObj [(''chain_id'', json_u64 (pe_ChainID (en_Payload e))),
                         (''target'', JStr (pe_Target (en_Payload e))),
                         (''approved_calldata_sha256'', JStr (pe_ApprovedCalldataSHA256 (en_Payload e))),
                         (''generated_calldata_sha256'', JStr (pe_GeneratedCalldataSHA256 (en_Payload e))),
                         (''generator_sha256'', JStr (pe_GeneratorSHA256 (en_Payload e)))]),
     (''simulation'', JObj [(''invariant_set_sha256'', JStr (sm_InvariantSetSHA256 (en_Simulation e))),
                            (''result'', JStr (sm_Result (en_Simulation e)))]),
     (''authorization'', JObj
        [(''signing_policy_sha256'', JStr (ae_SigningPolicySHA256 (en_Authorization e))),
         (''approved_signing_request_id'', JStr (ae_ApprovedSigningRequestID (en_Authorization e)))])]"

definition validEvidence :: "Envelope \<Rightarrow> bool" where
  "validEvidence e \<longleftrightarrow>
     validGitObjectID (se_CommitID (en_Source e)) \<and>
     validGitObjectID (se_TreeID (en_Source e)) \<and>
     validSHA256 (be_ToolchainSHA256 (en_Build e)) \<and>
     validSHA256 (be_ApprovedArtifactSHA256 (en_Build e)) \<and>
     validSHA256 (be_BuiltArtifactSHA256 (en_Build e)) \<and>
     validSHA256 (re_ObservedArtifactSHA256 (en_Runtime e)) \<and>
     validSHA256 (re_PolicySHA256 (en_Runtime e)) \<and>
     pe_ChainID (en_Payload e) \<noteq> 0 \<and>
     TrimSpace (pe_Target (en_Payload e)) \<noteq> [] \<and>
     validSHA256 (pe_ApprovedCalldataSHA256 (en_Payload e)) \<and>
     validSHA256 (pe_GeneratedCalldataSHA256 (en_Payload e)) \<and>
     validSHA256 (pe_GeneratorSHA256 (en_Payload e)) \<and>
     validSHA256 (sm_InvariantSetSHA256 (en_Simulation e)) \<and>
     validSHA256 (ae_SigningPolicySHA256 (en_Authorization e)) \<and>
     validHex32 (ae_ApprovedSigningRequestID (en_Authorization e))"

definition envelopeDefault :: "Envelope \<Rightarrow> Envelope" where
  "envelopeDefault e = (if en_Version e = [] then e\<lparr>en_Version := ProofVersion\<rparr> else e)"

definition envelope_reasons :: "Envelope \<Rightarrow> ReasonCode list" where
  "envelope_reasons e =
     (let b = en_Build e; r = en_Runtime e; p = en_Payload e in
      (if en_Version e \<noteq> ProofVersion \<or> \<not> validEvidence e then [EPInvalidEvidence] else []) @
      (if validSHA256 (be_ApprovedArtifactSHA256 b) \<and> validSHA256 (be_BuiltArtifactSHA256 b) \<and>
          \<not> equalDigest (be_ApprovedArtifactSHA256 b) (be_BuiltArtifactSHA256 b)
       then [EPArtifactMismatch] else []) @
      (if validSHA256 (be_ApprovedArtifactSHA256 b) \<and> validSHA256 (re_ObservedArtifactSHA256 r) \<and>
          \<not> equalDigest (be_ApprovedArtifactSHA256 b) (re_ObservedArtifactSHA256 r)
       then [EPRuntimeArtifactMismatch] else []) @
      (if validSHA256 (pe_ApprovedCalldataSHA256 p) \<and> validSHA256 (pe_GeneratedCalldataSHA256 p) \<and>
          \<not> equalDigest (pe_ApprovedCalldataSHA256 p) (pe_GeneratedCalldataSHA256 p)
       then [EPPayloadMismatch] else []) @
      (if sm_Result (en_Simulation e) \<noteq> ''PASS'' then [EPInvariantFailed] else []))"

definition EvaluateEnvelope :: "Envelope \<Rightarrow> Proof" where
  "EvaluateEnvelope envelope =
     (let envelope = envelopeDefault envelope;
          reasons = envelope_reasons envelope;
          decision = (if reasons \<noteq> [] then DecisionBlock else DecisionAllow)
      in \<lparr>pf_Envelope = envelope,
          pf_Evaluation = \<lparr>ev_Decision = decision, ev_Reasons = reasons\<rparr>,
          pf_EnvelopeSHA256 = json_digest (json_Envelope envelope)\<rparr>)"

subsection \<open>The signing gates\<close>

definition AuthorizeForSigning :: "Proof \<Rightarrow> Evaluation" where
  "AuthorizeForSigning presented =
     (let recomputed = EvaluateEnvelope (pf_Envelope presented) in
      if \<not> EqualFold (pf_EnvelopeSHA256 recomputed) (pf_EnvelopeSHA256 presented)
      then \<lparr>ev_Decision = DecisionBlock,
            ev_Reasons = ev_Reasons (pf_Evaluation recomputed) @ [EPProofHashMismatch]\<rparr>
      else pf_Evaluation recomputed)"

record SigningRequest =
  sr_ChainID :: u64
  sr_Target :: string
  sr_CalldataSHA256 :: string
  sr_SafeTxHash :: string

record SigningGateResult =
  sg_Decision :: Decision
  sg_Reasons :: "ReasonCode list"

definition signing_block :: "ReasonCode \<Rightarrow> SigningGateResult" where
  "signing_block r = \<lparr>sg_Decision = DecisionBlock, sg_Reasons = [r]\<rparr>"

definition AuthorizeSigningRequest :: "Proof \<Rightarrow> SigningRequest \<Rightarrow> SigningGateResult" where
  "AuthorizeSigningRequest proof req =
     (let auth = AuthorizeForSigning proof in
      if ev_Decision auth \<noteq> DecisionAllow
      then \<lparr>sg_Decision = DecisionBlock, sg_Reasons = ev_Reasons auth\<rparr>
      else if sr_ChainID req = 0 \<or> TrimSpace (sr_Target req) = [] \<or>
              \<not> validSHA256 (sr_CalldataSHA256 req) \<or> \<not> validHex32 (sr_SafeTxHash req)
      then signing_block EPInvalidSigningRequest
      else if sr_ChainID req \<noteq> pe_ChainID (en_Payload (pf_Envelope proof)) \<or>
              \<not> EqualFold (TrimSpace (sr_Target req)) (TrimSpace (pe_Target (en_Payload (pf_Envelope proof)))) \<or>
              \<not> equalDigest (sr_CalldataSHA256 req) (pe_GeneratedCalldataSHA256 (en_Payload (pf_Envelope proof))) \<or>
              \<not> equalHex32 (sr_SafeTxHash req) (ae_ApprovedSigningRequestID (en_Authorization (pf_Envelope proof)))
      then signing_block EPSigningRequestMismatch
      else \<lparr>sg_Decision = DecisionAllow, sg_Reasons = []\<rparr>)"

subsection \<open>The envelope digest binds\<close>

definition ascii_Envelope :: "Envelope \<Rightarrow> bool" where
  "ascii_Envelope e \<longleftrightarrow> json_ascii (json_Envelope e)"

lemma json_Envelope_inject:
  assumes "json_Envelope e = json_Envelope f"
  shows "e = f"
proof (cases e; cases f)
  fix v s b r p m a v' s' b' r' p' m' a'
  assume e: "e = \<lparr>en_Version = v, en_Source = s, en_Build = b, en_Runtime = r, en_Payload = p,
      en_Simulation = m, en_Authorization = a\<rparr>"
    and f: "f = \<lparr>en_Version = v', en_Source = s', en_Build = b', en_Runtime = r', en_Payload = p',
      en_Simulation = m', en_Authorization = a'\<rparr>"
  from assms e f have "r = r'"
    by (cases r; cases r') (auto simp: json_Envelope_def split: if_splits)
  moreover from assms e f have "s = s'" "b = b'"
    by (cases s; cases s'; cases b; cases b'; simp add: json_Envelope_def)+
  moreover from assms e f have "p = p'" "m = m'" "a = a'"
    by (cases p; cases p'; cases m; cases m'; cases a; cases a'; simp add: json_Envelope_def)+
  moreover from assms e f have "v = v'" by (simp add: json_Envelope_def)
  ultimately show "e = f" using e f by simp
qed

interpretation envelope_binding: digest_binding json_Envelope ascii_Envelope
  by unfold_locales (auto simp: ascii_Envelope_def intro: json_Envelope_inject)

subsection \<open>When the gates allow\<close>

text \<open>Two strings that name the same 32-byte word, each with or without \<^verbatim>\<open>0x\<close>.\<close>

definition same_word32 :: "string \<Rightarrow> string \<Rightarrow> bool" where
  "same_word32 a b \<longleftrightarrow> validHex32 a \<and> validHex32 b \<and>
     same_bytes (TrimPrefix (TrimSpace a) ''0x'') (TrimPrefix (TrimSpace b) ''0x'')"

lemma equalDigest_bytes:
  "validSHA256 a \<Longrightarrow> validSHA256 b \<Longrightarrow> equalDigest a b \<longleftrightarrow> same_bytes a b"
  by (auto simp: equalDigest_def same_bytes_def validSHA256_iff EqualFold_hex)

lemma equalHex32_word:
  "validHex32 a \<Longrightarrow> validHex32 b \<Longrightarrow> equalHex32 a b \<longleftrightarrow> same_word32 a b"
  by (auto simp: equalHex32_def same_word32_def same_bytes_def validHex32_def validSHA256_iff
      EqualFold_hex Let_def)

lemma equalHex32_validHex32:
  assumes "equalHex32 a b" and "validHex32 a"
  shows "validHex32 b"
proof -
  let ?a = "TrimPrefix (TrimSpace a) ''0x''" and ?b = "TrimPrefix (TrimSpace b) ''0x''"
  from assms(1) have "ToLower ?a = ToLower ?b"
    by (simp add: equalHex32_def EqualFold_def Let_def)
  then have "length ?a = length ?b" and "hex_decode ?a = hex_decode ?b"
    by (metis length_ToLower, metis hex_decode_ToLower)
  with assms(2) show ?thesis by (simp add: validHex32_def validSHA256_iff)
qed

definition allow_spec :: "Envelope \<Rightarrow> bool" where
  "allow_spec e \<longleftrightarrow>
     en_Version e = ProofVersion \<and> validEvidence e \<and>
     same_bytes (be_ApprovedArtifactSHA256 (en_Build e)) (be_BuiltArtifactSHA256 (en_Build e)) \<and>
     same_bytes (be_ApprovedArtifactSHA256 (en_Build e)) (re_ObservedArtifactSHA256 (en_Runtime e)) \<and>
     same_bytes (pe_ApprovedCalldataSHA256 (en_Payload e)) (pe_GeneratedCalldataSHA256 (en_Payload e)) \<and>
     sm_Result (en_Simulation e) = ''PASS''"

lemma envelope_reasons_empty: "envelope_reasons e = [] \<longleftrightarrow> allow_spec e"
proof (cases "validEvidence e")
  case True
  then have "validSHA256 (be_ApprovedArtifactSHA256 (en_Build e))"
    "validSHA256 (be_BuiltArtifactSHA256 (en_Build e))"
    "validSHA256 (re_ObservedArtifactSHA256 (en_Runtime e))"
    "validSHA256 (pe_ApprovedCalldataSHA256 (en_Payload e))"
    "validSHA256 (pe_GeneratedCalldataSHA256 (en_Payload e))"
    by (simp_all add: validEvidence_def)
  with True show ?thesis
    by (simp add: envelope_reasons_def allow_spec_def equalDigest_bytes Let_def)
qed (simp add: envelope_reasons_def allow_spec_def Let_def)

lemma EvaluateEnvelope_fields [simp]:
  "pf_Envelope (EvaluateEnvelope e) = envelopeDefault e"
  "pf_EnvelopeSHA256 (EvaluateEnvelope e) = json_digest (json_Envelope (envelopeDefault e))"
  "ev_Reasons (pf_Evaluation (EvaluateEnvelope e)) = envelope_reasons (envelopeDefault e)"
  "ev_Decision (pf_Evaluation (EvaluateEnvelope e)) = DecisionAllow \<longleftrightarrow> allow_spec (envelopeDefault e)"
  by (simp_all add: EvaluateEnvelope_def Let_def envelope_reasons_empty)

lemma envelopeDefault_idem [simp]: "envelopeDefault (envelopeDefault e) = envelopeDefault e"
  by (simp add: envelopeDefault_def ProofVersion_def)

lemma AuthorizeForSigning_allow:
  "ev_Decision (AuthorizeForSigning p) = DecisionAllow \<longleftrightarrow>
     allow_spec (envelopeDefault (pf_Envelope p)) \<and>
     EqualFold (json_digest (json_Envelope (envelopeDefault (pf_Envelope p)))) (pf_EnvelopeSHA256 p)"
  by (simp add: AuthorizeForSigning_def Let_def)

lemma AuthorizeForSigning_two_valued:
  "ev_Decision (AuthorizeForSigning p) \<in> {DecisionAllow, DecisionBlock}"
  by (simp add: AuthorizeForSigning_def EvaluateEnvelope_def Let_def)

lemma signing_block_not_allow [simp]: "sg_Decision (signing_block r) = DecisionBlock"
  by (simp add: signing_block_def)

definition request_matches :: "Envelope \<Rightarrow> SigningRequest \<Rightarrow> bool" where
  "request_matches e req \<longleftrightarrow>
     sr_ChainID req = pe_ChainID (en_Payload e) \<and>
     EqualFold (TrimSpace (sr_Target req)) (TrimSpace (pe_Target (en_Payload e))) \<and>
     same_bytes (sr_CalldataSHA256 req) (pe_ApprovedCalldataSHA256 (en_Payload e)) \<and>
     same_word32 (sr_SafeTxHash req) (ae_ApprovedSigningRequestID (en_Authorization e))"

lemma same_bytes_sym: "same_bytes a b \<Longrightarrow> same_bytes b a"
  by (auto simp: same_bytes_def)

lemma same_bytes_trans: "same_bytes a b \<Longrightarrow> same_bytes b c \<Longrightarrow> same_bytes a c"
  by (auto simp: same_bytes_def)

lemma same_bytes_validSHA256: "same_bytes a b \<Longrightarrow> validSHA256 b \<Longrightarrow> validSHA256 a"
  by (auto simp: same_bytes_def validSHA256_iff) (metis hex_decode_length)

lemma envelopeDefault_parts [simp]:
  "en_Source (envelopeDefault e) = en_Source e" "en_Build (envelopeDefault e) = en_Build e"
  "en_Runtime (envelopeDefault e) = en_Runtime e" "en_Payload (envelopeDefault e) = en_Payload e"
  "en_Simulation (envelopeDefault e) = en_Simulation e"
  "en_Authorization (envelopeDefault e) = en_Authorization e"
  by (simp_all add: envelopeDefault_def)

lemma AuthorizeSigningRequest_allow:
  "sg_Decision (AuthorizeSigningRequest p req) = DecisionAllow \<longleftrightarrow>
     ev_Decision (AuthorizeForSigning p) = DecisionAllow \<and>
     request_matches (envelopeDefault (pf_Envelope p)) req"
proof (cases "ev_Decision (AuthorizeForSigning p) = DecisionAllow")
  case True
  let ?e = "pf_Envelope p"
  from True have a: "allow_spec (envelopeDefault ?e)"
    by (simp add: AuthorizeForSigning_allow)
  then have v: "validEvidence (envelopeDefault ?e)" by (simp add: allow_spec_def)
  then have g: "validSHA256 (pe_GeneratedCalldataSHA256 (en_Payload ?e))"
    and c: "pe_ChainID (en_Payload ?e) \<noteq> 0" and t: "TrimSpace (pe_Target (en_Payload ?e)) \<noteq> []"
    and h: "validHex32 (ae_ApprovedSigningRequestID (en_Authorization ?e))"
    by (simp_all add: validEvidence_def)
  from a have ag: "same_bytes (pe_ApprovedCalldataSHA256 (en_Payload ?e))
      (pe_GeneratedCalldataSHA256 (en_Payload ?e))"
    by (simp add: allow_spec_def)
  have "validSHA256 (sr_CalldataSHA256 req) \<and>
        equalDigest (sr_CalldataSHA256 req) (pe_GeneratedCalldataSHA256 (en_Payload ?e)) \<longleftrightarrow>
        same_bytes (sr_CalldataSHA256 req) (pe_ApprovedCalldataSHA256 (en_Payload ?e))"
    by (meson ag equalDigest_bytes g same_bytes_sym same_bytes_trans same_bytes_validSHA256)
  moreover have "validHex32 (sr_SafeTxHash req) \<and>
        equalHex32 (sr_SafeTxHash req) (ae_ApprovedSigningRequestID (en_Authorization ?e)) \<longleftrightarrow>
        same_word32 (sr_SafeTxHash req) (ae_ApprovedSigningRequestID (en_Authorization ?e))"
    using equalHex32_word h same_word32_def by blast
  moreover have "TrimSpace (sr_Target req) = [] \<Longrightarrow>
      \<not> EqualFold (TrimSpace (sr_Target req)) (TrimSpace (pe_Target (en_Payload ?e)))"
    using t by (simp add: EqualFold_def eq_commute [of "[]"])
  ultimately show ?thesis
    using True c by (auto simp: AuthorizeSigningRequest_def request_matches_def Let_def)
qed (simp add: AuthorizeSigningRequest_def Let_def)

lemma AuthorizeSigningRequest_two_valued:
  "sg_Decision (AuthorizeSigningRequest p req) \<in> {DecisionAllow, DecisionBlock}"
  by (simp add: AuthorizeSigningRequest_def Let_def)

subsection \<open>A concrete proof\<close>

definition sample_envelope :: "u64 \<Rightarrow> string \<Rightarrow> string \<Rightarrow> string \<Rightarrow> Envelope" where
  "sample_envelope chain target calldata request =
     \<lparr>en_Version = ProofVersion,
      en_Source = \<lparr>se_CommitID = ''0123456789abcdef0123456789abcdef01234567'',
                   se_TreeID = ''89abcdef0123456789abcdef0123456789abcdef''\<rparr>,
      en_Build = \<lparr>be_ToolchainSHA256 = sha256Hex ''toolchain'',
                  be_ApprovedArtifactSHA256 = sha256Hex ''artifact'',
                  be_BuiltArtifactSHA256 = sha256Hex ''artifact''\<rparr>,
      en_Runtime = \<lparr>re_ObservedArtifactSHA256 = sha256Hex ''artifact'',
                    re_PolicySHA256 = sha256Hex ''policy'', re_NodeShieldAttestation = []\<rparr>,
      en_Payload = \<lparr>pe_ChainID = chain, pe_Target = target,
                    pe_ApprovedCalldataSHA256 = calldata, pe_GeneratedCalldataSHA256 = calldata,
                    pe_GeneratorSHA256 = sha256Hex ''generator''\<rparr>,
      en_Simulation = \<lparr>sm_InvariantSetSHA256 = sha256Hex ''invariants'', sm_Result = ''PASS''\<rparr>,
      en_Authorization = \<lparr>ae_SigningPolicySHA256 = sha256Hex ''signing-policy'',
                          ae_ApprovedSigningRequestID = request\<rparr>\<rparr>"

lemma sample_envelope_default [simp]:
  "envelopeDefault (sample_envelope c t d r) = sample_envelope c t d r"
  by (simp add: envelopeDefault_def sample_envelope_def ProofVersion_def)

lemma sample_git_ids:
  "validGitObjectID ''0123456789abcdef0123456789abcdef01234567''"
  "validGitObjectID ''89abcdef0123456789abcdef0123456789abcdef''"
  by (simp_all add: validGitObjectID_def hex_val_def)

lemma sample_envelope_allow:
  assumes "c \<noteq> 0" "TrimSpace t \<noteq> []" "validHex32 r"
  shows "allow_spec (sample_envelope c t (sha256Hex d) r)"
  using assms sample_git_ids
  by (simp add: allow_spec_def validEvidence_def sample_envelope_def)

definition sample_target :: string where
  "sample_target = ''0x00000000000000000000000000000000000000aa''"

lemma sample_target_visible: "list_all visible sample_target"
  by (simp add: sample_target_def visible_def)

lemma sample_target_trim [simp]: "TrimSpace sample_target = sample_target"
  by (rule TrimSpace_all_visible) (rule sample_target_visible)

definition sample_proof :: Proof where
  "sample_proof = EvaluateEnvelope (sample_envelope 1 sample_target (sha256Hex ''data'') (sha256Hex ''request''))"

lemma validHex32_sha256Hex [simp]: "validHex32 (sha256Hex s)"
  by (rule validHex32_of_sha256) simp

lemma sample_target_nonempty [simp]: "sample_target \<noteq> []"
  by (simp add: sample_target_def)

lemma sample_proof_allow: "allow_spec (envelopeDefault (pf_Envelope sample_proof))"
  unfolding sample_proof_def EvaluateEnvelope_fields envelopeDefault_idem sample_envelope_default
  by (rule sample_envelope_allow) simp_all

lemma AuthorizeForSigning_Evaluate:
  "AuthorizeForSigning (EvaluateEnvelope e) = pf_Evaluation (EvaluateEnvelope e)"
  by (simp add: AuthorizeForSigning_def Let_def EvaluateEnvelope_def)

lemma sample_proof_authorized: "ev_Decision (AuthorizeForSigning sample_proof) = DecisionAllow"
  using sample_proof_allow by (simp add: sample_proof_def AuthorizeForSigning_Evaluate)

lemma sample_proof_ascii: "ascii_Envelope (envelopeDefault (pf_Envelope sample_proof))"
  by (simp add: sample_proof_def ascii_Envelope_def json_Envelope_def)
     (simp add: sample_envelope_def ProofVersion_def ascii_visible sample_target_visible)

definition sample_request :: SigningRequest where
  "sample_request = \<lparr>sr_ChainID = 1, sr_Target = sample_target,
     sr_CalldataSHA256 = sha256Hex ''data'', sr_SafeTxHash = sha256Hex ''request''\<rparr>"

lemma sample_request_allowed:
  "sg_Decision (AuthorizeSigningRequest sample_proof sample_request) = DecisionAllow"
proof -
  have "request_matches (envelopeDefault (pf_Envelope sample_proof)) sample_request"
    by (simp add: sample_proof_def request_matches_def sample_request_def same_word32_def)
       (simp add: sample_envelope_def)
  then show ?thesis by (simp add: AuthorizeSigningRequest_allow sample_proof_authorized)
qed

subsection \<open>Properties\<close>

text \<open>C3: The signing authority of a proof comes from its evidence alone. Whatever evaluation is
  serialised in it, the gate allows exactly the proofs whose envelope meets the allow
  specification (valid evidence, approved, built and observed artifacts byte-identical,
  approved and generated calldata byte-identical, simulation PASS) and whose stored digest is
  the digest of that envelope; everything else is blocked.\<close>

theorem signing_authority_recomputed:
  "(ev_Decision (AuthorizeForSigning p) = DecisionAllow \<longleftrightarrow>
      allow_spec (envelopeDefault (pf_Envelope p)) \<and>
      EqualFold (json_digest (json_Envelope (envelopeDefault (pf_Envelope p)))) (pf_EnvelopeSHA256 p)) \<and>
   ev_Decision (AuthorizeForSigning p) \<in> {DecisionAllow, DecisionBlock} \<and>
   AuthorizeForSigning (p\<lparr>pf_Evaluation := ev\<rparr>) = AuthorizeForSigning p"
  using AuthorizeForSigning_allow AuthorizeForSigning_two_valued
  by (simp add: AuthorizeForSigning_def)

text \<open>An authorised digest names one envelope: two authorised proofs with the same envelope
  digest carry the same evidence, unless the two encoded envelopes are a SHA-256 collision.\<close>

theorem authorized_envelope_unique:
  assumes "ev_Decision (AuthorizeForSigning p) = DecisionAllow"
    and "ev_Decision (AuthorizeForSigning q) = DecisionAllow"
    and "ascii_Envelope (envelopeDefault (pf_Envelope p))"
    and "ascii_Envelope (envelopeDefault (pf_Envelope q))"
    and "equalDigest (pf_EnvelopeSHA256 p) (pf_EnvelopeSHA256 q)"
  shows "envelopeDefault (pf_Envelope p) = envelopeDefault (pf_Envelope q) \<or>
         sha256_collision (json_print (json_Envelope (envelopeDefault (pf_Envelope p))))
           (json_print (json_Envelope (envelopeDefault (pf_Envelope q))))"
proof (rule envelope_binding.binds_fold)
  show "equalDigest (json_digest (json_Envelope (envelopeDefault (pf_Envelope p))))
          (json_digest (json_Envelope (envelopeDefault (pf_Envelope q))))"
    using assms(1,2,5) unfolding AuthorizeForSigning_allow equalDigest_def
    by (meson EqualFold_sym EqualFold_trans)
qed (use assms in simp_all)

theorem authorized_envelope_unique_witness:
  "\<exists>p q. p \<noteq> q \<and> ev_Decision (AuthorizeForSigning p) = DecisionAllow \<and>
       (envelopeDefault (pf_Envelope p) = envelopeDefault (pf_Envelope q) \<or>
        sha256_collision (json_print (json_Envelope (envelopeDefault (pf_Envelope p))))
          (json_print (json_Envelope (envelopeDefault (pf_Envelope q)))))"
proof -
  let ?q = "sample_proof\<lparr>pf_Evaluation := \<lparr>ev_Decision = DecisionBlock, ev_Reasons = []\<rparr>\<rparr>"
  have q: "ev_Decision (AuthorizeForSigning ?q) = DecisionAllow"
    using sample_proof_authorized by (simp add: AuthorizeForSigning_allow)
  have "ev_Decision (pf_Evaluation sample_proof) = DecisionAllow"
    using sample_proof_authorized by (simp add: sample_proof_def AuthorizeForSigning_Evaluate)
  then have "sample_proof \<noteq> ?q"
    by (metis Evaluation.select_convs(1) Proof.select_convs(2) Proof.surjective
        Proof.update_convs(2) gate_decisions_distinct(1))
  moreover from authorized_envelope_unique [OF sample_proof_authorized q]
  have "envelopeDefault (pf_Envelope sample_proof) = envelopeDefault (pf_Envelope ?q) \<or>
        sha256_collision (json_print (json_Envelope (envelopeDefault (pf_Envelope sample_proof))))
          (json_print (json_Envelope (envelopeDefault (pf_Envelope ?q))))"
    using sample_proof_ascii by simp
  ultimately show ?thesis using sample_proof_authorized by blast
qed

text \<open>C4: A signing request is allowed exactly when the recomputed proof allows and the request is
  the approved one: same chain, same target, calldata digest naming the approved calldata
  bytes, and transaction hash naming the approved 32-byte signing request.\<close>

theorem signing_request_exact:
  "sg_Decision (AuthorizeSigningRequest p req) = DecisionAllow \<longleftrightarrow>
     allow_spec (envelopeDefault (pf_Envelope p)) \<and>
     EqualFold (json_digest (json_Envelope (envelopeDefault (pf_Envelope p)))) (pf_EnvelopeSHA256 p) \<and>
     request_matches (envelopeDefault (pf_Envelope p)) req"
  by (simp add: AuthorizeSigningRequest_allow AuthorizeForSigning_allow)

end
