(* ===== verification/Safe_Hash.thy ===== *)
theory Safe_Hash
  imports Proof_Gate
begin

text \<open>
  \<^verbatim>\<open>internal/executionproof/safe_adapter.go\<close> (data and validity) and \<^verbatim>\<open>safe_hash.go\<close>: a Safe
  transaction, its validity, and the native recomputation of Safe's
  \<^verbatim>\<open>getTransactionHash\<close>. Keccak-256 is third-party code and stays the parameter \<open>K\<close>, so
  every statement about what the hash commits to names the Keccak collision that is its only
  exception.
\<close>

subsection \<open>The transaction\<close>

record SafeTransaction =
  tx_ChainID :: u64
  tx_Safe :: string
  tx_To :: string
  tx_Value :: "int option"
  tx_Data :: string
  tx_Operation :: "8 word"
  tx_SafeTxGas :: "int option"
  tx_BaseGas :: "int option"
  tx_GasPrice :: "int option"
  tx_GasToken :: string
  tx_RefundReceiver :: string
  tx_Nonce :: "int option"

definition validSafeTransaction :: "SafeTransaction \<Rightarrow> bool" where
  "validSafeTransaction tx \<longleftrightarrow>
     tx_ChainID tx \<noteq> 0 \<and>
     validAddress (tx_Safe tx) \<and> validAddress (tx_To tx) \<and>
     validUint256 (tx_Value tx) \<and>
     tx_Operation tx \<le> 1 \<and>
     validUint256 (tx_SafeTxGas tx) \<and>
     validUint256 (tx_BaseGas tx) \<and>
     validUint256 (tx_GasPrice tx) \<and>
     validAddress (tx_GasToken tx) \<and> validAddress (tx_RefundReceiver tx) \<and>
     validUint256 (tx_Nonce tx)"

subsection \<open>The hash\<close>

definition safeDomainSeparatorTypeHash :: string where
  "safeDomainSeparatorTypeHash =
     the (mustHex32 ''47e79534a245952e8b16893a336b85a3d9ea9fa8c573f3d803afb92a79469218'')"

definition safeTxTypeHash :: string where
  "safeTxTypeHash =
     the (mustHex32 ''bb8310d486368db6bd6f849402fdd73ad53d316b5a4b2644ad6efe0f941286d8'')"

text \<open>The loop that appends one 32-byte word per integer, and stops at the first error.\<close>

fun appendUintWords :: "int option list \<Rightarrow> string \<Rightarrow> go_error + string" where
  "appendUintWords [] structData = Inr structData"
| "appendUintWords (value # values) structData =
     bindE (uintWord value) (\<lambda>word. appendUintWords values (structData @ word))"

definition ComputeSafeTxHash :: "keccak \<Rightarrow> SafeTransaction \<Rightarrow> go_error + string" where
  "ComputeSafeTxHash K tx =
     (if \<not> validSafeTransaction tx then Inl (ErrMsg ''invalid Safe transaction'')
      else
        let domain = safeDomainSeparatorTypeHash in
        bindE (uintWord (Some (uint (tx_ChainID tx)))) (\<lambda>chainWord.
        let domain = domain @ chainWord in
        bindE (addressWord (tx_Safe tx)) (\<lambda>safeWord.
        let domain = domain @ safeWord;
            domainHash = keccak256 K domain;
            dataHash = keccak256 K (tx_Data tx);
            structData = safeTxTypeHash in
        bindE (addressWord (tx_To tx)) (\<lambda>toWord.
        let structData = structData @ toWord in
        bindE (appendUintWords
                 [tx_Value tx, Some (bytes_be dataHash), Some (uint (tx_Operation tx)),
                  tx_SafeTxGas tx, tx_BaseGas tx, tx_GasPrice tx] structData) (\<lambda>structData.
        bindE (addressWord (tx_GasToken tx)) (\<lambda>gasTokenWord.
        let structData = structData @ gasTokenWord in
        bindE (addressWord (tx_RefundReceiver tx)) (\<lambda>refundWord.
        let structData = structData @ refundWord in
        bindE (uintWord (tx_Nonce tx)) (\<lambda>nonceWord.
        let structData = structData @ nonceWord in
        if length structData \<noteq> 352
        then Inl (ErrMsg (''unexpected SafeTx encoding length: '' @ show_nat (length structData)))
        else
          let structHash = keccak256 K structData;
              preimage = [char_of (0x19::nat), char_of (0x01::nat)] @ domainHash @ structHash
          in Inr (''0x'' @ hex_encode (keccak256 K preimage))))))))))"

subsection \<open>What the hash is of\<close>

text \<open>The 20 bytes an address names, the encoded words, and the three Keccak preimages.\<close>

definition address_bytes :: "string \<Rightarrow> string" where
  "address_bytes v = the (hex_decode (TrimPrefix (TrimSpace v) ''0x''))"

definition address_word :: "string \<Rightarrow> string" where
  "address_word v = zero_bytes 12 @ address_bytes v"

definition safe_domain :: "SafeTransaction \<Rightarrow> string" where
  "safe_domain tx =
     safeDomainSeparatorTypeHash @ be_bytes 32 (uint (tx_ChainID tx)) @ address_word (tx_Safe tx)"

definition safe_struct :: "keccak \<Rightarrow> SafeTransaction \<Rightarrow> string" where
  "safe_struct K tx =
     safeTxTypeHash @ address_word (tx_To tx) @ be_bytes 32 (the (tx_Value tx)) @
     keccak256 K (tx_Data tx) @ be_bytes 32 (uint (tx_Operation tx)) @
     be_bytes 32 (the (tx_SafeTxGas tx)) @ be_bytes 32 (the (tx_BaseGas tx)) @
     be_bytes 32 (the (tx_GasPrice tx)) @ address_word (tx_GasToken tx) @
     address_word (tx_RefundReceiver tx) @ be_bytes 32 (the (tx_Nonce tx))"

definition safe_preimage :: "keccak \<Rightarrow> SafeTransaction \<Rightarrow> string" where
  "safe_preimage K tx =
     [char_of (0x19::nat), char_of (0x01::nat)] @ keccak256 K (safe_domain tx) @ keccak256 K (safe_struct K tx)"

definition keccak_collision :: "keccak \<Rightarrow> string \<Rightarrow> string \<Rightarrow> bool" where
  "keccak_collision K a b \<longleftrightarrow> a \<noteq> b \<and> keccak256 K a = keccak256 K b"

text \<open>Two transactions that differ at most in how their addresses are spelled.\<close>

definition same_safe_tx :: "SafeTransaction \<Rightarrow> SafeTransaction \<Rightarrow> bool" where
  "same_safe_tx a b \<longleftrightarrow>
     tx_ChainID a = tx_ChainID b \<and> address_bytes (tx_Safe a) = address_bytes (tx_Safe b) \<and>
     address_bytes (tx_To a) = address_bytes (tx_To b) \<and> tx_Value a = tx_Value b \<and>
     tx_Data a = tx_Data b \<and> tx_Operation a = tx_Operation b \<and>
     tx_SafeTxGas a = tx_SafeTxGas b \<and> tx_BaseGas a = tx_BaseGas b \<and>
     tx_GasPrice a = tx_GasPrice b \<and> address_bytes (tx_GasToken a) = address_bytes (tx_GasToken b) \<and>
     address_bytes (tx_RefundReceiver a) = address_bytes (tx_RefundReceiver b) \<and>
     tx_Nonce a = tx_Nonce b"

definition safe_collision :: "keccak \<Rightarrow> SafeTransaction \<Rightarrow> SafeTransaction \<Rightarrow> bool" where
  "safe_collision K a b \<longleftrightarrow>
     keccak_collision K (safe_preimage K a) (safe_preimage K b) \<or>
     keccak_collision K (safe_domain a) (safe_domain b) \<or>
     keccak_collision K (safe_struct K a) (safe_struct K b) \<or>
     keccak_collision K (tx_Data a) (tx_Data b)"

lemma type_hashes_valid:
  "mustHex32 ''47e79534a245952e8b16893a336b85a3d9ea9fa8c573f3d803afb92a79469218'' \<noteq> None"
  "mustHex32 ''bb8310d486368db6bd6f849402fdd73ad53d316b5a4b2644ad6efe0f941286d8'' \<noteq> None"
  by (simp_all add: mustHex32_def hex_val_def)

lemma length_mustHex32: "mustHex32 v = Some b \<Longrightarrow> length b = 32"
  by (auto simp: mustHex32_def split: option.splits if_splits)

lemma length_type_hashes [simp]:
  "length safeDomainSeparatorTypeHash = 32" "length safeTxTypeHash = 32"
  using type_hashes_valid length_mustHex32
  by (auto simp: safeDomainSeparatorTypeHash_def safeTxTypeHash_def simp del: One_nat_def)

lemma length_zero_bytes [simp]: "length (zero_bytes n) = n"
  by (simp add: zero_bytes_def)

lemma validAddress_iff:
  "validAddress v \<longleftrightarrow> length (TrimPrefix (TrimSpace v) ''0x'') = 40 \<and>
     hex_decode (TrimPrefix (TrimSpace v) ''0x'') = Some (address_bytes v) \<and> length (address_bytes v) = 20"
  using hex_decode_length [of "TrimPrefix (TrimSpace v) ''0x''"]
  by (auto simp: validAddress_def address_bytes_def Let_def)

lemma addressWord_valid: "validAddress v \<Longrightarrow> addressWord v = Inr (address_word v)"
  by (simp add: validAddress_iff addressWord_def address_word_def Let_def)

lemma length_address_word: "validAddress v \<Longrightarrow> length (address_word v) = 32"
  by (simp add: address_word_def validAddress_iff)

lemma validUint256_iff: "validUint256 v \<longleftrightarrow> (\<exists>n. v = Some n \<and> 0 \<le> n \<and> n < 2 ^ 256)"
  by (auto simp: validUint256_def fits_uint256_def split: option.splits)

lemma uintWord_valid: "validUint256 v \<Longrightarrow> uintWord v = Inr (be_bytes 32 (the v))"
  by (auto simp: validUint256_def uintWord_def split: option.splits)

lemma uintWord_Some: "0 \<le> n \<Longrightarrow> n < 2 ^ 256 \<Longrightarrow> uintWord (Some n) = Inr (be_bytes 32 n)"
  by (simp add: uintWord_def fits_uint256_def)

lemma uintWord_u64: "uintWord (Some (uint (w :: u64))) = Inr (be_bytes 32 (uint w))"
proof (rule uintWord_Some)
  have "uint w < 2 ^ 64" using uint_lt2p [of w] by simp
  then show "uint w < 2 ^ 256" by simp
qed simp

lemma uintWord_u8: "uintWord (Some (uint (w :: 8 word))) = Inr (be_bytes 32 (uint w))"
proof (rule uintWord_Some)
  have "uint w < 2 ^ 8" using uint_lt2p [of w] by simp
  then show "uint w < 2 ^ 256" by simp
qed simp

lemma pow_256: "(256::int) ^ 32 = 2 ^ 256"
  by simp

lemma uintWord_hash: "uintWord (Some (bytes_be (keccak256 K d))) = Inr (keccak256 K d)"
proof -
  have "bytes_be (keccak256 K d) < 2 ^ 256" "0 \<le> bytes_be (keccak256 K d)"
    using bytes_be_bounds [of "keccak256 K d"] by (simp_all only: length_keccak256 pow_256)
  then show ?thesis
    using be_bytes_bytes_be [of "keccak256 K d"] by (simp only: uintWord_Some length_keccak256)
qed

text \<open>On a valid transaction no step can fail, and the result is the Keccak word of the preimage.\<close>

lemma ComputeSafeTxHash_valid:
  assumes "validSafeTransaction tx"
  shows "ComputeSafeTxHash K tx = Inr (''0x'' @ hex_encode (keccak256 K (safe_preimage K tx)))"
proof -
  have a: "validAddress (tx_Safe tx)" "validAddress (tx_To tx)" "validAddress (tx_GasToken tx)"
    "validAddress (tx_RefundReceiver tx)"
    and u: "validUint256 (tx_Value tx)" "validUint256 (tx_SafeTxGas tx)" "validUint256 (tx_BaseGas tx)"
    "validUint256 (tx_GasPrice tx)" "validUint256 (tx_Nonce tx)"
    using assms by (simp_all add: validSafeTransaction_def)
  note words = a [THEN addressWord_valid] u [THEN uintWord_valid] uintWord_u64 uintWord_u8 uintWord_hash
  have "length (safe_struct K tx) = 352"
    by (simp add: safe_struct_def a [THEN length_address_word])
  then show ?thesis
    unfolding ComputeSafeTxHash_def Let_def words appendUintWords.simps bindE_simps
    using assms by (simp add: safe_preimage_def safe_domain_def safe_struct_def)
qed

lemma ComputeSafeTxHash_invalid:
  "\<not> validSafeTransaction tx \<Longrightarrow> ComputeSafeTxHash K tx = Inl (ErrMsg ''invalid Safe transaction'')"
  by (simp add: ComputeSafeTxHash_def)

lemma validHex32_hash: "validHex32 (''0x'' @ hex_encode (keccak256 K d))"
  by (rule validHex32_0x) (simp add: validSHA256_iff)

lemma equalHex32_hashes:
  "equalHex32 (''0x'' @ hex_encode (keccak256 K a)) (''0x'' @ hex_encode (keccak256 L b)) \<longleftrightarrow>
     keccak256 K a = keccak256 L b"
  by (simp add: equalHex32_def Let_def EqualFold_def)

lemma be_bytes_32_inject:
  assumes "validUint256 a" and "validUint256 b" and "be_bytes 32 (the a) = be_bytes 32 (the b)"
  shows "a = b"
proof -
  from assms(1,2) obtain m n where mn: "a = Some m" "0 \<le> m" "m < 256 ^ 32" "b = Some n" "0 \<le> n" "n < 256 ^ 32"
    unfolding validUint256_iff pow_256 by blast
  with assms(3) show ?thesis by (simp add: be_bytes_inject del: power_numeral)
qed

lemma be_bytes_32_uint_inject:
  fixes a b :: "'a::len word"
  assumes "LENGTH('a) \<le> 256" and "be_bytes 32 (uint a) = be_bytes 32 (uint b)"
  shows "a = b"
proof -
  have "(2::int) ^ LENGTH('a) \<le> 2 ^ 256" using assms(1) by (intro power_increasing) simp_all
  then have "uint a < 256 ^ 32" "uint b < 256 ^ 32"
    unfolding pow_256 by (metis less_le_trans uint_lt2p)+
  with assms(2) have "uint a = uint b" by (simp add: be_bytes_inject del: power_numeral)
  then show ?thesis by (simp only: word_uint_eq_iff)
qed

lemma safe_domain_inject:
  assumes "validSafeTransaction a" "validSafeTransaction b" and "safe_domain a = safe_domain b"
  shows "tx_ChainID a = tx_ChainID b \<and> address_bytes (tx_Safe a) = address_bytes (tx_Safe b)"
  using assms
  by (auto simp: safe_domain_def validSafeTransaction_def address_word_def length_address_word
      intro: be_bytes_32_uint_inject)

lemma safe_struct_inject:
  assumes a: "validSafeTransaction a" and b: "validSafeTransaction b"
    and eq: "safe_struct K a = safe_struct K b" and data: "\<not> keccak_collision K (tx_Data a) (tx_Data b)"
    and dom: "tx_ChainID a = tx_ChainID b" "address_bytes (tx_Safe a) = address_bytes (tx_Safe b)"
  shows "same_safe_tx a b"
proof -
  note v = a [unfolded validSafeTransaction_def] b [unfolded validSafeTransaction_def]
  have w: "address_word (tx_To a) = address_word (tx_To b) \<and>
      be_bytes 32 (the (tx_Value a)) = be_bytes 32 (the (tx_Value b)) \<and>
      keccak256 K (tx_Data a) = keccak256 K (tx_Data b) \<and>
      be_bytes 32 (uint (tx_Operation a)) = be_bytes 32 (uint (tx_Operation b)) \<and>
      be_bytes 32 (the (tx_SafeTxGas a)) = be_bytes 32 (the (tx_SafeTxGas b)) \<and>
      be_bytes 32 (the (tx_BaseGas a)) = be_bytes 32 (the (tx_BaseGas b)) \<and>
      be_bytes 32 (the (tx_GasPrice a)) = be_bytes 32 (the (tx_GasPrice b)) \<and>
      address_word (tx_GasToken a) = address_word (tx_GasToken b) \<and>
      address_word (tx_RefundReceiver a) = address_word (tx_RefundReceiver b) \<and>
      be_bytes 32 (the (tx_Nonce a)) = be_bytes 32 (the (tx_Nonce b))"
    using eq v by (simp add: safe_struct_def length_address_word)
  moreover have "tx_Data a = tx_Data b" using w data by (auto simp: keccak_collision_def)
  moreover have "tx_Operation a = tx_Operation b" using w by (intro be_bytes_32_uint_inject) simp_all
  ultimately show ?thesis
    using v dom by (simp add: same_safe_tx_def address_word_def be_bytes_32_inject)
qed

lemma ComputeSafeTxHash_commits:
  assumes a: "validSafeTransaction a" and b: "validSafeTransaction b"
    and eq: "keccak256 K (safe_preimage K a) = keccak256 K (safe_preimage K b)"
    and free: "\<not> safe_collision K a b"
  shows "same_safe_tx a b"
proof -
  from free have nc: "safe_preimage K a = safe_preimage K b"
    using eq by (auto simp: safe_collision_def keccak_collision_def)
  then have "keccak256 K (safe_domain a) = keccak256 K (safe_domain b)"
    and "keccak256 K (safe_struct K a) = keccak256 K (safe_struct K b)"
    by (simp_all add: safe_preimage_def)
  with free have "safe_domain a = safe_domain b" "safe_struct K a = safe_struct K b"
    by (auto simp: safe_collision_def keccak_collision_def)
  then show ?thesis
    using safe_domain_inject [OF a b] safe_struct_inject [OF a b] free
    by (auto simp: safe_collision_def)
qed

lemma same_safe_tx_struct: "same_safe_tx a b \<Longrightarrow> safe_preimage K a = safe_preimage K b"
  by (simp add: same_safe_tx_def safe_preimage_def safe_domain_def safe_struct_def address_word_def)

subsection \<open>A concrete transaction\<close>

definition sample_tx :: SafeTransaction where
  "sample_tx =
     \<lparr>tx_ChainID = 1, tx_Safe = sample_target, tx_To = sample_target, tx_Value = Some 5,
      tx_Data = ''transfer'', tx_Operation = 0, tx_SafeTxGas = Some 0, tx_BaseGas = Some 0,
      tx_GasPrice = Some 0, tx_GasToken = sample_target, tx_RefundReceiver = sample_target,
      tx_Nonce = Some 7\<rparr>"

lemma sample_target_valid: "validAddress sample_target"
  by (simp add: validAddress_def Let_def) (simp add: sample_target_def hex_val_def)

lemma sample_tx_valid: "validSafeTransaction sample_tx"
  by (simp add: validSafeTransaction_def sample_tx_def sample_target_valid validUint256_iff)

subsection \<open>Properties\<close>

text \<open>C5: The native Safe hash is total on valid transactions, rejects every other one, does not
  depend on how addresses are spelled, and commits to every field: two transactions with one
  hash agree on all of them, unless two of the hashed byte strings are a Keccak collision.\<close>

theorem safe_hash_commits:
  "((\<exists>h. ComputeSafeTxHash K a = Inr h) \<longleftrightarrow> validSafeTransaction a) \<and>
   (ComputeSafeTxHash K a = Inr h \<and> ComputeSafeTxHash K b = Inr h \<longrightarrow>
      same_safe_tx a b \<or> safe_collision K a b) \<and>
   (validSafeTransaction a \<and> validSafeTransaction b \<and> same_safe_tx a b \<longrightarrow>
      ComputeSafeTxHash K a = ComputeSafeTxHash K b)"
proof (intro conjI impI)
  show "(\<exists>h. ComputeSafeTxHash K a = Inr h) \<longleftrightarrow> validSafeTransaction a"
    by (cases "validSafeTransaction a") (simp_all add: ComputeSafeTxHash_valid ComputeSafeTxHash_invalid)
next
  assume h: "ComputeSafeTxHash K a = Inr h \<and> ComputeSafeTxHash K b = Inr h"
  then have v: "validSafeTransaction a" "validSafeTransaction b"
    by (metis ComputeSafeTxHash_invalid Inl_Inr_False)+
  with h have "keccak256 K (safe_preimage K a) = keccak256 K (safe_preimage K b)"
    by (auto simp: ComputeSafeTxHash_valid)
  with v show "same_safe_tx a b \<or> safe_collision K a b"
    using ComputeSafeTxHash_commits by blast
next
  assume "validSafeTransaction a \<and> validSafeTransaction b \<and> same_safe_tx a b"
  then show "ComputeSafeTxHash K a = ComputeSafeTxHash K b"
    using same_safe_tx_struct [of a b K] by (simp add: ComputeSafeTxHash_valid)
qed

theorem safe_hash_commits_witness:
  "(let b = sample_tx\<lparr>tx_To := ''00000000000000000000000000000000000000AA''\<rparr> in
    b \<noteq> sample_tx \<and> ComputeSafeTxHash Sum256 sample_tx = ComputeSafeTxHash Sum256 b)"
proof -
  let ?to = "''00000000000000000000000000000000000000AA''"
  let ?b = "sample_tx\<lparr>tx_To := ?to\<rparr>"
  have t: "TrimSpace ?to = ?to"
    by (rule TrimSpace_all_visible) (simp add: visible_def)
  have s: "address_bytes ?to = address_bytes sample_target"
    by (simp add: address_bytes_def t) (simp add: sample_target_def hex_val_def TrimPrefix_def)
  have "validAddress ?to"
    by (simp add: validAddress_def t TrimPrefix_def hex_val_def)
  then have "validSafeTransaction ?b"
    by (simp add: validSafeTransaction_def sample_tx_def sample_target_valid validUint256_iff)
  moreover have "same_safe_tx sample_tx ?b"
    by (simp add: same_safe_tx_def) (simp add: sample_tx_def s)
  ultimately have "ComputeSafeTxHash Sum256 sample_tx = ComputeSafeTxHash Sum256 ?b"
    using safe_hash_commits [of Sum256 sample_tx "[]" ?b] sample_tx_valid by blast
  moreover have "?b \<noteq> sample_tx"
    by (simp add: sample_tx_def sample_target_def)
  ultimately show ?thesis by (simp add: Let_def)
qed

end
