(* ===== verification/Go_Json_Parse.thy ===== *)
theory Go_Json_Parse
  imports Go_Json
begin

text \<open>
  \<^verbatim>\<open>encoding/json\<close>'s \<^verbatim>\<open>Unmarshal\<close> into a struct of strings and unsigned integers: the JSON
  grammar with Go's nesting limit, string unquoting with surrogate pairs and replacement of
  invalid UTF-8, and the assignment of object members to fields (exact name first, then the
  case-folded name; \<^verbatim>\<open>null\<close> leaves a field alone; a member of the wrong type fails the
  call). A parse failure is \<open>None\<close>; the text of the error is not modelled.

  The main result is that parsing what \<^verbatim>\<open>Marshal\<close> printed gives back the value.
\<close>

datatype jvalue =
    VNull
  | VBool bool
  | VNum string
  | VStr string
  | VArr "jvalue list"
  | VObj "(string \<times> jvalue) list"

subsection \<open>Scanning\<close>

definition json_space :: "char \<Rightarrow> bool" where
  "json_space c \<longleftrightarrow> c = CHR '' '' \<or> c = CHR 0x09 \<or> c = CHR 0x0D \<or> c = CHR 0x0A"

definition skip_ws :: "string \<Rightarrow> string" where
  "skip_ws s = dropWhile json_space s"

definition digits :: "string \<Rightarrow> (string \<times> string) option" where
  "digits s = (if takeWhile dec_char s = [] then None else Some (takeWhile dec_char s, dropWhile dec_char s))"

definition scan_int :: "string \<Rightarrow> (string \<times> string) option" where
  "scan_int s = (case s of [] \<Rightarrow> None | c # r \<Rightarrow> if c = CHR ''0'' then Some ([c], r) else digits s)"

definition scan_frac :: "string \<Rightarrow> (string \<times> string) option" where
  "scan_frac s = (case s of [] \<Rightarrow> Some ([], s) | c # r \<Rightarrow>
     if c = CHR ''.'' then map_option (\<lambda>(d, t). (c # d, t)) (digits r) else Some ([], s))"

definition scan_exp :: "string \<Rightarrow> (string \<times> string) option" where
  "scan_exp s = (case s of [] \<Rightarrow> Some ([], s) | c # r \<Rightarrow>
     if c = CHR ''e'' \<or> c = CHR ''E'' then
       (case r of [] \<Rightarrow> None | g # u \<Rightarrow>
          if g = CHR ''+'' \<or> g = CHR ''-'' then map_option (\<lambda>(d, t). (c # g # d, t)) (digits u)
          else map_option (\<lambda>(d, t). (c # d, t)) (digits r))
     else Some ([], s))"

definition scan_number :: "string \<Rightarrow> (string \<times> string) option" where
  "scan_number s =
     (let (sign, r) = (case s of [] \<Rightarrow> ([], s) | c # t \<Rightarrow> if c = CHR ''-'' then ([c], t) else ([], s)) in
      (case scan_int r of None \<Rightarrow> None | Some (a, r) \<Rightarrow>
      (case scan_frac r of None \<Rightarrow> None | Some (b, r) \<Rightarrow>
      (case scan_exp r of None \<Rightarrow> None | Some (c, r) \<Rightarrow> Some (sign @ a @ b @ c, r)))))"

subsection \<open>Strings\<close>

definition utf8_encode :: "nat \<Rightarrow> string" where
  "utf8_encode n =
     (if n < 0x80 then [char_of n]
      else if n < 0x800 then [char_of (0xC0 + n div 64), char_of (0x80 + n mod 64)]
      else if n < 0x10000 then
        [char_of (0xE0 + n div 4096), char_of (0x80 + n div 64 mod 64), char_of (0x80 + n mod 64)]
      else [char_of (0xF0 + n div 262144), char_of (0x80 + n div 4096 mod 64),
            char_of (0x80 + n div 64 mod 64), char_of (0x80 + n mod 64)])"

definition rune_error :: string where
  "rune_error = utf8_encode 0xFFFD"

definition hex4 :: "string \<Rightarrow> nat option" where
  "hex4 s = (if length s < 4 then None
     else case map hex_val (take 4 s) of
       [Some a, Some b, Some c, Some d] \<Rightarrow> Some (((a * 16 + b) * 16 + c) * 16 + d)
     | _ \<Rightarrow> None)"

definition surrogate_pair :: "nat \<Rightarrow> string \<Rightarrow> nat option" where
  "surrogate_pair hi s =
     (if 0xD800 \<le> hi \<and> hi < 0xDC00 \<and> take 2 s = [CHR 0x5C, CHR ''u''] then
        (case hex4 (drop 2 s) of
           None \<Rightarrow> None
         | Some lo \<Rightarrow> if 0xDC00 \<le> lo \<and> lo < 0xE000
                      then Some (0x10000 + (hi - 0xD800) * 1024 + (lo - 0xDC00)) else None)
      else None)"

definition prepend :: "'a list \<Rightarrow> ('a list \<times> string) option \<Rightarrow> ('a list \<times> string) option" where
  "prepend x res = map_option (\<lambda>(y, r). (x @ y, r)) res"

definition json_unescape :: "(char \<times> char) list" where
  "json_unescape = (CHR ''/'', CHR ''/'') # map prod.swap json_short"

text \<open>The contents of a string after its opening quote, and what follows the closing one.\<close>

function parse_str :: "string \<Rightarrow> (string \<times> string) option" where
  "parse_str s =
     (case s of
        [] \<Rightarrow> None
      | c # r \<Rightarrow>
          if c = CHR 0x22 then Some ([], r)
          else if c = CHR 0x5C then
            (case r of
               [] \<Rightarrow> None
             | e # t \<Rightarrow>
                 if e = CHR ''u'' then
                   (case hex4 t of
                      None \<Rightarrow> None
                    | Some n \<Rightarrow>
                        if 0xD800 \<le> n \<and> n < 0xE000 then
                          (case surrogate_pair n (drop 4 t) of
                             Some m \<Rightarrow> prepend (utf8_encode m) (parse_str (drop 10 t))
                           | None \<Rightarrow> prepend rune_error (parse_str (drop 4 t)))
                        else prepend (utf8_encode n) (parse_str (drop 4 t)))
                 else
                   (case map_of json_unescape e of
                      None \<Rightarrow> None
                    | Some d \<Rightarrow> prepend [d] (parse_str t)))
          else if (of_char c :: nat) < 32 then None
          else if (of_char c :: nat) < 128 then prepend [c] (parse_str r)
          else if utf8_length s = 0 then prepend rune_error (parse_str r)
          else prepend (take (utf8_length s) s) (parse_str (drop (utf8_length s) s)))"
  by pat_completeness auto
termination
  by (relation "measure length") auto

declare parse_str.simps [simp del]

lemma parse_str_shorter: "parse_str s = Some (x, r) \<Longrightarrow> length r < length s"
proof (induction "length s" arbitrary: s x rule: less_induct)
  case less
  from less.prems [unfolded parse_str.simps [of s]] show ?case
    by - (auto simp: prepend_def split: if_splits list.splits option.splits simp del: utf8_length.simps;
          drule less.hyps [rotated]; simp)
qed

subsection \<open>Values\<close>

lemma skip_ws_length: "length (skip_ws s) \<le> length s"
  by (simp add: skip_ws_def length_dropWhile_le)

lemma skip_ws_shorter: "skip_ws r = e # t \<Longrightarrow> length t < length r"
  using skip_ws_length [of r] by simp

lemma skip_ws_less: "length t < n \<Longrightarrow> length (skip_ws t) < n"
  using skip_ws_length [of t] by simp

lemma skip_ws_less2: "length t < Suc n \<Longrightarrow> 2 * length (skip_ws t) < Suc (Suc (2 * n))"
  using skip_ws_length [of t] by simp

function parse_value :: "nat \<Rightarrow> string \<Rightarrow> (jvalue \<times> string) option"
  and parse_elems :: "nat \<Rightarrow> string \<Rightarrow> (jvalue list \<times> string) option"
  and parse_members :: "nat \<Rightarrow> string \<Rightarrow> ((string \<times> jvalue) list \<times> string) option" where
  "parse_value depth s =
     (case s of
        [] \<Rightarrow> None
      | c # r \<Rightarrow>
          if c = CHR ''{'' then
            (if depth = 0 then None
             else case skip_ws r of
                 [] \<Rightarrow> None
               | e # t \<Rightarrow>
                   if e = CHR ''}'' then Some (VObj [], t)
                   else map_option (\<lambda>(ms, q). (VObj ms, q)) (parse_members (depth - 1) (e # t)))
          else if c = CHR ''['' then
            (if depth = 0 then None
             else case skip_ws r of
                 [] \<Rightarrow> None
               | e # t \<Rightarrow>
                   if e = CHR '']'' then Some (VArr [], t)
                   else map_option (\<lambda>(vs, q). (VArr vs, q)) (parse_elems (depth - 1) (e # t)))
          else if c = CHR 0x22 then map_option (\<lambda>(x, q). (VStr x, q)) (parse_str r)
          else if c = CHR ''n'' then map_option (\<lambda>q. (VNull, q)) (strip_prefix ''null'' s)
          else if c = CHR ''t'' then map_option (\<lambda>q. (VBool True, q)) (strip_prefix ''true'' s)
          else if c = CHR ''f'' then map_option (\<lambda>q. (VBool False, q)) (strip_prefix ''false'' s)
          else map_option (\<lambda>(x, q). (VNum x, q)) (scan_number s))"
| "parse_elems depth s =
     (case parse_value depth s of
        None \<Rightarrow> None
      | Some (v, r) \<Rightarrow>
          (case skip_ws r of
             [] \<Rightarrow> None
           | c # t \<Rightarrow>
               if c = CHR '']'' then Some ([v], t)
               else if c = CHR '','' \<and> length t < length s
               then prepend [v] (parse_elems depth (skip_ws t))
               else None))"
| "parse_members depth s =
     (case s of
        [] \<Rightarrow> None
      | q # s1 \<Rightarrow>
          if q \<noteq> CHR 0x22 then None
          else (case parse_str s1 of
              None \<Rightarrow> None
            | Some (k, r) \<Rightarrow>
                (case skip_ws r of
                   [] \<Rightarrow> None
                 | c # t \<Rightarrow>
                     if c \<noteq> CHR '':'' \<or> \<not> length t < length s then None
                     else (case parse_value depth (skip_ws t) of
                         None \<Rightarrow> None
                       | Some (v, u) \<Rightarrow>
                           (case skip_ws u of
                              [] \<Rightarrow> None
                            | e # w \<Rightarrow>
                                if e = CHR ''}'' then Some ([(k, v)], w)
                                else if e = CHR '','' \<and> length w < length s
                                then prepend [(k, v)] (parse_members depth (skip_ws w))
                                else None)))))"
  by pat_completeness auto
termination
  by (relation "measure (\<lambda>x. case x of Inl (_, s) \<Rightarrow> 2 * length s
        | Inr (Inl (_, s)) \<Rightarrow> 2 * length s + 1 | Inr (Inr (_, s)) \<Rightarrow> 2 * length s + 1)")
     (auto dest: skip_ws_shorter intro: skip_ws_less skip_ws_less2 less_SucI)

declare parse_value.simps [simp del] parse_elems.simps [simp del] parse_members.simps [simp del]

subsection \<open>Unmarshal\<close>

definition maxNestingDepth :: nat where
  "maxNestingDepth = 10000"

definition json_parse :: "string \<Rightarrow> jvalue option" where
  "json_parse s =
     (case parse_value maxNestingDepth (skip_ws s) of
        None \<Rightarrow> None
      | Some (v, r) \<Rightarrow> if skip_ws r = [] then Some v else None)"

text \<open>
  The case folding of member names: ASCII letters, and the two non-ASCII runes whose folding
  orbit meets ASCII (the Kelvin sign and the long s).
\<close>

function fold_name :: "string \<Rightarrow> string" where
  "fold_name s =
     (case s of
        [] \<Rightarrow> []
      | c # r \<Rightarrow>
          if take 3 s = [CHR 0xE2, CHR 0x84, CHR 0xAA] then CHR ''k'' # fold_name (drop 3 s)
          else if take 2 s = [CHR 0xC5, CHR 0xBF] then CHR ''s'' # fold_name (drop 2 s)
          else lower_char c # fold_name r)"
  by pat_completeness auto
termination
  by (relation "measure length") auto

declare fold_name.simps [simp del]

text \<open>A struct type is the list of its fields: the name and how a value is stored in it.\<close>

type_synonym 'w field = "string \<times> (jvalue \<Rightarrow> 'w \<Rightarrow> 'w option)"

definition find_field :: "'w field list \<Rightarrow> string \<Rightarrow> (jvalue \<Rightarrow> 'w \<Rightarrow> 'w option) option" where
  "find_field fs k =
     (case map_of fs k of
        Some f \<Rightarrow> Some f
      | None \<Rightarrow> map_of (map (\<lambda>(n, f). (fold_name n, f)) fs) (fold_name k))"

fun set_members :: "'w field list \<Rightarrow> (string \<times> jvalue) list \<Rightarrow> 'w \<Rightarrow> 'w option" where
  "set_members fs [] w = Some w"
| "set_members fs ((k, v) # ms) w =
     (case find_field fs k of
        None \<Rightarrow> set_members fs ms w
      | Some set_field \<Rightarrow>
          (case set_field v w of None \<Rightarrow> None | Some w' \<Rightarrow> set_members fs ms w'))"

definition unmarshal_struct :: "'w field list \<Rightarrow> string \<Rightarrow> 'w \<Rightarrow> 'w option" where
  "unmarshal_struct fs s w =
     (case json_parse s of
        None \<Rightarrow> None
      | Some v \<Rightarrow>
          (case v of VNull \<Rightarrow> Some w | VObj ms \<Rightarrow> set_members fs ms w | _ \<Rightarrow> None))"

definition string_field :: "((string \<Rightarrow> string) \<Rightarrow> 'w \<Rightarrow> 'w) \<Rightarrow> jvalue \<Rightarrow> 'w \<Rightarrow> 'w option" where
  "string_field upd v w =
     (case v of VNull \<Rightarrow> Some w | VStr s \<Rightarrow> Some (upd (\<lambda>_. s) w) | _ \<Rightarrow> None)"

definition uint_field ::
  "(('n::len word \<Rightarrow> 'n word) \<Rightarrow> 'w \<Rightarrow> 'w) \<Rightarrow> jvalue \<Rightarrow> 'w \<Rightarrow> 'w option" where
  "uint_field upd v w =
     (case v of
        VNull \<Rightarrow> Some w
      | VNum t \<Rightarrow>
          (case parse_nat 10 t of
             None \<Rightarrow> None
           | Some n \<Rightarrow> if n < 2 ^ LENGTH('n) then Some (upd (\<lambda>_. of_nat n) w) else None)
      | _ \<Rightarrow> None)"

subsection \<open>Parsing what was printed\<close>

fun json_value :: "json \<Rightarrow> jvalue" where
  "json_value JNull = VNull"
| "json_value (JBool b) = VBool b"
| "json_value (JNum i) = VNum (int_text 10 i)"
| "json_value (JStr s) = VStr s"
| "json_value (JArr xs) = VArr (map json_value xs)"
| "json_value (JObj fs) = VObj (map (\<lambda>(k, v). (k, json_value v)) fs)"

fun json_depth :: "json \<Rightarrow> nat" where
  "json_depth (JArr xs) = Suc (fold max (map json_depth xs) 0)"
| "json_depth (JObj fs) = Suc (fold max (map (\<lambda>(k, v). json_depth v) fs) 0)"
| "json_depth _ = 0"

definition ends_number :: "string \<Rightarrow> bool" where
  "ends_number s \<longleftrightarrow> s = [] \<or> (\<not> dec_char (hd s) \<and> hd s \<notin> {CHR ''.'', CHR ''e'', CHR ''E''})"

lemma digits_append:
  assumes "d \<noteq> []" "list_all dec_char d" "x = [] \<or> \<not> dec_char (hd x)"
  shows "digits (d @ x) = Some (d, x)"
proof -
  from assms have "takeWhile dec_char (d @ x) = d" "dropWhile dec_char (d @ x) = x"
    by (auto simp: list_all_iff takeWhile_append2 dropWhile_append2 takeWhile_eq_Nil_iff
        dropWhile_eq_self_iff)
  with assms(1) show ?thesis by (simp add: digits_def)
qed

lemma hex_digit_0: "hex_digit 0 = CHR ''0''"
  using hex_digit_val [of "CHR ''0''" 0] by (simp add: hex_val_def lower_char_def)

lemma hex_digit_eq_0: "m < 16 \<Longrightarrow> hex_digit m = CHR ''0'' \<longleftrightarrow> m = 0"
  by (metis hex_digit_0 hex_val_digit option.inject zero_less_numeral)

lemma nat_text_hd_zero: "hd (nat_text 10 n) = CHR ''0'' \<longleftrightarrow> n = 0"
proof (induction "10::nat" n rule: nat_text.induct)
  case (1 n)
  with 1 show ?case by (auto simp: nat_text.simps [of 10 n] div_eq_0_iff hex_digit_eq_0)
qed

lemma nat_text_0: "nat_text 10 0 = ''0''"
  by (simp add: nat_text.simps hex_digit_0)

lemma scan_int_nat_text:
  assumes "ends_number x"
  shows "scan_int (nat_text 10 n @ x) = Some (nat_text 10 n, x)"
proof (cases "n = 0")
  case False
  obtain c r where cr: "nat_text 10 n = c # r" by (cases "nat_text 10 n") simp_all
  with False have "c \<noteq> CHR ''0''" using nat_text_hd_zero [of n] by simp
  moreover have "digits (nat_text 10 n @ x) = Some (nat_text 10 n, x)"
    using assms nat_text_dec by (intro digits_append) (auto simp: ends_number_def)
  ultimately show ?thesis by (simp add: scan_int_def cr)
qed (simp add: scan_int_def nat_text_0)

lemma scan_frac_end: "ends_number x \<Longrightarrow> scan_frac x = Some ([], x)"
  and scan_exp_end: "ends_number x \<Longrightarrow> scan_exp x = Some ([], x)"
  by (auto simp: ends_number_def scan_frac_def scan_exp_def split: list.splits)

lemma scan_number_int_text:
  assumes "ends_number x"
  shows "scan_number (int_text 10 i @ x) = Some (int_text 10 i, x)"
proof (cases "i < 0")
  case True
  then show ?thesis
    using assms by (simp add: scan_number_def int_text_def scan_int_nat_text scan_frac_end scan_exp_end)
next
  case False
  obtain c r where cr: "nat_text 10 (nat i) = c # r" by (cases "nat_text 10 (nat i)") simp_all
  then have "c \<noteq> CHR ''-''" using nat_text_hd_dec [of "nat i"] by (auto simp: dec_char_def)
  then show ?thesis
    using False assms scan_int_nat_text [OF assms, of "nat i"]
    by (simp add: scan_number_def int_text_def scan_frac_end scan_exp_end cr)
qed

lemma parse_str_json_char:
  assumes "(of_char c :: nat) < 128"
  shows "parse_str (json_char c @ x) = prepend [c] (parse_str x)"
proof (cases "map_of json_short c")
  case (Some e)
  then have "map_of json_unescape e = Some c \<and> e \<noteq> CHR ''u''"
    by (auto simp: json_short_def json_unescape_def split: if_splits)
  with Some show ?thesis
    by (subst parse_str.simps) (simp add: json_char_def)
next
  case None
  then have nq: "c \<noteq> CHR 0x22" "c \<noteq> CHR 0x5C" by (auto simp: json_short_def)
  show ?thesis
  proof (cases "(of_char c :: nat) < 32 \<or> c \<in> set json_html")
    case True
    have "(of_char c :: nat) div 16 < 16" "(of_char c :: nat) mod 16 < 16"
      by (rule byte_div_mod)+
    then have "hex4 ([CHR ''0'', CHR ''0'', hex_digit (of_char c div 16), hex_digit (of_char c mod 16)] @ x)
        = Some (of_char c)"
      by (simp add: hex4_def hex_val_def [of "CHR ''0''"])
    with True None assms show ?thesis
      by (subst parse_str.simps) (simp add: json_char_def u_escape_def utf8_encode_def)
  next
    case False
    with None nq assms show ?thesis
      by (subst parse_str.simps) (simp add: json_char_def)
  qed
qed

lemma parse_str_json_body: "ascii s \<Longrightarrow> parse_str (json_body s @ CHR 0x22 # x) = Some (s, x)"
proof (induction s)
  case Nil
  then show ?case by (subst parse_str.simps) (simp add: json_body.simps)
next
  case (Cons c s)
  then have "parse_str (json_char c @ json_body s @ CHR 0x22 # x) = prepend [c] (Some (s, x))"
    by (simp add: parse_str_json_char)
  with Cons.prems show ?case
    by (subst json_body.simps) (simp add: prepend_def)
qed

lemma parse_str_json_string: "ascii s \<Longrightarrow> parse_str (tl (json_string s) @ x) = Some (s, x)"
  by (simp add: json_string_def parse_str_json_body)

definition value_start :: "string \<Rightarrow> bool" where
  "value_start s \<longleftrightarrow> s \<noteq> [] \<and> \<not> json_space (hd s) \<and> hd s \<noteq> CHR '']'' \<and> hd s \<noteq> CHR ''}''"

lemma skip_ws_start [simp]: "value_start s \<Longrightarrow> skip_ws (s @ x) = s @ x"
  by (cases s) (simp_all add: value_start_def skip_ws_def)

lemma skip_ws_delim [simp]:
  "skip_ws (CHR '']'' # x) = CHR '']'' # x" "skip_ws (CHR ''}'' # x) = CHR ''}'' # x"
  "skip_ws (CHR '','' # x) = CHR '','' # x" "skip_ws (CHR '':'' # x) = CHR '':'' # x"
  "skip_ws (CHR 0x22 # x) = CHR 0x22 # x" "skip_ws [] = []"
  by (simp_all add: skip_ws_def json_space_def)

lemma value_start_print: "value_start (json_print a)"
  using json_print_head [of a]
  by (cases a) (auto simp: value_start_def json_space_def char_kind_def dec_char_def)

lemma ends_number_delim [simp]:
  "ends_number (CHR '']'' # x)" "ends_number (CHR ''}'' # x)" "ends_number (CHR '','' # x)" "ends_number []"
  by (simp_all add: ends_number_def dec_char_def)

lemma parse_elems_print:
  assumes "\<forall>a \<in> set xs. \<forall>x. ends_number x \<longrightarrow> parse_value d (json_print a @ x) = Some (json_value a, x)"
    and "xs \<noteq> []"
  shows "parse_elems d (sep_concat (map json_print xs) @ CHR '']'' # x) = Some (map json_value xs, x)"
  using assms
proof (induction xs rule: induct_list012)
  case (2 a)
  then show ?case by (subst parse_elems.simps) simp
next
  case (3 a b xs)
  let ?r = "sep_concat (map json_print (b # xs))"
  have "value_start ?r"
    using value_start_print [of b] by (cases xs) (auto simp: value_start_def)
  with 3 show ?case
    by (subst parse_elems.simps) (simp add: prepend_def)
qed simp

lemma parse_members_print:
  assumes "\<forall>(k, a) \<in> set ms. ascii k \<and>
      (\<forall>x. ends_number x \<longrightarrow> parse_value d (json_print a @ x) = Some (json_value a, x))"
    and "ms \<noteq> []"
  shows "parse_members d (sep_concat (map json_field ms) @ CHR ''}'' # x) =
      Some (map (\<lambda>(k, v). (k, json_value v)) ms, x)"
  using assms
proof (induction ms rule: induct_list012)
  case (2 m)
  obtain k a where m: "m = (k, a)" by (cases m)
  have s: "json_field (k, a) @ y = CHR 0x22 # tl (json_string k) @ CHR '':'' # json_print a @ y" for y
    by (simp add: json_field_def json_string_def)
  have n: "length (json_field (k, a)) = length (json_string k) + Suc (length (json_print a))"
    by (simp add: json_field_def)
  from 2 m show ?case
    by (subst parse_members.simps) (simp add: s n parse_str_json_string value_start_print)
next
  case (3 m n ms)
  obtain k a where m: "m = (k, a)" by (cases m)
  have s: "json_field (k, a) @ y = CHR 0x22 # tl (json_string k) @ CHR '':'' # json_print a @ y" for y
    by (simp add: json_field_def json_string_def)
  have n: "length (json_field (k, a)) = length (json_string k) + Suc (length (json_print a))"
    by (simp add: json_field_def)
  let ?r = "sep_concat (map json_field (n # ms))"
  have "value_start ?r"
    by (cases ms; cases n) (simp_all add: value_start_def json_field_def json_string_def json_space_def)
  with 3 m show ?case
    by (subst parse_members.simps) (simp add: s n parse_str_json_string value_start_print prepend_def)
qed simp

lemma fold_max_le: "a \<in> set xs \<Longrightarrow> (f a :: nat) \<le> fold max (map f xs) m"
proof (induction xs arbitrary: m)
  case (Cons b xs)
  have "m \<le> fold max (map f xs) m" for m
  proof (induction xs arbitrary: m)
    case (Cons c xs)
    from Cons [of "max (f c) m"] show ?case by simp
  qed simp
  then have "f b \<le> fold max (map f xs) (max (f b) m)" by (meson le_trans max.cobounded1)
  with Cons show ?case by auto
qed simp

lemma parse_value_print:
  "json_ascii j \<Longrightarrow> json_depth j \<le> d \<Longrightarrow> ends_number x \<Longrightarrow>
   parse_value d (json_print j @ x) = Some (json_value j, x)"
proof (induction j arbitrary: d x)
  case (JNum i)
  obtain c r where cr: "int_text 10 i @ x = c # r" and "char_kind c = 2"
    using json_print_head [of "JNum i"] by (cases "int_text 10 i") auto
  then have c: "c \<noteq> CHR ''{''" "c \<noteq> CHR ''[''" "c \<noteq> CHR 0x22" "c \<noteq> CHR ''n''" "c \<noteq> CHR ''t''"
    "c \<noteq> CHR ''f''"
    by (auto simp: char_kind_def dec_char_def)
  have "scan_number (c # r) = Some (int_text 10 i, x)"
    using scan_number_int_text [OF JNum(3)] cr by metis
  with c have "parse_value d (c # r) = Some (VNum (int_text 10 i), x)"
    by (subst parse_value.simps) simp
  then show ?case by (simp only: json_print.simps json_value.simps cr)
next
  case (JStr s)
  then show ?case
    using parse_str_json_string [of s x]
    by (subst parse_value.simps) (simp add: json_string_def)
next
  case (JArr xs)
  show ?case
  proof (cases "xs = []")
    case False
    let ?s = "sep_concat (map json_print xs)"
    have e: "\<forall>a \<in> set xs. \<forall>x. ends_number x \<longrightarrow>
        parse_value (d - 1) (json_print a @ x) = Some (json_value a, x)"
      using JArr fold_max_le [of _ xs json_depth 0] by (fastforce simp: list_all_iff)
    have v: "value_start ?s"
      using False value_start_print by (cases xs) (auto simp: value_start_def sep_concat_Cons)
    then obtain c t where ct: "?s = c # t" "c \<noteq> CHR '']''" by (cases ?s) (auto simp: value_start_def)
    have "parse_elems (d - 1) (?s @ CHR '']'' # x) = Some (map json_value xs, x)"
      using parse_elems_print [OF e False] .
    then show ?thesis
      using JArr.prems ct skip_ws_start [OF v, of "CHR '']'' # x"]
      by (subst parse_value.simps) simp
  qed (use JArr in \<open>subst parse_value.simps; simp\<close>)
next
  case (JObj ms)
  show ?case
  proof (cases "ms = []")
    case False
    let ?s = "sep_concat (map json_field ms)"
    have e: "\<forall>(k, a) \<in> set ms. ascii k \<and>
        (\<forall>x. ends_number x \<longrightarrow> parse_value (d - 1) (json_print a @ x) = Some (json_value a, x))"
    proof (clarify)
      fix k a assume ka: "(k, a) \<in> set ms"
      moreover have "json_depth a \<le> d - 1"
        using JObj.prems(2) fold_max_le [OF ka, of "\<lambda>(k, v). json_depth v" 0] by simp
      moreover have "ascii k" "json_ascii a" using ka JObj.prems(1) by (auto simp: list_all_iff)
      ultimately show "ascii k \<and>
          (\<forall>x. ends_number x \<longrightarrow> parse_value (d - 1) (json_print a @ x) = Some (json_value a, x))"
        using JObj.IH [of "(k, a)" a] by simp
    qed
    have v: "value_start ?s"
      using False by (cases ms)
        (auto simp: value_start_def sep_concat_Cons json_field_def json_string_def json_space_def)
    then obtain c t where ct: "?s = c # t" "c \<noteq> CHR ''}''" by (cases ?s) (auto simp: value_start_def)
    have "parse_members (d - 1) (?s @ CHR ''}'' # x) = Some (map (\<lambda>(k, v). (k, json_value v)) ms, x)"
      using parse_members_print [OF e False] .
    then show ?thesis
      using JObj.prems ct skip_ws_start [OF v, of "CHR ''}'' # x"]
      by (subst parse_value.simps) (simp add: json_field_def [abs_def])
  qed (use JObj in \<open>subst parse_value.simps; simp\<close>)
qed (subst parse_value.simps; simp)+

theorem json_parse_print:
  assumes "json_ascii j" and "json_depth j \<le> maxNestingDepth"
  shows "json_parse (json_print j) = Some (json_value j)"
  using parse_value_print [OF assms, of "[]"] skip_ws_start [OF value_start_print, of j "[]"]
  by (simp add: json_parse_def)

end
