(* ===== verification/Safe_Action.thy ===== *)
theory Safe_Action
  imports Safe_Hash Go_Json_Parse
begin

text \<open>
  \<^verbatim>\<open>internal/executionproof/safe_action.go\<close>: the canonical wire form of a Safe transaction whose
  digest containment binds, and its decoder, which accepts exactly the bytes the encoder
  produces.
\<close>

definition SafeActionArtifactKind :: string where
  "SafeActionArtifactKind = ''safe-transaction/v1''"

record canonicalSafeAction =
  ca_ChainID :: u64
  ca_Safe :: string
  ca_To :: string
  ca_Value :: string
  ca_DataHex :: string
  ca_Operation :: "8 word"
  ca_SafeTxGas :: string
  ca_BaseGas :: string
  ca_GasPrice :: string
  ca_GasToken :: string
  ca_RefundReceiver :: string
  ca_Nonce :: string

definition json_canonicalSafeAction :: "canonicalSafeAction \<Rightarrow> json" where
  "json_canonicalSafeAction w = JObj
    [(''chain_id'', json_u64 (ca_ChainID w)), (''safe'', JStr (ca_Safe w)), (''to'', JStr (ca_To w)),
     (''value'', JStr (ca_Value w)), (''data_hex'', JStr (ca_DataHex w)),
     (''operation'', JNum (uint (ca_Operation w))), (''safe_tx_gas'', JStr (ca_SafeTxGas w)),
     (''base_gas'', JStr (ca_BaseGas w)), (''gas_price'', JStr (ca_GasPrice w)),
     (''gas_token'', JStr (ca_GasToken w)), (''refund_receiver'', JStr (ca_RefundReceiver w)),
     (''nonce'', JStr (ca_Nonce w))]"

definition canonicalSafeAction_fields :: "canonicalSafeAction field list" where
  "canonicalSafeAction_fields =
    [(''chain_id'', uint_field ca_ChainID_update), (''safe'', string_field ca_Safe_update),
     (''to'', string_field ca_To_update), (''value'', string_field ca_Value_update),
     (''data_hex'', string_field ca_DataHex_update), (''operation'', uint_field ca_Operation_update),
     (''safe_tx_gas'', string_field ca_SafeTxGas_update), (''base_gas'', string_field ca_BaseGas_update),
     (''gas_price'', string_field ca_GasPrice_update), (''gas_token'', string_field ca_GasToken_update),
     (''refund_receiver'', string_field ca_RefundReceiver_update), (''nonce'', string_field ca_Nonce_update)]"

definition zero_canonicalSafeAction :: canonicalSafeAction where
  "zero_canonicalSafeAction =
     \<lparr>ca_ChainID = 0, ca_Safe = [], ca_To = [], ca_Value = [], ca_DataHex = [], ca_Operation = 0,
      ca_SafeTxGas = [], ca_BaseGas = [], ca_GasPrice = [], ca_GasToken = [],
      ca_RefundReceiver = [], ca_Nonce = []\<rparr>"

text \<open>\<^verbatim>\<open>(*big.Int).String\<close>, which prints a nil pointer as \<^verbatim>\<open><nil>\<close>.\<close>

definition bigString :: "int option \<Rightarrow> string" where
  "bigString v = (case v of None \<Rightarrow> ''<nil>'' | Some n \<Rightarrow> int_text 10 n)"

definition safe_wire :: "SafeTransaction \<Rightarrow> canonicalSafeAction" where
  "safe_wire tx =
     \<lparr>ca_ChainID = tx_ChainID tx, ca_Safe = normalizeAddress (tx_Safe tx),
      ca_To = normalizeAddress (tx_To tx), ca_Value = bigString (tx_Value tx),
      ca_DataHex = ''0x'' @ hex_encode (tx_Data tx), ca_Operation = tx_Operation tx,
      ca_SafeTxGas = bigString (tx_SafeTxGas tx), ca_BaseGas = bigString (tx_BaseGas tx),
      ca_GasPrice = bigString (tx_GasPrice tx), ca_GasToken = normalizeAddress (tx_GasToken tx),
      ca_RefundReceiver = normalizeAddress (tx_RefundReceiver tx), ca_Nonce = bigString (tx_Nonce tx)\<rparr>"

definition CanonicalSafeActionArtifact :: "SafeTransaction \<Rightarrow> go_error + ActionArtifact" where
  "CanonicalSafeActionArtifact tx =
     (if \<not> validSafeTransaction tx then Inl (ErrMsg ''invalid Safe transaction'')
      else Inr \<lparr>aa_Kind = SafeActionArtifactKind,
                aa_Canonical = json_print (json_canonicalSafeAction (safe_wire tx))\<rparr>)"

definition parseUint256Decimal :: "string \<Rightarrow> int option" where
  "parseUint256Decimal value = SetString 10 value"

definition wire_transaction :: "canonicalSafeAction \<Rightarrow> string \<Rightarrow> SafeTransaction" where
  "wire_transaction w data =
     \<lparr>tx_ChainID = ca_ChainID w, tx_Safe = ca_Safe w, tx_To = ca_To w,
      tx_Value = parseUint256Decimal (ca_Value w), tx_Data = data, tx_Operation = ca_Operation w,
      tx_SafeTxGas = parseUint256Decimal (ca_SafeTxGas w), tx_BaseGas = parseUint256Decimal (ca_BaseGas w),
      tx_GasPrice = parseUint256Decimal (ca_GasPrice w), tx_GasToken = ca_GasToken w,
      tx_RefundReceiver = ca_RefundReceiver w, tx_Nonce = parseUint256Decimal (ca_Nonce w)\<rparr>"

definition jsonError :: go_error where
  "jsonError = ErrMsg ''json''"

definition decodeCanonicalSafeAction :: "ActionArtifact \<Rightarrow> go_error + SafeTransaction" where
  "decodeCanonicalSafeAction action =
     (if aa_Kind action \<noteq> SafeActionArtifactKind \<or> length (aa_Canonical action) = 0
      then Inl (ErrMsg ''unsupported Safe action artifact'')
      else case unmarshal_struct canonicalSafeAction_fields (aa_Canonical action) zero_canonicalSafeAction of
          None \<Rightarrow> Inl (ErrWrap ''decode canonical Safe action'' jsonError)
        | Some wire \<Rightarrow>
            (let dataRaw = TrimPrefix (TrimSpace (ca_DataHex wire)) ''0x'' in
             case hex_decode dataRaw of
               None \<Rightarrow> Inl (ErrWrap ''decode Safe calldata'' hexError)
             | Some data \<Rightarrow>
                 (let tx = wire_transaction wire data in
                  if \<not> validSafeTransaction tx then Inl (ErrMsg ''decoded Safe action is invalid'')
                  else case CanonicalSafeActionArtifact tx of
                      Inl err \<Rightarrow> Inl (ErrMsg ''non-canonical Safe action encoding'')
                    | Inr reencoded \<Rightarrow>
                        if aa_Canonical reencoded \<noteq> aa_Canonical action
                        then Inl (ErrMsg ''non-canonical Safe action encoding'')
                        else Inr tx)))"

definition DecodeCanonicalSafeActionArtifact :: "ActionArtifact \<Rightarrow> go_error + SafeTransaction" where
  "DecodeCanonicalSafeActionArtifact action = decodeCanonicalSafeAction action"

subsection \<open>The round trip\<close>

text \<open>The transaction with its addresses in canonical spelling; nothing else changes.\<close>

definition canonical_tx :: "SafeTransaction \<Rightarrow> SafeTransaction" where
  "canonical_tx tx =
     tx\<lparr>tx_Safe := normalizeAddress (tx_Safe tx), tx_To := normalizeAddress (tx_To tx),
        tx_GasToken := normalizeAddress (tx_GasToken tx),
        tx_RefundReceiver := normalizeAddress (tx_RefundReceiver tx)\<rparr>"

lemma normalizeAddress_valid:
  assumes "validAddress v"
  shows "TrimSpace (normalizeAddress v) = normalizeAddress v" "list_all visible (normalizeAddress v)"
    "normalizeAddress (normalizeAddress v) = normalizeAddress v"
    "validAddress (normalizeAddress v)" "address_bytes (normalizeAddress v) = address_bytes v"
proof -
  let ?h = "TrimPrefix (TrimSpace v) ''0x''"
  have h: "hex_decode ?h = Some (address_bytes v)" "length ?h = 40"
    using assms by (simp_all add: validAddress_iff)
  then have vis: "list_all visible (ToLower ?h)" using hex_decode_ToLower_visible by blast
  obtain b where b: "hex_decode ?h = Some b" using h by simp
  from vis show t: "TrimSpace (normalizeAddress v) = normalizeAddress v"
    and "list_all visible (normalizeAddress v)"
    by (simp_all add: normalizeAddress_def visible_0)
  with vis b h(2) show "normalizeAddress (normalizeAddress v) = normalizeAddress v"
    "validAddress (normalizeAddress v)" "address_bytes (normalizeAddress v) = address_bytes v"
    by (simp_all add: normalizeAddress_def validAddress_def address_bytes_def)
qed

lemma bigString_valid:
  assumes "validUint256 v"
  shows "parseUint256Decimal (bigString v) = v" "list_all visible (bigString v)"
  using assms
  by (auto simp: validUint256_def parseUint256Decimal_def bigString_def int_text_def nat_text_visible
      split: option.splits)

lemma canonical_tx_valid: "validSafeTransaction tx \<Longrightarrow> validSafeTransaction (canonical_tx tx)"
  by (simp add: validSafeTransaction_def canonical_tx_def normalizeAddress_valid)

lemma canonical_tx_same: "validSafeTransaction tx \<Longrightarrow> same_safe_tx (canonical_tx tx) tx"
  by (simp add: same_safe_tx_def validSafeTransaction_def canonical_tx_def normalizeAddress_valid)

lemma canonical_tx_wire: "validSafeTransaction tx \<Longrightarrow> safe_wire (canonical_tx tx) = safe_wire tx"
  by (simp add: safe_wire_def validSafeTransaction_def canonical_tx_def normalizeAddress_valid)

lemma json_canonicalSafeAction_ascii:
  assumes "validSafeTransaction tx"
  shows "json_ascii (json_canonicalSafeAction (safe_wire tx))"
proof -
  have "ascii (ca_Safe (safe_wire tx))" "ascii (ca_To (safe_wire tx))" "ascii (ca_Value (safe_wire tx))"
    "ascii (ca_DataHex (safe_wire tx))" "ascii (ca_SafeTxGas (safe_wire tx))"
    "ascii (ca_BaseGas (safe_wire tx))" "ascii (ca_GasPrice (safe_wire tx))"
    "ascii (ca_GasToken (safe_wire tx))" "ascii (ca_RefundReceiver (safe_wire tx))"
    "ascii (ca_Nonce (safe_wire tx))"
    using assms unfolding validSafeTransaction_def
    by (auto intro!: ascii_visible simp: safe_wire_def bigString_valid(2) normalizeAddress_valid(2) visible_0)
  then show ?thesis by (simp add: json_canonicalSafeAction_def)
qed

lemma json_canonicalSafeAction_depth: "json_depth (json_canonicalSafeAction w) \<le> maxNestingDepth"
  by (simp add: json_canonicalSafeAction_def maxNestingDepth_def json_u64_def)

lemma uint_field_word [simp]:
  fixes w :: "'n::len word"
  shows "uint_field upd (VNum (int_text 10 (uint w))) r = Some (upd (\<lambda>_. w) r)"
proof -
  have "parse_nat 10 (int_text 10 (uint w)) = Some (unat w)"
    by (simp add: int_text_def)
  moreover have "unat w < 2 ^ LENGTH('n)" by (rule unsigned_less)
  ultimately show ?thesis by (simp add: uint_field_def)
qed

lemma string_field_str [simp]: "string_field upd (VStr s) r = Some (upd (\<lambda>_. s) r)"
  by (simp add: string_field_def)

lemma unmarshal_canonicalSafeAction:
  assumes "validSafeTransaction tx"
  shows "unmarshal_struct canonicalSafeAction_fields
      (json_print (json_canonicalSafeAction (safe_wire tx))) zero_canonicalSafeAction = Some (safe_wire tx)"
proof -
  have "json_parse (json_print (json_canonicalSafeAction (safe_wire tx))) =
      Some (json_value (json_canonicalSafeAction (safe_wire tx)))"
    using json_canonicalSafeAction_ascii [OF assms] json_canonicalSafeAction_depth
    by (rule json_parse_print)
  then show ?thesis
    by (simp add: unmarshal_struct_def json_canonicalSafeAction_def json_u64_def find_field_def
        canonicalSafeAction_fields_def zero_canonicalSafeAction_def safe_wire_def)
qed

lemma wire_transaction_safe_wire:
  assumes "validSafeTransaction tx"
  shows "wire_transaction (safe_wire tx) (tx_Data tx) = canonical_tx tx"
  using assms
  by (simp add: wire_transaction_def safe_wire_def canonical_tx_def validSafeTransaction_def bigString_valid)

lemma CanonicalSafeActionArtifact_valid:
  "validSafeTransaction tx \<Longrightarrow> CanonicalSafeActionArtifact tx =
     Inr \<lparr>aa_Kind = SafeActionArtifactKind, aa_Canonical = json_print (json_canonicalSafeAction (safe_wire tx))\<rparr>"
  by (simp add: CanonicalSafeActionArtifact_def)

lemma decode_canonical:
  assumes "CanonicalSafeActionArtifact tx = Inr action"
  shows "decodeCanonicalSafeAction action = Inr (canonical_tx tx)"
proof -
  from assms have v: "validSafeTransaction tx"
    by (simp add: CanonicalSafeActionArtifact_def split: if_splits)
  with assms have a: "action = \<lparr>aa_Kind = SafeActionArtifactKind,
      aa_Canonical = json_print (json_canonicalSafeAction (safe_wire tx))\<rparr>"
    by (simp add: CanonicalSafeActionArtifact_valid)
  have d: "TrimPrefix (TrimSpace (ca_DataHex (safe_wire tx))) ''0x'' = hex_encode (tx_Data tx)"
    by (simp add: safe_wire_def)
  show ?thesis
    using json_print_head [of "json_canonicalSafeAction (safe_wire tx)"]
    by (simp add: decodeCanonicalSafeAction_def a unmarshal_canonicalSafeAction [OF v] d Let_def
        wire_transaction_safe_wire [OF v] canonical_tx_valid [OF v]
        CanonicalSafeActionArtifact_valid [OF canonical_tx_valid [OF v]] canonical_tx_wire [OF v])
qed

lemma decode_sound:
  assumes "decodeCanonicalSafeAction action = Inr tx"
  shows "validSafeTransaction tx" "CanonicalSafeActionArtifact tx = Inr action"
proof -
  from assms have k: "aa_Kind action = SafeActionArtifactKind"
    and v: "validSafeTransaction tx"
    and c: "json_print (json_canonicalSafeAction (safe_wire tx)) = aa_Canonical action"
    by (auto simp: decodeCanonicalSafeAction_def CanonicalSafeActionArtifact_def Let_def
        split: if_splits option.splits)
  from v show "validSafeTransaction tx" .
  from k c show "CanonicalSafeActionArtifact tx = Inr action"
    by (cases action) (simp add: CanonicalSafeActionArtifact_valid [OF v])
qed

text \<open>The artifact bytes, and so the action digest, determine the transaction.\<close>

lemma json_canonicalSafeAction_inject:
  "json_canonicalSafeAction a = json_canonicalSafeAction b \<Longrightarrow> a = b"
  by (cases a; cases b) (auto simp: json_canonicalSafeAction_def word_uint_eq_iff)

definition ok_action :: "canonicalSafeAction \<Rightarrow> bool" where
  "ok_action w \<longleftrightarrow> json_ascii (json_canonicalSafeAction w)"

interpretation action_binding: digest_binding json_canonicalSafeAction ok_action
  by unfold_locales (simp_all add: ok_action_def json_canonicalSafeAction_inject)

lemma safe_wire_inject:
  assumes a: "validSafeTransaction a" and b: "validSafeTransaction b" and eq: "safe_wire a = safe_wire b"
  shows "canonical_tx a = canonical_tx b"
proof -
  from eq have "tx_Data a = tx_Data b" by (simp add: safe_wire_def)
  with eq show ?thesis
    by (metis a b wire_transaction_safe_wire)
qed

lemma action_digest_binds:
  assumes a: "CanonicalSafeActionArtifact a = Inr x" and b: "CanonicalSafeActionArtifact b = Inr y"
    and d: "equalDigest (action_SHA256 x) (action_SHA256 y)"
  shows "canonical_tx a = canonical_tx b \<or> sha256_collision (aa_Canonical x) (aa_Canonical y)"
proof -
  from a b have v: "validSafeTransaction a" "validSafeTransaction b"
    by (simp_all add: CanonicalSafeActionArtifact_def split: if_splits)
  with a b have x: "aa_Canonical x = json_print (json_canonicalSafeAction (safe_wire a))"
    and y: "aa_Canonical y = json_print (json_canonicalSafeAction (safe_wire b))"
    by (auto simp: CanonicalSafeActionArtifact_valid)
  have "safe_wire a = safe_wire b \<or> sha256_collision (aa_Canonical x) (aa_Canonical y)"
    using action_binding.binds_fold [of "safe_wire a" "safe_wire b"] d v
    by (simp add: ok_action_def json_canonicalSafeAction_ascii action_SHA256_def x y json_digest_def)
  then show ?thesis using safe_wire_inject v by blast
qed

subsection \<open>Properties\<close>

text \<open>C6: The decoder is the exact inverse of the encoder: it accepts an artifact and returns a
  transaction precisely when the transaction is in canonical spelling and encodes to that very
  artifact. No second encoding of a transaction is accepted.\<close>

theorem action_decode_exact:
  "decodeCanonicalSafeAction action = Inr tx \<longleftrightarrow>
     CanonicalSafeActionArtifact tx = Inr action \<and> canonical_tx tx = tx"
  by (metis decode_canonical decode_sound(2) sum.inject(2))

text \<open>The action digest binds the whole transaction: equal digests of two canonical actions mean
  the same transaction up to address spelling, or a SHA-256 collision of the two encodings; and
  every valid transaction survives encoding and decoding.\<close>

theorem action_digest_identifies:
  assumes "CanonicalSafeActionArtifact a = Inr x" and "CanonicalSafeActionArtifact b = Inr y"
    and "equalDigest (action_SHA256 x) (action_SHA256 y)"
  shows "(canonical_tx a = canonical_tx b \<or> sha256_collision (aa_Canonical x) (aa_Canonical y)) \<and>
         decodeCanonicalSafeAction x = Inr (canonical_tx a) \<and> same_safe_tx (canonical_tx a) a"
proof -
  have "validSafeTransaction a"
    using assms(1) by (simp add: CanonicalSafeActionArtifact_def split: if_splits)
  then show ?thesis
    using action_digest_binds [OF assms] decode_canonical [OF assms(1)] canonical_tx_same by blast
qed

theorem action_digest_identifies_witness:
  "\<exists>x. CanonicalSafeActionArtifact sample_tx = Inr x \<and>
       decodeCanonicalSafeAction x = Inr (canonical_tx sample_tx)"
proof -
  obtain x where x: "CanonicalSafeActionArtifact sample_tx = Inr x"
    using CanonicalSafeActionArtifact_valid [OF sample_tx_valid] by blast
  have "equalDigest (action_SHA256 x) (action_SHA256 x)" by simp
  from action_digest_identifies [OF x x this] x show ?thesis by blast
qed

end
