(* ===== verification/Safe_Effects.thy ===== *)
theory Safe_Effects
  imports Safe_Action
begin

text \<open>
  The effect verifiers of an isolated Safe execution: the cumulative outflow budget
  (\<^verbatim>\<open>safe_effect_budget.go\<close>), the call trace (\<^verbatim>\<open>safe_trace_verifier.go\<close>) and the accessor
  entry semantics (\<^verbatim>\<open>safe_accessor_semantics.go\<close>) of \<^verbatim>\<open>internal/executionproof\<close>, with the evidence
  types of \<^verbatim>\<open>safe_isolated_runner.go\<close> they read.

  \<^verbatim>\<open>append([]T(nil), xs...)\<close> loses the difference between a nil and an empty slice before the
  JSON encoding, so the slices here are plain lists and the encoding uses \<open>append_nil\<close>.
\<close>

subsection \<open>Evidence\<close>

record SafeAssetMovement =
  am_Kind :: string
  am_Token :: string
  am_From :: string
  am_To :: string
  am_ID :: string
  am_Amount :: string

record SafeOutflowBound =
  ob_Kind :: string
  ob_Token :: string
  ob_To :: string
  ob_ID :: string
  ob_MaxAmount :: string

record SafeContainmentPolicy =
  cp_Version :: string
  cp_Safe :: string
  cp_AllowAuthority :: bool
  cp_AllowedOutflow :: "SafeOutflowBound list"

definition nonneg_decimal :: "string \<Rightarrow> bool" where
  "nonneg_decimal s = (case SetString 10 s of None \<Rightarrow> False | Some amount \<Rightarrow> 0 \<le> amount)"

definition validOutflowBound :: "SafeOutflowBound \<Rightarrow> bool" where
  "validOutflowBound b =
     (if TrimSpace (ob_Kind b) = [] \<or> \<not> validAddress (ob_To b) then False
      else if ob_Token b \<noteq> [] \<and> \<not> validAddress (ob_Token b) then False
      else nonneg_decimal (ob_MaxAmount b))"

definition validAssetMovement :: "SafeAssetMovement \<Rightarrow> bool" where
  "validAssetMovement m =
     (if TrimSpace (am_Kind m) = [] \<or> \<not> validAddress (am_From m) \<or> \<not> validAddress (am_To m) then False
      else if TrimSpace (am_Token m) \<noteq> [] \<and> \<not> validAddress (am_Token m) then False
      else nonneg_decimal (am_Amount m))"

subsection \<open>The outflow budget\<close>

record budgetKey =
  bk_kind :: string
  bk_token :: string
  bk_to :: string
  bk_id :: string

definition bound_key :: "SafeOutflowBound \<Rightarrow> budgetKey" where
  "bound_key b = \<lparr>bk_kind = ToLower (TrimSpace (ob_Kind b)), bk_token = normalizeOptionalAddress (ob_Token b),
     bk_to = normalizeAddress (ob_To b), bk_id = TrimSpace (ob_ID b)\<rparr>"

definition movement_key :: "SafeAssetMovement \<Rightarrow> budgetKey" where
  "movement_key m = \<lparr>bk_kind = ToLower (TrimSpace (am_Kind m)), bk_token = normalizeOptionalAddress (am_Token m),
     bk_to = normalizeAddress (am_To m), bk_id = TrimSpace (am_ID m)\<rparr>"

type_synonym budget = "budgetKey \<rightharpoonup> int"

text \<open>The first loop: the limits, or rejection of an invalid or repeated row.\<close>

fun addLimits :: "SafeOutflowBound list \<Rightarrow> budget \<Rightarrow> budget option" where
  "addLimits [] limits = Some limits"
| "addLimits (bound # bounds) limits =
     (if \<not> validOutflowBound bound then None
      else case SetString 10 (TrimSpace (ob_MaxAmount bound)) of
          None \<Rightarrow> None
        | Some maxAmount \<Rightarrow>
            if maxAmount < 0 then None
            else if limits (bound_key bound) \<noteq> None then None
            else addLimits bounds (limits(bound_key bound \<mapsto> maxAmount)))"

text \<open>The second loop: charge each movement out of the Safe to its limit.\<close>

fun spend :: "string \<Rightarrow> budget \<Rightarrow> SafeAssetMovement list \<Rightarrow> budget \<Rightarrow> bool" where
  "spend safe limits [] used = True"
| "spend safe limits (movement # movements) used =
     (if \<not> validAssetMovement movement then False
      else if normalizeAddress (am_From movement) \<noteq> safe then spend safe limits movements used
      else case limits (movement_key movement) of
          None \<Rightarrow> False
        | Some limit \<Rightarrow>
            (case SetString 10 (TrimSpace (am_Amount movement)) of
               None \<Rightarrow> False
             | Some amount \<Rightarrow>
                 if amount < 0 then False
                 else
                   (let total = (case used (movement_key movement) of None \<Rightarrow> 0 | Some u \<Rightarrow> u) + amount in
                    if total > limit then False
                    else spend safe limits movements (used(movement_key movement \<mapsto> total)))))"

definition VerifyOutflowBudget :: "SafeContainmentPolicy \<Rightarrow> SafeAssetMovement list \<Rightarrow> bool" where
  "VerifyOutflowBudget policy movements =
     (case addLimits (cp_AllowedOutflow policy) Map.empty of
        None \<Rightarrow> False
      | Some limits \<Rightarrow> spend (normalizeAddress (cp_Safe policy)) limits movements Map.empty)"

definition safeOutflowsWithinPolicy :: "SafeContainmentPolicy \<Rightarrow> SafeAssetMovement list \<Rightarrow> bool" where
  "safeOutflowsWithinPolicy policy movements = VerifyOutflowBudget policy movements"

text \<open>What the budget promises: the total charged to a route, whatever the order and the number of movements.\<close>

definition amount_of :: "string \<Rightarrow> int" where
  "amount_of s = (case SetString 10 (TrimSpace s) of None \<Rightarrow> 0 | Some n \<Rightarrow> n)"

definition outgoing :: "string \<Rightarrow> SafeAssetMovement list \<Rightarrow> SafeAssetMovement list" where
  "outgoing safe ms = [m \<leftarrow> ms. normalizeAddress (am_From m) = safe]"

definition route_total :: "string \<Rightarrow> budgetKey \<Rightarrow> SafeAssetMovement list \<Rightarrow> int" where
  "route_total safe k ms = (\<Sum>m\<leftarrow>outgoing safe ms. if movement_key m = k then amount_of (am_Amount m) else 0)"

definition budget_spec :: "SafeContainmentPolicy \<Rightarrow> SafeAssetMovement list \<Rightarrow> bool" where
  "budget_spec policy ms \<longleftrightarrow>
     (let bounds = cp_AllowedOutflow policy; safe = normalizeAddress (cp_Safe policy) in
      list_all validOutflowBound bounds \<and> distinct (map bound_key bounds) \<and>
      list_all validAssetMovement ms \<and>
      (\<forall>m \<in> set (outgoing safe ms). movement_key m \<in> bound_key ` set bounds) \<and>
      (\<forall>b \<in> set bounds. route_total safe (bound_key b) ms \<le> amount_of (ob_MaxAmount b)))"

text \<open>Surrounding space never makes a decimal parse: a valid amount is already trimmed.\<close>

lemma parse_digits_visible: "parse_digits 10 s acc = Some n \<Longrightarrow> list_all visible s"
  by (induction s arbitrary: acc) (auto split: option.splits if_splits dest: hex_val_visible)

lemma SetString_TrimSpace: "SetString 10 s = Some n \<Longrightarrow> TrimSpace s = s"
proof (rule TrimSpace_all_visible)
  assume "SetString 10 s = Some n"
  then show "list_all visible s"
    by (auto simp: SetString_def parse_nat_def visible_def [of "CHR ''-''"] visible_def [of "CHR ''+''"]
        simp del: parse_digits.simps split: list.splits if_splits dest!: parse_digits_visible)
qed

lemma nonneg_decimal_amount:
  "nonneg_decimal s \<longleftrightarrow> SetString 10 (TrimSpace s) = Some (amount_of s) \<and> 0 \<le> amount_of s \<and>
     SetString 10 s \<noteq> None"
  by (auto simp: nonneg_decimal_def amount_of_def SetString_TrimSpace split: option.splits)

lemma validOutflowBound_amount:
  "validOutflowBound b \<Longrightarrow> SetString 10 (TrimSpace (ob_MaxAmount b)) = Some (amount_of (ob_MaxAmount b)) \<and>
     0 \<le> amount_of (ob_MaxAmount b)"
  by (auto simp: validOutflowBound_def nonneg_decimal_amount split: if_splits)

lemma validAssetMovement_amount:
  "validAssetMovement m \<Longrightarrow> SetString 10 (TrimSpace (am_Amount m)) = Some (amount_of (am_Amount m)) \<and>
     0 \<le> amount_of (am_Amount m)"
  by (auto simp: validAssetMovement_def nonneg_decimal_amount split: if_splits)

lemma addLimits_Some:
  "addLimits bs l = Some l' \<longleftrightarrow>
     list_all validOutflowBound bs \<and> distinct (map bound_key bs) \<and>
     (\<forall>b \<in> set bs. l (bound_key b) = None) \<and>
     l' = l ++ map_of (map (\<lambda>b. (bound_key b, amount_of (ob_MaxAmount b))) bs)"
proof (induction bs arbitrary: l)
  case (Cons b bs)
  show ?case
  proof (cases "validOutflowBound b \<and> l (bound_key b) = None")
    case True
    then have eq: "addLimits (b # bs) l = addLimits bs (l(bound_key b \<mapsto> amount_of (ob_MaxAmount b)))"
      using validOutflowBound_amount [of b] by simp
    let ?m = "\<lambda>bs. map_of (map (\<lambda>b. (bound_key b, amount_of (ob_MaxAmount b))) bs)"
    show ?thesis
    proof (cases "bound_key b \<in> bound_key ` set bs")
      case True
      then obtain c where "c \<in> set bs" "bound_key c = bound_key b" by auto
      with True show ?thesis unfolding eq Cons.IH by auto
    next
      case new: False
      then have "l(bound_key b \<mapsto> amount_of (ob_MaxAmount b)) ++ ?m bs = l ++ ?m (b # bs)"
        by (simp add: map_add_upd_left dom_map_of_conv_image_fst image_image)
      moreover have "(\<forall>c \<in> set bs. (l(bound_key b \<mapsto> amount_of (ob_MaxAmount b))) (bound_key c) = None) \<longleftrightarrow>
          (\<forall>c \<in> set bs. l (bound_key c) = None)"
        using new by (metis fun_upd_other imageI)
      moreover have "list_all validOutflowBound (b # bs) = list_all validOutflowBound bs"
        "distinct (map bound_key (b # bs)) = distinct (map bound_key bs)"
        "(\<forall>c \<in> set (b # bs). l (bound_key c) = None) = (\<forall>c \<in> set bs. l (bound_key c) = None)"
        using True new by simp_all
      ultimately show ?thesis unfolding eq Cons.IH by (simp only:)
    qed
  next
    case False
    then show ?thesis
      using validOutflowBound_amount [of b] by auto
  qed
qed auto

lemma route_total_simps:
  "route_total safe k [] = 0"
  "route_total safe k (m # ms) =
     (if normalizeAddress (am_From m) = safe \<and> movement_key m = k then amount_of (am_Amount m) else 0)
     + route_total safe k ms"
  by (simp_all add: route_total_def outgoing_def)

lemma route_total_nonneg: "list_all validAssetMovement ms \<Longrightarrow> 0 \<le> route_total safe k ms"
  by (induction ms) (auto simp: route_total_simps validAssetMovement_amount)

definition spent :: "budget \<Rightarrow> budgetKey \<Rightarrow> int" where
  "spent used k = (case used k of None \<Rightarrow> 0 | Some u \<Rightarrow> u)"

lemma spent_update [simp]: "spent (used(k \<mapsto> t)) l = (if l = k then t else spent used l)"
  by (simp add: spent_def)

text \<open>
  The loop checks every running sum; because amounts are not negative, that is the same as
  checking the final sums.
\<close>

lemma spend_iff:
  assumes "\<forall>k limit. limits k = Some limit \<longrightarrow> spent used k \<le> limit"
  shows "spend safe limits ms used \<longleftrightarrow>
     list_all validAssetMovement ms \<and> (\<forall>m \<in> set (outgoing safe ms). limits (movement_key m) \<noteq> None) \<and>
     (\<forall>k limit. limits k = Some limit \<longrightarrow> spent used k + route_total safe k ms \<le> limit)"
  using assms
proof (induction ms arbitrary: used)
  case Nil
  then show ?case by (simp add: route_total_simps outgoing_def)
next
  case (Cons m ms)
  show ?case
  proof (cases "validAssetMovement m \<and> normalizeAddress (am_From m) = safe")
    case False
    with Cons show ?thesis by (auto simp: route_total_simps outgoing_def)
  next
    case va: True
    let ?k = "movement_key m" and ?a = "amount_of (am_Amount m)"
    from va have a: "SetString 10 (TrimSpace (am_Amount m)) = Some ?a" "0 \<le> ?a"
      using validAssetMovement_amount by blast+
    show ?thesis
    proof (cases "limits ?k")
      case None
      with va show ?thesis by (auto simp: outgoing_def)
    next
      case (Some limit)
      have step: "spend safe limits (m # ms) used \<longleftrightarrow>
          spent used ?k + ?a \<le> limit \<and> spend safe limits ms (used(?k \<mapsto> spent used ?k + ?a))"
        using va Some a by (auto simp: spent_def Let_def)
      show ?thesis
      proof (cases "spent used ?k + ?a \<le> limit")
        case True
        then have "\<forall>k limit. limits k = Some limit \<longrightarrow> spent (used(?k \<mapsto> spent used ?k + ?a)) k \<le> limit"
          using Cons.prems Some by simp
        from Cons.IH [OF this] have "spend safe limits (m # ms) used \<longleftrightarrow>
            list_all validAssetMovement ms \<and> (\<forall>m \<in> set (outgoing safe ms). limits (movement_key m) \<noteq> None) \<and>
            (\<forall>k limit. limits k = Some limit \<longrightarrow>
               (if k = ?k then spent used ?k + ?a else spent used k) + route_total safe k ms \<le> limit)"
          using step True by (simp only: spent_update simp_thms)
        moreover have "(if k = ?k then spent used ?k + ?a else spent used k) + route_total safe k ms =
            spent used k + route_total safe k (m # ms)" for k
          using va by (simp add: route_total_simps)
        moreover have "outgoing safe (m # ms) = m # outgoing safe ms"
          using va by (simp add: outgoing_def)
        ultimately show ?thesis using va Some by simp
      next
        case False
        have "\<not> (list_all validAssetMovement ms \<and> spent used ?k + route_total safe ?k (m # ms) \<le> limit)"
          using False route_total_nonneg [of ms safe ?k] va by (auto simp: route_total_simps)
        with False step Some show ?thesis by (simp only: list_all_iff list.set) blast
      qed
    qed
  qed
qed

lemma VerifyOutflowBudget_iff: "VerifyOutflowBudget policy ms \<longleftrightarrow> budget_spec policy ms"
proof (cases "list_all validOutflowBound (cp_AllowedOutflow policy) \<and>
    distinct (map bound_key (cp_AllowedOutflow policy))")
  case False
  then have "addLimits (cp_AllowedOutflow policy) Map.empty = None"
    using addLimits_Some [of "cp_AllowedOutflow policy" Map.empty] by (metis not_None_eq)
  with False show ?thesis by (auto simp: VerifyOutflowBudget_def budget_spec_def Let_def)
next
  case True
  let ?bs = "cp_AllowedOutflow policy" and ?safe = "normalizeAddress (cp_Safe policy)"
  let ?l = "map_of (map (\<lambda>b. (bound_key b, amount_of (ob_MaxAmount b))) ?bs)"
  from True have l: "addLimits ?bs Map.empty = Some ?l"
    by (simp add: addLimits_Some)
  have dom: "?l k \<noteq> None \<longleftrightarrow> k \<in> bound_key ` set ?bs" for k
    by (simp add: map_of_eq_None_iff image_image del: not_None_eq)
  have val: "?l k = Some n \<longleftrightarrow> (\<exists>b \<in> set ?bs. k = bound_key b \<and> n = amount_of (ob_MaxAmount b))" for k n
    using True by (subst map_of_eq_Some_iff) (auto simp: comp_def)
  have "\<forall>k limit. ?l k = Some limit \<longrightarrow> spent Map.empty k \<le> limit"
    using True validOutflowBound_amount by (auto simp: val spent_def list_all_iff)
  from spend_iff [OF this, of ?safe ms]
  have "VerifyOutflowBudget policy ms \<longleftrightarrow>
      list_all validAssetMovement ms \<and> (\<forall>m \<in> set (outgoing ?safe ms). ?l (movement_key m) \<noteq> None) \<and>
      (\<forall>k limit. ?l k = Some limit \<longrightarrow> route_total ?safe k ms \<le> limit)"
    by (simp only: VerifyOutflowBudget_def l option.case) (simp add: spent_def)
  with True show ?thesis
    unfolding budget_spec_def Let_def dom val by blast
qed

lemma budget_spec_swap: "budget_spec policy (ms @ ns) \<longleftrightarrow> budget_spec policy (ns @ ms)"
  by (auto simp: budget_spec_def Let_def outgoing_def route_total_def add.commute)

subsection \<open>Properties\<close>

text \<open>C9: The outflow budget is cumulative and exact: the verifier accepts exactly the movements that
  are all valid, leave the Safe only on approved routes, and whose sums per route stay within
  the route's maximum, under a policy without invalid or repeated rows. Splitting or reordering
  transfers changes nothing.\<close>

theorem outflow_budget_exact:
  "(VerifyOutflowBudget policy ms \<longleftrightarrow> budget_spec policy ms) \<and>
   VerifyOutflowBudget policy (ms @ ns) = VerifyOutflowBudget policy (ns @ ms)"
  using VerifyOutflowBudget_iff budget_spec_swap by blast

end
