(* ===== verification/Safe_Trace.thy ===== *)
theory Safe_Trace
  imports Safe_Action
begin

text \<open>
  \<^verbatim>\<open>internal/executionproof/safe_trace_verifier.go\<close> and \<^verbatim>\<open>safe_accessor_semantics.go\<close>: the
  call trace of an isolated execution, its digest, and the check that the execution entered
  through Safe's accessor delegatecall with exactly the approved action. Depths are
  \<^verbatim>\<open>uint64\<close>, so the increment in the depth check wraps.
\<close>

record SafeTraceFrame =
  tf_Depth :: u64
  tf_Type :: string
  tf_From :: string
  tf_To :: string
  tf_InputSHA256 :: string
  tf_Value :: string
  tf_Success :: bool

record SafeTraceEvidence =
  te_RootSafe :: string
  te_Frames :: "SafeTraceFrame list"
  te_Truncated :: bool
  te_TraceSHA256 :: string

definition json_SafeTraceFrame :: "SafeTraceFrame \<Rightarrow> json" where
  "json_SafeTraceFrame f = JObj
    [(''depth'', json_u64 (tf_Depth f)), (''type'', JStr (tf_Type f)), (''from'', JStr (tf_From f)),
     (''to'', JStr (tf_To f)), (''input_sha256'', JStr (tf_InputSHA256 f)),
     (''value'', JStr (tf_Value f)), (''success'', JBool (tf_Success f))]"

text \<open>The identity form of a frame, as the digest loop rewrites it.\<close>

definition canonical_frame :: "SafeTraceFrame \<Rightarrow> SafeTraceFrame" where
  "canonical_frame f =
     f\<lparr>tf_Type := ToLower (TrimSpace (tf_Type f)), tf_From := normalizeAddress (tf_From f),
       tf_To := normalizeAddress (tf_To f),
       tf_InputSHA256 := ToLower (TrimPrefix (TrimSpace (tf_InputSHA256 f)) ''0x''),
       tf_Value := TrimSpace (tf_Value f)\<rparr>"

definition json_trace :: "string \<times> SafeTraceFrame list \<times> bool \<Rightarrow> json" where
  "json_trace = (\<lambda>(root, frames, truncated). JObj
     [(''root_safe'', JStr root), (''frames'', json_slice json_SafeTraceFrame (append_nil frames)),
      (''truncated'', JBool truncated)])"

definition trace_payload :: "SafeTraceEvidence \<Rightarrow> string \<times> SafeTraceFrame list \<times> bool" where
  "trace_payload trace =
     (normalizeAddress (te_RootSafe trace), map canonical_frame (te_Frames trace), te_Truncated trace)"

definition safeTraceDigest :: "SafeTraceEvidence \<Rightarrow> string" where
  "safeTraceDigest trace = json_digest (json_trace (trace_payload trace))"

definition trace_kinds :: "string list" where
  "trace_kinds = [''call'', ''delegatecall'', ''staticcall'', ''create'', ''create2'']"

text \<open>The loop over the frames; \<open>prev\<close> is the frame before, if any.\<close>

fun traceFramesOk :: "SafeTraceFrame option \<Rightarrow> SafeTraceFrame list \<Rightarrow> bool" where
  "traceFramesOk prev [] = True"
| "traceFramesOk prev (frame # frames) =
     (let kind = ToLower (TrimSpace (tf_Type frame)) in
      if kind \<notin> set trace_kinds then False
      else if \<not> validAddress (tf_From frame) \<or> \<not> validAddress (tf_To frame) \<or>
              \<not> validSHA256Text (tf_InputSHA256 frame) then False
      else if (case prev of None \<Rightarrow> False | Some p \<Rightarrow> tf_Depth frame > tf_Depth p + 1) then False
      else traceFramesOk (Some frame) frames)"

definition VerifySafeTrace :: "SafeTraceEvidence \<Rightarrow> bool" where
  "VerifySafeTrace trace =
     (if \<not> validAddress (te_RootSafe trace) \<or> te_Truncated trace \<or> length (te_Frames trace) = 0 \<or>
         \<not> validSHA256Text (te_TraceSHA256 trace) then False
      else if tf_Depth (te_Frames trace ! 0) \<noteq> 0 \<or>
              normalizeAddress (tf_From (te_Frames trace ! 0)) \<noteq> normalizeAddress (te_RootSafe trace) \<or>
              \<not> tf_Success (te_Frames trace ! 0) then False
      else if \<not> traceFramesOk None (te_Frames trace) then False
      else EqualFold (TrimPrefix (TrimSpace (te_TraceSHA256 trace)) ''0x'') (safeTraceDigest trace))"

text \<open>
  \<^verbatim>\<open>canonicalizeTraceFrames\<close>: a stable sort by depth, then caller, then callee; three stable
  sorts by one key each, the most significant last.
\<close>

definition canonicalizeTraceFrames :: "SafeTraceFrame list \<Rightarrow> SafeTraceFrame list" where
  "canonicalizeTraceFrames frames =
     sort_key tf_Depth (sort_key (\<lambda>f. normalizeAddress (tf_From f))
       (sort_key (\<lambda>f. normalizeAddress (tf_To f)) frames))"

subsection \<open>The call tree\<close>

text \<open>
  What the depth check means: depths start at zero and never skip a level, so a frame at depth
  \<open>d > 0\<close> has an earlier frame at depth \<open>d - 1\<close>, its caller's level.
\<close>

definition depths_nested :: "SafeTraceFrame list \<Rightarrow> bool" where
  "depths_nested fs \<longleftrightarrow>
     (\<forall>i < length fs. unat (tf_Depth (fs ! i)) \<le> i \<and>
        (tf_Depth (fs ! i) \<noteq> 0 \<longrightarrow> (\<exists>j < i. unat (tf_Depth (fs ! j)) + 1 = unat (tf_Depth (fs ! i)))))"

lemma traceFramesOk_step:
  "traceFramesOk prev fs \<Longrightarrow> Suc i < length fs \<Longrightarrow> tf_Depth (fs ! Suc i) \<le> tf_Depth (fs ! i) + 1"
proof (induction fs arbitrary: prev i)
  case (Cons f fs)
  then show ?case
    by (cases i; cases fs) (auto simp: Let_def not_less split: if_splits)
qed simp

lemma traceFramesOk_frame:
  "traceFramesOk prev fs \<Longrightarrow> f \<in> set fs \<Longrightarrow> validAddress (tf_From f) \<and> validAddress (tf_To f) \<and>
     validSHA256Text (tf_InputSHA256 f) \<and> ToLower (TrimSpace (tf_Type f)) \<in> set trace_kinds"
  by (induction fs arbitrary: prev) (auto simp: Let_def split: if_splits)

lemma word_le_plus_1: "(a :: u64) \<le> b + 1 \<Longrightarrow> unat a \<le> unat b + 1"
proof -
  assume "a \<le> b + 1"
  then have "unat a \<le> unat (b + 1)" by (simp add: word_le_nat_alt)
  also have "\<dots> \<le> unat b + 1" by (simp add: unat_word_ariths)
  finally show ?thesis .
qed

lemma nat_steps_hit:
  fixes g :: "nat \<Rightarrow> nat"
  assumes "g 0 = 0" and "\<And>i. i < n \<Longrightarrow> g (Suc i) \<le> g i + 1" and "0 < g n"
  shows "\<exists>j < n. g j + 1 = g n"
  using assms
proof (induction n)
  case (Suc n)
  show ?case
  proof (cases "g (Suc n) = g n + 1")
    case False
    then have le: "g (Suc n) \<le> g n" using Suc.prems(2) [of n] by linarith
    show ?thesis
    proof (rule ccontr)
      assume no: "\<not> ?thesis"
      have "g i < g (Suc n)" if "i \<le> n" for i
        using that
      proof (induction i)
        case 0
        then show ?case using Suc.prems(1,3) by simp
      next
        case (Suc i)
        then have "g (Suc i) \<le> g i + 1" "g i < g (Suc n)"
          using \<open>\<And>i. i < Suc n \<Longrightarrow> g (Suc i) \<le> g i + 1\<close> by simp_all
        moreover have "g i + 1 \<noteq> g (Suc n)" using no Suc.prems by auto
        ultimately show ?case by simp
      qed
      then show False using le by fastforce
    qed
  qed auto
qed simp

lemma VerifySafeTrace_depths:
  assumes "VerifySafeTrace t"
  shows "depths_nested (te_Frames t)"
proof -
  let ?fs = "te_Frames t"
  let ?g = "\<lambda>i. unat (tf_Depth (?fs ! i))"
  from assms have ok: "traceFramesOk None ?fs" and 0: "?g 0 = 0"
    by (auto simp: VerifySafeTrace_def split: if_splits)
  have step: "?g (Suc i) \<le> ?g i + 1" if "Suc i < length ?fs" for i
    using traceFramesOk_step [OF ok that] by (rule word_le_plus_1)
  have le: "?g i \<le> i" if "i < length ?fs" for i
    using that
  proof (induction i)
    case (Suc i)
    then show ?case using step [of i] by simp
  qed (simp add: 0)
  moreover have "\<exists>j < i. ?g j + 1 = ?g i" if "i < length ?fs" "tf_Depth (?fs ! i) \<noteq> 0" for i
    using nat_steps_hit [of ?g i] 0 step that by (simp add: unat_gt_0)
  ultimately show ?thesis by (auto simp: depths_nested_def)
qed

subsection \<open>The trace digest\<close>

definition ok_trace :: "string \<times> SafeTraceFrame list \<times> bool \<Rightarrow> bool" where
  "ok_trace p \<longleftrightarrow> json_ascii (json_trace p)"

lemma json_SafeTraceFrame_inject: "json_SafeTraceFrame a = json_SafeTraceFrame b \<Longrightarrow> a = b"
  by (cases a; cases b) (simp add: json_SafeTraceFrame_def)

interpretation trace_binding: digest_binding json_trace ok_trace
proof
  fix a b assume "json_trace a = json_trace b"
  then show "a = b"
    by (cases a; cases b) (auto simp: json_trace_def dest!: json_slice_inject [rotated] json_SafeTraceFrame_inject)
qed (simp add: ok_trace_def)

lemma VerifySafeTrace_digest:
  "VerifySafeTrace t \<Longrightarrow> EqualFold (TrimPrefix (TrimSpace (te_TraceSHA256 t)) ''0x'') (safeTraceDigest t)"
  by (auto simp: VerifySafeTrace_def split: if_splits)

subsection \<open>Accessor semantics\<close>

text \<open>The ABI calldata of \<^verbatim>\<open>simulate(address,uint256,bytes,uint8)\<close>.\<close>

definition accessor_signature :: string where
  "accessor_signature = ''simulate(address,uint256,bytes,uint8)''"

definition padded_length :: "nat \<Rightarrow> nat" where
  "padded_length n = ((n + 31) div 32) * 32"

definition safeAccessorSimulateCalldataSHA256 :: "keccak \<Rightarrow> SafeTransaction \<Rightarrow> string option" where
  "safeAccessorSimulateCalldataSHA256 K tx =
     (if \<not> validSafeTransaction tx then None
      else
        let selectorHash = keccak256 K accessor_signature in
        (case addressWord (tx_To tx) of Inl _ \<Rightarrow> None | Inr toWord \<Rightarrow>
        (case uintWord (tx_Value tx) of Inl _ \<Rightarrow> None | Inr valueWord \<Rightarrow>
        (case uintWord (Some 128) of Inl _ \<Rightarrow> None | Inr offsetWord \<Rightarrow>
        (case uintWord (Some (uint (tx_Operation tx))) of Inl _ \<Rightarrow> None | Inr opWord \<Rightarrow>
        (case uintWord (Some (uint (of_nat (length (tx_Data tx)) :: u64))) of Inl _ \<Rightarrow> None
         | Inr lengthWord \<Rightarrow>
           (let padded = padded_length (length (tx_Data tx));
                calldata = take 4 selectorHash @ toWord @ valueWord @ offsetWord @ opWord @ lengthWord @
                  tx_Data tx @ zero_bytes (padded - length (tx_Data tx))
            in Some (sha256Hex calldata))))))))"

definition VerifyAccessorSemantics :: "keccak \<Rightarrow> string \<Rightarrow> SafeTransaction \<Rightarrow> SafeTraceEvidence \<Rightarrow> bool" where
  "VerifyAccessorSemantics K accessor tx trace =
     (if \<not> validSafeTransaction tx \<or> \<not> validAddress accessor \<or> \<not> VerifySafeTrace trace then False
      else if normalizeAddress (te_RootSafe trace) \<noteq> normalizeAddress (tx_Safe tx) \<or>
              length (te_Frames trace) < 2 then False
      else (case safeAccessorSimulateCalldataSHA256 K tx of
          None \<Rightarrow> False
        | Some expectedInput \<Rightarrow>
            (let entry = te_Frames trace ! 0 in
             if tf_Depth entry \<noteq> 0 \<or> ToLower (TrimSpace (tf_Type entry)) \<noteq> ''delegatecall'' \<or>
                normalizeAddress (tf_From entry) \<noteq> normalizeAddress (tx_Safe tx) \<or>
                normalizeAddress (tf_To entry) \<noteq> normalizeAddress accessor \<or>
                \<not> EqualFold (TrimPrefix (TrimSpace (tf_InputSHA256 entry)) ''0x'') expectedInput \<or>
                \<not> tf_Success entry then False
             else
               (let exec = te_Frames trace ! 1;
                    expectedKind = (if tx_Operation tx = 1 then ''delegatecall'' else ''call'') in
                if tf_Depth exec \<noteq> 1 \<or> ToLower (TrimSpace (tf_Type exec)) \<noteq> expectedKind \<or>
                   normalizeAddress (tf_From exec) \<noteq> normalizeAddress (tx_Safe tx) \<or>
                   normalizeAddress (tf_To exec) \<noteq> normalizeAddress (tx_To tx) \<or>
                   \<not> tf_Success exec then False
                else (case SetString 10 (TrimSpace (tf_Value exec)) of
                        None \<Rightarrow> False
                      | Some amount \<Rightarrow> Some amount = tx_Value tx)))))"

definition accessor_calldata :: "keccak \<Rightarrow> SafeTransaction \<Rightarrow> string" where
  "accessor_calldata K tx =
     take 4 (keccak256 K accessor_signature) @ address_word (tx_To tx) @ be_bytes 32 (the (tx_Value tx)) @
     be_bytes 32 128 @ be_bytes 32 (uint (tx_Operation tx)) @
     be_bytes 32 (uint (of_nat (length (tx_Data tx)) :: u64)) @ tx_Data tx @
     zero_bytes (padded_length (length (tx_Data tx)) - length (tx_Data tx))"

lemma safeAccessorSimulateCalldata_valid:
  assumes "validSafeTransaction tx"
  shows "safeAccessorSimulateCalldataSHA256 K tx = Some (sha256Hex (accessor_calldata K tx))"
proof -
  from assms have "addressWord (tx_To tx) = Inr (address_word (tx_To tx))"
    "uintWord (tx_Value tx) = Inr (be_bytes 32 (the (tx_Value tx)))"
    by (simp_all add: validSafeTransaction_def addressWord_valid uintWord_valid)
  moreover have "uintWord (Some 128) = Inr (be_bytes 32 128)"
    by (rule uintWord_Some) simp_all
  ultimately show ?thesis
    unfolding safeAccessorSimulateCalldataSHA256_def accessor_calldata_def uintWord_u8 uintWord_u64
    using assms by (simp add: Let_def)
qed

lemma validSafeTransaction_operation:
  assumes "validSafeTransaction tx"
  obtains "tx_Operation tx = 0" | "tx_Operation tx = 1"
proof -
  from assms have "unat (tx_Operation tx) \<le> 1"
    by (simp add: validSafeTransaction_def word_le_nat_alt)
  then have "unat (tx_Operation tx) = 0 \<or> unat (tx_Operation tx) = 1" by arith
  then show thesis using that by (metis unat_0 unat_1 word_unat_eq_iff)
qed

lemma accessor_calldata_inject:
  assumes v: "validSafeTransaction a" "validSafeTransaction b"
    and n: "length (tx_Data a) < 2 ^ 63" "length (tx_Data b) < 2 ^ 63"
    and eq: "accessor_calldata K a = accessor_calldata K b"
  shows "address_bytes (tx_To a) = address_bytes (tx_To b) \<and> tx_Value a = tx_Value b \<and>
         tx_Operation a = tx_Operation b \<and> tx_Data a = tx_Data b"
proof -
  note d = v(1) [unfolded validSafeTransaction_def] v(2) [unfolded validSafeTransaction_def]
  from eq d have w: "address_word (tx_To a) = address_word (tx_To b)"
    "be_bytes 32 (the (tx_Value a)) = be_bytes 32 (the (tx_Value b))"
    "be_bytes 32 (uint (tx_Operation a)) = be_bytes 32 (uint (tx_Operation b))"
    "be_bytes 32 (uint (of_nat (length (tx_Data a)) :: u64)) =
     be_bytes 32 (uint (of_nat (length (tx_Data b)) :: u64))"
    and t: "tx_Data a @ zero_bytes (padded_length (length (tx_Data a)) - length (tx_Data a)) =
      tx_Data b @ zero_bytes (padded_length (length (tx_Data b)) - length (tx_Data b))"
    by (simp_all add: accessor_calldata_def length_address_word)
  from w(4) have "(of_nat (length (tx_Data a)) :: u64) = of_nat (length (tx_Data b))"
    by (intro be_bytes_32_uint_inject) simp_all
  then have "unat (of_nat (length (tx_Data a)) :: u64) = unat (of_nat (length (tx_Data b)) :: u64)"
    by simp
  then have "length (tx_Data a) = length (tx_Data b)"
    using n by (simp add: unat_of_nat)
  with t have "tx_Data a = tx_Data b" by simp
  moreover have "tx_Operation a = tx_Operation b"
    using w(3) by (intro be_bytes_32_uint_inject) simp_all
  ultimately show ?thesis
    using w d by (simp add: address_word_def be_bytes_32_inject)
qed

lemma VerifyAccessor_calldata:
  assumes "VerifyAccessorSemantics K accessor tx t"
  shows "validSafeTransaction tx" "VerifySafeTrace t" "2 \<le> length (te_Frames t)"
    "EqualFold (TrimPrefix (TrimSpace (tf_InputSHA256 (te_Frames t ! 0))) ''0x'') (sha256Hex (accessor_calldata K tx))"
    "normalizeAddress (te_RootSafe t) = normalizeAddress (tx_Safe tx)"
    "ToLower (TrimSpace (tf_Type (te_Frames t ! 0))) = ''delegatecall''"
    "normalizeAddress (tf_To (te_Frames t ! 1)) = normalizeAddress (tx_To tx)"
    "ToLower (TrimSpace (tf_Type (te_Frames t ! 1))) =
       (if tx_Operation tx = 1 then ''delegatecall'' else ''call'')"
    "SetString 10 (TrimSpace (tf_Value (te_Frames t ! 1))) = tx_Value tx"
  using assms unfolding VerifyAccessorSemantics_def
  by (auto simp: safeAccessorSimulateCalldata_valid Let_def not_less split: if_splits option.splits)

lemma normalizeAddress_bytes:
  assumes "validAddress a" "validAddress b" "normalizeAddress a = normalizeAddress b"
  shows "address_bytes a = address_bytes b"
  using assms by (metis normalizeAddress_valid(5))

subsection \<open>A concrete trace\<close>

definition sample_frame :: "u64 \<Rightarrow> string \<Rightarrow> string \<Rightarrow> string \<Rightarrow> SafeTraceFrame" where
  "sample_frame d kind input value =
     \<lparr>tf_Depth = d, tf_Type = kind, tf_From = sample_target, tf_To = sample_target,
      tf_InputSHA256 = input, tf_Value = value, tf_Success = True\<rparr>"

definition sample_trace :: "keccak \<Rightarrow> SafeTraceEvidence" where
  "sample_trace K =
     (let t = \<lparr>te_RootSafe = sample_target,
               te_Frames = [sample_frame 0 ''delegatecall'' (sha256Hex (accessor_calldata K sample_tx)) ''0'',
                            sample_frame 1 ''call'' (sha256Hex ''transfer'') ''5''],
               te_Truncated = False, te_TraceSHA256 = []\<rparr>
      in t\<lparr>te_TraceSHA256 := safeTraceDigest t\<rparr>)"

lemma sample_trace_digest: "te_TraceSHA256 (sample_trace K) = safeTraceDigest (sample_trace K)"
  by (simp add: sample_trace_def Let_def safeTraceDigest_def trace_payload_def)

lemma sample_trace_fields [simp]:
  "te_RootSafe (sample_trace K) = sample_target" "te_Truncated (sample_trace K) = False"
  "te_Frames (sample_trace K) = [sample_frame 0 ''delegatecall'' (sha256Hex (accessor_calldata K sample_tx)) ''0'',
     sample_frame 1 ''call'' (sha256Hex ''transfer'') ''5'']"
  by (simp_all add: sample_trace_def Let_def)

lemma strip_hex_digest [simp]: "TrimPrefix (sha256Hex s) ''0x'' = sha256Hex s"
  by (rule TrimPrefix_0x_hex) simp

lemma validSHA256Text_sha256Hex [simp]: "validSHA256Text (sha256Hex s)"
  by (simp add: validSHA256Text_def Let_def)

lemma sample_kinds:
  "ToLower (TrimSpace ''call'') = ''call''" "ToLower (TrimSpace ''delegatecall'') = ''delegatecall''"
  by (simp_all add: TrimSpace_all_visible visible_def ToLower_def lower_char_def)

lemma sample_trace_text:
  assumes "validSHA256Text x" and "EqualFold (TrimPrefix (TrimSpace x) ''0x'') (safeTraceDigest (sample_trace K))"
  shows "VerifySafeTrace (sample_trace K\<lparr>te_TraceSHA256 := x\<rparr>)"
proof -
  have "traceFramesOk None (te_Frames (sample_trace K))"
    by (simp add: sample_frame_def sample_kinds trace_kinds_def sample_target_valid Let_def)
  moreover have "safeTraceDigest (sample_trace K\<lparr>te_TraceSHA256 := x\<rparr>) = safeTraceDigest (sample_trace K)"
    by (simp add: safeTraceDigest_def trace_payload_def)
  ultimately show ?thesis
    using assms by (simp add: VerifySafeTrace_def sample_target_valid sample_frame_def)
qed

lemma sample_trace_verifies: "VerifySafeTrace (sample_trace K)"
proof -
  have "VerifySafeTrace (sample_trace K\<lparr>te_TraceSHA256 := safeTraceDigest (sample_trace K)\<rparr>)"
    by (rule sample_trace_text) (simp_all add: safeTraceDigest_def json_digest_def)
  moreover have "sample_trace K\<lparr>te_TraceSHA256 := safeTraceDigest (sample_trace K)\<rparr> = sample_trace K"
    by (simp flip: sample_trace_digest)
  ultimately show ?thesis by simp
qed

lemma sample_trace_accessor: "VerifyAccessorSemantics K sample_target sample_tx (sample_trace K)"
proof -
  have "SetString 10 (TrimSpace ''5'') = Some 5"
    by (simp add: TrimSpace_all_visible visible_def SetString_def parse_nat_def hex_val_def)
  then show ?thesis
    unfolding VerifyAccessorSemantics_def
    by (simp add: sample_tx_valid sample_target_valid sample_trace_verifies
        safeAccessorSimulateCalldata_valid Let_def)
       (simp add: sample_frame_def sample_kinds sample_tx_def)
qed

subsection \<open>Properties\<close>

text \<open>A verified trace is a call tree rooted at the Safe: depths start at zero, frame \<open>i\<close> is at
  most at depth \<open>i\<close> (so the wrapping increment of the check never wraps), and every nested frame
  has an earlier frame one level up; every frame names valid addresses and a call kind.\<close>

theorem trace_call_tree:
  assumes "VerifySafeTrace t"
  shows "depths_nested (te_Frames t) \<and> te_Frames t \<noteq> [] \<and> \<not> te_Truncated t \<and>
         normalizeAddress (tf_From (hd (te_Frames t))) = normalizeAddress (te_RootSafe t) \<and>
         (\<forall>f \<in> set (te_Frames t). validAddress (tf_From f) \<and> validAddress (tf_To f) \<and>
            ToLower (TrimSpace (tf_Type f)) \<in> set trace_kinds)"
  using VerifySafeTrace_depths [OF assms] assms traceFramesOk_frame
  by (auto simp: VerifySafeTrace_def hd_conv_nth split: if_splits)

theorem trace_call_tree_witness:
  "depths_nested (te_Frames (sample_trace Sum256)) \<and> length (te_Frames (sample_trace Sum256)) = 2"
  using trace_call_tree [OF sample_trace_verifies, of Sum256] by simp

text \<open>A trace cannot be edited under its digest: two verified traces with one digest have the same
  root and the same canonical frames, unless the two digested encodings are a SHA-256
  collision.\<close>

theorem trace_digest_binds:
  assumes "VerifySafeTrace s" and "VerifySafeTrace t"
    and "ok_trace (trace_payload s)" and "ok_trace (trace_payload t)"
    and "equalHex32 (te_TraceSHA256 s) (te_TraceSHA256 t)"
  shows "trace_payload s = trace_payload t \<or>
         sha256_collision (json_print (json_trace (trace_payload s))) (json_print (json_trace (trace_payload t)))"
proof (rule trace_binding.binds_fold)
  show "equalDigest (json_digest (json_trace (trace_payload s))) (json_digest (json_trace (trace_payload t)))"
    using VerifySafeTrace_digest [OF assms(1)] VerifySafeTrace_digest [OF assms(2)] assms(5)
    unfolding safeTraceDigest_def equalHex32_def equalDigest_def Let_def
    by (meson EqualFold_sym EqualFold_trans)
qed (use assms in simp_all)

theorem trace_digest_binds_witness:
  "(let s = sample_trace Sum256; t = s\<lparr>te_TraceSHA256 := ''0x'' @ te_TraceSHA256 s\<rparr> in
    s \<noteq> t \<and> VerifySafeTrace t \<and>
    (trace_payload s = trace_payload t \<or>
     sha256_collision (json_print (json_trace (trace_payload s))) (json_print (json_trace (trace_payload t)))))"
proof -
  let ?s = "sample_trace Sum256" and ?d = "safeTraceDigest (sample_trace Sum256)"
  let ?t = "?s\<lparr>te_TraceSHA256 := ''0x'' @ ?d\<rparr>"
  have p: "trace_payload ?t = trace_payload ?s" by (simp add: trace_payload_def)
  have v: "VerifySafeTrace ?t"
    by (rule sample_trace_text) (simp_all add: safeTraceDigest_def json_digest_def validSHA256Text_def Let_def)
  have "ascii (normalizeAddress sample_target)"
    using normalizeAddress_valid(2) [OF sample_target_valid] by (rule ascii_visible)
  moreover have "ToLower ''call'' = ''call''" "ToLower ''delegatecall'' = ''delegatecall''"
    by (simp_all add: ToLower_def lower_char_def)
  ultimately have ok: "ok_trace (trace_payload ?s)"
    by (simp add: ok_trace_def trace_payload_def json_trace_def json_slice_def append_nil_def
        json_SafeTraceFrame_def canonical_frame_def sample_frame_def sample_kinds
        TrimSpace_all_visible visible_def)
  have "equalHex32 (te_TraceSHA256 ?s) (te_TraceSHA256 ?t)"
    unfolding sample_trace_digest by (simp add: equalHex32_def Let_def safeTraceDigest_def json_digest_def)
  note bound = trace_digest_binds [OF sample_trace_verifies v ok ok [folded p] this]
  have "te_TraceSHA256 ?s \<noteq> te_TraceSHA256 ?t"
    unfolding sample_trace_digest by simp
  then have "?s \<noteq> ?t" by (rule contrapos_nn) (rule arg_cong)
  with bound v show ?thesis
    unfolding Let_def sample_trace_digest by blast
qed

text \<open>The accessor check ties a trace to one action: if a trace is accepted as the execution of two
  transactions, they have the same Safe, target, value, operation and calldata, unless the two
  simulated calldata strings are a SHA-256 collision. (A Go slice has fewer than \<open>2 ^ 63\<close>
  bytes.)\<close>

theorem accessor_action_unique:
  assumes a: "VerifyAccessorSemantics K accessor a t" and b: "VerifyAccessorSemantics K accessor' b t"
    and n: "length (tx_Data a) < 2 ^ 63" "length (tx_Data b) < 2 ^ 63"
  shows "address_bytes (tx_Safe a) = address_bytes (tx_Safe b) \<and>
         (address_bytes (tx_To a) = address_bytes (tx_To b) \<and> tx_Value a = tx_Value b \<and>
          tx_Operation a = tx_Operation b \<and> tx_Data a = tx_Data b \<or>
          sha256_collision (accessor_calldata K a) (accessor_calldata K b))"
proof
  note va = VerifyAccessor_calldata [OF a] and vb = VerifyAccessor_calldata [OF b]
  show "address_bytes (tx_Safe a) = address_bytes (tx_Safe b)"
    using va(1,5) vb(1,5) by (metis normalizeAddress_bytes validSafeTransaction_def)
  have "EqualFold (sha256Hex (accessor_calldata K a)) (sha256Hex (accessor_calldata K b))"
    using va(4) vb(4) by (meson EqualFold_sym EqualFold_trans)
  then have "sha256Hex (accessor_calldata K a) = sha256Hex (accessor_calldata K b)"
    by (simp add: EqualFold_def)
  then show "address_bytes (tx_To a) = address_bytes (tx_To b) \<and> tx_Value a = tx_Value b \<and>
      tx_Operation a = tx_Operation b \<and> tx_Data a = tx_Data b \<or>
      sha256_collision (accessor_calldata K a) (accessor_calldata K b)"
    using sha256Hex_eq accessor_calldata_inject [OF va(1) vb(1) n] by blast
qed

theorem accessor_action_unique_witness:
  "VerifyAccessorSemantics Sum256 sample_target sample_tx (sample_trace Sum256) \<and>
   address_bytes (tx_Safe sample_tx) = address_bytes (tx_Safe sample_tx)"
proof -
  have "length (tx_Data sample_tx) < 2 ^ 63" by (simp add: sample_tx_def)
  from accessor_action_unique [OF sample_trace_accessor sample_trace_accessor this this]
  show ?thesis using sample_trace_accessor by blast
qed

end
