(* ===== verification/Safe_Forward.thy ===== *)
theory Safe_Forward
  imports Safe_Action
begin

text \<open>
  \<^verbatim>\<open>internal/executionproof/safe_adapter.go\<close> (authorisation), \<^verbatim>\<open>safe_forward.go\<close> and
  \<^verbatim>\<open>containment_forward.go\<close>: the boundary that forwards a Safe transaction. The forwarder is
  the only side effect, so its calls are recorded in a log that every operation threads.
\<close>

definition EPSafeHashMismatch :: ReasonCode where "EPSafeHashMismatch = ''EP-009-SAFE-HASH-MISMATCH''"

record SafeForwardRequest =
  fr_Transaction :: SafeTransaction
  fr_PresentedSafeHash :: string

text \<open>\<^verbatim>\<open>SafeTxHashComputer\<close> and \<^verbatim>\<open>SafeForwarder\<close>, the two interfaces of the boundary.\<close>

type_synonym SafeTxHashComputer = "SafeTransaction \<Rightarrow> go_error + string"
type_synonym SafeForwarder = "ctx \<Rightarrow> SafeForwardRequest \<Rightarrow> go_error option"
type_synonym forward_log = "SafeForwardRequest list"

definition AuthorizeSafeForward ::
  "Proof \<Rightarrow> SafeForwardRequest \<Rightarrow> SafeTxHashComputer option \<Rightarrow> SigningGateResult" where
  "AuthorizeSafeForward proof req computer =
     (case computer of
        None \<Rightarrow> signing_block EPInvalidSigningRequest
      | Some compute \<Rightarrow>
          if \<not> validSafeTransaction (fr_Transaction req) \<or> \<not> validHex32 (fr_PresentedSafeHash req)
          then signing_block EPInvalidSigningRequest
          else (case compute (fr_Transaction req) of
              Inl err \<Rightarrow> signing_block EPInvalidSigningRequest
            | Inr computed \<Rightarrow>
                if \<not> validHex32 computed then signing_block EPInvalidSigningRequest
                else if \<not> equalHex32 computed (fr_PresentedSafeHash req) then signing_block EPSafeHashMismatch
                else AuthorizeSigningRequest proof
                  \<lparr>sr_ChainID = tx_ChainID (fr_Transaction req), sr_Target = tx_To (fr_Transaction req),
                   sr_CalldataSHA256 = sha256Hex (tx_Data (fr_Transaction req)), sr_SafeTxHash = computed\<rparr>))"

definition ErrSigningBlocked :: go_error where
  "ErrSigningBlocked = ErrMsg ''execution proof blocked Safe signing request''"

definition VerifyAndForwardSafeTransaction ::
  "keccak \<Rightarrow> ctx \<Rightarrow> Proof \<Rightarrow> SafeForwardRequest \<Rightarrow> SafeForwarder option \<Rightarrow> forward_log \<Rightarrow>
   SigningGateResult \<times> go_error option \<times> forward_log" where
  "VerifyAndForwardSafeTransaction K ctx proof req forwarder log =
     (case forwarder of
        None \<Rightarrow> (signing_block EPInvalidSigningRequest, Some ErrSigningBlocked, log)
      | Some forward \<Rightarrow>
          (let decision = AuthorizeSafeForward proof req (Some (ComputeSafeTxHash K)) in
           if sg_Decision decision \<noteq> DecisionAllow then (decision, Some ErrSigningBlocked, log)
           else case ctx BeforeForward of
               Some err \<Rightarrow> (signing_block EPInvalidSigningRequest, Some err, log)
             | None \<Rightarrow>
                 (case forward ctx req of
                    Some err \<Rightarrow> (signing_block EPInvalidSigningRequest, Some err, log @ [req])
                  | None \<Rightarrow> (decision, None, log @ [req]))))"

definition ErrContainmentBlocked :: go_error where
  "ErrContainmentBlocked = ErrMsg ''containment gate blocked Safe signing request''"

definition containmentBindsExactSafeRequest ::
  "keccak \<Rightarrow> Receipt \<Rightarrow> Proof \<Rightarrow> SafeForwardRequest \<Rightarrow> bool" where
  "containmentBindsExactSafeRequest K receipt proof req =
     (if \<not> VerifyReceipt receipt \<or> rc_Decision receipt \<noteq> DecisionRelease then False
      else if \<not> validSafeTransaction (fr_Transaction req) \<or> \<not> validHex32 (fr_PresentedSafeHash req) then False
      else (case ComputeSafeTxHash K (fr_Transaction req) of
          Inl err \<Rightarrow> False
        | Inr computedSafeHash \<Rightarrow>
            if \<not> equalHex32 computedSafeHash (fr_PresentedSafeHash req) then False
            else (case CanonicalSafeActionArtifact (fr_Transaction req) of
                Inl err \<Rightarrow> False
              | Inr action \<Rightarrow>
                  (let candidatePayload = sha256Hex (tx_Data (fr_Transaction req));
                       input = rc_Input receipt in
                   ci_ChainID input = tx_ChainID (fr_Transaction req) \<and>
                   EqualFold (TrimSpace (ci_Target input)) (TrimSpace (tx_To (fr_Transaction req))) \<and>
                   equalHex32 (ci_ApprovedIntentSHA256 input)
                     (ae_ApprovedSigningRequestID (en_Authorization (pf_Envelope proof))) \<and>
                   equalHex32 (ci_CandidateIntentSHA256 input) computedSafeHash \<and>
                   equalDigest (ci_ApprovedPayloadSHA256 input)
                     (pe_ApprovedCalldataSHA256 (en_Payload (pf_Envelope proof))) \<and>
                   equalDigest (ci_CandidatePayloadSHA256 input) candidatePayload \<and>
                   equalDigest (ci_ActionSHA256 input) (action_SHA256 action) \<and>
                   equalDigest (ci_InvariantSetSHA256 input)
                     (sm_InvariantSetSHA256 (en_Simulation (pf_Envelope proof)))))))"

definition VerifyContainmentAndForwardSafeTransaction ::
  "keccak \<Rightarrow> ctx \<Rightarrow> Receipt \<Rightarrow> Proof \<Rightarrow> SafeForwardRequest \<Rightarrow> SafeForwarder option \<Rightarrow> forward_log \<Rightarrow>
   SigningGateResult \<times> go_error option \<times> forward_log" where
  "VerifyContainmentAndForwardSafeTransaction K ctx receipt proof req forwarder log =
     (if \<not> containmentBindsExactSafeRequest K receipt proof req
      then (signing_block EPInvalidSigningRequest, Some ErrContainmentBlocked, log)
      else VerifyAndForwardSafeTransaction K ctx proof req forwarder log)"

subsection \<open>The hash computer contract\<close>

text \<open>
  What the boundary needs of a \<^verbatim>\<open>SafeTxHashComputer\<close>: it answers only for valid transactions,
  and one answer for two transactions means they are the same (\<open>collides\<close> names the
  exceptions of the underlying hash). The native computer is the only provider.
\<close>

definition forward_request_matches :: "Envelope \<Rightarrow> SafeTransaction \<Rightarrow> string \<Rightarrow> bool" where
  "forward_request_matches e tx h \<longleftrightarrow>
     request_matches e \<lparr>sr_ChainID = tx_ChainID tx, sr_Target = tx_To tx,
       sr_CalldataSHA256 = sha256Hex (tx_Data tx), sr_SafeTxHash = h\<rparr>"

lemma same_word32_equal: "same_word32 a b \<Longrightarrow> equalHex32 a b"
  using equalHex32_word [of a b] by (auto simp: same_word32_def)

locale safe_hash_computer =
  fixes compute :: SafeTxHashComputer
    and collides :: "SafeTransaction \<Rightarrow> SafeTransaction \<Rightarrow> bool"
  assumes compute_valid: "compute tx = Inr h \<Longrightarrow> validSafeTransaction tx \<and> validHex32 h"
    and compute_total: "validSafeTransaction tx \<Longrightarrow> \<exists>h. compute tx = Inr h"
    and compute_commits: "compute a = Inr h \<Longrightarrow> compute b = Inr k \<Longrightarrow> equalHex32 h k \<Longrightarrow>
      same_safe_tx a b \<or> collides a b"
begin

lemma authorize_iff:
  "sg_Decision (AuthorizeSafeForward proof req (Some compute)) = DecisionAllow \<longleftrightarrow>
     (\<exists>h. compute (fr_Transaction req) = Inr h \<and> validHex32 (fr_PresentedSafeHash req) \<and>
          equalHex32 h (fr_PresentedSafeHash req) \<and>
          ev_Decision (AuthorizeForSigning proof) = DecisionAllow \<and>
          forward_request_matches (envelopeDefault (pf_Envelope proof)) (fr_Transaction req) h)"
proof (cases "compute (fr_Transaction req)")
  case (Inl e)
  then show ?thesis by (simp add: AuthorizeSafeForward_def)
next
  case (Inr h)
  then show ?thesis
    using compute_valid [OF Inr]
    by (auto simp: AuthorizeSafeForward_def AuthorizeSigningRequest_allow forward_request_matches_def)
qed

lemma authorize_approved_hash:
  assumes "sg_Decision (AuthorizeSafeForward proof req (Some compute)) = DecisionAllow"
  obtains h where "compute (fr_Transaction req) = Inr h"
    "same_word32 h (ae_ApprovedSigningRequestID (en_Authorization (pf_Envelope proof)))"
  using assms unfolding authorize_iff
  by (auto simp: forward_request_matches_def request_matches_def)

text \<open>One approved signing request authorises one transaction.\<close>

lemma authorize_unique:
  assumes p: "sg_Decision (AuthorizeSafeForward p r (Some compute)) = DecisionAllow"
    and q: "sg_Decision (AuthorizeSafeForward q s (Some compute)) = DecisionAllow"
    and id: "equalHex32 (ae_ApprovedSigningRequestID (en_Authorization (pf_Envelope p)))
      (ae_ApprovedSigningRequestID (en_Authorization (pf_Envelope q)))"
  shows "same_safe_tx (fr_Transaction r) (fr_Transaction s) \<or>
    collides (fr_Transaction r) (fr_Transaction s)"
proof -
  from p obtain h where h: "compute (fr_Transaction r) = Inr h"
    "same_word32 h (ae_ApprovedSigningRequestID (en_Authorization (pf_Envelope p)))"
    by (rule authorize_approved_hash)
  from q obtain k where k: "compute (fr_Transaction s) = Inr k"
    "same_word32 k (ae_ApprovedSigningRequestID (en_Authorization (pf_Envelope q)))"
    by (rule authorize_approved_hash)
  have "equalHex32 h (ae_ApprovedSigningRequestID (en_Authorization (pf_Envelope p)))"
    "equalHex32 k (ae_ApprovedSigningRequestID (en_Authorization (pf_Envelope q)))"
    using h(2) k(2) by (simp_all add: same_word32_equal)
  then have "equalHex32 h k"
    using id by (blast intro: equalHex32_sym equalHex32_trans)
  with compute_commits h(1) k(1) show ?thesis by blast
qed

end

lemma ComputeSafeTxHash_Inr:
  "ComputeSafeTxHash K tx = Inr h \<longleftrightarrow>
     validSafeTransaction tx \<and> h = ''0x'' @ hex_encode (keccak256 K (safe_preimage K tx))"
  by (cases "validSafeTransaction tx") (auto simp: ComputeSafeTxHash_valid ComputeSafeTxHash_invalid)

interpretation native: safe_hash_computer "ComputeSafeTxHash K" "safe_collision K" for K :: keccak
proof
  fix tx h assume "ComputeSafeTxHash K tx = Inr h"
  then show "validSafeTransaction tx \<and> validHex32 h"
    using validHex32_hash by (simp add: ComputeSafeTxHash_Inr)
next
  fix tx assume "validSafeTransaction tx"
  then show "\<exists>h. ComputeSafeTxHash K tx = Inr h" by (simp add: ComputeSafeTxHash_Inr)
next
  fix a b h k
  assume "ComputeSafeTxHash K a = Inr h" "ComputeSafeTxHash K b = Inr k" "equalHex32 h k"
  then have "validSafeTransaction a" "validSafeTransaction b"
    "keccak256 K (safe_preimage K a) = keccak256 K (safe_preimage K b)"
    using equalHex32_hashes by (auto simp: ComputeSafeTxHash_Inr)
  then show "same_safe_tx a b \<or> safe_collision K a b"
    using ComputeSafeTxHash_commits by blast
qed

subsection \<open>What a call of the forwarder implies\<close>

definition forward_spec :: "keccak \<Rightarrow> Proof \<Rightarrow> SafeForwardRequest \<Rightarrow> bool" where
  "forward_spec K proof req \<longleftrightarrow>
     (\<exists>h. ComputeSafeTxHash K (fr_Transaction req) = Inr h \<and>
          same_word32 h (fr_PresentedSafeHash req) \<and>
          ev_Decision (AuthorizeForSigning proof) = DecisionAllow \<and>
          forward_request_matches (envelopeDefault (pf_Envelope proof)) (fr_Transaction req) h)"

lemma AuthorizeSafeForward_native:
  "sg_Decision (AuthorizeSafeForward proof req (Some (ComputeSafeTxHash K))) = DecisionAllow \<longleftrightarrow>
     forward_spec K proof req"
  unfolding native.authorize_iff forward_spec_def
  using native.compute_valid equalHex32_word same_word32_def by blast

lemma VerifyAndForward_cases:
  "VerifyAndForwardSafeTransaction K ctx proof req forwarder log =
     (case forwarder of
        None \<Rightarrow> (signing_block EPInvalidSigningRequest, Some ErrSigningBlocked, log)
      | Some forward \<Rightarrow>
          if \<not> forward_spec K proof req
          then (AuthorizeSafeForward proof req (Some (ComputeSafeTxHash K)), Some ErrSigningBlocked, log)
          else (case ctx BeforeForward of
              Some err \<Rightarrow> (signing_block EPInvalidSigningRequest, Some err, log)
            | None \<Rightarrow> (case forward ctx req of
                  Some err \<Rightarrow> (signing_block EPInvalidSigningRequest, Some err, log @ [req])
                | None \<Rightarrow> (AuthorizeSafeForward proof req (Some (ComputeSafeTxHash K)), None, log @ [req]))))"
  by (simp add: VerifyAndForwardSafeTransaction_def AuthorizeSafeForward_native Let_def split: option.splits)

lemma VerifyAndForward_sent:
  assumes "VerifyAndForwardSafeTransaction K ctx proof req forwarder log = (d, err, log')"
    and "log' \<noteq> log"
  shows "log' = log @ [req] \<and> forward_spec K proof req \<and> ctx BeforeForward = None \<and> forwarder \<noteq> None"
  using assms by (auto simp: VerifyAndForward_cases split: option.splits if_splits)

lemma containment_binds_action:
  assumes "containmentBindsExactSafeRequest K receipt proof req"
  obtains action where "CanonicalSafeActionArtifact (fr_Transaction req) = Inr action"
    "equalDigest (ci_ActionSHA256 (rc_Input receipt)) (action_SHA256 action)"
    "VerifyReceipt receipt" "rc_Decision receipt = DecisionRelease"
    "ci_ChainID (rc_Input receipt) = tx_ChainID (fr_Transaction req)"
    "validSafeTransaction (fr_Transaction req)"
  using assms by (auto simp: containmentBindsExactSafeRequest_def Let_def split: if_splits sum.splits)

lemma VerifyContainmentAndForward_sent:
  assumes "VerifyContainmentAndForwardSafeTransaction K ctx receipt proof req forwarder log = (d, err, log')"
    and "log' \<noteq> log"
  shows "containmentBindsExactSafeRequest K receipt proof req \<and> log' = log @ [req] \<and>
         forward_spec K proof req"
  using assms VerifyAndForward_sent
  by (auto simp: VerifyContainmentAndForwardSafeTransaction_def split: if_splits)

subsection \<open>A concrete request\<close>

definition sample_hash :: "keccak \<Rightarrow> string" where
  "sample_hash K = ''0x'' @ hex_encode (keccak256 K (safe_preimage K sample_tx))"

definition sample_forward :: "keccak \<Rightarrow> SafeForwardRequest" where
  "sample_forward K = \<lparr>fr_Transaction = sample_tx, fr_PresentedSafeHash = sample_hash K\<rparr>"

definition sample_forward_proof :: "keccak \<Rightarrow> Proof" where
  "sample_forward_proof K =
     EvaluateEnvelope (sample_envelope 1 sample_target (sha256Hex ''transfer'') (sample_hash K))"

lemma sample_hash_valid [simp]: "validHex32 (sample_hash K)"
  unfolding sample_hash_def by (rule validHex32_hash)

lemma sample_hash_computed: "ComputeSafeTxHash K sample_tx = Inr (sample_hash K)"
  by (simp add: ComputeSafeTxHash_valid sample_tx_valid sample_hash_def)

lemma sample_forward_spec: "forward_spec K (sample_forward_proof K) (sample_forward K)"
proof -
  let ?e = "sample_envelope 1 sample_target (sha256Hex ''transfer'') (sample_hash K)"
  have "allow_spec ?e" by (rule sample_envelope_allow) simp_all
  then have "ev_Decision (AuthorizeForSigning (sample_forward_proof K)) = DecisionAllow"
    by (simp add: AuthorizeForSigning_Evaluate sample_forward_proof_def)
  moreover have "same_word32 (sample_hash K) (sample_hash K)"
    using equalHex32_word [of "sample_hash K" "sample_hash K"] by simp
  ultimately show ?thesis
    by (simp add: forward_spec_def sample_forward_def sample_hash_computed)
       (simp add: forward_request_matches_def request_matches_def sample_forward_proof_def
         sample_envelope_def envelopeDefault_def sample_tx_def)
qed

definition sample_action_of :: "SafeTransaction \<Rightarrow> ActionArtifact" where
  "sample_action_of tx = \<lparr>aa_Kind = SafeActionArtifactKind,
     aa_Canonical = json_print (json_canonicalSafeAction (safe_wire tx))\<rparr>"

definition sample_cell :: "keccak \<Rightarrow> CellInput" where
  "sample_cell K = sample_input
     \<lparr>ci_Target := sample_target,
      ci_ApprovedIntentSHA256 := hex_encode (keccak256 K (safe_preimage K sample_tx)),
      ci_CandidateIntentSHA256 := hex_encode (keccak256 K (safe_preimage K sample_tx)),
      ci_ApprovedPayloadSHA256 := sha256Hex ''transfer'', ci_CandidatePayloadSHA256 := sha256Hex ''transfer'',
      ci_ActionSHA256 := action_SHA256 (sample_action_of sample_tx)\<rparr>"

definition sample_receipt :: "keccak \<Rightarrow> Receipt" where
  "sample_receipt K = EvaluateContainment (sample_cell K) sample_observation"

lemma sample_receipt_release: "rc_Decision (sample_receipt K) = DecisionRelease"
proof -
  have d: "defaultVersion (sample_cell K) = sample_cell K"
    by (simp add: defaultVersion_def sample_cell_def sample_input_def ContainmentVersion_def)
  have "ec_validSHA256 (hex_encode (keccak256 K (safe_preimage K sample_tx)))"
    by (simp add: ec_validSHA256_def)
  with sample_valid(1) have "validInput (sample_cell K)"
    by (simp add: validInput_def sample_cell_def ec_validSHA256_eq action_SHA256_def)
  with sample_release have "release_spec (sample_cell K) sample_observation"
    by (simp add: release_spec_def sample_cell_def same_bytes_def)
  then show ?thesis by (simp add: sample_receipt_def release_iff d)
qed

lemma sample_receipt_binds:
  "containmentBindsExactSafeRequest K (sample_receipt K) (sample_forward_proof K) (sample_forward K)"
proof -
  have v: "VerifyReceipt (sample_receipt K)"
    by (simp add: sample_receipt_def VerifyReceipt_Evaluate)
  have i: "rc_Input (sample_receipt K) = sample_cell K"
    by (simp add: sample_receipt_def defaultVersion_def sample_cell_def sample_input_def ContainmentVersion_def)
  have e: "pf_Envelope (sample_forward_proof K) =
      sample_envelope 1 sample_target (sha256Hex ''transfer'') (sample_hash K)"
    by (simp add: sample_forward_proof_def)
  have h: "equalHex32 (hex_encode (keccak256 K d)) (''0x'' @ hex_encode (keccak256 K d))" for d
    by (simp add: equalHex32_def Let_def)
  show ?thesis
    unfolding containmentBindsExactSafeRequest_def
    by (simp add: v sample_receipt_release i e sample_forward_def sample_tx_valid sample_hash_computed
        CanonicalSafeActionArtifact_valid Let_def)
       (simp add: sample_cell_def sample_input_def sample_envelope_def sample_action_of_def sample_tx_def
        sample_hash_def h [simplified])
qed

lemma sample_run:
  "\<exists>d err. VerifyContainmentAndForwardSafeTransaction K background (sample_receipt K)
      (sample_forward_proof K) (sample_forward K) (Some (\<lambda>_ _. None)) [] =
      (d, err, [sample_forward K])"
  by (simp add: VerifyContainmentAndForwardSafeTransaction_def sample_receipt_binds
      VerifyAndForward_cases sample_forward_spec)

subsection \<open>Properties\<close>

text \<open>C7: The forwarder is called exactly when there is one, the recomputed authorisation allows the request
  and the context is live: then the log grows by the request itself, once, and the error reported is
  the call's own. ALLOW is returned exactly when no error is, and that is exactly when the call was
  made and succeeded.\<close>

theorem safe_forward_effect:
  assumes "VerifyAndForwardSafeTransaction K ctx proof req forwarder log = (d, err, log')"
  shows "log' = (if forwarder \<noteq> None \<and> forward_spec K proof req \<and> ctx BeforeForward = None
                 then log @ [req] else log) \<and>
         (log' \<noteq> log \<longrightarrow> err = the forwarder ctx req) \<and>
         (err = None \<longleftrightarrow> (\<exists>forward. forwarder = Some forward \<and> forward_spec K proof req \<and>
            ctx BeforeForward = None \<and> forward ctx req = None)) \<and>
         (sg_Decision d = DecisionAllow \<longleftrightarrow> err = None)"
  using assms AuthorizeSafeForward_native [of "proof" req K]
  by (cases "ctx BeforeForward") (auto simp: VerifyAndForward_cases split: option.splits if_splits, metis+)

theorem safe_forward_effect_witness:
  "VerifyAndForwardSafeTransaction Sum256 background (sample_forward_proof Sum256)
      (sample_forward Sum256) (Some (\<lambda>_ _. None)) [] =
     (AuthorizeSafeForward (sample_forward_proof Sum256) (sample_forward Sum256)
        (Some (ComputeSafeTxHash Sum256)), None, [sample_forward Sum256]) \<and>
   (\<exists>d. VerifyAndForwardSafeTransaction Sum256 background (sample_forward_proof Sum256)
      (sample_forward Sum256) (Some (\<lambda>_ _. Some ErrSigningBlocked)) [] =
     (d, Some ErrSigningBlocked, [sample_forward Sum256]) \<and> sg_Decision d \<noteq> DecisionAllow)"
proof -
  let ?p = "sample_forward_proof Sum256" and ?r = "sample_forward Sum256"
  have run: "\<exists>d err log'. VerifyAndForwardSafeTransaction Sum256 background ?p ?r (Some (\<lambda>_ _. e)) [] = (d, err, log') \<and>
      err = e \<and> log' = [?r] \<and> (sg_Decision d = DecisionAllow \<longleftrightarrow> e = None)" for e
  proof -
    obtain d err log' where r:
      "VerifyAndForwardSafeTransaction Sum256 background ?p ?r (Some (\<lambda>_ _. e)) [] = (d, err, log')"
      by (metis prod.exhaust)
    from safe_forward_effect [OF r] have "err = e" "log' = [?r]" "sg_Decision d = DecisionAllow \<longleftrightarrow> e = None"
      using sample_forward_spec by auto
    with r show ?thesis by blast
  qed
  from run [of "Some ErrSigningBlocked"] run [of None] show ?thesis
    by (auto simp: VerifyAndForward_cases sample_forward_spec)
qed

text \<open>C8: A transaction leaves through the containment boundary only with a released receipt that
  verifies by recomputation and names it: the receipt's chain is the transaction's, its action
  digest is the digest of the transaction's canonical bytes, and the release specification
  holds of the receipt's input and observation.\<close>

theorem containment_forward_bound:
  assumes "VerifyContainmentAndForwardSafeTransaction K ctx receipt proof req forwarder log = (d, err, log')"
    and "log' \<noteq> log"
  shows "log' = log @ [req] \<and> forward_spec K proof req \<and> VerifyReceipt receipt \<and>
         release_spec (defaultVersion (rc_Input receipt)) (rc_Observation receipt) \<and>
         ci_ChainID (rc_Input receipt) = tx_ChainID (fr_Transaction req) \<and>
         (\<exists>action. CanonicalSafeActionArtifact (fr_Transaction req) = Inr action \<and>
            equalDigest (ci_ActionSHA256 (rc_Input receipt)) (action_SHA256 action))"
proof -
  from VerifyContainmentAndForward_sent [OF assms]
  have b: "containmentBindsExactSafeRequest K receipt proof req"
    and s: "log' = log @ [req]" "forward_spec K proof req"
    by simp_all
  from b obtain action where a: "CanonicalSafeActionArtifact (fr_Transaction req) = Inr action"
    "equalDigest (ci_ActionSHA256 (rc_Input receipt)) (action_SHA256 action)"
    "VerifyReceipt receipt" "rc_Decision receipt = DecisionRelease"
    "ci_ChainID (rc_Input receipt) = tx_ChainID (fr_Transaction req)"
    by (rule containment_binds_action)
  then have "release_spec (defaultVersion (rc_Input receipt)) (rc_Observation receipt)"
    by (simp add: VerifyReceipt_iff flip: release_iff)
  with a s show ?thesis by blast
qed

theorem containment_forward_bound_witness:
  "\<exists>d err. VerifyContainmentAndForwardSafeTransaction Sum256 background (sample_receipt Sum256)
      (sample_forward_proof Sum256) (sample_forward Sum256) (Some (\<lambda>_ _. None)) [] =
      (d, err, [sample_forward Sum256]) \<and>
    release_spec (defaultVersion (rc_Input (sample_receipt Sum256))) (rc_Observation (sample_receipt Sum256))"
proof -
  obtain d err where r: "VerifyContainmentAndForwardSafeTransaction Sum256 background
      (sample_receipt Sum256) (sample_forward_proof Sum256) (sample_forward Sum256)
      (Some (\<lambda>_ _. None)) [] = (d, err, [sample_forward Sum256])"
    using sample_run by blast
  from containment_forward_bound [OF r] r show ?thesis by blast
qed

text \<open>A released receipt cannot be replayed: two transactions forwarded under the same receipt
  are equal up to the spelling of their addresses, unless their canonical encodings are a
  SHA-256 collision.\<close>

theorem receipt_no_replay:
  assumes "VerifyContainmentAndForwardSafeTransaction K ctx receipt p r f log = (d, err, log')"
    and "log' \<noteq> log"
    and "VerifyContainmentAndForwardSafeTransaction K ctx' receipt q s f' log2 = (d', err', log2')"
    and "log2' \<noteq> log2"
  shows "canonical_tx (fr_Transaction r) = canonical_tx (fr_Transaction s) \<or>
         (\<exists>x y. CanonicalSafeActionArtifact (fr_Transaction r) = Inr x \<and>
                CanonicalSafeActionArtifact (fr_Transaction s) = Inr y \<and>
                sha256_collision (aa_Canonical x) (aa_Canonical y))"
proof -
  from assms(1,2) have "containmentBindsExactSafeRequest K receipt p r"
    using VerifyContainmentAndForward_sent by blast
  then obtain x where x: "CanonicalSafeActionArtifact (fr_Transaction r) = Inr x"
    "equalDigest (ci_ActionSHA256 (rc_Input receipt)) (action_SHA256 x)"
    by (rule containment_binds_action)
  from assms(3,4) have "containmentBindsExactSafeRequest K receipt q s"
    using VerifyContainmentAndForward_sent by blast
  then obtain y where y: "CanonicalSafeActionArtifact (fr_Transaction s) = Inr y"
    "equalDigest (ci_ActionSHA256 (rc_Input receipt)) (action_SHA256 y)"
    by (rule containment_binds_action)
  have "equalDigest (action_SHA256 x) (action_SHA256 y)"
    using x(2) y(2) by (meson equalDigest_sym equalDigest_trans)
  with action_digest_binds [OF x(1) y(1)] x(1) y(1) show ?thesis by blast
qed

theorem receipt_no_replay_witness:
  "\<exists>d err. VerifyContainmentAndForwardSafeTransaction Sum256 background (sample_receipt Sum256)
      (sample_forward_proof Sum256) (sample_forward Sum256) (Some (\<lambda>_ _. None)) [] =
      (d, err, [sample_forward Sum256]) \<and>
    (canonical_tx sample_tx = canonical_tx sample_tx \<or>
      (\<exists>x y. CanonicalSafeActionArtifact sample_tx = Inr x \<and>
             CanonicalSafeActionArtifact sample_tx = Inr y \<and>
             sha256_collision (aa_Canonical x) (aa_Canonical y)))"
proof -
  obtain d err where r: "VerifyContainmentAndForwardSafeTransaction Sum256 background
      (sample_receipt Sum256) (sample_forward_proof Sum256) (sample_forward Sum256)
      (Some (\<lambda>_ _. None)) [] = (d, err, [sample_forward Sum256])"
    using sample_run by blast
  from receipt_no_replay [OF r _ r] r show ?thesis
    by (simp add: sample_forward_def)
qed

end
