(* ===== verification/Safe_Runner.thy ===== *)
theory Safe_Runner
  imports Safe_Effects Safe_Trace Safe_Forward
begin

text \<open>
  \<^verbatim>\<open>internal/executionproof/safe_isolated_runner.go\<close> and \<^verbatim>\<open>safe_pinned_backend.go\<close>: the runner
  that turns the evidence of an isolated execution into a containment observation, and the
  backend that collects that evidence from a simulation engine at a pinned block. The engine
  is an interface of the program: a record of functions here.
\<close>

record SafeAuthoritySnapshot =
  sn_Owners :: "string list"
  sn_Threshold :: u64
  sn_Modules :: "string list"
  sn_Guard :: string
  sn_FallbackHandler :: string
  sn_Implementation :: string
  sn_CodeHash :: string

record SafeExecutionEvidence =
  xe_ChainID :: u64
  xe_BlockNumber :: u64
  xe_BlockHash :: string
  xe_RunnerSHA256 :: string
  xe_PreStateSHA256 :: string
  xe_PostStateSHA256 :: string
  xe_EffectSetSHA256 :: string
  xe_Before :: SafeAuthoritySnapshot
  xe_After :: SafeAuthoritySnapshot
  xe_AssetMovements :: "SafeAssetMovement list"
  xe_Trace :: SafeTraceEvidence

type_synonym SafeIsolatedBackend = "ctx \<Rightarrow> CellInput \<Rightarrow> SafeTransaction \<Rightarrow> go_error + SafeExecutionEvidence"

record SafeIsolatedRunner =
  ir_Backend :: "SafeIsolatedBackend option"
  ir_Policy :: SafeContainmentPolicy

subsection \<open>Validity and comparison of snapshots\<close>

definition validAuthoritySnapshot :: "SafeAuthoritySnapshot \<Rightarrow> bool" where
  "validAuthoritySnapshot s =
     (if sn_Threshold s = 0 \<or> length (sn_Owners s) = 0 \<or> sn_Threshold s > of_nat (length (sn_Owners s)) then False
      else if \<not> list_all validAddress (sn_Owners s) then False
      else if \<not> list_all validAddress (sn_Modules s) then False
      else validAddress (sn_Guard s) \<and> validAddress (sn_FallbackHandler s) \<and>
           validAddress (sn_Implementation s) \<and> validHex32 (sn_CodeHash s))"

definition equalAddressSets :: "string list \<Rightarrow> string list \<Rightarrow> bool" where
  "equalAddressSets a b =
     (if length a \<noteq> length b then False
      else sort (map normalizeAddress a) = sort (map normalizeAddress b))"

definition equalSafeAuthority :: "SafeAuthoritySnapshot \<Rightarrow> SafeAuthoritySnapshot \<Rightarrow> bool" where
  "equalSafeAuthority a b \<longleftrightarrow>
     sn_Threshold a = sn_Threshold b \<and>
     equalAddressSets (sn_Owners a) (sn_Owners b) \<and>
     equalAddressSets (sn_Modules a) (sn_Modules b) \<and>
     EqualFold (normalizeAddress (sn_Guard a)) (normalizeAddress (sn_Guard b)) \<and>
     EqualFold (normalizeAddress (sn_FallbackHandler a)) (normalizeAddress (sn_FallbackHandler b))"

definition validateSafeExecutionEvidence :: "SafeExecutionEvidence \<Rightarrow> go_error option" where
  "validateSafeExecutionEvidence e =
     (if xe_ChainID e = 0 \<or> xe_BlockNumber e = 0 \<or> \<not> validHex32 (xe_BlockHash e) \<or>
         \<not> validSHA256Text (xe_RunnerSHA256 e) \<or> \<not> validSHA256Text (xe_PreStateSHA256 e) \<or>
         \<not> validSHA256Text (xe_PostStateSHA256 e) \<or> \<not> validSHA256Text (xe_EffectSetSHA256 e)
      then Some (ErrMsg ''invalid Safe execution evidence identity'')
      else if \<not> validAuthoritySnapshot (xe_Before e) \<or> \<not> validAuthoritySnapshot (xe_After e)
      then Some (ErrMsg ''invalid Safe authority snapshot'')
      else if \<not> list_all validAssetMovement (xe_AssetMovements e)
      then Some (ErrMsg ''invalid Safe asset movement'')
      else if \<not> VerifySafeTrace (xe_Trace e)
      then Some (ErrMsg ''invalid or incomplete Safe execution trace'')
      else None)"

subsection \<open>The policy digest\<close>

definition SafeContainmentPolicyVersion :: string where
  "SafeContainmentPolicyVersion = ''koschei-safe-containment-policy/v0.1''"

definition json_SafeOutflowBound :: "SafeOutflowBound \<Rightarrow> json" where
  "json_SafeOutflowBound b = JObj
    [(''kind'', JStr (ob_Kind b)), (''token'', JStr (ob_Token b)), (''to'', JStr (ob_To b)),
     (''id'', JStr (ob_ID b)), (''max_amount'', JStr (ob_MaxAmount b))]"

definition json_SafeContainmentPolicy :: "SafeContainmentPolicy \<Rightarrow> json" where
  "json_SafeContainmentPolicy p = JObj
    [(''version'', JStr (cp_Version p)), (''safe'', JStr (cp_Safe p)),
     (''allow_authority_change'', JBool (cp_AllowAuthority p)),
     (''allowed_outflow'', json_slice json_SafeOutflowBound (append_nil (cp_AllowedOutflow p)))]"

definition normalize_bound :: "SafeOutflowBound \<Rightarrow> SafeOutflowBound" where
  "normalize_bound b =
     b\<lparr>ob_Kind := ToLower (TrimSpace (ob_Kind b)), ob_Token := normalizeOptionalAddress (ob_Token b),
       ob_To := normalizeAddress (ob_To b)\<rparr>"

fun normalize_bounds :: "SafeOutflowBound list \<Rightarrow> SafeOutflowBound list option" where
  "normalize_bounds [] = Some []"
| "normalize_bounds (b # bs) =
     (if \<not> validOutflowBound (normalize_bound b) then None
      else map_option (\<lambda>r. normalize_bound b # r) (normalize_bounds bs))"

definition safeContainmentPolicySHA256 :: "SafeContainmentPolicy \<Rightarrow> go_error + string" where
  "safeContainmentPolicySHA256 policy =
     (let policy = (if cp_Version policy = [] then policy\<lparr>cp_Version := SafeContainmentPolicyVersion\<rparr> else policy) in
      if cp_Version policy \<noteq> SafeContainmentPolicyVersion \<or> \<not> validAddress (cp_Safe policy)
      then Inl (ErrMsg ''invalid Safe containment policy'')
      else
        let policy = policy\<lparr>cp_Safe := normalizeAddress (cp_Safe policy)\<rparr> in
        (case normalize_bounds (cp_AllowedOutflow policy) of
           None \<Rightarrow> Inl (ErrMsg ''invalid Safe outflow bound'')
         | Some bounds \<Rightarrow>
             let bounds = sort_key (\<lambda>b. json_print (json_SafeOutflowBound b)) bounds;
                 policy = policy\<lparr>cp_AllowedOutflow := bounds\<rparr>
             in Inr (json_digest (json_SafeContainmentPolicy policy))))"

subsection \<open>The runner\<close>

definition strip0x :: "string \<Rightarrow> string" where
  "strip0x v = TrimPrefix (TrimSpace v) ''0x''"

definition Observe :: "SafeIsolatedRunner \<Rightarrow> Runner" where
  "Observe r ctx input action =
     (case ir_Backend r of
        None \<Rightarrow> Inl (ErrMsg ''Safe isolated backend unavailable'')
      | Some executeSafe \<Rightarrow>
      (if (case safeContainmentPolicySHA256 (ir_Policy r) of
             Inl err \<Rightarrow> True | Inr policyHash \<Rightarrow> \<not> EqualFold policyHash (ci_InvariantSetSHA256 input))
       then Inl (ErrMsg ''Safe containment policy identity mismatch'')
       else if \<not> EqualFold (action_SHA256 action) (ci_ActionSHA256 input)
       then Inl (ErrMsg ''Safe action identity mismatch'')
       else
       bindE (decodeCanonicalSafeAction action) (\<lambda>tx.
       if tx_ChainID tx \<noteq> ci_ChainID input \<or>
          \<not> EqualFold (normalizeAddress (tx_To tx)) (normalizeAddress (ci_Target input))
       then Inl (ErrMsg ''Safe action/input identity mismatch'')
       else if normalizeAddress (tx_Safe tx) \<noteq> normalizeAddress (cp_Safe (ir_Policy r))
       then Inl (ErrMsg ''Safe policy address mismatch'')
       else
       bindE (executeSafe ctx input tx) (\<lambda>evidence.
       (case validateSafeExecutionEvidence evidence of
          Some err \<Rightarrow> Inl err
        | None \<Rightarrow>
          (let authorityPreserved =
                 (cp_AllowAuthority (ir_Policy r) \<or> equalSafeAuthority (xe_Before evidence) (xe_After evidence));
               codePreserved =
                 (EqualFold (normalizeHexOrAddress (sn_Implementation (xe_Before evidence)))
                    (normalizeHexOrAddress (sn_Implementation (xe_After evidence))) \<and>
                  EqualFold (TrimSpace (sn_CodeHash (xe_Before evidence)))
                    (TrimSpace (sn_CodeHash (xe_After evidence))));
               assetBoundsPreserved = VerifyOutflowBudget (ir_Policy r) (xe_AssetMovements evidence);
               traceObserved =
                 (VerifySafeTrace (xe_Trace evidence) \<and>
                  normalizeAddress (te_RootSafe (xe_Trace evidence)) = normalizeAddress (tx_Safe tx))
           in Inr \<lparr>ob_BackendAvailable = True, ob_ObservedChainID = xe_ChainID evidence,
                   ob_ObservedBlockNumber = xe_BlockNumber evidence,
                   ob_ObservedBlockHash = strip0x (xe_BlockHash evidence),
                   ob_ObservedRunnerSHA256 = strip0x (xe_RunnerSHA256 evidence),
                   ob_PreStateSHA256 = strip0x (xe_PreStateSHA256 evidence),
                   ob_PostStateSHA256 = strip0x (xe_PostStateSHA256 evidence),
                   ob_EffectSetSHA256 = strip0x (xe_EffectSetSHA256 evidence),
                   ob_AuthorityPreserved = authorityPreserved,
                   ob_AssetBoundsPreserved = assetBoundsPreserved,
                   ob_CodeIntegrityPreserved = codePreserved,
                   ob_ExecutionPathFullyObserved = traceObserved,
                   ob_InvariantsPass =
                     (authorityPreserved \<and> assetBoundsPreserved \<and> codePreserved \<and> traceObserved)\<rparr>))))))"

subsection \<open>The pinned backend\<close>

record SafeSimulationResult =
  si_PostAuthority :: SafeAuthoritySnapshot
  si_PostStateSHA256 :: string
  si_EffectSetSHA256 :: string
  si_AssetMovements :: "SafeAssetMovement list"
  si_Trace :: SafeTraceEvidence

record SafeSimulationEngine =
  se_PinnedBlock :: "ctx \<Rightarrow> u64 \<Rightarrow> u64 \<Rightarrow> go_error + string"
  se_RunnerSHA256 :: "ctx \<Rightarrow> go_error + string"
  se_SnapshotSafe :: "ctx \<Rightarrow> u64 \<Rightarrow> u64 \<Rightarrow> string \<Rightarrow> go_error + SafeAuthoritySnapshot \<times> string"
  se_ExecuteExactSafe :: "ctx \<Rightarrow> CellInput \<Rightarrow> SafeTransaction \<Rightarrow> go_error + SafeSimulationResult"

record PinnedSafeBackend =
  pb_Engine :: "SafeSimulationEngine option"
  pb_Accessor :: string

text \<open>\<^verbatim>\<open>fmt.Errorf("what: %w", err)\<close> around a failing call.\<close>

definition wrapE :: "string \<Rightarrow> go_error + 'a \<Rightarrow> go_error + 'a" where
  "wrapE what r = (case r of Inl err \<Rightarrow> Inl (ErrWrap what err) | Inr x \<Rightarrow> Inr x)"

definition ExecuteSafe :: "keccak \<Rightarrow> PinnedSafeBackend \<Rightarrow> SafeIsolatedBackend" where
  "ExecuteSafe K b ctx input tx =
     (case pb_Engine b of
        None \<Rightarrow> Inl (ErrMsg ''Safe simulation engine unavailable'')
      | Some engine \<Rightarrow>
      (if \<not> validAddress (pb_Accessor b) then Inl (ErrMsg ''Safe simulation accessor unavailable'')
       else
       (case ctx BeforePinnedBackend of
          Some err \<Rightarrow> Inl err
        | None \<Rightarrow>
        (if tx_ChainID tx \<noteq> ci_ChainID input \<or>
            \<not> EqualFold (normalizeAddress (tx_To tx)) (normalizeAddress (ci_Target input))
         then Inl (ErrMsg ''Safe transaction/input mismatch'')
         else
         bindE (wrapE ''resolve pinned block'' (se_PinnedBlock engine ctx (ci_ChainID input) (ci_BlockNumber input)))
           (\<lambda>pinnedHash.
         if \<not> equalHex32 pinnedHash (ci_BlockHash input) then Inl (ErrMsg ''pinned block identity mismatch'')
         else
         bindE (wrapE ''resolve runner identity'' (se_RunnerSHA256 engine ctx)) (\<lambda>runnerSHA.
         if \<not> validSHA256Text runnerSHA \<or> \<not> EqualFold (strip0x runnerSHA) (strip0x (ci_ApprovedRunnerSHA256 input))
         then Inl (ErrMsg ''runner identity mismatch'')
         else
         bindE (wrapE ''snapshot Safe pre-state''
                  (se_SnapshotSafe engine ctx (ci_ChainID input) (ci_BlockNumber input) (tx_Safe tx)))
           (\<lambda>(before, preStateSHA).
         if \<not> validAuthoritySnapshot before \<or> \<not> validSHA256Text preStateSHA
         then Inl (ErrMsg ''invalid Safe pre-state evidence'')
         else
         bindE (wrapE ''execute exact Safe action'' (se_ExecuteExactSafe engine ctx input tx)) (\<lambda>result.
         (case ctx AfterExactExecution of
            Some err \<Rightarrow> Inl err
          | None \<Rightarrow>
            (if \<not> validAuthoritySnapshot (si_PostAuthority result) \<or>
                \<not> validSHA256Text (si_PostStateSHA256 result) \<or> \<not> validSHA256Text (si_EffectSetSHA256 result)
             then Inl (ErrMsg ''invalid Safe post-state evidence'')
             else if \<not> list_all validAssetMovement (si_AssetMovements result)
             then Inl (ErrMsg ''invalid Safe asset movement evidence'')
             else if \<not> VerifyAccessorSemantics K (pb_Accessor b) tx (si_Trace result)
             then Inl (ErrMsg ''invalid Safe accessor execution semantics'')
             else Inr \<lparr>xe_ChainID = ci_ChainID input, xe_BlockNumber = ci_BlockNumber input,
                       xe_BlockHash = TrimSpace pinnedHash, xe_RunnerSHA256 = strip0x runnerSHA,
                       xe_PreStateSHA256 = strip0x preStateSHA,
                       xe_PostStateSHA256 = strip0x (si_PostStateSHA256 result),
                       xe_EffectSetSHA256 = strip0x (si_EffectSetSHA256 result),
                       xe_Before = before, xe_After = si_PostAuthority result,
                       xe_AssetMovements = si_AssetMovements result, xe_Trace = si_Trace result\<rparr>))))))))))"

subsection \<open>What a snapshot comparison means\<close>

lemma equalAddressSets_mset:
  "equalAddressSets a b \<longleftrightarrow> mset (map normalizeAddress a) = mset (map normalizeAddress b)"
  by (auto simp: equalAddressSets_def sort_eq_mset simp del: mset_map dest: mset_eq_length)

text \<open>Owners and modules as the bytes they name, with multiplicity and without order.\<close>

definition address_msets_equal :: "string list \<Rightarrow> string list \<Rightarrow> bool" where
  "address_msets_equal a b \<longleftrightarrow> image_mset address_bytes (mset a) = image_mset address_bytes (mset b)"

definition authority_unchanged :: "SafeAuthoritySnapshot \<Rightarrow> SafeAuthoritySnapshot \<Rightarrow> bool" where
  "authority_unchanged a b \<longleftrightarrow>
     sn_Threshold a = sn_Threshold b \<and> address_msets_equal (sn_Owners a) (sn_Owners b) \<and>
     address_msets_equal (sn_Modules a) (sn_Modules b) \<and>
     address_bytes (sn_Guard a) = address_bytes (sn_Guard b) \<and>
     address_bytes (sn_FallbackHandler a) = address_bytes (sn_FallbackHandler b)"

lemma normalizeAddress_eq_bytes:
  assumes "validAddress a" "validAddress b"
  shows "normalizeAddress a = normalizeAddress b \<longleftrightarrow> address_bytes a = address_bytes b"
proof
  assume "address_bytes a = address_bytes b"
  moreover have "hex_encode (address_bytes v) = ToLower (TrimPrefix (TrimSpace v) ''0x'')" if "validAddress v" for v
    using that by (metis hex_encode_decode validAddress_iff)
  ultimately show "normalizeAddress a = normalizeAddress b"
    using assms by (metis normalizeAddress_def)
qed (rule normalizeAddress_bytes [OF assms])

lemma normalizeAddress_lower [simp]: "ToLower (normalizeAddress v) = normalizeAddress v"
  by (simp add: normalizeAddress_def)

lemma equalAddressSets_bytes:
  assumes "list_all validAddress a" "list_all validAddress b"
  shows "equalAddressSets a b \<longleftrightarrow> address_msets_equal a b"
proof -
  let ?f = "\<lambda>n. the (hex_decode (TrimPrefix n ''0x''))"
  have to_bytes: "address_bytes v = ?f (normalizeAddress v)" if "validAddress v" for v
    using normalizeAddress_valid(1,5) [OF that] by (simp add: address_bytes_def)
  have to_text: "normalizeAddress v = ''0x'' @ hex_encode (address_bytes v)" if "validAddress v" for v
    using that by (metis hex_encode_decode normalizeAddress_def validAddress_iff)
  have b: "image_mset address_bytes (mset l) = image_mset ?f (mset (map normalizeAddress l))"
    if "list_all validAddress l" for l
  proof -
    have "map address_bytes l = map ?f (map normalizeAddress l)"
      using that to_bytes by (simp add: list_all_iff)
    then show ?thesis by (metis mset_map)
  qed
  have t: "mset (map normalizeAddress l) = image_mset (\<lambda>x. ''0x'' @ hex_encode x) (image_mset address_bytes (mset l))"
    if "list_all validAddress l" for l
  proof -
    have "map normalizeAddress l = map (\<lambda>x. ''0x'' @ hex_encode x) (map address_bytes l)"
      using that to_text by (simp add: list_all_iff)
    then show ?thesis by (metis mset_map)
  qed
  show ?thesis
    unfolding equalAddressSets_mset address_msets_equal_def
    using b [OF assms(1)] b [OF assms(2)] t [OF assms(1)] t [OF assms(2)] by metis
qed

lemma equalSafeAuthority_iff:
  assumes "validAuthoritySnapshot a" "validAuthoritySnapshot b"
  shows "equalSafeAuthority a b \<longleftrightarrow> authority_unchanged a b"
proof -
  have v: "list_all validAddress (sn_Owners s) \<and> list_all validAddress (sn_Modules s) \<and>
      validAddress (sn_Guard s) \<and> validAddress (sn_FallbackHandler s)" if "validAuthoritySnapshot s" for s
    using that by (auto simp: validAuthoritySnapshot_def split: if_splits)
  from v [OF assms(1)] v [OF assms(2)] show ?thesis
    by (simp add: equalSafeAuthority_def authority_unchanged_def equalAddressSets_bytes
        EqualFold_def normalizeAddress_eq_bytes)
qed

subsection \<open>The policy digest\<close>

lemma normalize_bounds_eq:
  "normalize_bounds bs =
     (if list_all (\<lambda>b. validOutflowBound (normalize_bound b)) bs then Some (map normalize_bound bs) else None)"
  by (induction bs) auto

lemma policy_digest_bounds:
  assumes "mset bs = mset cs"
  shows "safeContainmentPolicySHA256 (p\<lparr>cp_AllowedOutflow := bs\<rparr>) =
         safeContainmentPolicySHA256 (p\<lparr>cp_AllowedOutflow := cs\<rparr>)"
proof -
  let ?k = "\<lambda>b. json_print (json_SafeOutflowBound b)"
  have ok: "list_all P bs = list_all P cs" for P
    using assms by (metis list_all_iff set_mset_mset)
  have len: "bs = [] \<longleftrightarrow> cs = []" using assms by auto
  have "mset (map ?k (map normalize_bound bs)) = mset (map ?k (map normalize_bound cs))"
    using assms by (metis mset_map)
  then have "sort (map ?k (map normalize_bound bs)) = sort (map ?k (map normalize_bound cs))"
    by (metis sorted_list_of_multiset_mset)
  then have s: "map ?k (sort_key ?k (map normalize_bound bs)) = map ?k (sort_key ?k (map normalize_bound cs))"
    by (simp only: map_sort_key)
  have a: "json_print (json_slice json_SafeOutflowBound (append_nil xs)) =
      (if xs = [] then ''null'' else CHR ''['' # sep_concat (map ?k xs) @ '']'')" for xs
    by (simp add: json_slice_def append_nil_def comp_def)
  have "json_print (json_slice json_SafeOutflowBound (append_nil (sort_key ?k (map normalize_bound bs)))) =
      json_print (json_slice json_SafeOutflowBound (append_nil (sort_key ?k (map normalize_bound cs))))"
    unfolding a s using len by (metis map_is_Nil_conv s)
  then show ?thesis
    by (simp add: safeContainmentPolicySHA256_def normalize_bounds_eq ok Let_def json_digest_def
        json_SafeContainmentPolicy_def)
qed

subsection \<open>What an observation is justified by\<close>

definition observation_of :: "SafeContainmentPolicy \<Rightarrow> SafeTransaction \<Rightarrow> SafeExecutionEvidence \<Rightarrow> Observation \<Rightarrow> bool" where
  "observation_of policy tx e v \<longleftrightarrow>
     ob_BackendAvailable v \<and> ob_ObservedChainID v = xe_ChainID e \<and>
     ob_ObservedBlockNumber v = xe_BlockNumber e \<and> ob_ObservedBlockHash v = strip0x (xe_BlockHash e) \<and>
     ob_ObservedRunnerSHA256 v = strip0x (xe_RunnerSHA256 e) \<and>
     (ob_AuthorityPreserved v \<longleftrightarrow> cp_AllowAuthority policy \<or> authority_unchanged (xe_Before e) (xe_After e)) \<and>
     (ob_AssetBoundsPreserved v \<longleftrightarrow> budget_spec policy (xe_AssetMovements e)) \<and>
     (ob_CodeIntegrityPreserved v \<longrightarrow>
        EqualFold (TrimSpace (sn_CodeHash (xe_Before e))) (TrimSpace (sn_CodeHash (xe_After e)))) \<and>
     (ob_ExecutionPathFullyObserved v \<longleftrightarrow> normalizeAddress (te_RootSafe (xe_Trace e)) = normalizeAddress (tx_Safe tx))"

definition observe_justified :: "SafeIsolatedRunner \<Rightarrow> CellInput \<Rightarrow> ActionArtifact \<Rightarrow> Observation \<Rightarrow> bool" where
  "observe_justified r i a v \<longleftrightarrow>
     (\<exists>executeSafe ctx tx e h.
        ir_Backend r = Some executeSafe \<and> executeSafe ctx i tx = Inr e \<and>
        CanonicalSafeActionArtifact tx = Inr a \<and> tx_ChainID tx = ci_ChainID i \<and>
        safeContainmentPolicySHA256 (ir_Policy r) = Inr h \<and> EqualFold h (ci_InvariantSetSHA256 i) \<and>
        normalizeAddress (tx_Safe tx) = normalizeAddress (cp_Safe (ir_Policy r)) \<and>
        validateSafeExecutionEvidence e = None \<and> observation_of (ir_Policy r) tx e v)"

lemma evidence_valid:
  assumes "validateSafeExecutionEvidence e = None"
  shows "validAuthoritySnapshot (xe_Before e)" "validAuthoritySnapshot (xe_After e)"
    "VerifySafeTrace (xe_Trace e)" "list_all validAssetMovement (xe_AssetMovements e)"
  using assms by (auto simp: validateSafeExecutionEvidence_def split: if_splits)

lemma Observe_Inr:
  assumes "Observe r ctx i a = Inr v"
  obtains executeSafe tx e h where
    "ir_Backend r = Some executeSafe" "decodeCanonicalSafeAction a = Inr tx"
    "executeSafe ctx i tx = Inr e" "tx_ChainID tx = ci_ChainID i"
    "EqualFold (normalizeAddress (tx_To tx)) (normalizeAddress (ci_Target i))"
    "safeContainmentPolicySHA256 (ir_Policy r) = Inr h" "EqualFold h (ci_InvariantSetSHA256 i)"
    "normalizeAddress (tx_Safe tx) = normalizeAddress (cp_Safe (ir_Policy r))"
    "validateSafeExecutionEvidence e = None" "observation_of (ir_Policy r) tx e v"
proof -
  from assms obtain executeSafe where 1: "ir_Backend r = Some executeSafe"
    by (cases "ir_Backend r") (auto simp: Observe_def)
  from assms obtain h where 2: "safeContainmentPolicySHA256 (ir_Policy r) = Inr h"
    "EqualFold h (ci_InvariantSetSHA256 i)"
    by (cases "safeContainmentPolicySHA256 (ir_Policy r)") (auto simp: Observe_def 1 split: if_splits)
  from assms have 3: "EqualFold (action_SHA256 a) (ci_ActionSHA256 i)"
    by (simp add: Observe_def 1 2 split: if_splits)
  from assms obtain tx where 4: "decodeCanonicalSafeAction a = Inr tx" "tx_ChainID tx = ci_ChainID i"
    "EqualFold (normalizeAddress (tx_To tx)) (normalizeAddress (ci_Target i))"
    "normalizeAddress (tx_Safe tx) = normalizeAddress (cp_Safe (ir_Policy r))"
    by (cases "decodeCanonicalSafeAction a") (auto simp: Observe_def 1 2 3 split: if_splits)
  from assms obtain e where 5: "executeSafe ctx i tx = Inr e" "validateSafeExecutionEvidence e = None"
    by (cases "executeSafe ctx i tx") (auto simp: Observe_def 1 2 3 4 split: option.splits)
  note * = 1 4(1) 5(1) 4(2,3) 2 4(4) 5(2)
  have "observation_of (ir_Policy r) tx e v"
    using assms evidence_valid [OF 5(2)]
    by (auto simp: Observe_def 1 2 3 4 5 observation_of_def VerifyOutflowBudget_iff equalSafeAuthority_iff Let_def)
  with * that show thesis by blast
qed

interpretation safe_runner: isolated_runner "Observe r" "observe_justified r" for r :: SafeIsolatedRunner
proof
  fix ctx i a v assume "Observe r ctx i a = Inr v"
  then show "observe_justified r i a v"
    by (rule Observe_Inr) (unfold observe_justified_def, blast dest: decode_sound(2))
qed

subsection \<open>When a run releases\<close>

text \<open>The cell is well-formed and asks for what was approved.\<close>

definition cell_consistent :: "CellInput \<Rightarrow> bool" where
  "cell_consistent i \<longleftrightarrow>
     validInput (defaultVersion i) \<and> same_bytes (ci_ApprovedIntentSHA256 i) (ci_CandidateIntentSHA256 i) \<and>
     same_bytes (ci_ApprovedPayloadSHA256 i) (ci_CandidatePayloadSHA256 i)"

text \<open>The action is one transaction of the cell, under the policy the cell pins.\<close>

definition request_bound :: "SafeIsolatedRunner \<Rightarrow> CellInput \<Rightarrow> ActionArtifact \<Rightarrow> SafeTransaction \<Rightarrow> bool" where
  "request_bound r i a tx \<longleftrightarrow>
     EqualFold (action_SHA256 a) (ci_ActionSHA256 i) \<and> decodeCanonicalSafeAction a = Inr tx \<and>
     tx_ChainID tx = ci_ChainID i \<and> EqualFold (normalizeAddress (tx_To tx)) (normalizeAddress (ci_Target i)) \<and>
     normalizeAddress (tx_Safe tx) = normalizeAddress (cp_Safe (ir_Policy r)) \<and>
     (\<exists>h. safeContainmentPolicySHA256 (ir_Policy r) = Inr h \<and> EqualFold h (ci_InvariantSetSHA256 i))"

text \<open>The evidence is valid and was taken at the cell's block by the approved runner.\<close>

definition evidence_pinned :: "CellInput \<Rightarrow> SafeExecutionEvidence \<Rightarrow> bool" where
  "evidence_pinned i e \<longleftrightarrow>
     validateSafeExecutionEvidence e = None \<and> xe_ChainID e = ci_ChainID i \<and> xe_BlockNumber e = ci_BlockNumber i \<and>
     same_bytes (strip0x (xe_BlockHash e)) (ci_BlockHash i) \<and>
     same_bytes (strip0x (xe_RunnerSHA256 e)) (ci_ApprovedRunnerSHA256 i)"

definition code_unchanged :: "SafeAuthoritySnapshot \<Rightarrow> SafeAuthoritySnapshot \<Rightarrow> bool" where
  "code_unchanged a b \<longleftrightarrow>
     EqualFold (TrimSpace (sn_Implementation a)) (TrimSpace (sn_Implementation b)) \<and>
     EqualFold (TrimSpace (sn_CodeHash a)) (TrimSpace (sn_CodeHash b))"

definition effects_allowed :: "SafeContainmentPolicy \<Rightarrow> SafeTransaction \<Rightarrow> SafeExecutionEvidence \<Rightarrow> bool" where
  "effects_allowed policy tx e \<longleftrightarrow>
     (cp_AllowAuthority policy \<or> authority_unchanged (xe_Before e) (xe_After e)) \<and>
     budget_spec policy (xe_AssetMovements e) \<and> code_unchanged (xe_Before e) (xe_After e) \<and>
     depths_nested (te_Frames (xe_Trace e)) \<and>
     normalizeAddress (te_RootSafe (xe_Trace e)) = normalizeAddress (tx_Safe tx)"

text \<open>The observation of valid evidence.\<close>

definition run_observation :: "SafeContainmentPolicy \<Rightarrow> SafeTransaction \<Rightarrow> SafeExecutionEvidence \<Rightarrow> Observation" where
  "run_observation policy tx e =
     (let authority = (cp_AllowAuthority policy \<or> authority_unchanged (xe_Before e) (xe_After e));
          code = code_unchanged (xe_Before e) (xe_After e); assets = budget_spec policy (xe_AssetMovements e);
          path = (normalizeAddress (te_RootSafe (xe_Trace e)) = normalizeAddress (tx_Safe tx))
      in \<lparr>ob_BackendAvailable = True, ob_ObservedChainID = xe_ChainID e, ob_ObservedBlockNumber = xe_BlockNumber e,
          ob_ObservedBlockHash = strip0x (xe_BlockHash e), ob_ObservedRunnerSHA256 = strip0x (xe_RunnerSHA256 e),
          ob_PreStateSHA256 = strip0x (xe_PreStateSHA256 e), ob_PostStateSHA256 = strip0x (xe_PostStateSHA256 e),
          ob_EffectSetSHA256 = strip0x (xe_EffectSetSHA256 e), ob_AuthorityPreserved = authority,
          ob_AssetBoundsPreserved = assets, ob_CodeIntegrityPreserved = code, ob_ExecutionPathFullyObserved = path,
          ob_InvariantsPass = (authority \<and> assets \<and> code \<and> path)\<rparr>)"

lemma code_unchanged_compared:
  "code_unchanged a b \<longleftrightarrow>
     EqualFold (normalizeHexOrAddress (sn_Implementation a)) (normalizeHexOrAddress (sn_Implementation b)) \<and>
     EqualFold (TrimSpace (sn_CodeHash a)) (TrimSpace (sn_CodeHash b))"
  by (simp add: code_unchanged_def EqualFold_def normalizeHexOrAddress_def)

lemma Observe_bound:
  assumes "ir_Backend r = Some executeSafe" "request_bound r i a tx" "executeSafe ctx i tx = Inr e"
    and "validateSafeExecutionEvidence e = None"
  shows "Observe r ctx i a = Inr (run_observation (ir_Policy r) tx e)"
proof -
  obtain h where h: "safeContainmentPolicySHA256 (ir_Policy r) = Inr h" "EqualFold h (ci_InvariantSetSHA256 i)"
    using assms(2) unfolding request_bound_def by blast
  note b = assms(2) [unfolded request_bound_def]
  show ?thesis
    unfolding Observe_def
    using b by (simp only: assms(1,3,4) h option.case sum.case simp_thms if_False bindE_simps Let_def)
      (simp add: run_observation_def Let_def code_unchanged_compared VerifyOutflowBudget_iff
        equalSafeAuthority_iff evidence_valid [OF assms(4)])
qed

lemma Observe_iff:
  "Observe r ctx i a = Inr v \<longleftrightarrow>
     (\<exists>executeSafe tx e. ir_Backend r = Some executeSafe \<and> request_bound r i a tx \<and> executeSafe ctx i tx = Inr e \<and>
        validateSafeExecutionEvidence e = None \<and> v = run_observation (ir_Policy r) tx e)"
proof
  assume v: "Observe r ctx i a = Inr v"
  from v obtain executeSafe tx e where o: "ir_Backend r = Some executeSafe" "request_bound r i a tx"
    "executeSafe ctx i tx = Inr e" "validateSafeExecutionEvidence e = None"
    by (rule Observe_Inr) (use v in \<open>auto simp: request_bound_def Observe_def split: if_splits\<close>)
  with v show "\<exists>executeSafe tx e. ir_Backend r = Some executeSafe \<and> request_bound r i a tx \<and>
      executeSafe ctx i tx = Inr e \<and> validateSafeExecutionEvidence e = None \<and> v = run_observation (ir_Policy r) tx e"
    using Observe_bound [OF o] by auto
next
  assume "\<exists>executeSafe tx e. ir_Backend r = Some executeSafe \<and> request_bound r i a tx \<and> executeSafe ctx i tx = Inr e \<and>
      validateSafeExecutionEvidence e = None \<and> v = run_observation (ir_Policy r) tx e"
  then show "Observe r ctx i a = Inr v" using Observe_bound by auto
qed

lemma valid_stripped:
  "validHex32 v \<longleftrightarrow> ec_validSHA256 (strip0x v)" "validSHA256Text v \<longleftrightarrow> ec_validSHA256 (strip0x v)"
  by (simp_all add: validHex32_def validSHA256_def validSHA256Text_def ec_validSHA256_def strip0x_def Let_def)

lemma run_observation_release:
  "validateSafeExecutionEvidence e = None \<and> release_spec (defaultVersion i) (run_observation policy tx e) \<longleftrightarrow>
     cell_consistent i \<and> evidence_pinned i e \<and> effects_allowed policy tx e"
proof (cases "validateSafeExecutionEvidence e = None")
  case True
  have "ci_ChainID (defaultVersion i) = ci_ChainID i" "ci_BlockNumber (defaultVersion i) = ci_BlockNumber i"
    "ci_BlockHash (defaultVersion i) = ci_BlockHash i" "ci_ApprovedRunnerSHA256 (defaultVersion i) = ci_ApprovedRunnerSHA256 i"
    "ci_ApprovedIntentSHA256 (defaultVersion i) = ci_ApprovedIntentSHA256 i"
    "ci_CandidateIntentSHA256 (defaultVersion i) = ci_CandidateIntentSHA256 i"
    "ci_ApprovedPayloadSHA256 (defaultVersion i) = ci_ApprovedPayloadSHA256 i"
    "ci_CandidatePayloadSHA256 (defaultVersion i) = ci_CandidatePayloadSHA256 i"
    by (simp_all add: defaultVersion_def)
  moreover have "validObservationShape (run_observation policy tx e)"
    using True by (simp add: validObservationShape_def run_observation_def Let_def valid_stripped
        validateSafeExecutionEvidence_def split: if_splits)
  moreover have "depths_nested (te_Frames (xe_Trace e))" by (rule VerifySafeTrace_depths [OF evidence_valid(3) [OF True]])
  ultimately show ?thesis
    using True unfolding release_spec_def cell_consistent_def evidence_pinned_def effects_allowed_def
    by (simp add: run_observation_def Let_def) blast
qed (auto simp: evidence_pinned_def)

subsection \<open>The pinned backend\<close>

lemma wrapE_Inr [simp]: "wrapE what r = Inr x \<longleftrightarrow> r = Inr x"
  by (cases r) (simp_all add: wrapE_def)

lemma ExecuteSafe_Inr:
  assumes "ExecuteSafe K b ctx i tx = Inr e"
  obtains engine pinned runner pre result where
    "pb_Engine b = Some engine" "ctx BeforePinnedBackend = None" "ctx AfterExactExecution = None"
    "se_PinnedBlock engine ctx (ci_ChainID i) (ci_BlockNumber i) = Inr pinned"
    "equalHex32 pinned (ci_BlockHash i)" "se_RunnerSHA256 engine ctx = Inr runner"
    "validSHA256Text runner" "EqualFold (strip0x runner) (strip0x (ci_ApprovedRunnerSHA256 i))"
    "se_SnapshotSafe engine ctx (ci_ChainID i) (ci_BlockNumber i) (tx_Safe tx) = Inr (xe_Before e, pre)"
    "se_ExecuteExactSafe engine ctx i tx = Inr result"
    "VerifyAccessorSemantics K (pb_Accessor b) tx (si_Trace result)"
    "e = \<lparr>xe_ChainID = ci_ChainID i, xe_BlockNumber = ci_BlockNumber i,
      xe_BlockHash = TrimSpace pinned, xe_RunnerSHA256 = strip0x runner, xe_PreStateSHA256 = strip0x pre,
      xe_PostStateSHA256 = strip0x (si_PostStateSHA256 result),
      xe_EffectSetSHA256 = strip0x (si_EffectSetSHA256 result), xe_Before = xe_Before e,
      xe_After = si_PostAuthority result, xe_AssetMovements = si_AssetMovements result,
      xe_Trace = si_Trace result\<rparr>"
proof -
  from assms obtain engine where 1: "pb_Engine b = Some engine" "ctx BeforePinnedBackend = None"
    by (auto simp: ExecuteSafe_def split: option.splits if_splits)
  from assms obtain pinned runner where 2:
    "se_PinnedBlock engine ctx (ci_ChainID i) (ci_BlockNumber i) = Inr pinned"
    "equalHex32 pinned (ci_BlockHash i)" "se_RunnerSHA256 engine ctx = Inr runner"
    "validSHA256Text runner" "EqualFold (strip0x runner) (strip0x (ci_ApprovedRunnerSHA256 i))"
    by (auto simp: ExecuteSafe_def 1 bindE_Inr split: if_splits)
  from assms obtain before pre result where 3:
    "se_SnapshotSafe engine ctx (ci_ChainID i) (ci_BlockNumber i) (tx_Safe tx) = Inr (before, pre)"
    "se_ExecuteExactSafe engine ctx i tx = Inr result"
    by (auto simp: ExecuteSafe_def 1 2 bindE_Inr split: if_splits)
  from assms have "ctx AfterExactExecution = None"
    "VerifyAccessorSemantics K (pb_Accessor b) tx (si_Trace result)"
    and e: "e = \<lparr>xe_ChainID = ci_ChainID i, xe_BlockNumber = ci_BlockNumber i,
      xe_BlockHash = TrimSpace pinned, xe_RunnerSHA256 = strip0x runner, xe_PreStateSHA256 = strip0x pre,
      xe_PostStateSHA256 = strip0x (si_PostStateSHA256 result),
      xe_EffectSetSHA256 = strip0x (si_EffectSetSHA256 result), xe_Before = before,
      xe_After = si_PostAuthority result, xe_AssetMovements = si_AssetMovements result,
      xe_Trace = si_Trace result\<rparr>"
    by (auto simp: ExecuteSafe_def 1 2 3 wrapE_def split: if_splits option.splits)
  moreover from e have "xe_Before e = before" by simp
  ultimately show thesis
    using that [OF 1(1) 1(2) _ 2] 3 by simp
qed

subsection \<open>The policy identity\<close>

definition canonical_policy :: "SafeContainmentPolicy \<Rightarrow> SafeContainmentPolicy" where
  "canonical_policy p =
     p\<lparr>cp_Version := SafeContainmentPolicyVersion, cp_Safe := normalizeAddress (cp_Safe p),
       cp_AllowedOutflow := sort_key (\<lambda>b. json_print (json_SafeOutflowBound b))
         (map normalize_bound (cp_AllowedOutflow p))\<rparr>"

lemma safeContainmentPolicySHA256_Inr:
  "safeContainmentPolicySHA256 p = Inr h \<longleftrightarrow>
     (cp_Version p = [] \<or> cp_Version p = SafeContainmentPolicyVersion) \<and> validAddress (cp_Safe p) \<and>
     list_all (\<lambda>b. validOutflowBound (normalize_bound b)) (cp_AllowedOutflow p) \<and>
     h = json_digest (json_SafeContainmentPolicy (canonical_policy p))"
proof -
  have "p\<lparr>cp_Version := SafeContainmentPolicyVersion, cp_Safe := a, cp_AllowedOutflow := l\<rparr> =
      p\<lparr>cp_Safe := a, cp_AllowedOutflow := l\<rparr>" if "cp_Version p = SafeContainmentPolicyVersion" for a l
    using that by simp
  then show ?thesis
    by (cases p) (auto simp: safeContainmentPolicySHA256_def normalize_bounds_eq canonical_policy_def Let_def)
qed

definition ok_policy :: "SafeContainmentPolicy \<Rightarrow> bool" where
  "ok_policy p \<longleftrightarrow> json_ascii (json_SafeContainmentPolicy p)"

lemma json_SafeOutflowBound_inject: "json_SafeOutflowBound a = json_SafeOutflowBound b \<Longrightarrow> a = b"
  by (cases a; cases b) (simp add: json_SafeOutflowBound_def)

interpretation policy_binding: digest_binding json_SafeContainmentPolicy ok_policy
proof
  fix a b assume "json_SafeContainmentPolicy a = json_SafeContainmentPolicy b"
  then show "a = b"
    by (cases a; cases b)
       (auto simp: json_SafeContainmentPolicy_def dest!: json_slice_inject [rotated] json_SafeOutflowBound_inject)
qed (simp add: ok_policy_def)

subsection \<open>A concrete execution\<close>

definition sample_snapshot :: SafeAuthoritySnapshot where
  "sample_snapshot =
     \<lparr>sn_Owners = [sample_target], sn_Threshold = 1, sn_Modules = [], sn_Guard = sample_target,
      sn_FallbackHandler = sample_target, sn_Implementation = sample_target,
      sn_CodeHash = sha256Hex ''code''\<rparr>"

definition sample_policy :: SafeContainmentPolicy where
  "sample_policy = \<lparr>cp_Version = [], cp_Safe = sample_target, cp_AllowAuthority = False, cp_AllowedOutflow = []\<rparr>"

definition sample_engine :: "keccak \<Rightarrow> SafeSimulationEngine" where
  "sample_engine K =
     \<lparr>se_PinnedBlock = (\<lambda>_ _ _. Inr (sha256Hex ''block'')), se_RunnerSHA256 = (\<lambda>_. Inr (sha256Hex ''runner'')),
      se_SnapshotSafe = (\<lambda>_ _ _ _. Inr (sample_snapshot, sha256Hex ''pre'')),
      se_ExecuteExactSafe = (\<lambda>_ _ _. Inr
        \<lparr>si_PostAuthority = sample_snapshot, si_PostStateSHA256 = sha256Hex ''post'',
         si_EffectSetSHA256 = sha256Hex ''effects'', si_AssetMovements = [], si_Trace = sample_trace K\<rparr>)\<rparr>"

definition sample_backend :: "keccak \<Rightarrow> PinnedSafeBackend" where
  "sample_backend K = \<lparr>pb_Engine = Some (sample_engine K), pb_Accessor = sample_target\<rparr>"

definition sample_isolated :: "keccak \<Rightarrow> SafeIsolatedRunner" where
  "sample_isolated K = \<lparr>ir_Backend = Some (ExecuteSafe K (sample_backend K)), ir_Policy = sample_policy\<rparr>"

definition sample_isolated_input :: "keccak \<Rightarrow> CellInput" where
  "sample_isolated_input K = (sample_cell K)
     \<lparr>ci_InvariantSetSHA256 := json_digest (json_SafeContainmentPolicy (canonical_policy sample_policy))\<rparr>"

lemma sample_target_normal [simp]: "normalizeAddress sample_target = sample_target"
proof -
  have "TrimPrefix sample_target ''0x'' = drop 2 sample_target" "ToLower (drop 2 sample_target) = drop 2 sample_target"
    by (simp_all add: sample_target_def ToLower_def lower_char_def)
  then show ?thesis by (simp add: normalizeAddress_def) (simp add: sample_target_def)
qed

lemma sample_tx_canonical: "canonical_tx sample_tx = sample_tx"
  by (simp add: canonical_tx_def) (simp add: sample_tx_def)

lemma sample_decode: "decodeCanonicalSafeAction (sample_action_of sample_tx) = Inr sample_tx"
  using decode_canonical [of sample_tx "sample_action_of sample_tx"]
  by (simp add: sample_tx_canonical CanonicalSafeActionArtifact_valid sample_tx_valid sample_action_of_def)

lemma sample_snapshot_valid: "validAuthoritySnapshot sample_snapshot"
  by (simp add: validAuthoritySnapshot_def sample_snapshot_def sample_target_valid)

lemma sample_policy_digest:
  "safeContainmentPolicySHA256 sample_policy =
     Inr (json_digest (json_SafeContainmentPolicy (canonical_policy sample_policy)))"
  unfolding safeContainmentPolicySHA256_Inr by (simp add: sample_policy_def sample_target_valid)

definition sample_evidence :: "keccak \<Rightarrow> SafeExecutionEvidence" where
  "sample_evidence K =
     \<lparr>xe_ChainID = 1, xe_BlockNumber = 22000000, xe_BlockHash = sha256Hex ''block'',
      xe_RunnerSHA256 = sha256Hex ''runner'', xe_PreStateSHA256 = sha256Hex ''pre'',
      xe_PostStateSHA256 = sha256Hex ''post'', xe_EffectSetSHA256 = sha256Hex ''effects'',
      xe_Before = sample_snapshot, xe_After = sample_snapshot, xe_AssetMovements = [],
      xe_Trace = sample_trace K\<rparr>"

lemma strip0x_sha256Hex [simp]: "strip0x (sha256Hex s) = sha256Hex s"
  by (simp add: strip0x_def)

lemma sample_execute:
  "ExecuteSafe K (sample_backend K) background (sample_isolated_input K) sample_tx = Inr (sample_evidence K)"
proof -
  have i: "ci_ChainID (sample_isolated_input K) = 1" "ci_BlockNumber (sample_isolated_input K) = 22000000"
    "ci_BlockHash (sample_isolated_input K) = sha256Hex ''block''"
    "ci_ApprovedRunnerSHA256 (sample_isolated_input K) = sha256Hex ''runner''"
    "ci_Target (sample_isolated_input K) = sample_target"
    by (simp_all add: sample_isolated_input_def sample_cell_def sample_input_def)
  have t: "tx_ChainID sample_tx = 1" "tx_To sample_tx = sample_target"
    by (simp_all add: sample_tx_def)
  show ?thesis
    by (simp add: ExecuteSafe_def sample_backend_def sample_engine_def wrapE_def i t
        sample_target_valid sample_snapshot_valid sample_trace_accessor sample_evidence_def)
qed

lemma sample_evidence_valid: "validateSafeExecutionEvidence (sample_evidence K) = None"
  by (simp add: validateSafeExecutionEvidence_def sample_evidence_def sample_snapshot_valid sample_trace_verifies)

lemma sample_observe:
  "Observe (sample_isolated K) background (sample_isolated_input K) (sample_action_of sample_tx) = Inr sample_observation"
proof -
  have i: "ci_ChainID (sample_isolated_input K) = 1" "ci_Target (sample_isolated_input K) = sample_target"
    "ci_ActionSHA256 (sample_isolated_input K) = action_SHA256 (sample_action_of sample_tx)"
    "ci_InvariantSetSHA256 (sample_isolated_input K) =
       json_digest (json_SafeContainmentPolicy (canonical_policy sample_policy))"
    by (simp_all add: sample_isolated_input_def sample_cell_def sample_input_def)
  have t: "tx_ChainID sample_tx = 1" "tx_To sample_tx = sample_target" "tx_Safe sample_tx = sample_target"
    by (simp_all add: sample_tx_def)
  have p: "cp_Safe sample_policy = sample_target" by (simp add: sample_policy_def)
  have a: "equalSafeAuthority sample_snapshot sample_snapshot"
    by (simp add: equalSafeAuthority_def equalAddressSets_def)
  have b: "VerifyOutflowBudget sample_policy []"
    by (simp add: VerifyOutflowBudget_def sample_policy_def)
  show ?thesis
    by (simp add: Observe_def sample_isolated_def sample_policy_digest i t p sample_decode sample_execute
        sample_evidence_valid Let_def)
       (simp add: sample_evidence_def a b sample_trace_verifies sample_observation_def)
qed

lemma sample_isolated_release:
  "rc_Decision (EvaluateWithRunner background (sample_isolated_input K) (sample_action_of sample_tx)
     (Some (Observe (sample_isolated K)))) = DecisionRelease"
proof -
  have d: "defaultVersion (sample_isolated_input K) = sample_isolated_input K"
    by (simp add: defaultVersion_def sample_isolated_input_def sample_cell_def sample_input_def ContainmentVersion_def)
  have h: "ec_validSHA256 (hex_encode (keccak256 K x))" for x
    by (simp add: ec_validSHA256_def)
  have "validInput (sample_isolated_input K)"
    using sample_valid(1)
    by (simp add: validInput_def sample_isolated_input_def sample_cell_def h) (simp add: ec_validSHA256_eq action_SHA256_def)
  then have "release_spec (sample_isolated_input K) sample_observation"
    using sample_release
    by (simp add: release_spec_def sample_isolated_input_def sample_cell_def same_bytes_def)
  moreover have "action_validFor (sample_action_of sample_tx) (sample_isolated_input K)"
    using json_print_head [of "json_canonicalSafeAction (safe_wire sample_tx)"]
    by (simp add: action_validFor_def sample_isolated_input_def sample_cell_def)
       (simp add: sample_action_of_def SafeActionArtifactKind_def TrimSpace_first_visible visible_def)
  ultimately show ?thesis
    by (simp add: EvaluateWithRunner_def sample_observe release_iff d)
qed

subsection \<open>Properties\<close>

text \<open>C10: A release through the isolated Safe runner is given exactly when: the context was live before and after
  the observation; the cell is well-formed, its approved and candidate intents and payloads are the same bytes and
  the action carries the cell's digest; the action decodes to one transaction that is the cell's chain and target,
  under the policy whose digest the cell pins and for that policy's Safe; the backend executed exactly that
  transaction, in this context and for this cell, and its evidence is valid and names the cell's chain, block, block
  hash and runner; and the effects are the approved ones: the Safe's authority is unchanged unless the
  policy allows it, the outflows keep the cumulative budget, implementation and code hash are unchanged, and the trace
  is that Safe's, a complete call tree.\<close>

theorem isolated_release:
  "rc_Decision (EvaluateWithRunner ctx i a (Some (Observe r))) = DecisionRelease \<longleftrightarrow>
     ctx BeforeObserve = None \<and> ctx AfterObserve = None \<and> action_validFor a i \<and> cell_consistent i \<and>
     (\<exists>executeSafe tx e. ir_Backend r = Some executeSafe \<and> request_bound r i a tx \<and> executeSafe ctx i tx = Inr e \<and>
        evidence_pinned i e \<and> effects_allowed (ir_Policy r) tx e)"
proof -
  have "rc_Decision (EvaluateWithRunner ctx i a (Some (Observe r))) = DecisionRelease \<longleftrightarrow>
      ctx BeforeObserve = None \<and> ctx AfterObserve = None \<and> action_validFor a i \<and>
      (\<exists>v. Observe r ctx i a = Inr v \<and> release_spec (defaultVersion i) v)"
    by (cases "Observe r ctx i a") (auto simp: EvaluateWithRunner_def release_iff decisions_distinct)
  moreover have "(\<exists>v. Observe r ctx i a = Inr v \<and> release_spec (defaultVersion i) v) \<longleftrightarrow>
      (\<exists>executeSafe tx e. ir_Backend r = Some executeSafe \<and> request_bound r i a tx \<and> executeSafe ctx i tx = Inr e \<and>
        validateSafeExecutionEvidence e = None \<and> release_spec (defaultVersion i) (run_observation (ir_Policy r) tx e))"
    unfolding Observe_iff by blast
  ultimately show ?thesis unfolding run_observation_release by blast
qed

theorem isolated_release_witness:
  "\<exists>executeSafe tx e. ir_Backend (sample_isolated Sum256) = Some executeSafe \<and>
     request_bound (sample_isolated Sum256) (sample_isolated_input Sum256) (sample_action_of sample_tx) tx \<and>
     executeSafe background (sample_isolated_input Sum256) tx = Inr e \<and> effects_allowed sample_policy tx e"
  using isolated_release [of background "sample_isolated_input Sum256" "sample_action_of sample_tx" "sample_isolated Sum256"]
    sample_isolated_release [of Sum256]
  by (auto simp: sample_isolated_def)

text \<open>With the pinned backend behind the runner, a release also says where the evidence comes from:
  the engine resolved the pinned block to the cell's block hash and reported the approved runner
  identity, the pre-state is its snapshot of that Safe at that block, and the trace entered
  through the configured accessor with exactly the simulated call of that transaction.\<close>

theorem pinned_release:
  assumes "rc_Decision (EvaluateWithRunner ctx i a (Some (Observe r))) = DecisionRelease"
    and "ir_Backend r = Some (ExecuteSafe K b)"
  shows "\<exists>engine ctx tx e pinned runner pre result.
           pb_Engine b = Some engine \<and> CanonicalSafeActionArtifact tx = Inr a \<and>
           ExecuteSafe K b ctx i tx = Inr e \<and>
           se_PinnedBlock engine ctx (ci_ChainID i) (ci_BlockNumber i) = Inr pinned \<and>
           equalHex32 pinned (ci_BlockHash i) \<and>
           se_RunnerSHA256 engine ctx = Inr runner \<and>
           EqualFold (strip0x runner) (strip0x (ci_ApprovedRunnerSHA256 i)) \<and>
           se_SnapshotSafe engine ctx (ci_ChainID i) (ci_BlockNumber i) (tx_Safe tx) = Inr (xe_Before e, pre) \<and>
           se_ExecuteExactSafe engine ctx i tx = Inr result \<and>
           VerifyAccessorSemantics K (pb_Accessor b) tx (si_Trace result) \<and>
           xe_Trace e = si_Trace result \<and> xe_AssetMovements e = si_AssetMovements result"
proof -
  from safe_runner.release_justified [OF assms(1)] obtain v where "observe_justified r i a v" by blast
  then obtain ctx tx e where "ExecuteSafe K b ctx i tx = Inr e" "CanonicalSafeActionArtifact tx = Inr a"
    using assms(2) unfolding observe_justified_def by auto
  moreover from this(1) obtain engine pinned runner pre result where
    "pb_Engine b = Some engine" "se_PinnedBlock engine ctx (ci_ChainID i) (ci_BlockNumber i) = Inr pinned"
    "equalHex32 pinned (ci_BlockHash i)" "se_RunnerSHA256 engine ctx = Inr runner"
    "EqualFold (strip0x runner) (strip0x (ci_ApprovedRunnerSHA256 i))"
    "se_SnapshotSafe engine ctx (ci_ChainID i) (ci_BlockNumber i) (tx_Safe tx) = Inr (xe_Before e, pre)"
    "se_ExecuteExactSafe engine ctx i tx = Inr result"
    "VerifyAccessorSemantics K (pb_Accessor b) tx (si_Trace result)"
    "xe_Trace e = si_Trace result" "xe_AssetMovements e = si_AssetMovements result"
    by (rule ExecuteSafe_Inr) (metis SafeExecutionEvidence.select_convs(10,11))
  ultimately show ?thesis by metis
qed

theorem pinned_release_witness:
  "\<exists>tx. \<exists>result :: SafeSimulationResult. CanonicalSafeActionArtifact tx = Inr (sample_action_of sample_tx) \<and>
     VerifyAccessorSemantics Sum256 sample_target tx (si_Trace result)"
proof -
  have b: "ir_Backend (sample_isolated Sum256) = Some (ExecuteSafe Sum256 (sample_backend Sum256))"
    "pb_Accessor (sample_backend Sum256) = sample_target"
    by (simp_all add: sample_isolated_def sample_backend_def)
  from pinned_release [OF sample_isolated_release b(1)] show ?thesis
    unfolding b(2) by metis
qed

text \<open>A policy digest names one policy: two accepted policies with one digest have the same Safe, the
  same authority flag and the same outflow rows, unless the two encodings are a SHA-256
  collision; and the order in which rows are written does not matter.\<close>

theorem policy_identity:
  assumes "safeContainmentPolicySHA256 p = Inr h" and "safeContainmentPolicySHA256 q = Inr h"
    and "ok_policy (canonical_policy p)" and "ok_policy (canonical_policy q)"
    and "mset bs = mset cs"
  shows "(canonical_policy p = canonical_policy q \<or>
          sha256_collision (json_print (json_SafeContainmentPolicy (canonical_policy p)))
            (json_print (json_SafeContainmentPolicy (canonical_policy q)))) \<and>
         safeContainmentPolicySHA256 (p\<lparr>cp_AllowedOutflow := bs\<rparr>) =
         safeContainmentPolicySHA256 (p\<lparr>cp_AllowedOutflow := cs\<rparr>)"
proof
  show "canonical_policy p = canonical_policy q \<or>
      sha256_collision (json_print (json_SafeContainmentPolicy (canonical_policy p)))
        (json_print (json_SafeContainmentPolicy (canonical_policy q)))"
    using assms(1,2) by (intro policy_binding.binds assms) (simp add: safeContainmentPolicySHA256_Inr)
qed (rule policy_digest_bounds [OF assms(5)])

theorem policy_identity_witness:
  "(let q = sample_policy\<lparr>cp_Version := SafeContainmentPolicyVersion\<rparr>;
        b = \<lparr>ob_Kind = ''erc20'', ob_Token = [], ob_To = sample_target, ob_ID = [], ob_MaxAmount = ''10''\<rparr>;
        c = b\<lparr>ob_MaxAmount := ''20''\<rparr> in
    sample_policy \<noteq> q \<and> safeContainmentPolicySHA256 sample_policy = safeContainmentPolicySHA256 q \<and>
    safeContainmentPolicySHA256 (sample_policy\<lparr>cp_AllowedOutflow := [b, c]\<rparr>) =
    safeContainmentPolicySHA256 (sample_policy\<lparr>cp_AllowedOutflow := [c, b]\<rparr>))"
proof -
  let ?q = "sample_policy\<lparr>cp_Version := SafeContainmentPolicyVersion\<rparr>"
  let ?b = "\<lparr>ob_Kind = ''erc20'', ob_Token = [], ob_To = sample_target, ob_ID = [], ob_MaxAmount = ''10''\<rparr>"
  let ?c = "?b\<lparr>ob_MaxAmount := ''20''\<rparr>"
  have c: "canonical_policy ?q = canonical_policy sample_policy"
    by (simp add: canonical_policy_def sample_policy_def)
  have q: "safeContainmentPolicySHA256 ?q =
      Inr (json_digest (json_SafeContainmentPolicy (canonical_policy sample_policy)))"
    unfolding safeContainmentPolicySHA256_Inr c by (simp add: sample_policy_def sample_target_valid)
  have "ascii sample_target" by (rule ascii_visible) (rule sample_target_visible)
  then have ok: "ok_policy (canonical_policy sample_policy)"
    by (simp add: ok_policy_def canonical_policy_def json_SafeContainmentPolicy_def
        SafeContainmentPolicyVersion_def json_slice_def append_nil_def) (simp add: sample_policy_def)
  have "mset [?b, ?c] = mset [?c, ?b]" by simp
  from policy_identity [OF sample_policy_digest q ok ok [folded c] this]
  have "safeContainmentPolicySHA256 (sample_policy\<lparr>cp_AllowedOutflow := [?b, ?c]\<rparr>) =
      safeContainmentPolicySHA256 (sample_policy\<lparr>cp_AllowedOutflow := [?c, ?b]\<rparr>)" by blast
  moreover have "sample_policy \<noteq> ?q"
    by (simp add: sample_policy_def SafeContainmentPolicyVersion_def)
  ultimately show ?thesis
    unfolding Let_def using q sample_policy_digest by simp
qed

end
