(* ===== verification/Fork_Sim.thy ===== *)
theory Fork_Sim
  imports Proof_Gate
begin

text \<open>
  \<^verbatim>\<open>internal/executionproof/invariant_runner.go\<close>: the deterministic evaluation of a fork
  simulation. A request names the checks that must be reported; the backend returns the state
  it observed and the checks; the receipt passes only when state, payload and invariant set
  are the requested ones and the reported checks are exactly the required ones, all passed.

  Slices of the receipt are \<open>slice\<close>s, because nil and empty ones have different JSON.
  \<^verbatim>\<open>sort.Slice\<close> by identifier is the stable \<open>sort_key\<close>: on distinct identifiers every sort
  agrees, and repeated identifiers are rejected by the code.
\<close>

type_synonym InvariantClass = string
type_synonym SimulationDecision = string
type_synonym SimulationReason = string

definition InvariantRunnerVersion :: string where "InvariantRunnerVersion = ''koschei-invariant-runner/v0.2''"

definition InvariantAssetConservation :: InvariantClass where "InvariantAssetConservation = ''ASSET_CONSERVATION''"
definition InvariantPrivilegedRole :: InvariantClass where "InvariantPrivilegedRole = ''PRIVILEGED_ROLE''"
definition InvariantProxyCodehash :: InvariantClass where "InvariantProxyCodehash = ''PROXY_CODEHASH''"
definition InvariantTreasuryBound :: InvariantClass where "InvariantTreasuryBound = ''TREASURY_VALUE_BOUND''"
definition InvariantBridgeReserve :: InvariantClass where "InvariantBridgeReserve = ''BRIDGE_RESERVE_SUPPLY''"

definition SimulationAllow :: SimulationDecision where "SimulationAllow = ''PASS''"
definition SimulationBlock :: SimulationDecision where "SimulationBlock = ''BLOCK''"

definition SIMInvalidRequest :: SimulationReason where "SIMInvalidRequest = ''SIM-001-INVALID-REQUEST''"
definition SIMBackendFailure :: SimulationReason where "SIMBackendFailure = ''SIM-002-BACKEND-FAILURE''"
definition SIMStateMismatch :: SimulationReason where "SIMStateMismatch = ''SIM-003-STATE-MISMATCH''"
definition SIMPayloadMismatch :: SimulationReason where "SIMPayloadMismatch = ''SIM-004-PAYLOAD-MISMATCH''"
definition SIMInvariantDrift :: SimulationReason where "SIMInvariantDrift = ''SIM-005-INVARIANT-SET-MISMATCH''"
definition SIMMissingChecks :: SimulationReason where "SIMMissingChecks = ''SIM-006-MISSING-CHECKS''"
definition SIMDuplicateCheck :: SimulationReason where "SIMDuplicateCheck = ''SIM-007-DUPLICATE-CHECK''"
definition SIMInvariantFailure :: SimulationReason where "SIMInvariantFailure = ''SIM-008-INVARIANT-FAILURE''"
definition SIMInvalidEvidence :: SimulationReason where "SIMInvalidEvidence = ''SIM-009-INVALID-EVIDENCE''"
definition SIMCheckSetMismatch :: SimulationReason where "SIMCheckSetMismatch = ''SIM-010-CHECK-SET-MISMATCH''"

lemma simulation_decisions_distinct [simp]:
  "SimulationAllow \<noteq> SimulationBlock" "SimulationBlock \<noteq> SimulationAllow"
  by (simp_all add: SimulationAllow_def SimulationBlock_def)

subsection \<open>Requests, results, receipts\<close>

record ForkSimulationRequest =
  fq_Version :: string
  fq_ChainID :: u64
  fq_ReferenceBlock :: u64
  fq_ReferenceBlockHash :: string
  fq_PayloadSHA256 :: string
  fq_InvariantSetSHA256 :: string
  fq_RunnerSHA256 :: string
  fq_RequiredCheckIDs :: "string list"

record InvariantCheck =
  ic_ID :: string
  ic_Class :: InvariantClass
  ic_Passed :: bool
  ic_Evidence :: string

record ForkBackendResult =
  fb_ChainID :: u64
  fb_ObservedReferenceBlock :: u64
  fb_ObservedReferenceHash :: string
  fb_ObservedPayloadSHA256 :: string
  fb_ObservedInvariantSetHash :: string
  fb_Checks :: "InvariantCheck slice"

record ForkSimulationReceipt =
  fs_Version :: string
  fs_ChainID :: u64
  fs_ReferenceBlock :: u64
  fs_ReferenceBlockHash :: string
  fs_PayloadSHA256 :: string
  fs_InvariantSetSHA256 :: string
  fs_RunnerSHA256 :: string
  fs_RequiredCheckIDs :: "string slice"
  fs_Checks :: "InvariantCheck slice"
  fs_Decision :: SimulationDecision
  fs_Reasons :: "SimulationReason slice"
  fs_ReceiptSHA256 :: string

type_synonym ForkSimulationBackend = "ctx \<Rightarrow> ForkSimulationRequest \<Rightarrow> go_error + ForkBackendResult"

definition json_InvariantCheck :: "InvariantCheck \<Rightarrow> json" where
  "json_InvariantCheck c = JObj
    [(''id'', JStr (ic_ID c)), (''class'', JStr (ic_Class c)), (''passed'', JBool (ic_Passed c)),
     (''evidence_sha256'', JStr (ic_Evidence c))]"

definition json_ForkSimulationReceipt :: "ForkSimulationReceipt \<Rightarrow> json" where
  "json_ForkSimulationReceipt r = JObj
    [(''version'', JStr (fs_Version r)), (''chain_id'', json_u64 (fs_ChainID r)),
     (''reference_block'', json_u64 (fs_ReferenceBlock r)),
     (''reference_block_hash'', JStr (fs_ReferenceBlockHash r)),
     (''payload_sha256'', JStr (fs_PayloadSHA256 r)),
     (''invariant_set_sha256'', JStr (fs_InvariantSetSHA256 r)),
     (''runner_sha256'', JStr (fs_RunnerSHA256 r)),
     (''required_check_ids'', json_slice JStr (fs_RequiredCheckIDs r)),
     (''checks'', json_slice json_InvariantCheck (fs_Checks r)), (''decision'', JStr (fs_Decision r)),
     (''reasons'', json_slice JStr (fs_Reasons r)), (''receipt_sha256'', JStr (fs_ReceiptSHA256 r))]"

subsection \<open>Canonical forms\<close>

definition validForkSimulationRequest :: "ForkSimulationRequest \<Rightarrow> bool" where
  "validForkSimulationRequest q \<longleftrightarrow>
     fq_Version q = InvariantRunnerVersion \<and> fq_ChainID q \<noteq> 0 \<and> fq_ReferenceBlock q \<noteq> 0 \<and>
     validHex32 (fq_ReferenceBlockHash q) \<and> validSHA256 (fq_PayloadSHA256 q) \<and>
     validSHA256 (fq_InvariantSetSHA256 q) \<and> validSHA256 (fq_RunnerSHA256 q) \<and>
     length (fq_RequiredCheckIDs q) \<noteq> 0"

fun collectIDs :: "string list \<Rightarrow> string set \<Rightarrow> string list \<Rightarrow> string list option" where
  "collectIDs [] seen ids = Some ids"
| "collectIDs (raw # input) seen ids =
     (let i = TrimSpace raw in
      if i = [] then None
      else if i \<in> seen then None
      else collectIDs input (insert i seen) (ids @ [i]))"

definition canonicalizeRequiredCheckIDs :: "string list \<Rightarrow> string list option" where
  "canonicalizeRequiredCheckIDs input =
     (if length input = 0 then None else map_option sort (collectIDs input {} []))"

definition validInvariantClass :: "InvariantClass \<Rightarrow> bool" where
  "validInvariantClass c \<longleftrightarrow>
     c \<in> {InvariantAssetConservation, InvariantPrivilegedRole, InvariantProxyCodehash,
          InvariantTreasuryBound, InvariantBridgeReserve}"

definition appendUniqueSimulationReason ::
  "SimulationReason list \<Rightarrow> SimulationReason \<Rightarrow> SimulationReason list" where
  "appendUniqueSimulationReason reasons reason =
     (if reason \<in> set reasons then reasons else reasons @ [reason])"

definition normalize_check :: "InvariantCheck \<Rightarrow> InvariantCheck" where
  "normalize_check c = c\<lparr>ic_ID := TrimSpace (ic_ID c), ic_Evidence := ToLower (TrimSpace (ic_Evidence c))\<rparr>"

fun check_reasons :: "InvariantCheck list \<Rightarrow> string set \<Rightarrow> SimulationReason list \<Rightarrow> SimulationReason list" where
  "check_reasons [] seen reasons = reasons"
| "check_reasons (c # checks) seen reasons =
     (let reasons = (if ic_ID c = [] \<or> \<not> validInvariantClass (ic_Class c) \<or> \<not> validSHA256 (ic_Evidence c)
                     then appendUniqueSimulationReason reasons SIMInvalidEvidence else reasons);
          reasons = (if ic_ID c \<in> seen then appendUniqueSimulationReason reasons SIMDuplicateCheck else reasons);
          reasons = (if \<not> ic_Passed c then appendUniqueSimulationReason reasons SIMInvariantFailure else reasons)
      in check_reasons checks (insert (ic_ID c) seen) reasons)"

definition canonicalizeInvariantChecks ::
  "InvariantCheck list \<Rightarrow> InvariantCheck slice \<times> SimulationReason list" where
  "canonicalizeInvariantChecks input =
     (if length input = 0 then (None, [SIMMissingChecks])
      else let checks = sort_key ic_ID (map normalize_check input)
           in (Some checks, check_reasons checks {} []))"

fun exactRequiredCheckSet :: "string list \<Rightarrow> InvariantCheck list \<Rightarrow> bool" where
  "exactRequiredCheckSet [] [] = True"
| "exactRequiredCheckSet (r # required) (c # checks) =
     (if r \<noteq> ic_ID c then False else exactRequiredCheckSet required checks)"
| "exactRequiredCheckSet _ _ = False"

subsection \<open>The run\<close>

definition simulationReceiptDigest :: "ForkSimulationReceipt \<Rightarrow> string" where
  "simulationReceiptDigest receipt =
     json_digest (json_ForkSimulationReceipt (receipt\<lparr>fs_ReceiptSHA256 := []\<rparr>))"

definition withRunnerVersion :: "ForkSimulationRequest \<Rightarrow> ForkSimulationRequest" where
  "withRunnerVersion q = (if fq_Version q = [] then q\<lparr>fq_Version := InvariantRunnerVersion\<rparr> else q)"

definition blockedSimulationReceipt ::
  "ForkSimulationRequest \<Rightarrow> InvariantCheck slice \<Rightarrow> SimulationReason \<Rightarrow> ForkSimulationReceipt" where
  "blockedSimulationReceipt request checks reason =
     (let request = withRunnerVersion request;
          receipt = \<lparr>fs_Version = fq_Version request, fs_ChainID = fq_ChainID request,
            fs_ReferenceBlock = fq_ReferenceBlock request,
            fs_ReferenceBlockHash = normalizeHex32 (fq_ReferenceBlockHash request),
            fs_PayloadSHA256 = ToLower (TrimSpace (fq_PayloadSHA256 request)),
            fs_InvariantSetSHA256 = ToLower (TrimSpace (fq_InvariantSetSHA256 request)),
            fs_RunnerSHA256 = ToLower (TrimSpace (fq_RunnerSHA256 request)),
            fs_RequiredCheckIDs = append_nil (fq_RequiredCheckIDs request), fs_Checks = checks,
            fs_Decision = SimulationBlock, fs_Reasons = Some [reason], fs_ReceiptSHA256 = []\<rparr>
      in receipt\<lparr>fs_ReceiptSHA256 := simulationReceiptDigest receipt\<rparr>)"

definition ErrSimulationBlocked :: go_error where
  "ErrSimulationBlocked = ErrMsg ''execution proof invariant simulation blocked''"

definition state_reasons :: "ForkSimulationRequest \<Rightarrow> ForkBackendResult \<Rightarrow> SimulationReason list" where
  "state_reasons q result =
     (if fb_ChainID result \<noteq> fq_ChainID q \<or> fb_ObservedReferenceBlock result \<noteq> fq_ReferenceBlock q \<or>
         \<not> equalHex32 (fb_ObservedReferenceHash result) (fq_ReferenceBlockHash q)
      then [SIMStateMismatch] else []) @
     (if \<not> equalDigest (fb_ObservedPayloadSHA256 result) (fq_PayloadSHA256 q) then [SIMPayloadMismatch] else []) @
     (if \<not> equalDigest (fb_ObservedInvariantSetHash result) (fq_InvariantSetSHA256 q)
      then [SIMInvariantDrift] else [])"

definition RunForkInvariants ::
  "ctx \<Rightarrow> ForkSimulationRequest \<Rightarrow> ForkSimulationBackend option \<Rightarrow> ForkSimulationReceipt \<times> go_error option" where
  "RunForkInvariants ctx request backend =
     (let request = withRunnerVersion request;
          canonicalIDs = canonicalizeRequiredCheckIDs (fq_RequiredCheckIDs request);
          request = request\<lparr>fq_RequiredCheckIDs := (case canonicalIDs of None \<Rightarrow> [] | Some ids \<Rightarrow> ids)\<rparr> in
      case backend of
        None \<Rightarrow> (blockedSimulationReceipt request None SIMInvalidRequest, Some ErrSimulationBlocked)
      | Some execute \<Rightarrow>
      (if canonicalIDs = None \<or> \<not> validForkSimulationRequest request
       then (blockedSimulationReceipt request None SIMInvalidRequest, Some ErrSimulationBlocked)
       else (case ctx BeforeForkSimulation of
          Some err \<Rightarrow> (blockedSimulationReceipt request None SIMBackendFailure, Some err)
        | None \<Rightarrow>
          (case execute ctx request of
             Inl err \<Rightarrow> (blockedSimulationReceipt request None SIMBackendFailure,
                         Some (ErrWrap ''fork simulation backend'' err))
           | Inr result \<Rightarrow>
             (let reasons = state_reasons request result;
                  (checks, checkReasons) = canonicalizeInvariantChecks (elems (fb_Checks result));
                  reasons = reasons @ checkReasons;
                  reasons = (if \<not> exactRequiredCheckSet (fq_RequiredCheckIDs request) (elems checks)
                             then appendUniqueSimulationReason reasons SIMCheckSetMismatch else reasons);
                  decision = (if length reasons \<noteq> 0 then SimulationBlock else SimulationAllow);
                  receipt = \<lparr>fs_Version = fq_Version request, fs_ChainID = fq_ChainID request,
                    fs_ReferenceBlock = fq_ReferenceBlock request,
                    fs_ReferenceBlockHash = normalizeHex32 (fq_ReferenceBlockHash request),
                    fs_PayloadSHA256 = ToLower (fq_PayloadSHA256 request),
                    fs_InvariantSetSHA256 = ToLower (fq_InvariantSetSHA256 request),
                    fs_RunnerSHA256 = ToLower (fq_RunnerSHA256 request),
                    fs_RequiredCheckIDs = append_nil (fq_RequiredCheckIDs request), fs_Checks = checks,
                    fs_Decision = decision, fs_Reasons = Some reasons, fs_ReceiptSHA256 = []\<rparr>;
                  receipt = receipt\<lparr>fs_ReceiptSHA256 := simulationReceiptDigest receipt\<rparr>
              in (receipt, if decision \<noteq> SimulationAllow then Some ErrSimulationBlocked else None))))))"

subsection \<open>What the canonical forms compute\<close>

lemma collectIDs_Some:
  "collectIDs input seen ids = Some out \<longleftrightarrow>
     [] \<notin> TrimSpace ` set input \<and> distinct (map TrimSpace input) \<and> TrimSpace ` set input \<inter> seen = {} \<and>
     out = ids @ map TrimSpace input"
  by (induction input arbitrary: seen ids) (auto simp: Let_def)

lemma canonicalizeRequiredCheckIDs_Some:
  "canonicalizeRequiredCheckIDs input = Some ids \<longleftrightarrow>
     input \<noteq> [] \<and> [] \<notin> TrimSpace ` set input \<and> distinct (map TrimSpace input) \<and>
     ids = sort (map TrimSpace input)"
  by (auto simp: canonicalizeRequiredCheckIDs_def collectIDs_Some)

lemma canonicalizeRequiredCheckIDs_perm:
  assumes "mset xs = mset ys"
  shows "canonicalizeRequiredCheckIDs xs = canonicalizeRequiredCheckIDs ys"
proof -
  have "set xs = set ys" "xs = [] \<longleftrightarrow> ys = []" using assms by (auto dest: mset_eq_setD)
  moreover have "mset (map TrimSpace xs) = mset (map TrimSpace ys)" using assms by simp
  moreover then have "distinct (map TrimSpace xs) = distinct (map TrimSpace ys)"
    by (rule mset_eq_imp_distinct_iff)
  moreover have "sort (map TrimSpace xs) = sort (map TrimSpace ys)"
    using calculation(3) by (simp only: sort_eq_mset)
  ultimately have "canonicalizeRequiredCheckIDs xs = Some ids \<longleftrightarrow> canonicalizeRequiredCheckIDs ys = Some ids" for ids
    by (simp only: canonicalizeRequiredCheckIDs_Some)
  then show ?thesis by (metis not_None_eq)
qed

definition check_ok :: "InvariantCheck \<Rightarrow> bool" where
  "check_ok c \<longleftrightarrow> ic_ID c \<noteq> [] \<and> validInvariantClass (ic_Class c) \<and> validSHA256 (ic_Evidence c) \<and> ic_Passed c"

lemma appendUnique_nonempty [simp]: "appendUniqueSimulationReason rs r \<noteq> []"
  by (auto simp: appendUniqueSimulationReason_def)

lemma check_reasons_mono: "rs \<noteq> [] \<Longrightarrow> check_reasons cs seen rs \<noteq> []"
  by (induction cs arbitrary: seen rs) (auto simp: Let_def)

lemma check_reasons_empty:
  "check_reasons cs seen [] = [] \<longleftrightarrow>
     list_all check_ok cs \<and> distinct (map ic_ID cs) \<and> ic_ID ` set cs \<inter> seen = {}"
  by (induction cs arbitrary: seen)
     (auto simp: Let_def check_ok_def check_reasons_mono split: if_splits)

lemma exactRequiredCheckSet_iff [simp]: "exactRequiredCheckSet ids cs \<longleftrightarrow> ids = map ic_ID cs"
  by (induction ids cs rule: exactRequiredCheckSet.induct) auto

definition canonical_request :: "ForkSimulationRequest \<Rightarrow> ForkSimulationRequest" where
  "canonical_request q =
     (let q = withRunnerVersion q in
      q\<lparr>fq_RequiredCheckIDs :=
          (case canonicalizeRequiredCheckIDs (fq_RequiredCheckIDs q) of None \<Rightarrow> [] | Some ids \<Rightarrow> ids)\<rparr>)"

definition request_ok :: "ForkSimulationRequest \<Rightarrow> bool" where
  "request_ok q \<longleftrightarrow> canonicalizeRequiredCheckIDs (fq_RequiredCheckIDs q) \<noteq> None \<and>
     validForkSimulationRequest (canonical_request q)"

text \<open>
  The contract of a passing simulation: the backend saw the requested chain, block, payload and
  invariant set, and reported every required check once and no other, each passed with a known
  class and a digest as evidence.
\<close>

definition simulation_spec :: "ForkSimulationRequest \<Rightarrow> ForkBackendResult \<Rightarrow> bool" where
  "simulation_spec q result \<longleftrightarrow>
     fb_ChainID result = fq_ChainID q \<and> fb_ObservedReferenceBlock result = fq_ReferenceBlock q \<and>
     equalHex32 (fb_ObservedReferenceHash result) (fq_ReferenceBlockHash q) \<and>
     equalDigest (fb_ObservedPayloadSHA256 result) (fq_PayloadSHA256 q) \<and>
     equalDigest (fb_ObservedInvariantSetHash result) (fq_InvariantSetSHA256 q) \<and>
     mset (map (\<lambda>c. TrimSpace (ic_ID c)) (elems (fb_Checks result))) = mset (fq_RequiredCheckIDs q) \<and>
     (\<forall>c \<in> set (elems (fb_Checks result)). ic_Passed c \<and> validInvariantClass (ic_Class c) \<and>
        validSHA256 (ToLower (TrimSpace (ic_Evidence c))))"

lemma state_reasons_empty:
  "state_reasons q result = [] \<longleftrightarrow>
     fb_ChainID result = fq_ChainID q \<and> fb_ObservedReferenceBlock result = fq_ReferenceBlock q \<and>
     equalHex32 (fb_ObservedReferenceHash result) (fq_ReferenceBlockHash q) \<and>
     equalDigest (fb_ObservedPayloadSHA256 result) (fq_PayloadSHA256 q) \<and>
     equalDigest (fb_ObservedInvariantSetHash result) (fq_InvariantSetSHA256 q)"
  by (auto simp: state_reasons_def)

definition run_reasons :: "ForkSimulationRequest \<Rightarrow> ForkBackendResult \<Rightarrow> SimulationReason list" where
  "run_reasons q result =
     (let (checks, checkReasons) = canonicalizeInvariantChecks (elems (fb_Checks result));
          reasons = state_reasons q result @ checkReasons in
      if fq_RequiredCheckIDs q \<noteq> map ic_ID (elems checks)
      then appendUniqueSimulationReason reasons SIMCheckSetMismatch else reasons)"

lemma run_reasons_empty:
  assumes "sorted (fq_RequiredCheckIDs q)" "distinct (fq_RequiredCheckIDs q)" "[] \<notin> set (fq_RequiredCheckIDs q)"
    and "fq_RequiredCheckIDs q \<noteq> []"
  shows "run_reasons q result = [] \<longleftrightarrow> simulation_spec q result"
proof -
  let ?in = "elems (fb_Checks result)" and ?ids = "fq_RequiredCheckIDs q"
  let ?cs = "sort_key ic_ID (map normalize_check ?in)"
  have ids: "map ic_ID ?cs = sort (map (\<lambda>c. TrimSpace (ic_ID c)) ?in)"
    by (simp add: map_sort_key comp_def normalize_check_def)
  have eq: "?ids = map ic_ID ?cs \<longleftrightarrow> mset (map (\<lambda>c. TrimSpace (ic_ID c)) ?in) = mset ?ids"
    unfolding ids using assms(1) by (metis mset_sort sort_eq_mset sorted_sort_id)
  have ok: "list_all check_ok ?cs \<longleftrightarrow> (\<forall>c \<in> set ?in. TrimSpace (ic_ID c) \<noteq> [] \<and> ic_Passed c \<and>
      validInvariantClass (ic_Class c) \<and> validSHA256 (ToLower (TrimSpace (ic_Evidence c))))"
    by (auto simp: list_all_iff check_ok_def normalize_check_def)
  show ?thesis
  proof (cases "?in = []")
    case True
    then show ?thesis
      using assms(4) by (simp add: run_reasons_def canonicalizeInvariantChecks_def simulation_spec_def)
  next
    case False
    have nonempty: "\<forall>c \<in> set ?in. TrimSpace (ic_ID c) \<noteq> []"
      if "mset (map (\<lambda>c. TrimSpace (ic_ID c)) ?in) = mset ?ids"
    proof
      fix c assume "c \<in> set ?in"
      then have "TrimSpace (ic_ID c) \<in> set ?ids" using mset_eq_setD [OF that] by force
      with assms(3) show "TrimSpace (ic_ID c) \<noteq> []" by metis
    qed
    have "run_reasons q result = [] \<longleftrightarrow>
        state_reasons q result = [] \<and> check_reasons ?cs {} [] = [] \<and> ?ids = map ic_ID ?cs"
      using False by (simp add: run_reasons_def canonicalizeInvariantChecks_def Let_def)
    also have "\<dots> \<longleftrightarrow> state_reasons q result = [] \<and> list_all check_ok ?cs \<and> ?ids = map ic_ID ?cs"
      using assms(2) by (auto simp: check_reasons_empty)
    also have "\<dots> \<longleftrightarrow> simulation_spec q result"
      unfolding ok eq state_reasons_empty simulation_spec_def using nonempty by blast
    finally show ?thesis .
  qed
qed

definition run_receipt :: "ForkSimulationRequest \<Rightarrow> ForkBackendResult \<Rightarrow> ForkSimulationReceipt" where
  "run_receipt q result =
     (let reasons = run_reasons q result;
          receipt = \<lparr>fs_Version = fq_Version q, fs_ChainID = fq_ChainID q,
            fs_ReferenceBlock = fq_ReferenceBlock q,
            fs_ReferenceBlockHash = normalizeHex32 (fq_ReferenceBlockHash q),
            fs_PayloadSHA256 = ToLower (fq_PayloadSHA256 q),
            fs_InvariantSetSHA256 = ToLower (fq_InvariantSetSHA256 q),
            fs_RunnerSHA256 = ToLower (fq_RunnerSHA256 q),
            fs_RequiredCheckIDs = append_nil (fq_RequiredCheckIDs q),
            fs_Checks = fst (canonicalizeInvariantChecks (elems (fb_Checks result))),
            fs_Decision = (if reasons \<noteq> [] then SimulationBlock else SimulationAllow),
            fs_Reasons = Some reasons, fs_ReceiptSHA256 = []\<rparr>
      in receipt\<lparr>fs_ReceiptSHA256 := simulationReceiptDigest receipt\<rparr>)"

lemma RunForkInvariants_cases:
  "RunForkInvariants ctx q backend =
     (if \<not> request_ok q \<or> backend = None
      then (blockedSimulationReceipt (canonical_request q) None SIMInvalidRequest, Some ErrSimulationBlocked)
      else (case ctx BeforeForkSimulation of
          Some err \<Rightarrow> (blockedSimulationReceipt (canonical_request q) None SIMBackendFailure, Some err)
        | None \<Rightarrow>
          (case the backend ctx (canonical_request q) of
             Inl err \<Rightarrow> (blockedSimulationReceipt (canonical_request q) None SIMBackendFailure,
                         Some (ErrWrap ''fork simulation backend'' err))
           | Inr result \<Rightarrow> (run_receipt (canonical_request q) result,
               if run_reasons (canonical_request q) result = [] then None else Some ErrSimulationBlocked))))"
proof -
  have ids: "canonicalizeRequiredCheckIDs (fq_RequiredCheckIDs (withRunnerVersion q)) =
      canonicalizeRequiredCheckIDs (fq_RequiredCheckIDs q)"
    by (simp add: withRunnerVersion_def)
  have req: "(withRunnerVersion q)\<lparr>fq_RequiredCheckIDs :=
      (case canonicalizeRequiredCheckIDs (fq_RequiredCheckIDs q) of None \<Rightarrow> [] | Some ids \<Rightarrow> ids)\<rparr> = canonical_request q"
    by (simp add: canonical_request_def ids)
  have ok: "(canonicalizeRequiredCheckIDs (fq_RequiredCheckIDs q) = None \<or>
      \<not> validForkSimulationRequest (canonical_request q)) = (\<not> request_ok q)"
    by (simp add: request_ok_def)
  show ?thesis
    unfolding RunForkInvariants_def Let_def ids req ok
    by (cases backend; cases "request_ok q")
       (auto simp: run_receipt_def run_reasons_def Let_def split: option.splits sum.splits prod.splits)
qed

lemma canonical_request_ids:
  assumes "request_ok q"
  shows "sorted (fq_RequiredCheckIDs (canonical_request q))" "distinct (fq_RequiredCheckIDs (canonical_request q))"
    "[] \<notin> set (fq_RequiredCheckIDs (canonical_request q))" "fq_RequiredCheckIDs (canonical_request q) \<noteq> []"
proof -
  from assms obtain ids where c: "canonicalizeRequiredCheckIDs (fq_RequiredCheckIDs q) = Some ids"
    by (auto simp: request_ok_def)
  have r: "fq_RequiredCheckIDs (canonical_request q) = ids"
    by (simp add: canonical_request_def withRunnerVersion_def Let_def c)
  from c have i: "ids = sort (map TrimSpace (fq_RequiredCheckIDs q))"
    and n: "fq_RequiredCheckIDs q \<noteq> []" "[] \<notin> TrimSpace ` set (fq_RequiredCheckIDs q)"
      "distinct (map TrimSpace (fq_RequiredCheckIDs q))"
    by (auto simp: canonicalizeRequiredCheckIDs_Some)
  have "length ids \<noteq> 0" unfolding i using n(1) by simp
  then show "fq_RequiredCheckIDs (canonical_request q) \<noteq> []" by (simp add: r)
  show "sorted (fq_RequiredCheckIDs (canonical_request q))" "distinct (fq_RequiredCheckIDs (canonical_request q))"
    "[] \<notin> set (fq_RequiredCheckIDs (canonical_request q))"
    unfolding r i using n by simp_all
qed

lemma RunForkInvariants_pass:
  "snd (RunForkInvariants ctx q (Some execute)) = None \<longleftrightarrow>
     request_ok q \<and> ctx BeforeForkSimulation = None \<and>
     (\<exists>result. execute ctx (canonical_request q) = Inr result \<and> simulation_spec (canonical_request q) result)"
proof (cases "request_ok q")
  case True
  have "run_reasons (canonical_request q) result = [] \<longleftrightarrow> simulation_spec (canonical_request q) result" for result
    using canonical_request_ids [OF True] by (intro run_reasons_empty)
  with True show ?thesis
    by (simp add: RunForkInvariants_cases split: option.splits sum.splits)
qed (simp add: RunForkInvariants_cases)

lemma blockedSimulationReceipt_fields [simp]:
  "fs_Decision (blockedSimulationReceipt q c r) = SimulationBlock"
  "fs_Checks (blockedSimulationReceipt q c r) = c"
  "fs_Reasons (blockedSimulationReceipt q c r) = Some [r]"
  by (simp_all add: blockedSimulationReceipt_def Let_def)

lemma simulationReceiptDigest_update [simp]:
  "simulationReceiptDigest (r\<lparr>fs_ReceiptSHA256 := d\<rparr>) = simulationReceiptDigest r"
  by (simp add: simulationReceiptDigest_def)

lemma blockedSimulationReceipt_digest:
  "fs_ReceiptSHA256 (blockedSimulationReceipt q c r) = simulationReceiptDigest (blockedSimulationReceipt q c r)"
  by (simp add: blockedSimulationReceipt_def Let_def simulationReceiptDigest_def)

lemma run_receipt_digest: "fs_ReceiptSHA256 (run_receipt q res) = simulationReceiptDigest (run_receipt q res)"
  by (simp add: run_receipt_def Let_def simulationReceiptDigest_def)

lemma run_receipt_decision:
  "fs_Decision (run_receipt q res) = (if run_reasons q res \<noteq> [] then SimulationBlock else SimulationAllow)"
  by (simp add: run_receipt_def Let_def)

lemma RunForkInvariants_digest:
  "RunForkInvariants ctx q backend = (r, err) \<Longrightarrow> fs_ReceiptSHA256 r = simulationReceiptDigest r"
  using blockedSimulationReceipt_digest run_receipt_digest
  by (auto simp: RunForkInvariants_cases split: if_splits option.splits sum.splits)

lemma RunForkInvariants_decision:
  "RunForkInvariants ctx q backend = (r, err) \<Longrightarrow>
     fs_Decision r = (if err = None then SimulationAllow else SimulationBlock)"
  by (auto simp: RunForkInvariants_cases run_receipt_decision split: if_splits option.splits sum.splits)

subsection \<open>Order does not matter\<close>

lemma canonical_checks_perm:
  assumes "mset cs = mset ds" and "distinct (map (\<lambda>c. TrimSpace (ic_ID c)) cs)"
  shows "canonicalizeInvariantChecks cs = canonicalizeInvariantChecks ds"
proof -
  have "mset (map normalize_check cs) = mset (map normalize_check ds)" using assms(1) by simp
  moreover have "inj_on ic_ID (set (map normalize_check cs))"
    using assms(2) by (auto simp: inj_on_def normalize_check_def distinct_map)
  ultimately have "sort_key ic_ID (map normalize_check cs) = sort_key ic_ID (map normalize_check ds)"
    by (rule sort_key_perm_unique)
  moreover have "cs = [] \<longleftrightarrow> ds = []" using assms(1) by auto
  ultimately show ?thesis by (simp add: canonicalizeInvariantChecks_def)
qed

lemma run_receipt_perm:
  assumes "mset cs = mset ds" and "distinct (map (\<lambda>c. TrimSpace (ic_ID c)) cs)"
  shows "run_receipt q (res\<lparr>fb_Checks := Some cs\<rparr>) = run_receipt q (res\<lparr>fb_Checks := Some ds\<rparr>)"
    and "run_reasons q (res\<lparr>fb_Checks := Some cs\<rparr>) = run_reasons q (res\<lparr>fb_Checks := Some ds\<rparr>)"
proof -
  show r: "run_reasons q (res\<lparr>fb_Checks := Some cs\<rparr>) = run_reasons q (res\<lparr>fb_Checks := Some ds\<rparr>)"
    by (simp add: run_reasons_def canonical_checks_perm [OF assms] state_reasons_def)
  show "run_receipt q (res\<lparr>fb_Checks := Some cs\<rparr>) = run_receipt q (res\<lparr>fb_Checks := Some ds\<rparr>)"
    by (simp add: run_receipt_def r canonical_checks_perm [OF assms])
qed

lemma canonical_request_perm:
  assumes "mset ids = mset ids'"
  shows "canonical_request (q\<lparr>fq_RequiredCheckIDs := ids\<rparr>) = canonical_request (q\<lparr>fq_RequiredCheckIDs := ids'\<rparr>)"
    and "request_ok (q\<lparr>fq_RequiredCheckIDs := ids\<rparr>) = request_ok (q\<lparr>fq_RequiredCheckIDs := ids'\<rparr>)"
  using canonicalizeRequiredCheckIDs_perm [OF assms]
  by (simp_all add: canonical_request_def request_ok_def withRunnerVersion_def Let_def)

subsection \<open>The receipt digest\<close>

definition ok_simulation :: "ForkSimulationReceipt \<Rightarrow> bool" where
  "ok_simulation r \<longleftrightarrow> json_ascii (json_ForkSimulationReceipt r)"

lemma json_InvariantCheck_inject: "json_InvariantCheck a = json_InvariantCheck b \<Longrightarrow> a = b"
  by (cases a; cases b) (simp add: json_InvariantCheck_def)

interpretation simulation_binding: digest_binding json_ForkSimulationReceipt ok_simulation
proof
  fix a b assume "json_ForkSimulationReceipt a = json_ForkSimulationReceipt b"
  then show "a = b"
    by (cases a; cases b)
       (auto simp: json_ForkSimulationReceipt_def dest!: json_slice_inject [rotated] json_InvariantCheck_inject)
qed (simp add: ok_simulation_def)

subsection \<open>A concrete simulation\<close>

definition sample_check :: "string \<Rightarrow> InvariantCheck" where
  "sample_check i = \<lparr>ic_ID = i, ic_Class = InvariantProxyCodehash, ic_Passed = True,
     ic_Evidence = sha256Hex ''evidence''\<rparr>"

definition sample_sim_request :: ForkSimulationRequest where
  "sample_sim_request =
     \<lparr>fq_Version = [], fq_ChainID = 1, fq_ReferenceBlock = 22000000,
      fq_ReferenceBlockHash = sha256Hex ''block'', fq_PayloadSHA256 = sha256Hex ''payload'',
      fq_InvariantSetSHA256 = sha256Hex ''invariants'', fq_RunnerSHA256 = sha256Hex ''runner'',
      fq_RequiredCheckIDs = [''b'', ''a'']\<rparr>"

definition sample_sim_result :: ForkBackendResult where
  "sample_sim_result =
     \<lparr>fb_ChainID = 1, fb_ObservedReferenceBlock = 22000000, fb_ObservedReferenceHash = sha256Hex ''block'',
      fb_ObservedPayloadSHA256 = sha256Hex ''payload'', fb_ObservedInvariantSetHash = sha256Hex ''invariants'',
      fb_Checks = Some [sample_check ''a'', sample_check ''b'']\<rparr>"

lemma TrimSpace_ab [simp]: "TrimSpace ''a'' = ''a''" "TrimSpace ''b'' = ''b''"
  by (simp_all add: TrimSpace_all_visible visible_def)

lemma sample_sim_ids: "canonicalizeRequiredCheckIDs [''b'', ''a''] = Some [''a'', ''b'']"
  by (simp add: canonicalizeRequiredCheckIDs_Some)

lemma sample_sim_canonical:
  "canonical_request sample_sim_request =
     sample_sim_request\<lparr>fq_Version := InvariantRunnerVersion, fq_RequiredCheckIDs := [''a'', ''b'']\<rparr>"
  by (simp add: canonical_request_def withRunnerVersion_def sample_sim_request_def sample_sim_ids Let_def)

lemma sample_sim_ok: "request_ok sample_sim_request"
  unfolding request_ok_def sample_sim_canonical
  by (simp add: validForkSimulationRequest_def) (simp add: sample_sim_request_def sample_sim_ids)

lemma sample_sim_spec: "simulation_spec (canonical_request sample_sim_request) sample_sim_result"
  unfolding sample_sim_canonical
  by (simp add: simulation_spec_def)
     (simp add: sample_sim_request_def sample_sim_result_def sample_check_def validInvariantClass_def)

subsection \<open>Properties\<close>

text \<open>The simulation gate is exact: a run succeeds if and only if the request is valid, the context is
  live, and the backend's result meets the contract (requested state, payload and invariant set;
  exactly the required checks, all passed with evidence). The receipt says PASS exactly on
  success and always carries its own digest.\<close>

theorem simulation_gate_exact:
  "(snd (RunForkInvariants ctx q (Some execute)) = None \<longleftrightarrow>
      request_ok q \<and> ctx BeforeForkSimulation = None \<and>
      (\<exists>result. execute ctx (canonical_request q) = Inr result \<and>
                simulation_spec (canonical_request q) result)) \<and>
   fs_Decision (fst (RunForkInvariants ctx q backend)) =
     (if snd (RunForkInvariants ctx q backend) = None then SimulationAllow else SimulationBlock) \<and>
   fs_ReceiptSHA256 (fst (RunForkInvariants ctx q backend)) =
     simulationReceiptDigest (fst (RunForkInvariants ctx q backend))"
  using RunForkInvariants_pass
    RunForkInvariants_decision [of ctx q backend "fst (RunForkInvariants ctx q backend)"
      "snd (RunForkInvariants ctx q backend)"]
    RunForkInvariants_digest [of ctx q backend "fst (RunForkInvariants ctx q backend)"
      "snd (RunForkInvariants ctx q backend)"]
  by simp

text \<open>The receipt is deterministic: neither the order in which required checks are listed nor the order
  in which the backend reports them changes the receipt or the error.\<close>

theorem simulation_order_independent:
  assumes "mset ids = mset ids'" and "mset cs = mset ds"
    and "distinct (map (\<lambda>c. TrimSpace (ic_ID c)) cs)"
  shows "RunForkInvariants ctx (q\<lparr>fq_RequiredCheckIDs := ids\<rparr>) (Some (\<lambda>_ _. Inr (res\<lparr>fb_Checks := Some cs\<rparr>))) =
         RunForkInvariants ctx (q\<lparr>fq_RequiredCheckIDs := ids'\<rparr>) (Some (\<lambda>_ _. Inr (res\<lparr>fb_Checks := Some ds\<rparr>)))"
  unfolding RunForkInvariants_cases canonical_request_perm [OF assms(1)]
  by (cases "ctx BeforeForkSimulation") (simp_all add: run_receipt_perm [OF assms(2,3)])

theorem simulation_order_independent_witness:
  "RunForkInvariants background sample_sim_request (Some (\<lambda>_ _. Inr sample_sim_result)) =
   RunForkInvariants background (sample_sim_request\<lparr>fq_RequiredCheckIDs := [''a'', ''b'']\<rparr>)
     (Some (\<lambda>_ _. Inr (sample_sim_result\<lparr>fb_Checks := Some [sample_check ''b'', sample_check ''a'']\<rparr>)))"
proof -
  have "mset [''b'', ''a''] = mset [''a'', ''b'']"
    "mset [sample_check ''a'', sample_check ''b''] = mset [sample_check ''b'', sample_check ''a'']"
    "distinct (map (\<lambda>c. TrimSpace (ic_ID c)) [sample_check ''a'', sample_check ''b''])"
    by (simp_all add: sample_check_def)
  from simulation_order_independent [OF this, of background sample_sim_request sample_sim_result]
  show ?thesis by (simp add: sample_sim_request_def sample_sim_result_def)
qed

text \<open>A simulation receipt cannot be altered under its digest: two receipts that carry their own digest
  and share it are equal, unless their encodings are a SHA-256 collision.\<close>

theorem simulation_receipt_binds:
  assumes "RunForkInvariants ctx q backend = (r, err)" and "RunForkInvariants ctx' q' backend' = (s, err')"
    and "ok_simulation (r\<lparr>fs_ReceiptSHA256 := []\<rparr>)" and "ok_simulation (s\<lparr>fs_ReceiptSHA256 := []\<rparr>)"
    and "fs_ReceiptSHA256 r = fs_ReceiptSHA256 s"
  shows "r = s \<or> sha256_collision (json_print (json_ForkSimulationReceipt (r\<lparr>fs_ReceiptSHA256 := []\<rparr>)))
                   (json_print (json_ForkSimulationReceipt (s\<lparr>fs_ReceiptSHA256 := []\<rparr>)))"
proof -
  have "simulationReceiptDigest r = simulationReceiptDigest s"
    using RunForkInvariants_digest [OF assms(1)] RunForkInvariants_digest [OF assms(2)] assms(5) by simp
  then have "r\<lparr>fs_ReceiptSHA256 := []\<rparr> = s\<lparr>fs_ReceiptSHA256 := []\<rparr> \<or>
      sha256_collision (json_print (json_ForkSimulationReceipt (r\<lparr>fs_ReceiptSHA256 := []\<rparr>)))
        (json_print (json_ForkSimulationReceipt (s\<lparr>fs_ReceiptSHA256 := []\<rparr>)))"
    unfolding simulationReceiptDigest_def using assms(3,4) by (intro simulation_binding.binds)
  moreover have "r = s" if "r\<lparr>fs_ReceiptSHA256 := []\<rparr> = s\<lparr>fs_ReceiptSHA256 := []\<rparr>"
    using that assms(5) by (cases r; cases s) simp
  ultimately show ?thesis by blast
qed

theorem simulation_receipt_binds_witness:
  "(let r = fst (RunForkInvariants background sample_sim_request None);
        s = fst (RunForkInvariants background sample_sim_request None) in
    fs_Decision r = SimulationBlock \<and>
    (r = s \<or> sha256_collision (json_print (json_ForkSimulationReceipt (r\<lparr>fs_ReceiptSHA256 := []\<rparr>)))
       (json_print (json_ForkSimulationReceipt (s\<lparr>fs_ReceiptSHA256 := []\<rparr>)))))"
proof -
  let ?r = "blockedSimulationReceipt (canonical_request sample_sim_request) None SIMInvalidRequest"
  have run: "RunForkInvariants background sample_sim_request None = (?r, Some ErrSimulationBlocked)"
    by (simp add: RunForkInvariants_cases)
  have ok: "ok_simulation (?r\<lparr>fs_ReceiptSHA256 := []\<rparr>)"
    unfolding sample_sim_canonical
    by (simp add: ok_simulation_def blockedSimulationReceipt_def withRunnerVersion_def sample_sim_request_def
        json_ForkSimulationReceipt_def json_slice_def append_nil_def InvariantRunnerVersion_def
        SimulationBlock_def SIMInvalidRequest_def normalizeHex32_def Let_def)
  from simulation_receipt_binds [OF run run ok ok] show ?thesis
    by (simp add: run)
qed

end
