(* ===== verification/Fork_Binding.thy ===== *)
theory Fork_Binding
  imports Fork_Sim
begin

text \<open>
  \<^verbatim>\<open>internal/executionproof/evm_payload_v03.go\<close>, \<^verbatim>\<open>fork_binding_v03.go\<close> and
  \<^verbatim>\<open>verified_receipt_v03.go\<close>: the identity of an EVM payload, the preparation of a verified
  fork request (payload, runner and approved invariant definitions reduced to digests), the run
  of a verified backend, and the receipt that binds the simulation to the execution evidence.
  A backend returns a result and an error together, as the code does on its failure paths.
\<close>

subsection \<open>The payload\<close>

record EVMPayload =
  ep_From :: string
  ep_To :: string
  ep_ValueHex :: string
  ep_DataHex :: string

definition json_EVMPayload :: "EVMPayload \<Rightarrow> json" where
  "json_EVMPayload p = JObj
    [(''from'', JStr (ep_From p)), (''to'', JStr (ep_To p)), (''value'', JStr (ep_ValueHex p)),
     (''data'', JStr (ep_DataHex p))]"

definition canonicalEVMPayload :: "EVMPayload \<Rightarrow> EVMPayload option" where
  "canonicalEVMPayload input =
     (case canonicalEVMAddress (ep_From input) of None \<Rightarrow> None | Some from \<Rightarrow>
     (case canonicalEVMAddress (ep_To input) of None \<Rightarrow> None | Some to \<Rightarrow>
     (case canonicalHexQuantity (ep_ValueHex input) of None \<Rightarrow> None | Some value \<Rightarrow>
     (case canonicalHexBytes (ep_DataHex input) of None \<Rightarrow> None | Some data \<Rightarrow>
        Some \<lparr>ep_From = from, ep_To = to, ep_ValueHex = value, ep_DataHex = data\<rparr>))))"

definition evmPayloadDigest :: "EVMPayload \<Rightarrow> string option" where
  "evmPayloadDigest input =
     (case canonicalEVMPayload input of None \<Rightarrow> None
      | Some canonical \<Rightarrow> Some (json_digest (json_EVMPayload canonical)))"

subsection \<open>Requests\<close>

definition ExecutionProofForkBindingVersion :: string where
  "ExecutionProofForkBindingVersion = ''koschei-fork-binding/v0.3''"

definition SIMInvariantDefinitionMismatch :: SimulationReason where
  "SIMInvariantDefinitionMismatch = ''SIM-011-INVARIANT-DEFINITION-MISMATCH''"
definition SIMRunnerMismatch :: SimulationReason where "SIMRunnerMismatch = ''SIM-012-RUNNER-MISMATCH''"

record ApprovedInvariantDefinition =
  ai_ID :: string
  ai_Class :: InvariantClass
  ai_ParametersSHA256 :: string

record VerifiedForkRequest =
  vq_Version :: string
  vq_ChainID :: u64
  vq_ReferenceBlock :: u64
  vq_ReferenceBlockHash :: string
  vq_Payload :: EVMPayload
  vq_RunnerSHA256 :: string
  vq_Invariants :: "ApprovedInvariantDefinition list"

record PreparedVerifiedForkRequest =
  pv_Simulation :: ForkSimulationRequest
  pv_Payload :: EVMPayload
  pv_Invariants :: "ApprovedInvariantDefinition list"

record ForkExecutionEvidence =
  fe_ExecutionModel :: string
  fe_TransactionHash :: string
  fe_TransactionReceiptSHA256 :: string
  fe_InvariantEvidenceSHA256 :: string

record VerifiedForkBackendResult =
  vb_ObservedRunnerSHA256 :: string
  vb_Simulation :: ForkBackendResult
  vb_Execution :: ForkExecutionEvidence

type_synonym VerifiedForkBackend =
  "ctx \<Rightarrow> PreparedVerifiedForkRequest \<Rightarrow> VerifiedForkBackendResult \<times> go_error option"

definition json_ApprovedInvariantDefinition :: "ApprovedInvariantDefinition \<Rightarrow> json" where
  "json_ApprovedInvariantDefinition d = JObj
    [(''id'', JStr (ai_ID d)), (''class'', JStr (ai_Class d)),
     (''parameters_sha256'', JStr (ai_ParametersSHA256 d))]"

definition normalize_definition :: "ApprovedInvariantDefinition \<Rightarrow> ApprovedInvariantDefinition" where
  "normalize_definition d =
     d\<lparr>ai_ID := TrimSpace (ai_ID d), ai_ParametersSHA256 := ToLower (TrimSpace (ai_ParametersSHA256 d))\<rparr>"

fun collectDefinitions ::
  "ApprovedInvariantDefinition list \<Rightarrow> string set \<Rightarrow> ApprovedInvariantDefinition list option" where
  "collectDefinitions [] seen = Some []"
| "collectDefinitions (d # ds) seen =
     (let d = normalize_definition d in
      if ai_ID d = [] \<or> \<not> validInvariantClass (ai_Class d) \<or> \<not> validSHA256 (ai_ParametersSHA256 d) then None
      else if ai_ID d \<in> seen then None
      else map_option (\<lambda>r. d # r) (collectDefinitions ds (insert (ai_ID d) seen)))"

definition canonicalizeApprovedInvariantDefinitions ::
  "ApprovedInvariantDefinition list \<Rightarrow> ApprovedInvariantDefinition list option" where
  "canonicalizeApprovedInvariantDefinitions input =
     (if length input = 0 then None else map_option (sort_key ai_ID) (collectDefinitions input {}))"

definition approvedInvariantSetDigest :: "ApprovedInvariantDefinition list \<Rightarrow> string" where
  "approvedInvariantSetDigest invariants = json_digest (JArr (map json_ApprovedInvariantDefinition invariants))"

definition prepareVerifiedForkRequest :: "VerifiedForkRequest \<Rightarrow> PreparedVerifiedForkRequest option" where
  "prepareVerifiedForkRequest request =
     (let version = (if vq_Version request = [] then ExecutionProofForkBindingVersion else vq_Version request) in
      case canonicalEVMPayload (vq_Payload request) of
        None \<Rightarrow> None
      | Some payload \<Rightarrow>
          (case evmPayloadDigest payload of
             None \<Rightarrow> None
           | Some payloadSHA256 \<Rightarrow>
             (if version \<noteq> ExecutionProofForkBindingVersion \<or> vq_ChainID request = 0 \<or>
                 vq_ReferenceBlock request = 0 \<or> \<not> validHex32 (vq_ReferenceBlockHash request) \<or>
                 \<not> validSHA256 (vq_RunnerSHA256 request) then None
              else (case canonicalizeApprovedInvariantDefinitions (vq_Invariants request) of
                 None \<Rightarrow> None
               | Some invariants \<Rightarrow>
                   Some \<lparr>pv_Simulation =
                          \<lparr>fq_Version = InvariantRunnerVersion, fq_ChainID = vq_ChainID request,
                           fq_ReferenceBlock = vq_ReferenceBlock request,
                           fq_ReferenceBlockHash = normalizeHex32 (vq_ReferenceBlockHash request),
                           fq_PayloadSHA256 = payloadSHA256,
                           fq_InvariantSetSHA256 = approvedInvariantSetDigest invariants,
                           fq_RunnerSHA256 = ToLower (vq_RunnerSHA256 request),
                           fq_RequiredCheckIDs = map ai_ID invariants\<rparr>,
                         pv_Payload = payload, pv_Invariants = invariants\<rparr>))))"

subsection \<open>The verified receipt\<close>

definition VerifiedForkReceiptVersion :: string where
  "VerifiedForkReceiptVersion = ''koschei-verified-fork-receipt/v0.3''"

definition ExecutionModelEVMDirectCallV03 :: string where
  "ExecutionModelEVMDirectCallV03 = ''evm-direct-call/v0.3''"
definition ExecutionModelSafeSimulateTxV1 :: string where
  "ExecutionModelSafeSimulateTxV1 = ''safe-simulate-tx-accessor/v1''"

record VerifiedForkReceipt =
  vr_Version :: string
  vr_Simulation :: ForkSimulationReceipt
  vr_Execution :: ForkExecutionEvidence
  vr_ReceiptSHA256 :: string

definition json_ForkExecutionEvidence :: "ForkExecutionEvidence \<Rightarrow> json" where
  "json_ForkExecutionEvidence e = JObj
    [(''execution_model'', JStr (fe_ExecutionModel e)), (''transaction_hash'', JStr (fe_TransactionHash e)),
     (''transaction_receipt_sha256'', JStr (fe_TransactionReceiptSHA256 e)),
     (''invariant_evidence_sha256'', JStr (fe_InvariantEvidenceSHA256 e))]"

definition json_VerifiedForkReceipt :: "VerifiedForkReceipt \<Rightarrow> json" where
  "json_VerifiedForkReceipt r = JObj
    [(''version'', JStr (vr_Version r)), (''simulation'', json_ForkSimulationReceipt (vr_Simulation r)),
     (''execution'', json_ForkExecutionEvidence (vr_Execution r)),
     (''receipt_sha256'', JStr (vr_ReceiptSHA256 r))]"

definition canonicalInvariantEvidenceDigest :: "InvariantCheck list \<Rightarrow> string" where
  "canonicalInvariantEvidenceDigest checks =
     json_digest (json_slice json_InvariantCheck (fst (canonicalizeInvariantChecks checks)))"

definition canonicalExecutionModel :: "string \<Rightarrow> string" where
  "canonicalExecutionModel model =
     (let model = TrimSpace model in if model = [] then ExecutionModelEVMDirectCallV03 else model)"

definition validExecutionModel :: "string \<Rightarrow> bool" where
  "validExecutionModel model \<longleftrightarrow>
     canonicalExecutionModel model \<in> {ExecutionModelEVMDirectCallV03, ExecutionModelSafeSimulateTxV1}"

definition validForkExecutionEvidence :: "ForkExecutionEvidence \<Rightarrow> InvariantCheck list \<Rightarrow> bool" where
  "validForkExecutionEvidence e checks \<longleftrightarrow>
     validExecutionModel (fe_ExecutionModel e) \<and> validHex32 (fe_TransactionHash e) \<and>
     validSHA256 (fe_TransactionReceiptSHA256 e) \<and> validSHA256 (fe_InvariantEvidenceSHA256 e) \<and>
     equalDigest (fe_InvariantEvidenceSHA256 e) (canonicalInvariantEvidenceDigest checks)"

definition canonical_execution :: "ForkExecutionEvidence \<Rightarrow> ForkExecutionEvidence" where
  "canonical_execution e =
     \<lparr>fe_ExecutionModel = canonicalExecutionModel (fe_ExecutionModel e),
      fe_TransactionHash = normalizeHex32 (fe_TransactionHash e),
      fe_TransactionReceiptSHA256 = ToLower (TrimSpace (fe_TransactionReceiptSHA256 e)),
      fe_InvariantEvidenceSHA256 = ToLower (TrimSpace (fe_InvariantEvidenceSHA256 e))\<rparr>"

definition verifiedForkReceiptDigest :: "VerifiedForkReceipt \<Rightarrow> string" where
  "verifiedForkReceiptDigest r =
     json_digest (json_VerifiedForkReceipt
       (r\<lparr>vr_ReceiptSHA256 := [], vr_Execution := canonical_execution (vr_Execution r)\<rparr>))"

definition ValidVerifiedForkReceipt :: "VerifiedForkReceipt \<Rightarrow> bool" where
  "ValidVerifiedForkReceipt r =
     (if vr_Version r \<noteq> VerifiedForkReceiptVersion \<or> fs_Decision (vr_Simulation r) \<noteq> SimulationAllow then False
      else if fs_ReceiptSHA256 (vr_Simulation r) \<noteq> simulationReceiptDigest (vr_Simulation r) then False
      else if \<not> validForkExecutionEvidence (vr_Execution r) (elems (fs_Checks (vr_Simulation r))) then False
      else equalDigest (vr_ReceiptSHA256 r) (verifiedForkReceiptDigest r))"

definition blockedVerifiedForkReceipt ::
  "ForkSimulationReceipt \<Rightarrow> ForkExecutionEvidence \<Rightarrow> VerifiedForkReceipt" where
  "blockedVerifiedForkReceipt simulation execution =
     \<lparr>vr_Version = VerifiedForkReceiptVersion,
      vr_Simulation = (if fs_Decision simulation = [] then simulation\<lparr>fs_Decision := SimulationBlock\<rparr> else simulation),
      vr_Execution = execution, vr_ReceiptSHA256 = []\<rparr>"

subsection \<open>The run\<close>

text \<open>
  \<open>runVerifiedForkCore\<close> leaves out the first component of the Go result, the prepared request,
  which both callers discard. The adapter that hands the backend's result to
  \<open>RunForkInvariants\<close> is the constant function.
\<close>

definition zero_ForkSimulationRequest :: ForkSimulationRequest where
  "zero_ForkSimulationRequest =
     \<lparr>fq_Version = [], fq_ChainID = 0, fq_ReferenceBlock = 0, fq_ReferenceBlockHash = [],
      fq_PayloadSHA256 = [], fq_InvariantSetSHA256 = [], fq_RunnerSHA256 = [], fq_RequiredCheckIDs = []\<rparr>"

definition zero_VerifiedForkBackendResult :: VerifiedForkBackendResult where
  "zero_VerifiedForkBackendResult =
     \<lparr>vb_ObservedRunnerSHA256 = [],
      vb_Simulation = \<lparr>fb_ChainID = 0, fb_ObservedReferenceBlock = 0, fb_ObservedReferenceHash = [],
        fb_ObservedPayloadSHA256 = [], fb_ObservedInvariantSetHash = [], fb_Checks = None\<rparr>,
      vb_Execution = \<lparr>fe_ExecutionModel = [], fe_TransactionHash = [], fe_TransactionReceiptSHA256 = [],
        fe_InvariantEvidenceSHA256 = []\<rparr>\<rparr>"

definition runVerifiedForkCore ::
  "ctx \<Rightarrow> VerifiedForkRequest \<Rightarrow> VerifiedForkBackend option \<Rightarrow>
   VerifiedForkBackendResult \<times> ForkSimulationReceipt \<times> go_error option" where
  "runVerifiedForkCore ctx request backend =
     (case (prepareVerifiedForkRequest request, backend) of
        (Some prepared, Some execute) \<Rightarrow>
          (case ctx BeforeVerifiedFork of
             Some err \<Rightarrow> (zero_VerifiedForkBackendResult,
               blockedSimulationReceipt (pv_Simulation prepared) None SIMBackendFailure, Some err)
           | None \<Rightarrow>
             (case execute ctx prepared of
                (result, Some err) \<Rightarrow>
                  (result, blockedSimulationReceipt (pv_Simulation prepared) None SIMBackendFailure, Some err)
              | (result, None) \<Rightarrow>
                (if \<not> equalDigest (vb_ObservedRunnerSHA256 result) (fq_RunnerSHA256 (pv_Simulation prepared))
                 then (result, blockedSimulationReceipt (pv_Simulation prepared)
                         (fb_Checks (vb_Simulation result)) SIMRunnerMismatch, Some ErrSimulationBlocked)
                 else if \<not> equalDigest (fb_ObservedInvariantSetHash (vb_Simulation result))
                             (fq_InvariantSetSHA256 (pv_Simulation prepared))
                 then (result, blockedSimulationReceipt (pv_Simulation prepared)
                         (fb_Checks (vb_Simulation result)) SIMInvariantDefinitionMismatch, Some ErrSimulationBlocked)
                 else (let (receipt, err) = RunForkInvariants ctx (pv_Simulation prepared)
                             (Some (\<lambda>_ _. Inr (vb_Simulation result)))
                       in (result, receipt, err)))))
      | (prepared, _) \<Rightarrow>
          (zero_VerifiedForkBackendResult,
           blockedSimulationReceipt
             (case prepared of None \<Rightarrow> zero_ForkSimulationRequest | Some p \<Rightarrow> pv_Simulation p)
             None SIMInvalidRequest, Some ErrSimulationBlocked))"

definition RunVerifiedForkInvariants ::
  "ctx \<Rightarrow> VerifiedForkRequest \<Rightarrow> VerifiedForkBackend option \<Rightarrow> ForkSimulationReceipt \<times> go_error option" where
  "RunVerifiedForkInvariants ctx request backend = snd (runVerifiedForkCore ctx request backend)"

definition RunVerifiedForkExecution ::
  "ctx \<Rightarrow> VerifiedForkRequest \<Rightarrow> VerifiedForkBackend option \<Rightarrow> VerifiedForkReceipt \<times> go_error option" where
  "RunVerifiedForkExecution ctx request backend =
     (case runVerifiedForkCore ctx request backend of
        (result, simulation, Some err) \<Rightarrow> (blockedVerifiedForkReceipt simulation (vb_Execution result), Some err)
      | (result, simulation, None) \<Rightarrow>
          (if \<not> validForkExecutionEvidence (vb_Execution result) (elems (fs_Checks simulation))
           then (blockedVerifiedForkReceipt simulation (vb_Execution result), Some ErrSimulationBlocked)
           else (let execution = vb_Execution result;
                     receipt = \<lparr>vr_Version = VerifiedForkReceiptVersion, vr_Simulation = simulation,
                       vr_Execution = \<lparr>fe_ExecutionModel = TrimSpace (fe_ExecutionModel execution),
                         fe_TransactionHash = normalizeHex32 (fe_TransactionHash execution),
                         fe_TransactionReceiptSHA256 = ToLower (TrimSpace (fe_TransactionReceiptSHA256 execution)),
                         fe_InvariantEvidenceSHA256 = ToLower (TrimSpace (fe_InvariantEvidenceSHA256 execution))\<rparr>,
                       vr_ReceiptSHA256 = []\<rparr>;
                     receipt = receipt\<lparr>vr_ReceiptSHA256 := verifiedForkReceiptDigest receipt\<rparr>
                 in if \<not> ValidVerifiedForkReceipt receipt
                    then (blockedVerifiedForkReceipt simulation execution, Some ErrSimulationBlocked)
                    else (receipt, None))))"

end
