(* ===== verification/Fork_Receipt.thy ===== *)
theory Fork_Receipt
  imports Fork_Binding
begin

text \<open>
  What the verified fork run promises: preparation is canonical and binds payload and invariant
  definitions by digest; a run succeeds exactly when the backend's result meets the contract of
  \<open>verified_spec\<close>, and exactly then its receipt is valid; a valid receipt cannot be altered
  under its digest.
\<close>

subsection \<open>Preparation\<close>

lemma collectDefinitions_Some:
  "collectDefinitions ds seen = Some out \<longleftrightarrow>
     out = map normalize_definition ds \<and> distinct (map ai_ID out) \<and>
     (\<forall>d \<in> set out. ai_ID d \<notin> seen \<and> ai_ID d \<noteq> [] \<and> validInvariantClass (ai_Class d) \<and>
        validSHA256 (ai_ParametersSHA256 d))"
proof (induction ds arbitrary: seen out)
  case (Cons d ds)
  let ?d = "normalize_definition d"
  have step: "collectDefinitions (d # ds) seen = Some out \<longleftrightarrow>
      ai_ID ?d \<noteq> [] \<and> validInvariantClass (ai_Class ?d) \<and> validSHA256 (ai_ParametersSHA256 ?d) \<and>
      ai_ID ?d \<notin> seen \<and> (\<exists>r. collectDefinitions ds (insert (ai_ID ?d) seen) = Some r \<and> out = ?d # r)"
    by (auto simp: Let_def)
  show ?case unfolding step Cons.IH by (cases out) (auto, metis imageI)
qed auto

lemma canonicalDefinitions_Some:
  "canonicalizeApprovedInvariantDefinitions ds = Some out \<longleftrightarrow>
     ds \<noteq> [] \<and> out = sort_key ai_ID (map normalize_definition ds) \<and> distinct (map ai_ID out) \<and>
     (\<forall>d \<in> set out. ai_ID d \<noteq> [] \<and> validInvariantClass (ai_Class d) \<and> validSHA256 (ai_ParametersSHA256 d))"
proof -
  have "distinct (map ai_ID (sort_key ai_ID xs)) = distinct (map ai_ID xs)" for xs
    by (simp only: map_sort_key distinct_sort)
  then show ?thesis
    unfolding canonicalizeApprovedInvariantDefinitions_def collectDefinitions_Some
    by (auto simp: collectDefinitions_Some simp del: map_map)
qed

lemma canonicalDefinitions_facts:
  assumes "canonicalizeApprovedInvariantDefinitions ds = Some out"
  shows "length out = length ds" "out \<noteq> []" "sorted (map ai_ID out)" "distinct (map ai_ID out)"
    "map normalize_definition out = out" "\<forall>d \<in> set out. ai_ID d \<noteq> []"
proof -
  have out: "out = sort_key ai_ID (map normalize_definition ds)" "ds \<noteq> []"
    using assms by (simp_all add: canonicalDefinitions_Some)
  show "length out = length ds" by (simp add: out(1))
  with out(2) show "out \<noteq> []" by auto
  show "sorted (map ai_ID out)" by (simp add: out(1))
  show "map normalize_definition out = out"
    by (intro map_idI) (auto simp: out(1) normalize_definition_def TrimSpace_ToLower)
  show "distinct (map ai_ID out)" "\<forall>d \<in> set out. ai_ID d \<noteq> []"
    using assms unfolding canonicalDefinitions_Some by blast+
qed

lemma canonicalDefinitions_idem:
  assumes "canonicalizeApprovedInvariantDefinitions ds = Some out"
  shows "canonicalizeApprovedInvariantDefinitions out = Some out"
  using canonicalDefinitions_facts [OF assms] assms
  by (simp add: canonicalDefinitions_Some sort_key_id_if_sorted)

lemma canonicalDefinitions_perm:
  assumes "mset ds = mset es"
  shows "canonicalizeApprovedInvariantDefinitions ds = canonicalizeApprovedInvariantDefinitions es"
proof -
  let ?n = "map normalize_definition"
  have m: "mset (?n ds) = mset (?n es)" using assms by simp
  have "canonicalizeApprovedInvariantDefinitions xs = Some out \<Longrightarrow>
        canonicalizeApprovedInvariantDefinitions ys = Some out"
    if "mset xs = mset ys" for xs ys out
  proof -
    assume a: "canonicalizeApprovedInvariantDefinitions xs = Some out"
    then have d: "out = sort_key ai_ID (?n xs)" "distinct (map ai_ID out)" unfolding canonicalDefinitions_Some by blast+
    then have "inj_on ai_ID (set (?n xs))" by (simp add: distinct_map)
    with that have "sort_key ai_ID (?n ys) = sort_key ai_ID (?n xs)"
      by (intro sort_key_perm_unique [symmetric]) simp_all
    moreover have "ys \<noteq> []" using a that by (auto simp: canonicalDefinitions_Some)
    ultimately show "canonicalizeApprovedInvariantDefinitions ys = Some out"
      using a d unfolding canonicalDefinitions_Some by metis
  qed
  from this [OF assms] this [OF assms [symmetric]] show ?thesis
    by (metis not_None_eq)
qed

lemma canonicalEVMPayload_Some:
  "canonicalEVMPayload p = Some c \<longleftrightarrow>
     canonicalEVMAddress (ep_From p) = Some (ep_From c) \<and> canonicalEVMAddress (ep_To p) = Some (ep_To c) \<and>
     canonicalHexQuantity (ep_ValueHex p) = Some (ep_ValueHex c) \<and>
     canonicalHexBytes (ep_DataHex p) = Some (ep_DataHex c)"
  by (cases c) (auto simp: canonicalEVMPayload_def split: option.splits)

lemma canonicalEVMPayload_idem: "canonicalEVMPayload p = Some c \<Longrightarrow> canonicalEVMPayload c = Some c"
  unfolding canonicalEVMPayload_Some
  by (blast intro: canonicalEVMAddress_idem canonicalHexQuantity_idem canonicalHexBytes_idem)

lemma prepareVerifiedForkRequest_Some:
  "prepareVerifiedForkRequest q = Some p \<longleftrightarrow>
     (vq_Version q = [] \<or> vq_Version q = ExecutionProofForkBindingVersion) \<and>
     vq_ChainID q \<noteq> 0 \<and> vq_ReferenceBlock q \<noteq> 0 \<and> validHex32 (vq_ReferenceBlockHash q) \<and>
     validSHA256 (vq_RunnerSHA256 q) \<and> canonicalEVMPayload (vq_Payload q) = Some (pv_Payload p) \<and>
     canonicalizeApprovedInvariantDefinitions (vq_Invariants q) = Some (pv_Invariants p) \<and>
     pv_Simulation p =
       \<lparr>fq_Version = InvariantRunnerVersion, fq_ChainID = vq_ChainID q,
        fq_ReferenceBlock = vq_ReferenceBlock q,
        fq_ReferenceBlockHash = normalizeHex32 (vq_ReferenceBlockHash q),
        fq_PayloadSHA256 = json_digest (json_EVMPayload (pv_Payload p)),
        fq_InvariantSetSHA256 = approvedInvariantSetDigest (pv_Invariants p),
        fq_RunnerSHA256 = ToLower (vq_RunnerSHA256 q),
        fq_RequiredCheckIDs = map ai_ID (pv_Invariants p)\<rparr>"
  by (cases p) (auto simp: prepareVerifiedForkRequest_def evmPayloadDigest_def Let_def canonicalEVMPayload_idem
      ExecutionProofForkBindingVersion_def split: option.splits if_splits)

lemma validHex32_normalizeHex32: "validHex32 v \<Longrightarrow> validHex32 (normalizeHex32 v)"
  by (metis normalizeHex32_form validHex32_0x)

lemma validSHA256_ToLower [simp]: "validSHA256 (ToLower v) = validSHA256 v"
  by (simp add: validSHA256_iff)

lemma prepared_request_ok:
  assumes "prepareVerifiedForkRequest q = Some p"
  shows "request_ok (pv_Simulation p)" and "canonical_request (pv_Simulation p) = pv_Simulation p"
proof -
  let ?s = "pv_Simulation p" and ?ds = "pv_Invariants p"
  have c0: "canonicalizeApprovedInvariantDefinitions (vq_Invariants q) = Some ?ds"
    and ids: "fq_RequiredCheckIDs ?s = map ai_ID ?ds" and v: "fq_Version ?s = InvariantRunnerVersion"
    using assms unfolding prepareVerifiedForkRequest_Some by simp_all
  note facts = canonicalDefinitions_facts [OF c0]
  have "map TrimSpace (map ai_ID (map normalize_definition ds)) = map ai_ID (map normalize_definition ds)" for ds
    by (simp add: normalize_definition_def)
  from this [of ?ds] have trim: "map TrimSpace (map ai_ID ?ds) = map ai_ID ?ds"
    by (simp only: facts(5))
  then have ts: "TrimSpace ` set (map ai_ID ?ds) = set (map ai_ID ?ds)"
    by (metis list.set_map)
  have c: "canonicalizeRequiredCheckIDs (map ai_ID ?ds) = Some (map ai_ID ?ds)"
    unfolding canonicalizeRequiredCheckIDs_Some trim ts using facts by (auto simp: sort_key_id_if_sorted)
  show can: "canonical_request ?s = ?s"
    by (cases ?s) (use c ids v in \<open>auto simp: canonical_request_def withRunnerVersion_def Let_def InvariantRunnerVersion_def\<close>)
  show "request_ok ?s"
    unfolding request_ok_def can using assms c facts(2)
    by (simp add: validForkSimulationRequest_def prepareVerifiedForkRequest_Some validHex32_normalizeHex32
        approvedInvariantSetDigest_def)
qed

subsection \<open>The run\<close>

definition verified_spec :: "PreparedVerifiedForkRequest \<Rightarrow> VerifiedForkBackendResult \<Rightarrow> bool" where
  "verified_spec p result \<longleftrightarrow>
     equalDigest (vb_ObservedRunnerSHA256 result) (fq_RunnerSHA256 (pv_Simulation p)) \<and>
     simulation_spec (pv_Simulation p) (vb_Simulation result) \<and>
     validForkExecutionEvidence (vb_Execution result)
       (elems (fst (canonicalizeInvariantChecks (elems (fb_Checks (vb_Simulation result))))))"

lemma run_receipt_checks [simp]:
  "fs_Checks (run_receipt q res) = fst (canonicalizeInvariantChecks (elems (fb_Checks res)))"
  by (simp add: run_receipt_def Let_def)

lemma RunForkInvariants_ok:
  assumes "request_ok q" "canonical_request q = q"
  shows "RunForkInvariants ctx q (Some (\<lambda>_ _. Inr res)) = (sim, None) \<longleftrightarrow>
    ctx BeforeForkSimulation = None \<and> simulation_spec q res \<and> sim = run_receipt q res"
proof -
  have "run_reasons q res = [] \<longleftrightarrow> simulation_spec q res"
    using canonical_request_ids [OF assms(1)] unfolding assms(2) by (intro run_reasons_empty)
  then show ?thesis using assms
    by (auto simp: RunForkInvariants_cases split: option.splits)
qed

lemma runVerifiedForkCore_ok:
  "runVerifiedForkCore ctx q backend = (result, sim, None) \<longleftrightarrow>
     (\<exists>p execute. prepareVerifiedForkRequest q = Some p \<and> backend = Some execute \<and>
        ctx BeforeVerifiedFork = None \<and> ctx BeforeForkSimulation = None \<and>
        execute ctx p = (result, None) \<and>
        equalDigest (vb_ObservedRunnerSHA256 result) (fq_RunnerSHA256 (pv_Simulation p)) \<and>
        simulation_spec (pv_Simulation p) (vb_Simulation result) \<and>
        sim = run_receipt (pv_Simulation p) (vb_Simulation result))"
proof (cases "prepareVerifiedForkRequest q"; cases backend)
  fix p execute assume p: "prepareVerifiedForkRequest q = Some p" and b: "backend = Some execute"
  note ok = RunForkInvariants_ok [OF prepared_request_ok [OF p]]
  show ?thesis
  proof (cases "ctx BeforeVerifiedFork"; cases "execute ctx p"; cases "snd (execute ctx p)")
    fix res e assume "ctx BeforeVerifiedFork = None" "execute ctx p = (res, e)" "snd (execute ctx p) = None"
    then show ?thesis
      using p b ok [of ctx "vb_Simulation res" sim]
      by (auto simp: runVerifiedForkCore_def simulation_spec_def split: prod.splits)
  qed (use p b in \<open>auto simp: runVerifiedForkCore_def\<close>)
qed (simp_all add: runVerifiedForkCore_def)

lemma canonical_execution_valid:
  assumes "validForkExecutionEvidence e cs"
  shows "validForkExecutionEvidence
     \<lparr>fe_ExecutionModel = TrimSpace (fe_ExecutionModel e), fe_TransactionHash = normalizeHex32 (fe_TransactionHash e),
      fe_TransactionReceiptSHA256 = ToLower (TrimSpace (fe_TransactionReceiptSHA256 e)),
      fe_InvariantEvidenceSHA256 = ToLower (TrimSpace (fe_InvariantEvidenceSHA256 e))\<rparr> cs"
  using assms
  by (simp add: validForkExecutionEvidence_def validExecutionModel_def canonicalExecutionModel_def
      validHex32_normalizeHex32 validSHA256_TrimSpace equalDigest_def Let_def)

definition verified_receipt :: "ForkSimulationReceipt \<Rightarrow> ForkExecutionEvidence \<Rightarrow> VerifiedForkReceipt" where
  "verified_receipt sim e =
     (let receipt = \<lparr>vr_Version = VerifiedForkReceiptVersion, vr_Simulation = sim,
        vr_Execution = \<lparr>fe_ExecutionModel = TrimSpace (fe_ExecutionModel e),
          fe_TransactionHash = normalizeHex32 (fe_TransactionHash e),
          fe_TransactionReceiptSHA256 = ToLower (TrimSpace (fe_TransactionReceiptSHA256 e)),
          fe_InvariantEvidenceSHA256 = ToLower (TrimSpace (fe_InvariantEvidenceSHA256 e))\<rparr>,
        vr_ReceiptSHA256 = []\<rparr>
      in receipt\<lparr>vr_ReceiptSHA256 := verifiedForkReceiptDigest receipt\<rparr>)"

lemma verifiedForkReceiptDigest_update:
  "verifiedForkReceiptDigest \<lparr>vr_Version = v, vr_Simulation = sim, vr_Execution = e, vr_ReceiptSHA256 = d\<rparr> =
   verifiedForkReceiptDigest \<lparr>vr_Version = v, vr_Simulation = sim, vr_Execution = e, vr_ReceiptSHA256 = []\<rparr>"
  by (cases "d = []") (simp_all add: verifiedForkReceiptDigest_def)

lemma verified_receipt_valid:
  assumes "fs_Decision sim = SimulationAllow" "fs_ReceiptSHA256 sim = simulationReceiptDigest sim"
    and "validForkExecutionEvidence e (elems (fs_Checks sim))"
  shows "ValidVerifiedForkReceipt (verified_receipt sim e)"
proof -
  note digest = verifiedForkReceiptDigest_update [of _ _ _ "verifiedForkReceiptDigest _"]
  show ?thesis
    using assms(1,2) canonical_execution_valid [OF assms(3)]
    by (simp add: ValidVerifiedForkReceipt_def verified_receipt_def Let_def digest)
qed

lemma blocked_receipt_invalid: "\<not> ValidVerifiedForkReceipt (blockedVerifiedForkReceipt sim e)"
proof -
  have "\<not> equalDigest [] (verifiedForkReceiptDigest r)" for r
    by (simp add: equalDigest_def EqualFold_def verifiedForkReceiptDigest_def json_digest_nonempty [symmetric])
  then show ?thesis
    by (auto simp: ValidVerifiedForkReceipt_def blockedVerifiedForkReceipt_def)
qed

lemma RunVerifiedForkExecution_cases:
  "RunVerifiedForkExecution ctx q backend =
     (case runVerifiedForkCore ctx q backend of
        (result, sim, Some err) \<Rightarrow> (blockedVerifiedForkReceipt sim (vb_Execution result), Some err)
      | (result, sim, None) \<Rightarrow>
          (if validForkExecutionEvidence (vb_Execution result) (elems (fs_Checks sim))
           then (verified_receipt sim (vb_Execution result), None)
           else (blockedVerifiedForkReceipt sim (vb_Execution result), Some ErrSimulationBlocked)))"
proof -
  obtain result sim err where c: "runVerifiedForkCore ctx q backend = (result, sim, err)"
    by (cases "runVerifiedForkCore ctx q backend")
  have "ValidVerifiedForkReceipt (verified_receipt sim (vb_Execution result))"
    if "err = None" "validForkExecutionEvidence (vb_Execution result) (elems (fs_Checks sim))"
  proof (rule verified_receipt_valid [OF _ _ that(2)])
    from c [unfolded that(1) runVerifiedForkCore_ok] obtain p where p: "prepareVerifiedForkRequest q = Some p"
      "simulation_spec (pv_Simulation p) (vb_Simulation result)"
      "sim = run_receipt (pv_Simulation p) (vb_Simulation result)" by blast
    have "run_reasons (pv_Simulation p) (vb_Simulation result) = []"
      using canonical_request_ids [OF prepared_request_ok(1) [OF p(1)]] p(2)
      unfolding prepared_request_ok(2) [OF p(1)] by (subst run_reasons_empty) simp_all
    then show "fs_Decision sim = SimulationAllow" by (simp add: p(3) run_receipt_decision)
    show "fs_ReceiptSHA256 sim = simulationReceiptDigest sim"
      unfolding p(3) by (rule run_receipt_digest)
  qed
  then show ?thesis
    by (auto simp: RunVerifiedForkExecution_def c verified_receipt_def Let_def split: option.splits)
qed

lemma RunVerifiedForkExecution_ok:
  "RunVerifiedForkExecution ctx q backend = (r, None) \<longleftrightarrow>
     (\<exists>p execute result. prepareVerifiedForkRequest q = Some p \<and> backend = Some execute \<and>
        ctx BeforeVerifiedFork = None \<and> ctx BeforeForkSimulation = None \<and>
        execute ctx p = (result, None) \<and> verified_spec p result \<and>
        r = verified_receipt (run_receipt (pv_Simulation p) (vb_Simulation result)) (vb_Execution result))"
proof -
  have "RunVerifiedForkExecution ctx q backend = (r, None) \<longleftrightarrow>
      (\<exists>result sim. runVerifiedForkCore ctx q backend = (result, sim, None) \<and>
         validForkExecutionEvidence (vb_Execution result) (elems (fs_Checks sim)) \<and>
         r = verified_receipt sim (vb_Execution result))"
    by (auto simp: RunVerifiedForkExecution_cases split: prod.splits option.splits)
  then show ?thesis
    unfolding runVerifiedForkCore_ok verified_spec_def by auto
qed

lemma RunVerifiedForkExecution_valid:
  "RunVerifiedForkExecution ctx q backend = (r, err) \<Longrightarrow> ValidVerifiedForkReceipt r \<longleftrightarrow> err = None"
proof -
  assume a: "RunVerifiedForkExecution ctx q backend = (r, err)"
  have "ValidVerifiedForkReceipt r" if "err = None"
    using a that unfolding RunVerifiedForkExecution_def
    by (auto simp: Let_def split: prod.splits option.splits if_splits)
  moreover have "\<not> ValidVerifiedForkReceipt r" if "err \<noteq> None"
    using a that blocked_receipt_invalid unfolding RunVerifiedForkExecution_cases
    by (auto split: prod.splits option.splits if_splits)
  ultimately show ?thesis by blast
qed

subsection \<open>The digests bind\<close>

interpretation payload_binding: digest_binding json_EVMPayload "\<lambda>p. json_ascii (json_EVMPayload p)"
proof
  fix a b assume "json_EVMPayload a = json_EVMPayload b"
  then show "a = b" by (cases a; cases b) (simp add: json_EVMPayload_def)
qed simp

definition json_definitions :: "ApprovedInvariantDefinition list \<Rightarrow> json" where
  "json_definitions ds = JArr (map json_ApprovedInvariantDefinition ds)"

interpretation definitions_binding: digest_binding json_definitions "\<lambda>ds. json_ascii (json_definitions ds)"
proof
  fix a b assume "json_definitions a = json_definitions b"
  moreover have "inj json_ApprovedInvariantDefinition"
  proof (rule injI)
    fix x y assume "json_ApprovedInvariantDefinition x = json_ApprovedInvariantDefinition y"
    then show "x = y" by (cases x; cases y) (simp add: json_ApprovedInvariantDefinition_def)
  qed
  ultimately show "a = b" by (simp add: json_definitions_def inj_map_eq_map)
qed simp

definition verified_content :: "VerifiedForkReceipt \<Rightarrow> VerifiedForkReceipt" where
  "verified_content r = r\<lparr>vr_ReceiptSHA256 := [], vr_Execution := canonical_execution (vr_Execution r)\<rparr>"

lemma json_ForkSimulationReceipt_inject:
  "json_ForkSimulationReceipt a = json_ForkSimulationReceipt b \<Longrightarrow> a = b"
  by (cases a; cases b)
     (auto simp: json_ForkSimulationReceipt_def dest!: json_slice_inject [rotated] json_InvariantCheck_inject)

interpretation verified_binding: digest_binding json_VerifiedForkReceipt "\<lambda>r. json_ascii (json_VerifiedForkReceipt r)"
proof
  fix a b :: VerifiedForkReceipt
  have e: "json_ForkExecutionEvidence x = json_ForkExecutionEvidence y \<Longrightarrow> x = y" for x y
    by (cases x; cases y) (simp add: json_ForkExecutionEvidence_def)
  assume "json_VerifiedForkReceipt a = json_VerifiedForkReceipt b"
  then show "a = b"
    by (cases a; cases b)
       (auto simp: json_VerifiedForkReceipt_def dest: json_ForkSimulationReceipt_inject e)
qed simp

lemma hex_text_ascii: "list_all visible s \<Longrightarrow> ascii s"
  by (auto simp: ascii_def visible_def list_all_iff)

lemma canonical_payload_ascii:
  assumes "canonicalEVMPayload p = Some c"
  shows "json_ascii (json_EVMPayload c)"
proof -
  have hex: "ascii (''0x'' @ h)" if "hex_decode h \<noteq> None" for h
    using that by (auto intro!: hex_text_ascii dest: hex_decode_visible)
  note f = assms [unfolded canonicalEVMPayload_Some]
  have "ascii (ep_From c)" "ascii (ep_To c)"
    using f hex by (metis canonicalEVMAddress_form)+
  moreover have "ascii (ep_ValueHex c)"
  proof -
    from f obtain n where "ep_ValueHex c = ''0x'' @ nat_text 16 n" by (metis canonicalHexQuantity_form)
    then show ?thesis by (simp add: hex_text_ascii)
  qed
  moreover have "ascii (ep_DataHex c)"
    using f hex by (metis canonicalHexBytes_form)
  ultimately show ?thesis by (simp add: json_EVMPayload_def)
qed

subsection \<open>A concrete verified run\<close>

definition sample_definition :: "string \<Rightarrow> ApprovedInvariantDefinition" where
  "sample_definition i = \<lparr>ai_ID = i, ai_Class = InvariantProxyCodehash, ai_ParametersSHA256 = sha256Hex ''parameters''\<rparr>"

definition sample_payload :: EVMPayload where
  "sample_payload = \<lparr>ep_From = sample_target, ep_To = sample_target, ep_ValueHex = ''0x'' @ nat_text 16 5,
     ep_DataHex = ''0x'' @ hex_encode ''transfer''\<rparr>"

definition sample_verified_request :: VerifiedForkRequest where
  "sample_verified_request =
     \<lparr>vq_Version = [], vq_ChainID = 1, vq_ReferenceBlock = 22000000,
      vq_ReferenceBlockHash = ''0x'' @ sha256Hex ''block'', vq_Payload = sample_payload,
      vq_RunnerSHA256 = sha256Hex ''runner'',
      vq_Invariants = [sample_definition ''b'', sample_definition ''a'']\<rparr>"

definition sample_prepared :: PreparedVerifiedForkRequest where
  "sample_prepared =
     \<lparr>pv_Simulation = \<lparr>fq_Version = InvariantRunnerVersion, fq_ChainID = 1, fq_ReferenceBlock = 22000000,
        fq_ReferenceBlockHash = ''0x'' @ sha256Hex ''block'',
        fq_PayloadSHA256 = json_digest (json_EVMPayload sample_payload),
        fq_InvariantSetSHA256 = approvedInvariantSetDigest [sample_definition ''a'', sample_definition ''b''],
        fq_RunnerSHA256 = sha256Hex ''runner'', fq_RequiredCheckIDs = [''a'', ''b'']\<rparr>,
      pv_Payload = sample_payload,
      pv_Invariants = [sample_definition ''a'', sample_definition ''b'']\<rparr>"

definition sample_backend_result :: VerifiedForkBackendResult where
  "sample_backend_result =
     \<lparr>vb_ObservedRunnerSHA256 = sha256Hex ''runner'',
      vb_Simulation = \<lparr>fb_ChainID = 1, fb_ObservedReferenceBlock = 22000000,
        fb_ObservedReferenceHash = ''0x'' @ sha256Hex ''block'',
        fb_ObservedPayloadSHA256 = json_digest (json_EVMPayload sample_payload),
        fb_ObservedInvariantSetHash = approvedInvariantSetDigest [sample_definition ''a'', sample_definition ''b''],
        fb_Checks = Some [sample_check ''a'', sample_check ''b'']\<rparr>,
      vb_Execution = \<lparr>fe_ExecutionModel = ExecutionModelSafeSimulateTxV1,
        fe_TransactionHash = ''0x'' @ sha256Hex ''transaction'',
        fe_TransactionReceiptSHA256 = sha256Hex ''receipt'',
        fe_InvariantEvidenceSHA256 = canonicalInvariantEvidenceDigest [sample_check ''a'', sample_check ''b'']\<rparr>\<rparr>"

lemma normalizeHex32_0x [simp]: "normalizeHex32 (CHR ''0'' # CHR ''x'' # sha256Hex s) = ''0x'' @ sha256Hex s"
proof -
  have "list_all visible (sha256Hex s)"
    by (simp add: sha256Hex_def)
  then show ?thesis by (simp add: normalizeHex32_def)
qed

lemma sample_payload_canonical: "canonicalEVMPayload sample_payload = Some sample_payload"
proof -
  have "canonicalEVMAddress sample_target = Some sample_target"
    by (simp add: canonicalEVMAddress_def) (simp add: sample_target_def hex_val_def ToLower_def lower_char_def)
  moreover have "canonicalHexQuantity (''0x'' @ nat_text 16 5) = Some (''0x'' @ nat_text 16 5)"
    by (rule canonicalHexQuantity_text) simp
  moreover have "canonicalHexBytes (''0x'' @ hex_encode ''transfer'') = Some (''0x'' @ hex_encode ''transfer'')"
    by (simp add: canonicalHexBytes_def del: hex_encode.simps)
  ultimately show ?thesis by (simp add: canonicalEVMPayload_Some sample_payload_def)
qed

lemma sample_definitions_canonical:
  "canonicalizeApprovedInvariantDefinitions [sample_definition ''b'', sample_definition ''a''] =
     Some [sample_definition ''a'', sample_definition ''b'']"
  by (simp add: canonicalDefinitions_Some sample_definition_def normalize_definition_def validInvariantClass_def)

lemma sample_prepares: "prepareVerifiedForkRequest sample_verified_request = Some sample_prepared"
  unfolding prepareVerifiedForkRequest_Some
  by (simp add: sample_verified_request_def sample_prepared_def sample_payload_canonical
      sample_definitions_canonical validHex32_0x [simplified]) (simp add: sample_definition_def)

lemma sample_checks_canonical:
  "canonicalizeInvariantChecks [sample_check ''a'', sample_check ''b''] =
     (Some [sample_check ''a'', sample_check ''b''], [])"
  by (simp add: canonicalizeInvariantChecks_def normalize_check_def sample_check_def validInvariantClass_def)

lemma sample_verified_spec: "verified_spec sample_prepared sample_backend_result"
  unfolding verified_spec_def simulation_spec_def validForkExecutionEvidence_def
  by (simp add: sample_prepared_def sample_backend_result_def sample_checks_canonical validHex32_0x [simplified])
     (simp add: sample_check_def validInvariantClass_def validExecutionModel_def canonicalExecutionModel_def
        TrimSpace_all_visible visible_def ExecutionModelSafeSimulateTxV1_def canonicalInvariantEvidenceDigest_def)

lemma sample_verified_run:
  "RunVerifiedForkExecution background sample_verified_request (Some (\<lambda>_ _. (sample_backend_result, None))) =
     (verified_receipt (run_receipt (pv_Simulation sample_prepared) (vb_Simulation sample_backend_result))
        (vb_Execution sample_backend_result), None)"
  unfolding RunVerifiedForkExecution_ok using sample_prepares sample_verified_spec by auto

lemma sample_model_trim: "TrimSpace ExecutionModelSafeSimulateTxV1 = ExecutionModelSafeSimulateTxV1"
  by (rule TrimSpace_all_visible) (simp add: ExecutionModelSafeSimulateTxV1_def visible_def)

lemma sample_model_padded: "TrimSpace ('' '' @ ExecutionModelSafeSimulateTxV1) = ExecutionModelSafeSimulateTxV1"
  using TrimSpace_padded(1) [of ExecutionModelSafeSimulateTxV1]
  by (simp add: ExecutionModelSafeSimulateTxV1_def visible_def)

lemma sample_model_canonical:
    "canonicalExecutionModel ExecutionModelSafeSimulateTxV1 = ExecutionModelSafeSimulateTxV1"
  and ascii_safe_model: "ascii ExecutionModelSafeSimulateTxV1"
  by (simp_all add: canonicalExecutionModel_def sample_model_trim)
     (simp_all add: ExecutionModelSafeSimulateTxV1_def)

lemma sample_run_reasons: "run_reasons (pv_Simulation sample_prepared) (vb_Simulation sample_backend_result) = []"
  using sample_verified_spec canonical_request_ids [OF prepared_request_ok(1) [OF sample_prepares]]
  unfolding prepared_request_ok(2) [OF sample_prepares] by (simp add: run_reasons_empty verified_spec_def)

lemma sample_verified_ascii:
  "json_ascii (json_VerifiedForkReceipt (verified_content
     (fst (RunVerifiedForkExecution background sample_verified_request (Some (\<lambda>_ _. (sample_backend_result, None)))))))"
  unfolding sample_verified_run fst_conv verified_receipt_def run_receipt_def sample_run_reasons
  by (simp add: verified_content_def json_VerifiedForkReceipt_def json_ForkSimulationReceipt_def
      json_ForkExecutionEvidence_def sample_prepared_def sample_backend_result_def sample_checks_canonical Let_def)
     (simp add: canonical_execution_def sample_model_canonical sample_model_trim json_slice_def append_nil_def
      InvariantRunnerVersion_def SimulationAllow_def VerifiedForkReceiptVersion_def ascii_safe_model
      approvedInvariantSetDigest_def canonicalInvariantEvidenceDigest_def json_InvariantCheck_def sample_check_def
      InvariantProxyCodehash_def simulationReceiptDigest_def Let_def)

lemma respelled_model:
  assumes "canonicalExecutionModel m = canonicalExecutionModel (fe_ExecutionModel (vr_Execution r))"
  shows "verified_content (r\<lparr>vr_Execution := (vr_Execution r)\<lparr>fe_ExecutionModel := m\<rparr>\<rparr>) = verified_content r"
    and "ValidVerifiedForkReceipt (r\<lparr>vr_Execution := (vr_Execution r)\<lparr>fe_ExecutionModel := m\<rparr>\<rparr>) =
      ValidVerifiedForkReceipt r"
proof -
  let ?s = "r\<lparr>vr_Execution := (vr_Execution r)\<lparr>fe_ExecutionModel := m\<rparr>\<rparr>"
  show c: "verified_content ?s = verified_content r"
    using assms by (simp add: verified_content_def canonical_execution_def)
  have d: "verifiedForkReceiptDigest ?s = verifiedForkReceiptDigest r"
    unfolding verifiedForkReceiptDigest_def verified_content_def [symmetric] c ..
  show "ValidVerifiedForkReceipt ?s = ValidVerifiedForkReceipt r"
    unfolding ValidVerifiedForkReceipt_def d
    using assms by (simp add: validForkExecutionEvidence_def validExecutionModel_def)
qed

subsection \<open>Properties\<close>

text \<open>C11: The verified fork gate is exact: a run returns no error if and only if the request prepares, the
  context stays live, the backend succeeds and its result meets the contract (the approved runner,
  the requested state, payload and invariant set, every required check passed, and execution
  evidence that commits to those checks). A receipt is valid exactly when no error is returned, so
  no blocked receipt can ever be presented as evidence.\<close>

theorem verified_fork_exact:
  "(snd (RunVerifiedForkExecution ctx q (Some execute)) = None \<longleftrightarrow>
      (\<exists>p result. prepareVerifiedForkRequest q = Some p \<and> ctx BeforeVerifiedFork = None \<and>
         ctx BeforeForkSimulation = None \<and> execute ctx p = (result, None) \<and> verified_spec p result)) \<and>
   (ValidVerifiedForkReceipt (fst (RunVerifiedForkExecution ctx q backend)) \<longleftrightarrow>
      snd (RunVerifiedForkExecution ctx q backend) = None)"
proof -
  have "snd (RunVerifiedForkExecution ctx q (Some execute)) = None \<longleftrightarrow>
      (\<exists>r. RunVerifiedForkExecution ctx q (Some execute) = (r, None))"
    by (cases "RunVerifiedForkExecution ctx q (Some execute)") auto
  also have "\<dots> \<longleftrightarrow>
      (\<exists>p result. prepareVerifiedForkRequest q = Some p \<and> ctx BeforeVerifiedFork = None \<and>
         ctx BeforeForkSimulation = None \<and> execute ctx p = (result, None) \<and> verified_spec p result)"
    unfolding RunVerifiedForkExecution_ok by blast
  finally have "snd (RunVerifiedForkExecution ctx q (Some execute)) = None \<longleftrightarrow>
      (\<exists>p result. prepareVerifiedForkRequest q = Some p \<and> ctx BeforeVerifiedFork = None \<and>
         ctx BeforeForkSimulation = None \<and> execute ctx p = (result, None) \<and> verified_spec p result)" .
  with RunVerifiedForkExecution_valid [OF surjective_pairing] show ?thesis by blast
qed

text \<open>Preparation is canonical: the prepared simulation request is already in canonical form and valid,
  its payload and invariant digests are those of the canonical payload and definitions, listing the
  invariants in another order prepares the same request, and preparing the prepared parts again
  gives the same result.\<close>

theorem preparation_canonical:
  assumes "prepareVerifiedForkRequest q = Some p" and "mset ds = mset (vq_Invariants q)"
  shows "request_ok (pv_Simulation p) \<and> canonical_request (pv_Simulation p) = pv_Simulation p \<and>
    evmPayloadDigest (vq_Payload q) = Some (fq_PayloadSHA256 (pv_Simulation p)) \<and>
    prepareVerifiedForkRequest (q\<lparr>vq_Invariants := ds\<rparr>) = Some p \<and>
    prepareVerifiedForkRequest (q\<lparr>vq_Payload := pv_Payload p, vq_Invariants := pv_Invariants p\<rparr>) = Some p"
proof -
  note prep = assms(1) [unfolded prepareVerifiedForkRequest_Some]
  then have "canonicalEVMPayload (pv_Payload p) = Some (pv_Payload p)"
    and "canonicalizeApprovedInvariantDefinitions (pv_Invariants p) = Some (pv_Invariants p)"
    and "canonicalizeApprovedInvariantDefinitions ds = Some (pv_Invariants p)"
    using canonicalDefinitions_perm [OF assms(2)] by (auto intro: canonicalEVMPayload_idem canonicalDefinitions_idem)
  with prep prepared_request_ok [OF assms(1)] show ?thesis
    unfolding prepareVerifiedForkRequest_Some by (simp add: evmPayloadDigest_def)
qed

theorem preparation_canonical_witness:
  "prepareVerifiedForkRequest (sample_verified_request
     \<lparr>vq_Invariants := [sample_definition ''a'', sample_definition ''b'']\<rparr>) = Some sample_prepared"
proof -
  have "mset [sample_definition ''a'', sample_definition ''b''] = mset (vq_Invariants sample_verified_request)"
    by (simp add: sample_verified_request_def)
  from preparation_canonical [OF sample_prepares this] show ?thesis by blast
qed

text \<open>The digests of a prepared request identify what will be executed: two prepared requests with the
  same payload digest and invariant-set digest carry the same canonical payload and the same
  invariant definitions, unless a SHA-256 collision is exhibited.\<close>

theorem prepared_digests_identify:
  assumes "prepareVerifiedForkRequest q = Some p" and "prepareVerifiedForkRequest q' = Some p'"
    and "json_ascii (json_definitions (pv_Invariants p))" and "json_ascii (json_definitions (pv_Invariants p'))"
    and "fq_PayloadSHA256 (pv_Simulation p) = fq_PayloadSHA256 (pv_Simulation p')"
    and "fq_InvariantSetSHA256 (pv_Simulation p) = fq_InvariantSetSHA256 (pv_Simulation p')"
  shows "pv_Payload p = pv_Payload p' \<and> pv_Invariants p = pv_Invariants p' \<or>
    sha256_collision (json_print (json_EVMPayload (pv_Payload p))) (json_print (json_EVMPayload (pv_Payload p'))) \<or>
    sha256_collision (json_print (json_definitions (pv_Invariants p))) (json_print (json_definitions (pv_Invariants p')))"
proof -
  note prep = assms(1,2) [unfolded prepareVerifiedForkRequest_Some]
  have "json_ascii (json_EVMPayload (pv_Payload p))" "json_ascii (json_EVMPayload (pv_Payload p'))"
    using prep by (blast intro: canonical_payload_ascii)+
  moreover have "json_digest (json_EVMPayload (pv_Payload p)) = json_digest (json_EVMPayload (pv_Payload p'))"
    using prep assms(5) by simp
  moreover have "json_digest (json_definitions (pv_Invariants p)) = json_digest (json_definitions (pv_Invariants p'))"
    using prep assms(6) by (simp add: approvedInvariantSetDigest_def json_definitions_def)
  ultimately show ?thesis
    using payload_binding.binds definitions_binding.binds [OF assms(3,4)] by blast
qed

theorem prepared_digests_identify_witness:
  "(let p = sample_prepared;
        q = sample_verified_request\<lparr>vq_Invariants := [sample_definition ''a'', sample_definition ''b'']\<rparr>
    in \<exists>p'. prepareVerifiedForkRequest q = Some p' \<and>
      (pv_Payload p = pv_Payload p' \<and> pv_Invariants p = pv_Invariants p' \<or>
       sha256_collision (json_print (json_EVMPayload (pv_Payload p))) (json_print (json_EVMPayload (pv_Payload p'))) \<or>
       sha256_collision (json_print (json_definitions (pv_Invariants p)))
         (json_print (json_definitions (pv_Invariants p')))))"
proof -
  let ?q = "sample_verified_request\<lparr>vq_Invariants := [sample_definition ''a'', sample_definition ''b'']\<rparr>"
  have prep: "prepareVerifiedForkRequest ?q = Some sample_prepared"
    using sample_prepares canonicalDefinitions_idem [OF sample_definitions_canonical]
    by (simp add: prepareVerifiedForkRequest_Some sample_prepared_def)
  have ok: "json_ascii (json_definitions (pv_Invariants sample_prepared))"
    by (simp add: sample_prepared_def json_definitions_def json_ApprovedInvariantDefinition_def sample_definition_def
        InvariantProxyCodehash_def)
  from prepared_digests_identify [OF sample_prepares prep ok ok] prep show ?thesis
    by (simp add: Let_def)
qed

text \<open>A valid verified receipt cannot be altered under its digest: two valid receipts with one digest
  agree on the whole simulation receipt and on the canonical execution evidence, unless their
  encodings are a SHA-256 collision.\<close>

theorem verified_fork_receipt_binds:
  assumes "ValidVerifiedForkReceipt r" and "ValidVerifiedForkReceipt s"
    and "json_ascii (json_VerifiedForkReceipt (verified_content r))"
    and "json_ascii (json_VerifiedForkReceipt (verified_content s))"
    and "vr_ReceiptSHA256 r = vr_ReceiptSHA256 s"
  shows "vr_Simulation r = vr_Simulation s \<and>
     canonical_execution (vr_Execution r) = canonical_execution (vr_Execution s) \<or>
     sha256_collision (json_print (json_VerifiedForkReceipt (verified_content r)))
       (json_print (json_VerifiedForkReceipt (verified_content s)))"
proof -
  have "equalDigest (vr_ReceiptSHA256 r) (verifiedForkReceiptDigest r)"
    "equalDigest (vr_ReceiptSHA256 s) (verifiedForkReceiptDigest s)"
    using assms(1,2) by (simp_all add: ValidVerifiedForkReceipt_def split: if_splits)
  then have "equalDigest (verifiedForkReceiptDigest r) (verifiedForkReceiptDigest s)"
    using assms(5) by (metis equalDigest_sym equalDigest_trans)
  then have "verified_content r = verified_content s \<or>
      sha256_collision (json_print (json_VerifiedForkReceipt (verified_content r)))
        (json_print (json_VerifiedForkReceipt (verified_content s)))"
    unfolding verifiedForkReceiptDigest_def verified_content_def [symmetric]
    by (rule verified_binding.binds_fold [OF assms(3,4)])
  moreover have "vr_Simulation r = vr_Simulation s \<and>
      canonical_execution (vr_Execution r) = canonical_execution (vr_Execution s)"
    if "verified_content r = verified_content s"
    using that by (cases r; cases s) (simp add: verified_content_def)
  ultimately show ?thesis by blast
qed

theorem verified_fork_receipt_binds_witness:
  "(let r = fst (RunVerifiedForkExecution background sample_verified_request (Some (\<lambda>_ _. (sample_backend_result, None))));
        s = r\<lparr>vr_Execution := (vr_Execution r)\<lparr>fe_ExecutionModel := '' '' @ ExecutionModelSafeSimulateTxV1\<rparr>\<rparr> in
    r \<noteq> s \<and> (vr_Simulation r = vr_Simulation s \<and>
     canonical_execution (vr_Execution r) = canonical_execution (vr_Execution s) \<or>
     sha256_collision (json_print (json_VerifiedForkReceipt (verified_content r)))
       (json_print (json_VerifiedForkReceipt (verified_content s)))))"
proof -
  let ?r = "fst (RunVerifiedForkExecution background sample_verified_request (Some (\<lambda>_ _. (sample_backend_result, None))))"
  let ?s = "?r\<lparr>vr_Execution := (vr_Execution ?r)\<lparr>fe_ExecutionModel := '' '' @ ExecutionModelSafeSimulateTxV1\<rparr>\<rparr>"
  have valid: "ValidVerifiedForkReceipt ?r"
    using RunVerifiedForkExecution_valid [OF sample_verified_run] by (simp add: sample_verified_run)
  have m: "fe_ExecutionModel (vr_Execution ?r) = ExecutionModelSafeSimulateTxV1"
    unfolding sample_verified_run fst_conv
    by (simp add: verified_receipt_def Let_def) (simp add: sample_backend_result_def sample_model_trim)
  have model: "canonicalExecutionModel ('' '' @ ExecutionModelSafeSimulateTxV1) =
      canonicalExecutionModel (fe_ExecutionModel (vr_Execution ?r))"
    unfolding m canonicalExecutionModel_def sample_model_padded sample_model_trim ..
  note content = respelled_model(1) [OF model]
  have "ValidVerifiedForkReceipt ?s"
    unfolding respelled_model(2) [OF model] by (rule valid)
  from verified_fork_receipt_binds [OF valid this sample_verified_ascii, unfolded content] sample_verified_ascii
  have "vr_Simulation ?r = vr_Simulation ?s \<and>
     canonical_execution (vr_Execution ?r) = canonical_execution (vr_Execution ?s) \<or>
     sha256_collision (json_print (json_VerifiedForkReceipt (verified_content ?r)))
       (json_print (json_VerifiedForkReceipt (verified_content ?s)))"
    unfolding content by simp
  moreover have "fe_ExecutionModel (vr_Execution ?r) \<noteq> fe_ExecutionModel (vr_Execution ?s)"
    unfolding m by (simp add: ExecutionModelSafeSimulateTxV1_def)
  then have "?r \<noteq> ?s" by metis
  ultimately show ?thesis by (simp add: Let_def)
qed

end
