(* ===== verification/Evm_Rpc.thy ===== *)
theory Evm_Rpc
  imports Containment Go_Json_Parse
begin

text \<open>
  \<^verbatim>\<open>evmRPCClient\<close> of \<^verbatim>\<open>internal/executionproof/anvil_backend_v03.go\<close> and the verifier of
  \<^verbatim>\<open>fork_canonicality_v03.go\<close> that uses it.

  The node is outside the program: an HTTP exchange is a function argument \<open>http\<close> that takes a
  URL, a request body and the state \<open>'s\<close> of the outside world, and returns the status and body
  of the response, or a transport error (a cancelled context or an exceeded timeout is one),
  with the new state.
  Nothing is assumed about it. Everything the client does with the bytes is modelled: the
  request text, the size limit, the decoding of the response, of its \<^verbatim>\<open>error\<close> member and of
  its \<^verbatim>\<open>result\<close>.
\<close>

subsection \<open>Effects\<close>

type_synonym ('s, 'a) io = "'s \<Rightarrow> (go_error + 'a) \<times> 's"

definition returnIO :: "'a \<Rightarrow> ('s, 'a) io" where
  "returnIO x s = (Inr x, s)"

definition raiseIO :: "go_error \<Rightarrow> ('s, 'a) io" where
  "raiseIO e s = (Inl e, s)"

definition bindIO :: "('s, 'a) io \<Rightarrow> ('a \<Rightarrow> ('s, 'b) io) \<Rightarrow> ('s, 'b) io" where
  "bindIO m k s = (case m s of (Inl e, t) \<Rightarrow> (Inl e, t) | (Inr x, t) \<Rightarrow> k x t)"

text \<open>A call whose error is replaced: \<^verbatim>\<open>if err != nil { return ..., f(err) }\<close>.\<close>

definition mapError :: "(go_error \<Rightarrow> go_error) \<Rightarrow> ('s, 'a) io \<Rightarrow> ('s, 'a) io" where
  "mapError f m s = (case m s of (Inl e, t) \<Rightarrow> (Inl (f e), t) | (Inr x, t) \<Rightarrow> (Inr x, t))"

definition guardIO :: "bool \<Rightarrow> go_error \<Rightarrow> ('s, unit) io" where
  "guardIO b e = (if b then returnIO () else raiseIO e)"

definition fromOption :: "go_error \<Rightarrow> 'a option \<Rightarrow> ('s, 'a) io" where
  "fromOption e x = (case x of None \<Rightarrow> raiseIO e | Some y \<Rightarrow> returnIO y)"

lemma returnIO_Inr [simp]: "returnIO x s = (Inr y, t) \<longleftrightarrow> x = y \<and> s = t"
  and raiseIO_Inr [simp]: "raiseIO e s \<noteq> (Inr y, t)"
  by (auto simp: returnIO_def raiseIO_def)

lemma bindIO_Inr: "bindIO m k s = (Inr y, t) \<longleftrightarrow> (\<exists>x u. m s = (Inr x, u) \<and> k x u = (Inr y, t))"
  by (auto simp: bindIO_def split: prod.splits sum.splits)

lemma mapError_Inr: "mapError f m s = (Inr y, t) \<longleftrightarrow> m s = (Inr y, t)"
  by (auto simp: mapError_def split: prod.splits sum.splits)

lemma guardIO_Inr: "guardIO b e s = (Inr y, t) \<longleftrightarrow> b \<and> s = t"
  by (auto simp: guardIO_def)

lemma fromOption_Inr: "fromOption e x s = (Inr y, t) \<longleftrightarrow> x = Some y \<and> s = t"
  by (auto simp: fromOption_def split: option.splits)

lemma if_raiseIO_Inr:
  "(if b then raiseIO e else m) s = (Inr y, t) \<longleftrightarrow> \<not> b \<and> m s = (Inr y, t)"
  by auto

lemmas io_Inr = bindIO_Inr mapError_Inr guardIO_Inr fromOption_Inr if_raiseIO_Inr

subsection \<open>The wire\<close>

type_synonym 's transport = "string \<Rightarrow> string \<Rightarrow> ('s, nat \<times> string) io"

definition jsonError :: go_error where
  "jsonError = ErrMsg ''encoding/json''"

definition int64_text :: "string \<Rightarrow> int option" where
  "int64_text t = (case SetString 10 t of
     None \<Rightarrow> None | Some i \<Rightarrow> if - (2 ^ 63) \<le> i \<and> i < 2 ^ 63 then Some i else None)"

definition int_field :: "((int \<Rightarrow> int) \<Rightarrow> 'w \<Rightarrow> 'w) \<Rightarrow> jvalue \<Rightarrow> 'w \<Rightarrow> 'w option" where
  "int_field upd v w =
     (case v of
        VNull \<Rightarrow> Some w
      | VNum t \<Rightarrow> map_option (\<lambda>i. upd (\<lambda>_. i) w) (int64_text t)
      | _ \<Rightarrow> None)"

record rpcError =
  re_Code :: int
  re_Message :: string

record rpcResponse =
  rp_JSONRPC :: string
  rp_ID :: int
  rp_Result :: "jvalue option"
  rp_Error :: "rpcError option"

definition rpcError_fields :: "rpcError field list" where
  "rpcError_fields = [(''code'', int_field re_Code_update), (''message'', string_field re_Message_update)]"

definition error_field :: "jvalue \<Rightarrow> rpcResponse \<Rightarrow> rpcResponse option" where
  "error_field v w =
     (case v of
        VNull \<Rightarrow> Some (w\<lparr>rp_Error := None\<rparr>)
      | VObj ms \<Rightarrow> map_option (\<lambda>e. w\<lparr>rp_Error := Some e\<rparr>)
          (set_members rpcError_fields ms
            (case rp_Error w of None \<Rightarrow> \<lparr>re_Code = 0, re_Message = []\<rparr> | Some e \<Rightarrow> e))
      | _ \<Rightarrow> None)"

definition rpcResponse_fields :: "rpcResponse field list" where
  "rpcResponse_fields =
     [(''jsonrpc'', string_field rp_JSONRPC_update), (''id'', int_field rp_ID_update),
      (''result'', \<lambda>v w. Some (w\<lparr>rp_Result := Some v\<rparr>)), (''error'', error_field)]"

text \<open>
  \<^verbatim>\<open>json.NewDecoder(io.LimitReader(body, 1<<20)).Decode\<close> reads one value and leaves the rest
  of the body alone.
\<close>

definition rpc_limit :: nat where
  "rpc_limit = 2 ^ 20"

definition decode_response :: "string \<Rightarrow> rpcResponse option" where
  "decode_response body =
     (case parse_value maxNestingDepth (skip_ws (take rpc_limit body)) of
        None \<Rightarrow> None
      | Some (v, r) \<Rightarrow>
          (let zero = \<lparr>rp_JSONRPC = [], rp_ID = 0, rp_Result = None, rp_Error = None\<rparr> in
           case v of VNull \<Rightarrow> Some zero | VObj ms \<Rightarrow> set_members rpcResponse_fields ms zero | _ \<Rightarrow> None))"

definition rpc_body :: "string \<Rightarrow> json list \<Rightarrow> string" where
  "rpc_body method params = json_print (JObj
     [(''id'', JNum 1), (''jsonrpc'', JStr ''2.0''), (''method'', JStr method), (''params'', JArr params)])"

text \<open>
  The decoder of the result type stands for the \<^verbatim>\<open>out\<close> pointer: \<open>no_result\<close> for nil; an
  absent result is the empty text, which no decoder accepts.
\<close>

definition rpc_call ::
  "'s transport \<Rightarrow> string \<Rightarrow> string \<Rightarrow> json list \<Rightarrow> (jvalue option \<Rightarrow> 'a option) \<Rightarrow> ('s, 'a) io" where
  "rpc_call http url method params out =
     bindIO (http url (rpc_body method params)) (\<lambda>(status, body).
     if status \<noteq> 200 then raiseIO (ErrMsg (''rpc http status '' @ show_nat status))
     else bindIO (fromOption jsonError (decode_response body)) (\<lambda>decoded.
       (case rp_Error decoded of
          Some e \<Rightarrow> raiseIO (ErrMsg (''rpc '' @ method @ '': '' @ int_text 10 (re_Code e) @ '' '' @ re_Message e))
        | None \<Rightarrow> fromOption jsonError (out (rp_Result decoded)))))"

definition no_result :: "jvalue option \<Rightarrow> unit option" where
  "no_result r = Some ()"

definition string_result :: "jvalue option \<Rightarrow> string option" where
  "string_result r = (case r of Some VNull \<Rightarrow> Some [] | Some (VStr s) \<Rightarrow> Some s | _ \<Rightarrow> None)"

definition bool_result :: "jvalue option \<Rightarrow> bool option" where
  "bool_result r = (case r of Some VNull \<Rightarrow> Some False | Some (VBool b) \<Rightarrow> Some b | _ \<Rightarrow> None)"

definition hash_result :: "jvalue option \<Rightarrow> string option" where
  "hash_result r =
     (case r of
        Some VNull \<Rightarrow> Some []
      | Some (VObj ms) \<Rightarrow> set_members [(''hash'', string_field (\<lambda>f. f))] ms []
      | _ \<Rightarrow> None)"

subsection \<open>The queries\<close>

definition parseUint64 :: "string \<Rightarrow> u64 option" where
  "parseUint64 v = (case parse_nat 16 v of
     None \<Rightarrow> None | Some n \<Rightarrow> if n < 2 ^ 64 then Some (of_nat n) else None)"

definition strconvError :: go_error where
  "strconvError = ErrMsg ''strconv.ParseUint''"

definition rpc_chainID :: "'s transport \<Rightarrow> string \<Rightarrow> ('s, u64) io" where
  "rpc_chainID http url =
     bindIO (rpc_call http url ''eth_chainId'' [] string_result) (\<lambda>value.
     fromOption strconvError (parseUint64 (TrimPrefix value ''0x'')))"

definition rpc_blockHash :: "'s transport \<Rightarrow> string \<Rightarrow> u64 \<Rightarrow> ('s, string) io" where
  "rpc_blockHash http url block =
     bindIO (rpc_call http url ''eth_getBlockByNumber''
       [JStr (''0x'' @ nat_text 16 (unat block)), JBool False] hash_result) (\<lambda>hash.
     if \<not> validHex32 hash then raiseIO (ErrMsg ''invalid block hash'')
     else returnIO (normalizeHex32 hash))"

definition rpc_callBool :: "'s transport \<Rightarrow> string \<Rightarrow> string \<Rightarrow> json list \<Rightarrow> ('s, unit) io" where
  "rpc_callBool http url method params =
     bindIO (rpc_call http url method params bool_result) (\<lambda>b.
     if \<not> b then raiseIO (ErrMsg ''rpc returned false'') else returnIO ())"

subsection \<open>Canonicality of the fork block\<close>

record RPCForkCanonicalityVerifier =
  cv_RPCURL :: string
  cv_MaxHeadLag :: u64

type_synonym 's canonicality_verifier = "u64 \<Rightarrow> u64 \<Rightarrow> string \<Rightarrow> ('s, unit) io"

definition VerifyCanonical :: "'s transport \<Rightarrow> RPCForkCanonicalityVerifier \<Rightarrow> 's canonicality_verifier" where
  "VerifyCanonical http v chainID referenceBlock referenceHash =
     (if TrimSpace (cv_RPCURL v) = [] \<or> chainID = 0 \<or> referenceBlock = 0 \<or> \<not> validHex32 referenceHash \<or>
         cv_MaxHeadLag v = 0
      then raiseIO (ErrMsg ''invalid canonicality verifier request'')
      else
        (let url = cv_RPCURL v; mismatch = ErrMsg ''canonical chain id mismatch'';
             gone = ErrMsg ''reference block is no longer canonical'' in
         bindIO (mapError (\<lambda>_. mismatch) (rpc_chainID http url)) (\<lambda>observedChain.
         bindIO (guardIO (observedChain = chainID) mismatch) (\<lambda>_.
         bindIO (mapError (\<lambda>_. gone) (rpc_blockHash http url referenceBlock)) (\<lambda>observedHash.
         bindIO (guardIO (equalHex32 observedHash referenceHash) gone) (\<lambda>_.
         bindIO (mapError (ErrWrap ''read canonical head'') (rpc_call http url ''eth_blockNumber'' [] string_result))
           (\<lambda>headHex.
         bindIO (fromOption (ErrMsg ''invalid canonical head'')
                  (parseUint64 (TrimPrefix (TrimSpace headHex) ''0x''))) (\<lambda>head.
         if head < referenceBlock then raiseIO (ErrMsg ''invalid canonical head'')
         else if head - referenceBlock > cv_MaxHeadLag v
         then raiseIO (ErrMsg ''fork reference block is stale'')
         else returnIO ()))))))))"

subsection \<open>What a successful call means\<close>

lemma rpc_call_Inr:
  "rpc_call http url method params out s = (Inr x, t) \<longleftrightarrow>
     (\<exists>body resp. http url (rpc_body method params) s = (Inr (200, body), t) \<and>
        decode_response body = Some resp \<and> rp_Error resp = None \<and> out (rp_Result resp) = Some x)"
  by (auto simp: rpc_call_def io_Inr split: if_splits option.splits)

lemma rpc_blockHash_valid: "rpc_blockHash http url b s = (Inr h, t) \<Longrightarrow> validHex32 h"
  by (auto simp: rpc_blockHash_def io_Inr split: if_splits)
     (metis normalizeHex32_form validHex32_0x)

lemma unat_le_sub: "(b::u64) \<le> a \<Longrightarrow> a - b \<le> c \<longleftrightarrow> unat a \<le> unat b + unat c"
  by (simp add: word_le_nat_alt unat_sub le_diff_conv add.commute)

lemma VerifyCanonical_Inr:
  "VerifyCanonical http v c b h s = (Inr u, t) \<longleftrightarrow>
     TrimSpace (cv_RPCURL v) \<noteq> [] \<and> c \<noteq> 0 \<and> b \<noteq> 0 \<and> validHex32 h \<and> cv_MaxHeadLag v \<noteq> 0 \<and>
     (\<exists>hash headHex head s1 s2.
        rpc_chainID http (cv_RPCURL v) s = (Inr c, s1) \<and>
        rpc_blockHash http (cv_RPCURL v) b s1 = (Inr hash, s2) \<and> equalHex32 hash h \<and>
        rpc_call http (cv_RPCURL v) ''eth_blockNumber'' [] string_result s2 = (Inr headHex, t) \<and>
        parseUint64 (TrimPrefix (TrimSpace headHex) ''0x'') = Some head \<and>
        b \<le> head \<and> head - b \<le> cv_MaxHeadLag v)"
  unfolding VerifyCanonical_def Let_def
  by (simp add: io_Inr not_less ex_simps) blast

subsection \<open>Nodes that answer\<close>

text \<open>
  Decoding what a node printed gives back its members: the size limit is the only loss. The
  constant node is the smallest instance of a transport; it answers every call alike.
\<close>

lemma decode_response_print:
  assumes "json_ascii (JObj ms)" and "json_depth (JObj ms) \<le> maxNestingDepth"
    and "length (json_print (JObj ms)) \<le> rpc_limit"
  shows "decode_response (json_print (JObj ms)) =
    set_members rpcResponse_fields (map (\<lambda>(k, v). (k, json_value v)) ms)
      \<lparr>rp_JSONRPC = [], rp_ID = 0, rp_Result = None, rp_Error = None\<rparr>"
proof -
  have "skip_ws (take rpc_limit (json_print (JObj ms))) = json_print (JObj ms)"
    using assms(3) skip_ws_start [OF value_start_print, of "JObj ms" "[]"] by simp
  moreover have "parse_value maxNestingDepth (json_print (JObj ms)) = Some (json_value (JObj ms), [])"
    using parse_value_print [OF assms(1,2), of "[]"] by simp
  ultimately show ?thesis by (simp only: decode_response_def) (simp add: Let_def)
qed

definition constant_node :: "string \<Rightarrow> 's transport" where
  "constant_node answer url body s = (Inr (200, json_print (JObj [(''result'', JStr answer)])), s)"

lemma result_field: "find_field rpcResponse_fields ''result'' = Some (\<lambda>v w. Some (w\<lparr>rp_Result := Some v\<rparr>))"
  by (simp add: find_field_def rpcResponse_fields_def)

lemma json_body_length: "ascii s \<Longrightarrow> length (json_body s) \<le> 6 * length s"
proof (induction s)
  case (Cons c s)
  have "length (json_char c) \<le> 6" by (auto simp: json_char_def u_escape_def split: option.splits)
  with Cons show ?case by (simp add: json_body_ascii)
qed (simp add: json_body_ascii)

lemma constant_node_call:
  assumes "ascii answer" and "length answer \<le> 1000"
  shows "rpc_call (constant_node answer) url method params string_result s = (Inr answer, s)"
proof -
  let ?ms = "[(''result'', JStr answer)]"
  have "length (json_print (JObj ?ms)) \<le> rpc_limit"
    using json_body_length [OF assms(1)] json_body_length [of "''result''"] assms(2)
    by (simp add: json_string_def rpc_limit_def)
  moreover have "json_ascii (JObj ?ms)" "json_depth (JObj ?ms) \<le> maxNestingDepth"
    using assms(1) by (simp_all add: maxNestingDepth_def)
  ultimately have "decode_response (json_print (JObj ?ms)) =
      Some \<lparr>rp_JSONRPC = [], rp_ID = 0, rp_Result = Some (VStr answer), rp_Error = None\<rparr>"
    by (subst decode_response_print) (simp_all add: result_field)
  then show ?thesis
    by (simp add: rpc_call_Inr constant_node_def string_result_def)
qed

subsection \<open>Properties\<close>

text \<open>The canonicality check is a bound on the age of the fork: it succeeds exactly when it is fully
  configured, the node names the chain, reports the very reference hash for that block, and a
  head that is not before the block and at most the allowed lag after it. The bound is over the
  natural numbers: the 64-bit subtraction never wraps. A lag of zero, which an omitted setting
  is, accepts nothing.\<close>

theorem canonical_block_bounds:
  "VerifyCanonical http v c b h s = (Inr u, t) \<longleftrightarrow>
     TrimSpace (cv_RPCURL v) \<noteq> [] \<and> c \<noteq> 0 \<and> b \<noteq> 0 \<and> validHex32 h \<and> 0 < unat (cv_MaxHeadLag v) \<and>
     (\<exists>hash headHex head s1 s2.
        rpc_chainID http (cv_RPCURL v) s = (Inr c, s1) \<and>
        rpc_blockHash http (cv_RPCURL v) b s1 = (Inr hash, s2) \<and> equalHex32 hash h \<and>
        rpc_call http (cv_RPCURL v) ''eth_blockNumber'' [] string_result s2 = (Inr headHex, t) \<and>
        parseUint64 (TrimPrefix (TrimSpace headHex) ''0x'') = Some head \<and>
        unat b \<le> unat head \<and> unat head \<le> unat b + unat (cv_MaxHeadLag v))"
  unfolding VerifyCanonical_Inr
  by (auto simp: word_le_nat_alt [of b] unat_gt_0 unat_le_sub [unfolded word_le_nat_alt [of b]])

end
