(* ===== verification/Fork_Forward.thy ===== *)
theory Fork_Forward
  imports Safe_Forward Fork_Receipt Evm_Rpc
begin

text \<open>
  \<^verbatim>\<open>internal/executionproof/safe_forward_v03.go\<close>: the v0.3 authorisation boundary. A Safe
  transaction is forwarded only after a Safe-aware verified fork executed exactly its payload,
  the receipt matches the proof, and the fork block is still canonical.

  A backend is its \<^verbatim>\<open>ExecuteVerifiedFork\<close> method together with its \<^verbatim>\<open>SafeExecutionModel\<close>
  answer, \<open>None\<close> when its type lacks the method. The state is the forward log of
  \<open>Safe_Forward\<close> and the outside world \<open>'s\<close> the canonicality verifier asks.
\<close>

definition EPForkExecutionRequired :: ReasonCode where
  "EPForkExecutionRequired = ''EP-010-FORK-EXECUTION-REQUIRED''"
definition EPForkPayloadMismatch :: ReasonCode where "EPForkPayloadMismatch = ''EP-011-FORK-PAYLOAD-MISMATCH''"
definition EPForkReceiptMismatch :: ReasonCode where "EPForkReceiptMismatch = ''EP-012-FORK-RECEIPT-MISMATCH''"
definition EPForkStateStale :: ReasonCode where "EPForkStateStale = ''EP-013-FORK-STATE-STALE''"
definition EPSafeExecutionSemantics :: ReasonCode where
  "EPSafeExecutionSemantics = ''EP-014-SAFE-EXECUTION-SEMANTICS-REQUIRED''"

type_synonym SafeAwareBackend = "VerifiedForkBackend \<times> string option"

definition blockedForkSigning :: "ReasonCode \<Rightarrow> SigningGateResult" where
  "blockedForkSigning reason = \<lparr>sg_Decision = DecisionBlock, sg_Reasons = [reason]\<rparr>"

definition safeTransactionMatchesFork :: "SafeTransaction \<Rightarrow> PreparedVerifiedForkRequest \<Rightarrow> bool" where
  "safeTransactionMatchesFork tx prepared =
     (if \<not> validSafeTransaction tx \<or> fq_ChainID (pv_Simulation prepared) \<noteq> tx_ChainID tx then False
      else (let payload = pv_Payload prepared in
        if \<not> equalAddress (ep_From payload) (tx_Safe tx) \<or> \<not> equalAddress (ep_To payload) (tx_To tx) then False
        else (case parseHexUint256 (ep_ValueHex payload) of
            None \<Rightarrow> False
          | Some value \<Rightarrow>
              if Some value \<noteq> tx_Value tx then False
              else (case decodeCanonicalHexBytes (ep_DataHex payload) of
                  None \<Rightarrow> False
                | Some data \<Rightarrow> equalBytes data (tx_Data tx)))))"

definition forkReceiptMatchesProof ::
  "Proof \<Rightarrow> VerifiedForkReceipt \<Rightarrow> PreparedVerifiedForkRequest \<Rightarrow> bool" where
  "forkReceiptMatchesProof proof receipt prepared =
     (if ev_Decision (pf_Evaluation proof) \<noteq> DecisionAllow \<or> \<not> ValidVerifiedForkReceipt receipt then False
      else (let payload = en_Payload (pf_Envelope proof); sim = pv_Simulation prepared in
        if pe_ChainID payload \<noteq> fq_ChainID sim \<or>
           \<not> EqualFold (TrimSpace (pe_Target payload)) (TrimSpace (ep_To (pv_Payload prepared))) then False
        else (case decodeCanonicalHexBytes (ep_DataHex (pv_Payload prepared)) of
            None \<Rightarrow> False
          | Some data \<Rightarrow>
              (let calldataDigest = sha256Hex data in
               if \<not> equalDigest (pe_GeneratedCalldataSHA256 payload) calldataDigest \<or>
                  \<not> equalDigest (pe_ApprovedCalldataSHA256 payload) calldataDigest then False
               else if \<not> equalDigest (sm_InvariantSetSHA256 (en_Simulation (pf_Envelope proof)))
                        (fs_InvariantSetSHA256 (vr_Simulation receipt)) then False
               else if \<not> equalDigest (fs_PayloadSHA256 (vr_Simulation receipt)) (fq_PayloadSHA256 sim) \<or>
                  fs_ChainID (vr_Simulation receipt) \<noteq> fq_ChainID sim then False
               else True))))"

definition zero_VerifiedForkReceipt :: VerifiedForkReceipt where
  "zero_VerifiedForkReceipt =
     \<lparr>vr_Version = [],
      vr_Simulation = \<lparr>fs_Version = [], fs_ChainID = 0, fs_ReferenceBlock = 0, fs_ReferenceBlockHash = [],
        fs_PayloadSHA256 = [], fs_InvariantSetSHA256 = [], fs_RunnerSHA256 = [], fs_RequiredCheckIDs = None,
        fs_Checks = None, fs_Decision = [], fs_Reasons = None, fs_ReceiptSHA256 = []\<rparr>,
      vr_Execution = \<lparr>fe_ExecutionModel = [], fe_TransactionHash = [], fe_TransactionReceiptSHA256 = [],
        fe_InvariantEvidenceSHA256 = []\<rparr>,
      vr_ReceiptSHA256 = []\<rparr>"

definition VerifyForkAndForwardSafeTransaction ::
  "keccak \<Rightarrow> ctx \<Rightarrow> Proof \<Rightarrow> VerifiedForkRequest \<Rightarrow> SafeAwareBackend option \<Rightarrow>
   's canonicality_verifier option \<Rightarrow> SafeForwardRequest \<Rightarrow> SafeForwarder option \<Rightarrow> forward_log \<times> 's \<Rightarrow>
   (SigningGateResult \<times> VerifiedForkReceipt \<times> go_error option) \<times> forward_log \<times> 's" where
  "VerifyForkAndForwardSafeTransaction K ctx proof forkRequest backend canonicality req forwarder st =
     (case (backend, canonicality, forwarder) of
        (Some (execute, model), Some verify, Some forward) \<Rightarrow>
          (let (log, s) = st;
               block = (\<lambda>reason receipt t.
                 ((blockedForkSigning reason, receipt, Some ErrSigningBlocked), log, t)) in
           if model \<noteq> Some ExecutionModelSafeSimulateTxV1
           then block EPSafeExecutionSemantics zero_VerifiedForkReceipt s
           else (case prepareVerifiedForkRequest forkRequest of
               None \<Rightarrow> block EPForkPayloadMismatch zero_VerifiedForkReceipt s
             | Some prepared \<Rightarrow>
                 if \<not> safeTransactionMatchesFork (fr_Transaction req) prepared
                 then block EPForkPayloadMismatch zero_VerifiedForkReceipt s
                 else (let (forkReceipt, err) = RunVerifiedForkExecution ctx forkRequest (Some execute) in
                   if err \<noteq> None \<or> \<not> ValidVerifiedForkReceipt forkReceipt
                   then block EPForkExecutionRequired forkReceipt s
                   else if fe_ExecutionModel (vr_Execution forkReceipt) \<noteq> ExecutionModelSafeSimulateTxV1
                   then block EPSafeExecutionSemantics forkReceipt s
                   else if \<not> forkReceiptMatchesProof proof forkReceipt prepared
                   then block EPForkReceiptMismatch forkReceipt s
                   else (case verify (fq_ChainID (pv_Simulation prepared)) (fq_ReferenceBlock (pv_Simulation prepared))
                                (fq_ReferenceBlockHash (pv_Simulation prepared)) s of
                       (Inl e, t) \<Rightarrow> block EPForkStateStale forkReceipt t
                     | (Inr u, t) \<Rightarrow>
                         (let (decision, err, log') =
                            VerifyAndForwardSafeTransaction K ctx proof req (Some forward) log
                          in ((decision, forkReceipt, err), log', t))))))
      | _ \<Rightarrow> ((blockedForkSigning EPForkExecutionRequired, zero_VerifiedForkReceipt, Some ErrSigningBlocked), st))"

subsection \<open>One payload per transaction\<close>

definition payload_of :: "SafeTransaction \<Rightarrow> EVMPayload" where
  "payload_of tx = \<lparr>ep_From = normalizeAddress (tx_Safe tx), ep_To = normalizeAddress (tx_To tx),
     ep_ValueHex = ''0x'' @ int_text 16 (the (tx_Value tx)), ep_DataHex = ''0x'' @ hex_encode (tx_Data tx)\<rparr>"

lemma equalAddress_canonical:
  assumes "canonicalEVMAddress v = Some c"
  shows "equalAddress c a \<longleftrightarrow> c = normalizeAddress a"
proof -
  from assms obtain h where h: "c = ''0x'' @ h" "hex_decode h \<noteq> None" "ToLower h = h"
    by (rule canonicalEVMAddress_form)
  then have "TrimSpace c = c" using TrimSpace_0x hex_decode_visible by blast
  with h show ?thesis
    by (auto simp: equalAddress_def EqualFold_def normalizeAddress_def)
qed

lemma parse_canonical_quantity:
  assumes "canonicalHexQuantity v = Some q" and "0 \<le> n"
  shows "parseHexUint256 q = Some n \<longleftrightarrow> q = ''0x'' @ int_text 16 n"
proof -
  from assms(1) obtain m where m: "q = ''0x'' @ nat_text 16 m" "m < 2 ^ 256" by (rule canonicalHexQuantity_form)
  then show ?thesis
    using parseHexUint256_text [of m] assms(2) by (auto simp: int_text_def nat_text_inject)
qed

lemma decode_canonical_bytes:
  assumes "canonicalHexBytes v = Some d"
  shows "decodeCanonicalHexBytes d = Some data \<longleftrightarrow> d = ''0x'' @ hex_encode data"
proof -
  from assms obtain h where h: "d = ''0x'' @ h" "hex_decode h \<noteq> None" "ToLower h = h"
    by (rule canonicalHexBytes_form)
  then have t: "TrimSpace d = d" using TrimSpace_0x hex_decode_visible by blast
  have "even (length h)" using h(2) by (auto dest: hex_decode_length)
  with h t have "decodeCanonicalHexBytes d = hex_decode h"
    by (simp add: decodeCanonicalHexBytes_def Let_def even_iff_mod_2_eq_zero)
  moreover have "hex_decode h = Some data \<longleftrightarrow> h = hex_encode data"
    using hex_encode_decode [of h data] h(3) by auto
  ultimately show ?thesis using h(1) by simp
qed

lemma safeTransactionMatchesFork_iff:
  assumes "prepareVerifiedForkRequest q = Some p"
  shows "safeTransactionMatchesFork tx p \<longleftrightarrow>
    validSafeTransaction tx \<and> tx_ChainID tx = fq_ChainID (pv_Simulation p) \<and> pv_Payload p = payload_of tx"
proof (cases "validSafeTransaction tx")
  case True
  then obtain n where n: "tx_Value tx = Some n" "0 \<le> n"
    by (auto simp: validSafeTransaction_def validUint256_iff)
  have c: "canonicalEVMPayload (vq_Payload q) = Some (pv_Payload p)"
    using assms by (simp add: prepareVerifiedForkRequest_Some)
  note c = c [unfolded canonicalEVMPayload_Some]
  note fields = equalAddress_canonical [OF c [THEN conjunct1]]
    equalAddress_canonical [OF c [THEN conjunct2, THEN conjunct1]]
    parse_canonical_quantity [OF c [THEN conjunct2, THEN conjunct2, THEN conjunct1] n(2)]
    decode_canonical_bytes [OF c [THEN conjunct2, THEN conjunct2, THEN conjunct2]]
  have "safeTransactionMatchesFork tx p \<longleftrightarrow> fq_ChainID (pv_Simulation p) = tx_ChainID tx \<and>
      equalAddress (ep_From (pv_Payload p)) (tx_Safe tx) \<and> equalAddress (ep_To (pv_Payload p)) (tx_To tx) \<and>
      parseHexUint256 (ep_ValueHex (pv_Payload p)) = Some n \<and>
      decodeCanonicalHexBytes (ep_DataHex (pv_Payload p)) = Some (tx_Data tx)"
    using True n by (auto simp: safeTransactionMatchesFork_def Let_def split: option.splits)
  then show ?thesis
    unfolding fields using True n by (cases "pv_Payload p") (auto simp: payload_of_def)
qed (simp add: safeTransactionMatchesFork_def)

subsection \<open>What a call of the forwarder implies\<close>

definition fork_forward_spec ::
  "keccak \<Rightarrow> ctx \<Rightarrow> Proof \<Rightarrow> VerifiedForkRequest \<Rightarrow> VerifiedForkBackend \<Rightarrow> SafeForwardRequest \<Rightarrow>
   PreparedVerifiedForkRequest \<Rightarrow> VerifiedForkReceipt \<Rightarrow> bool" where
  "fork_forward_spec K ctx proof q execute req p r \<longleftrightarrow>
     prepareVerifiedForkRequest q = Some p \<and>
     tx_ChainID (fr_Transaction req) = fq_ChainID (pv_Simulation p) \<and> pv_Payload p = payload_of (fr_Transaction req) \<and>
     RunVerifiedForkExecution ctx q (Some execute) = (r, None) \<and>
     fe_ExecutionModel (vr_Execution r) = ExecutionModelSafeSimulateTxV1 \<and>
     forkReceiptMatchesProof proof r p \<and> forward_spec K proof req"

lemma VerifyForkAndForward_sent:
  assumes run: "VerifyForkAndForwardSafeTransaction K ctx proof q backend canonicality req forwarder (log, s) =
      ((d, r, err), log', t)"
    and "log' \<noteq> log"
  obtains execute verify p u where "backend = Some (execute, Some ExecutionModelSafeSimulateTxV1)"
    "canonicality = Some verify" "fork_forward_spec K ctx proof q execute req p r"
    "verify (fq_ChainID (pv_Simulation p)) (fq_ReferenceBlock (pv_Simulation p))
       (fq_ReferenceBlockHash (pv_Simulation p)) s = (Inr u, t)"
    "log' = log @ [req]"
proof -
  from assms obtain execute verify forward p u where
    b: "backend = Some (execute, Some ExecutionModelSafeSimulateTxV1)" "canonicality = Some verify"
      "forwarder = Some forward"
    and p: "prepareVerifiedForkRequest q = Some p" "safeTransactionMatchesFork (fr_Transaction req) p"
    and r: "RunVerifiedForkExecution ctx q (Some execute) = (r, None)"
      "fe_ExecutionModel (vr_Execution r) = ExecutionModelSafeSimulateTxV1" "forkReceiptMatchesProof proof r p"
    and v: "verify (fq_ChainID (pv_Simulation p)) (fq_ReferenceBlock (pv_Simulation p))
       (fq_ReferenceBlockHash (pv_Simulation p)) s = (Inr u, t)"
    and f: "VerifyAndForwardSafeTransaction K ctx proof req (Some forward) log = (d, err, log')"
    by (auto simp: VerifyForkAndForwardSafeTransaction_def Let_def
        split: option.splits prod.splits sum.splits if_splits)
  have "log' = log @ [req]" "forward_spec K proof req"
    using VerifyAndForward_sent [OF f assms(2)] by simp_all
  moreover have "fork_forward_spec K ctx proof q execute req p r"
    using p r calculation(2) safeTransactionMatchesFork_iff [OF p(1)] by (simp add: fork_forward_spec_def)
  ultimately show thesis using b v that by blast
qed

subsection \<open>A concrete forward\<close>

lemma sample_payload_of: "payload_of sample_tx = sample_payload"
proof -
  have "normalizeAddress sample_target = sample_target"
    by (simp add: normalizeAddress_def) (simp add: sample_target_def ToLower_def lower_char_def)
  then show ?thesis by (simp add: payload_of_def sample_payload_def sample_tx_def int_text_def)
qed

definition sample_fork_envelope :: "keccak \<Rightarrow> Envelope" where
  "sample_fork_envelope K = (sample_envelope 1 sample_target (sha256Hex ''transfer'') (sample_hash K))
     \<lparr>en_Simulation := \<lparr>sm_InvariantSetSHA256 = approvedInvariantSetDigest (pv_Invariants sample_prepared),
        sm_Result = ''PASS''\<rparr>\<rparr>"

definition sample_fork_proof :: "keccak \<Rightarrow> Proof" where
  "sample_fork_proof K = EvaluateEnvelope (sample_fork_envelope K)"

definition sample_verify :: "unit canonicality_verifier" where
  "sample_verify c b h = guardIO (c = 1 \<and> b = 22000000) (ErrMsg ''stale'')"

lemma sample_fork_allow: "allow_spec (sample_fork_envelope K)"
proof -
  have "allow_spec (sample_envelope 1 sample_target (sha256Hex ''transfer'') (sample_hash K))"
    by (rule sample_envelope_allow) simp_all
  then show ?thesis
    by (simp add: allow_spec_def validEvidence_def sample_fork_envelope_def approvedInvariantSetDigest_def)
qed

lemma sample_fork_default: "envelopeDefault (sample_fork_envelope K) = sample_fork_envelope K"
  by (simp add: envelopeDefault_def sample_fork_envelope_def sample_envelope_def ProofVersion_def)

lemma sample_fork_forward_spec: "forward_spec K (sample_fork_proof K) (sample_forward K)"
proof -
  have "ev_Decision (AuthorizeForSigning (sample_fork_proof K)) = DecisionAllow"
    using sample_fork_allow [of K] by (simp add: AuthorizeForSigning_Evaluate sample_fork_proof_def sample_fork_default)
  moreover have "same_word32 (sample_hash K) (sample_hash K)"
    using equalHex32_word [of "sample_hash K" "sample_hash K"] by simp
  ultimately show ?thesis
    by (simp add: forward_spec_def sample_forward_def sample_hash_computed)
       (simp add: forward_request_matches_def request_matches_def sample_fork_proof_def sample_fork_default
         sample_fork_envelope_def sample_envelope_def sample_tx_def)
qed

definition sample_fork_receipt :: VerifiedForkReceipt where
  "sample_fork_receipt =
     verified_receipt (run_receipt (pv_Simulation sample_prepared) (vb_Simulation sample_backend_result))
       (vb_Execution sample_backend_result)"

lemma sample_fork_receipt_fields:
  "fe_ExecutionModel (vr_Execution sample_fork_receipt) = ExecutionModelSafeSimulateTxV1"
  "fs_ChainID (vr_Simulation sample_fork_receipt) = 1"
  "fs_PayloadSHA256 (vr_Simulation sample_fork_receipt) = fq_PayloadSHA256 (pv_Simulation sample_prepared)"
  "fs_InvariantSetSHA256 (vr_Simulation sample_fork_receipt) = approvedInvariantSetDigest (pv_Invariants sample_prepared)"
  by (simp_all add: sample_fork_receipt_def verified_receipt_def run_receipt_def Let_def)
     (simp_all add: sample_backend_result_def sample_model_trim sample_prepared_def approvedInvariantSetDigest_def)

lemma sample_fork_run:
  "RunVerifiedForkExecution background sample_verified_request (Some (\<lambda>_ _. (sample_backend_result, None))) =
     (sample_fork_receipt, None)"
  unfolding sample_fork_receipt_def by (rule sample_verified_run)

lemma sample_fork_matches: "forkReceiptMatchesProof (sample_fork_proof K) sample_fork_receipt sample_prepared"
proof -
  have v: "ValidVerifiedForkReceipt sample_fork_receipt"
    using RunVerifiedForkExecution_valid [OF sample_fork_run] by simp
  have "canonicalHexBytes (ep_DataHex sample_payload) = Some (ep_DataHex sample_payload)"
    using sample_payload_canonical by (simp add: canonicalEVMPayload_Some)
  from decode_canonical_bytes [OF this, of "''transfer''"]
  have d: "decodeCanonicalHexBytes (ep_DataHex sample_payload) = Some ''transfer''"
    by (simp add: sample_payload_def)
  have a: "ev_Decision (pf_Evaluation (sample_fork_proof K)) = DecisionAllow"
    using sample_fork_allow by (simp add: sample_fork_proof_def sample_fork_default)
  have e: "pf_Envelope (sample_fork_proof K) = sample_fork_envelope K"
    by (simp add: sample_fork_proof_def sample_fork_default)
  have p: "pv_Payload sample_prepared = sample_payload" "ep_To sample_payload = sample_target"
    "fq_ChainID (pv_Simulation sample_prepared) = 1"
    by (simp_all add: sample_prepared_def sample_payload_def)
  show ?thesis
    by (simp add: forkReceiptMatchesProof_def a v e p d sample_fork_receipt_fields Let_def)
       (simp add: sample_fork_envelope_def sample_envelope_def)
qed

lemma sample_fork_forward:
  "VerifyForkAndForwardSafeTransaction K background (sample_fork_proof K) sample_verified_request
     (Some (\<lambda>_ _. (sample_backend_result, None), Some ExecutionModelSafeSimulateTxV1)) (Some sample_verify)
     (sample_forward K) (Some (\<lambda>_ _. None)) ([], ()) =
   ((AuthorizeSafeForward (sample_fork_proof K) (sample_forward K) (Some (ComputeSafeTxHash K)),
     sample_fork_receipt, None), [sample_forward K], ())"
proof -
  have tx: "fr_Transaction (sample_forward K) = sample_tx" by (simp add: sample_forward_def)
  have m: "safeTransactionMatchesFork sample_tx sample_prepared"
    unfolding safeTransactionMatchesFork_iff [OF sample_prepares] sample_payload_of
    using sample_tx_valid by (simp add: sample_prepared_def sample_tx_def)
  have v: "ValidVerifiedForkReceipt sample_fork_receipt"
    using RunVerifiedForkExecution_valid [OF sample_fork_run] by simp
  have c: "sample_verify (fq_ChainID (pv_Simulation sample_prepared)) (fq_ReferenceBlock (pv_Simulation sample_prepared))
      (fq_ReferenceBlockHash (pv_Simulation sample_prepared)) () = (Inr (), ())"
    by (simp add: sample_verify_def guardIO_def returnIO_def sample_prepared_def)
  show ?thesis
    by (simp add: VerifyForkAndForwardSafeTransaction_def sample_prepares tx m sample_fork_run v
        sample_fork_receipt_fields sample_fork_matches c VerifyAndForward_cases sample_fork_forward_spec Let_def)
qed

subsection \<open>Properties\<close>

text \<open>C12: The forwarder is reached only through the whole chain of evidence: a forwarded transaction is the
  one transaction whose canonical payload was simulated (chain, Safe, target, value and data, byte
  for byte), by a Safe-aware backend whose receipt is valid and names that payload's digest; the
  receipt matches the proof, the fork block was canonical when asked after the simulation, and the
  native Safe hash gate authorised the request. The forwarder is called once.\<close>

theorem fork_forward_bound:
  assumes "VerifyForkAndForwardSafeTransaction K ctx proof q backend canonicality req forwarder (log, s) =
      ((d, r, err), log', t)"
    and "log' \<noteq> log"
  shows "\<exists>execute verify p u.
     backend = Some (execute, Some ExecutionModelSafeSimulateTxV1) \<and> canonicality = Some verify \<and>
     log' = log @ [req] \<and> prepareVerifiedForkRequest q = Some p \<and>
     fq_ChainID (pv_Simulation p) = tx_ChainID (fr_Transaction req) \<and>
     pv_Payload p = payload_of (fr_Transaction req) \<and>
     fq_PayloadSHA256 (pv_Simulation p) = json_digest (json_EVMPayload (payload_of (fr_Transaction req))) \<and>
     RunVerifiedForkExecution ctx q (Some execute) = (r, None) \<and> ValidVerifiedForkReceipt r \<and>
     fe_ExecutionModel (vr_Execution r) = ExecutionModelSafeSimulateTxV1 \<and>
     forkReceiptMatchesProof proof r p \<and> forward_spec K proof req \<and>
     verify (fq_ChainID (pv_Simulation p)) (fq_ReferenceBlock (pv_Simulation p))
       (fq_ReferenceBlockHash (pv_Simulation p)) s = (Inr u, t)"
proof -
  from assms obtain execute verify p u where b: "backend = Some (execute, Some ExecutionModelSafeSimulateTxV1)"
    "canonicality = Some verify" "fork_forward_spec K ctx proof q execute req p r" "log' = log @ [req]"
    "verify (fq_ChainID (pv_Simulation p)) (fq_ReferenceBlock (pv_Simulation p))
       (fq_ReferenceBlockHash (pv_Simulation p)) s = (Inr u, t)"
    by (rule VerifyForkAndForward_sent)
  then have spec: "prepareVerifiedForkRequest q = Some p" "RunVerifiedForkExecution ctx q (Some execute) = (r, None)"
    by (simp_all add: fork_forward_spec_def)
  then have "fq_PayloadSHA256 (pv_Simulation p) = json_digest (json_EVMPayload (pv_Payload p))"
    by (simp add: prepareVerifiedForkRequest_Some)
  with b spec RunVerifiedForkExecution_valid [OF spec(2)] show ?thesis
    unfolding fork_forward_spec_def by auto
qed

theorem fork_forward_bound_witness:
  "\<exists>d r err t. VerifyForkAndForwardSafeTransaction Sum256 background (sample_fork_proof Sum256) sample_verified_request
     (Some (\<lambda>_ _. (sample_backend_result, None), Some ExecutionModelSafeSimulateTxV1)) (Some sample_verify)
     (sample_forward Sum256) (Some (\<lambda>_ _. None)) ([], ()) = ((d, r, err), [sample_forward Sum256], t) \<and>
     ValidVerifiedForkReceipt r \<and> pv_Payload sample_prepared = payload_of sample_tx"
proof -
  note run = sample_fork_forward [of Sum256]
  from fork_forward_bound [OF run] obtain p where "ValidVerifiedForkReceipt sample_fork_receipt"
    "prepareVerifiedForkRequest sample_verified_request = Some p" "pv_Payload p = payload_of (fr_Transaction (sample_forward Sum256))"
    by auto
  then have "ValidVerifiedForkReceipt sample_fork_receipt" "pv_Payload sample_prepared = payload_of sample_tx"
    using sample_prepares by (simp_all add: sample_forward_def)
  then show ?thesis using run by blast
qed

text \<open>The boundary fails closed: without a backend, a canonicality verifier or a forwarder, or with a
  backend that only simulates a direct call, the answer is BLOCK with no call and no query; in every
  run ALLOW is reported exactly when no error is, that is when the forwarder accepted the request;
  and the canonicality verifier is asked only after a valid Safe-aware receipt was produced.\<close>

theorem fork_forward_fail_closed:
  assumes "VerifyForkAndForwardSafeTransaction K ctx proof q backend canonicality req forwarder (log, s) =
      ((d, r, err), log', t)"
  shows "(backend = None \<or> canonicality = None \<or> forwarder = None \<or>
       (\<exists>execute model. backend = Some (execute, model) \<and> model \<noteq> Some ExecutionModelSafeSimulateTxV1) \<longrightarrow>
         sg_Decision d = DecisionBlock \<and> err = Some ErrSigningBlocked \<and> log' = log \<and> t = s) \<and>
     (sg_Decision d = DecisionAllow \<longleftrightarrow> err = None) \<and>
     (err = None \<longrightarrow> log' = log @ [req]) \<and> (log' = log \<or> log' = log @ [req]) \<and>
     (t \<noteq> s \<longrightarrow> ValidVerifiedForkReceipt r \<and> fe_ExecutionModel (vr_Execution r) = ExecutionModelSafeSimulateTxV1)"
  using assms AuthorizeSafeForward_native [of "proof" req K]
  by (cases "ctx BeforeForward")
     (auto simp: VerifyForkAndForwardSafeTransaction_def Let_def VerifyAndForward_cases blockedForkSigning_def
      split: option.splits prod.splits sum.splits if_splits, metis)

theorem fork_forward_fail_closed_witness:
  "(let ((d, r, err), log', t) = VerifyForkAndForwardSafeTransaction Sum256 background (sample_fork_proof Sum256)
      sample_verified_request (Some (\<lambda>_ _. (sample_backend_result, None), Some ExecutionModelEVMDirectCallV03))
      (Some sample_verify) (sample_forward Sum256) (Some (\<lambda>_ _. None)) ([], ())
    in sg_Decision d = DecisionBlock \<and> log' = [])"
proof -
  obtain d r err log' t where run: "VerifyForkAndForwardSafeTransaction Sum256 background (sample_fork_proof Sum256)
      sample_verified_request (Some (\<lambda>_ _. (sample_backend_result, None), Some ExecutionModelEVMDirectCallV03))
      (Some sample_verify) (sample_forward Sum256) (Some (\<lambda>_ _. None)) ([], ()) = ((d, r, err), log', t)"
    by (metis prod.exhaust)
  have "ExecutionModelEVMDirectCallV03 \<noteq> ExecutionModelSafeSimulateTxV1"
    by (simp add: ExecutionModelEVMDirectCallV03_def ExecutionModelSafeSimulateTxV1_def)
  then have "sg_Decision d = DecisionBlock \<and> log' = []"
    using fork_forward_fail_closed [OF run] by blast
  then show ?thesis by (simp add: run)
qed

end
