(* ===== verification/Invariant_Eval.thy ===== *)
theory Invariant_Eval
  imports Fork_Binding Evm_Rpc
begin

text \<open>
  \<^verbatim>\<open>internal/executionproof/invariant_evaluator_v03.go\<close>: approved invariant policies, their
  digests, the static registry that resolves a digest to a policy, and the evaluator that reads
  the post-execution state through the RPC client and reports one check per invariant.

  The registry's Go maps are partial maps from the digest text. The evaluator's registry is the
  interface \<^verbatim>\<open>InvariantPolicyRegistry\<close>: a record of its five methods. \<^verbatim>\<open>policyDigest\<close> cannot
  fail on these types, so it is the digest itself.
\<close>

subsection \<open>Policies\<close>

record ProxyCodehashPolicy =
  pc_Address :: string
  pc_ExpectedCodeSHA256 :: string

record PrivilegedRolePolicy =
  pr_Contract :: string
  pr_StorageSlot :: string
  pr_ExpectedValue :: string

record TreasuryBoundPolicy =
  tb_Target :: string
  tb_MaxValueWei :: string

record BridgeReadProbe =
  bp_Contract :: string
  bp_DataHex :: string

record BridgeReservePolicy =
  br_ReserveProbe :: BridgeReadProbe
  br_SupplyProbe :: BridgeReadProbe

record AssetConservationPolicy =
  ac_SupplyProbe :: BridgeReadProbe
  ac_AccountedProbes :: "BridgeReadProbe list"

definition json_ProxyCodehashPolicy :: "ProxyCodehashPolicy \<Rightarrow> json" where
  "json_ProxyCodehashPolicy p = JObj
    [(''address'', JStr (pc_Address p)), (''expected_code_sha256'', JStr (pc_ExpectedCodeSHA256 p))]"

definition json_PrivilegedRolePolicy :: "PrivilegedRolePolicy \<Rightarrow> json" where
  "json_PrivilegedRolePolicy p = JObj
    [(''contract'', JStr (pr_Contract p)), (''storage_slot'', JStr (pr_StorageSlot p)),
     (''expected_value'', JStr (pr_ExpectedValue p))]"

definition json_TreasuryBoundPolicy :: "TreasuryBoundPolicy \<Rightarrow> json" where
  "json_TreasuryBoundPolicy p = JObj
    [(''target'', JStr (tb_Target p)), (''max_value_wei'', JStr (tb_MaxValueWei p))]"

definition json_BridgeReadProbe :: "BridgeReadProbe \<Rightarrow> json" where
  "json_BridgeReadProbe p = JObj [(''contract'', JStr (bp_Contract p)), (''data'', JStr (bp_DataHex p))]"

definition json_BridgeReservePolicy :: "BridgeReservePolicy \<Rightarrow> json" where
  "json_BridgeReservePolicy p = JObj
    [(''reserve_probe'', json_BridgeReadProbe (br_ReserveProbe p)),
     (''supply_probe'', json_BridgeReadProbe (br_SupplyProbe p))]"

definition json_AssetConservationPolicy :: "AssetConservationPolicy \<Rightarrow> json" where
  "json_AssetConservationPolicy p = JObj
    [(''supply_probe'', json_BridgeReadProbe (ac_SupplyProbe p)),
     (''accounted_probes'', JArr (map json_BridgeReadProbe (ac_AccountedProbes p)))]"

text \<open>The canonical form of a policy, the common first half of its resolver and its digest.\<close>

definition canonicalProxyCodehash :: "ProxyCodehashPolicy \<Rightarrow> ProxyCodehashPolicy option" where
  "canonicalProxyCodehash p =
     (case canonicalEVMAddress (pc_Address p) of
        None \<Rightarrow> None
      | Some a \<Rightarrow>
          if \<not> validSHA256 (pc_ExpectedCodeSHA256 p) then None
          else Some (p\<lparr>pc_Address := a, pc_ExpectedCodeSHA256 := ToLower (TrimSpace (pc_ExpectedCodeSHA256 p))\<rparr>))"

definition canonicalPrivilegedRole :: "PrivilegedRolePolicy \<Rightarrow> PrivilegedRolePolicy option" where
  "canonicalPrivilegedRole p =
     (case canonicalEVMAddress (pr_Contract p) of
        None \<Rightarrow> None
      | Some a \<Rightarrow>
          if \<not> validHex32 (pr_StorageSlot p) \<or> \<not> validHex32 (pr_ExpectedValue p) then None
          else Some (p\<lparr>pr_Contract := a, pr_StorageSlot := normalizeHex32 (pr_StorageSlot p),
                       pr_ExpectedValue := normalizeHex32 (pr_ExpectedValue p)\<rparr>))"

definition canonicalTreasuryBound :: "TreasuryBoundPolicy \<Rightarrow> TreasuryBoundPolicy option" where
  "canonicalTreasuryBound p =
     (case (canonicalEVMAddress (tb_Target p), parseHexUint256 (tb_MaxValueWei p)) of
        (Some a, Some m) \<Rightarrow> Some (p\<lparr>tb_Target := a, tb_MaxValueWei := ''0x'' @ int_text 16 m\<rparr>)
      | _ \<Rightarrow> None)"

definition canonicalBridgeReadProbe :: "BridgeReadProbe \<Rightarrow> BridgeReadProbe option" where
  "canonicalBridgeReadProbe p =
     (case (canonicalEVMAddress (bp_Contract p), canonicalHexBytes (bp_DataHex p)) of
        (Some a, Some d) \<Rightarrow> if d = ''0x'' then None else Some \<lparr>bp_Contract = a, bp_DataHex = d\<rparr>
      | _ \<Rightarrow> None)"

definition canonicalBridgeReserve :: "BridgeReservePolicy \<Rightarrow> BridgeReservePolicy option" where
  "canonicalBridgeReserve p =
     (case (canonicalBridgeReadProbe (br_ReserveProbe p), canonicalBridgeReadProbe (br_SupplyProbe p)) of
        (Some a, Some b) \<Rightarrow> Some (p\<lparr>br_ReserveProbe := a, br_SupplyProbe := b\<rparr>)
      | _ \<Rightarrow> None)"

fun canonicalProbes :: "BridgeReadProbe list \<Rightarrow> BridgeReadProbe list option" where
  "canonicalProbes [] = Some []"
| "canonicalProbes (x # xs) =
     (case canonicalBridgeReadProbe x of None \<Rightarrow> None | Some c \<Rightarrow> map_option (\<lambda>r. c # r) (canonicalProbes xs))"

definition canonicalAssetConservation :: "AssetConservationPolicy \<Rightarrow> AssetConservationPolicy option" where
  "canonicalAssetConservation p =
     (if length (ac_AccountedProbes p) = 0 then None
      else (case canonicalBridgeReadProbe (ac_SupplyProbe p) of
          None \<Rightarrow> None
        | Some s \<Rightarrow>
            (case canonicalProbes (ac_AccountedProbes p) of
               None \<Rightarrow> None
             | Some out \<Rightarrow> Some (p\<lparr>ac_SupplyProbe := s, ac_AccountedProbes := out\<rparr>))))"

definition ProxyCodehashPolicyDigest :: "ProxyCodehashPolicy \<Rightarrow> string option" where
  "ProxyCodehashPolicyDigest p = map_option (\<lambda>c. json_digest (json_ProxyCodehashPolicy c)) (canonicalProxyCodehash p)"

definition PrivilegedRolePolicyDigest :: "PrivilegedRolePolicy \<Rightarrow> string option" where
  "PrivilegedRolePolicyDigest p = map_option (\<lambda>c. json_digest (json_PrivilegedRolePolicy c)) (canonicalPrivilegedRole p)"

definition TreasuryBoundPolicyDigest :: "TreasuryBoundPolicy \<Rightarrow> string option" where
  "TreasuryBoundPolicyDigest p = map_option (\<lambda>c. json_digest (json_TreasuryBoundPolicy c)) (canonicalTreasuryBound p)"

definition BridgeReservePolicyDigest :: "BridgeReservePolicy \<Rightarrow> string option" where
  "BridgeReservePolicyDigest p = map_option (\<lambda>c. json_digest (json_BridgeReservePolicy c)) (canonicalBridgeReserve p)"

definition AssetConservationPolicyDigest :: "AssetConservationPolicy \<Rightarrow> string option" where
  "AssetConservationPolicyDigest p =
     map_option (\<lambda>c. json_digest (json_AssetConservationPolicy c)) (canonicalAssetConservation p)"

subsection \<open>Registries\<close>

record InvariantPolicyRegistry =
  ResolveProxyCodehash :: "string \<Rightarrow> ProxyCodehashPolicy option"
  ResolvePrivilegedRole :: "string \<Rightarrow> PrivilegedRolePolicy option"
  ResolveTreasuryBound :: "string \<Rightarrow> TreasuryBoundPolicy option"
  ResolveBridgeReserve :: "string \<Rightarrow> BridgeReservePolicy option"
  ResolveAssetConservation :: "string \<Rightarrow> AssetConservationPolicy option"

record StaticInvariantPolicyRegistry =
  sr_ProxyCodehash :: "string \<rightharpoonup> ProxyCodehashPolicy"
  sr_PrivilegedRole :: "string \<rightharpoonup> PrivilegedRolePolicy"
  sr_TreasuryBound :: "string \<rightharpoonup> TreasuryBoundPolicy"
  sr_BridgeReserve :: "string \<rightharpoonup> BridgeReservePolicy"
  sr_AssetConservation :: "string \<rightharpoonup> AssetConservationPolicy"

definition resolve :: "(string \<rightharpoonup> 'p) \<Rightarrow> ('p \<Rightarrow> 'p option) \<Rightarrow> string \<Rightarrow> 'p option" where
  "resolve policies canonical d =
     (case policies (ToLower (TrimSpace d)) of None \<Rightarrow> None | Some p \<Rightarrow> canonical p)"

definition static_registry :: "StaticInvariantPolicyRegistry \<Rightarrow> InvariantPolicyRegistry" where
  "static_registry r =
     \<lparr>ResolveProxyCodehash = resolve (sr_ProxyCodehash r) canonicalProxyCodehash,
      ResolvePrivilegedRole = resolve (sr_PrivilegedRole r) canonicalPrivilegedRole,
      ResolveTreasuryBound = resolve (sr_TreasuryBound r) canonicalTreasuryBound,
      ResolveBridgeReserve = resolve (sr_BridgeReserve r) canonicalBridgeReserve,
      ResolveAssetConservation = resolve (sr_AssetConservation r) canonicalAssetConservation\<rparr>"

subsection \<open>The evaluator\<close>

definition callUint256 :: "'s transport \<Rightarrow> string \<Rightarrow> BridgeReadProbe \<Rightarrow> ('s, int) io" where
  "callUint256 http url p =
     bindIO (rpc_call http url ''eth_call''
       [JObj [(''data'', JStr (bp_DataHex p)), (''to'', JStr (bp_Contract p))], JStr ''latest''] string_result) (\<lambda>r.
     fromOption (ErrMsg ''invalid uint256 eth_call result'') (parseHexUint256 r))"

definition proxyCodehashEvidenceDigest :: "string \<Rightarrow> string \<Rightarrow> string" where
  "proxyCodehashEvidenceDigest a observed =
     json_digest (JObj [(''address'', JStr a), (''observed_code_sha256'', JStr (ToLower observed))])"

definition roleEvidence :: "string \<Rightarrow> string \<Rightarrow> string \<Rightarrow> json" where
  "roleEvidence contract slot observed = JObj
     [(''contract'', JStr contract), (''storage_slot'', JStr slot), (''observed_value'', JStr observed)]"

definition treasuryEvidence :: "string \<Rightarrow> int \<Rightarrow> int \<Rightarrow> json" where
  "treasuryEvidence target v m = JObj
     [(''target'', JStr target), (''value_wei'', JStr (''0x'' @ int_text 16 v)),
      (''max_value_wei'', JStr (''0x'' @ int_text 16 m))]"

definition reserveEvidence :: "int \<Rightarrow> int \<Rightarrow> json" where
  "reserveEvidence r s = JObj
     [(''reserve'', JStr (''0x'' @ int_text 16 r)), (''supply'', JStr (''0x'' @ int_text 16 s))]"

definition conservationEvidence :: "int \<Rightarrow> int list \<Rightarrow> int \<Rightarrow> json" where
  "conservationEvidence supply observed acc = JObj
     [(''supply'', JStr (''0x'' @ int_text 16 supply)),
      (''accounted'', JArr (map (\<lambda>v. JStr (''0x'' @ int_text 16 v)) observed)),
      (''accounted_sum'', JStr (''0x'' @ int_text 16 acc))]"

definition invariant_check :: "ApprovedInvariantDefinition \<Rightarrow> InvariantClass \<Rightarrow> bool \<Rightarrow> string \<Rightarrow> InvariantCheck" where
  "invariant_check d cls passed evidence =
     \<lparr>ic_ID = ai_ID d, ic_Class = cls, ic_Passed = passed, ic_Evidence = evidence\<rparr>"

definition evaluateProxyCodehash ::
  "'s transport \<Rightarrow> InvariantPolicyRegistry \<Rightarrow> string \<Rightarrow> ApprovedInvariantDefinition \<Rightarrow> ('s, InvariantCheck) io" where
  "evaluateProxyCodehash http e url d =
     bindIO (fromOption (ErrMsg ''approved proxy codehash policy not found'')
               (ResolveProxyCodehash e (ai_ParametersSHA256 d))) (\<lambda>p.
     bindIO (rpc_call http url ''eth_getCode'' [JStr (pc_Address p), JStr ''latest''] string_result) (\<lambda>h.
     bindIO (fromOption (ErrMsg ''invalid eth_getCode result'') (decodeCanonicalHexBytes h)) (\<lambda>b.
     returnIO (let observed = sha256Hex b in
       invariant_check d InvariantProxyCodehash (equalDigest observed (pc_ExpectedCodeSHA256 p))
         (proxyCodehashEvidenceDigest (pc_Address p) observed)))))"

definition evaluatePrivilegedRole ::
  "'s transport \<Rightarrow> InvariantPolicyRegistry \<Rightarrow> string \<Rightarrow> ApprovedInvariantDefinition \<Rightarrow> ('s, InvariantCheck) io" where
  "evaluatePrivilegedRole http e url d =
     bindIO (fromOption (ErrMsg ''approved privileged-role policy not found'')
               (ResolvePrivilegedRole e (ai_ParametersSHA256 d))) (\<lambda>p.
     bindIO (rpc_call http url ''eth_getStorageAt''
               [JStr (pr_Contract p), JStr (pr_StorageSlot p), JStr ''latest''] string_result) (\<lambda>observed.
     if \<not> validHex32 observed then raiseIO (ErrMsg ''invalid eth_getStorageAt result'')
     else returnIO (let observed = normalizeHex32 observed in
       invariant_check d InvariantPrivilegedRole (equalHex32 observed (pr_ExpectedValue p))
         (json_digest (roleEvidence (pr_Contract p) (pr_StorageSlot p) observed)))))"

definition evaluateTreasuryBound ::
  "InvariantPolicyRegistry \<Rightarrow> ApprovedInvariantDefinition \<Rightarrow> EVMPayload \<Rightarrow> ('s, InvariantCheck) io" where
  "evaluateTreasuryBound e d payload =
     bindIO (fromOption (ErrMsg ''approved treasury-bound policy not found'')
               (ResolveTreasuryBound e (ai_ParametersSHA256 d))) (\<lambda>p.
     bindIO (fromOption (ErrMsg ''treasury target mismatch'') (canonicalEVMPayload payload)) (\<lambda>x.
     if \<not> equalAddress (ep_To x) (tb_Target p) then raiseIO (ErrMsg ''treasury target mismatch'')
     else (case (parseHexUint256 (ep_ValueHex x), parseHexUint256 (tb_MaxValueWei p)) of
         (Some v, Some m) \<Rightarrow>
           returnIO (invariant_check d InvariantTreasuryBound (v \<le> m)
             (json_digest (treasuryEvidence (ep_To x) v m)))
       | _ \<Rightarrow> raiseIO (ErrMsg ''invalid treasury value policy''))))"

definition evaluateBridgeReserve ::
  "'s transport \<Rightarrow> InvariantPolicyRegistry \<Rightarrow> string \<Rightarrow> ApprovedInvariantDefinition \<Rightarrow> ('s, InvariantCheck) io" where
  "evaluateBridgeReserve http e url d =
     bindIO (fromOption (ErrMsg ''approved bridge reserve policy not found'')
               (ResolveBridgeReserve e (ai_ParametersSHA256 d))) (\<lambda>p.
     bindIO (mapError (ErrWrap ''reserve probe'') (callUint256 http url (br_ReserveProbe p))) (\<lambda>r.
     bindIO (mapError (ErrWrap ''supply probe'') (callUint256 http url (br_SupplyProbe p))) (\<lambda>s.
     returnIO (invariant_check d InvariantBridgeReserve (s \<le> r) (json_digest (reserveEvidence r s))))))"

fun readProbes :: "'s transport \<Rightarrow> string \<Rightarrow> BridgeReadProbe list \<Rightarrow> nat \<Rightarrow> int \<Rightarrow> int list \<Rightarrow> ('s, int \<times> int list) io" where
  "readProbes http url [] i acc observed = returnIO (acc, observed)"
| "readProbes http url (x # xs) i acc observed =
     bindIO (mapError (ErrWrap (''accounted probe '' @ show_nat i)) (callUint256 http url x)) (\<lambda>v.
     readProbes http url xs (Suc i) (acc + v) (observed @ [v]))"

definition evaluateAssetConservation ::
  "'s transport \<Rightarrow> InvariantPolicyRegistry \<Rightarrow> string \<Rightarrow> ApprovedInvariantDefinition \<Rightarrow> ('s, InvariantCheck) io" where
  "evaluateAssetConservation http e url d =
     bindIO (fromOption (ErrMsg ''approved asset-conservation policy not found'')
               (ResolveAssetConservation e (ai_ParametersSHA256 d))) (\<lambda>p.
     bindIO (mapError (ErrWrap ''supply probe'') (callUint256 http url (ac_SupplyProbe p))) (\<lambda>supply.
     bindIO (readProbes http url (ac_AccountedProbes p) 0 0 []) (\<lambda>(acc, observed).
     returnIO (invariant_check d InvariantAssetConservation (acc = supply)
       (json_digest (conservationEvidence supply observed acc))))))"

definition evaluate_one ::
  "'s transport \<Rightarrow> InvariantPolicyRegistry \<Rightarrow> string \<Rightarrow> EVMPayload \<Rightarrow> ApprovedInvariantDefinition \<Rightarrow>
   ('s, InvariantCheck) io" where
  "evaluate_one http e url payload d =
     (let wrap = mapError (ErrWrap (''invariant '' @ ai_ID d)) in
      if ai_Class d = InvariantProxyCodehash then wrap (evaluateProxyCodehash http e url d)
      else if ai_Class d = InvariantPrivilegedRole then wrap (evaluatePrivilegedRole http e url d)
      else if ai_Class d = InvariantTreasuryBound then wrap (evaluateTreasuryBound e d payload)
      else if ai_Class d = InvariantBridgeReserve then wrap (evaluateBridgeReserve http e url d)
      else if ai_Class d = InvariantAssetConservation then wrap (evaluateAssetConservation http e url d)
      else raiseIO (ErrMsg (''invariant '' @ ai_ID d @ '' class '' @ ai_Class d @
        '' is not implemented by policy-bound evaluator'')))"

fun evaluate_all ::
  "'s transport \<Rightarrow> InvariantPolicyRegistry \<Rightarrow> string \<Rightarrow> EVMPayload \<Rightarrow> ApprovedInvariantDefinition list \<Rightarrow>
   InvariantCheck list \<Rightarrow> ('s, InvariantCheck list) io" where
  "evaluate_all http e url payload [] checks = returnIO checks"
| "evaluate_all http e url payload (d # ds) checks =
     bindIO (evaluate_one http e url payload d) (\<lambda>ch. evaluate_all http e url payload ds (checks @ [ch]))"

definition EvaluatePostState ::
  "'s transport \<Rightarrow> InvariantPolicyRegistry option \<Rightarrow> string \<Rightarrow> PreparedVerifiedForkRequest \<Rightarrow> string \<Rightarrow>
   ('s, InvariantCheck list) io" where
  "EvaluatePostState http registry rpcURL request txHash =
     (case registry of
        None \<Rightarrow> raiseIO (ErrMsg ''invalid invariant evaluator boundary'')
      | Some e \<Rightarrow>
          if TrimSpace rpcURL = [] \<or> \<not> validHex32 txHash
          then raiseIO (ErrMsg ''invalid invariant evaluator boundary'')
          else evaluate_all http e rpcURL (pv_Payload request) (pv_Invariants request) [])"

end
