(* ===== verification/Invariant_Sound.thy ===== *)
theory Invariant_Sound
  imports Invariant_Eval Fork_Receipt
begin

text \<open>
  What the policy-bound evaluator promises: it reports exactly one check per approved invariant,
  a numeric check passes exactly when the numbers the node returned satisfy the policy, and the
  checks it reports are what the simulation gate asks for. \<open>policy_registry\<close> is the contract of
  the registry interface, provided by the static registry.
\<close>

subsection \<open>Canonical policies\<close>

lemma canonicalProxyCodehash_idem: "canonicalProxyCodehash p = Some c \<Longrightarrow> canonicalProxyCodehash c = Some c"
  by (auto simp: canonicalProxyCodehash_def canonicalEVMAddress_idem validSHA256_TrimSpace TrimSpace_ToLower
      split: option.splits if_splits)

lemma canonicalPrivilegedRole_idem: "canonicalPrivilegedRole p = Some c \<Longrightarrow> canonicalPrivilegedRole c = Some c"
  by (auto simp: canonicalPrivilegedRole_def canonicalEVMAddress_idem validHex32_normalizeHex32 normalizeHex32_idem
      split: option.splits if_splits)

lemma parseHexUint256_range: "parseHexUint256 v = Some m \<Longrightarrow> 0 \<le> m \<and> m < 2 ^ 256"
  by (auto simp: parseHexUint256_def Let_def fits_uint256_def split: option.splits if_splits)

lemma parseHexUint256_canonical:
  assumes "parseHexUint256 v = Some m"
  shows "parseHexUint256 (''0x'' @ int_text 16 m) = Some m"
proof -
  from parseHexUint256_range [OF assms] have "nat m < 2 ^ 256" "0 \<le> m" by (simp_all add: nat_less_iff)
  with parseHexUint256_text [of "nat m"] show ?thesis by (simp add: int_text_def)
qed

lemma canonicalTreasuryBound_idem: "canonicalTreasuryBound p = Some c \<Longrightarrow> canonicalTreasuryBound c = Some c"
  using parseHexUint256_canonical
  by (auto simp: canonicalTreasuryBound_def canonicalEVMAddress_idem split: option.splits)

lemma canonicalBridgeReadProbe_idem: "canonicalBridgeReadProbe p = Some c \<Longrightarrow> canonicalBridgeReadProbe c = Some c"
  by (auto simp: canonicalBridgeReadProbe_def canonicalEVMAddress_idem canonicalHexBytes_idem
      split: option.splits if_splits)

lemma canonicalBridgeReserve_idem: "canonicalBridgeReserve p = Some c \<Longrightarrow> canonicalBridgeReserve c = Some c"
  by (auto simp: canonicalBridgeReserve_def canonicalBridgeReadProbe_idem split: option.splits)

lemma canonicalProbes_idem: "canonicalProbes xs = Some ys \<Longrightarrow> canonicalProbes ys = Some ys \<and> length ys = length xs"
  by (induction xs arbitrary: ys) (auto simp: canonicalBridgeReadProbe_idem split: option.splits)

lemma canonicalAssetConservation_idem:
  "canonicalAssetConservation p = Some c \<Longrightarrow> canonicalAssetConservation c = Some c"
  using canonicalProbes_idem
  by (auto simp: canonicalAssetConservation_def canonicalBridgeReadProbe_idem split: option.splits if_splits)
     (metis length_0_conv)+

subsection \<open>The registry contract\<close>

lemma treasury_reads:
  assumes "evaluateTreasuryBound e d payload s = (Inr c, t)"
  obtains p x v m where "ResolveTreasuryBound e (ai_ParametersSHA256 d) = Some p"
    "canonicalEVMPayload payload = Some x" "equalAddress (ep_To x) (tb_Target p)"
    "parseHexUint256 (ep_ValueHex x) = Some v" "parseHexUint256 (tb_MaxValueWei p) = Some m"
    "c = invariant_check d InvariantTreasuryBound (v \<le> m) (json_digest (treasuryEvidence (ep_To x) v m))" "t = s"
proof -
  from assms obtain p x where p: "ResolveTreasuryBound e (ai_ParametersSHA256 d) = Some p"
    "canonicalEVMPayload payload = Some x" "equalAddress (ep_To x) (tb_Target p)"
    and k: "(case (parseHexUint256 (ep_ValueHex x), parseHexUint256 (tb_MaxValueWei p)) of
         (Some v, Some m) \<Rightarrow>
           returnIO (invariant_check d InvariantTreasuryBound (v \<le> m)
             (json_digest (treasuryEvidence (ep_To x) v m)))
       | _ \<Rightarrow> raiseIO (ErrMsg ''invalid treasury value policy'')) s = (Inr c, t)"
    unfolding evaluateTreasuryBound_def by (auto simp: io_Inr)
  from k p that show thesis by (auto split: option.splits)
qed

locale policy_registry =
  fixes e :: InvariantPolicyRegistry
  assumes proxy_canonical: "ResolveProxyCodehash e d = Some p1 \<Longrightarrow> canonicalProxyCodehash p1 = Some p1"
    and role_canonical: "ResolvePrivilegedRole e d = Some p2 \<Longrightarrow> canonicalPrivilegedRole p2 = Some p2"
    and treasury_canonical: "ResolveTreasuryBound e d = Some p3 \<Longrightarrow> canonicalTreasuryBound p3 = Some p3"
    and reserve_canonical: "ResolveBridgeReserve e d = Some p4 \<Longrightarrow> canonicalBridgeReserve p4 = Some p4"
    and conservation_canonical:
      "ResolveAssetConservation e d = Some p5 \<Longrightarrow> canonicalAssetConservation p5 = Some p5"
begin

lemma treasury_policy:
  assumes "ResolveTreasuryBound e d = Some p"
  obtains m where "canonicalEVMAddress (tb_Target p) = Some (tb_Target p)" "0 \<le> m" "m < 2 ^ 256"
    "tb_MaxValueWei p = ''0x'' @ int_text 16 m" "parseHexUint256 (tb_MaxValueWei p) = Some m"
proof -
  from treasury_canonical [OF assms] obtain m where m: "canonicalEVMAddress (tb_Target p) = Some (tb_Target p)"
    "parseHexUint256 (tb_MaxValueWei p) = Some m" "tb_MaxValueWei p = ''0x'' @ int_text 16 m"
    by (cases p) (auto simp: canonicalTreasuryBound_def split: option.splits)
  with that parseHexUint256_range show thesis by blast
qed

text \<open>A treasury check passes exactly when the simulated payload pays the approved target at most the limit.\<close>

lemma treasury_check:
  assumes "evaluateTreasuryBound e d payload s = (Inr c, t)"
  obtains p x v m where "ResolveTreasuryBound e (ai_ParametersSHA256 d) = Some p"
    "canonicalEVMPayload payload = Some x" "ep_To x = tb_Target p"
    "ep_ValueHex x = ''0x'' @ int_text 16 v" "tb_MaxValueWei p = ''0x'' @ int_text 16 m"
    "0 \<le> v" "v < 2 ^ 256" "0 \<le> m" "m < 2 ^ 256" "ic_Passed c \<longleftrightarrow> v \<le> m" "t = s"
proof -
  from assms obtain p x v m where r: "ResolveTreasuryBound e (ai_ParametersSHA256 d) = Some p"
    "canonicalEVMPayload payload = Some x" "equalAddress (ep_To x) (tb_Target p)"
    "parseHexUint256 (ep_ValueHex x) = Some v" "parseHexUint256 (tb_MaxValueWei p) = Some m"
    and "c = invariant_check d InvariantTreasuryBound (v \<le> m) (json_digest (treasuryEvidence (ep_To x) v m))" "t = s"
    by (rule treasury_reads)
  then have c: "ic_Passed c \<longleftrightarrow> v \<le> m" "t = s" by (simp_all add: invariant_check_def)
  from r(1) obtain m' where m: "canonicalEVMAddress (tb_Target p) = Some (tb_Target p)" "0 \<le> m'" "m' < 2 ^ 256"
    "tb_MaxValueWei p = ''0x'' @ int_text 16 m'" "parseHexUint256 (tb_MaxValueWei p) = Some m'"
    by (rule treasury_policy)
  have x: "canonicalEVMPayload x = Some x" using r(2) by (rule canonicalEVMPayload_idem)
  obtain n where n: "ep_ValueHex x = ''0x'' @ nat_text 16 n" "n < 2 ^ 256"
    using x by (auto simp: canonicalEVMPayload_Some elim: canonicalHexQuantity_form)
  then have v: "v = int n" using r(4) parseHexUint256_text [of n] by simp
  have "ep_To x = tb_Target p"
  proof -
    obtain h k where "ep_To x = ''0x'' @ h" "hex_decode h \<noteq> None" "ToLower h = h"
      "tb_Target p = ''0x'' @ k" "hex_decode k \<noteq> None" "ToLower k = k"
      using x m(1) by (auto simp: canonicalEVMPayload_Some elim!: canonicalEVMAddress_form)
    with r(3) show ?thesis
      by (auto simp: equalAddress_def EqualFold_def hex_decode_visible)
  qed
  moreover have "ep_ValueHex x = ''0x'' @ int_text 16 v" using n v by (simp add: int_text_def)
  moreover have "v < 2 ^ 256" using n v by simp
  ultimately show thesis using that r c m v by simp
qed

end

interpretation static_policies: policy_registry "static_registry r" for r
  by unfold_locales
     (auto simp: static_registry_def resolve_def split: option.splits
       intro: canonicalProxyCodehash_idem canonicalPrivilegedRole_idem canonicalTreasuryBound_idem
         canonicalBridgeReserve_idem canonicalAssetConservation_idem)

subsection \<open>Reads of the node\<close>

inductive reads :: "'s transport \<Rightarrow> string \<Rightarrow> BridgeReadProbe list \<Rightarrow> 's \<Rightarrow> int list \<Rightarrow> 's \<Rightarrow> bool"
  for http :: "'s transport" and url :: string where
  reads_Nil: "reads http url [] s [] s"
| reads_Cons: "callUint256 http url x s = (Inr v, u) \<Longrightarrow> reads http url xs u vs t \<Longrightarrow>
    reads http url (x # xs) s (v # vs) t"

inductive_simps reads_Nil_iff [simp]: "reads http url [] s vs t"
inductive_simps reads_Cons_iff: "reads http url (x # xs) s vs t"

lemma callUint256_range: "callUint256 http url x s = (Inr v, t) \<Longrightarrow> 0 \<le> v \<and> v < 2 ^ 256"
  by (auto simp: callUint256_def io_Inr dest: parseHexUint256_range)

lemma reads_range: "reads http url xs s vs t \<Longrightarrow> length vs = length xs \<and> (\<forall>v \<in> set vs. 0 \<le> v \<and> v < 2 ^ 256)"
  by (induction rule: reads.induct) (auto dest: callUint256_range)

lemma readProbes_iff:
  "readProbes http url xs i a os s = (Inr (b, os'), t) \<longleftrightarrow>
     (\<exists>vs. reads http url xs s vs t \<and> b = a + sum_list vs \<and> os' = os @ vs)"
proof (induction xs arbitrary: i a os s)
  case (Cons x xs)
  show ?case
    by (auto simp: io_Inr Cons.IH reads_Cons_iff; fastforce)
qed auto

lemma conservation_check:
  assumes "evaluateAssetConservation http e url d s = (Inr c, t)"
  obtains p amount vs u where "ResolveAssetConservation e (ai_ParametersSHA256 d) = Some p"
    "callUint256 http url (ac_SupplyProbe p) s = (Inr amount, u)" "reads http url (ac_AccountedProbes p) u vs t"
    "c = invariant_check d InvariantAssetConservation (sum_list vs = amount)
       (json_digest (conservationEvidence amount vs (sum_list vs)))"
  using assms unfolding evaluateAssetConservation_def
  by (auto simp: io_Inr readProbes_iff split: prod.splits)

lemma reserve_check:
  assumes "evaluateBridgeReserve http e url d s = (Inr c, t)"
  obtains p r amount where "ResolveBridgeReserve e (ai_ParametersSHA256 d) = Some p"
    "reads http url [br_ReserveProbe p, br_SupplyProbe p] s [r, amount] t"
    "c = invariant_check d InvariantBridgeReserve (amount \<le> r) (json_digest (reserveEvidence r amount))"
  using assms unfolding evaluateBridgeReserve_def
  by (auto simp: io_Inr reads_Cons_iff)

subsection \<open>One check per invariant\<close>

lemma evaluate_one_report:
  assumes "evaluate_one http e url payload d s = (Inr c, t)"
  shows "ic_ID c = ai_ID d \<and> ic_Class c = ai_Class d \<and> validSHA256 (ic_Evidence c)"
proof -
  have "ic_ID c = ai_ID d \<and> ic_Class c = InvariantProxyCodehash \<and> validSHA256 (ic_Evidence c)"
    if "evaluateProxyCodehash http e url d s = (Inr c, t)"
    using that by (auto simp: evaluateProxyCodehash_def io_Inr invariant_check_def proxyCodehashEvidenceDigest_def Let_def)
  moreover have "ic_ID c = ai_ID d \<and> ic_Class c = InvariantPrivilegedRole \<and> validSHA256 (ic_Evidence c)"
    if "evaluatePrivilegedRole http e url d s = (Inr c, t)"
    using that by (auto simp: evaluatePrivilegedRole_def io_Inr invariant_check_def Let_def)
  moreover have "ic_ID c = ai_ID d \<and> ic_Class c = InvariantTreasuryBound \<and> validSHA256 (ic_Evidence c)"
    if "evaluateTreasuryBound e d payload s = (Inr c, t)"
    using that by (elim treasury_reads) (simp add: invariant_check_def)
  moreover have "ic_ID c = ai_ID d \<and> ic_Class c = InvariantBridgeReserve \<and> validSHA256 (ic_Evidence c)"
    if "evaluateBridgeReserve http e url d s = (Inr c, t)"
    using that by (elim reserve_check) (simp add: invariant_check_def)
  moreover have "ic_ID c = ai_ID d \<and> ic_Class c = InvariantAssetConservation \<and> validSHA256 (ic_Evidence c)"
    if "evaluateAssetConservation http e url d s = (Inr c, t)"
    using that by (elim conservation_check) (simp add: invariant_check_def)
  ultimately show ?thesis
    using assms by (auto simp: evaluate_one_def Let_def io_Inr split: if_splits)
qed

lemma evaluate_all_report:
  assumes "evaluate_all http e url payload ds acc s = (Inr cs, t)"
  shows "\<exists>new. cs = acc @ new \<and> map ic_ID new = map ai_ID ds \<and> map ic_Class new = map ai_Class ds \<and>
    (\<forall>c \<in> set new. validSHA256 (ic_Evidence c))"
  using assms
proof (induction ds arbitrary: acc s)
  case (Cons d ds)
  then obtain c u where c: "evaluate_one http e url payload d s = (Inr c, u)"
    "evaluate_all http e url payload ds (acc @ [c]) u = (Inr cs, t)" by (auto simp: io_Inr)
  from Cons.IH [OF c(2)] obtain new where "cs = (acc @ [c]) @ new" "map ic_ID new = map ai_ID ds"
    "map ic_Class new = map ai_Class ds" "\<forall>c \<in> set new. validSHA256 (ic_Evidence c)" by blast
  with evaluate_one_report [OF c(1)] show ?case by (intro exI [of _ "c # new"]) simp
qed simp

lemma EvaluatePostState_report:
  assumes "EvaluatePostState http registry url p txHash s = (Inr cs, t)"
  shows "map ic_ID cs = map ai_ID (pv_Invariants p) \<and> map ic_Class cs = map ai_Class (pv_Invariants p) \<and>
    (\<forall>c \<in> set cs. validSHA256 (ic_Evidence c)) \<and> TrimSpace url \<noteq> [] \<and> validHex32 txHash \<and> registry \<noteq> None"
  using assms by (auto simp: EvaluatePostState_def split: option.splits if_splits dest!: evaluate_all_report)

subsection \<open>Policy digests\<close>

lemma json_BridgeReadProbe_inject: "json_BridgeReadProbe a = json_BridgeReadProbe b \<Longrightarrow> a = b"
  by (cases a; cases b) (simp add: json_BridgeReadProbe_def)

interpretation conservation_binding:
  digest_binding json_AssetConservationPolicy "\<lambda>p. json_ascii (json_AssetConservationPolicy p)"
proof
  fix a b assume "json_AssetConservationPolicy a = json_AssetConservationPolicy b"
  then show "a = b"
    by (cases a; cases b)
       (auto simp: json_AssetConservationPolicy_def inj_map_eq_map [OF injI [OF json_BridgeReadProbe_inject]]
          dest: json_BridgeReadProbe_inject)
qed simp

lemma canonicalBridgeReadProbe_ascii:
  assumes "canonicalBridgeReadProbe p = Some c"
  shows "json_ascii (json_BridgeReadProbe c)"
proof -
  have hex: "ascii (''0x'' @ h)" if "hex_decode h \<noteq> None" for h
    using that by (auto intro!: hex_text_ascii dest: hex_decode_visible)
  from assms have "canonicalEVMAddress (bp_Contract p) = Some (bp_Contract c)"
    "canonicalHexBytes (bp_DataHex p) = Some (bp_DataHex c)"
    by (auto simp: canonicalBridgeReadProbe_def split: option.splits if_splits)
  then have "ascii (bp_Contract c)" "ascii (bp_DataHex c)"
    using hex by (metis canonicalEVMAddress_form, metis canonicalHexBytes_form)
  then show ?thesis by (simp add: json_BridgeReadProbe_def)
qed

lemma canonicalAssetConservation_ascii:
  assumes "canonicalAssetConservation p = Some c"
  shows "json_ascii (json_AssetConservationPolicy c)"
proof -
  from assms obtain out where out: "canonicalProbes (ac_AccountedProbes p) = Some out" "ac_AccountedProbes c = out"
    and s: "canonicalBridgeReadProbe (ac_SupplyProbe p) = Some (ac_SupplyProbe c)"
    by (auto simp: canonicalAssetConservation_def split: option.splits if_splits)
  have "list_all json_ascii (map json_BridgeReadProbe out)" if "canonicalProbes xs = Some out" for xs
    using that by (induction xs arbitrary: out)
      (auto simp: canonicalBridgeReadProbe_ascii split: option.splits)
  with out s show ?thesis
    by (auto simp: json_AssetConservationPolicy_def canonicalBridgeReadProbe_ascii)
qed

subsection \<open>A concrete registry\<close>

definition sample_probe :: BridgeReadProbe where
  "sample_probe = \<lparr>bp_Contract = sample_target, bp_DataHex = ''0x'' @ hex_encode ''totalSupply''\<rparr>"

definition sample_registry :: StaticInvariantPolicyRegistry where
  "sample_registry =
     \<lparr>sr_ProxyCodehash = (\<lambda>d. Some \<lparr>pc_Address = sample_target, pc_ExpectedCodeSHA256 = sha256Hex []\<rparr>),
      sr_PrivilegedRole = Map.empty,
      sr_TreasuryBound = (\<lambda>d. Some \<lparr>tb_Target = sample_target, tb_MaxValueWei = ''0x'' @ int_text 16 5\<rparr>),
      sr_BridgeReserve = (\<lambda>d. Some \<lparr>br_ReserveProbe = sample_probe, br_SupplyProbe = sample_probe\<rparr>),
      sr_AssetConservation = (\<lambda>d. Some \<lparr>ac_SupplyProbe = sample_probe, ac_AccountedProbes = [sample_probe]\<rparr>)\<rparr>"

lemma sample_address_canonical: "canonicalEVMAddress sample_target = Some sample_target"
  using sample_payload_canonical by (simp add: canonicalEVMPayload_Some sample_payload_def)

lemma sample_probe_canonical: "canonicalBridgeReadProbe sample_probe = Some sample_probe"
proof -
  have "canonicalHexBytes (''0x'' @ hex_encode ''totalSupply'') = Some (''0x'' @ hex_encode ''totalSupply'')"
    by (simp add: canonicalHexBytes_def del: hex_encode.simps)
  moreover have "hex_encode ''totalSupply'' \<noteq> []" by simp
  ultimately show ?thesis
    by (simp add: canonicalBridgeReadProbe_def sample_probe_def sample_address_canonical del: hex_encode.simps)
qed

lemma sample_registry_resolves:
  "ResolveAssetConservation (static_registry sample_registry) d =
     Some \<lparr>ac_SupplyProbe = sample_probe, ac_AccountedProbes = [sample_probe]\<rparr>"
  "ResolveBridgeReserve (static_registry sample_registry) d =
     Some \<lparr>br_ReserveProbe = sample_probe, br_SupplyProbe = sample_probe\<rparr>"
  "ResolveTreasuryBound (static_registry sample_registry) d =
     Some \<lparr>tb_Target = sample_target, tb_MaxValueWei = ''0x'' @ int_text 16 5\<rparr>"
  "ResolveProxyCodehash (static_registry sample_registry) d =
     Some \<lparr>pc_Address = sample_target, pc_ExpectedCodeSHA256 = sha256Hex []\<rparr>"
  using parseHexUint256_text [of 5]
  by (simp_all add: static_registry_def resolve_def sample_registry_def canonicalAssetConservation_def
      canonicalBridgeReserve_def canonicalTreasuryBound_def canonicalProxyCodehash_def sample_probe_canonical sample_address_canonical int_text_def)

lemma constant_node_uint:
  assumes "ascii answer" "length answer \<le> 1000" "parseHexUint256 answer = Some v"
  shows "callUint256 (constant_node answer) url p s = (Inr v, s)"
  using assms by (simp add: callUint256_def bindIO_def constant_node_call fromOption_def returnIO_def)

lemma empty_answer_zero: "parseHexUint256 ''0x'' = Some 0"
  by (simp add: parseHexUint256_def TrimSpace_all_visible visible_def SetString_def parse_nat_def hex_val_def
      fits_uint256_def)

lemma constant_node_conserves:
  assumes "ascii answer" "length answer \<le> 1000" "parseHexUint256 answer = Some v"
    and "ResolveAssetConservation e (ai_ParametersSHA256 d) = Some p"
  shows "evaluateAssetConservation (constant_node answer) e url d s =
     (let n = int (length (ac_AccountedProbes p)) in
      (Inr (invariant_check d InvariantAssetConservation (n * v = v)
         (json_digest (conservationEvidence v (replicate (length (ac_AccountedProbes p)) v) (n * v)))), s))"
proof -
  have "readProbes (constant_node answer) url xs i a os s =
      (Inr (a + int (length xs) * v, os @ replicate (length xs) v), s)" for xs i a os
    by (induction xs arbitrary: i a os)
       (simp_all add: returnIO_def bindIO_def mapError_def constant_node_uint [OF assms(1-3)] algebra_simps
          replicate_append_same)
  then show ?thesis
    by (simp add: evaluateAssetConservation_def assms(4) fromOption_def bindIO_def mapError_def returnIO_def
        constant_node_uint [OF assms(1-3)] Let_def)
qed

lemma constant_node_code:
  "evaluate_one (constant_node ''0x'') (static_registry sample_registry) url payload (sample_definition i) s =
     (Inr (invariant_check (sample_definition i) InvariantProxyCodehash True
        (proxyCodehashEvidenceDigest sample_target (sha256Hex []))), s)"
proof -
  have "decodeCanonicalHexBytes ''0x'' = Some []"
    by (simp add: decodeCanonicalHexBytes_def TrimSpace_all_visible visible_def)
  moreover have "ai_Class (sample_definition i) = InvariantProxyCodehash" by (simp add: sample_definition_def)
  ultimately show ?thesis
    by (simp add: evaluate_one_def evaluateProxyCodehash_def sample_registry_resolves fromOption_def bindIO_def
        mapError_def returnIO_def constant_node_call)
qed

subsection \<open>Properties\<close>

text \<open>C13: The numeric invariants mean what they say: an asset-conservation check passes exactly when the
  numbers the node returned for the accounted probes, each below \<open>2 ^ 256\<close>, add up to the reported
  supply (over the integers, so the sum cannot wrap); a bridge check passes exactly when the
  reserve covers the supply; a treasury check passes exactly when the canonical payload pays the
  approved target at most the approved amount, and asks the node nothing.\<close>

theorem numeric_invariants_exact:
  "(evaluateAssetConservation http (static_registry r) url d s = (Inr c, t) \<longrightarrow>
      (\<exists>p amount vs u. ResolveAssetConservation (static_registry r) (ai_ParametersSHA256 d) = Some p \<and>
         callUint256 http url (ac_SupplyProbe p) s = (Inr amount, u) \<and>
         reads http url (ac_AccountedProbes p) u vs t \<and> length vs = length (ac_AccountedProbes p) \<and>
         (\<forall>v \<in> set vs. 0 \<le> v \<and> v < 2 ^ 256) \<and> (ic_Passed c \<longleftrightarrow> sum_list vs = amount))) \<and>
   (evaluateBridgeReserve http (static_registry r) url d s = (Inr c, t) \<longrightarrow>
      (\<exists>p reserve amount. ResolveBridgeReserve (static_registry r) (ai_ParametersSHA256 d) = Some p \<and>
         reads http url [br_ReserveProbe p, br_SupplyProbe p] s [reserve, amount] t \<and>
         (ic_Passed c \<longleftrightarrow> amount \<le> reserve))) \<and>
   (evaluateTreasuryBound (static_registry r) d payload s = (Inr c, t) \<longrightarrow>
      (\<exists>p x v m. ResolveTreasuryBound (static_registry r) (ai_ParametersSHA256 d) = Some p \<and>
         canonicalEVMPayload payload = Some x \<and> ep_To x = tb_Target p \<and>
         ep_ValueHex x = ''0x'' @ int_text 16 v \<and> tb_MaxValueWei p = ''0x'' @ int_text 16 m \<and>
         0 \<le> v \<and> 0 \<le> m \<and> t = s \<and> (ic_Passed c \<longleftrightarrow> v \<le> m)))"
proof (intro conjI impI)
  assume "evaluateAssetConservation http (static_registry r) url d s = (Inr c, t)"
  then obtain p amount vs u where a: "ResolveAssetConservation (static_registry r) (ai_ParametersSHA256 d) = Some p"
    "callUint256 http url (ac_SupplyProbe p) s = (Inr amount, u)" "reads http url (ac_AccountedProbes p) u vs t"
    "ic_Passed c \<longleftrightarrow> sum_list vs = amount"
    by (elim conservation_check) (simp add: invariant_check_def)
  with reads_range [OF a(3)] show "\<exists>p amount vs u. ResolveAssetConservation (static_registry r) (ai_ParametersSHA256 d) = Some p \<and>
         callUint256 http url (ac_SupplyProbe p) s = (Inr amount, u) \<and>
         reads http url (ac_AccountedProbes p) u vs t \<and> length vs = length (ac_AccountedProbes p) \<and>
         (\<forall>v \<in> set vs. 0 \<le> v \<and> v < 2 ^ 256) \<and> (ic_Passed c \<longleftrightarrow> sum_list vs = amount)"
    by blast
next
  assume "evaluateBridgeReserve http (static_registry r) url d s = (Inr c, t)"
  then show "\<exists>p reserve amount. ResolveBridgeReserve (static_registry r) (ai_ParametersSHA256 d) = Some p \<and>
         reads http url [br_ReserveProbe p, br_SupplyProbe p] s [reserve, amount] t \<and>
         (ic_Passed c \<longleftrightarrow> amount \<le> reserve)"
    by (elim reserve_check) (auto simp: invariant_check_def)
next
  assume "evaluateTreasuryBound (static_registry r) d payload s = (Inr c, t)"
  then show "\<exists>p x v m. ResolveTreasuryBound (static_registry r) (ai_ParametersSHA256 d) = Some p \<and>
         canonicalEVMPayload payload = Some x \<and> ep_To x = tb_Target p \<and>
         ep_ValueHex x = ''0x'' @ int_text 16 v \<and> tb_MaxValueWei p = ''0x'' @ int_text 16 m \<and>
         0 \<le> v \<and> 0 \<le> m \<and> t = s \<and> (ic_Passed c \<longleftrightarrow> v \<le> m)"
    by (rule static_policies.treasury_check) blast
qed

theorem numeric_invariants_exact_witness:
  "\<exists>c (p :: AssetConservationPolicy) amount vs u. evaluateAssetConservation (constant_node ''5'') (static_registry sample_registry) ''http://node''
        (sample_definition ''a'') () = (Inr c, ()) \<and>
     reads (constant_node ''5'') ''http://node'' (ac_AccountedProbes p) u vs () \<and>
     callUint256 (constant_node ''5'') ''http://node'' (ac_SupplyProbe p) () = (Inr amount, u) \<and>
     ic_Passed c \<and> sum_list vs = amount"
proof -
  have "parseHexUint256 ''5'' = Some 5"
    by (simp add: parseHexUint256_def TrimSpace_all_visible visible_def TrimPrefix_def SetString_def
        parse_nat_def hex_val_def fits_uint256_def)
  from constant_node_conserves [OF _ _ this sample_registry_resolves(1), of "''http://node''" "sample_definition ''a''" "()"]
  have "\<exists>c. evaluateAssetConservation (constant_node ''5'') (static_registry sample_registry) ''http://node''
      (sample_definition ''a'') () = (Inr c, ()) \<and> ic_Passed c"
    by (simp add: invariant_check_def Let_def)
  then obtain c where c: "evaluateAssetConservation (constant_node ''5'') (static_registry sample_registry)
      ''http://node'' (sample_definition ''a'') () = (Inr c, ())" "ic_Passed c" by blast
  from numeric_invariants_exact [THEN conjunct1, rule_format, OF c(1)]
  obtain p amount vs u where "callUint256 (constant_node ''5'') ''http://node'' (ac_SupplyProbe p) () = (Inr amount, u)"
    "reads (constant_node ''5'') ''http://node'' (ac_AccountedProbes (p :: AssetConservationPolicy)) u vs ()"
    "ic_Passed c \<longleftrightarrow> sum_list vs = amount" by blast
  with c show ?thesis by blast
qed

text \<open>The evaluator completes the simulation: when it succeeds on a prepared request it has reported one
  check for each approved invariant, in order, with that invariant's identifier and class and a
  digest as evidence; so, if all of them passed, a backend that reports them together with the
  requested state meets the whole contract of the simulation gate.\<close>

theorem evaluator_completes_simulation:
  assumes "prepareVerifiedForkRequest q = Some p"
    and "EvaluatePostState http registry url p txHash s = (Inr cs, t)"
  shows "map ic_ID cs = map ai_ID (pv_Invariants p) \<and> map ic_Class cs = map ai_Class (pv_Invariants p) \<and>
    (list_all ic_Passed cs \<longrightarrow>
      simulation_spec (pv_Simulation p)
        \<lparr>fb_ChainID = fq_ChainID (pv_Simulation p), fb_ObservedReferenceBlock = fq_ReferenceBlock (pv_Simulation p),
         fb_ObservedReferenceHash = fq_ReferenceBlockHash (pv_Simulation p),
         fb_ObservedPayloadSHA256 = fq_PayloadSHA256 (pv_Simulation p),
         fb_ObservedInvariantSetHash = fq_InvariantSetSHA256 (pv_Simulation p), fb_Checks = Some cs\<rparr>)"
proof -
  note report = EvaluatePostState_report [OF assms(2)]
  have can: "canonicalizeApprovedInvariantDefinitions (vq_Invariants q) = Some (pv_Invariants p)"
    and ids: "fq_RequiredCheckIDs (pv_Simulation p) = map ai_ID (pv_Invariants p)"
    using assms(1) by (simp_all add: prepareVerifiedForkRequest_Some)
  note facts = canonicalDefinitions_facts [OF can]
  have "map (\<lambda>c. TrimSpace (ic_ID c)) cs = map TrimSpace (map ic_ID cs)" by simp
  also have "\<dots> = map TrimSpace (map ai_ID (map normalize_definition (pv_Invariants p)))"
    using report by (simp only: facts(5))
  also have "\<dots> = map ai_ID (pv_Invariants p)"
    by (subst facts(5) [symmetric]) (simp add: normalize_definition_def)
  finally have trim: "map (\<lambda>c. TrimSpace (ic_ID c)) cs = map ai_ID (pv_Invariants p)" .
  have "\<forall>cls \<in> set (map ai_Class (pv_Invariants p)). validInvariantClass cls"
    using can by (auto simp: canonicalDefinitions_Some)
  then have "\<forall>c \<in> set cs. validInvariantClass (ic_Class c)"
    using report by (metis (no_types, lifting) image_eqI list.set_map)
  with trim ids report show ?thesis
    by (auto simp: simulation_spec_def list_all_iff validSHA256_TrimSpace)
qed

theorem evaluator_completes_simulation_witness:
  "\<exists>cs. EvaluatePostState (constant_node ''0x'') (Some (static_registry sample_registry)) ''u'' sample_prepared
       (sha256Hex ''transaction'') () = (Inr cs, ()) \<and>
    simulation_spec (pv_Simulation sample_prepared)
      \<lparr>fb_ChainID = fq_ChainID (pv_Simulation sample_prepared),
       fb_ObservedReferenceBlock = fq_ReferenceBlock (pv_Simulation sample_prepared),
       fb_ObservedReferenceHash = fq_ReferenceBlockHash (pv_Simulation sample_prepared),
       fb_ObservedPayloadSHA256 = fq_PayloadSHA256 (pv_Simulation sample_prepared),
       fb_ObservedInvariantSetHash = fq_InvariantSetSHA256 (pv_Simulation sample_prepared), fb_Checks = Some cs\<rparr>"
proof -
  let ?c = "\<lambda>i. invariant_check (sample_definition i) InvariantProxyCodehash True
    (proxyCodehashEvidenceDigest sample_target (sha256Hex []))"
  have "TrimSpace ''u'' = ''u''" by (simp add: TrimSpace_all_visible visible_def)
  then have run: "EvaluatePostState (constant_node ''0x'') (Some (static_registry sample_registry)) ''u'' sample_prepared
      (sha256Hex ''transaction'') () = (Inr [?c ''a'', ?c ''b''], ())"
    by (simp add: EvaluatePostState_def sample_prepared_def bindIO_def returnIO_def constant_node_code)
  have "list_all ic_Passed [?c ''a'', ?c ''b'']" by (simp add: invariant_check_def)
  with evaluator_completes_simulation [OF sample_prepares run] run show ?thesis by blast
qed

text \<open>C14: A node that answers \<open>0x\<close>, as a node does when the probed address holds no code, is read as the
  number zero, and zero satisfies the numeric invariants: against such answers a bridge-reserve
  check and an asset-conservation check pass for every policy.\<close>

theorem empty_answers_pass:
  assumes "ResolveAssetConservation e (ai_ParametersSHA256 d) = Some p"
    and "ResolveBridgeReserve e (ai_ParametersSHA256 d) = Some b"
  shows "\<exists>c k. evaluateAssetConservation (constant_node ''0x'') e url d s = (Inr c, s) \<and> ic_Passed c \<and>
     evaluateBridgeReserve (constant_node ''0x'') e url d s = (Inr k, s) \<and> ic_Passed k"
proof -
  have z: "callUint256 (constant_node ''0x'') url x s = (Inr 0, s)" for x
    by (rule constant_node_uint) (simp_all add: empty_answer_zero)
  have "\<exists>c. evaluateAssetConservation (constant_node ''0x'') e url d s = (Inr c, s) \<and> ic_Passed c"
    using constant_node_conserves [OF _ _ empty_answer_zero assms(1), of url s]
    by (simp add: invariant_check_def Let_def)
  moreover have "\<exists>k. evaluateBridgeReserve (constant_node ''0x'') e url d s = (Inr k, s) \<and> ic_Passed k"
    by (simp add: evaluateBridgeReserve_def assms(2) fromOption_def bindIO_def mapError_def returnIO_def z
        invariant_check_def)
  ultimately show ?thesis by blast
qed

theorem empty_answers_pass_witness:
  "\<exists>c k. evaluateAssetConservation (constant_node ''0x'') (static_registry sample_registry) ''http://node''
        (sample_definition ''a'') () = (Inr c, ()) \<and> ic_Passed c \<and>
     evaluateBridgeReserve (constant_node ''0x'') (static_registry sample_registry) ''http://node''
        (sample_definition ''a'') () = (Inr k, ()) \<and> ic_Passed k"
  using sample_registry_resolves(1,2) by (rule empty_answers_pass)

text \<open>A policy digest names one accounting policy: two asset-conservation policies with one digest have
  the same canonical supply probe and the same list of accounted probes, unless the encodings are
  a SHA-256 collision; and a digest exists exactly for the policies a registry would resolve.\<close>

theorem policy_digest_identifies:
  "(AssetConservationPolicyDigest p = Some h \<and> AssetConservationPolicyDigest q = Some h \<longrightarrow>
     (\<exists>a b. canonicalAssetConservation p = Some a \<and> canonicalAssetConservation q = Some b \<and>
       (a = b \<or> sha256_collision (json_print (json_AssetConservationPolicy a))
                  (json_print (json_AssetConservationPolicy b))))) \<and>
   (AssetConservationPolicyDigest p \<noteq> None \<longleftrightarrow>
     (\<exists>c. ResolveAssetConservation (static_registry (r\<lparr>sr_AssetConservation := (\<lambda>d. Some p)\<rparr>)) d = Some c))"
  using conservation_binding.binds canonicalAssetConservation_ascii
  by (auto simp: AssetConservationPolicyDigest_def static_registry_def resolve_def)

theorem policy_digest_identifies_witness:
  "(let p = \<lparr>ac_SupplyProbe = sample_probe, ac_AccountedProbes = [sample_probe]\<rparr>;
        q = \<lparr>ac_SupplyProbe = sample_probe\<lparr>bp_Contract := '' '' @ sample_target\<rparr>, ac_AccountedProbes = [sample_probe]\<rparr> in
    p \<noteq> q \<and> AssetConservationPolicyDigest q = AssetConservationPolicyDigest p \<and>
    (\<exists>a b. canonicalAssetConservation p = Some a \<and> canonicalAssetConservation q = Some b \<and>
       (a = b \<or> sha256_collision (json_print (json_AssetConservationPolicy a))
                  (json_print (json_AssetConservationPolicy b)))))"
proof -
  let ?p = "\<lparr>ac_SupplyProbe = sample_probe, ac_AccountedProbes = [sample_probe]\<rparr>"
  let ?q = "\<lparr>ac_SupplyProbe = sample_probe\<lparr>bp_Contract := '' '' @ sample_target\<rparr>, ac_AccountedProbes = [sample_probe]\<rparr>"
  have "TrimSpace ('' '' @ sample_target) = sample_target"
    using TrimSpace_padded(1) [of sample_target] by (simp add: sample_target_def visible_def)
  then have "canonicalEVMAddress ('' '' @ sample_target) = Some sample_target"
    using sample_address_canonical by (simp add: canonicalEVMAddress_def)
  then have "canonicalBridgeReadProbe (sample_probe\<lparr>bp_Contract := '' '' @ sample_target\<rparr>) = Some sample_probe"
    using sample_probe_canonical by (simp add: canonicalBridgeReadProbe_def sample_probe_def split: option.splits if_splits)
  then have q: "canonicalAssetConservation ?q = Some ?p" "canonicalAssetConservation ?p = Some ?p"
    by (simp_all add: canonicalAssetConservation_def sample_probe_canonical)
  then have h: "AssetConservationPolicyDigest ?p = Some (json_digest (json_AssetConservationPolicy ?p))"
    "AssetConservationPolicyDigest ?q = Some (json_digest (json_AssetConservationPolicy ?p))"
    by (simp_all add: AssetConservationPolicyDigest_def)
  have "?p \<noteq> ?q" by (simp add: sample_probe_def sample_target_def)
  with policy_digest_identifies [THEN conjunct1, rule_format, OF conjI [OF h]] h show ?thesis
    by (simp add: Let_def)
qed

end
