(* ===== verification/Go_Time.thy ===== *)
theory Go_Time
  imports Go_Strings "HOL-Library.Signed_Division"
begin

text \<open>
  Signed machine integers, durations and instants.

  An \<^verbatim>\<open>int64\<close> (and \<^verbatim>\<open>int\<close>, which has 64 bits on the deployment target) is a 64-bit word read with
  \<open>sint\<close>. A \<^verbatim>\<open>time.Duration\<close> is an \<^verbatim>\<open>int64\<close> of nanoseconds. A \<^verbatim>\<open>time.Time\<close> is the \<open>int\<close> of
  nanoseconds since the zero time, which \<^verbatim>\<open>IsZero\<close> recognises; \<^verbatim>\<open>time.Time\<close> covers some 292 billion
  years, so that adding a duration to it does not overflow.
\<close>

type_synonym i64 = "64 word"
type_synonym duration = i64
type_synonym instant = int

definition Second :: int where "Second = 1000000000"
definition Minute :: int where "Minute = 60 * Second"
definition Hour :: int where "Hour = 60 * Minute"

lemmas time_units = Second_def Minute_def Hour_def

definition Milliseconds :: "duration \<Rightarrow> i64" where
  "Milliseconds d = word_of_int (sint d sdiv 1000000)"

definition addTime :: "instant \<Rightarrow> duration \<Rightarrow> instant" where
  "addTime t d = t + sint d"

subsection \<open>Signed words\<close>

lemma sint_range: "- (2 ^ 63) \<le> sint (a :: i64)" "sint (a :: i64) < 2 ^ 63"
  using sint_range_size [of a] by (simp_all add: word_size)

lemma sint_add_exact:
  "- (2 ^ 63) \<le> sint a + sint b \<Longrightarrow> sint a + sint b < 2 ^ 63 \<Longrightarrow> sint (a + b :: i64) = sint a + sint b"
  by (simp add: sint_word_ariths signed_take_bit_int_eq_self)

lemma sint_diff_exact:
  "- (2 ^ 63) \<le> sint a - sint b \<Longrightarrow> sint a - sint b < 2 ^ 63 \<Longrightarrow> sint (a - b :: i64) = sint a - sint b"
  by (simp add: sint_word_ariths signed_take_bit_int_eq_self)

lemma sint_of_int_exact: "- (2 ^ 63) \<le> i \<Longrightarrow> i < 2 ^ 63 \<Longrightarrow> sint (word_of_int i :: i64) = i"
  by (simp add: sint_sbintrunc' signed_take_bit_int_eq_self)

lemma Milliseconds_exact:
  assumes "0 \<le> sint d"
  shows "sint (Milliseconds d) = sint d div 1000000"
proof -
  have "sint d div 1000000 \<le> sint d" using zdiv_mono2 [of "sint d" 1 1000000] assms by simp
  moreover have "sint d sdiv 1000000 = sint d div 1000000"
    using assms by (cases "sint d = 0") (simp_all add: signed_divide_int_def)
  ultimately show ?thesis using assms sint_range [of d]
    by (simp add: Milliseconds_def sint_of_int_exact)
qed

end
