(* ===== verification/Evidence.thy ===== *)
theory Evidence
  imports Digests Go_Json_Parse Go_Time
begin

text \<open>
  \<^verbatim>\<open>internal/securityevidence/event_v1.go\<close> and \<^verbatim>\<open>radar_adapter_v1.go\<close>: security evidence
  events, their canonical form, content digest, seal, producer signature and verification.

  Ed25519 is the cryptographic primitive behind the events. The code uses it through
  \<^verbatim>\<open>ed25519.Verify\<close>, \<^verbatim>\<open>ed25519.Sign\<close> and \<^verbatim>\<open>ed25519.NewKeyFromSeed\<close>; they are arguments of the
  definitions (\<open>verify\<close>, \<open>sign\<close>, \<open>newKey\<close>), and nothing is assumed of them except, where a
  round trip is claimed, that a signature made with a key verifies under its public half.

  \<^verbatim>\<open>%q\<close> in an error text is rendered by
  \<open>quoted\<close>, exact for text that needs no escape. Findings are sorted by identifier: the second
  sort key of the code never decides, because repeated identifiers are rejected before.
\<close>

type_synonym EvidenceState = string

definition SchemaVersionV1 :: string where "SchemaVersionV1 = ''koschei.security-evidence/v1''"
definition AuthenticationAlgorithmEd25519V1 :: string where "AuthenticationAlgorithmEd25519V1 = ''ed25519''"

definition StateObserved :: EvidenceState where "StateObserved = ''OBSERVED''"
definition StateVerified :: EvidenceState where "StateVerified = ''VERIFIED''"
definition StateUnavailable :: EvidenceState where "StateUnavailable = ''UNAVAILABLE''"
definition StateNotApplicable :: EvidenceState where "StateNotApplicable = ''NOT_APPLICABLE''"

definition quoted :: "string \<Rightarrow> string" where
  "quoted s = CHR 0x22 # s @ [CHR 0x22]"

subsection \<open>Events\<close>

record Subject =
  su_Chain :: string
  su_Type :: string
  su_ID :: string

record ObservationWindow =
  ow_FromUnixMS :: i64
  ow_ToUnixMS :: i64

record Finding =
  fd_ID :: string
  fd_Kind :: string
  fd_State :: EvidenceState
  fd_Severity :: string
  fd_EvidenceSHA256 :: string
  fd_Summary :: string

record LegacyObservation =
  lo_Grade :: string
  lo_Score :: "i64 option"

record EventAuthentication =
  au_Algorithm :: string
  au_Signature :: string

record Event =
  sev_SchemaVersion :: string
  sev_Producer :: string
  sev_Subject :: Subject
  sev_Window :: ObservationWindow
  sev_SourceDigests :: "string list"
  sev_Findings :: "Finding list"
  sev_Legacy :: "LegacyObservation option"
  sev_Authentication :: "EventAuthentication option"
  sev_EventSHA256 :: string

text \<open>The JSON form. Only canonical events are encoded; their slices are never nil.\<close>

definition json_i64 :: "i64 \<Rightarrow> json" where
  "json_i64 w = JNum (sint w)"

definition omit_empty :: "string \<Rightarrow> string \<Rightarrow> (string \<times> json) list" where
  "omit_empty name s = (if s = [] then [] else [(name, JStr s)])"

definition omit_nil :: "string \<Rightarrow> ('a \<Rightarrow> json) \<Rightarrow> 'a option \<Rightarrow> (string \<times> json) list" where
  "omit_nil name f x = (case x of None \<Rightarrow> [] | Some y \<Rightarrow> [(name, f y)])"

definition json_Subject :: "Subject \<Rightarrow> json" where
  "json_Subject s = JObj [(''chain'', JStr (su_Chain s)), (''type'', JStr (su_Type s)), (''id'', JStr (su_ID s))]"

definition json_ObservationWindow :: "ObservationWindow \<Rightarrow> json" where
  "json_ObservationWindow w = JObj
    [(''from_unix_ms'', json_i64 (ow_FromUnixMS w)), (''to_unix_ms'', json_i64 (ow_ToUnixMS w))]"

definition json_Finding :: "Finding \<Rightarrow> json" where
  "json_Finding f = JObj
    ([(''id'', JStr (fd_ID f)), (''kind'', JStr (fd_Kind f)), (''state'', JStr (fd_State f))] @
     omit_empty ''severity'' (fd_Severity f) @ omit_empty ''evidence_sha256'' (fd_EvidenceSHA256 f) @
     omit_empty ''summary'' (fd_Summary f))"

definition json_LegacyObservation :: "LegacyObservation \<Rightarrow> json" where
  "json_LegacyObservation l = JObj (omit_empty ''grade'' (lo_Grade l) @ omit_nil ''score'' json_i64 (lo_Score l))"

definition json_EventAuthentication :: "EventAuthentication \<Rightarrow> json" where
  "json_EventAuthentication a = JObj
    [(''algorithm'', JStr (au_Algorithm a)), (''signature'', JStr (au_Signature a))]"

definition json_Event :: "Event \<Rightarrow> json" where
  "json_Event e = JObj
    ([(''schema_version'', JStr (sev_SchemaVersion e)), (''producer'', JStr (sev_Producer e)),
      (''subject'', json_Subject (sev_Subject e)), (''window'', json_ObservationWindow (sev_Window e))] @
     (if sev_SourceDigests e = [] then []
      else [(''source_digests_sha256'', JArr (map JStr (sev_SourceDigests e)))]) @
     [(''findings'', JArr (map json_Finding (sev_Findings e)))] @
     omit_nil ''legacy_observation'' json_LegacyObservation (sev_Legacy e) @
     omit_nil ''authentication'' json_EventAuthentication (sev_Authentication e) @
     [(''event_sha256'', JStr (sev_EventSHA256 e))])"

subsection \<open>Canonical form\<close>

definition ed25519_SignatureSize :: nat where "ed25519_SignatureSize = 64"
definition ed25519_PublicKeySize :: nat where "ed25519_PublicKeySize = 32"
definition ed25519_SeedSize :: nat where "ed25519_SeedSize = 32"
definition ed25519_PrivateKeySize :: nat where "ed25519_PrivateKeySize = 64"

definition decodeCanonicalBase64URLV1 :: "string \<Rightarrow> nat \<Rightarrow> go_error + string" where
  "decodeCanonicalBase64URLV1 value sz =
     (case b64_decode value of
        None \<Rightarrow> Inl (ErrMsg ''value is not canonical base64url with the required length'')
      | Some decoded \<Rightarrow>
          if length decoded \<noteq> sz \<or> b64_encode decoded \<noteq> value
          then Inl (ErrMsg ''value is not canonical base64url with the required length'')
          else Inr decoded)"

fun canonSources :: "string list \<Rightarrow> string list \<Rightarrow> go_error + string list" where
  "canonSources [] seen = Inr (sort seen)"
| "canonSources (d # ds) seen =
     (let d = ToLower (TrimSpace d) in
      if \<not> validSHA256 d then Inl (ErrMsg (''invalid source digest '' @ quoted d))
      else if d \<in> set seen then canonSources ds seen
      else canonSources ds (seen @ [d]))"

definition normalize_finding :: "Finding \<Rightarrow> Finding" where
  "normalize_finding f =
     f\<lparr>fd_ID := TrimSpace (fd_ID f), fd_Kind := ToLower (TrimSpace (fd_Kind f)),
       fd_Severity := ToUpper (TrimSpace (fd_Severity f)),
       fd_EvidenceSHA256 := ToLower (TrimSpace (fd_EvidenceSHA256 f)), fd_Summary := TrimSpace (fd_Summary f)\<rparr>"

fun canonFindings :: "Finding list \<Rightarrow> string set \<Rightarrow> go_error + Finding list" where
  "canonFindings [] seen = Inr []"
| "canonFindings (f # fs) seen =
     (let f = normalize_finding f in
      if fd_ID f = [] \<or> fd_Kind f = [] then Inl (ErrMsg ''finding id and kind are required'')
      else if fd_ID f \<in> seen then Inl (ErrMsg (''duplicate finding id '' @ quoted (fd_ID f)))
      else if fd_State f \<notin> {StateObserved, StateVerified, StateUnavailable, StateNotApplicable}
      then Inl (ErrMsg (''invalid evidence state '' @ quoted (fd_State f)))
      else if fd_EvidenceSHA256 f \<noteq> [] \<and> \<not> validSHA256 (fd_EvidenceSHA256 f)
      then Inl (ErrMsg (''invalid finding evidence digest for '' @ quoted (fd_ID f)))
      else if fd_State f = StateVerified \<and> fd_EvidenceSHA256 f = []
      then Inl (ErrMsg (''verified finding '' @ quoted (fd_ID f) @ '' requires evidence digest''))
      else bindE (canonFindings fs (insert (fd_ID f) seen)) (\<lambda>r. Inr (f # r)))"

definition canonAuthentication :: "EventAuthentication option \<Rightarrow> go_error + EventAuthentication option" where
  "canonAuthentication a =
     (case a of
        None \<Rightarrow> Inr None
      | Some a \<Rightarrow>
          (let a = a\<lparr>au_Algorithm := ToLower (TrimSpace (au_Algorithm a)), au_Signature := TrimSpace (au_Signature a)\<rparr> in
           if au_Algorithm a \<noteq> AuthenticationAlgorithmEd25519V1
           then Inl (ErrMsg (''unsupported event authentication algorithm '' @ quoted (au_Algorithm a)))
           else (case decodeCanonicalBase64URLV1 (au_Signature a) ed25519_SignatureSize of
               Inl err \<Rightarrow> Inl (ErrWrap ''invalid event authentication signature'' err)
             | Inr _ \<Rightarrow> Inr (Some a))))"

definition CanonicalEvent :: "Event \<Rightarrow> go_error + Event" where
  "CanonicalEvent e =
     (let out = e\<lparr>sev_SchemaVersion := TrimSpace (sev_SchemaVersion e), sev_Producer := TrimSpace (sev_Producer e),
            sev_Subject := \<lparr>su_Chain = ToLower (TrimSpace (su_Chain (sev_Subject e))),
              su_Type = ToLower (TrimSpace (su_Type (sev_Subject e))), su_ID = TrimSpace (su_ID (sev_Subject e))\<rparr>,
            sev_EventSHA256 := []\<rparr>;
          out = (if sev_SchemaVersion out = [] then out\<lparr>sev_SchemaVersion := SchemaVersionV1\<rparr> else out);
          s = sev_Subject out; w = sev_Window out in
      if sev_SchemaVersion out \<noteq> SchemaVersionV1
      then Inl (ErrMsg (''unsupported schema version '' @ quoted (sev_SchemaVersion out)))
      else if sev_Producer out = [] \<or> su_Chain s = [] \<or> su_Type s = [] \<or> su_ID s = []
      then Inl (ErrMsg ''producer and complete subject identity are required'')
      else if sint (ow_FromUnixMS w) < 0 \<or> sint (ow_ToUnixMS w) < 0 \<or> sint (ow_ToUnixMS w) < sint (ow_FromUnixMS w)
      then Inl (ErrMsg ''invalid observation window'')
      else
        bindE (canonSources (sev_SourceDigests out) []) (\<lambda>sources.
        bindE (canonFindings (sev_Findings out) {}) (\<lambda>findings.
        bindE (canonAuthentication (sev_Authentication out)) (\<lambda>authentication.
          Inr (out\<lparr>sev_SourceDigests := sources, sev_Findings := sort_key fd_ID findings,
            sev_Legacy := map_option (\<lambda>l. l\<lparr>lo_Grade := ToUpper (TrimSpace (lo_Grade l))\<rparr>) (sev_Legacy out),
            sev_Authentication := authentication\<rparr>)))))"

definition EventDigest :: "Event \<Rightarrow> go_error + string" where
  "EventDigest e = bindE (CanonicalEvent e) (\<lambda>canonical. Inr (json_digest (json_Event canonical)))"

definition SealEvent :: "Event \<Rightarrow> go_error + Event" where
  "SealEvent e =
     bindE (CanonicalEvent e) (\<lambda>canonical.
     bindE (EventDigest canonical) (\<lambda>digest.
       Inr (canonical\<lparr>sev_EventSHA256 := digest\<rparr>)))"

definition VerifyEvent :: "Event \<Rightarrow> go_error option" where
  "VerifyEvent e =
     (let expected = ToLower (TrimSpace (sev_EventSHA256 e)) in
      if \<not> validSHA256 expected then Some (ErrMsg ''event_sha256 is required and must be sha256'')
      else (case EventDigest e of
          Inl err \<Rightarrow> Some err
        | Inr actual \<Rightarrow>
            if actual \<noteq> expected then Some (ErrMsg ''security evidence event digest mismatch'') else None))"

subsection \<open>Producer authentication\<close>

type_synonym ed25519_verify = "string \<Rightarrow> string \<Rightarrow> string \<Rightarrow> bool"
type_synonym ed25519_sign = "string \<Rightarrow> string \<Rightarrow> string"
type_synonym ed25519_newKey = "string \<Rightarrow> string"

definition eventEd25519SigningBytesV1 :: "Event \<Rightarrow> go_error + string" where
  "eventEd25519SigningBytesV1 e =
     bindE (CanonicalEvent (e\<lparr>sev_Authentication := None\<rparr>)) (\<lambda>canonical.
       Inr (json_print (json_Event (canonical\<lparr>sev_Authentication :=
         Some \<lparr>au_Algorithm = AuthenticationAlgorithmEd25519V1, au_Signature = []\<rparr>\<rparr>))))"

definition SignEd25519 :: "ed25519_newKey \<Rightarrow> ed25519_sign \<Rightarrow> Event \<Rightarrow> string \<Rightarrow> go_error + Event" where
  "SignEd25519 newKey sign e privateKey =
     (if length privateKey \<noteq> ed25519_PrivateKeySize then Inl (ErrMsg ''ed25519 private key has invalid length'')
      else if privateKey \<noteq> newKey (take ed25519_SeedSize privateKey)
      then Inl (ErrMsg ''ed25519 private key is not canonical seed-derived key material'')
      else
        bindE (CanonicalEvent (e\<lparr>sev_Authentication := None\<rparr>)) (\<lambda>canonical.
        bindE (eventEd25519SigningBytesV1 canonical) (\<lambda>payload.
          SealEvent (canonical\<lparr>sev_Authentication := Some
            \<lparr>au_Algorithm = AuthenticationAlgorithmEd25519V1,
             au_Signature = b64_encode (sign privateKey payload)\<rparr>\<rparr>))))"

definition VerifyEd25519 :: "ed25519_verify \<Rightarrow> Event \<Rightarrow> string \<Rightarrow> string \<Rightarrow> go_error option" where
  "VerifyEd25519 verify e expectedProducer trustedPublicKey =
     (case VerifyEvent e of
        Some err \<Rightarrow> Some err
      | None \<Rightarrow>
     (case CanonicalEvent e of
        Inl err \<Rightarrow> Some err
      | Inr canonical \<Rightarrow>
          (let expectedProducer = TrimSpace expectedProducer in
           if expectedProducer = [] \<or> sev_Producer canonical \<noteq> expectedProducer
           then Some (ErrMsg ''event producer does not match authenticated collector identity'')
           else (case sev_Authentication canonical of
               None \<Rightarrow> Some (ErrMsg ''ed25519 event authentication is required'')
             | Some authentication \<Rightarrow>
                 if au_Algorithm authentication \<noteq> AuthenticationAlgorithmEd25519V1
                 then Some (ErrMsg ''ed25519 event authentication is required'')
                 else (case decodeCanonicalBase64URLV1 (TrimSpace trustedPublicKey) ed25519_PublicKeySize of
                     Inl err \<Rightarrow> Some (ErrWrap ''invalid trusted event public key'' err)
                   | Inr publicKey \<Rightarrow>
                 (case decodeCanonicalBase64URLV1 (au_Signature authentication) ed25519_SignatureSize of
                     Inl err \<Rightarrow> Some (ErrWrap ''invalid event authentication signature'' err)
                   | Inr signature \<Rightarrow>
                 (case eventEd25519SigningBytesV1 canonical of
                     Inl err \<Rightarrow> Some err
                   | Inr payload \<Rightarrow>
                       if \<not> verify publicKey payload signature
                       then Some (ErrMsg ''event authentication signature did not verify against trusted collector key'')
                       else None)))))))"

subsection \<open>Radar events\<close>

definition RadarProducerV1 :: string where
  "RadarProducerV1 = ''arvis-radar/koschei-customer-investigation-response-v3''"
definition RadarRulesetV1 :: string where "RadarRulesetV1 = ''koschei-unified-radar-rules-v1.4.0''"

text \<open>
  \<^verbatim>\<open>json.Unmarshal\<close> into \<^verbatim>\<open>any\<close> turns numbers into \<^verbatim>\<open>float64\<close>, and fails where one rounds
  beyond the largest: from \<open>2 ^ 1024 - 2 ^ 970\<close> on.
\<close>

definition float64_ok :: "string \<Rightarrow> bool" where
  "float64_ok t =
     (let t = TrimPrefix t ''-''; a = takeWhile dec_char t; r = dropWhile dec_char t;
          (f, r) = (case r of [] \<Rightarrow> ([], []) | c # u \<Rightarrow>
             if c = CHR ''.'' then (takeWhile dec_char u, dropWhile dec_char u) else ([], r));
          e = (case r of [] \<Rightarrow> 0 | _ # u \<Rightarrow> (case SetString 10 u of None \<Rightarrow> 0 | Some i \<Rightarrow> i));
          n = (case parse_nat 10 (a @ f) of None \<Rightarrow> 0 | Some n \<Rightarrow> n);
          k = e - int (length f)
      in n * 10 ^ nat k < (2 ^ 1024 - 2 ^ 970) * 10 ^ nat (- k))"

fun any_ok :: "jvalue \<Rightarrow> bool" where
  "any_ok (VNum t) = float64_ok t"
| "any_ok (VArr vs) = list_all any_ok vs"
| "any_ok (VObj ms) = list_all (\<lambda>(k, v). any_ok v) ms"
| "any_ok _ = True"

definition unmarshal_any :: "string \<Rightarrow> jvalue option" where
  "unmarshal_any s = (case json_parse s of None \<Rightarrow> None | Some v \<Rightarrow> if any_ok v then Some v else None)"

record RadarReportInput =
  ri_ReportJSON :: string
  ri_Subject :: Subject
  ri_Window :: ObservationWindow
  ri_Findings :: "Finding list"
  ri_Legacy :: "LegacyObservation option"

definition BuildRadarEventV1 :: "RadarReportInput \<Rightarrow> go_error + Event" where
  "BuildRadarEventV1 i =
     (if length (ri_ReportJSON i) = 0 then Inl (ErrMsg ''radar report bytes are required'')
      else if unmarshal_any (ri_ReportJSON i) = None then Inl (ErrMsg ''radar report must be valid json'')
      else (let reportDigest = sha256Hex (ri_ReportJSON i) in
        SealEvent
          \<lparr>sev_SchemaVersion = SchemaVersionV1, sev_Producer = RadarProducerV1 @ ''@'' @ RadarRulesetV1,
           sev_Subject = ri_Subject i, sev_Window = ri_Window i, sev_SourceDigests = [reportDigest],
           sev_Findings = ri_Findings i, sev_Legacy = ri_Legacy i, sev_Authentication = None,
           sev_EventSHA256 = []\<rparr>))"

end
