(* ===== verification/Evidence_Sound.thy ===== *)
theory Evidence_Sound
  imports Evidence
begin

text \<open>
  What an evidence event promises: its canonical form is a fixed point, sealing an event makes it
  verify, equal digests mean equal canonical events, and the producer's signature covers the
  whole canonical content.
\<close>

subsection \<open>Sources\<close>

lemma canonSources_Inr:
  assumes "distinct seen"
  shows "canonSources ds seen = Inr r \<longleftrightarrow>
    (\<forall>d \<in> set ds. validSHA256 (ToLower (TrimSpace d))) \<and>
    r = sorted_list_of_set (set seen \<union> (\<lambda>d. ToLower (TrimSpace d)) ` set ds)"
  using assms
proof (induction ds arbitrary: seen)
  case Nil
  then show ?case by (auto simp: sorted_list_of_set_sort_remdups distinct_remdups_id)
next
  case (Cons d ds)
  let ?d = "ToLower (TrimSpace d)"
  show ?case
  proof (cases "?d \<in> set seen")
    case True
    then have "set seen \<union> (\<lambda>d. ToLower (TrimSpace d)) ` set (d # ds) =
        set seen \<union> (\<lambda>d. ToLower (TrimSpace d)) ` set ds" by auto
    with True Cons show ?thesis by (simp add: Let_def del: Un_insert_right)
  next
    case False
    have "distinct (seen @ [?d])" using Cons.prems False by simp
    with False Cons.IH [of "seen @ [?d]"] show ?thesis by (simp add: Let_def)
  qed
qed

lemma canonSources_idem:
  assumes "canonSources ds [] = Inr r"
  shows "canonSources r [] = Inr r"
proof -
  from assms have v: "\<forall>d \<in> set ds. validSHA256 (ToLower (TrimSpace d))"
    and r: "r = sorted_list_of_set ((\<lambda>d. ToLower (TrimSpace d)) ` set ds)"
    by (simp_all add: canonSources_Inr)
  then have s: "set r = (\<lambda>d. ToLower (TrimSpace d)) ` set ds" by simp
  have "ToLower (TrimSpace d) = d" if "d \<in> set r" for d
    using that s by (auto simp: TrimSpace_ToLower)
  then have "(\<lambda>d. ToLower (TrimSpace d)) ` set r = set r" by force
  with v s r show ?thesis by (auto simp: canonSources_Inr)
qed

subsection \<open>Findings\<close>

definition finding_ok :: "Finding \<Rightarrow> bool" where
  "finding_ok f \<longleftrightarrow> fd_ID f \<noteq> [] \<and> fd_Kind f \<noteq> [] \<and>
     fd_State f \<in> {StateObserved, StateVerified, StateUnavailable, StateNotApplicable} \<and>
     (fd_EvidenceSHA256 f \<noteq> [] \<longrightarrow> validSHA256 (fd_EvidenceSHA256 f)) \<and>
     (fd_State f = StateVerified \<longrightarrow> fd_EvidenceSHA256 f \<noteq> [])"

lemma canonFindings_Inr:
  "canonFindings fs seen = Inr r \<longleftrightarrow>
     r = map normalize_finding fs \<and> distinct (map fd_ID r) \<and> (\<forall>f \<in> set r. fd_ID f \<notin> seen \<and> finding_ok f)"
proof (induction fs arbitrary: seen r)
  case (Cons f fs)
  let ?f = "normalize_finding f"
  have step: "canonFindings (f # fs) seen = Inr r \<longleftrightarrow> finding_ok ?f \<and> fd_ID ?f \<notin> seen \<and>
      (\<exists>q. canonFindings fs (insert (fd_ID ?f) seen) = Inr q \<and> r = ?f # q)"
    by (auto simp: Let_def finding_ok_def bindE_Inr split: if_splits)
  show ?case unfolding step Cons.IH by (cases r) (auto, metis imageI)
qed auto

lemma normalize_finding_idem [simp]: "normalize_finding (normalize_finding f) = normalize_finding f"
  by (simp add: normalize_finding_def TrimSpace_ToLower TrimSpace_ToUpper)

lemma canonFindings_sorted:
  assumes "canonFindings fs {} = Inr r"
  shows "canonFindings (sort_key fd_ID r) {} = Inr (sort_key fd_ID r)"
proof -
  from assms have r: "r = map normalize_finding fs" "distinct (map fd_ID r)" "\<forall>f \<in> set r. finding_ok f"
    by (auto simp: canonFindings_Inr)
  have "map normalize_finding (sort_key fd_ID r) = sort_key fd_ID r"
    by (rule map_idI) (auto simp: r(1))
  moreover have "distinct (map fd_ID (sort_key fd_ID r))"
    using r(2) by (simp only: map_sort_key distinct_sort)
  ultimately show ?thesis unfolding canonFindings_Inr using r(3) by simp
qed

lemma sort_findings_perm:
  assumes "mset fs = mset gs" and "canonFindings fs {} = Inr r"
  shows "\<exists>q. canonFindings gs {} = Inr q \<and> sort_key fd_ID q = sort_key fd_ID r"
proof -
  let ?n = "map normalize_finding"
  from assms(2) have r: "r = ?n fs" "distinct (map fd_ID (?n fs))" "\<forall>f \<in> set (?n fs). finding_ok f"
    by (auto simp: canonFindings_Inr)
  have m: "mset (?n fs) = mset (?n gs)" using assms(1) by simp
  then have "mset (map fd_ID (?n fs)) = mset (map fd_ID (?n gs))" by (metis mset_map)
  then have d: "distinct (map fd_ID (?n gs))" using r(2) by (metis mset_eq_imp_distinct_iff)
  have "set (?n gs) = set (?n fs)" using m by (metis mset_eq_setD)
  with r(3) have "\<forall>f \<in> set (?n gs). finding_ok f" by blast
  with d have "canonFindings gs {} = Inr (?n gs)" unfolding canonFindings_Inr by blast
  moreover have "inj_on fd_ID (set (?n fs))" using r(2) by (simp only: distinct_map)
  then have "sort_key fd_ID (?n gs) = sort_key fd_ID r"
    unfolding r(1) using m by (metis sort_key_perm_unique)
  ultimately show ?thesis by blast
qed

subsection \<open>Events\<close>

lemma ed25519_name [simp]:
  "TrimSpace AuthenticationAlgorithmEd25519V1 = AuthenticationAlgorithmEd25519V1"
  "ToLower AuthenticationAlgorithmEd25519V1 = AuthenticationAlgorithmEd25519V1"
  by (rule TrimSpace_all_visible, simp add: AuthenticationAlgorithmEd25519V1_def visible_def)
    (simp add: AuthenticationAlgorithmEd25519V1_def ToLower_def lower_char_def)

lemma canonAuthentication_idem: "canonAuthentication a = Inr b \<Longrightarrow> canonAuthentication b = Inr b"
  by (auto simp: canonAuthentication_def Let_def TrimSpace_ToLower split: option.splits if_splits sum.splits)

lemma sort_key_idem [simp]: "sort_key f (sort_key f xs) = sort_key f xs"
  by (rule sort_key_id_if_sorted) simp

definition event_header_ok :: "Event \<Rightarrow> bool" where
  "event_header_ok e \<longleftrightarrow>
     TrimSpace (sev_SchemaVersion e) \<in> {[], SchemaVersionV1} \<and> TrimSpace (sev_Producer e) \<noteq> [] \<and>
     TrimSpace (su_Chain (sev_Subject e)) \<noteq> [] \<and> TrimSpace (su_Type (sev_Subject e)) \<noteq> [] \<and>
     TrimSpace (su_ID (sev_Subject e)) \<noteq> [] \<and>
     0 \<le> sint (ow_FromUnixMS (sev_Window e)) \<and> sint (ow_FromUnixMS (sev_Window e)) \<le> sint (ow_ToUnixMS (sev_Window e))"

lemma CanonicalEvent_Inr:
  "CanonicalEvent e = Inr c \<longleftrightarrow> event_header_ok e \<and>
     (\<exists>sources findings authentication.
        canonSources (sev_SourceDigests e) [] = Inr sources \<and> canonFindings (sev_Findings e) {} = Inr findings \<and>
        canonAuthentication (sev_Authentication e) = Inr authentication \<and>
        c = \<lparr>sev_SchemaVersion = SchemaVersionV1, sev_Producer = TrimSpace (sev_Producer e),
             sev_Subject = \<lparr>su_Chain = ToLower (TrimSpace (su_Chain (sev_Subject e))),
               su_Type = ToLower (TrimSpace (su_Type (sev_Subject e))), su_ID = TrimSpace (su_ID (sev_Subject e))\<rparr>,
             sev_Window = sev_Window e, sev_SourceDigests = sources, sev_Findings = sort_key fd_ID findings,
             sev_Legacy = map_option (\<lambda>l. l\<lparr>lo_Grade := ToUpper (TrimSpace (lo_Grade l))\<rparr>) (sev_Legacy e),
             sev_Authentication = authentication, sev_EventSHA256 = []\<rparr>)"
  by (cases e) (auto simp: CanonicalEvent_def event_header_ok_def Let_def bindE_Inr SchemaVersionV1_def)

lemma CanonicalEvent_idem:
  assumes "CanonicalEvent e = Inr c"
  shows "CanonicalEvent c = Inr c"
proof -
  have "TrimSpace SchemaVersionV1 = SchemaVersionV1"
    by (rule TrimSpace_all_visible) (simp add: SchemaVersionV1_def visible_def)
  then show ?thesis
    using assms unfolding CanonicalEvent_Inr
    by (auto simp: event_header_ok_def TrimSpace_ToLower TrimSpace_ToUpper canonSources_idem
        canonFindings_sorted canonAuthentication_idem option.map_comp comp_def intro!: option.map_cong)
qed

lemma CanonicalEvent_forgets_digest [simp]: "CanonicalEvent (e\<lparr>sev_EventSHA256 := d\<rparr>) = CanonicalEvent e"
  by (simp add: CanonicalEvent_def)

lemma EventDigest_canonical: "CanonicalEvent e = Inr c \<Longrightarrow> EventDigest e = Inr (json_digest (json_Event c))"
  by (simp add: EventDigest_def)

lemma SealEvent_Inr:
  "SealEvent e = Inr s \<longleftrightarrow>
     (\<exists>c. CanonicalEvent e = Inr c \<and> s = c\<lparr>sev_EventSHA256 := json_digest (json_Event c)\<rparr>)"
proof (cases "CanonicalEvent e")
  case (Inr c)
  then show ?thesis by (auto simp: SealEvent_def bindE_Inr EventDigest_canonical [OF CanonicalEvent_idem])
qed (simp add: SealEvent_def)

lemma VerifyEvent_None:
  "VerifyEvent e = None \<longleftrightarrow>
     (\<exists>c. CanonicalEvent e = Inr c \<and> ToLower (TrimSpace (sev_EventSHA256 e)) = json_digest (json_Event c))"
  by (auto simp: VerifyEvent_def Let_def EventDigest_def bindE_def split: sum.splits)
    (metis validSHA256_json_digest)

lemma drop_authentication:
  "CanonicalEvent e = Inr c \<Longrightarrow>
     CanonicalEvent (e\<lparr>sev_Authentication := None\<rparr>) = Inr (c\<lparr>sev_Authentication := None\<rparr>)"
  unfolding CanonicalEvent_Inr by (auto simp: event_header_ok_def canonAuthentication_def)

lemma set_authentication:
  assumes "CanonicalEvent c = Inr c"
  shows "CanonicalEvent (c\<lparr>sev_Authentication := a\<rparr>) = Inr d \<longleftrightarrow>
    (\<exists>b. canonAuthentication a = Inr b \<and> d = c\<lparr>sev_Authentication := b\<rparr>)"
  using assms unfolding CanonicalEvent_Inr by (cases c) (auto simp: event_header_ok_def)

lemma signing_bytes_canonical:
  assumes "CanonicalEvent e = Inr c"
  shows "eventEd25519SigningBytesV1 c = eventEd25519SigningBytesV1 e"
  using drop_authentication [OF assms] drop_authentication [OF CanonicalEvent_idem [OF assms]]
  by (simp add: eventEd25519SigningBytesV1_def)

lemma canonAuthentication_Inr:
  "canonAuthentication (Some a) = Inr b \<longleftrightarrow>
     ToLower (TrimSpace (au_Algorithm a)) = AuthenticationAlgorithmEd25519V1 \<and>
     (\<exists>g. decodeCanonicalBase64URLV1 (TrimSpace (au_Signature a)) ed25519_SignatureSize = Inr g) \<and>
     b = Some (a\<lparr>au_Algorithm := AuthenticationAlgorithmEd25519V1, au_Signature := TrimSpace (au_Signature a)\<rparr>)"
  by (auto simp: canonAuthentication_def Let_def split: sum.splits)

lemma decodeCanonicalBase64URLV1_Inr:
  "decodeCanonicalBase64URLV1 v n = Inr d \<longleftrightarrow> length d = n \<and> v = b64_encode d"
  by (auto simp: decodeCanonicalBase64URLV1_def split: option.splits)

lemma b64_encode_inject [simp]: "b64_encode a = b64_encode b \<longleftrightarrow> a = b"
  by (metis b64_decode_encode option.inject)

lemma decode_b64_encode [simp]:
  "length d = n \<Longrightarrow> decodeCanonicalBase64URLV1 (b64_encode d) n = Inr d"
  by (simp add: decodeCanonicalBase64URLV1_Inr)

subsection \<open>JSON identity\<close>

lemma json_Finding_inject: "json_Finding a = json_Finding b \<Longrightarrow> a = b"
  by (cases a; cases b) (auto simp: json_Finding_def omit_empty_def split: if_splits)

lemma json_i64_inject [simp]: "json_i64 a = json_i64 b \<longleftrightarrow> a = b"
  by (auto simp: json_i64_def intro: signed_word_eqI)

lemma json_LegacyObservation_inject: "json_LegacyObservation a = json_LegacyObservation b \<Longrightarrow> a = b"
  by (cases a; cases b)
    (auto simp: json_LegacyObservation_def omit_empty_def omit_nil_def split: if_splits option.splits)

lemma json_EventAuthentication_inject: "json_EventAuthentication a = json_EventAuthentication b \<Longrightarrow> a = b"
  by (cases a; cases b) (auto simp: json_EventAuthentication_def)

lemma json_Subject_inject: "json_Subject a = json_Subject b \<Longrightarrow> a = b"
  by (cases a; cases b) (auto simp: json_Subject_def)

lemma json_ObservationWindow_inject: "json_ObservationWindow a = json_ObservationWindow b \<Longrightarrow> a = b"
  by (cases a; cases b) (auto simp: json_ObservationWindow_def)

lemma json_Event_inject: "json_Event a = json_Event b \<Longrightarrow> a = b"
  by (cases a; cases b)
    (auto simp: json_Event_def omit_nil_def json_LegacyObservation_inject json_EventAuthentication_inject
      json_Subject_inject json_ObservationWindow_inject inj_def json_Finding_inject
      split: if_splits option.splits)

text \<open>Events whose strings are ASCII are told apart by their JSON form, hence by their digest.\<close>

definition ascii_Event :: "Event \<Rightarrow> bool" where
  "ascii_Event e \<longleftrightarrow> json_ascii (json_Event e)"

interpretation event: digest_binding json_Event ascii_Event
  by unfold_locales (auto simp: ascii_Event_def json_Event_inject)

subsection \<open>Properties\<close>

definition sample_event :: Event where
  "sample_event =
     \<lparr>sev_SchemaVersion = [], sev_Producer = ''arvis'', sev_Subject = \<lparr>su_Chain = ''Solana'', su_Type = ''token'', su_ID = ''Mint1''\<rparr>,
      sev_Window = \<lparr>ow_FromUnixMS = 1, ow_ToUnixMS = 2\<rparr>, sev_SourceDigests = [],
      sev_Findings = [\<lparr>fd_ID = ''b'', fd_Kind = ''Liquidity'', fd_State = StateObserved, fd_Severity = ''high'',
          fd_EvidenceSHA256 = [], fd_Summary = []\<rparr>,
        \<lparr>fd_ID = ''a'', fd_Kind = ''mint'', fd_State = StateUnavailable, fd_Severity = [],
          fd_EvidenceSHA256 = [], fd_Summary = ''none''\<rparr>],
      sev_Legacy = None, sev_Authentication = None, sev_EventSHA256 = []\<rparr>"

definition sample_canonical :: Event where
  "sample_canonical =
     \<lparr>sev_SchemaVersion = SchemaVersionV1, sev_Producer = ''arvis'', sev_Subject = \<lparr>su_Chain = ''solana'', su_Type = ''token'', su_ID = ''Mint1''\<rparr>,
      sev_Window = \<lparr>ow_FromUnixMS = 1, ow_ToUnixMS = 2\<rparr>, sev_SourceDigests = [],
      sev_Findings = [
        \<lparr>fd_ID = ''a'', fd_Kind = ''mint'', fd_State = StateUnavailable, fd_Severity = [],
          fd_EvidenceSHA256 = [], fd_Summary = ''none''\<rparr>,
        \<lparr>fd_ID = ''b'', fd_Kind = ''liquidity'', fd_State = StateObserved, fd_Severity = ''HIGH'',
          fd_EvidenceSHA256 = [], fd_Summary = []\<rparr>],
      sev_Legacy = None, sev_Authentication = None, sev_EventSHA256 = []\<rparr>"

lemma sample_event_canonical: "CanonicalEvent sample_event = Inr sample_canonical"
  unfolding CanonicalEvent_Inr
  by (simp add: sample_event_def sample_canonical_def event_header_ok_def canonAuthentication_def
      canonFindings_Inr finding_ok_def normalize_finding_def ToLower_def ToUpper_def lower_char_def upper_char_def
      StateObserved_def StateUnavailable_def StateVerified_def TrimSpace_all_visible visible_def)
    (simp add: char_of_def bit_0)

lemma sample_event_ascii: "ascii_Event sample_canonical"
  by (simp add: ascii_Event_def sample_canonical_def json_Event_def json_Subject_def json_ObservationWindow_def
      json_i64_def json_Finding_def omit_empty_def omit_nil_def SchemaVersionV1_def StateObserved_def StateUnavailable_def)

text \<open>C16: Sealing is a round trip: a sealed event verifies, its canonical form is the sealed content,
and sealing it again changes nothing.\<close>

theorem seal_verifies:
  assumes "SealEvent e = Inr s"
  shows "VerifyEvent s = None \<and> SealEvent s = Inr s \<and> CanonicalEvent s = CanonicalEvent e"
proof -
  from assms obtain c where c: "CanonicalEvent e = Inr c" "s = c\<lparr>sev_EventSHA256 := json_digest (json_Event c)\<rparr>"
    by (auto simp: SealEvent_Inr)
  from CanonicalEvent_idem [OF c(1)] show ?thesis by (auto simp: c VerifyEvent_None SealEvent_Inr)
qed

theorem seal_verifies_witness: "\<exists>s. SealEvent sample_event = Inr s \<and> VerifyEvent s = None"
proof -
  obtain s where "SealEvent sample_event = Inr s"
    by (simp add: SealEvent_Inr sample_event_canonical)
  with seal_verifies [OF this] show ?thesis by blast
qed

text \<open>C17: An event's identity does not depend on the order in which findings and sources were collected,
nor on repeated sources.\<close>

theorem event_order_independent:
  assumes "mset fs = mset (sev_Findings e)" and "set ds = set (sev_SourceDigests e)" and "CanonicalEvent e = Inr c"
  shows "SealEvent (e\<lparr>sev_Findings := fs, sev_SourceDigests := ds\<rparr>) = SealEvent e"
proof -
  from assms(3) obtain r where f: "canonFindings (sev_Findings e) {} = Inr r" and c: "sev_Findings c = sort_key fd_ID r"
    unfolding CanonicalEvent_Inr by auto
  from sort_findings_perm [OF assms(1) [symmetric] f] obtain q
    where q: "canonFindings fs {} = Inr q" "sort_key fd_ID q = sort_key fd_ID r" by blast
  have "canonSources ds [] = Inr x \<longleftrightarrow> canonSources (sev_SourceDigests e) [] = Inr x" for x
    by (simp add: canonSources_Inr assms(2))
  then have "CanonicalEvent (e\<lparr>sev_Findings := fs, sev_SourceDigests := ds\<rparr>) = Inr c"
    using assms(3) f q unfolding CanonicalEvent_Inr by (auto simp: event_header_ok_def)
  with assms(3) show ?thesis
    by (simp add: SealEvent_def)
qed

theorem event_order_independent_witness:
  "SealEvent (sample_event\<lparr>sev_Findings := rev (sev_Findings sample_event), sev_SourceDigests := []\<rparr>) = SealEvent sample_event"
  by (rule event_order_independent [OF _ _ sample_event_canonical]) (simp_all add: sample_event_def)

text \<open>The digest identifies the event: two ASCII events with one digest have the same canonical
content, or exhibit a SHA-256 collision.\<close>

theorem event_digest_identifies:
  assumes "CanonicalEvent a = Inr c" and "CanonicalEvent b = Inr d" and "ascii_Event c" and "ascii_Event d"
    and "EventDigest a = EventDigest b"
  shows "c = d \<or> sha256_collision (json_print (json_Event c)) (json_print (json_Event d))"
  using assms event.binds [of c d] by (simp add: EventDigest_canonical)

theorem event_digest_identifies_witness:
  "sample_canonical = sample_canonical \<or>
     sha256_collision (json_print (json_Event sample_canonical)) (json_print (json_Event sample_canonical))"
  by (rule event_digest_identifies [OF sample_event_canonical CanonicalEvent_idem [OF sample_event_canonical]
        sample_event_ascii sample_event_ascii])
    (simp add: EventDigest_canonical sample_event_canonical CanonicalEvent_idem [OF sample_event_canonical])

lemma collector_event_spec:
  "VerifyEd25519 verify e p k = None \<longleftrightarrow>
     (\<exists>c au key sg m. CanonicalEvent e = Inr c \<and>
        ToLower (TrimSpace (sev_EventSHA256 e)) = json_digest (json_Event c) \<and>
        sev_Producer c = TrimSpace p \<and> sev_Authentication c = Some au \<and>
        TrimSpace k = b64_encode key \<and> length key = ed25519_PublicKeySize \<and>
        au_Signature au = b64_encode sg \<and> length sg = ed25519_SignatureSize \<and>
        eventEd25519SigningBytesV1 e = Inr m \<and> verify key m sg)"
proof (cases "\<exists>c. CanonicalEvent e = Inr c \<and> ToLower (TrimSpace (sev_EventSHA256 e)) = json_digest (json_Event c)")
  case False
  then have "VerifyEvent e \<noteq> None" using VerifyEvent_None [of e] by blast
  with False show ?thesis by (auto simp: VerifyEd25519_def)
next
  case True
  then obtain c where c: "CanonicalEvent e = Inr c" "VerifyEvent e = None"
    and d: "ToLower (TrimSpace (sev_EventSHA256 e)) = json_digest (json_Event c)" using VerifyEvent_None [of e] by blast
  have "sev_Producer c \<noteq> []" using c(1) by (auto simp: CanonicalEvent_Inr event_header_ok_def)
  moreover have "au_Algorithm au = AuthenticationAlgorithmEd25519V1" if "sev_Authentication c = Some au" for au
    using c(1) that by (cases "sev_Authentication e")
      (auto simp: CanonicalEvent_Inr canonAuthentication_Inr, simp add: canonAuthentication_def)
  ultimately show ?thesis using d
    by (auto simp: VerifyEd25519_def c signing_bytes_canonical [OF c(1)] Let_def
        decodeCanonicalBase64URLV1_Inr split: option.splits sum.splits if_splits)
qed

lemma signed_event_ok:
  assumes "SignEd25519 newKey sign e k = Inr s"
    and "\<And>m. verify (drop ed25519_SeedSize k) m (sign k m)"
    and "TrimSpace p = TrimSpace (sev_Producer e)"
  shows "VerifyEd25519 verify s p (b64_encode (drop ed25519_SeedSize k)) = None"
proof -
  from assms(1) have k: "length k = ed25519_PrivateKeySize" by (simp add: SignEd25519_def split: if_splits)
  from assms(1) obtain c m where c: "CanonicalEvent (e\<lparr>sev_Authentication := None\<rparr>) = Inr c"
    and m: "eventEd25519SigningBytesV1 c = Inr m"
    and seal: "SealEvent (c\<lparr>sev_Authentication := Some
      \<lparr>au_Algorithm = AuthenticationAlgorithmEd25519V1, au_Signature = b64_encode (sign k m)\<rparr>\<rparr>) = Inr s"
    by (auto simp: SignEd25519_def bindE_Inr split: if_splits)
  let ?au = "\<lparr>au_Algorithm = AuthenticationAlgorithmEd25519V1, au_Signature = b64_encode (sign k m)\<rparr>"
  from seal obtain d where d: "CanonicalEvent (c\<lparr>sev_Authentication := Some ?au\<rparr>) = Inr d"
    and s: "s = d\<lparr>sev_EventSHA256 := json_digest (json_Event d)\<rparr>" by (auto simp: SealEvent_Inr)
  have sg: "length (sign k m) = ed25519_SignatureSize" and d': "d = c\<lparr>sev_Authentication := Some ?au\<rparr>"
    using d unfolding set_authentication [OF CanonicalEvent_idem [OF c]]
    by (auto simp: canonAuthentication_Inr decodeCanonicalBase64URLV1_Inr)
  have none: "sev_Authentication c = None"
    using c by (auto simp: CanonicalEvent_Inr canonAuthentication_def)
  have canon: "CanonicalEvent s = Inr d" using CanonicalEvent_idem [OF d] by (simp add: s)
  have "eventEd25519SigningBytesV1 d = eventEd25519SigningBytesV1 c"
    unfolding d' eventEd25519SigningBytesV1_def by simp
  with m signing_bytes_canonical [OF canon] have "eventEd25519SigningBytesV1 s = Inr m" by simp
  moreover have "sev_Producer d = TrimSpace p" using c assms(3) by (auto simp: d' CanonicalEvent_Inr)
  moreover have "sev_Authentication d = Some ?au" by (simp add: d')
  moreover have "ToLower (TrimSpace (sev_EventSHA256 s)) = json_digest (json_Event d)" by (simp add: s)
  moreover have "length (drop ed25519_SeedSize k) = ed25519_PublicKeySize"
    by (simp add: k ed25519_PrivateKeySize_def ed25519_SeedSize_def ed25519_PublicKeySize_def)
  ultimately show ?thesis
    unfolding collector_event_spec using canon sg assms(2) [of m]
    by (metis EventAuthentication.select_convs(2) TrimSpace_b64_encode)
qed

text \<open>Exactly the events with a matching seal, the expected producer, a key of 32 bytes and a signature
of 64 bytes that verifies over the canonical content are accepted from a collector.\<close>

theorem collector_event_accepted_iff:
  "VerifyEd25519 verify e p k = None \<longleftrightarrow>
     (\<exists>c au key sg m. CanonicalEvent e = Inr c \<and>
        ToLower (TrimSpace (sev_EventSHA256 e)) = json_digest (json_Event c) \<and>
        sev_Producer c = TrimSpace p \<and> sev_Authentication c = Some au \<and>
        TrimSpace k = b64_encode key \<and> length key = ed25519_PublicKeySize \<and>
        au_Signature au = b64_encode sg \<and> length sg = ed25519_SignatureSize \<and>
        eventEd25519SigningBytesV1 e = Inr m \<and> verify key m sg)"
  by (rule collector_event_spec)

text \<open>Whatever a collector signs with its seed-derived key is accepted under its public key and its own
name, provided the signature scheme verifies its own signatures.\<close>

theorem signed_event_accepted:
  assumes "SignEd25519 newKey sign e k = Inr s"
    and "\<And>m. verify (drop ed25519_SeedSize k) m (sign k m)"
    and "TrimSpace p = TrimSpace (sev_Producer e)"
  shows "VerifyEd25519 verify s p (b64_encode (drop ed25519_SeedSize k)) = None"
  using assms by (rule signed_event_ok)

definition toy_newKey :: ed25519_newKey where "toy_newKey seed = seed @ seed"
definition toy_sign :: ed25519_sign where "toy_sign k m = sha256Hex (drop 32 k @ m)"
definition toy_verify :: ed25519_verify where "toy_verify key m sg \<longleftrightarrow> sg = sha256Hex (key @ m)"

lemma toy_signs:
  assumes "CanonicalEvent (e\<lparr>sev_Authentication := None\<rparr>) = Inr c"
  shows "\<exists>s. SignEd25519 toy_newKey toy_sign e (replicate 64 CHR ''k'') = Inr s"
proof -
  let ?k = "replicate 64 CHR ''k''"
  note fixpoint = CanonicalEvent_idem [OF assms]
  obtain m where m: "eventEd25519SigningBytesV1 c = Inr m"
    using drop_authentication [OF fixpoint] by (auto simp: eventEd25519SigningBytesV1_def)
  let ?au = "Some \<lparr>au_Algorithm = AuthenticationAlgorithmEd25519V1, au_Signature = b64_encode (toy_sign ?k m)\<rparr>"
  have "canonAuthentication ?au = Inr ?au"
    by (simp add: canonAuthentication_Inr toy_sign_def ed25519_SignatureSize_def)
  then have "CanonicalEvent (c\<lparr>sev_Authentication := ?au\<rparr>) = Inr (c\<lparr>sev_Authentication := ?au\<rparr>)"
    using set_authentication [OF fixpoint] by blast
  then show ?thesis
    by (auto simp: SignEd25519_def ed25519_PrivateKeySize_def ed25519_SeedSize_def toy_newKey_def assms m
        SealEvent_Inr simp flip: replicate_add)
qed

lemma toy_verifies: "toy_verify (drop ed25519_SeedSize k) m (toy_sign k m)"
  by (simp add: toy_verify_def toy_sign_def ed25519_SeedSize_def)

theorem signed_event_accepted_witness:
  "\<exists>s. SignEd25519 toy_newKey toy_sign sample_event (replicate 64 CHR ''k'') = Inr s \<and>
     VerifyEd25519 toy_verify s '' arvis '' (b64_encode (drop ed25519_SeedSize (replicate 64 CHR ''k''))) = None"
proof -
  have "sample_event\<lparr>sev_Authentication := None\<rparr> = sample_event" by (simp add: sample_event_def)
  then obtain s where s: "SignEd25519 toy_newKey toy_sign sample_event (replicate 64 CHR ''k'') = Inr s"
    using toy_signs [of sample_event] sample_event_canonical by auto
  have "TrimSpace '' arvis '' = ''arvis''" using TrimSpace_padded(2) [of "''arvis''"] by (simp add: visible_def)
  then have p: "TrimSpace '' arvis '' = TrimSpace (sev_Producer sample_event)"
    by (simp add: sample_event_def TrimSpace_all_visible visible_def)
  from signed_event_accepted [of toy_newKey toy_sign sample_event, OF s, of toy_verify, OF toy_verifies p] s
  show ?thesis by blast
qed

text \<open>A collector's signature covers the whole event: events with the same signed bytes have the same
canonical content, whatever authentication and seal they carry.\<close>

theorem signature_covers_event:
  assumes "eventEd25519SigningBytesV1 a = Inr m" and "eventEd25519SigningBytesV1 b = Inr m"
    and "CanonicalEvent (a\<lparr>sev_Authentication := None\<rparr>) = Inr c" and "CanonicalEvent (b\<lparr>sev_Authentication := None\<rparr>) = Inr d"
    and "ascii_Event c" and "ascii_Event d"
  shows "c = d"
proof -
  let ?au = "Some \<lparr>au_Algorithm = AuthenticationAlgorithmEd25519V1, au_Signature = []\<rparr>"
  have none: "sev_Authentication c = None" "sev_Authentication d = None"
    using assms(3,4) by (auto simp: CanonicalEvent_Inr canonAuthentication_def)
  have "json_ascii (json_Event (e\<lparr>sev_Authentication := ?au\<rparr>))" if "ascii_Event e" for e
    using that by (simp add: ascii_Event_def json_Event_def omit_nil_def json_EventAuthentication_def
        AuthenticationAlgorithmEd25519V1_def split: if_splits option.splits)
  then have "json_ascii (json_Event (c\<lparr>sev_Authentication := ?au\<rparr>))" "json_ascii (json_Event (d\<lparr>sev_Authentication := ?au\<rparr>))"
    using assms(5,6) by blast+
  moreover have "json_print (json_Event (c\<lparr>sev_Authentication := ?au\<rparr>)) = json_print (json_Event (d\<lparr>sev_Authentication := ?au\<rparr>))"
    using assms(1-4) by (simp add: eventEd25519SigningBytesV1_def)
  ultimately have "c\<lparr>sev_Authentication := ?au\<rparr> = d\<lparr>sev_Authentication := ?au\<rparr>"
    by (intro json_Event_inject json_print_inject)
  with none show ?thesis by (cases c; cases d) simp
qed

theorem signature_covers_event_witness:
  "\<exists>m d. eventEd25519SigningBytesV1 sample_event = Inr m \<and> eventEd25519SigningBytesV1 sample_canonical = Inr m \<and>
     CanonicalEvent (sample_canonical\<lparr>sev_Authentication := None\<rparr>) = Inr d \<and> sample_canonical = d"
proof -
  have none: "sample_event\<lparr>sev_Authentication := None\<rparr> = sample_event"
      "sample_canonical\<lparr>sev_Authentication := None\<rparr> = sample_canonical"
    by (simp_all add: sample_event_def sample_canonical_def)
  obtain m where m: "eventEd25519SigningBytesV1 sample_event = Inr m"
    by (simp add: eventEd25519SigningBytesV1_def none sample_event_canonical)
  with signing_bytes_canonical [OF sample_event_canonical] have c: "eventEd25519SigningBytesV1 sample_canonical = Inr m" by simp
  have d: "CanonicalEvent (sample_canonical\<lparr>sev_Authentication := None\<rparr>) = Inr sample_canonical"
    using CanonicalEvent_idem [OF sample_event_canonical] none by simp
  have "CanonicalEvent (sample_event\<lparr>sev_Authentication := None\<rparr>) = Inr sample_canonical"
    using sample_event_canonical none by simp
  from signature_covers_event [OF m c this d sample_event_ascii sample_event_ascii] m c d show ?thesis by blast
qed

text \<open>A radar event is sealed, carries exactly the digest of the report bytes as its source, and is
refused for report bytes that are empty or not JSON.\<close>

theorem radar_event_binds_report:
  "BuildRadarEventV1 i = Inr e \<longleftrightarrow>
     ri_ReportJSON i \<noteq> [] \<and> unmarshal_any (ri_ReportJSON i) \<noteq> None \<and>
     (\<exists>c. CanonicalEvent \<lparr>sev_SchemaVersion = SchemaVersionV1, sev_Producer = RadarProducerV1 @ ''@'' @ RadarRulesetV1,
           sev_Subject = ri_Subject i, sev_Window = ri_Window i, sev_SourceDigests = [],
           sev_Findings = ri_Findings i, sev_Legacy = ri_Legacy i, sev_Authentication = None,
           sev_EventSHA256 = []\<rparr> = Inr c \<and>
        e = c\<lparr>sev_SourceDigests := [sha256Hex (ri_ReportJSON i)],
          sev_EventSHA256 := json_digest (json_Event (c\<lparr>sev_SourceDigests := [sha256Hex (ri_ReportJSON i)]\<rparr>))\<rparr>)"
  by (auto simp: BuildRadarEventV1_def SealEvent_Inr CanonicalEvent_Inr event_header_ok_def canonSources_Inr Let_def)

end
