(* ===== verification/Attestation.thy ===== *)
theory Attestation
  imports Evidence_Sound Containment
begin

text \<open>
  \<^verbatim>\<open>internal/executionproof/safe_attestation.go\<close>: an independent collector attests that a Safe
  transaction was executed as proved. The attestation is a security evidence event; the gate
  checks its signature against server-side trust material, that it names exactly this
  transaction and proof, and that its observation window is fresh.

  \<^verbatim>\<open>time.Time\<close> enters as the \<^verbatim>\<open>int64\<close> of \<^verbatim>\<open>UnixMilli\<close>; a \<^verbatim>\<open>time.Duration\<close> is an \<^verbatim>\<open>int64\<close> of
  nanoseconds. Sums and differences of milliseconds wrap at 64 bits, as in the code.
\<close>

definition SafeExecutionAttestationVersionV1 :: string where
  "SafeExecutionAttestationVersionV1 = ''koschei.safe-execution-attestation/v1''"
definition SafeExecutionAttestationSubjectTypeV1 :: string where
  "SafeExecutionAttestationSubjectTypeV1 = ''safe_execution_assurance''"
definition SafeExecutionAttestationFindingIDV1 :: string where
  "SafeExecutionAttestationFindingIDV1 = ''safe-execution-binding''"
definition SafeExecutionAttestationFindingKindV1 :: string where
  "SafeExecutionAttestationFindingKindV1 = ''safe_execution_binding''"

definition ReasonUntrustedAttestation :: ReasonCode where
  "ReasonUntrustedAttestation = ''EP-010-UNTRUSTED-ATTESTATION''"
definition ReasonStaleAttestation :: ReasonCode where
  "ReasonStaleAttestation = ''EP-011-STALE-ATTESTATION''"

subsection \<open>Bindings\<close>

record SafeExecutionAttestationBindingV1 =
  ab_Version :: string
  ab_ChainID :: u64
  ab_Safe :: string
  ab_SafeTxHash :: string
  ab_ExecutionProofEnvelopeSHA256 :: string

definition json_SafeExecutionAttestationBindingV1 :: "SafeExecutionAttestationBindingV1 \<Rightarrow> json" where
  "json_SafeExecutionAttestationBindingV1 b = JObj
    [(''version'', JStr (ab_Version b)), (''chain_id'', json_u64 (ab_ChainID b)), (''safe'', JStr (ab_Safe b)),
     (''safe_tx_hash'', JStr (ab_SafeTxHash b)),
     (''execution_proof_envelope_sha256'', JStr (ab_ExecutionProofEnvelopeSHA256 b))]"

definition canonicalHexAddress20 :: "string \<Rightarrow> go_error + string" where
  "canonicalHexAddress20 value =
     (let value = TrimSpace value;
          value = (if HasPrefix value ''0x'' \<or> HasPrefix value ''0X'' then drop 2 value else value)
      in if length value \<noteq> 40 then Inl (ErrMsg ''address must contain exactly 20 bytes'')
         else (case hex_decode value of
             None \<Rightarrow> Inl (ErrMsg ''address must be hexadecimal'')
           | Some decoded \<Rightarrow>
               if length decoded \<noteq> 20 then Inl (ErrMsg ''address must be hexadecimal'')
               else Inr (''0x'' @ ToLower value)))"

definition CanonicalBinding :: "SafeExecutionAttestationBindingV1 \<Rightarrow> go_error + SafeExecutionAttestationBindingV1" where
  "CanonicalBinding b =
     (let out = b\<lparr>ab_Version := TrimSpace (ab_Version b)\<rparr>;
          out = (if ab_Version out = [] then out\<lparr>ab_Version := SafeExecutionAttestationVersionV1\<rparr> else out) in
      if ab_Version out \<noteq> SafeExecutionAttestationVersionV1
      then Inl (ErrMsg (''unsupported Safe execution attestation version '' @ quoted (ab_Version out)))
      else if ab_ChainID out = 0 then Inl (ErrMsg ''Safe execution attestation chain_id is required'')
      else (case canonicalHexAddress20 (ab_Safe out) of
          Inl err \<Rightarrow> Inl (ErrMsg ''Safe execution attestation safe address is invalid'')
        | Inr canonicalSafe \<Rightarrow>
            (let out = out\<lparr>ab_Safe := canonicalSafe, ab_SafeTxHash := ToLower (TrimSpace (ab_SafeTxHash out))\<rparr> in
             if \<not> validHex32 (ab_SafeTxHash out)
             then Inl (ErrMsg ''Safe execution attestation safeTxHash is invalid'')
             else (let out = out\<lparr>ab_ExecutionProofEnvelopeSHA256 :=
                       ToLower (TrimSpace (ab_ExecutionProofEnvelopeSHA256 out))\<rparr> in
               if \<not> validSHA256 (ab_ExecutionProofEnvelopeSHA256 out)
               then Inl (ErrMsg ''Safe execution attestation proof envelope digest is invalid'')
               else Inr out))))"

definition SafeExecutionAttestationBindingDigestV1 :: "SafeExecutionAttestationBindingV1 \<Rightarrow> go_error + string" where
  "SafeExecutionAttestationBindingDigestV1 binding =
     bindE (CanonicalBinding binding) (\<lambda>canonical.
       Inr (json_digest (json_SafeExecutionAttestationBindingV1 canonical)))"

subsection \<open>Verification\<close>

record SafeExecutionAttestationTrustV1 =
  tr_Producer :: string
  tr_PublicKey :: string
  tr_MaxAge :: duration
  tr_MaxFutureSkew :: duration

fun hasVerifiedSafeExecutionBindingV1 :: "Finding list \<Rightarrow> string \<Rightarrow> bool" where
  "hasVerifiedSafeExecutionBindingV1 [] bindingDigest = False"
| "hasVerifiedSafeExecutionBindingV1 (f # fs) bindingDigest =
     (if fd_ID f = SafeExecutionAttestationFindingIDV1 \<and> fd_Kind f = SafeExecutionAttestationFindingKindV1 \<and>
         fd_State f = StateVerified \<and> EqualFold (fd_EvidenceSHA256 f) bindingDigest
      then True else hasVerifiedSafeExecutionBindingV1 fs bindingDigest)"

definition VerifySafeExecutionAttestationV1 ::
  "ed25519_verify \<Rightarrow> Event \<Rightarrow> SafeExecutionAttestationBindingV1 \<Rightarrow> SafeExecutionAttestationTrustV1 \<Rightarrow> i64 \<Rightarrow> ReasonCode list" where
  "VerifySafeExecutionAttestationV1 verify event binding trust nowMS =
     (let producer = TrimSpace (tr_Producer trust); publicKey = TrimSpace (tr_PublicKey trust) in
      if producer = [] \<or> publicKey = [] \<or> sint (tr_MaxAge trust) \<le> 0 \<or> sint (tr_MaxFutureSkew trust) < 0
      then [ReasonUntrustedAttestation]
      else (case CanonicalBinding binding of
          Inl err \<Rightarrow> [ReasonUntrustedAttestation]
        | Inr canonicalBinding \<Rightarrow>
      (case SafeExecutionAttestationBindingDigestV1 canonicalBinding of
          Inl err \<Rightarrow> [ReasonUntrustedAttestation]
        | Inr bindingDigest \<Rightarrow>
      if VerifyEd25519 verify event producer publicKey \<noteq> None then [ReasonUntrustedAttestation]
      else (case CanonicalEvent event of
          Inl err \<Rightarrow> [ReasonUntrustedAttestation]
        | Inr canonicalEvent \<Rightarrow>
            (let expectedChain = ''eip155:'' @ nat_text 10 (unat (ab_ChainID canonicalBinding)) in
             if su_Chain (sev_Subject canonicalEvent) \<noteq> expectedChain \<or>
                su_Type (sev_Subject canonicalEvent) \<noteq> SafeExecutionAttestationSubjectTypeV1 \<or>
                \<not> EqualFold (su_ID (sev_Subject canonicalEvent)) (ab_SafeTxHash canonicalBinding) \<or>
                length (sev_SourceDigests canonicalEvent) \<noteq> 1 \<or>
                \<not> EqualFold (sev_SourceDigests canonicalEvent ! 0) (ab_ExecutionProofEnvelopeSHA256 canonicalBinding) \<or>
                \<not> hasVerifiedSafeExecutionBindingV1 (sev_Findings canonicalEvent) bindingDigest
             then [ReasonUntrustedAttestation]
             else (let maxFutureMS = Milliseconds (tr_MaxFutureSkew trust); maxAgeMS = Milliseconds (tr_MaxAge trust) in
               if sint (nowMS + maxFutureMS) < sint (ow_ToUnixMS (sev_Window canonicalEvent)) \<or>
                  sint maxAgeMS < sint (nowMS - ow_FromUnixMS (sev_Window canonicalEvent))
               then [ReasonStaleAttestation] else []))))))"

end
