(* ===== verification/Attestation_Sound.thy ===== *)
theory Attestation_Sound
  imports Attestation
begin

text \<open>
  What an accepted attestation shows: the exact acceptance condition over integers, that it
  serves one binding only, and that a collector who follows the format is accepted.
\<close>

subsection \<open>Canonical bindings\<close>

lemma HasPrefix_0x [simp]: "HasPrefix (CHR ''0'' # CHR ''x'' # s) ''0x''"
  by (simp add: HasPrefix_def)

lemma canonicalHexAddress20_Inr: "canonicalHexAddress20 v = Inr r \<Longrightarrow> \<exists>b. length b = 20 \<and> r = ''0x'' @ hex_encode b"
  by (auto simp: canonicalHexAddress20_def Let_def hex_encode_decode split: if_splits option.splits)

lemma canonicalHexAddress20_fixed: "length b = 20 \<Longrightarrow> canonicalHexAddress20 (''0x'' @ hex_encode b) = Inr (''0x'' @ hex_encode b)"
  by (simp add: canonicalHexAddress20_def TrimSpace_all_visible visible_def)

lemma CanonicalBinding_Inr:
  "CanonicalBinding b = Inr c \<longleftrightarrow>
     TrimSpace (ab_Version b) \<in> {[], SafeExecutionAttestationVersionV1} \<and> ab_ChainID b \<noteq> 0 \<and>
     validHex32 (ToLower (TrimSpace (ab_SafeTxHash b))) \<and>
     validSHA256 (ToLower (TrimSpace (ab_ExecutionProofEnvelopeSHA256 b))) \<and>
     (\<exists>s. canonicalHexAddress20 (ab_Safe b) = Inr s \<and>
       c = \<lparr>ab_Version = SafeExecutionAttestationVersionV1, ab_ChainID = ab_ChainID b, ab_Safe = s,
            ab_SafeTxHash = ToLower (TrimSpace (ab_SafeTxHash b)),
            ab_ExecutionProofEnvelopeSHA256 = ToLower (TrimSpace (ab_ExecutionProofEnvelopeSHA256 b))\<rparr>)"
  by (cases b) (auto simp: CanonicalBinding_def Let_def SafeExecutionAttestationVersionV1_def split: sum.splits if_splits)

lemma attestation_version_trim [simp]: "TrimSpace SafeExecutionAttestationVersionV1 = SafeExecutionAttestationVersionV1"
  by (rule TrimSpace_all_visible) (simp add: SafeExecutionAttestationVersionV1_def visible_def)

lemma CanonicalBinding_idem: "CanonicalBinding b = Inr c \<Longrightarrow> CanonicalBinding c = Inr c"
  unfolding CanonicalBinding_Inr
  by (auto simp: TrimSpace_ToLower dest!: canonicalHexAddress20_Inr
      intro!: canonicalHexAddress20_fixed [simplified])

subsection \<open>Bindings are identified by their digest\<close>

definition canonical_binding :: "SafeExecutionAttestationBindingV1 \<Rightarrow> bool" where
  "canonical_binding c \<longleftrightarrow> CanonicalBinding c = Inr c"

lemma ascii_append [simp]: "ascii (a @ b) \<longleftrightarrow> ascii a \<and> ascii b"
  by (auto simp: ascii_def)

lemma ascii_validHex32: "validHex32 v \<Longrightarrow> TrimSpace v = v \<Longrightarrow> ascii v"
proof -
  assume "validHex32 v" "TrimSpace v = v"
  then obtain b where b: "hex_decode (TrimPrefix v ''0x'') = Some b"
    by (auto simp: validHex32_def validSHA256_iff)
  then have "ascii (TrimPrefix v ''0x'')" by (blast intro: ascii_visible hex_decode_visible)
  then show "ascii v"
    by (auto simp: TrimPrefix_def strip_prefix_Some split: option.splits)
qed

lemma json_binding_inject:
  "json_SafeExecutionAttestationBindingV1 a = json_SafeExecutionAttestationBindingV1 b \<Longrightarrow> a = b"
  by (cases a; cases b) (auto simp: json_SafeExecutionAttestationBindingV1_def)

lemma canonical_binding_ascii:
  assumes "canonical_binding c"
  shows "json_ascii (json_SafeExecutionAttestationBindingV1 c)"
proof -
  from assms obtain s where s: "canonicalHexAddress20 (ab_Safe c) = Inr s" "ab_Safe c = s"
    and h: "validHex32 (ab_SafeTxHash c)" "TrimSpace (ab_SafeTxHash c) = ab_SafeTxHash c"
    and d: "validSHA256 (ab_ExecutionProofEnvelopeSHA256 c)"
    and v: "ab_Version c = SafeExecutionAttestationVersionV1"
    unfolding canonical_binding_def CanonicalBinding_Inr
    by (cases c) (auto, metis TrimSpace_ToLower TrimSpace_idem)
  from canonicalHexAddress20_Inr [OF s(1)] s(2) have "ascii (ab_Safe c)"
    by (auto simp: ascii_visible)
  moreover from d have "ascii (ab_ExecutionProofEnvelopeSHA256 c)"
    by (auto simp: validSHA256_iff intro: ascii_visible hex_decode_visible)
  ultimately show ?thesis
    using ascii_validHex32 [OF h] v
    by (simp add: json_SafeExecutionAttestationBindingV1_def SafeExecutionAttestationVersionV1_def)
qed

interpretation attestation_binding: digest_binding json_SafeExecutionAttestationBindingV1 canonical_binding
  by unfold_locales (auto simp: canonical_binding_ascii json_binding_inject)

subsection \<open>What is attested\<close>

text \<open>The event names this Safe transaction on this chain, its only source is this proof envelope, and
one of its findings is a verified execution binding.\<close>

definition attests :: "Event \<Rightarrow> SafeExecutionAttestationBindingV1 \<Rightarrow> bool" where
  "attests e b \<longleftrightarrow>
     su_Chain (sev_Subject e) = ''eip155:'' @ nat_text 10 (unat (ab_ChainID b)) \<and>
     su_Type (sev_Subject e) = SafeExecutionAttestationSubjectTypeV1 \<and>
     EqualFold (su_ID (sev_Subject e)) (ab_SafeTxHash b) \<and>
     (\<exists>d. sev_SourceDigests e = [d] \<and> EqualFold d (ab_ExecutionProofEnvelopeSHA256 b)) \<and>
     (\<exists>f \<in> set (sev_Findings e). fd_ID f = SafeExecutionAttestationFindingIDV1 \<and>
        fd_Kind f = SafeExecutionAttestationFindingKindV1 \<and> fd_State f = StateVerified \<and>
        EqualFold (fd_EvidenceSHA256 f) (json_digest (json_SafeExecutionAttestationBindingV1 b)))"

definition trust_ok :: "SafeExecutionAttestationTrustV1 \<Rightarrow> bool" where
  "trust_ok t \<longleftrightarrow> TrimSpace (tr_Producer t) \<noteq> [] \<and> TrimSpace (tr_PublicKey t) \<noteq> [] \<and>
     0 < sint (tr_MaxAge t) \<and> 0 \<le> sint (tr_MaxFutureSkew t)"

text \<open>The whole observation window lies between \<open>MaxAge\<close> before and \<open>MaxFutureSkew\<close> after now, in whole
milliseconds and over unbounded integers.\<close>

definition fresh :: "SafeExecutionAttestationTrustV1 \<Rightarrow> int \<Rightarrow> ObservationWindow \<Rightarrow> bool" where
  "fresh t now w \<longleftrightarrow>
     sint (ow_ToUnixMS w) \<le> now + sint (tr_MaxFutureSkew t) div 1000000 \<and>
     now - sint (ow_FromUnixMS w) \<le> sint (tr_MaxAge t) div 1000000"

lemma hasVerified_iff:
  "hasVerifiedSafeExecutionBindingV1 fs d \<longleftrightarrow>
     (\<exists>f \<in> set fs. fd_ID f = SafeExecutionAttestationFindingIDV1 \<and> fd_Kind f = SafeExecutionAttestationFindingKindV1 \<and>
        fd_State f = StateVerified \<and> EqualFold (fd_EvidenceSHA256 f) d)"
  by (induction fs) auto

lemma VerifyEd25519_trim: "VerifyEd25519 verify e (TrimSpace p) (TrimSpace k) = VerifyEd25519 verify e p k"
  unfolding VerifyEd25519_def TrimSpace_idem ..

lemma CanonicalEvent_window:
  "CanonicalEvent e = Inr c \<Longrightarrow> 0 \<le> sint (ow_FromUnixMS (sev_Window c)) \<and> 0 \<le> sint (ow_ToUnixMS (sev_Window c))"
  by (auto simp: CanonicalEvent_Inr event_header_ok_def)

lemma fresh_words:
  assumes "trust_ok t" and "0 \<le> sint now" and "sint now < 2 ^ 62" and "0 \<le> sint (ow_FromUnixMS w)"
  shows "fresh t (sint now) w \<longleftrightarrow>
     \<not> sint (now + Milliseconds (tr_MaxFutureSkew t)) < sint (ow_ToUnixMS w) \<and>
     \<not> sint (Milliseconds (tr_MaxAge t)) < sint (now - ow_FromUnixMS w)"
proof -
  have m: "sint (Milliseconds (tr_MaxFutureSkew t)) = sint (tr_MaxFutureSkew t) div 1000000"
      "sint (Milliseconds (tr_MaxAge t)) = sint (tr_MaxAge t) div 1000000"
    using assms(1) by (simp_all add: Milliseconds_exact trust_ok_def)
  have "0 \<le> sint (tr_MaxFutureSkew t) div 1000000" "sint (tr_MaxFutureSkew t) div 1000000 < 2 ^ 62"
    using assms(1) sint_range [of "tr_MaxFutureSkew t"] by (auto simp: trust_ok_def)
  then have "sint (now + Milliseconds (tr_MaxFutureSkew t)) = sint now + sint (tr_MaxFutureSkew t) div 1000000"
    using assms(2,3) by (subst sint_add_exact) (simp_all add: m)
  moreover have "sint (now - ow_FromUnixMS w) = sint now - sint (ow_FromUnixMS w)"
    using assms(2-4) sint_range [of "ow_FromUnixMS w"] by (intro sint_diff_exact) simp_all
  ultimately show ?thesis by (auto simp: fresh_def m)
qed

lemma attestation_cases:
  "VerifySafeExecutionAttestationV1 verify e b t now =
     (if trust_ok t \<and> (\<exists>cb ce. CanonicalBinding b = Inr cb \<and> CanonicalEvent e = Inr ce \<and> attests ce cb) \<and>
         VerifyEd25519 verify e (tr_Producer t) (tr_PublicKey t) = None
      then (if \<exists>ce. CanonicalEvent e = Inr ce \<and>
              \<not> sint (now + Milliseconds (tr_MaxFutureSkew t)) < sint (ow_ToUnixMS (sev_Window ce)) \<and>
              \<not> sint (Milliseconds (tr_MaxAge t)) < sint (now - ow_FromUnixMS (sev_Window ce))
            then [] else [ReasonStaleAttestation])
      else [ReasonUntrustedAttestation])"
proof -
  have one: "(\<exists>d. ds = [d] \<and> P d) \<longleftrightarrow> length ds = Suc 0 \<and> P (ds ! 0)" for ds and P :: "string \<Rightarrow> bool"
    by (cases ds) auto
  have "SafeExecutionAttestationBindingDigestV1 cb = Inr (json_digest (json_SafeExecutionAttestationBindingV1 cb))"
    if "CanonicalBinding b = Inr cb" for cb
    using CanonicalBinding_idem [OF that] by (simp add: SafeExecutionAttestationBindingDigestV1_def)
  then show ?thesis
    by (cases "CanonicalBinding b"; cases "CanonicalEvent e")
      (auto simp: VerifySafeExecutionAttestationV1_def Let_def trust_ok_def attests_def hasVerified_iff
        VerifyEd25519_trim one split: if_splits)
qed

lemma attestation_accepted_words:
  assumes "0 \<le> sint now" and "sint now < 2 ^ 62"
  shows "VerifySafeExecutionAttestationV1 verify e b t now = [] \<longleftrightarrow>
    trust_ok t \<and> VerifyEd25519 verify e (tr_Producer t) (tr_PublicKey t) = None \<and>
    (\<exists>cb ce. CanonicalBinding b = Inr cb \<and> CanonicalEvent e = Inr ce \<and> attests ce cb \<and>
       fresh t (sint now) (sev_Window ce))"
proof -
  have "fresh t (sint now) (sev_Window ce) \<longleftrightarrow>
     \<not> sint (now + Milliseconds (tr_MaxFutureSkew t)) < sint (ow_ToUnixMS (sev_Window ce)) \<and>
     \<not> sint (Milliseconds (tr_MaxAge t)) < sint (now - ow_FromUnixMS (sev_Window ce))"
    if "trust_ok t" "CanonicalEvent e = Inr ce" for ce
    using CanonicalEvent_window [OF that(2)] that(1) assms by (intro fresh_words) auto
  then show ?thesis unfolding attestation_cases by auto
qed

lemma accepted_attestation:
  assumes "VerifySafeExecutionAttestationV1 verify e b t now = []"
  shows "\<exists>cb ce. CanonicalBinding b = Inr cb \<and> CanonicalEvent e = Inr ce \<and> attests ce cb"
  using assms unfolding attestation_cases by (auto split: if_splits)

lemma attests_same_digest:
  assumes "distinct (map fd_ID (sev_Findings e))" and "attests e b" and "attests e c"
  shows "equalDigest (json_digest (json_SafeExecutionAttestationBindingV1 b))
    (json_digest (json_SafeExecutionAttestationBindingV1 c))"
proof -
  from assms(2) obtain f where f: "f \<in> set (sev_Findings e)" "fd_ID f = SafeExecutionAttestationFindingIDV1"
      "EqualFold (fd_EvidenceSHA256 f) (json_digest (json_SafeExecutionAttestationBindingV1 b))"
    by (auto simp: attests_def)
  from assms(3) obtain g where g: "g \<in> set (sev_Findings e)" "fd_ID g = SafeExecutionAttestationFindingIDV1"
      "EqualFold (fd_EvidenceSHA256 g) (json_digest (json_SafeExecutionAttestationBindingV1 c))"
    by (auto simp: attests_def)
  from assms(1) f(1,2) g(1,2) have "f = g" by (metis distinct_map inj_onD)
  with f(3) g(3) show ?thesis unfolding equalDigest_def by (metis EqualFold_sym EqualFold_trans)
qed

lemma CanonicalEvent_distinct: "CanonicalEvent e = Inr c \<Longrightarrow> distinct (map fd_ID (sev_Findings c))"
  by (auto simp: CanonicalEvent_Inr canonFindings_Inr map_sort_key)

lemma signed_canonical:
  assumes "SignEd25519 newKey sign e k = Inr s" and "CanonicalEvent (e\<lparr>sev_Authentication := None\<rparr>) = Inr c"
  shows "\<exists>a. CanonicalEvent s = Inr (c\<lparr>sev_Authentication := a\<rparr>)"
proof -
  from assms obtain au where "SealEvent (c\<lparr>sev_Authentication := au\<rparr>) = Inr s"
    by (auto simp: SignEd25519_def bindE_Inr split: if_splits)
  then obtain d where d: "CanonicalEvent (c\<lparr>sev_Authentication := au\<rparr>) = Inr d"
      "s = d\<lparr>sev_EventSHA256 := json_digest (json_Event d)\<rparr>" by (auto simp: SealEvent_Inr)
  then obtain a where "d = c\<lparr>sev_Authentication := a\<rparr>"
    using set_authentication [OF CanonicalEvent_idem [OF assms(2)]] by auto
  with d CanonicalEvent_idem [OF d(1)] show ?thesis by auto
qed

lemma attests_authentication [simp]: "attests (c\<lparr>sev_Authentication := a\<rparr>) b = attests c b"
  by (simp add: attests_def)

lemma collector_attestation_ok:
  assumes "SignEd25519 newKey sign e k = Inr s"
    and "\<And>m. verify (drop ed25519_SeedSize k) m (sign k m)"
    and "CanonicalEvent (e\<lparr>sev_Authentication := None\<rparr>) = Inr ce" and "CanonicalBinding b = Inr cb" and "attests ce cb"
    and "trust_ok t" and "TrimSpace (tr_Producer t) = TrimSpace (sev_Producer e)"
    and "tr_PublicKey t = b64_encode (drop ed25519_SeedSize k)"
    and "0 \<le> sint now" and "sint now < 2 ^ 62" and "fresh t (sint now) (sev_Window ce)"
  shows "VerifySafeExecutionAttestationV1 verify s b t now = []"
proof -
  from signed_canonical [OF assms(1,3)] obtain a where "CanonicalEvent s = Inr (ce\<lparr>sev_Authentication := a\<rparr>)" by blast
  moreover have "VerifyEd25519 verify s (tr_Producer t) (tr_PublicKey t) = None"
    unfolding assms(8) using assms(1,2,7) by (rule signed_event_ok)
  ultimately show ?thesis
    unfolding attestation_accepted_words [OF assms(9,10)] using assms(4-6,11) by auto
qed

subsection \<open>Properties\<close>

text \<open>No replay across transactions: an event accepted for two bindings, whatever the trust and the time,
attests the same canonical binding (chain, Safe, transaction hash and proof), or SHA-256 collides on
their two JSON texts.\<close>

theorem attestation_serves_one_binding:
  assumes "VerifySafeExecutionAttestationV1 verify e b t now = []"
    and "VerifySafeExecutionAttestationV1 verify' e b' t' now' = []"
  shows "\<exists>c c'. CanonicalBinding b = Inr c \<and> CanonicalBinding b' = Inr c' \<and>
    (c = c' \<or> sha256_collision (json_print (json_SafeExecutionAttestationBindingV1 c))
      (json_print (json_SafeExecutionAttestationBindingV1 c')))"
proof -
  from accepted_attestation [OF assms(1)] obtain c d
    where c: "CanonicalBinding b = Inr c" "CanonicalEvent e = Inr d" "attests d c" by blast
  from accepted_attestation [OF assms(2)] c(2) obtain c'
    where c': "CanonicalBinding b' = Inr c'" "attests d c'" by auto
  from attests_same_digest [OF CanonicalEvent_distinct [OF c(2)] c(3) c'(2)]
    CanonicalBinding_idem [OF c(1)] CanonicalBinding_idem [OF c'(1)]
  have "c = c' \<or> sha256_collision (json_print (json_SafeExecutionAttestationBindingV1 c))
      (json_print (json_SafeExecutionAttestationBindingV1 c'))"
    by (intro attestation_binding.binds_fold) (simp_all add: canonical_binding_def)
  with c(1) c'(1) show ?thesis by blast
qed

text \<open>C15: For clock readings before the year 146 million, exactly the authentic events that attest this
binding and whose window is fresh over unbounded integers are accepted: no 64-bit sum wraps.\<close>

theorem attestation_accepted_iff:
  assumes "0 \<le> sint now" and "sint now < 2 ^ 62"
  shows "VerifySafeExecutionAttestationV1 verify e b t now = [] \<longleftrightarrow>
    trust_ok t \<and> VerifyEd25519 verify e (tr_Producer t) (tr_PublicKey t) = None \<and>
    (\<exists>cb ce. CanonicalBinding b = Inr cb \<and> CanonicalEvent e = Inr ce \<and> attests ce cb \<and>
       fresh t (sint now) (sev_Window ce))"
  by (rule attestation_accepted_words) (fact assms)+

text \<open>A collector that signs a well-formed attestation with the trusted key is accepted while the
window is fresh, provided the signature scheme verifies its own signatures.\<close>

theorem collector_attestation_accepted:
  assumes "SignEd25519 newKey sign e k = Inr s"
    and "\<And>m. verify (drop ed25519_SeedSize k) m (sign k m)"
    and "CanonicalEvent (e\<lparr>sev_Authentication := None\<rparr>) = Inr ce" and "CanonicalBinding b = Inr cb" and "attests ce cb"
    and "trust_ok t" and "TrimSpace (tr_Producer t) = TrimSpace (sev_Producer e)"
    and "tr_PublicKey t = b64_encode (drop ed25519_SeedSize k)"
    and "0 \<le> sint now" and "sint now < 2 ^ 62" and "fresh t (sint now) (sev_Window ce)"
  shows "VerifySafeExecutionAttestationV1 verify s b t now = []"
  using assms by (rule collector_attestation_ok)

subsection \<open>Witnesses\<close>

definition sample_binding :: SafeExecutionAttestationBindingV1 where
  "sample_binding = \<lparr>ab_Version = SafeExecutionAttestationVersionV1, ab_ChainID = 1,
     ab_Safe = ''0x'' @ hex_encode (replicate 20 CHR ''a''), ab_SafeTxHash = ''0x'' @ hex_encode (replicate 32 CHR ''t''),
     ab_ExecutionProofEnvelopeSHA256 = sha256Hex ''proof''\<rparr>"

definition sample_attestation :: Event where
  "sample_attestation =
     \<lparr>sev_SchemaVersion = SchemaVersionV1, sev_Producer = ''arvis'',
      sev_Subject = \<lparr>su_Chain = ''eip155:1'', su_Type = SafeExecutionAttestationSubjectTypeV1,
        su_ID = ''0x'' @ hex_encode (replicate 32 CHR ''t'')\<rparr>,
      sev_Window = \<lparr>ow_FromUnixMS = 0, ow_ToUnixMS = 0\<rparr>, sev_SourceDigests = [sha256Hex ''proof''],
      sev_Findings = [\<lparr>fd_ID = SafeExecutionAttestationFindingIDV1, fd_Kind = SafeExecutionAttestationFindingKindV1,
        fd_State = StateVerified, fd_Severity = [],
        fd_EvidenceSHA256 = json_digest (json_SafeExecutionAttestationBindingV1 sample_binding), fd_Summary = []\<rparr>],
      sev_Legacy = None, sev_Authentication = None, sev_EventSHA256 = []\<rparr>"

definition sample_trust :: SafeExecutionAttestationTrustV1 where
  "sample_trust = \<lparr>tr_Producer = ''arvis'', tr_PublicKey = b64_encode (drop ed25519_SeedSize (replicate 64 CHR ''k'')),
     tr_MaxAge = 60000000000, tr_MaxFutureSkew = 0\<rparr>"

lemma sample_binding_canonical: "CanonicalBinding sample_binding = Inr sample_binding"
  unfolding CanonicalBinding_Inr
  by (simp add: sample_binding_def canonicalHexAddress20_fixed [simplified] TrimSpace_all_visible visible_def
      validHex32_0x [simplified] validSHA256_iff) 

lemma attestation_names [simp]:
  "TrimSpace SafeExecutionAttestationSubjectTypeV1 = SafeExecutionAttestationSubjectTypeV1"
  "TrimSpace SafeExecutionAttestationFindingIDV1 = SafeExecutionAttestationFindingIDV1"
  "TrimSpace SafeExecutionAttestationFindingKindV1 = SafeExecutionAttestationFindingKindV1"
  by (rule TrimSpace_all_visible, simp add: SafeExecutionAttestationSubjectTypeV1_def
      SafeExecutionAttestationFindingIDV1_def SafeExecutionAttestationFindingKindV1_def visible_def)+

lemma attestation_names_lower [simp]:
  "ToLower SafeExecutionAttestationSubjectTypeV1 = SafeExecutionAttestationSubjectTypeV1"
  "ToLower SafeExecutionAttestationFindingKindV1 = SafeExecutionAttestationFindingKindV1"
  by (simp_all add: SafeExecutionAttestationSubjectTypeV1_def SafeExecutionAttestationFindingKindV1_def
      ToLower_def lower_char_def)

lemma sample_attestation_canonical: "CanonicalEvent sample_attestation = Inr sample_attestation"
proof -
  have "TrimSpace SchemaVersionV1 = SchemaVersionV1"
    by (rule TrimSpace_all_visible) (simp add: SchemaVersionV1_def visible_def)
  moreover have "SafeExecutionAttestationSubjectTypeV1 \<noteq> []" "SafeExecutionAttestationFindingIDV1 \<noteq> []"
      "SafeExecutionAttestationFindingKindV1 \<noteq> []" "ToLower ''eip155:1'' = ''eip155:1''"
    by (simp_all add: SafeExecutionAttestationSubjectTypeV1_def SafeExecutionAttestationFindingIDV1_def
        SafeExecutionAttestationFindingKindV1_def ToLower_def lower_char_def)
  ultimately show ?thesis
    unfolding CanonicalEvent_Inr
    by (simp add: sample_attestation_def event_header_ok_def canonAuthentication_def canonSources_Inr
        canonFindings_Inr finding_ok_def normalize_finding_def TrimSpace_all_visible visible_def)
qed

lemma sample_attests: "attests sample_attestation sample_binding"
  by (simp add: attests_def sample_attestation_def sample_binding_def nat_text.simps [of 10 "Suc 0"] hex_digit_def)
    (simp add: char_of_def bit_0)

text \<open>The concrete run: signed with the toy scheme and checked one second after the window.\<close>

lemma b64_encode_empty [simp]: "b64_encode s = [] \<longleftrightarrow> s = []"
  using b64_encode_inject [of s "[]"] by simp

lemma sample_conditions:
  "CanonicalEvent (sample_attestation\<lparr>sev_Authentication := None\<rparr>) = Inr sample_attestation"
  "trust_ok sample_trust" "TrimSpace (tr_Producer sample_trust) = TrimSpace (sev_Producer sample_attestation)"
  "tr_PublicKey sample_trust = b64_encode (drop ed25519_SeedSize (replicate 64 CHR ''k''))"
  "fresh sample_trust (sint (1000 :: i64)) (sev_Window sample_attestation)"
  using sample_attestation_canonical
  by (simp_all add: trust_ok_def fresh_def sample_trust_def sample_attestation_def TrimSpace_all_visible visible_def
      ed25519_SeedSize_def)

lemma sample_signed:
  "\<exists>s. SignEd25519 toy_newKey toy_sign sample_attestation (replicate 64 CHR ''k'') = Inr s"
  using toy_signs [of sample_attestation sample_attestation] sample_attestation_canonical
  by (simp add: sample_attestation_def)

theorem collector_attestation_accepted_witness:
  "\<exists>s. SignEd25519 toy_newKey toy_sign sample_attestation (replicate 64 CHR ''k'') = Inr s \<and>
     VerifySafeExecutionAttestationV1 toy_verify s sample_binding sample_trust 1000 = []"
proof -
  obtain s where s: "SignEd25519 toy_newKey toy_sign sample_attestation (replicate 64 CHR ''k'') = Inr s"
    using sample_signed by blast
  from collector_attestation_accepted [of toy_newKey toy_sign sample_attestation, OF s, of toy_verify,
      OF toy_verifies sample_conditions(1) sample_binding_canonical sample_attests sample_conditions(2-4) _ _ sample_conditions(5)] s
  show ?thesis by auto
qed

lemma sample_accepted:
  "\<exists>s. VerifySafeExecutionAttestationV1 toy_verify s sample_binding sample_trust 1000 = []"
proof -
  obtain s where s: "SignEd25519 toy_newKey toy_sign sample_attestation (replicate 64 CHR ''k'') = Inr s"
    using sample_signed by blast
  from collector_attestation_ok [of toy_newKey toy_sign sample_attestation, OF s, of toy_verify,
      OF toy_verifies sample_conditions(1) sample_binding_canonical sample_attests sample_conditions(2-4) _ _ sample_conditions(5)]
  show ?thesis by auto
qed

theorem attestation_accepted_iff_witness:
  "\<exists>s. VerifySafeExecutionAttestationV1 toy_verify s sample_binding sample_trust 1000 = [] \<and>
     (\<exists>ce. CanonicalEvent s = Inr ce \<and> attests ce sample_binding \<and> fresh sample_trust 1000 (sev_Window ce))"
proof -
  obtain s where s: "VerifySafeExecutionAttestationV1 toy_verify s sample_binding sample_trust 1000 = []"
    using sample_accepted by blast
  with attestation_accepted_iff [of 1000 toy_verify s sample_binding sample_trust] sample_binding_canonical
  show ?thesis by auto
qed

theorem attestation_serves_one_binding_witness:
  "\<exists>s c. VerifySafeExecutionAttestationV1 toy_verify s sample_binding sample_trust 1000 = [] \<and>
     CanonicalBinding sample_binding = Inr c"
proof -
  obtain s where "VerifySafeExecutionAttestationV1 toy_verify s sample_binding sample_trust 1000 = []"
    using sample_accepted by blast
  with attestation_serves_one_binding [OF this this] show ?thesis by blast
qed

end
