(* ===== verification/Decision.thy ===== *)
theory Decision
  imports Containment
begin

text \<open>
  \<^verbatim>\<open>internal/decision/decision.go\<close>: the one action contract every producer of a security
  decision is translated to (transaction guard, unified radar, execution containment).
  An action nobody recognises is withheld.
\<close>

definition DecisionVersion :: string where "DecisionVersion = ''koschei-decision/v1''"

type_synonym Action = string

definition ActionAllow :: Action where "ActionAllow = ''allow''"
definition ActionWarn :: Action where "ActionWarn = ''warn''"
definition ActionBlock :: Action where "ActionBlock = ''block''"
definition ActionWithhold :: Action where "ActionWithhold = ''withhold''"

lemmas action_defs = ActionAllow_def ActionWarn_def ActionBlock_def ActionWithhold_def

record Contract =
  co_Version :: string
  co_Action :: Action
  co_WithholdReason :: string
  co_Source :: string
  co_LegacyValue :: string

definition NormalizeAction :: "string \<Rightarrow> Action" where
  "NormalizeAction value =
     (let v = ToLower (TrimSpace value) in
      if v = ActionAllow then ActionAllow
      else if v = ActionWarn then ActionWarn
      else if v = ActionBlock then ActionBlock
      else if v = ActionWithhold then ActionWithhold
      else ActionWithhold)"

definition FromTransactionGuard :: "string \<Rightarrow> string \<Rightarrow> Contract" where
  "FromTransactionGuard action withholdReason =
     (let normalized = NormalizeAction action;
          reason = (if normalized = ActionWithhold
            then (let r = TrimSpace withholdReason in
                  if r = [] then ''transaction_guard_evidence_incomplete'' else r)
            else [])
      in \<lparr>co_Version = DecisionVersion, co_Action = normalized, co_WithholdReason = reason,
          co_Source = ''solana_transaction_guard'', co_LegacyValue = TrimSpace action\<rparr>)"

definition radarWithholdReason :: "string \<Rightarrow> string" where
  "radarWithholdReason verdict =
     (let v = ToLower (TrimSpace verdict) in
      if v = ''single_observation'' then ''single_evidence_rule_only''
      else if v = ''watch_only'' then ''watch_only_evidence''
      else if v = ''evidence_only'' then ''evidence_only_mode''
      else if v = ''no_grade_trigger'' then ''no_grade_changing_evidence''
      else ''radar_decision_withheld'')"

definition FromUnifiedRadar :: "string \<Rightarrow> string \<Rightarrow> Contract" where
  "FromUnifiedRadar grade verdict =
     (let grade = ToUpper (TrimSpace grade); legacy = TrimSpace verdict;
          contract = \<lparr>co_Version = DecisionVersion, co_Action = [], co_WithholdReason = [],
            co_Source = ''solana_unified_radar'', co_LegacyValue = grade\<rparr>
      in if grade \<in> {''A'', ''B''} then contract\<lparr>co_Action := ActionAllow\<rparr>
         else if grade = ''C'' then contract\<lparr>co_Action := ActionWarn\<rparr>
         else if grade \<in> {''D'', ''E'', ''F''} then contract\<lparr>co_Action := ActionBlock\<rparr>
         else contract\<lparr>co_Action := ActionWithhold, co_WithholdReason := radarWithholdReason legacy\<rparr>)"

definition FromExecutionContainment :: "string \<Rightarrow> Contract" where
  "FromExecutionContainment value =
     (let legacy = ToUpper (TrimSpace value);
          contract = \<lparr>co_Version = DecisionVersion, co_Action = [], co_WithholdReason = [],
            co_Source = ''evm_execution_containment_adapter'', co_LegacyValue = legacy\<rparr>
      in if legacy = ''RELEASE'' then contract\<lparr>co_Action := ActionAllow\<rparr>
         else if legacy = ''CONTAIN'' then contract\<lparr>co_Action := ActionBlock\<rparr>
         else if legacy = ''UNAVAILABLE''
         then contract\<lparr>co_Action := ActionWithhold, co_WithholdReason := ''execution_backend_unavailable''\<rparr>
         else contract\<lparr>co_Action := ActionWithhold, co_WithholdReason := ''unknown_execution_containment_decision''\<rparr>)"

subsection \<open>Contracts\<close>

lemma actions_distinct [simp]:
  "ActionAllow \<noteq> ActionWarn" "ActionAllow \<noteq> ActionBlock" "ActionAllow \<noteq> ActionWithhold"
  "ActionWarn \<noteq> ActionAllow" "ActionWarn \<noteq> ActionBlock" "ActionWarn \<noteq> ActionWithhold"
  "ActionBlock \<noteq> ActionAllow" "ActionBlock \<noteq> ActionWarn" "ActionBlock \<noteq> ActionWithhold"
  "ActionWithhold \<noteq> ActionAllow" "ActionWithhold \<noteq> ActionWarn" "ActionWithhold \<noteq> ActionBlock"
  by (simp_all add: action_defs)

text \<open>The type invariant of a contract: a known action, and a reason exactly when it is withheld.\<close>

definition contract_ok :: "Contract \<Rightarrow> bool" where
  "contract_ok c \<longleftrightarrow> co_Version c = DecisionVersion \<and>
     co_Action c \<in> {ActionAllow, ActionWarn, ActionBlock, ActionWithhold} \<and>
     (co_Action c = ActionWithhold \<longleftrightarrow> co_WithholdReason c \<noteq> [])"

lemma NormalizeAction_range: "NormalizeAction a \<in> {ActionAllow, ActionWarn, ActionBlock, ActionWithhold}"
  by (simp add: NormalizeAction_def Let_def)

lemma action_fixed [simp]:
  "TrimSpace ActionAllow = ActionAllow" "TrimSpace ActionWarn = ActionWarn"
  "TrimSpace ActionBlock = ActionBlock" "TrimSpace ActionWithhold = ActionWithhold"
  by (rule TrimSpace_all_visible, simp add: action_defs visible_def)+

lemma action_lower [simp]:
  "ToLower ActionAllow = ActionAllow" "ToLower ActionWarn = ActionWarn"
  "ToLower ActionBlock = ActionBlock" "ToLower ActionWithhold = ActionWithhold"
  by (simp_all add: action_defs ToLower_def lower_char_def)

lemma radarWithholdReason_nonempty [simp]: "radarWithholdReason v \<noteq> []"
  by (simp add: radarWithholdReason_def Let_def)

lemma guard_contract_ok: "contract_ok (FromTransactionGuard a r)"
  using NormalizeAction_range [of a] by (auto simp: contract_ok_def FromTransactionGuard_def Let_def)

lemma radar_contract_ok: "contract_ok (FromUnifiedRadar g v)"
  by (simp add: contract_ok_def FromUnifiedRadar_def Let_def)

lemma containment_contract_ok: "contract_ok (FromExecutionContainment v)"
  by (simp add: contract_ok_def FromExecutionContainment_def Let_def)

lemma decision_upper [simp]:
  "ToUpper (TrimSpace DecisionRelease) = ''RELEASE''" "ToUpper (TrimSpace DecisionContain) = ''CONTAIN''"
  "ToUpper (TrimSpace DecisionUnavailable) = ''UNAVAILABLE''"
  by (simp_all add: decision_defs TrimSpace_all_visible visible_def ToUpper_def upper_char_def)

lemma containment_upper:
  "ToUpper (TrimSpace (rc_Decision (EvaluateContainment i v))) = rc_Decision (EvaluateContainment i v)"
  using decision_upper by (simp add: rc_Decision_EvaluateContainment) (simp add: decision_defs)

text \<open>The contract of a containment receipt, from the cell's own release specification.\<close>

lemma containment_contract:
  "FromExecutionContainment (rc_Decision (EvaluateContainment i v)) =
     \<lparr>co_Version = DecisionVersion,
      co_Action = (if \<not> ob_BackendAvailable v then ''withhold''
         else if release_spec (defaultVersion i) v then ''allow'' else ''block''),
      co_WithholdReason = (if \<not> ob_BackendAvailable v then ''execution_backend_unavailable'' else []),
      co_Source = ''evm_execution_containment_adapter'', co_LegacyValue = rc_Decision (EvaluateContainment i v)\<rparr>"
  using release_iff [of i v]
  by (simp add: FromExecutionContainment_def Let_def containment_upper)
     (auto simp: rc_Decision_EvaluateContainment action_defs decision_defs)

lemma radar_action:
  "co_Action (FromUnifiedRadar g w) =
     (if ToUpper (TrimSpace g) \<in> {''A'', ''B''} then ''allow'' else if ToUpper (TrimSpace g) = ''C'' then ''warn''
      else if ToUpper (TrimSpace g) \<in> {''D'', ''E'', ''F''} then ''block'' else ''withhold'')"
  by (simp add: FromUnifiedRadar_def Let_def action_defs)

lemma guard_action:
  "co_Action (FromTransactionGuard a r) =
     (if ToLower (TrimSpace a) \<in> {''allow'', ''warn'', ''block''} then ToLower (TrimSpace a) else ''withhold'')"
  by (simp add: FromTransactionGuard_def NormalizeAction_def Let_def action_defs)

text \<open>A reason is given exactly for a withheld decision.\<close>

lemma contract_reason: "contract_ok c \<Longrightarrow> co_WithholdReason c = [] \<longleftrightarrow> co_Action c \<noteq> ''withhold''"
  by (auto simp: contract_ok_def action_defs)

lemmas radar_reason = contract_reason [OF radar_contract_ok]
lemmas guard_reason = contract_reason [OF guard_contract_ok]

text \<open>Translation fails closed: an action is allowed only for the word ``allow'', for the grades A and B and for
RELEASE, up to case and surrounding space; and normalising an action twice changes nothing.\<close>

theorem allow_only_when_said:
  "(co_Action (FromTransactionGuard a r) = ActionAllow \<longleftrightarrow> ToLower (TrimSpace a) = ''allow'') \<and>
   (co_Action (FromUnifiedRadar g v) = ActionAllow \<longleftrightarrow> ToUpper (TrimSpace g) \<in> {''A'', ''B''}) \<and>
   (co_Action (FromExecutionContainment d) = ActionAllow \<longleftrightarrow> ToUpper (TrimSpace d) = ''RELEASE'') \<and>
   NormalizeAction (NormalizeAction a) = NormalizeAction a"
proof -
  have "NormalizeAction a = ActionAllow \<longleftrightarrow> ToLower (TrimSpace a) = ''allow''"
    by (simp add: NormalizeAction_def Let_def) (simp add: action_defs)
  moreover have "NormalizeAction (NormalizeAction a) = NormalizeAction a"
    using NormalizeAction_range [of a] by (auto simp: NormalizeAction_def [of "NormalizeAction a"] Let_def)
  ultimately show ?thesis
    by (simp add: FromTransactionGuard_def FromUnifiedRadar_def FromExecutionContainment_def Let_def)
qed

text \<open>C18: The contract of a containment receipt says what the cell established: it allows exactly when the
backend answered and the receipt's input and observation meet the release specification, withholds for an unavailable
backend exactly when it did not answer, and blocks everything else. A radar grade allows for A and B, warns for C,
blocks for D, E and F and is withheld otherwise; a guard's word is taken for itself and withheld when it is none of
the four. A contract carries a reason exactly when it is withheld.\<close>

theorem decision_contracts_exact:
  "FromExecutionContainment (rc_Decision (EvaluateContainment i v)) =
     \<lparr>co_Version = DecisionVersion,
      co_Action = (if \<not> ob_BackendAvailable v then ''withhold''
         else if release_spec (defaultVersion i) v then ''allow'' else ''block''),
      co_WithholdReason = (if \<not> ob_BackendAvailable v then ''execution_backend_unavailable'' else []),
      co_Source = ''evm_execution_containment_adapter'', co_LegacyValue = rc_Decision (EvaluateContainment i v)\<rparr> \<and>
   co_Action (FromUnifiedRadar g w) =
     (if ToUpper (TrimSpace g) \<in> {''A'', ''B''} then ''allow'' else if ToUpper (TrimSpace g) = ''C'' then ''warn''
      else if ToUpper (TrimSpace g) \<in> {''D'', ''E'', ''F''} then ''block'' else ''withhold'') \<and>
   co_Action (FromTransactionGuard a r) =
     (if ToLower (TrimSpace a) \<in> {''allow'', ''warn'', ''block''} then ToLower (TrimSpace a) else ''withhold'') \<and>
   (co_WithholdReason (FromUnifiedRadar g w) = [] \<longleftrightarrow> co_Action (FromUnifiedRadar g w) \<noteq> ''withhold'') \<and>
   (co_WithholdReason (FromTransactionGuard a r) = [] \<longleftrightarrow> co_Action (FromTransactionGuard a r) \<noteq> ''withhold'')"
  by (intro conjI containment_contract radar_action guard_action) (simp_all add: radar_reason guard_reason)

end
