(* ===== verification/Rate_Limit.thy ===== *)
theory Rate_Limit
  imports Go_Time Digests "HOL-Library.Mapping"
begin

text \<open>
  \<^verbatim>\<open>internal/http/sensitive_rate_limit.go\<close> and \<^verbatim>\<open>sensitive_rate_limit_memory.go\<close>: the fixed-window
  rate limit of the sensitive routes, and its bounded in-memory store.

  The store is a finite map from bucket keys to buckets. Go iterates a map in an unspecified order:
  \<open>iter\<close> gives the keys in the order of this iteration, and every result holds for all of them.
  The PostgreSQL store is a service outside the repository: \<open>db\<close> is what its one statement
  returns (\<open>request_count <= limit\<close>, the count and the seconds to the reset).
  \<^verbatim>\<open>Sub\<close> and \<^verbatim>\<open>Seconds\<close> are exact for a duration of at most a day, as is the conversion to \<^verbatim>\<open>int64\<close>.
\<close>

record sensitiveLimitRule =
  rl_Limit :: i64
  rl_Window :: duration

record sensitiveLimitDecision =
  ld_Allowed :: bool
  ld_Count :: i64
  ld_Limit :: i64
  ld_Remaining :: i64
  ld_ResetAfterSeconds :: i64

record sensitiveMemoryBucket =
  mb_WindowStartedAt :: instant
  mb_ExpiresAt :: instant
  mb_Count :: i64

type_synonym memory_limits = "(string, sensitiveMemoryBucket) mapping"
type_synonym map_iteration = "memory_limits \<Rightarrow> string list"

definition sensitiveMemoryBucketMax :: nat where "sensitiveMemoryBucketMax = 4096"

subsection \<open>The in-memory store\<close>

definition cleanupSensitiveMemoryLimitsLocked :: "instant \<Rightarrow> memory_limits \<Rightarrow> memory_limits" where
  "cleanupSensitiveMemoryLimitsLocked now items = Mapping.filter (\<lambda>key bucket. now < mb_ExpiresAt bucket) items"

fun oldest_scan :: "memory_limits \<Rightarrow> string list \<Rightarrow> string \<Rightarrow> instant \<Rightarrow> string" where
  "oldest_scan items [] oldestKey oldest = oldestKey"
| "oldest_scan items (key # ks) oldestKey oldest =
     (case Mapping.lookup items key of
        None \<Rightarrow> oldest_scan items ks oldestKey oldest
      | Some bucket \<Rightarrow>
          if oldestKey = [] \<or> mb_ExpiresAt bucket < oldest
          then oldest_scan items ks key (mb_ExpiresAt bucket)
          else oldest_scan items ks oldestKey oldest)"

definition revokeOldestSensitiveMemoryBucketLocked :: "map_iteration \<Rightarrow> memory_limits \<Rightarrow> memory_limits" where
  "revokeOldestSensitiveMemoryBucketLocked iter items =
     (let oldestKey = oldest_scan items (iter items) [] 0 in
      if oldestKey \<noteq> [] then Mapping.delete oldestKey items else items)"

definition limit_bucketKey :: "string \<Rightarrow> string \<Rightarrow> string" where
  "limit_bucketKey keyHash route = TrimSpace keyHash @ [char_of (0 :: nat)] @ TrimSpace route"

definition limit_input_ok :: "string \<Rightarrow> string \<Rightarrow> sensitiveLimitRule \<Rightarrow> bool" where
  "limit_input_ok keyHash route rule \<longleftrightarrow>
     \<not> (keyHash = [] \<or> route = [] \<or> \<not> HasPrefix route ''/api/'' \<or> sint (rl_Limit rule) \<le> 0 \<or>
        sint (rl_Window rule) \<le> 0 \<or> 24 * Hour < sint (rl_Window rule))"

definition limit_decision :: "sensitiveLimitRule \<Rightarrow> sensitiveMemoryBucket \<Rightarrow> instant \<Rightarrow> sensitiveLimitDecision" where
  "limit_decision rule bucket now =
     (let remaining = rl_Limit rule - mb_Count bucket;
          remaining = (if sint remaining < 0 then 0 else remaining);
          reset = (mb_ExpiresAt bucket - now) div Second;
          reset = (if reset < 1 then 1 else reset)
      in \<lparr>ld_Allowed = (sint (mb_Count bucket) \<le> sint (rl_Limit rule)), ld_Count = mb_Count bucket,
          ld_Limit = rl_Limit rule, ld_Remaining = remaining, ld_ResetAfterSeconds = word_of_int reset\<rparr>)"

definition consumeMemorySensitiveLimit ::
  "map_iteration \<Rightarrow> instant \<Rightarrow> string \<Rightarrow> string \<Rightarrow> sensitiveLimitRule \<Rightarrow> instant \<Rightarrow> memory_limits
    \<Rightarrow> (go_error + sensitiveLimitDecision) \<times> memory_limits" where
  "consumeMemorySensitiveLimit iter clock keyHash route rule now items =
     (if \<not> limit_input_ok (TrimSpace keyHash) (TrimSpace route) rule
      then (Inl (ErrMsg ''invalid memory rate limit input''), items)
      else
        (let now = (if now = 0 then clock else now);
             bucketKey = limit_bucketKey keyHash route;
             items = cleanupSensitiveMemoryLimitsLocked now items;
             exists = (Mapping.lookup items bucketKey \<noteq> None);
             fresh = \<lparr>mb_WindowStartedAt = now, mb_ExpiresAt = addTime now (rl_Window rule), mb_Count = 0\<rparr>;
             bucket = (case Mapping.lookup items bucketKey of
                 None \<Rightarrow> fresh
               | Some b \<Rightarrow> if mb_ExpiresAt b \<le> now then fresh else b);
             bucket = bucket\<lparr>mb_Count := mb_Count bucket + 1\<rparr>;
             items = (if sensitiveMemoryBucketMax \<le> Mapping.size items \<and> \<not> exists
               then revokeOldestSensitiveMemoryBucketLocked iter items else items);
             items = Mapping.update bucketKey bucket items
         in (Inr (limit_decision rule bucket now), items)))"

subsection \<open>The rules and the shared store\<close>

definition limit_rule :: "int \<Rightarrow> int \<Rightarrow> sensitiveLimitRule" where
  "limit_rule limit window = \<lparr>rl_Limit = word_of_int limit, rl_Window = word_of_int window\<rparr>"

definition sensitiveRuleForPath :: "string \<Rightarrow> sensitiveLimitRule option" where
  "sensitiveRuleForPath path =
     (let path = TrimSpace path in
      if path = ''/api/owner/login'' then Some (limit_rule 5 (15 * Minute))
      else if path \<in> {''/api/auth/login'', ''/api/auth/register''} then Some (limit_rule 10 (10 * Minute))
      else if path \<in> {''/api/auth/wallet/challenge'', ''/api/auth/wallet/verify''} then Some (limit_rule 10 (5 * Minute))
      else if path = ''/api/customer/web3/transaction-state-recheck'' then Some (limit_rule 30 Minute)
      else if path = ''/api/arvis/preflight'' then Some (limit_rule 30 Minute)
      else if path \<in> {''/api/token/scan'', ''/api/public/transaction-simulate''} then Some (limit_rule 10 Minute)
      else if path \<in> {''/api/v1/radar/check'', ''/api/v1/unified/analyze''} then Some (limit_rule 30 Minute)
      else if path \<in> {''/api/v1/scan/token'', ''/api/v1/shield/preflight'', ''/api/v1/shield/transaction'',
                     ''/api/v1/shield/address-poisoning''} then Some (limit_rule 30 Minute)
      else if path \<in> {''/api/v1/risk/badge'', ''/api/v1/security/risk-badge''} then Some (limit_rule 20 Minute)
      else if path = ''/api/shopier/webhook'' then Some (limit_rule 120 Minute)
      else None)"

definition sensitiveBucketKeyHash :: "string \<Rightarrow> string \<Rightarrow> string" where
  "sensitiveBucketKeyHash clientIP route =
     (let clientIP = TrimSpace clientIP;
          clientIP = (if clientIP = [] then ''unknown'' else clientIP)
      in ''sha256:'' @ sha256Hex (clientIP @ [char_of (0 :: nat)] @ TrimSpace route))"

definition maxSensitiveResetSeconds :: "i64 \<Rightarrow> i64" where
  "maxSensitiveResetSeconds value = (if sint value < 1 then 1 else value)"

text \<open>\<^verbatim>\<open>services.NeonAuthOnlyMode\<close>: the argument is the value of \<^verbatim>\<open>KOSCHEI_NEON_AUTH_ONLY\<close>.\<close>

definition NeonAuthOnlyMode :: "string \<Rightarrow> bool" where
  "NeonAuthOnlyMode env =
     (let value = TrimSpace env in
      EqualFold value ''1'' \<or> EqualFold value ''true'' \<or> EqualFold value ''yes'' \<or> EqualFold value ''on'')"

type_synonym limit_db = "string \<Rightarrow> string \<Rightarrow> int \<Rightarrow> i64 \<Rightarrow> go_error + (bool \<times> i64 \<times> i64)"

definition consumeSharedSensitiveLimit ::
  "limit_db option \<Rightarrow> string \<Rightarrow> map_iteration \<Rightarrow> instant \<Rightarrow> string \<Rightarrow> string \<Rightarrow> sensitiveLimitRule \<Rightarrow> memory_limits
    \<Rightarrow> (go_error + sensitiveLimitDecision) \<times> memory_limits" where
  "consumeSharedSensitiveLimit db neon iter clock keyHash route rule items =
     (case db of
        None \<Rightarrow>
          if NeonAuthOnlyMode neon then consumeMemorySensitiveLimit iter clock keyHash route rule clock items
          else (Inl (ErrMsg ''rate limit database unavailable''), items)
      | Some query \<Rightarrow>
          (let keyHash = TrimSpace keyHash; route = TrimSpace route; windowSeconds = sint (rl_Window rule) sdiv Second in
           if keyHash = [] \<or> route = [] \<or> \<not> HasPrefix route ''/api/'' \<or> sint (rl_Limit rule) \<le> 0 \<or>
              windowSeconds \<le> 0 \<or> 86400 < windowSeconds
           then (Inl (ErrMsg ''invalid shared rate limit input''), items)
           else (case query keyHash route windowSeconds (rl_Limit rule) of
               Inl err \<Rightarrow> (Inl err, items)
             | Inr (allowed, n, reset) \<Rightarrow>
                 (let remaining = rl_Limit rule - n;
                      remaining = (if sint remaining < 0 then 0 else remaining)
                  in (Inr \<lparr>ld_Allowed = allowed, ld_Count = n, ld_Limit = rl_Limit rule,
                       ld_Remaining = remaining, ld_ResetAfterSeconds = reset\<rparr>, items)))))"

subsection \<open>The middleware\<close>

text \<open>The handler's answer: the wrapped handler with the headers already set, or an error response of its own.
Audit events and the background clean-up of the table are effects outside the model.\<close>

datatype limit_answer =
    ServeNext "(string \<times> string) list"
  | Reject nat "(string \<times> string) list" string

definition setSensitiveRateLimitHeaders :: "sensitiveLimitDecision \<Rightarrow> (string \<times> string) list" where
  "setSensitiveRateLimitHeaders d =
     (let l = int_text 10 (sint (ld_Limit d)); m = int_text 10 (sint (ld_Remaining d));
          r = int_text 10 (sint (maxSensitiveResetSeconds (ld_ResetAfterSeconds d)))
      in [(''RateLimit-Limit'', l), (''RateLimit-Remaining'', m), (''RateLimit-Reset'', r),
          (''X-RateLimit-Limit'', l), (''X-RateLimit-Remaining'', m), (''X-RateLimit-Reset'', r)])"

definition limit_unavailable :: "sensitiveLimitRule \<Rightarrow> limit_answer" where
  "limit_unavailable rule = Reject 503
     (setSensitiveRateLimitHeaders \<lparr>ld_Allowed = False, ld_Count = 0, ld_Limit = rl_Limit rule, ld_Remaining = 0,
        ld_ResetAfterSeconds = 1\<rparr> @ [(''Retry-After'', ''1'')]) ''rate_limit_unavailable''"

definition limit_answered :: "sensitiveLimitDecision \<Rightarrow> limit_answer" where
  "limit_answered decision =
     (let headers = setSensitiveRateLimitHeaders decision in
      if \<not> ld_Allowed decision
      then Reject 429 (headers @
        [(''Retry-After'', int_text 10 (sint (maxSensitiveResetSeconds (ld_ResetAfterSeconds decision))))]) ''rate_limit_exceeded''
      else ServeNext headers)"

definition sensitiveRateLimit ::
  "limit_db option \<Rightarrow> string \<Rightarrow> map_iteration \<Rightarrow> instant \<Rightarrow> string \<Rightarrow> string \<Rightarrow> memory_limits \<Rightarrow> limit_answer \<times> memory_limits" where
  "sensitiveRateLimit db neon iter clock clientIP path items =
     (case sensitiveRuleForPath path of
        None \<Rightarrow> (ServeNext [], items)
      | Some rule \<Rightarrow>
          (case consumeSharedSensitiveLimit db neon iter clock (sensitiveBucketKeyHash clientIP path) path rule items of
             (Inl err, items) \<Rightarrow> (limit_unavailable rule, items)
           | (Inr decision, items) \<Rightarrow> (limit_answered decision, items)))"

definition customerStateRecheckRateLimit ::
  "limit_db option \<Rightarrow> string \<Rightarrow> map_iteration \<Rightarrow> instant \<Rightarrow> string \<Rightarrow> memory_limits \<Rightarrow> limit_answer \<times> memory_limits" where
  "customerStateRecheckRateLimit db neon iter clock subject items =
     (let route = ''/api/customer/web3/transaction-state-recheck''; rule = limit_rule 12 Minute in
      if subject = [] then (Reject 401 [] ''unauthorized'', items)
      else (case consumeSharedSensitiveLimit db neon iter clock
               (sensitiveBucketKeyHash (''customer:'' @ subject) route) route rule items of
             (Inl err, items) \<Rightarrow> (limit_unavailable rule, items)
           | (Inr decision, items) \<Rightarrow> (limit_answered decision, items)))"

end
