(* ===== verification/Rate_Limit_Sound.thy ===== *)
theory Rate_Limit_Sound
  imports Rate_Limit
begin

text \<open>
  The store never holds more than its bound whatever requests come in; while no bucket has to be
  evicted a window admits exactly its limit; and the middleware lets a request through only with
  an admitting decision.
\<close>

subsection \<open>The store\<close>

text \<open>What ranging over a map promises: every key is visited.\<close>

definition iterates :: "map_iteration \<Rightarrow> bool" where
  "iterates iter \<longleftrightarrow> (\<forall>m. finite (Mapping.keys m) \<longrightarrow> set (iter m) = Mapping.keys m)"

definition limits_ok :: "memory_limits \<Rightarrow> bool" where
  "limits_ok m \<longleftrightarrow> finite (Mapping.keys m) \<and> [] \<notin> Mapping.keys m \<and> Mapping.size m \<le> sensitiveMemoryBucketMax"

lemma keys_lookup: "k \<in> Mapping.keys m \<longleftrightarrow> Mapping.lookup m k \<noteq> None"
  by (simp add: keys_dom_lookup domIff)

lemma oldest_scan_range: "oldest_scan m ks k t = k \<or> oldest_scan m ks k t \<in> set ks \<inter> Mapping.keys m"
  by (induction ks arbitrary: k t) (auto simp: keys_lookup split: option.splits, metis+)

lemma oldest_scan_found: "k \<noteq> [] \<Longrightarrow> [] \<notin> set ks \<Longrightarrow> oldest_scan m ks k t \<noteq> []"
  by (induction ks arbitrary: k t) (auto split: option.splits)

lemma oldest_scan_nonempty:
  "[] \<notin> set ks \<Longrightarrow> set ks \<inter> Mapping.keys m \<noteq> {} \<Longrightarrow> oldest_scan m ks k t \<noteq> []"
  by (induction ks arbitrary: k t) (auto simp: keys_lookup oldest_scan_found split: option.splits)

text \<open>The scan finds a bucket that expires first.\<close>

lemma oldest_scan_least:
  assumes "k \<noteq> []" and "[] \<notin> set ks"
    and "Mapping.lookup m k = Some b" and "t = mb_ExpiresAt b"
  shows "\<exists>c. Mapping.lookup m (oldest_scan m ks k t) = Some c \<and> mb_ExpiresAt c \<le> t \<and>
    (\<forall>x \<in> set ks. \<forall>d. Mapping.lookup m x = Some d \<longrightarrow> mb_ExpiresAt c \<le> mb_ExpiresAt d)"
  using assms
proof (induction ks arbitrary: k t b)
  case (Cons x ks)
  show ?case
  proof (cases "\<exists>d. Mapping.lookup m x = Some d \<and> mb_ExpiresAt d < t")
    case True
    then obtain d where d: "Mapping.lookup m x = Some d" "mb_ExpiresAt d < t" by blast
    from Cons.prems have x: "x \<noteq> []" "[] \<notin> set ks" by auto
    from Cons.IH [OF x d(1) refl] d show ?thesis by fastforce
  next
    case False
    then have "oldest_scan m (x # ks) k t = oldest_scan m ks k t"
      using Cons.prems by (auto split: option.splits)
    moreover have "mb_ExpiresAt b \<le> mb_ExpiresAt d" if "Mapping.lookup m x = Some d" for d
      using False that Cons.prems(4) by force
    ultimately show ?thesis using Cons.IH [of k b t] Cons.prems by fastforce
  qed
qed auto

lemma revoke_keys:
  assumes "iterates iter" and "finite (Mapping.keys m)" and "[] \<notin> Mapping.keys m" and "Mapping.keys m \<noteq> {}"
  shows "\<exists>k \<in> Mapping.keys m. revokeOldestSensitiveMemoryBucketLocked iter m = Mapping.delete k m"
proof -
  have s: "set (iter m) = Mapping.keys m" using assms(1,2) by (simp add: iterates_def)
  have "oldest_scan m (iter m) [] 0 \<noteq> []" using assms(3,4) s by (intro oldest_scan_nonempty) auto
  moreover from this have "oldest_scan m (iter m) [] 0 \<in> Mapping.keys m" using oldest_scan_range [of m "iter m" "[]" 0] by auto
  ultimately show ?thesis by (auto simp: revokeOldestSensitiveMemoryBucketLocked_def Let_def)
qed

lemma cleanup_keys: "Mapping.keys (cleanupSensitiveMemoryLimitsLocked now m) \<subseteq> Mapping.keys m"
  unfolding cleanupSensitiveMemoryLimitsLocked_def by (rule keys_filter)

lemma cleanup_lookup:
  "Mapping.lookup (cleanupSensitiveMemoryLimitsLocked now m) k =
     (case Mapping.lookup m k of None \<Rightarrow> None | Some b \<Rightarrow> if now < mb_ExpiresAt b then Some b else None)"
  by (simp add: cleanupSensitiveMemoryLimitsLocked_def lookup_filter split: option.splits)

lemma bucketKey_nonempty [simp]: "limit_bucketKey h r \<noteq> []" "[] \<noteq> limit_bucketKey h r"
  by (simp_all add: limit_bucketKey_def)

text \<open>One call, after the input check, in terms of the cleaned store.\<close>

definition next_bucket :: "sensitiveLimitRule \<Rightarrow> instant \<Rightarrow> sensitiveMemoryBucket option \<Rightarrow> sensitiveMemoryBucket" where
  "next_bucket rule now old =
     (case old of
        Some b \<Rightarrow> b\<lparr>mb_Count := mb_Count b + 1\<rparr>
      | None \<Rightarrow> \<lparr>mb_WindowStartedAt = now, mb_ExpiresAt = addTime now (rl_Window rule), mb_Count = 1\<rparr>)"

lemma consume_step:
  assumes "limit_input_ok (TrimSpace h) (TrimSpace r) rule"
  shows "consumeMemorySensitiveLimit iter t h r rule t m =
    (let c = cleanupSensitiveMemoryLimitsLocked t m; k = limit_bucketKey h r;
         b = next_bucket rule t (Mapping.lookup c k);
         e = (if sensitiveMemoryBucketMax \<le> Mapping.size c \<and> Mapping.lookup c k = None
           then revokeOldestSensitiveMemoryBucketLocked iter c else c)
     in (Inr (limit_decision rule b t), Mapping.update k b e))"
proof (cases "Mapping.lookup (cleanupSensitiveMemoryLimitsLocked t m) (limit_bucketKey h r)")
  case None
  with assms show ?thesis by (simp add: consumeMemorySensitiveLimit_def next_bucket_def Let_def)
next
  case (Some b)
  then have "t < mb_ExpiresAt b" by (auto simp: cleanup_lookup split: option.splits if_splits)
  with assms Some show ?thesis by (simp add: consumeMemorySensitiveLimit_def next_bucket_def Let_def)
qed

lemma consume_limits_ok:
  assumes "iterates iter" and "limits_ok m"
  shows "limits_ok (snd (consumeMemorySensitiveLimit iter t h r rule t m))"
proof (cases "limit_input_ok (TrimSpace h) (TrimSpace r) rule")
  case False
  with assms(2) show ?thesis by (simp add: consumeMemorySensitiveLimit_def)
next
  case True
  let ?c = "cleanupSensitiveMemoryLimitsLocked t m" and ?k = "limit_bucketKey h r"
  have f: "finite (Mapping.keys ?c)" "[] \<notin> Mapping.keys ?c" and s: "Mapping.size ?c \<le> sensitiveMemoryBucketMax"
    using assms(2) cleanup_keys [of t m] size_mono [OF _ cleanup_keys, of m t]
    by (auto simp: limits_ok_def dest: finite_subset)
  show ?thesis
  proof (cases "sensitiveMemoryBucketMax \<le> Mapping.size ?c \<and> Mapping.lookup ?c ?k = None")
    case evict: True
    then have "Mapping.keys ?c \<noteq> {}" by (auto simp: Mapping.size_def sensitiveMemoryBucketMax_def)
    from revoke_keys [OF assms(1) f this] obtain k where k: "k \<in> Mapping.keys ?c"
        "revokeOldestSensitiveMemoryBucketLocked iter ?c = Mapping.delete k ?c" by blast
    have "0 < Mapping.size ?c" using evict by (simp add: sensitiveMemoryBucketMax_def)
    with k evict f s show ?thesis
      by (simp add: consume_step [OF True] Let_def limits_ok_def size_update size_delete split: if_splits)
  next
    case keep: False
    with f s show ?thesis
      by (auto simp: consume_step [OF True] Let_def limits_ok_def size_update keys_lookup split: if_splits)
  qed
qed

subsection \<open>Sequences of requests\<close>

record limit_request =
  lq_KeyHash :: string
  lq_Route :: string
  lq_Rule :: sensitiveLimitRule
  lq_Now :: instant

definition bucket_of :: "limit_request \<Rightarrow> string" where
  "bucket_of q = limit_bucketKey (lq_KeyHash q) (lq_Route q)"

definition serve :: "map_iteration \<Rightarrow> limit_request \<Rightarrow> memory_limits \<Rightarrow> (go_error + sensitiveLimitDecision) \<times> memory_limits" where
  "serve iter q = consumeMemorySensitiveLimit iter (lq_Now q) (lq_KeyHash q) (lq_Route q) (lq_Rule q) (lq_Now q)"

fun admitted :: "map_iteration \<Rightarrow> string \<Rightarrow> limit_request list \<Rightarrow> memory_limits \<Rightarrow> bool list" where
  "admitted iter k [] m = []"
| "admitted iter k (q # qs) m =
     (case serve iter q m of (r, m') \<Rightarrow>
        (if bucket_of q = k then [case r of Inl err \<Rightarrow> False | Inr d \<Rightarrow> ld_Allowed d] else []) @ admitted iter k qs m')"

text \<open>Bucket \<open>k\<close> has counted \<open>n\<close> requests of the window that lasts at least until \<open>until\<close>.\<close>

definition counted :: "instant \<Rightarrow> instant \<Rightarrow> string \<Rightarrow> nat \<Rightarrow> memory_limits \<Rightarrow> bool" where
  "counted since until k n m \<longleftrightarrow>
     (case Mapping.lookup m k of
        None \<Rightarrow> n = 0
      | Some b \<Rightarrow> if n = 0 then mb_ExpiresAt b \<le> since else mb_Count b = of_nat n \<and> until \<le> mb_ExpiresAt b)"

lemma sint_of_nat: "n < 2 ^ 63 \<Longrightarrow> sint (of_nat n :: i64) = int n"
  using sint_of_int_exact [of "int n"] by simp

lemma counted_cleanup:
  assumes "counted since until k n m" and "since \<le> t" and "t < until"
  shows "Mapping.lookup (cleanupSensitiveMemoryLimitsLocked t m) k = (if n = 0 then None else Mapping.lookup m k)"
    and "n \<noteq> 0 \<Longrightarrow> \<exists>b. Mapping.lookup m k = Some b \<and> mb_Count b = of_nat n \<and> until \<le> mb_ExpiresAt b"
  using assms by (auto simp: counted_def cleanup_lookup split: option.splits if_splits)

lemma no_eviction:
  assumes "finite u" and "card u \<le> sensitiveMemoryBucketMax" and "Mapping.keys m \<subseteq> u" and "k \<in> u"
    and "Mapping.lookup m k = None"
  shows "Mapping.size m < sensitiveMemoryBucketMax"
proof -
  have "Mapping.keys m \<subset> u" using assms(3-5) by (auto simp: keys_lookup)
  from psubset_card_mono [OF assms(1) this] assms(2) show ?thesis by (simp add: Mapping.size_def)
qed

lemma serve_counted:
  assumes "limit_input_ok (TrimSpace (lq_KeyHash q)) (TrimSpace (lq_Route q)) (lq_Rule q)"
    and "finite u" and "card u \<le> sensitiveMemoryBucketMax" and "Mapping.keys m \<subseteq> u" and "bucket_of q \<in> u"
    and "counted since until k n m" and "since \<le> lq_Now q" and "lq_Now q < until"
    and "bucket_of q = k \<Longrightarrow> until \<le> since + sint (rl_Window (lq_Rule q))" and "n < 2 ^ 63 - 1"
  shows "\<exists>d m'. serve iter q m = (Inr d, m') \<and> Mapping.keys m' \<subseteq> u \<and>
    counted since until k (if bucket_of q = k then Suc n else n) m' \<and>
    (bucket_of q = k \<longrightarrow> (ld_Allowed d \<longleftrightarrow> int (Suc n) \<le> sint (rl_Limit (lq_Rule q))))"
proof -
  let ?t = "lq_Now q" and ?k = "bucket_of q" and ?c = "cleanupSensitiveMemoryLimitsLocked (lq_Now q) m"
  let ?b = "next_bucket (lq_Rule q) ?t (Mapping.lookup ?c ?k)"
  have c: "Mapping.keys ?c \<subseteq> u" using assms(4) cleanup_keys by blast
  have "serve iter q m = (Inr (limit_decision (lq_Rule q) ?b ?t), Mapping.update ?k ?b ?c)"
    using no_eviction [OF assms(2,3) c assms(5)]
    by (auto simp: serve_def consume_step [OF assms(1)] Let_def bucket_of_def)
  moreover have "Mapping.keys (Mapping.update ?k ?b ?c) \<subseteq> u" using c assms(5) by simp
  moreover have "counted since until k (if ?k = k then Suc n else n) (Mapping.update ?k ?b ?c)"
    using counted_cleanup [OF assms(6-8)] assms(6,7,9)
    by (auto simp: counted_def next_bucket_def lookup_update' addTime_def split: option.splits if_splits)
  moreover have "?k = k \<Longrightarrow> mb_Count ?b = of_nat (Suc n)"
    using counted_cleanup [OF assms(6-8)] by (auto simp: next_bucket_def split: option.splits if_splits)
  then have "?k = k \<Longrightarrow> ld_Allowed (limit_decision (lq_Rule q) ?b ?t) \<longleftrightarrow> int (Suc n) \<le> sint (rl_Limit (lq_Rule q))"
    using sint_of_nat [of "Suc n"] assms(10) by (simp add: limit_decision_def Let_def)
  ultimately show ?thesis by blast
qed

lemma admitted_counted:
  assumes "finite u" and "card u \<le> sensitiveMemoryBucketMax" and "Mapping.keys m \<subseteq> u"
    and "counted since until k n m" and "n + length qs < 2 ^ 63"
    and "\<forall>q \<in> set qs. limit_input_ok (TrimSpace (lq_KeyHash q)) (TrimSpace (lq_Route q)) (lq_Rule q) \<and>
      bucket_of q \<in> u \<and> since \<le> lq_Now q \<and> lq_Now q < until \<and>
      (bucket_of q = k \<longrightarrow> until \<le> since + sint (rl_Window (lq_Rule q)) \<and> sint (rl_Limit (lq_Rule q)) = limit)"
  shows "admitted iter k qs m =
    map (\<lambda>i. int (Suc (n + i)) \<le> limit) [0 ..< length (filter (\<lambda>q. bucket_of q = k) qs)]"
  using assms(3-)
proof (induction qs arbitrary: m n)
  case (Cons q qs)
  obtain d m' where d: "serve iter q m = (Inr d, m')" "Mapping.keys m' \<subseteq> u"
      "counted since until k (if bucket_of q = k then Suc n else n) m'"
      "bucket_of q = k \<Longrightarrow> ld_Allowed d \<longleftrightarrow> int (Suc n) \<le> limit"
    using serve_counted [of q u m since until k n iter] Cons.prems assms(1,2) by auto
  show ?case
  proof (cases "bucket_of q = k")
    case True
    with d Cons.prems have "admitted iter k qs m' =
        map (\<lambda>i. int (Suc (Suc n + i)) \<le> limit) [0 ..< length (filter (\<lambda>q. bucket_of q = k) qs)]"
      by (intro Cons.IH) auto
    with d True show ?thesis by (simp add: map_upt_Suc del: upt_Suc)
  next
    case False
    with d Cons.prems have "admitted iter k qs m' =
        map (\<lambda>i. int (Suc (n + i)) \<le> limit) [0 ..< length (filter (\<lambda>q. bucket_of q = k) qs)]"
      by (intro Cons.IH) auto
    with d False show ?thesis by simp
  qed
qed simp

subsection \<open>Rules\<close>

lemma limit_rule_exact:
  assumes "0 < l" and "l < 2 ^ 63" and "0 < w" and "w \<le> 24 * Hour"
  shows "sint (rl_Limit (limit_rule l w)) = l" and "sint (rl_Window (limit_rule l w)) = w"
  using assms by (simp_all add: limit_rule_def sint_of_int_exact time_units)

definition proper_rule :: "sensitiveLimitRule \<Rightarrow> bool" where
  "proper_rule rule \<longleftrightarrow> 5 \<le> sint (rl_Limit rule) \<and> sint (rl_Limit rule) \<le> 120 \<and>
     Minute \<le> sint (rl_Window rule) \<and> sint (rl_Window rule) \<le> 15 * Minute"

lemma proper_limit_rule:
  "5 \<le> l \<Longrightarrow> l \<le> 120 \<Longrightarrow> Minute \<le> w \<Longrightarrow> w \<le> 15 * Minute \<Longrightarrow> proper_rule (limit_rule l w)"
  by (simp add: proper_rule_def limit_rule_exact time_units)

lemma path_rules:
  assumes "sensitiveRuleForPath path = Some rule"
  shows "proper_rule rule \<and> HasPrefix (TrimSpace path) ''/api/''"
  using assms unfolding sensitiveRuleForPath_def Let_def
  by (auto simp: HasPrefix_def time_units intro!: proper_limit_rule split: if_splits)

lemma TrimSpace_keyHash [simp]: "TrimSpace (sensitiveBucketKeyHash ip path) = sensitiveBucketKeyHash ip path"
  by (rule TrimSpace_all_visible) (simp add: sensitiveBucketKeyHash_def Let_def visible_def sha256Hex_def)

lemma keyHash_nonempty: "sensitiveBucketKeyHash ip path \<noteq> []"
  by (simp add: sensitiveBucketKeyHash_def Let_def)

lemma path_input_ok:
  assumes "sensitiveRuleForPath path = Some rule"
  shows "limit_input_ok (TrimSpace (sensitiveBucketKeyHash ip path)) (TrimSpace path) rule"
  using path_rules [OF assms] keyHash_nonempty [of ip path]
  by (auto simp: limit_input_ok_def proper_rule_def time_units HasPrefix_def)

lemma memory_never_fails:
  assumes "sensitiveRuleForPath path = Some rule"
  shows "\<exists>d m'. consumeMemorySensitiveLimit iter t (sensitiveBucketKeyHash ip path) path rule t m = (Inr d, m')"
  by (simp add: consume_step [OF path_input_ok [OF assms]] Let_def)

lemma consume_clock:
  "consumeMemorySensitiveLimit iter clock h r rule now m =
     (let t = if now = 0 then clock else now in consumeMemorySensitiveLimit iter t h r rule t m)"
  by (simp add: consumeMemorySensitiveLimit_def)

subsection \<open>Properties\<close>

text \<open>The stores the process can be in: empty at the start, then any calls in any order.\<close>

inductive limiter_reachable :: "map_iteration \<Rightarrow> memory_limits \<Rightarrow> bool" for iter where
  start: "limiter_reachable iter Mapping.empty"
| call: "limiter_reachable iter m \<Longrightarrow> consumeMemorySensitiveLimit iter clock h r rule now m = (res, m') \<Longrightarrow>
    limiter_reachable iter m'"

text \<open>C19: Memory is bounded: whatever clients ask, in whatever order the map is ranged over, the store never holds
more than 4096 buckets.\<close>

theorem memory_limits_bounded:
  assumes "iterates iter" and "limiter_reachable iter m"
  shows "finite (Mapping.keys m) \<and> Mapping.size m \<le> 4096"
proof -
  from assms(2) have "limits_ok m"
  proof (induction rule: limiter_reachable.induct)
    case start
    then show ?case by (simp add: limits_ok_def)
  next
    case (call m clock h r rule now res m')
    with consume_limits_ok [OF assms(1) call.IH] show ?case by (metis consume_clock snd_conv)
  qed
  then show ?thesis by (simp add: limits_ok_def sensitiveMemoryBucketMax_def)
qed

theorem memory_limits_bounded_witness:
  "Mapping.size (snd (consumeMemorySensitiveLimit Mapping.ordered_keys 5 ''h'' ''/api/x'' (limit_rule 5 Minute) 5 Mapping.empty)) \<le> 4096"
proof -
  let ?c = "consumeMemorySensitiveLimit Mapping.ordered_keys 5 ''h'' ''/api/x'' (limit_rule 5 Minute) 5 Mapping.empty"
  have "iterates Mapping.ordered_keys" by (simp add: iterates_def)
  moreover have "limiter_reachable Mapping.ordered_keys (snd ?c)"
    by (rule limiter_reachable.call [OF limiter_reachable.start, of _ 5 "''h''" "''/api/x''" "limit_rule 5 Minute" 5 "fst ?c"]) simp
  ultimately show ?thesis using memory_limits_bounded by blast
qed

text \<open>C20: The limit is exact while nothing is evicted: when the buckets in use fit in the store, a client whose window is
not open at time \<open>since\<close> gets precisely its first \<open>limit\<close> requests admitted among all those before \<open>since\<close> plus the
window, however they are interleaved with other clients' and whatever the order of their clocks.\<close>

theorem rate_limit_exact:
  assumes "finite u" and "card u \<le> 4096" and "Mapping.keys m \<subseteq> u"
    and "\<And>b. Mapping.lookup m k = Some b \<Longrightarrow> mb_ExpiresAt b \<le> since" and "length qs < 2 ^ 63"
    and "\<And>q. q \<in> set qs \<Longrightarrow> limit_input_ok (TrimSpace (lq_KeyHash q)) (TrimSpace (lq_Route q)) (lq_Rule q) \<and> bucket_of q \<in> u"
    and "\<And>q. q \<in> set qs \<Longrightarrow> bucket_of q = k \<Longrightarrow> lq_Rule q = rule"
    and "\<And>q. q \<in> set qs \<Longrightarrow> since \<le> lq_Now q \<and> lq_Now q < since + sint (rl_Window rule)"
  shows "admitted iter k qs m =
    map (\<lambda>i. int i < sint (rl_Limit rule)) [0 ..< length (filter (\<lambda>q. bucket_of q = k) qs)]"
proof -
  have c: "counted since (since + sint (rl_Window rule)) k 0 m"
    using assms(4) by (auto simp: counted_def split: option.splits)
  have e: "int (Suc (0 + i)) \<le> l \<longleftrightarrow> int i < l" for i l by linarith
  have "admitted iter k qs m =
      map (\<lambda>i. int (Suc (0 + i)) \<le> sint (rl_Limit rule)) [0 ..< length (filter (\<lambda>q. bucket_of q = k) qs)]"
    using assms by (intro admitted_counted [OF assms(1) _ assms(3) c]) (auto simp: sensitiveMemoryBucketMax_def)
  then show ?thesis unfolding e .
qed

definition sample_request :: "instant \<Rightarrow> limit_request" where
  "sample_request t = \<lparr>lq_KeyHash = ''k'', lq_Route = ''/api/r'', lq_Rule = limit_rule 2 Minute, lq_Now = t\<rparr>"

theorem rate_limit_exact_witness:
  "admitted Mapping.ordered_keys (bucket_of (sample_request 9)) [sample_request 9, sample_request 7, sample_request 8]
     Mapping.empty = [True, True, False]"
proof -
  have r: "sint (rl_Limit (limit_rule 2 Minute)) = 2" "sint (rl_Window (limit_rule 2 Minute)) = Minute"
    by (simp_all add: limit_rule_exact time_units)
  note r' = r [unfolded time_units, simplified]
  have "admitted Mapping.ordered_keys (bucket_of (sample_request 9)) [sample_request 9, sample_request 7, sample_request 8]
      Mapping.empty = map (\<lambda>i. int i < sint (rl_Limit (limit_rule 2 Minute)))
        [0 ..< length (filter (\<lambda>q. bucket_of q = bucket_of (sample_request 9)) [sample_request 9, sample_request 7, sample_request 8])]"
    by (rule rate_limit_exact [where u = "{bucket_of (sample_request 9)}" and since = 7])
      (auto simp: sample_request_def bucket_of_def limit_input_ok_def r r' HasPrefix_def time_units
        TrimSpace_all_visible visible_def)
  then show ?thesis by (simp add: r sample_request_def bucket_of_def upt_rec)
qed

text \<open>The middleware fails closed: a sensitive route is served only with an admitting decision, an unavailable store
answers 503, and with the in-memory store every sensitive request gets a decision.\<close>

theorem rate_limit_fails_closed:
  "(fst (sensitiveRateLimit db neon iter clock ip path m) = ServeNext hs \<longrightarrow>
      sensitiveRuleForPath path = None \<or>
      (\<exists>rule d. sensitiveRuleForPath path = Some rule \<and> ld_Allowed d \<and>
         fst (consumeSharedSensitiveLimit db neon iter clock (sensitiveBucketKeyHash ip path) path rule m) = Inr d)) \<and>
   (sensitiveRuleForPath path \<noteq> None \<and> db = None \<longrightarrow>
      (fst (sensitiveRateLimit db neon iter clock ip path m) =
         limit_unavailable (the (sensitiveRuleForPath path)) \<longleftrightarrow> \<not> NeonAuthOnlyMode neon))"
proof -
  have "limit_answered d \<noteq> limit_unavailable rule" for d rule
    by (simp add: limit_answered_def limit_unavailable_def Let_def)
  then show ?thesis
    using memory_never_fails [of path _ iter clock ip m]
    by (auto simp: sensitiveRateLimit_def consumeSharedSensitiveLimit_def limit_answered_def Let_def
        limit_unavailable_def split: option.splits prod.splits sum.splits if_splits)
qed

theorem rate_limit_fails_closed_witness:
  "fst (sensitiveRateLimit None [] Mapping.ordered_keys 5 ''10.0.0.1'' ''/api/owner/login'' Mapping.empty) =
     limit_unavailable (limit_rule 5 (15 * Minute))"
proof -
  have p: "sensitiveRuleForPath ''/api/owner/login'' = Some (limit_rule 5 (15 * Minute))"
    by (simp add: sensitiveRuleForPath_def TrimSpace_all_visible visible_def)
  have "\<not> NeonAuthOnlyMode []" by (simp add: NeonAuthOnlyMode_def EqualFold_def ToLower_def)
  with p rate_limit_fails_closed [of None "[]" Mapping.ordered_keys 5 "''10.0.0.1''" "''/api/owner/login''" Mapping.empty "[]"]
  show ?thesis by simp
qed

end
