(* ===== verification/Single_Flight.thy ===== *)
theory Single_Flight
  imports Prelude
begin

text \<open>
  \<^verbatim>\<open>internal/singleflight/singleflight.go\<close>: duplicate suppression. Callers are threads of a step
  relation whose steps are the code's critical sections and blocking points; any interleaving is a
  run. A thread is one call of \<^verbatim>\<open>Do\<close> or \<^verbatim>\<open>DoContext\<close>, or the goroutine \<^verbatim>\<open>DoContext\<close> starts.

  A closed \<^verbatim>\<open>done\<close> channel is the flag \<open>cl_Done\<close>; the pair \<^verbatim>\<open>val, err\<close> is \<open>cl_Res\<close>, empty until the
  function has returned. The function of \<^verbatim>\<open>Do\<close> runs on the caller's goroutine, so its panic unwinds the
  caller (an HTTP server recovers it); a panic in the goroutine of \<^verbatim>\<open>DoContext\<close> ends the process and is
  not a step.
\<close>

record 'r call =
  cl_Done :: bool
  cl_Res :: "'r option"

type_synonym call_id = nat
type_synonym thread = nat

text \<open>Program points. The flag of the points of the shared work says whether a caller of \<^verbatim>\<open>Do\<close> runs it
itself; \<open>Return\<close> carries the returned pair and the \<^verbatim>\<open>shared\<close> result.\<close>

datatype 'r point =
    Ready
  | Running string call_id bool
  | Finishing string call_id bool
  | Closing call_id bool
  | Waiting call_id
  | Selecting call_id bool
  | Return call_id 'r bool
  | Cancelled bool
  | Ended
  | Panicked string call_id

record 'r flight =
  sf_m :: "string \<rightharpoonup> call_id"
  sf_calls :: "call_id \<rightharpoonup> 'r call"
  sf_at :: "thread \<Rightarrow> 'r point"

definition sf_init :: "'r flight" where
  "sf_init = \<lparr>sf_m = Map.empty, sf_calls = Map.empty, sf_at = (\<lambda>_. Ready)\<rparr>"

datatype 'r action =
    Do thread string call_id
  | DoContext thread string call_id thread
  | DoContextExpired thread
  | FnReturns thread 'r
  | FnPanics thread
  | FinishLocked thread
  | CloseDone thread
  | Receive thread
  | ContextDone thread

definition goto :: "thread \<Rightarrow> 'r point \<Rightarrow> 'r flight \<Rightarrow> 'r flight" where
  "goto p pc s = s\<lparr>sf_at := (sf_at s)(p := pc)\<rparr>"

definition new_call :: "string \<Rightarrow> call_id \<Rightarrow> 'r flight \<Rightarrow> 'r flight" where
  "new_call key c s = s\<lparr>sf_m := (sf_m s)(key \<mapsto> c), sf_calls := (sf_calls s)(c \<mapsto> \<lparr>cl_Done = False, cl_Res = None\<rparr>)\<rparr>"

text \<open>One step; \<open>None\<close> where the action is not enabled. \<open>c\<close> is the identity of a fresh \<^verbatim>\<open>&call\<close>, \<open>q\<close> the
goroutine \<^verbatim>\<open>DoContext\<close> starts for a new call.\<close>

fun sf_step :: "'r action \<Rightarrow> 'r flight \<Rightarrow> 'r flight option" where
  "sf_step (Do p key c) s =
     (if sf_at s p \<noteq> Ready then None
      else (case sf_m s key of
          Some d \<Rightarrow> Some (goto p (Waiting d) s)
        | None \<Rightarrow> if sf_calls s c \<noteq> None then None
                  else Some (goto p (Running key c True) (new_call key c s))))"
| "sf_step (DoContext p key c q) s =
     (if sf_at s p \<noteq> Ready then None
      else (case sf_m s key of
          Some d \<Rightarrow> Some (goto p (Selecting d True) s)
        | None \<Rightarrow> if sf_calls s c \<noteq> None \<or> sf_at s q \<noteq> Ready \<or> q = p then None
                  else Some (goto p (Selecting c False) (goto q (Running key c False) (new_call key c s)))))"
| "sf_step (DoContextExpired p) s = (if sf_at s p \<noteq> Ready then None else Some (goto p (Cancelled False) s))"
| "sf_step (FnReturns p r) s =
     (case sf_at s p of
        Running key c own \<Rightarrow> (case sf_calls s c of
            None \<Rightarrow> None
          | Some cl \<Rightarrow> Some (goto p (Finishing key c own) (s\<lparr>sf_calls := (sf_calls s)(c \<mapsto> cl\<lparr>cl_Res := Some r\<rparr>)\<rparr>)))
      | _ \<Rightarrow> None)"
| "sf_step (FnPanics p) s =
     (case sf_at s p of Running key c own \<Rightarrow> if own then Some (goto p (Panicked key c) s) else None | _ \<Rightarrow> None)"
| "sf_step (FinishLocked p) s =
     (case sf_at s p of
        Finishing key c own \<Rightarrow> Some (goto p (Closing c own)
          (if sf_m s key = Some c then s\<lparr>sf_m := (sf_m s)(key := None)\<rparr> else s))
      | _ \<Rightarrow> None)"
| "sf_step (CloseDone p) s =
     (case sf_at s p of
        Closing c own \<Rightarrow> (case sf_calls s c of
            None \<Rightarrow> None
          | Some cl \<Rightarrow> (case cl_Res cl of
              None \<Rightarrow> None
            | Some r \<Rightarrow> Some (goto p (if own then Return c r False else Ended)
                (s\<lparr>sf_calls := (sf_calls s)(c \<mapsto> cl\<lparr>cl_Done := True\<rparr>)\<rparr>))))
      | _ \<Rightarrow> None)"
| "sf_step (Receive p) s =
     (case (case sf_at s p of Waiting c \<Rightarrow> Some (c, True) | Selecting c shared \<Rightarrow> Some (c, shared) | _ \<Rightarrow> None) of
        None \<Rightarrow> None
      | Some (c, shared) \<Rightarrow> (case sf_calls s c of
            None \<Rightarrow> None
          | Some cl \<Rightarrow> if \<not> cl_Done cl then None
                       else (case cl_Res cl of None \<Rightarrow> None | Some r \<Rightarrow> Some (goto p (Return c r shared) s))))"
| "sf_step (ContextDone p) s =
     (case sf_at s p of Selecting c shared \<Rightarrow> Some (goto p (Cancelled shared) s) | _ \<Rightarrow> None)"

fun sf_run :: "'r action list \<Rightarrow> 'r flight \<Rightarrow> 'r flight option" where
  "sf_run [] s = Some s"
| "sf_run (a # as) s = (case sf_step a s of None \<Rightarrow> None | Some t \<Rightarrow> sf_run as t)"

inductive sf_steps :: "'r flight \<Rightarrow> 'r flight \<Rightarrow> bool" where
  refl: "sf_steps s s"
| step: "sf_steps s t \<Longrightarrow> sf_step a t = Some u \<Longrightarrow> sf_steps s u"

subsection \<open>Invariant\<close>

text \<open>The call a thread is responsible for.\<close>

fun owns :: "'r point \<Rightarrow> call_id option" where
  "owns (Running key c own) = Some c"
| "owns (Finishing key c own) = Some c"
| "owns (Closing c own) = Some c"
| "owns (Panicked key c) = Some c"
| "owns _ = None"

text \<open>What a thread at a point knows of the shared state.\<close>

fun knows :: "'r flight \<Rightarrow> 'r point \<Rightarrow> bool" where
  "knows s (Running key c own) \<longleftrightarrow> sf_m s key = Some c \<and> sf_calls s c = Some \<lparr>cl_Done = False, cl_Res = None\<rparr>"
| "knows s (Panicked key c) \<longleftrightarrow> sf_m s key = Some c \<and> sf_calls s c = Some \<lparr>cl_Done = False, cl_Res = None\<rparr>"
| "knows s (Finishing key c own) \<longleftrightarrow> sf_m s key = Some c \<and> (\<exists>r. sf_calls s c = Some \<lparr>cl_Done = False, cl_Res = Some r\<rparr>)"
| "knows s (Closing c own) \<longleftrightarrow> c \<notin> ran (sf_m s) \<and> (\<exists>r. sf_calls s c = Some \<lparr>cl_Done = False, cl_Res = Some r\<rparr>)"
| "knows s (Waiting c) \<longleftrightarrow> sf_calls s c \<noteq> None"
| "knows s (Selecting c shared) \<longleftrightarrow> sf_calls s c \<noteq> None"
| "knows s (Return c r shared) \<longleftrightarrow> sf_calls s c = Some \<lparr>cl_Done = True, cl_Res = Some r\<rparr>"
| "knows s _ \<longleftrightarrow> True"

definition sf_inv :: "'r flight \<Rightarrow> bool" where
  "sf_inv s \<longleftrightarrow>
     (\<forall>p. knows s (sf_at s p)) \<and>
     (\<forall>p q c. owns (sf_at s p) = Some c \<and> owns (sf_at s q) = Some c \<longrightarrow> p = q) \<and>
     (\<forall>c cl. sf_calls s c = Some cl \<longrightarrow> (if cl_Done cl then cl_Res cl \<noteq> None else \<exists>p. owns (sf_at s p) = Some c)) \<and>
     (\<forall>k c. sf_m s k = Some c \<longrightarrow> sf_calls s c \<noteq> None) \<and>
     (\<forall>k l c. sf_m s k = Some c \<and> sf_m s l = Some c \<longrightarrow> k = l)"

lemma sf_inv_init: "sf_inv sf_init"
  by (simp add: sf_inv_def sf_init_def)

text \<open>The call a thread has to do with at all.\<close>

fun about :: "'r point \<Rightarrow> call_id option" where
  "about (Waiting c) = Some c"
| "about (Selecting c shared) = Some c"
| "about (Return c r shared) = Some c"
| "about pc = owns pc"

lemma about_owns: "owns pc = Some c \<Longrightarrow> about pc = Some c"
  by (cases pc) auto

lemma knows_frame:
  assumes "\<And>c. about pc = Some c \<Longrightarrow> sf_calls t c = sf_calls s c \<and> (\<forall>k. sf_m s k = Some c \<longleftrightarrow> sf_m t k = Some c)"
  shows "knows t pc = knows s pc"
  using assms by (cases pc) (auto simp: ran_def)

lemma goto_simps [simp]:
  "sf_m (goto p pc s) = sf_m s" "sf_calls (goto p pc s) = sf_calls s" "sf_at (goto p pc s) = (sf_at s)(p := pc)"
  by (simp_all add: goto_def)

lemma new_call_simps [simp]:
  "sf_m (new_call k c s) = (sf_m s)(k \<mapsto> c)" "sf_at (new_call k c s) = sf_at s"
  "sf_calls (new_call k c s) = (sf_calls s)(c \<mapsto> \<lparr>cl_Done = False, cl_Res = None\<rparr>)"
  by (simp_all add: new_call_def)

lemma knows_same: "sf_m t = sf_m s \<Longrightarrow> sf_calls t = sf_calls s \<Longrightarrow> knows t = knows s"
proof (rule ext)
  show "knows t pc = knows s pc" if "sf_m t = sf_m s" "sf_calls t = sf_calls s" for pc
    using that by (cases pc) auto
qed

lemma knows_goto [simp]: "knows (goto p pc s) = knows s"
  by (rule knows_same) simp_all

lemma knows_calls: "knows s pc \<Longrightarrow> about pc = Some c \<Longrightarrow> sf_calls s c \<noteq> None"
  by (cases pc) auto

lemma sf_invD:
  assumes "sf_inv s"
  shows "knows s (sf_at s p)"
    and "owns (sf_at s p) = Some c \<Longrightarrow> owns (sf_at s q) = Some c \<Longrightarrow> p = q"
    and "sf_calls s c = Some cl \<Longrightarrow> cl_Done cl \<Longrightarrow> cl_Res cl \<noteq> None"
    and "sf_calls s c = Some cl \<Longrightarrow> \<not> cl_Done cl \<Longrightarrow> \<exists>p. owns (sf_at s p) = Some c"
    and "sf_m s k = Some c \<Longrightarrow> sf_calls s c \<noteq> None"
    and "sf_m s k = Some c \<Longrightarrow> sf_m s l = Some c \<Longrightarrow> k = l"
  using assms unfolding sf_inv_def by (blast | metis)+

text \<open>A thread that owns nothing moves to a point that owns nothing, over an unchanged store.\<close>

lemma sf_inv_move:
  assumes "sf_inv s" and "owns (sf_at s p) = None" and "owns pc = None" and "knows s pc"
  shows "sf_inv (goto p pc s)"
proof -
  have "owns (((sf_at s)(p := pc)) q) = owns (sf_at s q)" for q using assms(2,3) by simp
  then show ?thesis using assms(1,4) by (auto simp: sf_inv_def)
qed

lemma sf_inv_new_call:
  assumes "sf_inv s" and "sf_m s k = None" and "sf_calls s c = None" and "sf_at s p = Ready"
  shows "sf_inv (goto p (Running k c own) (new_call k c s))"
proof -
  let ?t = "goto p (Running k c own) (new_call k c s)"
  note i = sf_invD [OF assms(1)]
  have new: "about (sf_at s q) \<noteq> Some c" "sf_m s l \<noteq> Some c" for q l
    using i(1) [of q] i(5) [of l c] knows_calls [of s "sf_at s q" c] assms(3) by auto
  have "knows ?t (sf_at ?t q)" for q
  proof (cases "q = p")
    case False
    have "knows (new_call k c s) (sf_at s q) = knows s (sf_at s q)"
      using new(1) [of q] new(2) assms(2) by (intro knows_frame) auto
    with i(1) [of q] False show ?thesis by simp
  qed simp
  moreover have "q = r" if "owns (sf_at ?t q) = Some d" "owns (sf_at ?t r) = Some d" for q r d
    using that i(2) [of q d r] new(1) about_owns by (auto split: if_splits)
  moreover have "if cl_Done cl then cl_Res cl \<noteq> None else \<exists>q. owns (sf_at ?t q) = Some d" if "sf_calls ?t d = Some cl" for d cl
  proof (cases "d = c")
    case True
    then show ?thesis using that by auto
  next
    case False
    with that have "sf_calls s d = Some cl" by simp
    with i(3,4) [of d cl] assms(4) show ?thesis by (auto simp: fun_upd_def) (metis owns.simps(5) option.distinct(1))
  qed
  moreover have "sf_calls ?t d \<noteq> None" if "sf_m ?t l = Some d" for l d
    using that i(5) [of l d] by (auto split: if_splits)
  moreover have "l = j" if "sf_m ?t l = Some d" "sf_m ?t j = Some d" for l j d
    using that i(6) [of l d j] new(2) by (auto split: if_splits)
  ultimately show ?thesis unfolding sf_inv_def by blast
qed

text \<open>The owner of a call changes the call or the map, and everything another thread knows stays.\<close>

lemma sf_inv_owner:
  assumes "sf_inv s" and "owns (sf_at s p) = Some c" and "sf_at t = (sf_at s)(p := pc)"
    and "owns pc = Some c \<or> (\<exists>cl. sf_calls t c = Some cl \<and> cl_Done cl \<and> cl_Res cl \<noteq> None \<and> owns pc = None)"
    and "knows t pc" and "\<And>d. d \<noteq> c \<Longrightarrow> sf_calls t d = sf_calls s d" and "sf_calls t c \<noteq> None"
    and "\<And>k d. d \<noteq> c \<Longrightarrow> sf_m t k = Some d \<longleftrightarrow> sf_m s k = Some d" and "\<And>k. sf_m t k = Some c \<Longrightarrow> sf_m s k = Some c"
    and "\<And>cl. sf_calls s c = Some cl \<Longrightarrow> \<not> cl_Done cl" and "owns pc = Some c \<Longrightarrow> \<exists>cl. sf_calls t c = Some cl \<and> \<not> cl_Done cl"
  shows "sf_inv t"
proof -
  note i = sf_invD [OF assms(1)]
  have other: "owns (sf_at s q) \<noteq> Some c" if "q \<noteq> p" for q using i(2) [of q c p] assms(2) that by blast
  have "knows t (sf_at t q)" for q
  proof (cases "q = p")
    case True
    then show ?thesis using assms(3,5) by simp
  next
    case False
    show ?thesis
    proof (cases "about (sf_at s q) = Some c")
      case True
      then show ?thesis using other [OF False] i(1) [of q] assms(3,7,10) False by (cases "sf_at s q") auto
    next
      case not_about: False
      then have "knows t (sf_at s q) = knows s (sf_at s q)"
        using assms(6,8) by (intro knows_frame) metis
      then show ?thesis using i(1) [of q] False assms(3) by simp
    qed
  qed
  moreover have "q = r" if "owns (sf_at t q) = Some d" "owns (sf_at t r) = Some d" for q r d
    using that i(2) [of q d r] other assms(3,4) by (auto split: if_splits)
  moreover have "if cl_Done cl then cl_Res cl \<noteq> None else \<exists>q. owns (sf_at t q) = Some d" if "sf_calls t d = Some cl" for d cl
  proof (cases "d = c")
    case True
    with that assms(3,4,11) show ?thesis by auto
  next
    case False
    with that assms(6) have d: "sf_calls s d = Some cl" by simp
    show ?thesis
    proof (cases "cl_Done cl")
      case True
      with i(3) [OF d] show ?thesis by simp
    next
      case undone: False
      with i(4) [OF d] obtain q where "owns (sf_at s q) = Some d" by blast
      with False assms(2,3) have "owns (sf_at t q) = Some d" by auto
      with undone show ?thesis by auto
    qed
  qed
  moreover have "sf_calls t d \<noteq> None" if "sf_m t k = Some d" for k d
    using that i(5) [of k d] assms(6-9) by (cases "d = c") auto
  moreover have "k = l" if "sf_m t k = Some d" "sf_m t l = Some d" for k l d
    using that i(6) [of k d l] assms(8,9) by (cases "d = c") auto
  ultimately show ?thesis unfolding sf_inv_def by blast
qed

lemma sf_inv_step:
  assumes "sf_inv s" and "sf_step a s = Some t"
  shows "sf_inv t"
proof (cases a)
  case (Do p k c)
  show ?thesis
  proof (cases "sf_m s k")
    case None
    with Do assms show ?thesis by (auto intro!: sf_inv_new_call split: if_splits)
  next
    case (Some d)
    with Do assms show ?thesis by (auto intro!: sf_inv_move dest: sf_invD(5) split: if_splits)
  qed
next
  case (DoContext p k c q)
  show ?thesis
  proof (cases "sf_m s k")
    case None
    with DoContext assms(2) have e: "sf_at s p = Ready" "sf_calls s c = None" "sf_at s q = Ready" "q \<noteq> p"
        "t = goto p (Selecting c False) (goto q (Running k c False) (new_call k c s))"
      by (auto split: if_splits)
    show ?thesis
      unfolding e(5) by (rule sf_inv_move [OF sf_inv_new_call [OF assms(1) None e(2,3)]]) (use e(1,4) in auto)
  next
    case (Some d)
    with DoContext assms show ?thesis
      by (auto intro!: sf_inv_move dest: sf_invD(5) split: if_splits)
  qed
next
  case (FnReturns p r)
  with assms(2) obtain k c own cl where e: "sf_at s p = Running k c own" "sf_calls s c = Some cl"
      "t = goto p (Finishing k c own) (s\<lparr>sf_calls := (sf_calls s)(c \<mapsto> cl\<lparr>cl_Res := Some r\<rparr>)\<rparr>)"
    by (auto split: point.splits option.splits)
  with sf_invD(1) [OF assms(1), of p] show ?thesis
    by (intro sf_inv_owner [OF assms(1), of p c t "Finishing k c own"]) auto
next
  case (FnPanics p)
  with assms(2) obtain k c own where e: "sf_at s p = Running k c own" "t = goto p (Panicked k c) s"
    by (auto split: point.splits if_splits)
  with sf_invD(1) [OF assms(1), of p] show ?thesis
    by (intro sf_inv_owner [OF assms(1), of p c t "Panicked k c"]) auto
next
  case (FinishLocked p)
  with assms(2) obtain k c own where e: "sf_at s p = Finishing k c own"
    by (auto split: point.splits)
  with sf_invD(1) [OF assms(1), of p] FinishLocked assms(2)
  have t: "t = goto p (Closing c own) (s\<lparr>sf_m := (sf_m s)(k := None)\<rparr>)" and k: "sf_m s k = Some c"
    by auto
  have n: "c \<notin> ran ((sf_m s)(k := None))"
  proof
    assume "c \<in> ran ((sf_m s)(k := None))"
    then obtain l where "l \<noteq> k" "sf_m s l = Some c" by (auto simp: ran_def split: if_splits)
    with sf_invD(6) [OF assms(1) k, of l] show False by simp
  qed
  from sf_invD(1) [OF assms(1), of p] e obtain r where r: "sf_calls s c = Some \<lparr>cl_Done = False, cl_Res = Some r\<rparr>" by auto
  show ?thesis
  proof (rule sf_inv_owner [OF assms(1), of p c t "Closing c own"])
    show "sf_m t l = Some d \<longleftrightarrow> sf_m s l = Some d" if "d \<noteq> c" for l d using t k that by simp
    show "sf_m s l = Some c" if "sf_m t l = Some c" for l using t that by (simp split: if_splits)
  qed (simp_all add: e t r n)
next
  case (CloseDone p)
  with assms(2) obtain c own cl r where e: "sf_at s p = Closing c own" "sf_calls s c = Some cl" "cl_Res cl = Some r"
      "t = goto p (if own then Return c r False else Ended) (s\<lparr>sf_calls := (sf_calls s)(c \<mapsto> cl\<lparr>cl_Done := True\<rparr>)\<rparr>)"
    by (auto split: point.splits option.splits)
  with sf_invD(1) [OF assms(1), of p] show ?thesis
    by (intro sf_inv_owner [OF assms(1), of p c t "if own then Return c r False else Ended"]) (auto split: if_splits)
next
  case (Receive p)
  with assms sf_invD(1) [OF assms(1), of p] show ?thesis
    by (auto intro!: sf_inv_move split: point.splits option.splits if_splits)
next
  case (ContextDone p)
  with assms show ?thesis by (auto intro!: sf_inv_move split: point.splits)
next
  case (DoContextExpired p)
  with assms show ?thesis by (auto intro!: sf_inv_move split: if_splits)
qed

lemma sf_inv_steps: "sf_steps s t \<Longrightarrow> sf_inv s \<Longrightarrow> sf_inv t"
  by (induction rule: sf_steps.induct) (auto dest: sf_inv_step)

lemma sf_reachable: "sf_steps sf_init s \<Longrightarrow> sf_inv s"
  using sf_inv_steps sf_inv_init by blast

lemma sf_run_append: "sf_run (as @ bs) s = (case sf_run as s of None \<Rightarrow> None | Some t \<Rightarrow> sf_run bs t)"
  by (induction as arbitrary: s) (auto split: option.splits)

lemma sf_run_steps: "sf_run as s = Some t \<Longrightarrow> sf_steps s t"
proof (induction as arbitrary: t rule: rev_induct)
  case (snoc a as)
  then show ?case by (auto simp: sf_run_append intro: sf_steps.step split: option.splits)
qed (simp add: sf_steps.refl)

subsection \<open>Progress\<close>

text \<open>A thread waits for a call, or has been served its result.\<close>

definition waits_for :: "'r flight \<Rightarrow> thread \<Rightarrow> call_id \<Rightarrow> bool" where
  "waits_for s p c \<longleftrightarrow> sf_at s p = Waiting c \<or> (\<exists>shared. sf_at s p = Selecting c shared)"

definition served :: "'r flight \<Rightarrow> thread \<Rightarrow> call_id \<Rightarrow> bool" where
  "served s p c \<longleftrightarrow> (\<exists>r shared. sf_at s p = Return c r shared)"

fun actor :: "'r action \<Rightarrow> thread" where
  "actor (Do p key c) = p"
| "actor (DoContext p key c q) = p"
| "actor (DoContextExpired p) = p"
| "actor (FnReturns p r) = p"
| "actor (FnPanics p) = p"
| "actor (FinishLocked p) = p"
| "actor (CloseDone p) = p"
| "actor (Receive p) = p"
| "actor (ContextDone p) = p"

text \<open>The steps that bring the waiter on are its own and those of the owner of its call; the owner's panic and the
waiter's own cancellation are the steps that do not.\<close>

definition works :: "'r flight \<Rightarrow> thread \<Rightarrow> call_id \<Rightarrow> 'r action \<Rightarrow> bool" where
  "works s p c a \<longleftrightarrow> actor a = p \<or> owns (sf_at s (actor a)) = Some c"

definition gives_up :: "'r flight \<Rightarrow> thread \<Rightarrow> call_id \<Rightarrow> 'r action \<Rightarrow> bool" where
  "gives_up s p c a \<longleftrightarrow> a = ContextDone p \<or> (\<exists>q. a = FnPanics q \<and> owns (sf_at s q) = Some c)"

text \<open>How many of these steps are left.\<close>

definition due :: "thread \<Rightarrow> call_id \<Rightarrow> 'r flight \<Rightarrow> nat \<Rightarrow> bool" where
  "due p c s n \<longleftrightarrow>
     (if n = 0 then served s p c
      else waits_for s p c \<and>
        (n = 1 \<and> (\<exists>r. sf_calls s c = Some \<lparr>cl_Done = True, cl_Res = Some r\<rparr>) \<or>
         n = 2 \<and> (\<exists>q own. sf_at s q = Closing c own) \<or>
         n = 3 \<and> (\<exists>q k own. sf_at s q = Finishing k c own) \<or>
         n = 4 \<and> (\<exists>q k own. sf_at s q = Running k c own)))"

lemma due_waiting:
  assumes "sf_inv s" and "waits_for s p c" and "\<And>q k. sf_at s q \<noteq> Panicked k c"
  obtains n where "due p c s n" "n \<le> 4"
proof -
  note i = sf_invD [OF assms(1)]
  from i(1) [of p] assms(2) obtain cl where cl: "sf_calls s c = Some cl" by (auto simp: waits_for_def)
  show thesis
  proof (cases "cl_Done cl")
    case True
    with i(3) [OF cl] obtain r where "sf_calls s c = Some \<lparr>cl_Done = True, cl_Res = Some r\<rparr>"
      using cl by (cases cl) auto
    with assms(2) show thesis by (intro that [of 1]) (auto simp: due_def)
  next
    case False
    from i(4) [OF cl False] obtain q where q: "owns (sf_at s q) = Some c" by blast
    with assms(3) [of q] consider key own where "sf_at s q = Running key c own"
      | key own where "sf_at s q = Finishing key c own" | own where "sf_at s q = Closing c own"
      by (cases "sf_at s q") auto
    then show thesis
    proof cases
      case 1
      with assms(2) show thesis by (intro that [of 4]) (auto simp: due_def)
    next
      case 2
      with assms(2) show thesis by (intro that [of 3]) (auto simp: due_def)
    next
      case 3
      with assms(2) show thesis by (intro that [of 2]) (auto simp: due_def)
    qed
  qed
qed

lemma due_enabled:
  assumes "sf_inv s" and "due p c s n" and "n \<noteq> 0"
  obtains a where "works s p c a" "\<not> gives_up s p c a" "sf_step a s \<noteq> None"
proof -
  note i = sf_invD(1) [OF assms(1)]
  from assms(2,3) consider
      (1) r where "waits_for s p c" "sf_calls s c = Some \<lparr>cl_Done = True, cl_Res = Some r\<rparr>"
    | (2) q own where "sf_at s q = Closing c own"
    | (3) q k own where "sf_at s q = Finishing k c own"
    | (4) q k own where "sf_at s q = Running k c own"
    by (auto simp: due_def)
  then show thesis
  proof cases
    case 1
    then show thesis by (intro that [of "Receive p"]) (auto simp: works_def gives_up_def waits_for_def)
  next
    case 2
    with i [of q] show thesis by (intro that [of "CloseDone q"]) (auto simp: works_def gives_up_def)
  next
    case 3
    with i [of q] show thesis by (intro that [of "FinishLocked q"]) (auto simp: works_def gives_up_def)
  next
    case 4
    with i [of q] show thesis by (intro that [of "FnReturns q undefined"]) (auto simp: works_def gives_up_def)
  qed
qed

text \<open>The owner's point tells how many steps are left.\<close>

lemma due_owner:
  assumes "sf_inv s" and "due p c s n" and "owns (sf_at s q) = Some c"
  shows "waits_for s p c \<and> q \<noteq> p \<and> n \<noteq> 0 \<and> n \<noteq> 1 \<and>
    (n = 2 \<longrightarrow> (\<exists>own. sf_at s q = Closing c own)) \<and> (n = 3 \<longrightarrow> (\<exists>k own. sf_at s q = Finishing k c own)) \<and>
    (n = 4 \<longrightarrow> (\<exists>k own. sf_at s q = Running k c own)) \<and> n \<le> 4"
proof -
  note k = sf_invD(1) [OF assms(1)]
  have undone: "\<exists>cl. sf_calls s c = Some cl \<and> \<not> cl_Done cl"
    using assms(3) k [of q] by (cases rule: owns.elims) auto
  have "q = q'" if "owns (sf_at s q') = Some c" for q' using sf_invD(2) [OF assms(1,3) that] .
  then have same: "sf_at s q' = Closing c own \<Longrightarrow> q' = q" "sf_at s q' = Finishing key c own \<Longrightarrow> q' = q"
      "sf_at s q' = Running key c own \<Longrightarrow> q' = q" for q' key own
    by (metis owns.simps(1-3))+
  have "\<not> served s p c" using undone k [of p] by (auto simp: served_def)
  then have "n \<noteq> 0" using assms(2) by (cases "n = 0") (simp_all add: due_def)
  moreover from this assms(2) have w: "waits_for s p c" by (simp add: due_def)
  moreover from w assms(3) have "q \<noteq> p" by (auto simp: waits_for_def)
  ultimately show ?thesis using assms(2) undone same by (auto simp: due_def)
qed

lemma owner_step:
  assumes "sf_inv s" and "due p c s n" and "sf_step a s = Some t" and "owns (sf_at s (actor a)) = Some c"
    and "\<And>q. a \<noteq> FnPanics q"
  shows "due p c t (n - 1) \<and> n \<noteq> 0"
proof -
  note d = due_owner [OF assms(1,2,4)]
  note k = sf_invD(1) [OF assms(1), of "actor a"]
  have w: "waits_for t p c" if "sf_at t p = sf_at s p" using d that by (simp add: waits_for_def)
  consider "n = 2" | "n = 3" | "n = 4" using d by linarith
  then show ?thesis
  proof cases
    case 1
    with d obtain own where o: "sf_at s (actor a) = Closing c own" by blast
    with assms(3,5) have a: "a = CloseDone (actor a)" by (cases a) auto
    have "sf_at t p = sf_at s p \<and> (\<exists>r. sf_calls t c = Some \<lparr>cl_Done = True, cl_Res = Some r\<rparr>)"
      using assms(3) o k d by (subst (asm) a) auto
    with w 1 show ?thesis by (auto simp: due_def)
  next
    case 2
    with d obtain key own where o: "sf_at s (actor a) = Finishing key c own" by blast
    with assms(3,5) have a: "a = FinishLocked (actor a)" by (cases a) auto
    have "sf_at t p = sf_at s p \<and> sf_at t (actor a) = Closing c own"
      using assms(3) o k d by (subst (asm) a) auto
    with w 2 show ?thesis by (auto simp: due_def)
  next
    case 3
    with d obtain key own where o: "sf_at s (actor a) = Running key c own" by blast
    with assms(3,5) obtain r where a: "a = FnReturns (actor a) r" by (cases a) auto
    have "sf_at t p = sf_at s p \<and> sf_at t (actor a) = Finishing key c own"
      using assms(3) o k d by (subst (asm) a) auto
    with w 3 show ?thesis by (auto simp: due_def)
  qed
qed

text \<open>A step of a thread that does not own the call leaves the call and every other started thread alone.\<close>

lemma other_step:
  assumes "sf_step a s = Some t" and "sf_inv s" and "sf_calls s c \<noteq> None" and "owns (sf_at s (actor a)) \<noteq> Some c"
  shows "sf_calls t c = sf_calls s c" and "q \<noteq> actor a \<Longrightarrow> sf_at s q \<noteq> Ready \<Longrightarrow> sf_at t q = sf_at s q"
  using assms by (cases a; auto split: if_splits option.splits point.splits)+

lemma bystander_step:
  assumes "sf_inv s" and "due p c s n" and "sf_step a s = Some t" and "\<not> works s p c a"
  shows "due p c t n"
proof -
  note k = sf_invD(1) [OF assms(1)]
  from assms(4) have a: "actor a \<noteq> p" "owns (sf_at s (actor a)) \<noteq> Some c" by (simp_all add: works_def)
  have "waits_for s p c \<or> served s p c" using assms(2) by (auto simp: due_def split: if_splits)
  with k [of p] have c: "sf_calls s c \<noteq> None" "sf_at s p \<noteq> Ready" by (auto simp: waits_for_def served_def)
  note o = other_step [OF assms(3,1) c(1) a(2)]
  have p: "sf_at t p = sf_at s p" using o(2) [of p] a(1) c(2) by auto
  have q: "sf_at t q = sf_at s q" if "owns (sf_at s q) = Some c" for q
  proof -
    have "q \<noteq> actor a" "sf_at s q \<noteq> Ready" using that a(2) by auto
    then show ?thesis by (rule o(2))
  qed
  from assms(2) p o(1) q show ?thesis
    unfolding due_def waits_for_def served_def by (metis owns.simps(1-3))
qed

lemma own_step:
  assumes "sf_inv s" and "due p c s n" and "sf_step a s = Some t" and "actor a = p" and "a \<noteq> ContextDone p"
  shows "n = 1 \<and> due p c t 0"
proof -
  note k = sf_invD(1) [OF assms(1)]
  have "n \<noteq> 0"
  proof
    assume "n = 0"
    with assms(2) obtain r sh where "sf_at s p = Return c r sh" by (auto simp: due_def served_def)
    with assms(3,4) show False by (cases a) (auto split: if_splits)
  qed
  with assms(2) have w: "waits_for s p c" by (simp add: due_def)
  with assms(3-5) have a: "a = Receive p" by (cases a) (auto simp: waits_for_def)
  have r: "\<exists>cl r sh. sf_calls s c = Some cl \<and> cl_Done cl \<and> sf_at t p = Return c r sh"
    using assms(3) w by (subst (asm) a) (auto simp: waits_for_def split: option.splits if_splits, blast)
  have "n = 1"
  proof (rule ccontr)
    assume "n \<noteq> 1"
    with assms(2) \<open>n \<noteq> 0\<close> obtain q where "\<exists>own. sf_at s q = Closing c own \<or> (\<exists>key. sf_at s q = Finishing key c own \<or> sf_at s q = Running key c own)"
      by (auto simp: due_def)
    with k [of q] r show False by auto
  qed
  with r show ?thesis by (auto simp: due_def served_def)
qed

text \<open>Whatever step is taken, the waiter comes nearer by exactly the steps that are its own or its owner's.\<close>

lemma due_step:
  assumes "sf_inv s" and "due p c s n" and "sf_step a s = Some t" and "\<not> gives_up s p c a"
  shows "due p c t (if works s p c a then n - 1 else n) \<and> (works s p c a \<longrightarrow> n \<noteq> 0)"
proof (cases "works s p c a")
  case False
  with bystander_step [OF assms(1-3)] show ?thesis by simp
next
  case True
  show ?thesis
  proof (cases "actor a = p")
    case True
    have "a \<noteq> ContextDone p" using assms(4) by (simp add: gives_up_def)
    from own_step [OF assms(1-3) True this] \<open>works s p c a\<close> show ?thesis by simp
  next
    case False
    with True have o: "owns (sf_at s (actor a)) = Some c" by (simp add: works_def)
    with assms(4) have "a \<noteq> FnPanics q" for q by (auto simp: gives_up_def)
    with owner_step [OF assms(1-3) o] True show ?thesis by simp
  qed
qed

text \<open>The same along a run, with the owner named at its start: no thread comes to own the call, and one that has stopped
owning it takes no further step.\<close>

definition due_from :: "'r flight \<Rightarrow> thread \<Rightarrow> call_id \<Rightarrow> 'r flight \<Rightarrow> nat \<Rightarrow> bool" where
  "due_from s p c t n \<longleftrightarrow> sf_inv t \<and> due p c t n \<and>
     (\<forall>q. owns (sf_at t q) = Some c \<longrightarrow> owns (sf_at s q) = Some c) \<and>
     (\<forall>q. owns (sf_at s q) = Some c \<and> owns (sf_at t q) \<noteq> Some c \<longrightarrow> sf_at t q = Ended \<or> served t q c)"

lemma due_from_owner:
  assumes "due_from s p c t n" and "sf_step a t \<noteq> None"
  shows "owns (sf_at s (actor a)) = Some c \<longleftrightarrow> owns (sf_at t (actor a)) = Some c"
proof -
  have "owns (sf_at t (actor a)) = Some c" if "owns (sf_at s (actor a)) = Some c"
  proof (rule ccontr)
    assume "owns (sf_at t (actor a)) \<noteq> Some c"
    with assms(1) that have "sf_at t (actor a) = Ended \<or> (\<exists>r sh. sf_at t (actor a) = Return c r sh)"
      by (auto simp: due_from_def served_def)
    with assms(2) show False by (cases a) (auto split: if_splits)
  qed
  with assms(1) show ?thesis by (auto simp: due_from_def)
qed

lemma due_from_same:
  assumes "due_from s p c t n" and "sf_step a t \<noteq> None"
  shows "works s p c a \<longleftrightarrow> works t p c a" and "gives_up s p c a \<longleftrightarrow> gives_up t p c a"
  using due_from_owner [OF assms] by (auto simp: works_def gives_up_def)

lemma no_new_owner:
  assumes "sf_step a s = Some t" and "sf_calls s c \<noteq> None" and "owns (sf_at t q) = Some c"
  shows "owns (sf_at s q) = Some c"
  using assms by (cases a) (auto split: if_splits option.splits point.splits)

lemma owner_ends:
  assumes "sf_step a s = Some t" and "owns (sf_at s q) = Some c" and "owns (sf_at t q) \<noteq> Some c"
  shows "sf_at t q = Ended \<or> served t q c"
  using assms by (cases a) (auto simp: served_def split: if_splits option.splits point.splits)

lemma ended_stays:
  assumes "sf_step a s = Some t" and "sf_at s q = Ended \<or> served s q c"
  shows "sf_at t q = Ended \<or> served t q c"
  using assms by (cases a) (auto simp: served_def split: if_splits option.splits point.splits)

lemma due_from_step:
  assumes "due_from s p c t n" and "sf_step a t = Some u" and "\<not> gives_up s p c a"
  shows "due_from s p c u (if works s p c a then n - 1 else n) \<and> (works s p c a \<longrightarrow> n \<noteq> 0)"
proof -
  from assms(2) have e: "sf_step a t \<noteq> None" by simp
  from assms(1) have t: "sf_inv t" "due p c t n" by (simp_all add: due_from_def)
  from t(2) have "waits_for t p c \<or> served t p c" by (auto simp: due_def split: if_splits)
  with sf_invD(1) [OF t(1), of p] have c: "sf_calls t c \<noteq> None" by (auto simp: waits_for_def served_def)
  note same = due_from_same [OF assms(1) e]
  from due_step [OF t assms(2)] assms(3) same
  have d: "due p c u (if works s p c a then n - 1 else n) \<and> (works s p c a \<longrightarrow> n \<noteq> 0)" by simp
  have "owns (sf_at s q) = Some c" if "owns (sf_at u q) = Some c" for q
    using no_new_owner [OF assms(2) c that] assms(1) by (simp add: due_from_def)
  moreover have "sf_at u q = Ended \<or> served u q c" if "owns (sf_at s q) = Some c" "owns (sf_at u q) \<noteq> Some c" for q
  proof (cases "owns (sf_at t q) = Some c")
    case True
    from owner_ends [OF assms(2) True that(2)] show ?thesis .
  next
    case False
    with that(1) assms(1) have "sf_at t q = Ended \<or> served t q c" unfolding due_from_def by blast
    from ended_stays [OF assms(2) this] show ?thesis .
  qed
  ultimately show ?thesis using d sf_inv_step [OF t(1) assms(2)] by (simp add: due_from_def)
qed

lemma due_run:
  assumes "sf_inv s" and "due p c s n" and "sf_run as s = Some t" and "\<forall>a \<in> set as. \<not> gives_up s p c a"
  shows "due_from s p c t (n - length (filter (works s p c) as)) \<and> length (filter (works s p c) as) \<le> n"
  using assms(3,4)
proof (induction as arbitrary: t rule: rev_induct)
  case Nil
  with assms(1,2) show ?case by (simp add: due_from_def)
next
  case (snoc a as)
  then obtain u where u: "sf_run as s = Some u" "sf_step a u = Some t"
    by (auto simp: sf_run_append split: option.splits)
  from snoc.IH [OF u(1)] snoc.prems(2)
  have d: "due_from s p c u (n - length (filter (works s p c) as))" and l: "length (filter (works s p c) as) \<le> n"
    by simp_all
  from due_from_step [OF d u(2)] snoc.prems(2) l show ?case by (auto split: if_splits)
qed

lemma due_from_goal:
  assumes "due_from s p c t n"
  shows "served t p c \<or> waits_for t p c \<and> n \<noteq> 0 \<and> (\<exists>a. works s p c a \<and> \<not> gives_up s p c a \<and> sf_step a t \<noteq> None)"
proof (cases "n = 0")
  case True
  with assms show ?thesis by (simp add: due_from_def due_def)
next
  case False
  from assms have t: "sf_inv t" "due p c t n" by (simp_all add: due_from_def)
  from due_enabled [OF t False] obtain a where a: "works t p c a" "\<not> gives_up t p c a" "sf_step a t \<noteq> None" by blast
  note same = due_from_same [OF assms a(3)]
  from a same have "works s p c a" by simp
  moreover have "waits_for t p c" using t(2) False by (simp add: due_def)
  moreover have "\<not> gives_up s p c a" using a same by simp
  ultimately show ?thesis using a(3) False by blast
qed

lemma panicked_stays: "sf_step a s = Some t \<Longrightarrow> sf_at s q = Panicked k c \<Longrightarrow> sf_at t q = Panicked k c"
  by (cases a) (auto split: if_splits option.splits point.splits)

lemma waiting_stays:
  assumes "sf_step a s = Some t" and "sf_at s p = Waiting c" and "sf_calls s c = Some cl" and "\<not> cl_Done cl"
  shows "sf_at t p = Waiting c"
  using assms by (cases a) (auto split: if_splits option.splits point.splits)

lemma results_returned:
  assumes "sf_run as sf_init = Some s" and "sf_calls s c = Some cl" and "cl_Res cl = Some r"
  shows "\<exists>p. FnReturns p r \<in> set as"
  using assms
proof (induction as arbitrary: s cl rule: rev_induct)
  case Nil
  then show ?case by (auto simp: sf_init_def)
next
  case (snoc a as)
  then obtain u where u: "sf_run as sf_init = Some u" "sf_step a u = Some s"
    by (auto simp: sf_run_append split: option.splits)
  show ?case
  proof (cases "\<exists>p. a = FnReturns p r")
    case False
    then have "\<exists>cl. sf_calls u c = Some cl \<and> cl_Res cl = Some r"
      using u(2) snoc.prems(2,3) by (cases a) (auto split: if_splits option.splits point.splits)
    with snoc.IH [OF u(1)] show ?thesis by auto
  qed auto
qed

subsection \<open>Properties\<close>

text \<open>C21: Single flight: in every reachable state at most one thread executes a function for a key, whatever the
interleaving of calls, cancellations and panics.\<close>

theorem one_execution_per_key:
  assumes "sf_steps sf_init s" and "sf_at s p = Running k c own" and "sf_at s q = Running k d own'"
  shows "p = q \<and> c = d"
proof -
  note i = sf_invD [OF sf_reachable [OF assms(1)]]
  from i(1) [of p] i(1) [of q] assms(2,3) have "c = d" by simp
  with i(2) [of p c q] assms(2,3) show ?thesis by simp
qed

definition sample_flight :: "string action list" where
  "sample_flight = [Do 0 ''k'' 0, Do 1 ''k'' 7, DoContext 2 ''k'' 7 9]"

lemma sample_flight_run:
  "\<exists>s. sf_run sample_flight sf_init = Some s \<and> sf_at s 0 = Running ''k'' 0 True \<and> sf_at s 1 = Waiting 0 \<and>
     sf_at s 2 = Selecting 0 True \<and> (\<forall>q k c. sf_at s q \<noteq> Panicked k c)"
  by (simp add: sample_flight_def sf_init_def goto_def new_call_def)

theorem one_execution_per_key_witness:
  "\<exists>s. sf_run sample_flight sf_init = Some s \<and> sf_at s 0 = Running ''k'' 0 True \<and>
     (\<forall>q d own. sf_at s q = Running ''k'' d own \<longrightarrow> q = 0)"
proof -
  obtain s where s: "sf_run sample_flight sf_init = Some s" "sf_at s 0 = Running ''k'' 0 True"
    using sample_flight_run by blast
  from one_execution_per_key [OF sf_run_steps [OF s(1)] _ s(2)] s show ?thesis by blast
qed

text \<open>All callers that share a call receive one and the same result, and it is a result some function returned in
the run.\<close>

theorem shared_result_agrees:
  assumes "sf_run as sf_init = Some s" and "sf_at s p = Return c r shared" and "sf_at s q = Return c r' shared'"
  shows "r = r' \<and> (\<exists>w. FnReturns w r \<in> set as)"
proof -
  note i = sf_invD [OF sf_reachable [OF sf_run_steps [OF assms(1)]]]
  have r: "sf_calls s c = Some \<lparr>cl_Done = True, cl_Res = Some r\<rparr>" using i(1) [of p] assms(2) by simp
  moreover from r have "\<exists>w. FnReturns w r \<in> set as" by (rule results_returned [OF assms(1)]) simp
  ultimately show ?thesis using i(1) [of q] assms(3) by simp
qed

theorem shared_result_agrees_witness:
  "\<exists>s. sf_run (sample_flight @ [FnReturns 0 ''v'', FinishLocked 0, CloseDone 0, Receive 1]) sf_init = Some s \<and>
     sf_at s 0 = Return 0 ''v'' False \<and> sf_at s 1 = Return 0 ''v'' True \<and> (\<exists>w. FnReturns w ''v'' \<in>
       set (sample_flight @ [FnReturns 0 ''v'', FinishLocked 0, CloseDone 0, Receive 1]))"
proof -
  obtain s where s: "sf_run (sample_flight @ [FnReturns 0 ''v'', FinishLocked 0, CloseDone 0, Receive 1]) sf_init = Some s"
      "sf_at s 0 = Return 0 ''v'' False" "sf_at s 1 = Return 0 ''v'' True"
    by (auto simp: sample_flight_def sf_init_def goto_def new_call_def)
  from shared_result_agrees [OF s] s show ?thesis by blast
qed

text \<open>C22: No caller is stuck while functions return. Take any continuation of a reachable state in which a thread
waits for a call that has not panicked, whatever the other threads do in it, as long as the call's owner does not
panic and the waiter is not cancelled: the waiter has been served or still waits, and then fewer than four of
the steps were the owner's or its own, and another such step is enabled. So a schedule that lets these two
threads take their enabled steps serves the waiter by the fourth of them.\<close>

theorem waiter_is_served:
  assumes "sf_steps sf_init s" and "waits_for s p c" and "\<And>q k. sf_at s q \<noteq> Panicked k c"
    and "sf_run as s = Some t" and "\<forall>a \<in> set as. \<not> gives_up s p c a"
  shows "served t p c \<or>
    (waits_for t p c \<and> length (filter (works s p c) as) < 4 \<and>
     (\<exists>a. works s p c a \<and> \<not> gives_up s p c a \<and> sf_step a t \<noteq> None))"
proof -
  have inv: "sf_inv s" by (rule sf_reachable [OF assms(1)])
  obtain n where n: "due p c s n" "n \<le> 4" using due_waiting [OF inv assms(2,3)] by blast
  have "due_from s p c t (n - length (filter (works s p c) as)) \<and> length (filter (works s p c) as) \<le> n"
    by (rule due_run [OF inv n(1) assms(4,5)])
  then show ?thesis using n(2) due_from_goal by fastforce
qed

theorem waiter_is_served_witness:
  "\<exists>s t. sf_run sample_flight sf_init = Some s \<and>
     sf_run [FnReturns 0 ''v'', Do 5 ''other'' 8, FinishLocked 0, ContextDone 2, CloseDone 0] s = Some t \<and>
     waits_for t 1 0 \<and> (\<exists>a. works s 1 0 a \<and> \<not> gives_up s 1 0 a \<and> sf_step a t \<noteq> None)"
proof -
  obtain s where s: "sf_run sample_flight sf_init = Some s" "sf_at s 0 = Running ''k'' 0 True" "sf_at s 1 = Waiting 0"
      "sf_at s 2 = Selecting 0 True" "\<forall>q k c. sf_at s q \<noteq> Panicked k c"
    using sample_flight_run by blast
  let ?as = "[FnReturns 0 ''v'', Do 5 ''other'' 8, FinishLocked 0, ContextDone 2, CloseDone 0]"
  obtain t where t: "sf_run ?as s = Some t" "sf_at t 1 = Waiting 0"
    using s(1) by (auto simp: sample_flight_def sf_init_def goto_def new_call_def)
  from waiter_is_served [OF sf_run_steps [OF s(1)] _ _ t(1), of 1 0] s t show ?thesis
    by (auto simp: waits_for_def served_def gives_up_def)
qed

text \<open>C23: A panic in a function run by \<^verbatim>\<open>Do\<close> wedges its key for good: there is no deferred clean-up, so the call stays in
the map, no later function runs for the key, and whoever waits in \<^verbatim>\<open>Do\<close> waits forever.\<close>

theorem panic_wedges_key:
  assumes "sf_steps sf_init s" and "sf_at s q = Panicked k c" and "sf_steps s t"
  shows "sf_m t k = Some c \<and> (\<forall>p d own. sf_at t p \<noteq> Running k d own) \<and>
    (sf_at s p = Waiting c \<longrightarrow> sf_at t p = Waiting c)"
proof -
  have inv: "sf_inv t" using sf_inv_steps [OF assms(3) sf_reachable [OF assms(1)]] .
  have t: "sf_at t q = Panicked k c \<and> (sf_at s p = Waiting c \<longrightarrow> sf_at t p = Waiting c)"
    using assms(3,2) sf_reachable [OF assms(1)]
  proof (induction rule: sf_steps.induct)
    case (step s t a u)
    have "sf_inv t" using sf_inv_steps [OF step.hyps(1) step.prems(2)] .
    with step have "sf_calls t c = Some \<lparr>cl_Done = False, cl_Res = None\<rparr>"
      using sf_invD(1) [of t q] by auto
    with step waiting_stays [OF step.hyps(2), of p c] panicked_stays [OF step.hyps(2), of q k c] show ?case by auto
  qed simp
  note i = sf_invD [OF inv]
  have m: "sf_m t k = Some c" using i(1) [of q] t by simp
  have "sf_at t p' \<noteq> Running k d own" for p' d own
  proof
    assume r: "sf_at t p' = Running k d own"
    with i(1) [of p'] m have "d = c" by simp
    with i(2) [of p' c q] r t show False by simp
  qed
  with m t show ?thesis by blast
qed

theorem panic_wedges_key_witness:
  "\<exists>s. sf_run (sample_flight @ [FnPanics 0]) sf_init = Some s \<and>
     (\<forall>t. sf_steps s t \<longrightarrow> sf_at t 1 = Waiting 0 \<and> sf_m t ''k'' = Some 0)"
proof -
  obtain s where s: "sf_run (sample_flight @ [FnPanics 0]) sf_init = Some s" "sf_at s 0 = Panicked ''k'' 0"
      "sf_at s 1 = Waiting 0"
    by (auto simp: sample_flight_def sf_init_def goto_def new_call_def)
  with panic_wedges_key [OF sf_run_steps [OF s(1)] s(2), of _ 1] show ?thesis by blast
qed

end
