(* ===== verification/Go_Run.thy ===== *)
theory Go_Run
  imports Evm_Rpc Go_Time
begin

text \<open>
  Running Go code: a result is a value, an error or a panic (\<open>outcome\<close>); a run also carries the state
  \<open>'s\<close> of the outside world (operating system, network, clock) and may not return (\<open>None\<close>).
  A predicate on the outside state that every step keeps is kept by the whole run; the rules for the
  combinators are collected in \<open>keeps_intros\<close>, and those for returning in \<open>returns_intros\<close>.
\<close>

named_theorems keeps_intros \<open>what keeps a predicate on the outside state\<close>
named_theorems returns_intros \<open>what returns from every state\<close>

subsection \<open>Outcomes\<close>

datatype 'a outcome = Ok 'a | Fail go_error | Panic

definition bindO :: "'a outcome \<Rightarrow> ('a \<Rightarrow> 'b outcome) \<Rightarrow> 'b outcome" where
  "bindO r k = (case r of Ok x \<Rightarrow> k x | Fail e \<Rightarrow> Fail e | Panic \<Rightarrow> Panic)"

lemma bindO_simps [simp]:
  "bindO (Ok x) k = k x" "bindO (Fail e) k = Fail e" "bindO Panic k = Panic"
  by (simp_all add: bindO_def)

lemma bindO_Ok: "bindO r k = Ok y \<longleftrightarrow> (\<exists>x. r = Ok x \<and> k x = Ok y)"
  and bindO_Panic: "bindO r k = Panic \<longleftrightarrow> r = Panic \<or> (\<exists>x. r = Ok x \<and> k x = Panic)"
  by (cases r; simp)+

definition fromE :: "go_error + 'a \<Rightarrow> 'a outcome" where
  "fromE r = (case r of Inl e \<Rightarrow> Fail e | Inr x \<Rightarrow> Ok x)"

lemma fromE_simps [simp]: "fromE (Inl e) = Fail e" "fromE (Inr x) = Ok x"
  by (simp_all add: fromE_def)

lemma fromE_Ok [simp]: "fromE r = Ok x \<longleftrightarrow> r = Inr x" and fromE_Panic [simp]: "fromE r \<noteq> Panic"
  by (cases r; simp)+

text \<open>A call whose error is replaced.\<close>

definition orFail :: "go_error \<Rightarrow> go_error + 'a \<Rightarrow> 'a outcome" where
  "orFail e r = (case r of Inl _ \<Rightarrow> Fail e | Inr x \<Rightarrow> Ok x)"

lemma orFail_simps [simp]: "orFail e (Inl f) = Fail e" "orFail e (Inr x) = Ok x"
  by (simp_all add: orFail_def)

lemma orFail_Ok [simp]: "orFail e r = Ok x \<longleftrightarrow> r = Inr x" and orFail_Panic [simp]: "orFail e r \<noteq> Panic"
  by (cases r; simp)+

subsection \<open>Runs\<close>

type_synonym ('s, 'a) run = "'s \<Rightarrow> ('a outcome \<times> 's) option"

definition okR :: "'a \<Rightarrow> ('s, 'a) run" where "okR x s = Some (Ok x, s)"
definition failR :: "go_error \<Rightarrow> ('s, 'a) run" where "failR e s = Some (Fail e, s)"

definition bindR :: "('s, 'a) run \<Rightarrow> ('a \<Rightarrow> ('s, 'b) run) \<Rightarrow> ('s, 'b) run" where
  "bindR m k s = (case m s of
     None \<Rightarrow> None
   | Some (Ok x, t) \<Rightarrow> k x t
   | Some (Fail e, t) \<Rightarrow> Some (Fail e, t)
   | Some (Panic, t) \<Rightarrow> Some (Panic, t))"

definition liftO :: "'a outcome \<Rightarrow> ('s, 'a) run" where "liftO r s = Some (r, s)"

definition liftIO :: "('s, 'a) io \<Rightarrow> ('s, 'a) run" where
  "liftIO m s = (case m s of (Inl e, t) \<Rightarrow> Some (Fail e, t) | (Inr x, t) \<Rightarrow> Some (Ok x, t))"

text \<open>A call whose error is replaced, and a deferred call: it runs on every way out, a panic included.\<close>

definition mapErrR :: "(go_error \<Rightarrow> go_error) \<Rightarrow> ('s, 'a) run \<Rightarrow> ('s, 'a) run" where
  "mapErrR f m s = (case m s of Some (Fail e, t) \<Rightarrow> Some (Fail (f e), t) | r \<Rightarrow> r)"

definition deferR :: "('s \<Rightarrow> 's) \<Rightarrow> ('s, 'a) run \<Rightarrow> ('s, 'a) run" where
  "deferR f m s = (case m s of None \<Rightarrow> None | Some (r, t) \<Rightarrow> Some (r, f t))"

definition effectR :: "('s \<Rightarrow> 's) \<Rightarrow> ('s, unit) run" where "effectR f s = Some (Ok (), f s)"
definition readR :: "('s \<Rightarrow> 'a) \<Rightarrow> ('s, 'a) run" where "readR f s = Some (Ok (f s), s)"

lemma okR_Some [simp]: "okR x s = Some (r, t) \<longleftrightarrow> r = Ok x \<and> t = s"
  and failR_Some [simp]: "failR e s = Some (r, t) \<longleftrightarrow> r = Fail e \<and> t = s"
  and liftO_Some [simp]: "liftO q s = Some (r, t) \<longleftrightarrow> r = q \<and> t = s"
  and effectR_Some [simp]: "effectR f s = Some (r1, t) \<longleftrightarrow> r1 = Ok () \<and> t = f s"
  and readR_Some [simp]: "readR g s = Some (r2, t) \<longleftrightarrow> r2 = Ok (g s) \<and> t = s"
  by (auto simp: okR_def failR_def liftO_def effectR_def readR_def)

lemma bindR_Ok: "bindR m k s = Some (Ok y, t) \<longleftrightarrow> (\<exists>x u. m s = Some (Ok x, u) \<and> k x u = Some (Ok y, t))"
  by (auto simp: bindR_def split: option.splits prod.splits outcome.splits)

lemma liftIO_Ok: "liftIO m s = Some (Ok x, t) \<longleftrightarrow> m s = (Inr x, t)"
  by (auto simp: liftIO_def split: prod.splits sum.splits)

lemma mapErrR_Ok: "mapErrR f m s = Some (Ok x, t) \<longleftrightarrow> m s = Some (Ok x, t)"
  by (auto simp: mapErrR_def split: option.splits prod.splits outcome.splits)

lemma deferR_Some: "deferR f m s = Some (r, t) \<longleftrightarrow> (\<exists>u. m s = Some (r, u) \<and> t = f u)"
  by (auto simp: deferR_def split: option.splits prod.splits)

lemma if_failR_Ok: "(if b then failR e else m) s = Some (Ok y, t) \<longleftrightarrow> \<not> b \<and> m s = Some (Ok y, t)"
  by auto

lemmas run_Ok = bindR_Ok liftIO_Ok mapErrR_Ok deferR_Some if_failR_Ok

subsection \<open>Predicates a run keeps\<close>

definition keeps :: "('s \<Rightarrow> bool) \<Rightarrow> ('s, 'a) run \<Rightarrow> bool" where
  "keeps P m \<longleftrightarrow> (\<forall>s r t. P s \<longrightarrow> m s = Some (r, t) \<longrightarrow> P t)"

definition keepsIO :: "('s \<Rightarrow> bool) \<Rightarrow> ('s, 'a) io \<Rightarrow> bool" where
  "keepsIO P m \<longleftrightarrow> (\<forall>s r t. P s \<longrightarrow> m s = (r, t) \<longrightarrow> P t)"

lemma keepsD: "keeps P m \<Longrightarrow> P s \<Longrightarrow> m s = Some (r, t) \<Longrightarrow> P t"
  by (simp add: keeps_def)

lemma keepsIOD: "keepsIO P m \<Longrightarrow> P s \<Longrightarrow> m s = (r, t) \<Longrightarrow> P t"
  by (simp add: keepsIO_def)

lemma keeps_basic [keeps_intros]:
  "keeps P (okR x)" "keeps P (failR e)" "keeps P (liftO q)" "keeps P (readR f)"
  by (simp_all add: keeps_def)

lemma keeps_bindR [keeps_intros]: "keeps P m \<Longrightarrow> (\<And>x. keeps P (k x)) \<Longrightarrow> keeps P (bindR m k)"
proof (unfold keeps_def [of P "bindR m k"], intro allI impI)
  fix s r t
  assume m: "keeps P m" and k: "\<And>x. keeps P (k x)" and s: "P s" and e: "bindR m k s = Some (r, t)"
  obtain q u where q: "m s = Some (q, u)" using e by (cases "m s") (auto simp: bindR_def)
  with m s have "P u" by (rule keepsD)
  with e q k show "P t" by (cases q) (auto simp: bindR_def intro: keepsD)
qed

lemma keeps_liftIO [keeps_intros]: "keepsIO P m \<Longrightarrow> keeps P (liftIO m)"
  unfolding keeps_def keepsIO_def liftIO_def by (auto split: prod.splits sum.splits)

lemma keeps_mapErrR [keeps_intros]: "keeps P m \<Longrightarrow> keeps P (mapErrR f m)"
  unfolding keeps_def mapErrR_def by (auto split: option.splits prod.splits outcome.splits)

lemma keeps_deferR [keeps_intros]: "keeps P m \<Longrightarrow> (\<And>s. P s \<Longrightarrow> P (f s)) \<Longrightarrow> keeps P (deferR f m)"
  unfolding keeps_def deferR_def by (auto split: option.splits)

lemma keeps_effectR [keeps_intros]: "(\<And>s. P s \<Longrightarrow> P (f s)) \<Longrightarrow> keeps P (effectR f)"
  by (auto simp: keeps_def)

lemma keeps_if [keeps_intros]:
  "(b \<Longrightarrow> keeps P m) \<Longrightarrow> (\<not> b \<Longrightarrow> keeps P n) \<Longrightarrow> keeps P (if b then m else n)"
  by simp

lemma keeps_case_prod [keeps_intros]: "(\<And>a b. keeps P (f a b)) \<Longrightarrow> keeps P (case p of (a, b) \<Rightarrow> f a b)"
  by (cases p) simp

lemma keeps_case_option [keeps_intros]:
  "keeps P m \<Longrightarrow> (\<And>x. keeps P (f x)) \<Longrightarrow> keeps P (case q of None \<Rightarrow> m | Some x \<Rightarrow> f x)"
  by (cases q) simp_all

lemma keepsIO_basic [keeps_intros]:
  "keepsIO P (returnIO x)" "keepsIO P (raiseIO e)"
  by (simp_all add: keepsIO_def returnIO_def raiseIO_def)

lemma keepsIO_bindIO [keeps_intros]: "keepsIO P m \<Longrightarrow> (\<And>x. keepsIO P (k x)) \<Longrightarrow> keepsIO P (bindIO m k)"
proof (unfold keepsIO_def [of P "bindIO m k"], intro allI impI)
  fix s r t
  assume m: "keepsIO P m" and k: "\<And>x. keepsIO P (k x)" and s: "P s" and e: "bindIO m k s = (r, t)"
  obtain q u where q: "m s = (q, u)" by (cases "m s")
  with m s have "P u" by (rule keepsIOD)
  with e q k show "P t" by (cases q) (auto simp: bindIO_def intro: keepsIOD)
qed

lemma keepsIO_mapError [keeps_intros]: "keepsIO P m \<Longrightarrow> keepsIO P (mapError f m)"
  unfolding keepsIO_def mapError_def by (auto split: prod.splits sum.splits)

lemma keepsIO_guardIO [keeps_intros]: "keepsIO P (guardIO b e)"
  by (simp add: guardIO_def keepsIO_basic)

lemma keepsIO_fromOption [keeps_intros]: "keepsIO P (fromOption e q)"
  by (cases q) (simp_all add: fromOption_def keepsIO_basic)

lemma keepsIO_if [keeps_intros]:
  "(b \<Longrightarrow> keepsIO P m) \<Longrightarrow> (\<not> b \<Longrightarrow> keepsIO P n) \<Longrightarrow> keepsIO P (if b then m else n)"
  by simp

lemma keepsIO_case_prod [keeps_intros]: "(\<And>a b. keepsIO P (f a b)) \<Longrightarrow> keepsIO P (case p of (a, b) \<Rightarrow> f a b)"
  by (cases p) simp

lemma keepsIO_case_option [keeps_intros]:
  "keepsIO P m \<Longrightarrow> (\<And>x. keepsIO P (f x)) \<Longrightarrow> keepsIO P (case q of None \<Rightarrow> m | Some x \<Rightarrow> f x)"
  by (cases q) simp_all

lemma keepsIO_case_sum [keeps_intros]:
  "(\<And>e. keepsIO P (f e)) \<Longrightarrow> (\<And>x. keepsIO P (g x)) \<Longrightarrow> keepsIO P (case q of Inl e \<Rightarrow> f e | Inr x \<Rightarrow> g x)"
  by (cases q) simp_all

text \<open>The client touches the outside only through its transport.\<close>

definition transport_keeps :: "('s \<Rightarrow> bool) \<Rightarrow> 's transport \<Rightarrow> string \<Rightarrow> bool" where
  "transport_keeps P http url \<longleftrightarrow> (\<forall>body. keepsIO P (http url body))"

lemma keeps_rpc_call [keeps_intros]: "transport_keeps P http url \<Longrightarrow> keepsIO P (rpc_call http url method params out)"
  unfolding rpc_call_def transport_keeps_def by (intro keeps_intros allI) auto

lemma keeps_rpc_queries [keeps_intros]:
  assumes "transport_keeps P http url"
  shows "keepsIO P (rpc_chainID http url)" "keepsIO P (rpc_blockHash http url block)"
    "keepsIO P (rpc_callBool http url method params)"
  unfolding rpc_chainID_def rpc_blockHash_def rpc_callBool_def by (intro keeps_intros assms)+

subsection \<open>Runs that return\<close>

definition returns :: "('s, 'a) run \<Rightarrow> bool" where
  "returns m \<longleftrightarrow> (\<forall>s. m s \<noteq> None)"

lemma returnsD: "returns m \<Longrightarrow> \<exists>r t. m s = Some (r, t)"
  by (auto simp: returns_def)

lemma returns_basic [returns_intros]:
  "returns (okR x)" "returns (failR e)" "returns (liftO q)" "returns (readR f)" "returns (effectR g)"
  by (simp_all add: returns_def okR_def failR_def liftO_def readR_def effectR_def)

lemma returns_bindR [returns_intros]: "returns m \<Longrightarrow> (\<And>x. returns (k x)) \<Longrightarrow> returns (bindR m k)"
  unfolding returns_def bindR_def by (auto split: option.splits prod.splits outcome.splits)

lemma returns_liftIO [returns_intros]: "returns (liftIO m)"
  by (simp add: returns_def liftIO_def split: prod.splits sum.splits)

lemma returns_mapErrR [returns_intros]: "returns m \<Longrightarrow> returns (mapErrR f m)"
  unfolding returns_def mapErrR_def by (auto split: option.splits prod.splits outcome.splits)

lemma returns_deferR [returns_intros]: "returns m \<Longrightarrow> returns (deferR f m)"
  unfolding returns_def deferR_def by (auto split: option.splits)

lemma returns_if [returns_intros]:
  "(b \<Longrightarrow> returns m) \<Longrightarrow> (\<not> b \<Longrightarrow> returns n) \<Longrightarrow> returns (if b then m else n)"
  by simp

lemma returns_case_prod [returns_intros]: "(\<And>a b. returns (f a b)) \<Longrightarrow> returns (case p of (a, b) \<Rightarrow> f a b)"
  by (cases p) simp

lemma returns_case_option [returns_intros]:
  "returns m \<Longrightarrow> (\<And>x. returns (f x)) \<Longrightarrow> returns (case q of None \<Rightarrow> m | Some x \<Rightarrow> f x)"
  by (cases q) simp_all

end
