(* ===== verification/Go_Json_Raw.thy ===== *)
theory Go_Json_Raw
  imports Go_Json_Parse
begin

text \<open>
  \<^verbatim>\<open>json.RawMessage\<close>: the text of a member or an element as it stands in the input, and how
  \<^verbatim>\<open>Marshal\<close> writes it back (\<^verbatim>\<open>compact\<close>: white space between tokens is dropped and the HTML
  characters and line separators are escaped; numbers and escapes stay as they were written).
  The splitters are used on texts that have been parsed as a whole before.
\<close>

definition raw_span :: "string \<Rightarrow> string \<Rightarrow> string" where
  "raw_span s rest = take (length s - length rest) s"

function raw_elems :: "string \<Rightarrow> string list" where
  "raw_elems s =
     (case parse_value maxNestingDepth s of
        None \<Rightarrow> []
      | Some (v, r) \<Rightarrow> raw_span s r #
          (case skip_ws r of
             [] \<Rightarrow> []
           | c # t \<Rightarrow> if c = CHR '','' \<and> length t < length s then raw_elems (skip_ws t) else []))"
  by pat_completeness auto
termination
  by (relation "measure length") (auto intro: skip_ws_less)

declare raw_elems.simps [simp del]

definition raw_array :: "string \<Rightarrow> string list" where
  "raw_array s =
     (case skip_ws s of
        [] \<Rightarrow> []
      | b # r \<Rightarrow> (case skip_ws r of [] \<Rightarrow> [] | e # t \<Rightarrow> if e = CHR '']'' then [] else raw_elems (e # t)))"

function raw_fields :: "string \<Rightarrow> (string \<times> string) list" where
  "raw_fields s =
     (case parse_str (tl s) of
        None \<Rightarrow> []
      | Some (k, r) \<Rightarrow>
          (case skip_ws r of
             [] \<Rightarrow> []
           | c # t \<Rightarrow>
               (case parse_value maxNestingDepth (skip_ws t) of
                  None \<Rightarrow> []
                | Some (v, u) \<Rightarrow> (k, raw_span (skip_ws t) u) #
                    (case skip_ws u of
                       [] \<Rightarrow> []
                     | e # w \<Rightarrow> if e = CHR '','' \<and> length w < length s then raw_fields (skip_ws w) else []))))"
  by pat_completeness auto
termination
  by (relation "measure length") (auto intro: skip_ws_less)

declare raw_fields.simps [simp del]

definition raw_object :: "string \<Rightarrow> (string \<times> string) list" where
  "raw_object s =
     (case skip_ws s of
        [] \<Rightarrow> []
      | b # r \<Rightarrow> (case skip_ws r of [] \<Rightarrow> [] | e # t \<Rightarrow> if e = CHR ''}'' then [] else raw_fields (e # t)))"

text \<open>The last member with a name, as a repeated one overwrites the raw message.\<close>

definition raw_member :: "string \<Rightarrow> string \<Rightarrow> string option" where
  "raw_member name s =
     map_of (rev (map (\<lambda>(k, r). (fold_name k, r)) (raw_object s))) (fold_name name)"

function json_compact :: "bool \<Rightarrow> string \<Rightarrow> string" where
  "json_compact quoted s =
     (case s of
        [] \<Rightarrow> []
      | c # r \<Rightarrow>
          if \<not> quoted \<and> json_space c then json_compact quoted r
          else if c = CHR 0x22 then c # json_compact (\<not> quoted) r
          else if c = CHR 0x5C then c # take 1 r @ json_compact quoted (drop 1 r)
          else if c \<in> set json_html then u_escape (of_char c) @ json_compact quoted r
          else if take 3 s = [CHR 0xE2, CHR 0x80, CHR 0xA8] then (CHR 0x5C # ''u2028'') @ json_compact quoted (drop 3 s)
          else if take 3 s = [CHR 0xE2, CHR 0x80, CHR 0xA9] then (CHR 0x5C # ''u2029'') @ json_compact quoted (drop 3 s)
          else c # json_compact quoted r)"
  by pat_completeness auto
termination
  by (relation "measure (\<lambda>(q, s). length s)") auto

declare json_compact.simps [simp del]

definition raw_print :: "string \<Rightarrow> string" where
  "raw_print r = json_compact False r"

definition raw_slice_print :: "string slice \<Rightarrow> string" where
  "raw_slice_print rs =
     (case rs of None \<Rightarrow> ''null'' | Some xs \<Rightarrow> CHR ''['' # sep_concat (map raw_print xs) @ '']'')"

subsection \<open>Raw texts of what was printed\<close>

lemma raw_span_append [simp]: "raw_span (s @ r) r = s"
  by (simp add: raw_span_def)

lemma raw_elems_print:
  assumes "list_all json_ascii xs" and "\<forall>a \<in> set xs. json_depth a \<le> maxNestingDepth" and "xs \<noteq> []"
  shows "raw_elems (sep_concat (map json_print xs) @ CHR '']'' # x) = map json_print xs"
  using assms
proof (induction xs rule: induct_list012)
  case (2 a)
  then show ?case by (subst raw_elems.simps) (simp add: parse_value_print)
next
  case (3 a b xs)
  let ?r = "sep_concat (map json_print (b # xs))"
  have "value_start ?r"
    using value_start_print [of b] by (cases xs) (auto simp: value_start_def)
  with 3 show ?case
    by (subst raw_elems.simps) (simp add: parse_value_print)
qed simp

lemma raw_array_print:
  assumes "list_all json_ascii xs" and "\<forall>a \<in> set xs. json_depth a \<le> maxNestingDepth"
  shows "raw_array (json_print (JArr xs)) = map json_print xs"
proof (cases "xs = []")
  case False
  then have v: "value_start (sep_concat (map json_print xs))"
    using value_start_print by (cases xs) (auto simp: value_start_def sep_concat_Cons)
  then obtain c t where ct: "sep_concat (map json_print xs) = c # t" "c \<noteq> CHR '']''"
    by (cases "sep_concat (map json_print xs)") (auto simp: value_start_def)
  then show ?thesis
    using raw_elems_print [OF assms False, of "[]"] skip_ws_start [OF v, of "CHR '']'' # []"]
    by (simp add: raw_array_def skip_ws_def json_space_def)
qed (simp add: raw_array_def skip_ws_def json_space_def)

end
