(* ===== verification/Anvil_Client.thy ===== *)
theory Anvil_Client
  imports Fork_Receipt Invariant_Eval Go_Run Go_Json_Raw
begin

text \<open>
  \<^verbatim>\<open>internal/executionproof/anvil_backend_v03.go\<close>: the backend that runs a verified fork on a local Anvil
  process. The operating system is outside the program: \<open>anvil_os\<close> is the record of what the code calls of
  it, over a state \<open>'s\<close> about which nothing is assumed. A request goes to the node under the caller's
  context or, in a deferred call, under \<^verbatim>\<open>context.Background\<close>, with the client's timeout. The two polling
  loops wait in one \<^verbatim>\<open>select\<close> for the context, the deadline or the ticker, whichever the system delivers:
  they may never end, so a run is a partial function.
\<close>

datatype wakeup = CtxDone go_error | DeadlineFired | Ticked

datatype req_ctx = CallerCtx | BackgroundCtx

record 's anvil_os =
  os_http :: "req_ctx \<Rightarrow> duration \<Rightarrow> 's transport"
  os_ctxErr :: "'s \<Rightarrow> go_error option"
  os_arm :: "duration \<Rightarrow> duration \<Rightarrow> 's \<Rightarrow> 's"
  os_select :: "'s \<Rightarrow> wakeup \<times> 's"
  os_readFile :: "string \<Rightarrow> ('s, string) io"
  os_listen :: "('s, int) io"
  os_Start :: "string \<Rightarrow> string list \<Rightarrow> string list \<Rightarrow> ('s, unit) io"
  os_KillWait :: "'s \<Rightarrow> 's"
  os_Environ :: "string list"
  os_stderr :: "'s \<Rightarrow> string"

definition duration_of :: "int \<Rightarrow> duration" where "duration_of n = word_of_int n"

definition fileSHA256 :: "'s anvil_os \<Rightarrow> string \<Rightarrow> ('s, string) io" where
  "fileSHA256 os path = bindIO (os_readFile os path) (\<lambda>contents. returnIO (sha256Hex contents))"

definition reserveLocalPort :: "'s anvil_os \<Rightarrow> ('s, int) io" where
  "reserveLocalPort os = os_listen os"

definition runner_env_allowed :: "string list" where
  "runner_env_allowed = [''PATH='', ''HOME='', ''TMPDIR='', ''SSL_CERT_FILE='', ''SSL_CERT_DIR='']"

definition minimalRunnerEnv :: "string list \<Rightarrow> string list" where
  "minimalRunnerEnv input = filter (\<lambda>item. list_ex (HasPrefix item) runner_env_allowed) input"

definition durationOr :: "duration \<Rightarrow> duration \<Rightarrow> duration" where
  "durationOr value fallback = (if 0 < sint value then value else fallback)"

definition local_url :: "int \<Rightarrow> string" where
  "local_url port = ''http://127.0.0.1:'' @ int_text 10 port"

definition poll_ctx :: "'s anvil_os \<Rightarrow> ('s, unit) run" where
  "poll_ctx os = bindR (readR (os_ctxErr os)) (\<lambda>err. case err of None \<Rightarrow> okR () | Some e \<Rightarrow> failR e)"

subsection \<open>Waiting for the node\<close>

text \<open>Both loops probe the node and, while it has no answer yet, wait for the \<^verbatim>\<open>select\<close>.\<close>

partial_function (option) poll_loop ::
  "'s anvil_os \<Rightarrow> go_error \<Rightarrow> ('s \<Rightarrow> unit outcome option \<times> 's) \<Rightarrow> 's \<Rightarrow> (unit outcome \<times> 's) option" where
  "poll_loop os timeout probe s =
     (case probe s of
        (Some r, t) \<Rightarrow> Some (r, t)
      | (None, t) \<Rightarrow>
          (case os_select os t of
             (CtxDone e, u) \<Rightarrow> Some (Fail e, u)
           | (DeadlineFired, u) \<Rightarrow> Some (Fail timeout, u)
           | (Ticked, u) \<Rightarrow> poll_loop os timeout probe u))"

definition ready_probe :: "'s transport \<Rightarrow> string \<Rightarrow> 's \<Rightarrow> unit outcome option \<times> 's" where
  "ready_probe http url s = (case rpc_chainID http url s of (Inr _, t) \<Rightarrow> (Some (Ok ()), t) | (Inl _, t) \<Rightarrow> (None, t))"

definition waitForAnvil :: "'s anvil_os \<Rightarrow> 's transport \<Rightarrow> string \<Rightarrow> duration \<Rightarrow> ('s, unit) run" where
  "waitForAnvil os http url timeout =
     bindR (effectR (os_arm os timeout (duration_of 100000000))) (\<lambda>_.
       poll_loop os (ErrMsg ''anvil startup timeout'') (ready_probe http url))"

subsection \<open>Transactions and receipts\<close>

definition rpc_sendTransaction :: "'s transport \<Rightarrow> string \<Rightarrow> EVMPayload \<Rightarrow> ('s, string) io" where
  "rpc_sendTransaction http url payload =
     bindIO (rpc_call http url ''eth_sendTransaction''
       [JObj [(''data'', JStr (ep_DataHex payload)), (''from'', JStr (ep_From payload)),
              (''to'', JStr (ep_To payload)), (''value'', JStr (ep_ValueHex payload))]] string_result) (\<lambda>txHash.
     if \<not> validHex32 txHash then raiseIO (ErrMsg ''invalid transaction hash'')
     else returnIO (normalizeHex32 txHash))"

text \<open>The wire receipt and the canonical one have the same fields; the difference is in their member names.\<close>

record canonicalEVMReceipt =
  er_TransactionHash :: string
  er_BlockHash :: string
  er_BlockNumber :: string
  er_Status :: string
  er_GasUsed :: string
  er_CumulativeGasUsed :: string
  er_ContractAddress :: "string option"
  er_Logs :: "string slice"

definition zero_receipt :: canonicalEVMReceipt where
  "zero_receipt = \<lparr>er_TransactionHash = [], er_BlockHash = [], er_BlockNumber = [], er_Status = [], er_GasUsed = [],
     er_CumulativeGasUsed = [], er_ContractAddress = None, er_Logs = None\<rparr>"

text \<open>A \<^verbatim>\<open>*string\<close> member, and a member of raw messages: its shape is checked here, its text is taken below.\<close>

definition contract_field :: "jvalue \<Rightarrow> canonicalEVMReceipt \<Rightarrow> canonicalEVMReceipt option" where
  "contract_field v w = (case v of VNull \<Rightarrow> Some (w\<lparr>er_ContractAddress := None\<rparr>)
     | VStr a \<Rightarrow> Some (w\<lparr>er_ContractAddress := Some a\<rparr>) | _ \<Rightarrow> None)"

definition logs_field :: "jvalue \<Rightarrow> canonicalEVMReceipt \<Rightarrow> canonicalEVMReceipt option" where
  "logs_field v w = (case v of VNull \<Rightarrow> Some w | VArr _ \<Rightarrow> Some w | _ \<Rightarrow> None)"

definition receipt_fields :: "canonicalEVMReceipt field list" where
  "receipt_fields =
     [(''transactionHash'', string_field er_TransactionHash_update), (''blockHash'', string_field er_BlockHash_update),
      (''blockNumber'', string_field er_BlockNumber_update), (''status'', string_field er_Status_update),
      (''gasUsed'', string_field er_GasUsed_update), (''cumulativeGasUsed'', string_field er_CumulativeGasUsed_update),
      (''contractAddress'', contract_field), (''logs'', logs_field)]"

definition receipt_logs :: "string \<Rightarrow> string slice" where
  "receipt_logs text =
     (case raw_member ''logs'' text of
        None \<Rightarrow> None
      | Some r \<Rightarrow> if json_parse r = Some VNull then None else Some (raw_array r))"

definition decode_receipt :: "string \<Rightarrow> canonicalEVMReceipt option" where
  "decode_receipt text =
     (case json_parse text of
        Some VNull \<Rightarrow> Some zero_receipt
      | Some (VObj ms) \<Rightarrow> map_option (\<lambda>w. w\<lparr>er_Logs := receipt_logs text\<rparr>) (set_members receipt_fields ms zero_receipt)
      | _ \<Rightarrow> None)"

text \<open>\<open>rpc_call\<close> with the text of the result in the decoder's hands: the last \<^verbatim>\<open>result\<close> member, or nothing.\<close>

definition response_result :: "string \<Rightarrow> string" where
  "response_result body =
     (case raw_member ''result'' (take rpc_limit body) of None \<Rightarrow> [] | Some r \<Rightarrow> r)"

definition rpc_call_text ::
  "'s transport \<Rightarrow> string \<Rightarrow> string \<Rightarrow> json list \<Rightarrow> (string \<Rightarrow> 'a option) \<Rightarrow> ('s, 'a) io" where
  "rpc_call_text http url method params out =
     bindIO (http url (rpc_body method params)) (\<lambda>(status, body).
     if status \<noteq> 200 then raiseIO (ErrMsg (''rpc http status '' @ show_nat status))
     else bindIO (fromOption jsonError (decode_response body)) (\<lambda>decoded.
       (case rp_Error decoded of
          Some e \<Rightarrow> raiseIO (ErrMsg (''rpc '' @ method @ '': '' @ int_text 10 (re_Code e) @ '' '' @ re_Message e))
        | None \<Rightarrow> fromOption jsonError (out (response_result body)))))"

text \<open>\<open>None\<close> is the error \<^verbatim>\<open>errEVMReceiptPending\<close>, which the loop below tells from every other.\<close>

definition errEVMReceiptPending :: go_error where
  "errEVMReceiptPending = ErrMsg ''EVM transaction receipt pending''"

definition transactionReceipt :: "'s transport \<Rightarrow> string \<Rightarrow> string \<Rightarrow> ('s, canonicalEVMReceipt option) io" where
  "transactionReceipt http url txHash =
     bindIO (rpc_call_text http url ''eth_getTransactionReceipt'' [JStr txHash] decode_receipt) (\<lambda>receipt.
     if er_TransactionHash receipt = [] \<and> er_BlockHash receipt = [] then returnIO None
     else if \<not> equalHex32 (er_TransactionHash receipt) txHash \<or> \<not> validHex32 (er_BlockHash receipt)
     then raiseIO (ErrMsg ''invalid transaction receipt identity'')
     else returnIO (Some receipt))"

definition receipt_probe :: "'s transport \<Rightarrow> string \<Rightarrow> string \<Rightarrow> 's \<Rightarrow> unit outcome option \<times> 's" where
  "receipt_probe http url txHash s =
     (case transactionReceipt http url txHash s of
        (Inl e, t) \<Rightarrow> (Some (Fail e), t)
      | (Inr None, t) \<Rightarrow> (None, t)
      | (Inr (Some receipt), t) \<Rightarrow>
          (Some (if ToLower (er_Status receipt) \<noteq> ''0x1'' then Fail (ErrQuoted ''receipt status'' (er_Status receipt))
                 else Ok ()), t))"

definition requireSuccessfulReceipt :: "'s anvil_os \<Rightarrow> 's transport \<Rightarrow> string \<Rightarrow> string \<Rightarrow> ('s, unit) run" where
  "requireSuccessfulReceipt os http url txHash =
     bindR (effectR (os_arm os (duration_of (5 * Second)) (duration_of 50000000))) (\<lambda>_.
       poll_loop os (ErrMsg ''transaction receipt timeout'') (receipt_probe http url txHash))"

definition member_text :: "string \<Rightarrow> string \<Rightarrow> string" where
  "member_text name value = json_string name @ CHR '':'' # value"

definition receipt_json :: "canonicalEVMReceipt \<Rightarrow> string" where
  "receipt_json r = CHR ''{'' # sep_concat
     [member_text ''transaction_hash'' (json_string (er_TransactionHash r)),
      member_text ''block_hash'' (json_string (er_BlockHash r)),
      member_text ''block_number'' (json_string (er_BlockNumber r)),
      member_text ''status'' (json_string (er_Status r)),
      member_text ''gas_used'' (json_string (er_GasUsed r)),
      member_text ''cumulative_gas_used'' (json_string (er_CumulativeGasUsed r)),
      member_text ''contract_address'' (case er_ContractAddress r of None \<Rightarrow> ''null'' | Some a \<Rightarrow> json_string a),
      member_text ''logs'' (raw_slice_print (er_Logs r))] @ ''}''"

definition transactionReceiptDigest :: "'s transport \<Rightarrow> string \<Rightarrow> string \<Rightarrow> ('s, string) io" where
  "transactionReceiptDigest http url txHash =
     bindIO (transactionReceipt http url txHash) (\<lambda>r. case r of
         None \<Rightarrow> raiseIO errEVMReceiptPending
       | Some receipt \<Rightarrow>
           if ToLower (er_Status receipt) \<noteq> ''0x1'' then raiseIO (ErrQuoted ''receipt status'' (er_Status receipt))
           else returnIO (sha256Hex (receipt_json
             (receipt\<lparr>er_TransactionHash := normalizeHex32 (er_TransactionHash receipt),
                      er_BlockHash := normalizeHex32 (er_BlockHash receipt)\<rparr>))))"

subsection \<open>The backend\<close>

type_synonym 's EVMForkInvariantEvaluator =
  "string \<Rightarrow> PreparedVerifiedForkRequest \<Rightarrow> string \<Rightarrow> ('s, InvariantCheck slice) io"

record 's AnvilForkBackend =
  ab_AnvilPath :: string
  ab_ForkURL :: string
  ab_StartupTimeout :: duration
  ab_RPCTimeout :: duration
  ab_Evaluator :: "'s EVMForkInvariantEvaluator option"

definition errVerifiedForkBackend :: go_error where
  "errVerifiedForkBackend = ErrMsg ''verified fork backend failure''"

definition anvil_args :: "string \<Rightarrow> int \<Rightarrow> u64 \<Rightarrow> string list" where
  "anvil_args forkURL port block =
     [''--host'', ''127.0.0.1'', ''--port'', int_text 10 port, ''--fork-url'', forkURL,
      ''--fork-block-number'', nat_text 10 (unat block), ''--silent'']"

text \<open>The start-up wait; what the process wrote to its error stream is added to the error.\<close>

definition startup :: "'s anvil_os \<Rightarrow> string \<Rightarrow> ('s, unit) run \<Rightarrow> ('s, unit) run" where
  "startup os what wait s =
     (case wait s of
        Some (Fail e, t) \<Rightarrow>
          Some (Fail (if os_stderr os t \<noteq> [] then ErrDetail (ErrWrap what e) (TrimSpace (os_stderr os t)) else e), t)
      | r \<Rightarrow> r)"

text \<open>What happens on the fork, once the node answers.\<close>

definition anvil_session ::
  "'s anvil_os \<Rightarrow> 's AnvilForkBackend \<Rightarrow> 's EVMForkInvariantEvaluator \<Rightarrow> PreparedVerifiedForkRequest \<Rightarrow> string \<Rightarrow> string
    \<Rightarrow> ('s, VerifiedForkBackendResult) run" where
  "anvil_session os b evaluate request runnerSHA rpcURL =
     (let timeout = durationOr (ab_RPCTimeout b) (duration_of (5 * Second));
          http = os_http os CallerCtx timeout;
          mismatch = ErrMsg ''fork chain identity mismatch''; gone = ErrMsg ''fork reference block mismatch'';
          sim = pv_Simulation request; payload = pv_Payload request in
      bindR (startup os ''anvil startup'' (waitForAnvil os http rpcURL (durationOr (ab_StartupTimeout b) (duration_of (15 * Second)))))
        (\<lambda>_.
      bindR (mapErrR (\<lambda>_. mismatch) (liftIO (rpc_chainID http rpcURL))) (\<lambda>chainID.
      if chainID \<noteq> fq_ChainID sim then failR mismatch else
      bindR (mapErrR (\<lambda>_. gone) (liftIO (rpc_blockHash http rpcURL (fq_ReferenceBlock sim)))) (\<lambda>blockHash.
      if \<not> equalHex32 blockHash (fq_ReferenceBlockHash sim) then failR gone else
      bindR (mapErrR (ErrWrap ''impersonate simulation sender'')
               (liftIO (rpc_callBool http rpcURL ''anvil_impersonateAccount'' [JStr (ep_From payload)]))) (\<lambda>_.
      deferR (\<lambda>s. snd (rpc_callBool (os_http os BackgroundCtx timeout) rpcURL ''anvil_stopImpersonatingAccount''
               [JStr (ep_From payload)] s))
      (bindR (mapErrR (ErrWrap ''execute isolated fork transaction'') (liftIO (rpc_sendTransaction http rpcURL payload)))
        (\<lambda>txHash.
      bindR (mapErrR (ErrWrap ''isolated fork transaction failed'') (requireSuccessfulReceipt os http rpcURL txHash)) (\<lambda>_.
      bindR (mapErrR (ErrWrap ''bind isolated fork receipt'') (liftIO (transactionReceiptDigest http rpcURL txHash)))
        (\<lambda>receiptSHA.
      bindR (mapErrR (ErrWrap ''evaluate fork invariants'') (liftIO (evaluate rpcURL request txHash))) (\<lambda>checks.
      (case evmPayloadDigest payload of
         None \<Rightarrow> failR errVerifiedForkBackend
       | Some payloadSHA \<Rightarrow>
           okR \<lparr>vb_ObservedRunnerSHA256 = runnerSHA,
                vb_Simulation = \<lparr>fb_ChainID = chainID, fb_ObservedReferenceBlock = fq_ReferenceBlock sim,
                  fb_ObservedReferenceHash = blockHash, fb_ObservedPayloadSHA256 = payloadSHA,
                  fb_ObservedInvariantSetHash = fq_InvariantSetSHA256 sim, fb_Checks = checks\<rparr>,
                vb_Execution = \<lparr>fe_ExecutionModel = [], fe_TransactionHash = txHash,
                  fe_TransactionReceiptSHA256 = receiptSHA,
                  fe_InvariantEvidenceSHA256 = canonicalInvariantEvidenceDigest (elems checks)\<rparr>\<rparr>)))))))))))"

definition ExecuteVerifiedFork ::
  "'s anvil_os \<Rightarrow> 's AnvilForkBackend \<Rightarrow> PreparedVerifiedForkRequest \<Rightarrow> ('s, VerifiedForkBackendResult) run" where
  "ExecuteVerifiedFork os b request =
     (case ab_Evaluator b of
        None \<Rightarrow> failR errVerifiedForkBackend
      | Some evaluate \<Rightarrow>
          if TrimSpace (ab_AnvilPath b) = [] \<or> TrimSpace (ab_ForkURL b) = [] then failR errVerifiedForkBackend else
          bindR (poll_ctx os) (\<lambda>_.
          bindR (mapErrR (ErrWrap ''hash anvil runner'') (liftIO (fileSHA256 os (ab_AnvilPath b)))) (\<lambda>runnerSHA.
          bindR (mapErrR (ErrWrap ''reserve local anvil port'') (liftIO (reserveLocalPort os))) (\<lambda>port.
          bindR (mapErrR (ErrWrap ''start anvil'') (liftIO (os_Start os (ab_AnvilPath b)
                   (anvil_args (ab_ForkURL b) port (fq_ReferenceBlock (pv_Simulation request)))
                   (minimalRunnerEnv (os_Environ os))))) (\<lambda>_.
          deferR (os_KillWait os) (anvil_session os b evaluate request runnerSHA (local_url port)))))))"

end
