(* ===== verification/Sample_Node.thy ===== *)
theory Sample_Node
  imports Anvil_Client
begin

text \<open>
  A concrete node for the witnesses: it parses the request and answers with a result that depends on the
  method and the parameters. It also shows that the client and a node that follows JSON-RPC agree: what
  the node answers is what the client's decoder gets.
\<close>

definition answering_node :: "(string \<Rightarrow> jvalue \<Rightarrow> json) \<Rightarrow> 's transport" where
  "answering_node answer url body s =
     (case json_parse body of
        Some (VObj ms) \<Rightarrow>
          (case (map_of ms ''method'', map_of ms ''params'') of
             (Some (VStr m), Some ps) \<Rightarrow> (Inr (200, json_print (JObj [(''result'', answer m ps)])), s)
           | _ \<Rightarrow> (Inr (400, []), s))
      | _ \<Rightarrow> (Inr (400, []), s))"

definition proper_json :: "nat \<Rightarrow> json \<Rightarrow> bool" where
  "proper_json n j \<longleftrightarrow> json_ascii j \<and> json_depth j \<le> 100 \<and> length (json_print j) \<le> n"

lemma json_string_length: "ascii s \<Longrightarrow> length (json_string s) \<le> 6 * length s + 2"
  using json_body_length [of s] by (simp add: json_string_def)

lemma proper_JStr: "ascii s \<Longrightarrow> 6 * length s + 2 \<le> n \<Longrightarrow> proper_json n (JStr s)"
  using json_string_length [of s] by (simp add: proper_json_def)

lemma proper_JObj:
  assumes "list_all (\<lambda>(k, v). ascii k \<and> length k \<le> 20 \<and> json_depth v < 100 \<and> proper_json m v) fs"
    and "length fs * (m + 130) + 2 \<le> n"
  shows "proper_json n (JObj fs)"
proof -
  have "length (sep_concat (map (\<lambda>(k, v). json_string k @ CHR '':'' # json_print v) gs)) \<le> length gs * (m + 130)"
    if "set gs \<subseteq> set fs" for gs
    using that
  proof (induction gs rule: induct_list012)
    case (2 g)
    obtain k v where kv: "g = (k, v)" by (cases g)
    with 2 assms(1) have "ascii k" "length k \<le> 20" "length (json_print v) \<le> m"
      by (auto simp: list_all_iff proper_json_def)
    with json_string_length [of k] kv show ?case by simp
  next
    case (3 g h gs)
    obtain k v where kv: "g = (k, v)" by (cases g)
    with 3 assms(1) have "ascii k" "length k \<le> 20" "length (json_print v) \<le> m"
      by (auto simp: list_all_iff proper_json_def)
    with json_string_length [of k] kv 3 show ?case by simp
  qed simp
  from this [of fs] have "length (json_print (JObj fs)) \<le> n" using assms(2) by simp
  moreover have "json_depth (JObj fs) \<le> 100"
  proof -
    have "fold max (map (\<lambda>(k, v). json_depth v) gs) z \<le> 99" if "set gs \<subseteq> set fs" "z \<le> 99" for gs z
      using that assms(1) by (induction gs arbitrary: z) (auto simp: list_all_iff)
    from this [of fs 0] show ?thesis by simp
  qed
  ultimately show ?thesis using assms(1) by (auto simp: proper_json_def list_all_iff)
qed

lemma raw_object_single:
  assumes "json_ascii j" and "json_depth j \<le> maxNestingDepth" and "ascii k"
  shows "raw_object (json_print (JObj [(k, j)])) = [(k, json_print j)]"
proof -
  let ?s = "json_string k @ CHR '':'' # json_print j @ [CHR ''}'']"
  have q: "?s = CHR 0x22 # tl (json_string k) @ CHR '':'' # json_print j @ [CHR ''}'']"
    by (simp add: json_string_def)
  have "parse_str (tl (json_string k) @ CHR '':'' # json_print j @ [CHR ''}'']) =
      Some (k, CHR '':'' # json_print j @ [CHR ''}''])"
    using parse_str_json_string [OF assms(3)] by blast
  moreover have "parse_value maxNestingDepth (json_print j @ [CHR ''}'']) = Some (json_value j, [CHR ''}''])"
    using parse_value_print [OF assms(1,2), of "[CHR ''}'']"] by simp
  ultimately have "raw_fields ?s = [(k, json_print j)]"
    unfolding q by (subst raw_fields.simps) (simp add: value_start_print)
  then show ?thesis by (simp add: raw_object_def q skip_ws_def json_space_def)
qed

lemma answering_node_body:
  assumes "proper_json n (answer m (VArr (map json_value ps)))" and "ascii m"
    and "list_all json_ascii ps" and "\<forall>p \<in> set ps. json_depth p \<le> 100"
  shows "answering_node answer url (rpc_body m ps) s =
    (Inr (200, json_print (JObj [(''result'', answer m (VArr (map json_value ps)))])), s)"
proof -
  have "fold max (map json_depth ps) 0 \<le> 100"
  proof -
    have "fold max (map json_depth xs) z \<le> 100" if "\<forall>p \<in> set xs. json_depth p \<le> 100" "z \<le> 100" for xs z
      using that by (induction xs arbitrary: z) auto
    with assms(4) show ?thesis by simp
  qed
  then have "json_parse (rpc_body m ps) = Some (VObj [(''id'', VNum (int_text 10 1)), (''jsonrpc'', VStr ''2.0''),
      (''method'', VStr m), (''params'', VArr (map json_value ps))])"
    unfolding rpc_body_def
    by (subst json_parse_print) (use assms in \<open>auto simp: maxNestingDepth_def list_all_iff\<close>)
  then show ?thesis by (simp add: answering_node_def)
qed

lemma decode_answer:
  assumes "proper_json 100000 j"
  shows "decode_response (json_print (JObj [(''result'', j)])) =
      Some \<lparr>rp_JSONRPC = [], rp_ID = 0, rp_Result = Some (json_value j), rp_Error = None\<rparr>"
    and "response_result (json_print (JObj [(''result'', j)])) = json_print j"
proof -
  have l: "length (json_print (JObj [(''result'', j)])) \<le> rpc_limit"
    using assms json_body_length [of "''result''"] by (simp add: proper_json_def json_string_def rpc_limit_def)
  show "decode_response (json_print (JObj [(''result'', j)])) =
      Some \<lparr>rp_JSONRPC = [], rp_ID = 0, rp_Result = Some (json_value j), rp_Error = None\<rparr>"
    using assms l by (subst decode_response_print) (simp_all add: result_field proper_json_def maxNestingDepth_def)
  have "raw_object (json_print (JObj [(''result'', j)])) = [(''result'', json_print j)]"
    by (rule raw_object_single) (use assms in \<open>simp_all add: proper_json_def maxNestingDepth_def\<close>)
  with l show "response_result (json_print (JObj [(''result'', j)])) = json_print j"
    by (simp add: response_result_def raw_member_def)
qed

text \<open>A call to the node gives the decoder what the node answered, as a value and as a text.\<close>

lemma answering_node_call:
  assumes "proper_json 100000 (answer m (VArr (map json_value ps)))" and "ascii m"
    and "list_all json_ascii ps" and "\<forall>p \<in> set ps. json_depth p \<le> 100"
  shows "rpc_call (answering_node answer) url m ps out s =
      fromOption jsonError (out (Some (json_value (answer m (VArr (map json_value ps)))))) s"
    and "rpc_call_text (answering_node answer) url m ps out' s =
      fromOption jsonError (out' (json_print (answer m (VArr (map json_value ps))))) s"
  unfolding rpc_call_def rpc_call_text_def bindIO_def answering_node_body [of 100000 answer m ps, OF assms]
  by (simp_all add: decode_answer [OF assms(1)] fromOption_def returnIO_def del: json_print.simps)

lemma poll_loop_done: "probe s = (Some r, t) \<Longrightarrow> poll_loop os e probe s = Some (r, t)"
  by (subst poll_loop.simps) simp

subsection \<open>A receipt\<close>

definition sample_receipt_json :: json where
  "sample_receipt_json = JObj
     [(''transactionHash'', JStr (''0x'' @ sha256Hex ''transaction'')),
      (''blockHash'', JStr (''0x'' @ sha256Hex ''forked'')), (''status'', JStr ''0x1''), (''logs'', JArr [])]"

lemma proper_hash: "proper_json 500 (JStr (''0x'' @ sha256Hex x))"
proof -
  have "ascii (''0x'' @ sha256Hex x)" by simp
  then show ?thesis by (rule proper_JStr) simp
qed

lemma proper_sample_receipt: "proper_json 100000 sample_receipt_json"
proof -
  have "proper_json 500 (JStr ''0x1'')" by (rule proper_JStr) simp_all
  moreover have "proper_json 500 (JArr [])" by (simp add: proper_json_def)
  ultimately show ?thesis
    unfolding sample_receipt_json_def by (intro proper_JObj [where m = 500]) (use proper_hash in simp_all)
qed

lemma decode_sample_receipt:
  "\<exists>receipt. decode_receipt (json_print sample_receipt_json) = Some receipt \<and> er_Status receipt = ''0x1'' \<and>
     er_TransactionHash receipt = ''0x'' @ sha256Hex ''transaction'' \<and> er_BlockHash receipt = ''0x'' @ sha256Hex ''forked''"
proof -
  have "json_parse (json_print sample_receipt_json) = Some (json_value sample_receipt_json)"
    by (rule json_parse_print) (use proper_sample_receipt in \<open>auto simp: proper_json_def maxNestingDepth_def
        intro: le_trans [of _ 100]\<close>)
  then show ?thesis
    unfolding decode_receipt_def
    by (simp add: sample_receipt_json_def find_field_def receipt_fields_def string_field_def logs_field_def zero_receipt_def
        del: json_print.simps)
qed

end
