(* ===== verification/Anvil_Sound.thy ===== *)
theory Anvil_Sound
  imports Sample_Node Invariant_Sound
begin

text \<open>
  What the Anvil backend guarantees: it returns, it leaves no process behind, it talks to the local node
  only, and a result it reports is one the verified run accepts as soon as the approved binary ran and
  every approved check passed.
\<close>

subsection \<open>Rules for the loops\<close>

text \<open>The outside: what its operations keep of a predicate. \<open>local_os\<close> covers requests to local URLs only.\<close>

definition local_os :: "('s \<Rightarrow> bool) \<Rightarrow> 's anvil_os \<Rightarrow> bool" where
  "local_os P os \<longleftrightarrow>
     (\<forall>c d port. transport_keeps P (os_http os c d) (local_url port)) \<and>
     (\<forall>a b s. P s \<longrightarrow> P (os_arm os a b s)) \<and> (\<forall>s. P s \<longrightarrow> P (snd (os_select os s))) \<and> keepsIO P (os_listen os)"

lemma local_osD:
  assumes "local_os P os"
  shows "transport_keeps P (os_http os c d) (local_url port)" "P s \<Longrightarrow> P (os_arm os a b s)"
    "P s \<Longrightarrow> os_select os s = (w, t) \<Longrightarrow> P t" "keepsIO P (os_listen os)"
  using assms unfolding local_os_def by (auto dest!: spec [of _ s])

definition probe_keeps :: "('s \<Rightarrow> bool) \<Rightarrow> ('s \<Rightarrow> unit outcome option \<times> 's) \<Rightarrow> bool" where
  "probe_keeps P probe \<longleftrightarrow> (\<forall>s. P s \<longrightarrow> P (snd (probe s)))"

lemma keeps_poll_loop:
  assumes "local_os P os" and "probe_keeps P probe"
  shows "keeps P (poll_loop os e probe)"
proof (unfold keeps_def, intro allI impI)
  fix s r t
  assume "P s" and run: "poll_loop os e probe s = Some (r, t)"
  let ?I = "\<lambda>os e probe s r. local_os P os \<longrightarrow> probe_keeps P probe \<longrightarrow> P s \<longrightarrow> P (snd r)"
  have "?I os e probe s (r, t)"
  proof (rule poll_loop.raw_induct [where P = ?I, OF _ run], intro impI)
    fix f os e probe s r
    assume IH: "\<And>os e probe s r. f os e probe s = Some r \<Longrightarrow> ?I os e probe s r"
      and eq: "(case probe s of
        (None, t) \<Rightarrow> (case os_select os t of
             (CtxDone e, u) \<Rightarrow> Some (Fail e, u)
           | (DeadlineFired, u) \<Rightarrow> Some (Fail e, u)
           | (Ticked, u) \<Rightarrow> f os e probe u)
        | (Some r, t) \<Rightarrow> Some (r, t)) = Some r"
      and os: "local_os P os" and h: "probe_keeps P probe" and s: "P s"
    from h s have "P (snd (probe s))" by (simp add: probe_keeps_def)
    then show "P (snd r)"
      using eq os h IH local_osD(3) [OF os]
      by (auto split: option.splits prod.splits wakeup.splits)
  qed
  with \<open>P s\<close> assms show "P t" by simp
qed

lemma probe_keeps_ready: "transport_keeps P http url \<Longrightarrow> probe_keeps P (ready_probe http url)"
  unfolding probe_keeps_def ready_probe_def
  by (auto split: prod.splits sum.splits dest: keepsIOD [OF keeps_rpc_queries(1)])

lemma keeps_rpc_call_text [keeps_intros]:
  "transport_keeps P http url \<Longrightarrow> keepsIO P (rpc_call_text http url method params out)"
  unfolding rpc_call_text_def transport_keeps_def by (intro keeps_intros allI) auto

lemma keeps_transactionReceipt [keeps_intros]:
  "transport_keeps P http url \<Longrightarrow> keepsIO P (transactionReceipt http url txHash)"
  unfolding transactionReceipt_def by (intro keeps_intros)

lemma probe_keeps_receipt: "transport_keeps P http url \<Longrightarrow> probe_keeps P (receipt_probe http url txHash)"
  unfolding probe_keeps_def receipt_probe_def
  by (auto split: prod.splits sum.splits option.splits dest: keepsIOD [OF keeps_transactionReceipt])

lemma keeps_waitForAnvil [keeps_intros]:
  assumes "local_os P os" and "transport_keeps P http url"
  shows "keeps P (waitForAnvil os http url d)"
  unfolding waitForAnvil_def
  by (intro keeps_intros keeps_poll_loop probe_keeps_ready assms local_osD(2) [OF assms(1)])

lemma keeps_requireSuccessfulReceipt [keeps_intros]:
  assumes "local_os P os" and "transport_keeps P http url"
  shows "keeps P (requireSuccessfulReceipt os http url txHash)"
  unfolding requireSuccessfulReceipt_def
  by (intro keeps_intros keeps_poll_loop probe_keeps_receipt assms local_osD(2) [OF assms(1)])

lemma keeps_client [keeps_intros]:
  assumes "transport_keeps P http url"
  shows "keepsIO P (rpc_sendTransaction http url payload)" "keepsIO P (transactionReceiptDigest http url txHash)"
  unfolding rpc_sendTransaction_def transactionReceiptDigest_def by (intro keeps_intros assms)+

lemma keeps_startup [keeps_intros]: "keeps P w \<Longrightarrow> keeps P (startup os what w)"
  unfolding keeps_def startup_def by (auto split: option.splits prod.splits outcome.splits)

lemma keeps_session:
  assumes "local_os P os" and "\<And>tx. keepsIO P (evaluate (local_url port) request tx)"
  shows "keeps P (anvil_session os b evaluate request runnerSHA (local_url port))"
proof -
  note h = local_osD(1) [OF assms(1)]
  have "P s \<Longrightarrow> P (snd (rpc_callBool (os_http os BackgroundCtx d) (local_url port) m ps s))" for d m ps s
    using keepsIOD [OF keeps_rpc_queries(3) [OF h]] by (metis prod.collapse)
  with h assms show ?thesis unfolding anvil_session_def Let_def by (intro keeps_intros)
qed

text \<open>Everything before the process runs, and the whole run for a predicate that starting and killing it keep too.\<close>

lemma keeps_ExecuteVerifiedFork:
  assumes "local_os P os" and "keepsIO P (os_readFile os (ab_AnvilPath b))"
    and "\<And>port. keepsIO P (os_Start os (ab_AnvilPath b)
          (anvil_args (ab_ForkURL b) port (fq_ReferenceBlock (pv_Simulation request))) (minimalRunnerEnv (os_Environ os)))"
    and "\<And>s. P s \<Longrightarrow> P (os_KillWait os s)"
    and "\<And>evaluate port tx. ab_Evaluator b = Some evaluate \<Longrightarrow> keepsIO P (evaluate (local_url port) request tx)"
  shows "keeps P (ExecuteVerifiedFork os b request)"
proof (cases "ab_Evaluator b")
  case None
  then show ?thesis by (simp add: ExecuteVerifiedFork_def keeps_basic)
next
  case (Some evaluate)
  note assms' = assms(1-4) assms(5) [OF Some]
  show ?thesis unfolding ExecuteVerifiedFork_def Some option.case poll_ctx_def fileSHA256_def reserveLocalPort_def
    by (intro keeps_intros keeps_session assms' local_osD(4) [OF assms(1)])
qed

text \<open>A started process and its deferred kill: the number of live processes comes back to what it was.\<close>

lemma keeps_process:
  assumes "\<And>path args env s r t. os_Start os path args env s = (r, t) \<Longrightarrow>
          live t = (case r of Inl _ \<Rightarrow> live s | Inr _ \<Rightarrow> Suc (live s))"
    and "\<And>s. live (os_KillWait os s) = live s - 1" and "keeps (\<lambda>s. live s = Suc n) session"
  shows "keeps (\<lambda>s. live s = n)
    (bindR (mapErrR f (liftIO (os_Start os path args env))) (\<lambda>_. deferR (os_KillWait os) session))"
proof (unfold keeps_def, intro allI impI)
  fix s r t
  assume s: "live s = n" and run: "bindR (mapErrR f (liftIO (os_Start os path args env)))
    (\<lambda>_. deferR (os_KillWait os) session) s = Some (r, t)"
  obtain q u where q: "os_Start os path args env s = (q, u)" by (cases "os_Start os path args env s")
  note l = assms(1) [OF q]
  show "live t = n"
  proof (cases q)
    case (Inl e)
    with q l s run show ?thesis by (simp add: bindR_def mapErrR_def liftIO_def)
  next
    case (Inr x)
    with q run obtain v where v: "session u = Some (r, v)" "t = os_KillWait os v"
      by (auto simp: bindR_def mapErrR_def liftIO_def deferR_Some)
    have "live v = Suc n" by (rule keepsD [OF assms(3) _ v(1)]) (use l Inr s in simp)
    with v(2) assms(2) show ?thesis by simp
  qed
qed

subsection \<open>Returning\<close>

text \<open>\<open>left s\<close> counts the ticks a loop in state \<open>s\<close> still takes before its \<^verbatim>\<open>select\<close> takes the deadline; \<open>None\<close> says
that no deadline is armed, and then nothing is known. Arming a deadline bounds the ticks, a tick uses one up and
leaves the deadline armed, and a request does neither disarm nor postpone it. When the deadline has fired and a tick is
pending too, \<^verbatim>\<open>select\<close> chooses between them at random: the count includes the ticks that win against it, of which
there are finitely many with probability 1.\<close>

definition deadlines :: "('s \<Rightarrow> nat option) \<Rightarrow> 's anvil_os \<Rightarrow> bool" where
  "deadlines left os \<longleftrightarrow>
     (\<forall>timeout every s. left (os_arm os timeout every s) \<noteq> None) \<and>
     (\<forall>s t n. os_select os s = (Ticked, t) \<and> left s = Some n \<longrightarrow> (\<exists>m < n. left t = Some m)) \<and>
     (\<forall>c d port n. transport_keeps (\<lambda>s. \<exists>m \<le> n. left s = Some m) (os_http os c d) (local_url port))"

lemma deadlinesD:
  assumes "deadlines left os"
  shows "\<exists>n. left (os_arm os timeout every s) = Some n"
    and "os_select os s = (Ticked, t) \<Longrightarrow> left s = Some n \<Longrightarrow> \<exists>m < n. left t = Some m"
    and "transport_keeps (\<lambda>s. \<exists>m \<le> n. left s = Some m) (os_http os c d) (local_url port)"
  using assms unfolding deadlines_def by blast+

lemma poll_loop_ends:
  assumes "deadlines left os" and "\<And>n. probe_keeps (\<lambda>s. \<exists>m \<le> n. left s = Some m) probe" and "left s = Some n"
  shows "poll_loop os e probe s \<noteq> None"
  using assms(3)
proof (induction n arbitrary: s rule: less_induct)
  case (less n)
  obtain q t where q: "probe s = (q, t)" by (cases "probe s")
  obtain w u where w: "os_select os t = (w, u)" by (cases "os_select os t")
  have "\<exists>m \<le> n. left t = Some m"
    using assms(2) [of n, unfolded probe_keeps_def] less.prems q by (metis order_refl snd_conv)
  then obtain m where m: "m \<le> n" "left t = Some m" by blast
  have "w = Ticked \<Longrightarrow> poll_loop os e probe u \<noteq> None"
    using deadlinesD(2) [OF assms(1) _ m(2), of u] w m(1) less.IH by (metis order_less_le_trans)
  with q w show ?case
    by (subst poll_loop.simps) (auto split: option.splits wakeup.splits)
qed

lemma returns_startup [returns_intros]: "returns w \<Longrightarrow> returns (startup os what w)"
  unfolding returns_def startup_def by (auto split: option.splits prod.splits outcome.splits)

text \<open>A loop returns from any state because it arms its deadline first.\<close>

lemma armed_loop_returns:
  assumes "deadlines left os" and "\<And>n. probe_keeps (\<lambda>s. \<exists>m \<le> n. left s = Some m) probe"
  shows "returns (bindR (effectR (os_arm os timeout every)) (\<lambda>_. poll_loop os e probe))"
  unfolding returns_def
proof
  fix s
  obtain n where "left (os_arm os timeout every s) = Some n" using deadlinesD(1) [OF assms(1)] by blast
  from poll_loop_ends [OF assms this, of e]
  show "bindR (effectR (os_arm os timeout every)) (\<lambda>_. poll_loop os e probe) s \<noteq> None"
    by (simp add: bindR_def effectR_def)
qed

lemma returns_polling:
  assumes "deadlines left os"
  shows "returns (waitForAnvil os (os_http os c d) (local_url port) timeout)"
    and "returns (requireSuccessfulReceipt os (os_http os c d) (local_url port) txHash)"
  unfolding waitForAnvil_def requireSuccessfulReceipt_def
  by (intro armed_loop_returns [OF assms] probe_keeps_ready probe_keeps_receipt deadlinesD(3) [OF assms])+

subsection \<open>What a result says\<close>

lemma session_result:
  assumes "anvil_session os b evaluate request runnerSHA url s = Some (Ok result, t)"
  shows "vb_ObservedRunnerSHA256 result = runnerSHA \<and>
    fb_ChainID (vb_Simulation result) = fq_ChainID (pv_Simulation request) \<and>
    fb_ObservedReferenceBlock (vb_Simulation result) = fq_ReferenceBlock (pv_Simulation request) \<and>
    equalHex32 (fb_ObservedReferenceHash (vb_Simulation result)) (fq_ReferenceBlockHash (pv_Simulation request)) \<and>
    evmPayloadDigest (pv_Payload request) = Some (fb_ObservedPayloadSHA256 (vb_Simulation result)) \<and>
    fb_ObservedInvariantSetHash (vb_Simulation result) = fq_InvariantSetSHA256 (pv_Simulation request) \<and>
    fe_ExecutionModel (vb_Execution result) = [] \<and> validHex32 (fe_TransactionHash (vb_Execution result)) \<and>
    validSHA256 (fe_TransactionReceiptSHA256 (vb_Execution result)) \<and>
    fe_InvariantEvidenceSHA256 (vb_Execution result) =
      canonicalInvariantEvidenceDigest (elems (fb_Checks (vb_Simulation result)))"
proof -
  have digest: "validSHA256 r" if "transactionReceiptDigest http url txHash s = (Inr r, u)" for http s u r txHash
    using that unfolding transactionReceiptDigest_def
    by (auto simp: bindIO_Inr if_raiseIO_Inr split: option.splits if_splits)
  show ?thesis
    using assms unfolding anvil_session_def Let_def
    by (auto simp: run_Ok rpc_sendTransaction_def bindIO_Inr if_raiseIO_Inr validHex32_normalizeHex32
        split: option.splits dest!: digest)
qed

lemma canonicalizeInvariantChecks_idem:
  "canonicalInvariantEvidenceDigest (elems (fst (canonicalizeInvariantChecks cs))) = canonicalInvariantEvidenceDigest cs"
proof -
  have n: "normalize_check (normalize_check c) = normalize_check c" for c
    by (simp add: normalize_check_def)
  then have "map normalize_check (sort_key ic_ID (map normalize_check cs)) = sort_key ic_ID (map normalize_check cs)"
    by (intro map_idI) auto
  moreover have "sort_key ic_ID (map normalize_check cs) = [] \<longleftrightarrow> cs = []"
    by (metis length_0_conv length_map length_sort)
  moreover have "sort_key ic_ID (sort_key ic_ID (map normalize_check cs)) = sort_key ic_ID (map normalize_check cs)"
    by (rule sort_key_id_if_sorted) simp
  ultimately show ?thesis
    by (simp add: canonicalInvariantEvidenceDigest_def canonicalizeInvariantChecks_def Let_def)
qed

text \<open>The checks of a result as the contract asks for them.\<close>

definition checks_complete :: "PreparedVerifiedForkRequest \<Rightarrow> InvariantCheck list \<Rightarrow> bool" where
  "checks_complete p cs \<longleftrightarrow>
     mset (map (\<lambda>c. TrimSpace (ic_ID c)) cs) = mset (fq_RequiredCheckIDs (pv_Simulation p)) \<and>
     list_all (\<lambda>c. ic_Passed c \<and> validInvariantClass (ic_Class c) \<and> validSHA256 (ToLower (TrimSpace (ic_Evidence c)))) cs"

lemma session_verified_spec:
  assumes "prepareVerifiedForkRequest q = Some p"
    and "anvil_session os b evaluate p runnerSHA url s = Some (Ok result, t)"
  shows "verified_spec p result \<longleftrightarrow> equalDigest runnerSHA (fq_RunnerSHA256 (pv_Simulation p)) \<and>
    checks_complete p (elems (fb_Checks (vb_Simulation result)))"
proof -
  have "evmPayloadDigest (pv_Payload p) = Some (fq_PayloadSHA256 (pv_Simulation p))"
    using assms(1) by (auto simp: prepareVerifiedForkRequest_Some evmPayloadDigest_def canonicalEVMPayload_idem)
  with session_result [OF assms(2)] show ?thesis
    by (auto simp: verified_spec_def simulation_spec_def validForkExecutionEvidence_def checks_complete_def
        canonicalizeInvariantChecks_idem validExecutionModel_def canonicalExecutionModel_def list_all_iff
        canonicalInvariantEvidenceDigest_def [of "elems (fb_Checks (vb_Simulation result))"])
qed

lemma ExecuteVerifiedFork_Ok:
  "ExecuteVerifiedFork os b request s = Some (Ok result, t) \<longleftrightarrow>
     (\<exists>evaluate contents port u1 u2 u3 u4. ab_Evaluator b = Some evaluate \<and> TrimSpace (ab_AnvilPath b) \<noteq> [] \<and>
        TrimSpace (ab_ForkURL b) \<noteq> [] \<and> os_ctxErr os s = None \<and>
        os_readFile os (ab_AnvilPath b) s = (Inr contents, u1) \<and> os_listen os u1 = (Inr port, u2) \<and>
        os_Start os (ab_AnvilPath b) (anvil_args (ab_ForkURL b) port (fq_ReferenceBlock (pv_Simulation request)))
          (minimalRunnerEnv (os_Environ os)) u2 = (Inr (), u3) \<and>
        anvil_session os b evaluate request (sha256Hex contents) (local_url port) u3 = Some (Ok result, u4) \<and>
        t = os_KillWait os u4)"
  by (cases "ab_Evaluator b")
     (auto simp: ExecuteVerifiedFork_def poll_ctx_def fileSHA256_def reserveLocalPort_def run_Ok bindIO_Inr
       split: option.splits)

subsection \<open>A concrete node\<close>

definition sample_answer :: "string \<Rightarrow> jvalue \<Rightarrow> json" where
  "sample_answer m params =
     (if m = ''eth_chainId'' then JStr ''0x1''
      else if m = ''eth_getBlockByNumber'' then JObj [(''hash'', JStr (''0x'' @ sha256Hex ''block''))]
      else if m = ''eth_sendTransaction'' then JStr (''0x'' @ sha256Hex ''transaction'')
      else if m = ''eth_getTransactionReceipt'' then sample_receipt_json
      else JBool True)"

text \<open>The outside of the witnesses: the ticks left until a deadline fires, and the number of live processes.\<close>

definition sample_os :: "(nat \<times> nat) anvil_os" where
  "sample_os = \<lparr>os_http = (\<lambda>_ _. answering_node sample_answer), os_ctxErr = (\<lambda>_. None),
     os_arm = (\<lambda>_ _ s. s), os_select = (\<lambda>s. (if fst s = 0 then DeadlineFired else Ticked, (fst s - 1, snd s))),
     os_readFile = (\<lambda>_ s. (Inr ''runner'', s)), os_listen = (\<lambda>s. (Inr 40000, s)),
     os_Start = (\<lambda>_ _ _ s. (Inr (), (fst s, Suc (snd s)))), os_KillWait = (\<lambda>s. (fst s, snd s - 1)),
     os_Environ = [], os_stderr = (\<lambda>_. [])\<rparr>"

definition sample_anvil :: "(nat \<times> nat) AnvilForkBackend" where
  "sample_anvil = \<lparr>ab_AnvilPath = ''anvil'', ab_ForkURL = ''node'', ab_StartupTimeout = 0, ab_RPCTimeout = 0,
     ab_Evaluator = Some (\<lambda>_ _ _ s. (Inr (Some [sample_check ''a'', sample_check ''b'']), s))\<rparr>"

lemma sample_os_simps [simp]:
  "os_http sample_os c t = answering_node sample_answer" "os_ctxErr sample_os s = None" "os_arm sample_os a b s = s"
  "os_select sample_os s = (if fst s = 0 then DeadlineFired else Ticked, (fst s - 1, snd s))"
  "os_readFile sample_os path s = (Inr ''runner'', s)" "os_listen sample_os s = (Inr 40000, s)"
  "os_Start sample_os path args env s = (Inr (), (fst s, Suc (snd s)))" "os_KillWait sample_os s = (fst s, snd s - 1)"
  by (simp_all add: sample_os_def)

lemma proper_sample_answer: "proper_json 100000 (sample_answer m ps)"
proof -
  have u: "proper_json 500 (JStr ''0x1'')" by (rule proper_JStr) simp_all
  have "proper_json 500 (JBool True)" by (simp add: proper_json_def)
  note p = proper_hash u this proper_sample_receipt
  have "proper_json 100000 (JObj [(''hash'', JStr (''0x'' @ sha256Hex ''block''))])"
    by (rule proper_JObj [where m = 500]) (use p in simp_all)
  moreover have "proper_json 100000 j" if "proper_json 500 j" for j using that by (simp add: proper_json_def)
  ultimately show ?thesis using p unfolding sample_answer_def by (simp del: append.simps)
qed

lemma sample_rpc:
  assumes "ascii m" and "list_all json_ascii ps" and "\<forall>p \<in> set ps. json_depth p \<le> 100"
  shows "rpc_call (answering_node sample_answer) url m ps out s =
      fromOption jsonError (out (Some (json_value (sample_answer m (VArr (map json_value ps)))))) s"
    and "rpc_call_text (answering_node sample_answer) url m ps out' s =
      fromOption jsonError (out' (json_print (sample_answer m (VArr (map json_value ps))))) s"
  by (rule answering_node_call [OF proper_sample_answer assms])+

lemma parse_0x1: "parseUint64 (TrimPrefix ''0x1'' ''0x'') = Some 1"
  by (simp add: parseUint64_def TrimPrefix_def parse_nat_def hex_val_def lower_char_def)

lemma sample_queries:
  "rpc_chainID (answering_node sample_answer) url s = (Inr 1, s)"
  "rpc_blockHash (answering_node sample_answer) url block s = (Inr (''0x'' @ sha256Hex ''block''), s)"
  "ascii a \<Longrightarrow> rpc_callBool (answering_node sample_answer) url ''anvil_impersonateAccount'' [JStr a] s = (Inr (), s)"
  "ascii a \<Longrightarrow> rpc_callBool (answering_node sample_answer) url ''anvil_stopImpersonatingAccount'' [JStr a] s = (Inr (), s)"
proof -
  show "rpc_chainID (answering_node sample_answer) url s = (Inr 1, s)"
    unfolding rpc_chainID_def bindIO_def
    by (subst sample_rpc) (simp_all add: sample_answer_def string_result_def fromOption_def returnIO_def
        parse_0x1 [simplified])
  have "ascii (nat_text 16 n)" for n by (simp add: hex_text_ascii nat_text_16_visible)
  then show "rpc_blockHash (answering_node sample_answer) url block s = (Inr (''0x'' @ sha256Hex ''block''), s)"
    unfolding rpc_blockHash_def bindIO_def
    by (subst sample_rpc) (simp_all add: sample_answer_def hash_result_def find_field_def string_field_def
        fromOption_def returnIO_def validHex32_0x [simplified])
  show "ascii a \<Longrightarrow> rpc_callBool (answering_node sample_answer) url ''anvil_impersonateAccount'' [JStr a] s = (Inr (), s)"
    "ascii a \<Longrightarrow> rpc_callBool (answering_node sample_answer) url ''anvil_stopImpersonatingAccount'' [JStr a] s = (Inr (), s)"
    unfolding rpc_callBool_def bindIO_def
    by (subst sample_rpc; simp add: sample_answer_def bool_result_def fromOption_def returnIO_def)+
qed

lemma sample_send:
  "rpc_sendTransaction (answering_node sample_answer) url sample_payload s = (Inr (''0x'' @ sha256Hex ''transaction''), s)"
proof -
  have "json_ascii (json_EVMPayload sample_payload)" by (rule canonical_payload_ascii [OF sample_payload_canonical])
  then have "ascii (ep_From sample_payload)" "ascii (ep_To sample_payload)" "ascii (ep_ValueHex sample_payload)"
    "ascii (ep_DataHex sample_payload)" by (simp_all add: json_EVMPayload_def)
  then show ?thesis
    unfolding rpc_sendTransaction_def bindIO_def
    by (subst sample_rpc) (simp_all add: sample_answer_def string_result_def fromOption_def returnIO_def
        validHex32_0x [simplified])
qed

lemma sample_receipt:
  "\<exists>receipt. transactionReceipt (answering_node sample_answer) url (''0x'' @ sha256Hex ''transaction'') s =
     (Inr (Some receipt), s) \<and> er_Status receipt = ''0x1''"
proof -
  obtain receipt where r: "decode_receipt (json_print sample_receipt_json) = Some receipt" "er_Status receipt = ''0x1''"
    "er_TransactionHash receipt = ''0x'' @ sha256Hex ''transaction''" "er_BlockHash receipt = ''0x'' @ sha256Hex ''forked''"
    using decode_sample_receipt by (elim exE conjE)
  have "transactionReceipt (answering_node sample_answer) url (''0x'' @ sha256Hex ''transaction'') s = (Inr (Some receipt), s)"
    unfolding transactionReceipt_def bindIO_def
    by (subst sample_rpc) (use r in \<open>simp_all add: sample_answer_def fromOption_def returnIO_def validHex32_0x [simplified]
        ascii_sha256Hex del: json_print.simps\<close>)
  with r(2) show ?thesis by (intro exI [of _ receipt] conjI)
qed

lemma sample_polls:
  "waitForAnvil sample_os (answering_node sample_answer) url d s = Some (Ok (), s)"
  "requireSuccessfulReceipt sample_os (answering_node sample_answer) url (''0x'' @ sha256Hex ''transaction'') s = Some (Ok (), s)"
proof -
  have "ready_probe (answering_node sample_answer) url s = (Some (Ok ()), s)"
    by (simp add: ready_probe_def sample_queries)
  then have w: "poll_loop os e (ready_probe (answering_node sample_answer) url) s = Some (Ok (), s)" for os e
    by (rule poll_loop_done)
  show "waitForAnvil sample_os (answering_node sample_answer) url d s = Some (Ok (), s)"
    unfolding waitForAnvil_def bindR_def effectR_def sample_os_simps by (simp add: w)
  have "receipt_probe (answering_node sample_answer) url (''0x'' @ sha256Hex ''transaction'') s = (Some (Ok ()), s)"
    using sample_receipt [of url s] by (auto simp: receipt_probe_def ToLower_def lower_char_def)
  then have r: "poll_loop os e (receipt_probe (answering_node sample_answer) url (''0x'' @ sha256Hex ''transaction'')) s =
      Some (Ok (), s)" for os e
    by (rule poll_loop_done)
  show "requireSuccessfulReceipt sample_os (answering_node sample_answer) url (''0x'' @ sha256Hex ''transaction'') s = Some (Ok (), s)"
    unfolding requireSuccessfulReceipt_def bindR_def effectR_def sample_os_simps by (simp add: r [simplified])
qed

lemma sample_digest:
  "\<exists>r. transactionReceiptDigest (answering_node sample_answer) url (''0x'' @ sha256Hex ''transaction'') s = (Inr r, s)"
proof -
  obtain receipt where r: "er_Status receipt = ''0x1''"
    "transactionReceipt (answering_node sample_answer) url (''0x'' @ sha256Hex ''transaction'') s = (Inr (Some receipt), s)"
    using sample_receipt [of url s] by blast
  have "ToLower ''0x1'' = ''0x1''" by (simp add: ToLower_def lower_char_def)
  then show ?thesis
    unfolding transactionReceiptDigest_def bindIO_def r prod.case sum.case option.case
    by (simp only: simp_thms if_False returnIO_def prod.inject sum.inject)
qed

lemma sample_session:
  "\<exists>result. anvil_session sample_os sample_anvil (\<lambda>_ _ _ s. (Inr (Some [sample_check ''a'', sample_check ''b'']), s))
     sample_prepared r url s = Some (Ok result, s) \<and>
     fb_Checks (vb_Simulation result) = Some [sample_check ''a'', sample_check ''b'']"
proof -
  obtain d where d: "transactionReceiptDigest (answering_node sample_answer) url (''0x'' @ sha256Hex ''transaction'') s = (Inr d, s)"
    by (rule exE [OF sample_digest])
  have a: "ascii (ep_From sample_payload)"
    using canonical_payload_ascii [OF sample_payload_canonical] by (simp add: json_EVMPayload_def)
  have p: "fq_ChainID (pv_Simulation sample_prepared) = 1" "pv_Payload sample_prepared = sample_payload"
    "fq_ReferenceBlockHash (pv_Simulation sample_prepared) = ''0x'' @ sha256Hex ''block''"
    by (simp_all add: sample_prepared_def)
  have e: "evmPayloadDigest sample_payload = Some (json_digest (json_EVMPayload sample_payload))"
    by (simp add: evmPayloadDigest_def sample_payload_canonical)
  have q: "equalHex32 (''0x'' @ sha256Hex ''block'') (''0x'' @ sha256Hex ''block'')"
    by (rule equalHex32_refl)
  show ?thesis
    unfolding anvil_session_def Let_def sample_os_simps p
    by (simp add: bindR_def startup_def sample_polls mapErrR_def liftIO_def deferR_def sample_queries sample_send
        [simplified] a d [simplified] e q [simplified] okR_def sample_polls(2) [simplified])
qed

lemma sample_anvil_run:
  "\<exists>result. ExecuteVerifiedFork sample_os sample_anvil sample_prepared s = Some (Ok result, s) \<and>
     vb_ObservedRunnerSHA256 result = sha256Hex ''runner'' \<and>
     fb_Checks (vb_Simulation result) = Some [sample_check ''a'', sample_check ''b'']"
proof -
  let ?u = "(fst s, Suc (snd s))"
  obtain result where r: "anvil_session sample_os sample_anvil (\<lambda>_ _ _ s. (Inr (Some [sample_check ''a'', sample_check ''b'']), s))
      sample_prepared (sha256Hex ''runner'') (local_url 40000) ?u = Some (Ok result, ?u)"
    "fb_Checks (vb_Simulation result) = Some [sample_check ''a'', sample_check ''b'']"
    using sample_session by (rule exE) (erule conjE)
  have trim: "TrimSpace ''anvil'' = ''anvil''" "TrimSpace ''node'' = ''node''"
    by (simp_all add: TrimSpace_all_visible visible_def)
  have "ExecuteVerifiedFork sample_os sample_anvil sample_prepared s = Some (Ok result, s)"
    unfolding ExecuteVerifiedFork_Ok
    by (rule exI [of _ "\<lambda>_ _ _ s. (Inr (Some [sample_check ''a'', sample_check ''b'']), s)"], rule exI [of _ "''runner''"],
        rule exI [of _ 40000], rule exI [of _ s], rule exI [of _ s], rule exI [of _ ?u], rule exI [of _ ?u])
       (use r(1) trim in \<open>simp add: sample_anvil_def\<close>)
  moreover have "vb_ObservedRunnerSHA256 result = sha256Hex ''runner''"
    using session_result [OF r(1)] by simp
  ultimately show ?thesis using r(2) by (intro exI [of _ result] conjI)
qed

lemma answering_node_keeps: "transport_keeps P (answering_node answer) url"
  unfolding transport_keeps_def keepsIO_def answering_node_def
  by (auto split: option.splits jvalue.splits prod.splits)

subsection \<open>Properties\<close>



text \<open>No process is left behind: whichever way an execution ends, the number of live child processes is the one it
started with, when starting one adds one and the deferred kill takes one away.\<close>

theorem anvil_no_process_left:
  fixes live :: "'s \<Rightarrow> nat"
  assumes "\<And>n. local_os (\<lambda>s. live s = n) os" and "\<And>n path. keepsIO (\<lambda>s. live s = n) (os_readFile os path)"
    and "\<And>path args env s r t. os_Start os path args env s = (r, t) \<Longrightarrow>
          live t = (case r of Inl _ \<Rightarrow> live s | Inr _ \<Rightarrow> Suc (live s))"
    and "\<And>s. live (os_KillWait os s) = live s - 1"
    and "\<And>n evaluate port tx. ab_Evaluator b = Some evaluate \<Longrightarrow> keepsIO (\<lambda>s. live s = n) (evaluate (local_url port) request tx)"
    and "ExecuteVerifiedFork os b request s = Some (r, t)"
  shows "live t = live s"
proof (cases "ab_Evaluator b")
  case None
  with assms(6) show ?thesis by (simp add: ExecuteVerifiedFork_def)
next
  case (Some evaluate)
  let ?P = "\<lambda>s'. live s' = live s"
  have start: "keeps ?P (bindR (mapErrR f (liftIO (os_Start os path args env)))
      (\<lambda>_. deferR (os_KillWait os) (anvil_session os b evaluate request runnerSHA (local_url port))))" for f path args env runnerSHA port
    by (intro keeps_process assms(3,4) keeps_session assms(1) assms(5) [OF Some])
  have "keeps ?P (ExecuteVerifiedFork os b request)"
    unfolding ExecuteVerifiedFork_def Some option.case poll_ctx_def fileSHA256_def reserveLocalPort_def
    by (intro keeps_intros(1-7) keeps_case_option keeps_if keepsIO_bindIO keepsIO_basic start assms(2)
        local_osD(4) [OF assms(1)])
  from keepsD [OF this _ assms(6)] show ?thesis by simp
qed

theorem anvil_no_process_left_witness:
  "\<exists>result t. ExecuteVerifiedFork sample_os sample_anvil sample_prepared (3, 7) = Some (Ok result, t) \<and> snd t = 7"
proof -
  obtain result where r: "ExecuteVerifiedFork sample_os sample_anvil sample_prepared (3, 7) = Some (Ok result, (3, 7))"
    using sample_anvil_run by (rule exE) (erule conjE)
  have "local_os (\<lambda>s. snd s = n) sample_os" for n
    by (auto simp: local_os_def answering_node_keeps keepsIO_def)
  then have "snd (3 :: nat, 7) = snd (3 :: nat, 7 :: nat)"
    by (rule anvil_no_process_left [OF _ _ _ _ _ r]) (auto simp: keepsIO_def sample_anvil_def)
  with r show ?thesis by (intro exI [of _ result] exI [of _ "(3, 7)"] conjI) simp_all
qed

text \<open>The backend stays on the host: it starts the configured binary and nothing else, with only the allowed
variables of the environment, and sends requests to \<^verbatim>\<open>http://127.0.0.1\<close> only. So whatever these keep true of the
outside stays true, however an execution ends.\<close>

theorem anvil_run_confined:
  assumes "local_os P os" and "keepsIO P (os_readFile os (ab_AnvilPath b))"
    and "\<And>port. keepsIO P (os_Start os (ab_AnvilPath b)
          [''--host'', ''127.0.0.1'', ''--port'', int_text 10 port, ''--fork-url'', ab_ForkURL b,
           ''--fork-block-number'', nat_text 10 (unat (fq_ReferenceBlock (pv_Simulation request))), ''--silent'']
          (filter (\<lambda>item. \<exists>p \<in> set runner_env_allowed. HasPrefix item p) (os_Environ os)))"
    and "\<And>s. P s \<Longrightarrow> P (os_KillWait os s)"
    and "\<And>evaluate port tx. ab_Evaluator b = Some evaluate \<Longrightarrow> keepsIO P (evaluate (local_url port) request tx)"
    and "P s" and "ExecuteVerifiedFork os b request s = Some (r, t)"
  shows "P t"
proof -
  have "minimalRunnerEnv (os_Environ os) = filter (\<lambda>item. \<exists>p \<in> set runner_env_allowed. HasPrefix item p) (os_Environ os)"
    by (simp add: minimalRunnerEnv_def list_ex_iff)
  then have "keeps P (ExecuteVerifiedFork os b request)"
    by (intro keeps_ExecuteVerifiedFork assms(1,2,4,5)) (use assms(3) in \<open>simp_all add: anvil_args_def\<close>)
  from keepsD [OF this assms(6,7)] show ?thesis .
qed

theorem anvil_run_confined_witness:
  "\<exists>result t. ExecuteVerifiedFork sample_os sample_anvil sample_prepared (3, 7) = Some (Ok result, t) \<and> fst t \<le> 3"
proof -
  obtain result where r: "ExecuteVerifiedFork sample_os sample_anvil sample_prepared (3, 7) = Some (Ok result, (3, 7))"
    using sample_anvil_run by (rule exE) (erule conjE)
  have "local_os (\<lambda>s. fst s \<le> 3) sample_os"
    by (auto simp: local_os_def answering_node_keeps keepsIO_def)
  then have "fst (3 :: nat, 7 :: nat) \<le> 3"
    by (rule anvil_run_confined [OF _ _ _ _ _ _ r]) (auto simp: keepsIO_def sample_anvil_def)
  with r show ?thesis by (intro exI [of _ result] exI [of _ "(3, 7)"] conjI) simp_all
qed

text \<open>C28: A result of the backend is what the verified run asks for: fed to it, the run succeeds exactly when the file that
was executed is the approved runner and the reported checks are the required ones, all passed. Chain, block, payload
and invariant set, transaction hash, receipt and evidence digests already agree, whatever the node answered.\<close>

theorem anvil_result_accepted_iff:
  assumes "prepareVerifiedForkRequest q = Some p" and "ExecuteVerifiedFork os b p s = Some (Ok result, t)"
  shows "\<exists>contents u. os_readFile os (ab_AnvilPath b) s = (Inr contents, u) \<and>
    (snd (RunVerifiedForkExecution background q (Some (\<lambda>_ _. (result, None)))) = None \<longleftrightarrow>
       equalDigest (sha256Hex contents) (vq_RunnerSHA256 q) \<and> checks_complete p (elems (fb_Checks (vb_Simulation result))))"
proof -
  from assms(2) obtain evaluate contents port u1 u3 u4 where f: "os_readFile os (ab_AnvilPath b) s = (Inr contents, u1)"
    and r: "anvil_session os b evaluate p (sha256Hex contents) (local_url port) u3 = Some (Ok result, u4)"
    unfolding ExecuteVerifiedFork_Ok by blast
  have run: "fq_RunnerSHA256 (pv_Simulation p) = ToLower (vq_RunnerSHA256 q)"
    using assms(1) by (simp add: prepareVerifiedForkRequest_Some)
  have "snd (RunVerifiedForkExecution background q (Some (\<lambda>_ _. (result, None)))) = None \<longleftrightarrow> verified_spec p result"
    using assms(1) RunVerifiedForkExecution_ok [of background q "Some (\<lambda>_ _. (result, None))"]
    by (cases "RunVerifiedForkExecution background q (Some (\<lambda>_ _. (result, None)))") auto
  also have "\<dots> \<longleftrightarrow> equalDigest (sha256Hex contents) (ToLower (vq_RunnerSHA256 q)) \<and>
      checks_complete p (elems (fb_Checks (vb_Simulation result)))"
    unfolding session_verified_spec [OF assms(1) r] run ..
  finally show ?thesis using f by (auto simp: equalDigest_def)
qed

theorem anvil_result_accepted_iff_witness:
  "\<exists>result t. ExecuteVerifiedFork sample_os sample_anvil sample_prepared (3, 7) = Some (Ok result, t) \<and>
     snd (RunVerifiedForkExecution background sample_verified_request (Some (\<lambda>_ _. (result, None)))) = None"
proof -
  obtain result where r: "ExecuteVerifiedFork sample_os sample_anvil sample_prepared (3, 7) = Some (Ok result, (3, 7))"
    and c: "fb_Checks (vb_Simulation result) = Some [sample_check ''a'', sample_check ''b'']"
    using sample_anvil_run by (rule exE) (erule conjE)+
  have "checks_complete sample_prepared [sample_check ''a'', sample_check ''b'']"
    by (simp add: checks_complete_def sample_prepared_def)
       (simp add: sample_check_def validInvariantClass_def TrimSpace_all_visible visible_def)
  moreover have "equalDigest (sha256Hex ''runner'') (vq_RunnerSHA256 sample_verified_request)"
    by (simp add: sample_verified_request_def)
  ultimately have "snd (RunVerifiedForkExecution background sample_verified_request (Some (\<lambda>_ _. (result, None)))) = None"
    using anvil_result_accepted_iff [OF sample_prepares r] c by simp
  with r show ?thesis by (intro exI [of _ result] exI [of _ "(3, 7)"] conjI)
qed

end
