(* ===== verification/Safe_Abi.thy ===== *)
theory Safe_Abi
  imports Safe_Runner Go_Run
begin

text \<open>
  The ABI layer of \<^verbatim>\<open>internal/executionproof/safe_anvil_engine_v04.go\<close>: how the engine encodes its
  calls and decodes what a node returns. Offsets are Go \<^verbatim>\<open>int\<close>s, so their sums wrap, and slicing
  outside a buffer panics: a result is a value, an error or a panic (\<open>outcome\<close>).
\<close>

text \<open>
  \<^verbatim>\<open>data[lo:hi]\<close>. Go's upper bound is the capacity of the slice; every slice taken here either ends within
  the length, which the code has checked before, or has a negative end, so the length serves as well.
\<close>

definition go_slice :: "string \<Rightarrow> i64 \<Rightarrow> i64 \<Rightarrow> string outcome" where
  "go_slice data lo hi =
     (if 0 \<le> sint lo \<and> sint lo \<le> sint hi \<and> sint hi \<le> int (length data)
      then Ok (take (nat (sint hi - sint lo)) (drop (nat (sint lo)) data)) else Panic)"

subsection \<open>Words\<close>

definition decodeHexBytesV04 :: "string \<Rightarrow> go_error + string" where
  "decodeHexBytesV04 value =
     (let value = TrimPrefix (TrimSpace value) ''0x'' in
      if length value mod 2 \<noteq> 0 then Inl (ErrMsg ''odd-length hex bytes'')
      else if value = [] then Inr []
      else (case hex_decode value of None \<Rightarrow> Inl hexError | Some decoded \<Rightarrow> Inr decoded))"

definition abiWordUint64V04 :: "string \<Rightarrow> go_error + u64" where
  "abiWordUint64V04 word =
     (if length word \<noteq> 32 then Inl (ErrMsg ''invalid ABI word'')
      else if bytes_be word \<ge> 2 ^ 64 then Inl (ErrMsg ''ABI word exceeds uint64'')
      else Inr (word_of_int (bytes_be word)))"

definition addressFromWordBytesV04 :: "string \<Rightarrow> go_error + string" where
  "addressFromWordBytesV04 word =
     (if length word \<noteq> 32 then Inl (ErrMsg ''invalid address ABI word'')
      else Inr (''0x'' @ hex_encode (drop 12 word)))"

definition addressFromWordV04 :: "string \<Rightarrow> go_error + string" where
  "addressFromWordV04 value =
     bindE (decodeHexBytesV04 value) (\<lambda>word.
       if length word > 32 then Inl (ErrMsg ''invalid address storage word'')
       else addressFromWordBytesV04 (zero_bytes (32 - length word) @ word))"

definition hexQuantityToDecimalV04 :: "string \<Rightarrow> go_error + string" where
  "hexQuantityToDecimalV04 value =
     (let value = TrimSpace value in
      if value = [] then Inr ''0''
      else (case SetString 16 (TrimPrefix value ''0x'') of
          None \<Rightarrow> Inl (ErrMsg ''invalid EVM value quantity'')
        | Some amount \<Rightarrow> if amount < 0 then Inl (ErrMsg ''invalid EVM value quantity'')
                         else Inr (int_text 10 amount)))"

subsection \<open>Dynamic arrays\<close>

fun abi_addresses :: "string \<Rightarrow> i64 \<Rightarrow> nat list \<Rightarrow> string list outcome" where
  "abi_addresses data offset [] = Ok []"
| "abi_addresses data offset (i # is) =
     bindO (go_slice data (offset + 32 + of_nat i * 32) (offset + 64 + of_nat i * 32)) (\<lambda>word.
     bindO (fromE (addressFromWordBytesV04 word)) (\<lambda>address.
     bindO (abi_addresses data offset is) (\<lambda>out. Ok (address # out))))"

definition decodeABIAddressArrayBytesV04 :: "string \<Rightarrow> i64 \<Rightarrow> string list outcome" where
  "decodeABIAddressArrayBytesV04 data offset =
     (if sint offset < 0 \<or> int (length data) < sint (offset + 32)
      then Fail (ErrMsg ''ABI address array offset is invalid'')
      else
        bindO (go_slice data offset (offset + 32)) (\<lambda>word.
        bindO (orFail (ErrMsg ''ABI address array length is invalid'') (abiWordUint64V04 word)) (\<lambda>n.
        if 4096 < n then Fail (ErrMsg ''ABI address array length is invalid'')
        else if int (length data) < sint (offset + 32 + n * 32) then Fail (ErrMsg ''ABI address array is truncated'')
        else abi_addresses data offset [0 ..< unat n])))"

definition decodeABIAddressArrayV04 :: "string \<Rightarrow> i64 \<Rightarrow> string list outcome" where
  "decodeABIAddressArrayV04 value headWord =
     (case decodeHexBytesV04 value of
        Inl err \<Rightarrow> Fail (ErrMsg ''invalid ABI address array'')
      | Inr data \<Rightarrow>
          if int (length data) < sint ((headWord + 1) * 32) then Fail (ErrMsg ''invalid ABI address array'')
          else
            bindO (go_slice data (headWord * 32) ((headWord + 1) * 32)) (\<lambda>word.
            bindO (fromE (abiWordUint64V04 word)) (\<lambda>offset.
              decodeABIAddressArrayBytesV04 data offset)))"

definition decodeModulesPageV04 :: "string \<Rightarrow> (string list \<times> string) outcome" where
  "decodeModulesPageV04 value =
     (case decodeHexBytesV04 value of
        Inl err \<Rightarrow> Fail (ErrMsg ''invalid Safe modules response'')
      | Inr data \<Rightarrow>
          if length data < 64 then Fail (ErrMsg ''invalid Safe modules response'')
          else
            bindO (fromE (abiWordUint64V04 (take 32 data))) (\<lambda>offset.
            bindO (decodeABIAddressArrayBytesV04 data offset) (\<lambda>modules.
            bindO (fromE (addressFromWordBytesV04 (take 32 (drop 32 data)))) (\<lambda>next.
              Ok (modules, next)))))"

definition decodeABIUint64V04 :: "string \<Rightarrow> i64 \<Rightarrow> u64 outcome" where
  "decodeABIUint64V04 value k =
     (case decodeHexBytesV04 value of
        Inl err \<Rightarrow> Fail (ErrMsg ''invalid ABI uint response'')
      | Inr data \<Rightarrow>
          if int (length data) < sint ((k + 1) * 32) then Fail (ErrMsg ''invalid ABI uint response'')
          else bindO (go_slice data (k * 32) ((k + 1) * 32)) (\<lambda>word. fromE (abiWordUint64V04 word)))"

definition decodeABIUintV04 :: "string \<Rightarrow> i64 \<Rightarrow> int outcome" where
  "decodeABIUintV04 value k =
     (case decodeHexBytesV04 value of
        Inl err \<Rightarrow> Fail (ErrMsg ''invalid ABI uint response'')
      | Inr data \<Rightarrow>
          if int (length data) < sint ((k + 1) * 32) then Fail (ErrMsg ''invalid ABI uint response'')
          else bindO (go_slice data (k * 32) ((k + 1) * 32)) (\<lambda>word. Ok (bytes_be word)))"

subsection \<open>Calldata\<close>

definition len_word :: "string \<Rightarrow> int option" where
  "len_word data = Some (uint (of_nat (length data) :: u64))"

text \<open>\<^verbatim>\<open>w, _ := uintWord(...)\<close>: the word of a value that always fits.\<close>

definition sureWord :: "int option \<Rightarrow> string" where
  "sureWord v = (case uintWord v of Inl _ \<Rightarrow> zero_bytes 32 | Inr w \<Rightarrow> w)"

definition encodeSafeAccessorSimulateV04 :: "keccak \<Rightarrow> SafeTransaction \<Rightarrow> go_error + string" where
  "encodeSafeAccessorSimulateV04 K tx =
     (if \<not> validSafeTransaction tx then Inl (ErrMsg ''invalid Safe transaction'')
      else
        (let selector = keccak256 K ''simulate(address,uint256,bytes,uint8)'' in
         bindE (addressWord (tx_To tx)) (\<lambda>toWord.
         bindE (uintWord (tx_Value tx)) (\<lambda>valueWord.
           (let offsetWord = sureWord (Some 128); opWord = sureWord (Some (uint (tx_Operation tx)));
                lengthWord = sureWord (len_word (tx_Data tx)); padded = padded_length (length (tx_Data tx))
            in Inr (take 4 selector @ toWord @ valueWord @ offsetWord @ opWord @ lengthWord @ tx_Data tx @
                 zero_bytes (padded - length (tx_Data tx))))))))"

definition encodeSimulateAndRevertV04 :: "keccak \<Rightarrow> string \<Rightarrow> string \<Rightarrow> go_error + string" where
  "encodeSimulateAndRevertV04 K accessor payload =
     (if \<not> validAddress accessor then Inl (ErrMsg ''invalid Safe accessor'')
      else
        (let selector = keccak256 K ''simulateAndRevert(address,bytes)'' in
         bindE (addressWord accessor) (\<lambda>accessorWord.
           (let offsetWord = sureWord (Some 64); lengthWord = sureWord (len_word payload);
                padded = padded_length (length payload)
            in Inr (take 4 selector @ accessorWord @ offsetWord @ lengthWord @ payload @
                 zero_bytes (padded - length payload))))))"

definition abiSelectorHexV04 :: "keccak \<Rightarrow> string \<Rightarrow> string" where
  "abiSelectorHexV04 K signature = ''0x'' @ hex_encode (take 4 (keccak256 K signature))"

definition encodeGetModulesPaginatedV04 :: "keccak \<Rightarrow> string \<Rightarrow> u64 \<Rightarrow> go_error + string" where
  "encodeGetModulesPaginatedV04 K start pageSize =
     bindE (addressWord start) (\<lambda>startWord.
     bindE (uintWord (Some (uint pageSize))) (\<lambda>pageWord.
       Inr (''0x'' @ hex_encode (take 4 (keccak256 K ''getModulesPaginated(address,uint256)'') @ startWord @ pageWord))))"

subsection \<open>The ABI\<close>

text \<open>What a contract returns for \<^verbatim>\<open>address[]\<close>: the head word 32, the length and one word for each address.\<close>

definition abi_word :: "int \<Rightarrow> string" where
  "abi_word n = be_bytes 32 n"

definition abi_tail :: "string list \<Rightarrow> string" where
  "abi_tail as = abi_word (int (length as)) @ concat (map (\<lambda>a. zero_bytes 12 @ a) as)"

definition abi_array :: "string list \<Rightarrow> string" where
  "abi_array as = abi_word 32 @ abi_tail as"

lemma length_abi_word [simp]: "length (abi_word n) = 32"
  by (simp add: abi_word_def)

lemma bytes_be_abi_word [simp]: "0 \<le> n \<Longrightarrow> n < 2 ^ 256 \<Longrightarrow> bytes_be (abi_word n) = n"
  by (simp add: abi_word_def bytes_be_be_bytes)

lemma abiWordUint64_abi_word [simp]: "0 \<le> n \<Longrightarrow> n < 2 ^ 64 \<Longrightarrow> abiWordUint64V04 (abi_word n) = Inr (word_of_int n)"
  by (simp add: abiWordUint64V04_def)

lemma decodeHexBytes_hex [simp]: "decodeHexBytesV04 (''0x'' @ hex_encode b) = Inr b"
proof -
  have "TrimSpace (''0x'' @ hex_encode b) = ''0x'' @ hex_encode b"
    by (rule TrimSpace_all_visible) (auto simp: visible_def hex_encode_visible [unfolded visible_def])
  moreover have "hex_encode b = [] \<longleftrightarrow> b = []" by (cases b) simp_all
  ultimately show ?thesis by (simp add: decodeHexBytesV04_def TrimPrefix_def Let_def)
qed

lemma length_abi_tail: "(\<And>a. a \<in> set as \<Longrightarrow> length a = 20) \<Longrightarrow> length (abi_tail as) = 32 + 32 * length as"
  by (induction as) (auto simp: abi_tail_def)

subsection \<open>Offsets\<close>

text \<open>A sum of offsets is exact while it stays below \<open>2 ^ 63\<close>.\<close>

lemma offset_exact:
  assumes "0 \<le> sint o1" and "sint o1 + int k < 2 ^ 63"
  shows "sint (o1 + of_nat k :: i64) = sint o1 + int k"
proof -
  have "sint (of_nat k :: i64) = int k"
    using sint_of_int_exact [of "int k"] assms by simp
  then show ?thesis using assms by (simp add: sint_add_exact)
qed

lemma go_slice_at:
  assumes "0 \<le> sint o1" and "sint o1 + int (k + n) \<le> int (length data)" and "int (length data) < 2 ^ 63"
  shows "go_slice data (o1 + of_nat k) (o1 + of_nat (k + n)) = Ok (take n (drop (nat (sint o1) + k) data))"
proof -
  have b: "sint o1 + int (k + n) < 2 ^ 63" using assms(2,3) by linarith
  then have "sint o1 + int k < 2 ^ 63" by linarith
  note e = offset_exact [OF assms(1) this] offset_exact [OF assms(1) b]
  show ?thesis using assms(1,2) unfolding go_slice_def e by (simp add: nat_add_distrib)
qed

text \<open>An offset in the last 32 positions before \<open>2 ^ 63\<close> passes the bounds check, because the check's own sum wraps.\<close>

lemma offset_wraps:
  assumes "2 ^ 63 - 32 \<le> sint o1"
  shows "sint (o1 + 32 :: i64) < 0"
proof -
  have "sint (o1 + 32) = signed_take_bit 63 (sint o1 + 32)"
    by (simp add: sint_word_ariths)
  also have "\<dots> = (sint o1 + 32 + 2 ^ 63) mod 2 ^ 64 - 2 ^ 63"
    by (simp add: signed_take_bit_eq_take_bit_shift take_bit_eq_mod)
  also have "(sint o1 + 32 + 2 ^ 63) mod 2 ^ 64 = (sint o1 + 32 - 2 ^ 63) mod (2 ^ 64 :: int)"
    using minus_mod_self2 [of "sint o1 + 32 + 2 ^ 63" "2 ^ 64"] by (simp add: algebra_simps)
  also have "\<dots> = sint o1 + 32 - 2 ^ 63"
    by (rule mod_pos_pos_trivial) (use assms sint_range [of o1] in simp_all)
  finally show ?thesis using sint_range [of o1] by simp
qed


definition address_at :: "string \<Rightarrow> nat \<Rightarrow> string" where
  "address_at data k = ''0x'' @ hex_encode (take 20 (drop (k + 12) data))"

lemma addressFromWordBytes_slice:
  "k + 32 \<le> length data \<Longrightarrow> addressFromWordBytesV04 (take 32 (drop k data)) = Inr (address_at data k)"
  by (simp add: addressFromWordBytesV04_def address_at_def drop_take add.commute)

lemma abi_addresses_at:
  assumes "0 \<le> sint o1" and "int (length data) < 2 ^ 63" and "\<And>i. i \<in> set is \<Longrightarrow> nat (sint o1) + 64 + 32 * i \<le> length data"
  shows "abi_addresses data o1 is = Ok (map (\<lambda>i. address_at data (nat (sint o1) + 32 + 32 * i)) is)"
  using assms(3)
proof (induction "is")
  case (Cons i "is")
  then have b: "nat (sint o1) + 64 + 32 * i \<le> length data" by simp
  then have "go_slice data (o1 + of_nat (32 + 32 * i)) (o1 + of_nat (32 + 32 * i + 32)) =
      Ok (take 32 (drop (nat (sint o1) + (32 + 32 * i)) data))"
    by (intro go_slice_at assms(1,2)) (use assms(1) in linarith)
  moreover have "addressFromWordBytesV04 (take 32 (drop (nat (sint o1) + (32 + 32 * i)) data)) =
      Inr (address_at data (nat (sint o1) + (32 + 32 * i)))"
    by (rule addressFromWordBytes_slice) (use b in simp)
  ultimately show ?case using Cons by (simp add: algebra_simps)
qed simp

text \<open>What the decoder computes at an offset that does not wrap.\<close>

lemma address_array_at:
  assumes "0 \<le> sint o1" and "sint o1 + 32 \<le> int (length data)" and "int (length data) < 2 ^ 62"
  shows "decodeABIAddressArrayBytesV04 data o1 =
    (let n = bytes_be (take 32 (drop (nat (sint o1)) data)) in
     if 4096 < n then Fail (ErrMsg ''ABI address array length is invalid'')
     else if int (length data) < sint o1 + 32 + 32 * n then Fail (ErrMsg ''ABI address array is truncated'')
     else Ok (map (\<lambda>i. address_at data (nat (sint o1) + 32 + 32 * i)) [0 ..< nat n]))"
proof -
  let ?w = "take 32 (drop (nat (sint o1)) data)"
  define n where "n = bytes_be ?w"
  have s: "go_slice data o1 (o1 + 32) = Ok ?w"
    using go_slice_at [of o1 0 32 data] assms by simp
  have h: "sint (o1 + 32) = sint o1 + 32" using offset_exact [of o1 32] assms by simp
  have l: "length ?w = 32" using assms by simp
  have n0: "0 \<le> n" using bytes_be_bounds [of ?w] by (simp add: n_def)
  have red: "decodeABIAddressArrayBytesV04 data o1 =
      (if 2 ^ 64 \<le> n then Fail (ErrMsg ''ABI address array length is invalid'')
       else if 4096 < (word_of_int n :: u64) then Fail (ErrMsg ''ABI address array length is invalid'')
       else if int (length data) < sint (o1 + 32 + word_of_int n * 32) then Fail (ErrMsg ''ABI address array is truncated'')
       else abi_addresses data o1 [0 ..< unat (word_of_int n :: u64)])"
    using assms(1,2) unfolding decodeABIAddressArrayBytesV04_def h s bindO_simps abiWordUint64V04_def l n_def [symmetric]
    by simp
  have small: "uint (word_of_int n :: u64) = n" if "n < 2 ^ 64"
    using that n0 by (simp add: uint_word_of_int)
  show ?thesis
  proof (cases "n \<le> 4096")
    case False
    then have "2 ^ 64 \<le> n \<or> 4096 < (word_of_int n :: u64)"
      by (cases "n < 2 ^ 64") (simp_all add: word_less_def small)
    with False show ?thesis unfolding red by (auto simp: Let_def simp flip: n_def)
  next
    case True
    then have u: "uint (word_of_int n :: u64) = n" by (intro small) simp
    then have v: "unat (word_of_int n :: u64) = nat n" by (simp only: unat_eq_nat_uint)
    have e: "o1 + 32 + word_of_int n * 32 = o1 + of_nat (32 + 32 * nat n)"
      using n0 by (simp add: algebra_simps)
    have m: "sint (o1 + of_nat (32 + 32 * nat n)) = sint o1 + 32 + 32 * n"
      using offset_exact [of o1 "32 + 32 * nat n"] assms True n0 by simp
    have "abi_addresses data o1 [0 ..< nat n] = Ok (map (\<lambda>i. address_at data (nat (sint o1) + 32 + 32 * i)) [0 ..< nat n])"
      if "\<not> int (length data) < sint o1 + 32 + 32 * n"
      by (rule abi_addresses_at) (use assms that in auto)
    moreover have "\<not> 4096 < (word_of_int n :: u64)" using True by (simp add: word_less_def u)
    ultimately show ?thesis using True unfolding red e m v by (simp add: Let_def flip: n_def)
  qed
qed

lemma address_array_panics:
  assumes "int (length data) < 2 ^ 62"
  shows "decodeABIAddressArrayBytesV04 data o1 = Panic \<longleftrightarrow> 2 ^ 63 - 32 \<le> sint o1"
proof (cases "2 ^ 63 - 32 \<le> sint o1")
  case True
  with offset_wraps [OF True] show ?thesis
    by (simp add: decodeABIAddressArrayBytesV04_def go_slice_def)
next
  case False
  consider "sint o1 < 0" | "0 \<le> sint o1" "sint o1 + 32 \<le> int (length data)" |
    "0 \<le> sint o1" "int (length data) < sint o1 + 32" by linarith
  then show ?thesis
  proof cases
    case 2
    with False assms show ?thesis by (simp add: address_array_at Let_def)
  next
    case 3
    with offset_exact [of o1 32] False show ?thesis by (simp add: decodeABIAddressArrayBytesV04_def)
  qed (use False in \<open>simp add: decodeABIAddressArrayBytesV04_def\<close>)
qed


lemma array_head:
  "decodeABIAddressArrayV04 (''0x'' @ hex_encode data) 0 =
     (if length data < 32 then Fail (ErrMsg ''invalid ABI address array'')
      else bindO (fromE (abiWordUint64V04 (take 32 data))) (decodeABIAddressArrayBytesV04 data))"
  unfolding decodeABIAddressArrayV04_def decodeHexBytes_hex by (simp add: go_slice_def)

lemma offset_word:
  assumes "length w = 32"
  shows "abiWordUint64V04 w = Inr m \<longleftrightarrow> bytes_be w < 2 ^ 64 \<and> m = word_of_int (bytes_be w)"
  using assms by (auto simp: abiWordUint64V04_def)

text \<open>The conversion \<^verbatim>\<open>int(offset)\<close> of an \<^verbatim>\<open>uint64\<close>: an offset of \<open>2 ^ 63\<close> or more is negative.\<close>

lemma int_of_uint64:
  assumes "0 \<le> n" and "n < 2 ^ 64"
  shows "sint (word_of_int n :: i64) = (if n < 2 ^ 63 then n else n - 2 ^ 64)"
proof (cases "n < 2 ^ 63")
  case False
  have "sint (word_of_int n :: i64) = sint (word_of_int (n - 2 ^ 64) :: i64)"
    by (rule arg_cong [of _ _ sint]) (simp only: word_of_int_eq_iff take_bit_eq_mod len_num1 len_bit0, simp)
  also have "\<dots> = n - 2 ^ 64" by (rule sint_of_int_exact) (use False assms in simp_all)
  finally show ?thesis using False by simp
qed (use assms in \<open>simp add: sint_of_int_exact\<close>)

lemma abi_tail_nth:
  assumes "\<And>a. a \<in> set as \<Longrightarrow> length a = 20" and "i < length as"
  shows "take 20 (drop (44 + 32 * i) (abi_tail as)) = as ! i"
proof -
  have "take 20 (drop (12 + 32 * i) (concat (map (\<lambda>a. zero_bytes 12 @ a) as))) = as ! i"
    using assms
  proof (induction as arbitrary: i)
    case (Cons a as)
    then show ?case by (cases i) (simp_all add: add.commute)
  qed simp
  then show ?thesis by (simp add: abi_tail_def)
qed

text \<open>The decoder on the ABI's own encoding, at any place of a buffer.\<close>

lemma decode_abi_tail:
  assumes "\<And>a. a \<in> set as \<Longrightarrow> length a = 20" and "length as \<le> 4096" and "sint o1 = int (length pre)"
    and "length pre < 2 ^ 32"
  shows "decodeABIAddressArrayBytesV04 (pre @ abi_tail as) o1 = Ok (map (\<lambda>a. ''0x'' @ hex_encode a) as)"
proof -
  have l: "length (pre @ abi_tail as) = length pre + 32 + 32 * length as"
    using length_abi_tail [of as] assms(1) by simp
  have n: "bytes_be (take 32 (drop (length pre) (pre @ abi_tail as))) = int (length as)"
    using assms(2) by (simp add: abi_tail_def)
  have "address_at (pre @ abi_tail as) (length pre + 32 + 32 * i) = ''0x'' @ hex_encode (as ! i)" if "i < length as" for i
    using abi_tail_nth [OF assms(1) that] by (simp add: address_at_def)
  then have "map (\<lambda>i. address_at (pre @ abi_tail as) (length pre + 32 + 32 * i)) [0 ..< length as] =
      map (\<lambda>a. ''0x'' @ hex_encode a) as"
    by (intro nth_equalityI) simp_all
  then show ?thesis
    using address_array_at [of o1 "pre @ abi_tail as"] assms(2-4) l n by simp
qed

lemma decode_abi_array:
  assumes "\<And>a. a \<in> set as \<Longrightarrow> length a = 20" and "length as \<le> 4096"
  shows "decodeABIAddressArrayV04 (''0x'' @ hex_encode (abi_array as)) 0 = Ok (map (\<lambda>a. ''0x'' @ hex_encode a) as)"
  using decode_abi_tail [OF assms, of 32 "abi_word 32"] length_abi_tail [of as] assms(1)
  unfolding array_head abi_array_def by simp

text \<open>What a valid transaction is encoded to.\<close>

lemma sureWord_small: "0 \<le> n \<Longrightarrow> n < 2 ^ 256 \<Longrightarrow> sureWord (Some n) = be_bytes 32 n"
  by (simp add: sureWord_def uintWord_Some)

lemma sureWord_u8 [simp]: "sureWord (Some (uint (w :: 8 word))) = be_bytes 32 (uint w)"
  and sureWord_len [simp]: "sureWord (len_word d) = be_bytes 32 (uint (of_nat (length d) :: u64))"
  by (simp_all add: sureWord_def uintWord_u8 uintWord_u64 len_word_def)

lemma encodeSafeAccessorSimulate_valid:
  assumes "validSafeTransaction tx"
  shows "encodeSafeAccessorSimulateV04 K tx = Inr (accessor_calldata K tx)"
proof -
  from assms have "addressWord (tx_To tx) = Inr (address_word (tx_To tx))"
    "uintWord (tx_Value tx) = Inr (be_bytes 32 (the (tx_Value tx)))"
    by (simp_all add: validSafeTransaction_def addressWord_valid uintWord_valid)
  with assms show ?thesis
    by (simp add: encodeSafeAccessorSimulateV04_def accessor_calldata_def accessor_signature_def sureWord_small Let_def)
qed

subsection \<open>Properties\<close>

text \<open>C26: Decoding an address array that a node returned panics exactly when the offset in its first word lies in the
last 32 positions before \<open>2 ^ 63\<close>: the bounds check adds 32 to it, the sum wraps to a negative number and passes.\<close>

theorem abi_offset_panics_iff:
  assumes "int (length data) < 2 ^ 62"
  shows "decodeABIAddressArrayV04 (''0x'' @ hex_encode data) 0 = Panic \<longleftrightarrow>
    32 \<le> length data \<and> 2 ^ 63 - 32 \<le> bytes_be (take 32 data) \<and> bytes_be (take 32 data) < 2 ^ 63"
proof (cases "32 \<le> length data")
  case True
  then have w: "length (take 32 data) = 32" by simp
  note b = bytes_be_bounds [of "take 32 data"]
  show ?thesis
  proof (cases "bytes_be (take 32 data) < 2 ^ 64")
    case less: True
    with offset_word [OF w] have "abiWordUint64V04 (take 32 data) = Inr (word_of_int (bytes_be (take 32 data)))" by simp
    with True less b show ?thesis
      unfolding array_head by (simp add: address_array_panics [OF assms] int_of_uint64)
  next
    case False
    then have "abiWordUint64V04 (take 32 data) = Inl (ErrMsg ''ABI word exceeds uint64'')"
      using True by (simp add: abiWordUint64V04_def)
    with True False show ?thesis unfolding array_head by simp
  qed
qed (simp only: array_head, simp)

theorem abi_offset_panics_iff_witness:
  "decodeABIAddressArrayV04 (''0x'' @ hex_encode (abi_word (2 ^ 63 - 1))) 0 = Panic"
  using abi_offset_panics_iff [of "abi_word (2 ^ 63 - 1)"] by simp

text \<open>An address array in the ABI's own encoding, of at most 4096 addresses, is decoded to exactly these addresses.\<close>

theorem abi_array_round_trip:
  assumes "\<And>a. a \<in> set as \<Longrightarrow> length a = 20" and "length as \<le> 4096"
  shows "decodeABIAddressArrayV04 (''0x'' @ hex_encode (abi_array as)) 0 = Ok (map (\<lambda>a. ''0x'' @ hex_encode a) as)"
  by (rule decode_abi_array [OF assms])

theorem abi_array_round_trip_witness:
  "decodeABIAddressArrayV04 (''0x'' @ hex_encode (abi_array [zero_bytes 20])) 0 = Ok [''0x'' @ hex_encode (zero_bytes 20)]"
  using abi_array_round_trip [of "[zero_bytes 20]"] by simp

text \<open>The encoder of the engine and the verifier of the trace agree: the call data the engine sends has exactly the digest
the verifier asks of the accessor's frame, and both refuse the same transactions.\<close>

theorem accessor_encoders_agree:
  "safeAccessorSimulateCalldataSHA256 K tx =
     (case encodeSafeAccessorSimulateV04 K tx of Inl err \<Rightarrow> None | Inr calldata \<Rightarrow> Some (sha256Hex calldata))"
proof (cases "validSafeTransaction tx")
  case True
  then show ?thesis by (simp add: encodeSafeAccessorSimulate_valid safeAccessorSimulateCalldata_valid)
qed (simp add: encodeSafeAccessorSimulateV04_def safeAccessorSimulateCalldataSHA256_def)

end
