(* ===== verification/Safe_Engine.thy ===== *)
theory Safe_Engine
  imports Safe_Abi Anvil_Client
begin

text \<open>
  \<^verbatim>\<open>internal/executionproof/safe_anvil_engine_v04.go\<close>: the engine that executes one Safe transaction on a
  pinned local fork: snapshots of the Safe's authority, the accessor trace, the materialised transfer and
  its effect digest. The outside is the \<open>anvil_os\<close> of the Anvil backend; a panic of the ABI layer is a
  panic of the run.
\<close>

definition SafeAnvilEngineVersionV04 :: string where
  "SafeAnvilEngineVersionV04 = ''koschei-safe-anvil-engine/v0.4''"
definition safeFallbackHandlerStorageSlotV04 :: string where
  "safeFallbackHandlerStorageSlotV04 = ''0x6c9a6c4a39284e37ed1cf53d337577d14212a4870fb976a4366c693b939918d5''"
definition safeGuardStorageSlotV04 :: string where
  "safeGuardStorageSlotV04 = ''0x4a204f620c8c5ccdca3fd54d003badd85ba500436a431f0cbda4f558c93c34c8''"
definition safeSentinelModulesV04 :: string where
  "safeSentinelModulesV04 = ''0x0000000000000000000000000000000000000001''"
definition safeTraceCallerV04 :: string where
  "safeTraceCallerV04 = ''0x000000000000000000000000000000000000dEaD''"

record AnvilSafeSimulationEngine =
  ae_AnvilPath :: string
  ae_ForkURL :: string
  ae_Accessor :: string
  ae_StartupTimeout :: duration
  ae_RPCTimeout :: duration

subsection \<open>Queries at a block\<close>

definition blockTagOr :: "string \<Rightarrow> string" where
  "blockTagOr tag = (if tag = [] then ''latest'' else tag)"

definition ethCallAtV04 :: "'s transport \<Rightarrow> string \<Rightarrow> string \<Rightarrow> string \<Rightarrow> string \<Rightarrow> ('s, string) io" where
  "ethCallAtV04 http url to data tag =
     bindIO (rpc_call http url ''eth_call''
       [JObj [(''data'', JStr data), (''to'', JStr (normalizeAddress to))], JStr (blockTagOr tag)] string_result) (\<lambda>result.
     case decodeHexBytesV04 result of Inl err \<Rightarrow> raiseIO err | Inr _ \<Rightarrow> returnIO (ToLower result))"

definition storageAtV04 :: "'s transport \<Rightarrow> string \<Rightarrow> string \<Rightarrow> string \<Rightarrow> string \<Rightarrow> ('s, string) io" where
  "storageAtV04 http url address slot tag =
     bindIO (rpc_call http url ''eth_getStorageAt''
       [JStr (normalizeAddress address), JStr slot, JStr (blockTagOr tag)] string_result) (\<lambda>result.
     case decodeHexBytesV04 result of
       Inl err \<Rightarrow> raiseIO (ErrMsg ''invalid EVM storage word'')
     | Inr bytes \<Rightarrow>
         if length bytes > 32 then raiseIO (ErrMsg ''invalid EVM storage word'')
         else returnIO (''0x'' @ hex_encode (zero_bytes (32 - length bytes) @ bytes)))"

definition codeAtV04 :: "'s transport \<Rightarrow> string \<Rightarrow> string \<Rightarrow> string \<Rightarrow> ('s, string) io" where
  "codeAtV04 http url address tag =
     bindIO (rpc_call http url ''eth_getCode'' [JStr (normalizeAddress address), JStr (blockTagOr tag)] string_result)
       (\<lambda>result.
     case decodeHexBytesV04 result of Inl err \<Rightarrow> raiseIO err | Inr _ \<Rightarrow> returnIO (ToLower result))"

definition balanceAtV04 :: "'s transport \<Rightarrow> string \<Rightarrow> string \<Rightarrow> string \<Rightarrow> ('s, string) io" where
  "balanceAtV04 http url address tag =
     bindIO (rpc_call http url ''eth_getBalance'' [JStr (normalizeAddress address), JStr (blockTagOr tag)] string_result)
       (\<lambda>result.
     case SetString 16 (TrimPrefix result ''0x'') of
       None \<Rightarrow> raiseIO (ErrMsg ''invalid EVM balance'')
     | Some value \<Rightarrow> if value < 0 then raiseIO (ErrMsg ''invalid EVM balance'') else returnIO (int_text 10 value))"

subsection \<open>The modules, page by page\<close>

fun add_modules :: "string list \<Rightarrow> string set \<Rightarrow> string list \<Rightarrow> go_error + (string set \<times> string list)" where
  "add_modules [] seen modules = Inr (seen, modules)"
| "add_modules (m # ms) seen modules =
     (let module = normalizeAddress m in
      if module \<in> seen then Inl (ErrMsg ''duplicate Safe module in pagination'')
      else add_modules ms (insert module seen) (modules @ [module]))"

text \<open>The loop over at most 16 pages; \<open>pages\<close> counts those left.\<close>

fun module_pages ::
  "keccak \<Rightarrow> 's transport \<Rightarrow> string \<Rightarrow> string \<Rightarrow> string \<Rightarrow> nat \<Rightarrow> string \<Rightarrow> string set \<Rightarrow> string list \<Rightarrow> ('s, string list) run" where
  "module_pages K http url safe tag 0 start seen modules = failR (ErrMsg ''Safe module pagination exceeded bound'')"
| "module_pages K http url safe tag (Suc pages) start seen modules =
     bindR (liftO (fromE (encodeGetModulesPaginatedV04 K start 128))) (\<lambda>calldata.
     bindR (mapErrR (ErrWrap ''get Safe modules'') (liftIO (ethCallAtV04 http url safe calldata tag))) (\<lambda>result.
     bindR (liftO (decodeModulesPageV04 result)) (\<lambda>(pageModules, next).
     bindR (liftO (fromE (add_modules pageModules seen modules))) (\<lambda>(seen, modules).
     if normalizeAddress next = normalizeAddress safeSentinelModulesV04 then okR modules
     else if \<not> validAddress next \<or> normalizeAddress next = normalizeAddress start
     then failR (ErrMsg ''invalid Safe module pagination cursor'')
     else module_pages K http url safe tag pages next seen modules))))"

definition safeModulesAtV04 :: "keccak \<Rightarrow> 's transport \<Rightarrow> string \<Rightarrow> string \<Rightarrow> string \<Rightarrow> ('s, string list) run" where
  "safeModulesAtV04 K http url safe tag = module_pages K http url safe tag 16 safeSentinelModulesV04 {} []"

subsection \<open>The authority snapshot\<close>

record safeStateSnapshotV04 =
  ss_Version :: string
  ss_Safe :: string
  ss_Authority :: SafeAuthoritySnapshot
  ss_Balance :: string
  ss_Nonce :: string
  ss_StateSHA256 :: string

definition json_SafeAuthoritySnapshot :: "SafeAuthoritySnapshot \<Rightarrow> json" where
  "json_SafeAuthoritySnapshot a = JObj
    [(''owners'', JArr (map JStr (sn_Owners a))), (''threshold'', json_u64 (sn_Threshold a)),
     (''modules'', JArr (map JStr (sn_Modules a))), (''guard'', JStr (sn_Guard a)),
     (''fallback_handler'', JStr (sn_FallbackHandler a)), (''implementation'', JStr (sn_Implementation a)),
     (''code_hash'', JStr (sn_CodeHash a))]"

definition json_safeStateSnapshot :: "safeStateSnapshotV04 \<Rightarrow> json" where
  "json_safeStateSnapshot s = JObj
    [(''version'', JStr (ss_Version s)), (''safe'', JStr (ss_Safe s)),
     (''authority'', json_SafeAuthoritySnapshot (ss_Authority s)), (''balance'', JStr (ss_Balance s)),
     (''nonce'', JStr (ss_Nonce s)), (''state_sha256'', JStr (ss_StateSHA256 s))]"

definition zero_address :: string where
  "zero_address = ''0x0000000000000000000000000000000000000000''"

definition orFailR :: "go_error \<Rightarrow> ('s, 'a) run \<Rightarrow> ('s, 'a) run" where
  "orFailR e m = mapErrR (\<lambda>_. e) m"

definition snapshotSafeStateV04 ::
  "keccak \<Rightarrow> 's transport \<Rightarrow> string \<Rightarrow> string \<Rightarrow> string \<Rightarrow> ('s, safeStateSnapshotV04) run" where
  "snapshotSafeStateV04 K http url safe tag =
     (if \<not> validAddress safe then failR (ErrMsg ''invalid Safe snapshot target'') else
      let safe = normalizeAddress safe in
      bindR (mapErrR (ErrWrap ''get Safe owners'') (liftIO (ethCallAtV04 http url safe (abiSelectorHexV04 K ''getOwners()'') tag)))
        (\<lambda>ownersData.
      bindR (orFailR (ErrMsg ''decode Safe owners'') (liftO (decodeABIAddressArrayV04 ownersData 0))) (\<lambda>owners.
      if length owners = 0 then failR (ErrMsg ''decode Safe owners'') else
      bindR (mapErrR (ErrWrap ''get Safe threshold'')
               (liftIO (ethCallAtV04 http url safe (abiSelectorHexV04 K ''getThreshold()'') tag))) (\<lambda>thresholdData.
      bindR (orFailR (ErrMsg ''decode Safe threshold'') (liftO (decodeABIUint64V04 thresholdData 0))) (\<lambda>threshold.
      if threshold = 0 \<or> of_nat (length owners) < threshold then failR (ErrMsg ''decode Safe threshold'') else
      bindR (safeModulesAtV04 K http url safe tag) (\<lambda>modules.
      bindR (mapErrR (ErrWrap ''get Safe guard slot'') (liftIO (storageAtV04 http url safe safeGuardStorageSlotV04 tag)))
        (\<lambda>guardWord.
      bindR (mapErrR (ErrWrap ''get Safe fallback slot'')
               (liftIO (storageAtV04 http url safe safeFallbackHandlerStorageSlotV04 tag))) (\<lambda>fallbackWord.
      bindR (mapErrR (ErrWrap ''get Safe implementation slot'') (liftIO (storageAtV04 http url safe ''0x0'' tag)))
        (\<lambda>implementationWord.
      bindR (liftO (fromE (addressFromWordV04 guardWord))) (\<lambda>guard.
      bindR (liftO (fromE (addressFromWordV04 fallbackWord))) (\<lambda>fallback.
      bindR (liftO (fromE (addressFromWordV04 implementationWord))) (\<lambda>implementation.
      let implementation = (if implementation = zero_address then safe else implementation) in
      bindR (mapErrR (ErrWrap ''get Safe implementation code'') (liftIO (codeAtV04 http url implementation tag))) (\<lambda>codeHex.
      bindR (orFailR (ErrMsg ''Safe implementation code is unavailable'') (liftO (fromE (decodeHexBytesV04 codeHex)))) (\<lambda>code.
      if length code = 0 then failR (ErrMsg ''Safe implementation code is unavailable'') else
      let codeHash = keccak256 K code in
      bindR (mapErrR (ErrWrap ''get Safe balance'') (liftIO (balanceAtV04 http url safe tag))) (\<lambda>balance.
      bindR (mapErrR (ErrWrap ''get Safe nonce'') (liftIO (ethCallAtV04 http url safe (abiSelectorHexV04 K ''nonce()'') tag)))
        (\<lambda>nonceData.
      bindR (orFailR (ErrMsg ''decode Safe nonce'') (liftO (decodeABIUintV04 nonceData 0))) (\<lambda>nonce.
      let authority = \<lparr>sn_Owners = sort (map normalizeAddress owners), sn_Threshold = threshold,
                       sn_Modules = sort (map normalizeAddress modules), sn_Guard = guard,
                       sn_FallbackHandler = fallback, sn_Implementation = implementation,
                       sn_CodeHash = ''0x'' @ hex_encode codeHash\<rparr> in
      if \<not> validAuthoritySnapshot authority then failR (ErrMsg ''Safe authority snapshot failed validation'')
      else (let state = \<lparr>ss_Version = SafeAnvilEngineVersionV04, ss_Safe = safe, ss_Authority = authority,
                         ss_Balance = balance, ss_Nonce = int_text 10 nonce, ss_StateSHA256 = []\<rparr>
            in okR (state\<lparr>ss_StateSHA256 := json_digest (json_safeStateSnapshot state)\<rparr>)))))))))))))))))))"

subsection \<open>The call trace\<close>

record callTracerFields =
  ct_Type :: string
  ct_From :: string
  ct_To :: string
  ct_Value :: string
  ct_Input :: string
  ct_Error :: string

datatype callTracerFrameV04 = Frame callTracerFields "callTracerFrameV04 list"

text \<open>
  Decoding a frame. A repeated \<^verbatim>\<open>calls\<close> member is decoded into the slice of the one before: \<open>Cell\<close> keeps
  the backing array and the length, because elements beyond the length come back when it grows again.
\<close>

datatype frame_cell = Cell callTracerFields "frame_cell list" nat

primrec cell_frame :: "frame_cell \<Rightarrow> callTracerFrameV04" where
  "cell_frame (Cell f backing n) = Frame f (take n (map cell_frame backing))"

definition zero_cell :: frame_cell where
  "zero_cell = Cell \<lparr>ct_Type = [], ct_From = [], ct_To = [], ct_Value = [], ct_Input = [], ct_Error = []\<rparr> [] 0"

definition tracer_fields :: "callTracerFields field list" where
  "tracer_fields =
     [(''type'', string_field ct_Type_update), (''from'', string_field ct_From_update), (''to'', string_field ct_To_update),
      (''value'', string_field ct_Value_update), (''input'', string_field ct_Input_update),
      (''error'', string_field ct_Error_update)]"

fun decode_cell :: "jvalue \<Rightarrow> frame_cell \<Rightarrow> frame_cell option"
  and decode_members :: "(string \<times> jvalue) list \<Rightarrow> frame_cell \<Rightarrow> frame_cell option"
  and decode_calls :: "jvalue list \<Rightarrow> frame_cell list \<Rightarrow> frame_cell list option" where
  "decode_cell v cell = (case v of VNull \<Rightarrow> Some cell | VObj ms \<Rightarrow> decode_members ms cell | _ \<Rightarrow> None)"
| "decode_members [] cell = Some cell"
| "decode_members ((k, v) # ms) cell =
     (case cell of Cell f backing n \<Rightarrow>
        if fold_name k = ''calls'' then
          (case v of
             VNull \<Rightarrow> decode_members ms (Cell f [] 0)
           | VArr vs \<Rightarrow>
               (case decode_calls vs backing of
                  None \<Rightarrow> None
                | Some cells \<Rightarrow> decode_members ms (Cell f (if vs = [] then [] else cells) (length vs)))
           | _ \<Rightarrow> None)
        else (case set_members tracer_fields [(k, v)] f of
                None \<Rightarrow> None | Some f' \<Rightarrow> decode_members ms (Cell f' backing n)))"
| "decode_calls [] backing = Some backing"
| "decode_calls (v # vs) backing =
     (case decode_cell v (case backing of [] \<Rightarrow> zero_cell | c # cs \<Rightarrow> c) of
        None \<Rightarrow> None
      | Some cell \<Rightarrow> map_option (\<lambda>cells. cell # cells) (decode_calls vs (tl backing)))"

definition frame_result :: "jvalue option \<Rightarrow> callTracerFrameV04 option" where
  "frame_result r = (case r of None \<Rightarrow> None | Some v \<Rightarrow> map_option cell_frame (decode_cell v zero_cell))"

fun findSafeAccessorFrameV04 :: "callTracerFrameV04 \<Rightarrow> string \<Rightarrow> string \<Rightarrow> callTracerFrameV04 option"
  and find_among :: "callTracerFrameV04 list \<Rightarrow> string \<Rightarrow> string \<Rightarrow> callTracerFrameV04 option" where
  "findSafeAccessorFrameV04 (Frame f calls) safe accessor =
     (if EqualFold (TrimSpace (ct_Type f)) ''DELEGATECALL'' \<and> normalizeAddress (ct_From f) = normalizeAddress safe \<and>
         normalizeAddress (ct_To f) = normalizeAddress accessor
      then Some (Frame f calls) else find_among calls safe accessor)"
| "find_among [] safe accessor = None"
| "find_among (child # children) safe accessor =
     (case findSafeAccessorFrameV04 child safe accessor of
        Some found \<Rightarrow> Some found | None \<Rightarrow> find_among children safe accessor)"

definition trace_frame :: "callTracerFields \<Rightarrow> u64 \<Rightarrow> go_error + SafeTraceFrame" where
  "trace_frame f depth =
     (if \<not> validAddress (ct_From f) \<or> \<not> validAddress (ct_To f)
      then Inl (ErrMsg ''call tracer frame has invalid address identity'')
      else (case decodeHexBytesV04 (ct_Input f) of
          Inl err \<Rightarrow> Inl (ErrMsg ''call tracer frame has invalid input'')
        | Inr input \<Rightarrow>
            bindE (hexQuantityToDecimalV04 (ct_Value f)) (\<lambda>value.
              Inr \<lparr>tf_Depth = depth, tf_Type = ToLower (TrimSpace (ct_Type f)), tf_From = normalizeAddress (ct_From f),
                   tf_To = normalizeAddress (ct_To f), tf_InputSHA256 = sha256Hex input, tf_Value = value,
                   tf_Success = (TrimSpace (ct_Error f) = [])\<rparr>)))"

fun appendSafeTraceFramesV04 :: "SafeTraceFrame list \<Rightarrow> callTracerFrameV04 \<Rightarrow> u64 \<Rightarrow> go_error + SafeTraceFrame list"
  and append_children :: "SafeTraceFrame list \<Rightarrow> callTracerFrameV04 list \<Rightarrow> u64 \<Rightarrow> go_error + SafeTraceFrame list" where
  "appendSafeTraceFramesV04 out (Frame f calls) depth =
     (case trace_frame f depth of
        Inl err \<Rightarrow> Inl err
      | Inr frame \<Rightarrow> append_children (out @ [frame]) calls (depth + 1))"
| "append_children out [] depth = Inr out"
| "append_children out (child # children) depth =
     (case appendSafeTraceFramesV04 out child depth of
        Inl err \<Rightarrow> Inl err
      | Inr out \<Rightarrow> append_children out children depth)"

definition traceSafeSimulationV04 ::
  "keccak \<Rightarrow> 's transport \<Rightarrow> string \<Rightarrow> SafeTransaction \<Rightarrow> string \<Rightarrow> ('s, SafeTraceEvidence) run" where
  "traceSafeSimulationV04 K http url tx accessor =
     bindR (liftO (fromE (encodeSafeAccessorSimulateV04 K tx))) (\<lambda>accessorCalldata.
     bindR (liftO (fromE (encodeSimulateAndRevertV04 K accessor accessorCalldata))) (\<lambda>outerCalldata.
     bindR (liftIO (rpc_call http url ''debug_traceCall''
        [JObj [(''data'', JStr (''0x'' @ hex_encode outerCalldata)), (''from'', JStr safeTraceCallerV04),
               (''to'', JStr (normalizeAddress (tx_Safe tx)))],
         JStr ''latest'', JObj [(''tracer'', JStr ''callTracer'')]] frame_result)) (\<lambda>root.
     (case findSafeAccessorFrameV04 root (tx_Safe tx) accessor of
        None \<Rightarrow> failR (ErrMsg ''Safe accessor delegatecall was not observed'')
      | Some subtree \<Rightarrow>
          bindR (liftO (fromE (appendSafeTraceFramesV04 [] subtree 0))) (\<lambda>frames.
            (let trace = \<lparr>te_RootSafe = normalizeAddress (tx_Safe tx), te_Frames = frames, te_Truncated = False,
                          te_TraceSHA256 = []\<rparr>
             in okR (trace\<lparr>te_TraceSHA256 := safeTraceDigest trace\<rparr>)))))))"

subsection \<open>Materialisation and effects\<close>

definition sendNativeMaterializationV04 :: "'s transport \<Rightarrow> string \<Rightarrow> SafeTransaction \<Rightarrow> ('s, string) io" where
  "sendNativeMaterializationV04 http url tx =
     bindIO (rpc_call http url ''eth_sendTransaction''
       [JObj [(''data'', JStr ''0x''), (''from'', JStr (normalizeAddress (tx_Safe tx))), (''gas'', JStr ''0x100000''),
              (''gasPrice'', JStr ''0x0''), (''to'', JStr (normalizeAddress (tx_To tx))),
              (''value'', JStr (''0x'' @ int_text 16 (the (tx_Value tx))))]] string_result) (\<lambda>txHash.
     if \<not> validHex32 txHash then raiseIO (ErrMsg ''invalid isolated Safe transaction hash'')
     else returnIO (normalizeHex32 txHash))"

record safeMaterializedEffectV04 =
  me_Version :: string
  me_TransactionHash :: string
  me_ReceiptSHA256 :: string
  me_TraceSHA256 :: string
  me_SafeBalanceBefore :: string
  me_SafeBalanceAfter :: string
  me_TargetBalanceBefore :: string
  me_TargetBalanceAfter :: string
  me_Movements :: "SafeAssetMovement list"

definition json_SafeAssetMovement :: "SafeAssetMovement \<Rightarrow> json" where
  "json_SafeAssetMovement m = JObj
    [(''kind'', JStr (am_Kind m)), (''token'', JStr (am_Token m)), (''from'', JStr (am_From m)),
     (''to'', JStr (am_To m)), (''id'', JStr (am_ID m)), (''amount'', JStr (am_Amount m))]"

definition json_safeMaterializedEffect :: "safeMaterializedEffectV04 \<Rightarrow> json" where
  "json_safeMaterializedEffect e = JObj
    [(''version'', JStr (me_Version e)), (''transaction_hash'', JStr (me_TransactionHash e)),
     (''receipt_sha256'', JStr (me_ReceiptSHA256 e)), (''trace_sha256'', JStr (me_TraceSHA256 e)),
     (''safe_balance_before'', JStr (me_SafeBalanceBefore e)), (''safe_balance_after'', JStr (me_SafeBalanceAfter e)),
     (''target_balance_before'', JStr (me_TargetBalanceBefore e)),
     (''target_balance_after'', JStr (me_TargetBalanceAfter e)),
     (''movements'', JArr (map json_SafeAssetMovement (me_Movements e)))]"

definition safeMaterializedEffectDigestV04 :: "safeMaterializedEffectV04 \<Rightarrow> string" where
  "safeMaterializedEffectDigestV04 effect =
     json_digest (json_safeMaterializedEffect
       (effect\<lparr>me_TransactionHash := normalizeHex32 (me_TransactionHash effect),
               me_ReceiptSHA256 := ToLower (TrimPrefix (TrimSpace (me_ReceiptSHA256 effect)) ''0x''),
               me_TraceSHA256 := ToLower (TrimPrefix (TrimSpace (me_TraceSHA256 effect)) ''0x'')\<rparr>))"

definition native_movements :: "SafeTransaction \<Rightarrow> SafeAssetMovement list" where
  "native_movements tx =
     (if 0 < the (tx_Value tx)
      then [\<lparr>am_Kind = ''native'', am_Token = [], am_From = normalizeAddress (tx_Safe tx),
             am_To = normalizeAddress (tx_To tx), am_ID = [], am_Amount = int_text 10 (the (tx_Value tx))\<rparr>]
      else [])"

subsection \<open>The engine\<close>

definition upstreamClientV04 ::
  "'s anvil_os \<Rightarrow> AnvilSafeSimulationEngine \<Rightarrow> go_error + ('s transport \<times> string)" where
  "upstreamClientV04 os e =
     (if TrimSpace (ae_ForkURL e) = [] then Inl (ErrMsg ''Safe Anvil fork URL is required'')
      else Inr (os_http os CallerCtx (durationOr (ae_RPCTimeout e) (duration_of (5 * Second))), TrimSpace (ae_ForkURL e)))"

definition PinnedBlock :: "'s anvil_os \<Rightarrow> AnvilSafeSimulationEngine \<Rightarrow> u64 \<Rightarrow> u64 \<Rightarrow> ('s, string) run" where
  "PinnedBlock os e chainID blockNumber =
     bindR (liftO (fromE (upstreamClientV04 os e))) (\<lambda>(http, url).
     let mismatch = ErrMsg ''Safe Anvil upstream chain identity mismatch'' in
     bindR (orFailR mismatch (liftIO (rpc_chainID http url))) (\<lambda>observed.
     if observed \<noteq> chainID then failR mismatch else liftIO (rpc_blockHash http url blockNumber)))"

definition RunnerSHA256 :: "'s anvil_os \<Rightarrow> AnvilSafeSimulationEngine \<Rightarrow> ('s, string) run" where
  "RunnerSHA256 os e =
     (if TrimSpace (ae_AnvilPath e) = [] then failR (ErrMsg ''Anvil runner path is required'')
      else liftIO (fileSHA256 os (ae_AnvilPath e)))"

definition SnapshotSafe ::
  "keccak \<Rightarrow> 's anvil_os \<Rightarrow> AnvilSafeSimulationEngine \<Rightarrow> u64 \<Rightarrow> u64 \<Rightarrow> string \<Rightarrow> ('s, SafeAuthoritySnapshot \<times> string) run" where
  "SnapshotSafe K os e chainID blockNumber safe =
     bindR (liftO (fromE (upstreamClientV04 os e))) (\<lambda>(http, url).
     let mismatch = ErrMsg ''Safe snapshot chain identity mismatch'' in
     bindR (orFailR mismatch (liftIO (rpc_chainID http url))) (\<lambda>observed.
     if observed \<noteq> chainID then failR mismatch else
     bindR (mapErrR (ErrWrap ''resolve Safe snapshot block'') (liftIO (rpc_blockHash http url blockNumber))) (\<lambda>_.
     bindR (snapshotSafeStateV04 K http url safe (''0x'' @ nat_text 16 (unat blockNumber))) (\<lambda>state.
     okR (ss_Authority state, ss_StateSHA256 state)))))"

definition safe_anvil_args :: "string \<Rightarrow> int \<Rightarrow> u64 \<Rightarrow> string list" where
  "safe_anvil_args forkURL port block =
     [''--host'', ''127.0.0.1'', ''--port'', int_text 10 port, ''--fork-url'', forkURL,
      ''--fork-block-number'', nat_text 10 (unat block), ''--block-base-fee-per-gas'', ''0'', ''--gas-price'', ''0'',
      ''--disable-min-priority-fee'', ''--steps-tracing'', ''--silent'']"

text \<open>From the impersonation to the end: the materialised transfer and the evidence.\<close>

definition materialize ::
  "keccak \<Rightarrow> 's anvil_os \<Rightarrow> 's transport \<Rightarrow> string \<Rightarrow> SafeTransaction \<Rightarrow> safeStateSnapshotV04 \<Rightarrow> string \<Rightarrow> SafeTraceEvidence
    \<Rightarrow> ('s, SafeSimulationResult) run" where
  "materialize K os http url tx pre targetBalanceBefore trace =
     bindR (mapErrR (ErrWrap ''materialize exact Safe CALL on isolated fork'') (liftIO (sendNativeMaterializationV04 http url tx)))
       (\<lambda>txHash.
     bindR (mapErrR (ErrWrap ''isolated Safe materialization failed'') (requireSuccessfulReceipt os http url txHash)) (\<lambda>_.
     bindR (mapErrR (ErrWrap ''bind Safe materialization receipt'') (liftIO (transactionReceiptDigest http url txHash)))
       (\<lambda>receiptSHA.
     bindR (mapErrR (ErrWrap ''snapshot Safe fork post-state'') (snapshotSafeStateV04 K http url (tx_Safe tx) ''latest'')) (\<lambda>post.
     bindR (mapErrR (ErrWrap ''snapshot target post-balance'') (liftIO (balanceAtV04 http url (tx_To tx) ''latest'')))
       (\<lambda>targetBalanceAfter.
     let movements = native_movements tx;
         effectSHA = safeMaterializedEffectDigestV04
           \<lparr>me_Version = SafeAnvilEngineVersionV04, me_TransactionHash = txHash, me_ReceiptSHA256 = receiptSHA,
            me_TraceSHA256 = TrimPrefix (te_TraceSHA256 trace) ''0x'', me_SafeBalanceBefore = ss_Balance pre,
            me_SafeBalanceAfter = ss_Balance post, me_TargetBalanceBefore = targetBalanceBefore,
            me_TargetBalanceAfter = targetBalanceAfter, me_Movements = movements\<rparr>
     in okR \<lparr>si_PostAuthority = ss_Authority post, si_PostStateSHA256 = ss_StateSHA256 post,
             si_EffectSetSHA256 = effectSHA, si_AssetMovements = movements, si_Trace = trace\<rparr>)))))"

definition safe_session ::
  "keccak \<Rightarrow> 's anvil_os \<Rightarrow> AnvilSafeSimulationEngine \<Rightarrow> CellInput \<Rightarrow> SafeTransaction \<Rightarrow> string \<Rightarrow> ('s, SafeSimulationResult) run" where
  "safe_session K os e input tx url =
     (let timeout = durationOr (ae_RPCTimeout e) (duration_of (5 * Second));
          http = os_http os CallerCtx timeout;
          wrongChain = ErrMsg ''Safe Anvil fork chain identity mismatch'';
          wrongBlock = ErrMsg ''Safe Anvil fork block identity mismatch'' in
      bindR (startup os ''Safe Anvil startup'' (waitForAnvil os http url (durationOr (ae_StartupTimeout e) (duration_of (15 * Second)))))
        (\<lambda>_.
      bindR (orFailR wrongChain (liftIO (rpc_chainID http url))) (\<lambda>chainID.
      if chainID \<noteq> ci_ChainID input then failR wrongChain else
      bindR (orFailR wrongBlock (liftIO (rpc_blockHash http url (ci_BlockNumber input)))) (\<lambda>blockHash.
      if \<not> equalHex32 blockHash (ci_BlockHash input) then failR wrongBlock else
      bindR (mapErrR (ErrWrap ''snapshot Safe fork pre-state'') (snapshotSafeStateV04 K http url (tx_Safe tx) ''latest'')) (\<lambda>pre.
      bindR (mapErrR (ErrWrap ''snapshot target pre-balance'') (liftIO (balanceAtV04 http url (tx_To tx) ''latest'')))
        (\<lambda>targetBalanceBefore.
      bindR (mapErrR (ErrWrap ''trace Safe accessor execution'') (traceSafeSimulationV04 K http url tx (ae_Accessor e))) (\<lambda>trace.
      if \<not> VerifyAccessorSemantics K (ae_Accessor e) tx trace
      then failR (ErrMsg ''Safe Anvil accessor trace failed semantic verification'') else
      bindR (mapErrR (ErrWrap ''impersonate Safe for isolated state materialization'')
               (liftIO (rpc_call http url ''anvil_impersonateAccount'' [JStr (normalizeAddress (tx_Safe tx))] no_result))) (\<lambda>_.
      deferR (\<lambda>s. snd (rpc_call (os_http os BackgroundCtx timeout) url ''anvil_stopImpersonatingAccount''
               [JStr (normalizeAddress (tx_Safe tx))] no_result s))
        (materialize K os http url tx pre targetBalanceBefore trace)))))))))"

definition ExecuteExactSafe ::
  "keccak \<Rightarrow> 's anvil_os \<Rightarrow> AnvilSafeSimulationEngine \<Rightarrow> CellInput \<Rightarrow> SafeTransaction \<Rightarrow> ('s, SafeSimulationResult) run" where
  "ExecuteExactSafe K os e input tx =
     (if TrimSpace (ae_AnvilPath e) = [] \<or> TrimSpace (ae_ForkURL e) = [] \<or> \<not> validAddress (ae_Accessor e)
      then failR (ErrMsg ''Safe Anvil engine configuration is incomplete'') else
      bindR (poll_ctx os) (\<lambda>_.
      if \<not> validSafeTransaction tx \<or> tx_Operation tx \<noteq> 0 \<or> length (tx_Data tx) \<noteq> 0
      then failR (ErrMsg ''Safe Anvil v0.4 supports only native CALL with empty calldata'')
      else if tx_ChainID tx \<noteq> ci_ChainID input \<or> \<not> EqualFold (normalizeAddress (tx_To tx)) (normalizeAddress (ci_Target input))
      then failR (ErrMsg ''Safe Anvil transaction/input identity mismatch'') else
      bindR (mapErrR (ErrWrap ''reserve Safe Anvil port'') (liftIO (reserveLocalPort os))) (\<lambda>port.
      bindR (mapErrR (ErrWrap ''start Safe Anvil'') (liftIO (os_Start os (ae_AnvilPath e)
               (safe_anvil_args (ae_ForkURL e) port (ci_BlockNumber input)) (minimalRunnerEnv (os_Environ os))))) (\<lambda>_.
      deferR (os_KillWait os) (safe_session K os e input tx (local_url port))))))"

end
