(* ===== verification/Sample_Safe_Node.thy ===== *)
theory Sample_Safe_Node
  imports Safe_Engine Sample_Node
begin

text \<open>
  A concrete outside for the witnesses of the Safe engine: a node that answers from a script, one answer for
  each request, and the scripts of one complete run. The state is the rest of the script and the number of
  live processes.
\<close>

definition hex_text :: "string \<Rightarrow> string" where
  "hex_text b = ''0x'' @ hex_encode b"

lemma hex_text_simps [simp]:
  "decodeHexBytesV04 (hex_text b) = Inr b" "ToLower (hex_text b) = hex_text b"
  "length (hex_text b) = 2 + 2 * length b" "ascii (hex_text b)"
proof -
  show "decodeHexBytesV04 (hex_text b) = Inr b" unfolding hex_text_def by (rule decodeHexBytes_hex)
  show "ToLower (hex_text b) = hex_text b"
    unfolding hex_text_def ToLower_append ToLower_hex_encode by (simp add: ToLower_def lower_char_def)
  show "length (hex_text b) = 2 + 2 * length b" by (simp add: hex_text_def)
  show "ascii (hex_text b)"
    using ascii_visible [OF hex_encode_visible [of b]] by (simp add: hex_text_def)
qed

definition scripted_node :: "(json list \<times> nat) transport" where
  "scripted_node url body s =
     (case s of
        ([], n) \<Rightarrow> (Inr (400, []), s)
      | (a # as, n) \<Rightarrow> (Inr (200, json_print (JObj [(''result'', a)])), (as, n)))"

lemma scripted_call:
  assumes "proper_json 100000 a"
  shows "rpc_call scripted_node url m ps out (a # as, n) = fromOption jsonError (out (Some (json_value a))) (as, n)"
    and "rpc_call_text scripted_node url m ps out' (a # as, n) = fromOption jsonError (out' (json_print a)) (as, n)"
  unfolding rpc_call_def rpc_call_text_def bindIO_def scripted_node_def
  by (simp_all add: decode_answer [OF assms] fromOption_def returnIO_def del: json_print.simps)

lemma proper_hex: "length b \<le> 1000 \<Longrightarrow> proper_json 100000 (JStr (hex_text b))"
  by (rule proper_JStr) simp_all

text \<open>The queries of the engine on a scripted answer.\<close>

lemma scripted_queries:
  "length b \<le> 1000 \<Longrightarrow> ethCallAtV04 scripted_node url to data tag (JStr (hex_text b) # as, n) = (Inr (hex_text b), as, n)"
  "length b \<le> 1000 \<Longrightarrow> codeAtV04 scripted_node url address tag (JStr (hex_text b) # as, n) = (Inr (hex_text b), as, n)"
  "length b \<le> 32 \<Longrightarrow> storageAtV04 scripted_node url address slot tag (JStr (hex_text b) # as, n) =
     (Inr (hex_text (zero_bytes (32 - length b) @ b)), as, n)"
  by (simp_all add: ethCallAtV04_def codeAtV04_def storageAtV04_def bindIO_def scripted_call proper_hex
      string_result_def fromOption_def returnIO_def, simp add: hex_text_def)

lemma scripted_balance:
  "balanceAtV04 scripted_node url address tag (JStr ''0x7'' # as, n) = (Inr (int_text 10 7), as, n)"
proof -
  have "proper_json 100000 (JStr ''0x7'')" by (rule proper_JStr) simp_all
  moreover have "SetString 16 ''7'' = Some 7" by (simp add: SetString_def parse_nat_def hex_val_def)
  ultimately show ?thesis
    by (simp add: balanceAtV04_def bindIO_def scripted_call string_result_def fromOption_def returnIO_def)
qed

subsection \<open>A snapshot\<close>

definition zero20 :: string where
  "zero20 = zero_bytes 20"

definition snapshot_script :: "json list" where
  "snapshot_script =
     [JStr (hex_text (abi_array [zero20])), JStr (hex_text (abi_word 1)),
      JStr (hex_text ((abi_word 64 @ abi_word 1) @ abi_tail [zero20])), JStr (hex_text []), JStr (hex_text []),
      JStr (hex_text []), JStr (hex_text ''code''), JStr ''0x7'', JStr (hex_text (abi_word 3))]"

lemma length_zero20 [simp]: "length zero20 = 20"
  by (simp add: zero20_def)

lemma lengths [simp]: "length (abi_array [zero20]) = 96" "length (abi_tail [zero20]) = 64"
  using length_abi_tail [of "[zero20]"] by (simp_all add: abi_array_def)

lemma hex_text_zero20: "hex_text zero20 = zero_address"
  unfolding hex_text_def zero20_def zero_address_def by code_simp

lemma zero_address_valid [simp]: "validAddress zero_address" "normalizeAddress zero_address = zero_address"
  unfolding hex_text_zero20 [symmetric] hex_text_def
  by (simp_all add: validAddress_def) (simp add: normalizeAddress_def)

lemma sentinel_word: "''0x'' @ hex_encode (drop 12 (abi_word 1)) = safeSentinelModulesV04"
  by code_simp

lemma sentinel_valid: "validAddress safeSentinelModulesV04"
  unfolding sentinel_word [symmetric] by (simp add: validAddress_def)

lemma sample_decodes:
  "decodeABIAddressArrayV04 (hex_text (abi_array [zero20])) 0 = Ok [zero_address]"
  "decodeABIUint64V04 (hex_text (abi_word 1)) 0 = Ok 1"
  "decodeModulesPageV04 (hex_text ((abi_word 64 @ abi_word 1) @ abi_tail [zero20])) = Ok ([zero_address], safeSentinelModulesV04)"
  "decodeABIUintV04 (hex_text (abi_word 3)) 0 = Ok 3"
  "addressFromWordV04 (hex_text (zero_bytes 32)) = Inr zero_address"
proof -
  show "decodeABIAddressArrayV04 (hex_text (abi_array [zero20])) 0 = Ok [zero_address]"
    using decode_abi_array [of "[zero20]"] unfolding hex_text_def [symmetric] by (simp add: hex_text_zero20)
  show "decodeABIUint64V04 (hex_text (abi_word 1)) 0 = Ok 1" "decodeABIUintV04 (hex_text (abi_word 3)) 0 = Ok 3"
    by (simp_all add: decodeABIUint64V04_def decodeABIUintV04_def go_slice_def)
  have "decodeABIAddressArrayBytesV04 ((abi_word 64 @ abi_word 1) @ abi_tail [zero20]) 64 = Ok [zero_address]"
    using decode_abi_tail [of "[zero20]" 64 "abi_word 64 @ abi_word 1"] unfolding hex_text_def [symmetric] by (simp add: hex_text_zero20)
  moreover have "addressFromWordBytesV04 (abi_word 1) = Inr safeSentinelModulesV04"
    using sentinel_word by (simp add: addressFromWordBytesV04_def)
  ultimately show "decodeModulesPageV04 (hex_text ((abi_word 64 @ abi_word 1) @ abi_tail [zero20])) =
      Ok ([zero_address], safeSentinelModulesV04)"
    by (simp add: decodeModulesPageV04_def)
  have "''0x'' @ hex_encode (drop 12 (zero_bytes 32)) = zero_address" by code_simp
  then show "addressFromWordV04 (hex_text (zero_bytes 32)) = Inr zero_address"
    by (simp add: addressFromWordV04_def bindE_def addressFromWordBytesV04_def)
qed

lemma sample_modules:
  "safeModulesAtV04 K scripted_node url safe tag (JStr (hex_text ((abi_word 64 @ abi_word 1) @ abi_tail [zero20])) # rest, n) =
     Some (Ok [zero_address], rest, n)"
proof -
  have p: "module_pages K h u s t 16 = module_pages K h u s t (Suc 15)" for h :: "(json list \<times> nat) transport" and u s t
    by simp
  obtain calldata where c: "encodeGetModulesPaginatedV04 K safeSentinelModulesV04 128 = Inr calldata"
    by (simp add: encodeGetModulesPaginatedV04_def bindE_def addressWord_valid [OF sentinel_valid] uintWord_u64 [of 128, simplified])
  show ?thesis
    unfolding safeModulesAtV04_def p module_pages.simps c
    by (simp add: bindR_def liftO_def mapErrR_def liftIO_def scripted_queries sample_decodes okR_def Let_def
        del: append_assoc)
qed

lemma scripted_snapshot_valid:
  "length h = 32 \<Longrightarrow> validAuthoritySnapshot \<lparr>sn_Owners = [zero_address], sn_Threshold = 1, sn_Modules = [zero_address],
     sn_Guard = zero_address, sn_FallbackHandler = zero_address, sn_Implementation = sample_target,
     sn_CodeHash = ''0x'' @ hex_encode h\<rparr>"
proof -
  assume "length h = 32"
  then have "validHex32 (''0x'' @ hex_encode h)" by (intro validHex32_0x) (simp add: validSHA256_iff)
  then show ?thesis by (simp add: validAuthoritySnapshot_def sample_target_valid del: append_Cons)
qed

text \<open>The script of a snapshot is one: it yields the same state wherever it stands.\<close>

lemma sample_snapshot_run:
  "\<exists>st. ss_Balance st = int_text 10 7 \<and> (\<forall>url tag rest n.
     snapshotSafeStateV04 K scripted_node url sample_target tag (snapshot_script @ rest, n) = Some (Ok st, rest, n))"
proof -
  let ?a = "\<lparr>sn_Owners = [zero_address], sn_Threshold = 1, sn_Modules = [zero_address], sn_Guard = zero_address,
    sn_FallbackHandler = zero_address, sn_Implementation = sample_target,
    sn_CodeHash = ''0x'' @ hex_encode (keccak256 K ''code'')\<rparr>"
  have v: "validAuthoritySnapshot ?a" by (rule scripted_snapshot_valid) simp
  have e: "zero_address \<noteq> sample_target" by (simp add: zero_address_def sample_target_def)
  let ?s = "\<lparr>ss_Version = SafeAnvilEngineVersionV04, ss_Safe = sample_target, ss_Authority = ?a, ss_Balance = int_text 10 7,
    ss_Nonce = int_text 10 3, ss_StateSHA256 = []\<rparr>"
  have "snapshotSafeStateV04 K scripted_node url sample_target tag (snapshot_script @ rest, n) =
      Some (Ok (?s\<lparr>ss_StateSHA256 := json_digest (json_safeStateSnapshot ?s)\<rparr>), rest, n)" for url tag rest n
    unfolding snapshotSafeStateV04_def Let_def snapshot_script_def
    by (simp add: bindR_def liftO_def mapErrR_def orFailR_def liftIO_def scripted_queries sample_decodes okR_def
        sample_target_valid sample_modules scripted_balance v [simplified] del: append_assoc)
  then show ?thesis by (intro exI [of _ "?s\<lparr>ss_StateSHA256 := json_digest (json_safeStateSnapshot ?s)\<rparr>"]) simp
qed

subsection \<open>A call trace\<close>

definition native_tx :: SafeTransaction where
  "native_tx = sample_tx\<lparr>tx_Data := []\<rparr>"

lemma native_tx_valid: "validSafeTransaction native_tx"
  using sample_tx_valid by (simp add: validSafeTransaction_def native_tx_def)

lemma native_tx_simps [simp]:
  "tx_Safe native_tx = sample_target" "tx_To native_tx = sample_target" "tx_Value native_tx = Some 5"
  "tx_Data native_tx = []" "tx_Operation native_tx = 0" "tx_ChainID native_tx = 1"
  by (simp_all add: native_tx_def sample_tx_def)

definition call_answer :: "string \<Rightarrow> string \<Rightarrow> string \<Rightarrow> string \<Rightarrow> string \<Rightarrow> json list \<Rightarrow> json" where
  "call_answer kind caller to value input calls = JObj
     [(''type'', JStr kind), (''from'', JStr caller), (''to'', JStr to), (''value'', JStr value), (''input'', JStr input),
      (''calls'', JArr calls)]"

definition trace_answer :: "keccak \<Rightarrow> json" where
  "trace_answer K =
     call_answer ''CALL'' safeTraceCallerV04 sample_target ''0x0'' ''0x''
       [call_answer ''DELEGATECALL'' sample_target sample_target ''0x0'' (hex_text (accessor_calldata K native_tx))
         [call_answer ''CALL'' sample_target sample_target ''0x5'' ''0x'' []]]"

definition traced :: "string \<Rightarrow> string \<Rightarrow> string \<Rightarrow> string \<Rightarrow> string \<Rightarrow> callTracerFields" where
  "traced kind caller to value input =
     \<lparr>ct_Type = kind, ct_From = caller, ct_To = to, ct_Value = value, ct_Input = input, ct_Error = []\<rparr>"

lemma decode_call_answer:
  assumes "decode_calls (map json_value calls) [] = Some cells"
  shows "decode_cell (json_value (call_answer kind caller to value input calls)) zero_cell =
    Some (Cell (traced kind caller to value input) (if calls = [] then [] else cells) (length calls))"
proof -
  have n: "fold_name ''type'' = ''type''" "fold_name ''from'' = ''from''" "fold_name ''to'' = ''to''"
    "fold_name ''value'' = ''value''" "fold_name ''input'' = ''input''" "fold_name ''error'' = ''error''"
    "fold_name ''calls'' = ''calls''" by code_simp+
  show ?thesis
    by (simp add: call_answer_def zero_cell_def n tracer_fields_def find_field_def string_field_def assms traced_def)
qed

lemma trace_answer_result:
  "frame_result (Some (json_value (trace_answer K))) =
     Some (Frame (traced ''CALL'' safeTraceCallerV04 sample_target ''0x0'' ''0x'')
       [Frame (traced ''DELEGATECALL'' sample_target sample_target ''0x0'' (hex_text (accessor_calldata K native_tx)))
         [Frame (traced ''CALL'' sample_target sample_target ''0x5'' ''0x'') []]])"
proof -
  have one: "decode_calls (map json_value [call_answer kind caller to amount input calls]) [] =
      Some [Cell (traced kind caller to amount input) (if calls = [] then [] else cells) (length calls)]"
    if "decode_calls (map json_value calls) [] = Some cells" for kind caller to amount input calls cells
    using decode_call_answer [OF that, of kind caller to amount input] by (simp del: decode_cell.simps)
  have "decode_calls (map json_value []) [] = Some []" by simp
  from decode_call_answer [OF one [OF one [OF this]]] show ?thesis
    unfolding trace_answer_def frame_result_def option.case by simp
qed

lemma proper_call_answer:
  assumes "ascii kind" "ascii caller" "ascii to" "ascii amount" "ascii input" "length kind \<le> 12" "length caller \<le> 42"
    "length to \<le> 42" "length amount \<le> 3" "length input \<le> 400" and "calls = [] \<or> (\<exists>c. calls = [c] \<and> proper_json m c \<and> json_depth c < 50)"
  shows "proper_json (5000 + m) (call_answer kind caller to amount input calls) \<and>
    json_depth (call_answer kind caller to amount input calls) \<le> 2 + fold max (map json_depth calls) 0"
proof -
  have s: "length (json_string x) \<le> 6 * length x + 2" if "ascii x" for x using json_string_length [OF that] .
  have "length (json_print (JArr calls)) \<le> m + 2" using assms(11) by (auto simp: proper_json_def)
  moreover have k: "length (json_string ''type'') \<le> 26" "length (json_string ''from'') \<le> 26" "length (json_string ''to'') \<le> 14"
    "length (json_string ''value'') \<le> 32" "length (json_string ''input'') \<le> 32" "length (json_string ''calls'') \<le> 32"
    using s [of "''type''"] s [of "''from''"] s [of "''to''"] s [of "''value''"] s [of "''input''"] s [of "''calls''"] by simp_all
  ultimately have "length (json_print (call_answer kind caller to amount input calls)) \<le> 5000 + m"
    using s [OF assms(1)] s [OF assms(2)] s [OF assms(3)] s [OF assms(4)] s [OF assms(5)] assms(6-10)
    by (simp add: call_answer_def)
  then show ?thesis
    using assms(1-5,11) by (auto simp: proper_json_def call_answer_def)
qed

lemma length_native_calldata: "length (accessor_calldata K native_tx) = 164"
proof -
  have "length (address_word sample_target) = 32" by (rule length_address_word [OF sample_target_valid])
  then show ?thesis by (simp add: accessor_calldata_def padded_length_def)
qed

lemma sample_target_text: "ascii sample_target" "length sample_target = 42"
  by (simp_all add: sample_target_def)

lemma trace_answer_proper: "proper_json 100000 (trace_answer K)"
proof -
  let ?a = "call_answer ''CALL'' sample_target sample_target ''0x5'' ''0x'' []"
  have a: "proper_json 5000 ?a \<and> json_depth ?a \<le> 2"
    using proper_call_answer [of "''CALL''" sample_target sample_target "''0x5''" "''0x''" "[]" 0]
    by (simp add: sample_target_text)
  let ?b = "call_answer ''DELEGATECALL'' sample_target sample_target ''0x0'' (hex_text (accessor_calldata K native_tx)) [?a]"
  have b: "proper_json 10000 ?b \<and> json_depth ?b \<le> 4"
    using proper_call_answer [of "''DELEGATECALL''" sample_target sample_target "''0x0''"
        "hex_text (accessor_calldata K native_tx)" "[?a]" 5000] a
    by (simp add: sample_target_text length_native_calldata)
  have "proper_json 15000 (trace_answer K)"
    using proper_call_answer [of "''CALL''" safeTraceCallerV04 sample_target "''0x0''" "''0x''" "[?b]" 10000] b
    by (simp add: trace_answer_def sample_target_text safeTraceCallerV04_def)
  then show ?thesis by (simp add: proper_json_def)
qed

definition native_subtree :: "keccak \<Rightarrow> callTracerFrameV04" where
  "native_subtree K =
     Frame (traced ''DELEGATECALL'' sample_target sample_target ''0x0'' (hex_text (accessor_calldata K native_tx)))
       [Frame (traced ''CALL'' sample_target sample_target ''0x5'' ''0x'') []]"

definition native_frames :: "keccak \<Rightarrow> SafeTraceFrame list" where
  "native_frames K =
     [sample_frame 0 ''delegatecall'' (sha256Hex (accessor_calldata K native_tx)) (int_text 10 0),
      sample_frame 1 ''call'' (sha256Hex []) (int_text 10 5)]"

lemma native_kinds: "ToLower (TrimSpace ''DELEGATECALL'') = ''delegatecall''" "ToLower (TrimSpace ''CALL'') = ''call''"
proof -
  have t: "TrimSpace ''DELEGATECALL'' = ''DELEGATECALL''" "TrimSpace ''CALL'' = ''CALL''"
    by (simp_all add: TrimSpace_all_visible visible_def)
  have l: "ToLower ''DELEGATECALL'' = ''delegatecall''" "ToLower ''CALL'' = ''call''" by code_simp+
  show "ToLower (TrimSpace ''DELEGATECALL'') = ''delegatecall''" "ToLower (TrimSpace ''CALL'') = ''call''"
    unfolding t l by (rule refl)+
qed

lemma native_collected: "appendSafeTraceFramesV04 [] (native_subtree K) 0 = Inr (native_frames K)"
proof -
  have q: "hexQuantityToDecimalV04 ''0x0'' = Inr (int_text 10 0)" "hexQuantityToDecimalV04 ''0x5'' = Inr (int_text 10 5)"
    by (simp_all add: hexQuantityToDecimalV04_def TrimSpace_all_visible visible_def SetString_def parse_nat_def hex_val_def)
  have d: "decodeHexBytesV04 ''0x'' = Inr []"
    by (simp add: decodeHexBytesV04_def TrimSpace_all_visible visible_def)
  show ?thesis
    by (simp add: native_subtree_def native_frames_def trace_frame_def traced_def sample_target_valid q d native_kinds bindE_def sample_frame_def)
qed

definition native_trace :: "keccak \<Rightarrow> SafeTraceEvidence" where
  "native_trace K =
     (let t = \<lparr>te_RootSafe = sample_target, te_Frames = native_frames K, te_Truncated = False, te_TraceSHA256 = []\<rparr>
      in t\<lparr>te_TraceSHA256 := safeTraceDigest t\<rparr>)"

lemma native_trace_run:
  "traceSafeSimulationV04 K scripted_node url native_tx sample_target (trace_answer K # rest, n) = Some (Ok (native_trace K), rest, n)"
proof -
  obtain outer where o: "encodeSimulateAndRevertV04 K sample_target (accessor_calldata K native_tx) = Inr outer"
    by (simp add: encodeSimulateAndRevertV04_def bindE_def sample_target_valid addressWord_valid [OF sample_target_valid])
  have e: "EqualFold (TrimSpace ''DELEGATECALL'') ''DELEGATECALL''" "\<not> EqualFold (TrimSpace ''CALL'') ''DELEGATECALL''"
    by (simp_all add: TrimSpace_all_visible visible_def EqualFold_def ToLower_def lower_char_def)
  have f: "findSafeAccessorFrameV04 (Frame (traced ''CALL'' safeTraceCallerV04 sample_target ''0x0'' ''0x'') [native_subtree K])
      sample_target sample_target = Some (native_subtree K)"
    by (simp add: native_subtree_def traced_def e)
  show ?thesis
    unfolding traceSafeSimulationV04_def bindR_def encodeSafeAccessorSimulate_valid [OF native_tx_valid]
    by (simp add: liftO_def o liftIO_def scripted_call [OF trace_answer_proper] trace_answer_result fromOption_def returnIO_def
        f [unfolded native_subtree_def] native_collected [unfolded native_subtree_def] okR_def native_trace_def Let_def
        del: findSafeAccessorFrameV04.simps find_among.simps appendSafeTraceFramesV04.simps append_children.simps)
qed

lemma native_trace_accessor: "VerifyAccessorSemantics K sample_target native_tx (native_trace K)"
proof -
  let ?t = "\<lparr>te_RootSafe = sample_target, te_Frames = native_frames K, te_Truncated = False, te_TraceSHA256 = []\<rparr>"
  have d: "safeTraceDigest (native_trace K) = safeTraceDigest ?t" "te_TraceSHA256 (native_trace K) = safeTraceDigest ?t"
    "te_Frames (native_trace K) = native_frames K" "te_RootSafe (native_trace K) = sample_target" "te_Truncated (native_trace K) = False"
    by (simp_all add: native_trace_def safeTraceDigest_def trace_payload_def Let_def)
  have "traceFramesOk None (native_frames K)"
    by (simp add: native_frames_def sample_frame_def sample_kinds trace_kinds_def sample_target_valid Let_def)
  then have "VerifySafeTrace (native_trace K)"
    unfolding VerifySafeTrace_def d
    by (simp add: sample_target_valid native_frames_def sample_frame_def safeTraceDigest_def json_digest_def)
  moreover have "TrimSpace (int_text 10 5) = int_text 10 5" by (rule SetString_TrimSpace [of _ 5]) simp
  ultimately show ?thesis
    unfolding VerifyAccessorSemantics_def
    by (simp add: native_tx_valid sample_target_valid safeAccessorSimulateCalldata_valid d Let_def)
       (simp add: native_frames_def sample_frame_def sample_kinds)
qed

subsection \<open>A complete run\<close>

definition scripted_os :: "(json list \<times> nat) anvil_os" where
  "scripted_os = \<lparr>os_http = (\<lambda>_ _. scripted_node), os_ctxErr = (\<lambda>_. None), os_arm = (\<lambda>_ _ s. s),
     os_select = (\<lambda>s. (if fst s = [] then DeadlineFired else Ticked, (tl (fst s), snd s))),
     os_readFile = (\<lambda>_ s. (Inr ''runner'', s)), os_listen = (\<lambda>s. (Inr 40000, s)),
     os_Start = (\<lambda>_ _ _ s. (Inr (), (fst s, Suc (snd s)))), os_KillWait = (\<lambda>s. (fst s, snd s - 1)),
     os_Environ = [], os_stderr = (\<lambda>_. [])\<rparr>"

lemma scripted_os_simps [simp]:
  "os_http scripted_os c t = scripted_node" "os_ctxErr scripted_os s = None" "os_arm scripted_os a b s = s"
  "os_select scripted_os s = (if fst s = [] then DeadlineFired else Ticked, (tl (fst s), snd s))"
  "os_readFile scripted_os path s = (Inr ''runner'', s)" "os_listen scripted_os s = (Inr 40000, s)"
  "os_Start scripted_os path args env s = (Inr (), (fst s, Suc (snd s)))" "os_KillWait scripted_os s = (fst s, snd s - 1)"
  by (simp_all add: scripted_os_def)

definition sample_safe_engine :: AnvilSafeSimulationEngine where
  "sample_safe_engine = \<lparr>ae_AnvilPath = ''anvil'', ae_ForkURL = ''node'', ae_Accessor = sample_target,
     ae_StartupTimeout = 0, ae_RPCTimeout = 0\<rparr>"

definition native_input :: CellInput where
  "native_input = \<lparr>ci_Version = [], ci_ChainID = 1, ci_BlockNumber = 10, ci_BlockHash = ''0x'' @ sha256Hex ''block'',
     ci_Target = sample_target, ci_ApprovedIntentSHA256 = [], ci_CandidateIntentSHA256 = [], ci_ApprovedPayloadSHA256 = [],
     ci_CandidatePayloadSHA256 = [], ci_ActionSHA256 = [], ci_InvariantSetSHA256 = [],
     ci_ApprovedRunnerSHA256 = sha256Hex ''runner''\<rparr>"

definition head_script :: "json list" where
  "head_script = [JStr ''0x1'', JObj [(''hash'', JStr (''0x'' @ sha256Hex ''block''))]]"

definition effect_script :: "json list" where
  "effect_script = [JStr (''0x'' @ sha256Hex ''transaction''), sample_receipt_json, sample_receipt_json]"

lemma proper_answers:
  "proper_json 100000 (JStr ''0x1'')" "proper_json 100000 (JObj [(''hash'', JStr (''0x'' @ sha256Hex ''block''))])"
  "proper_json 100000 (JStr (''0x'' @ sha256Hex ''transaction''))" "proper_json 100000 (JBool True)"
proof -
  show "proper_json 100000 (JStr ''0x1'')" by (rule proper_JStr) simp_all
  show "proper_json 100000 (JObj [(''hash'', JStr (''0x'' @ sha256Hex ''block''))])"
    by (rule proper_JObj [where m = 500]) (use proper_hash in simp_all)
  show "proper_json 100000 (JStr (''0x'' @ sha256Hex ''transaction''))"
    using proper_hash [of "''transaction''"] by (simp add: proper_json_def)
  show "proper_json 100000 (JBool True)" by (simp add: proper_json_def)
qed

lemma scripted_head:
  "rpc_chainID scripted_node url (JStr ''0x1'' # rest, n) = (Inr 1, rest, n)"
  "rpc_blockHash scripted_node url block (JObj [(''hash'', JStr (''0x'' @ sha256Hex ''block''))] # rest, n) =
     (Inr (''0x'' @ sha256Hex ''block''), rest, n)"
  "rpc_call scripted_node url m ps no_result (JBool True # rest, n) = (Inr (), rest, n)"
proof -
  have x: "parseUint64 (TrimPrefix ''0x1'' ''0x'') = Some 1"
    by (simp add: parseUint64_def TrimPrefix_def parse_nat_def hex_val_def lower_char_def)
  show "rpc_chainID scripted_node url (JStr ''0x1'' # rest, n) = (Inr 1, rest, n)"
    unfolding rpc_chainID_def bindIO_def
    by (simp add: scripted_call proper_answers string_result_def fromOption_def returnIO_def x [simplified])
  show "rpc_blockHash scripted_node url block (JObj [(''hash'', JStr (''0x'' @ sha256Hex ''block''))] # rest, n) =
     (Inr (''0x'' @ sha256Hex ''block''), rest, n)"
    unfolding rpc_blockHash_def bindIO_def
    by (simp add: scripted_call proper_answers [simplified] hash_result_def find_field_def string_field_def
        fromOption_def returnIO_def validHex32_0x [simplified])
  show "rpc_call scripted_node url m ps no_result (JBool True # rest, n) = (Inr (), rest, n)"
    by (simp add: scripted_call proper_answers no_result_def fromOption_def returnIO_def)
qed

lemma scripted_receipt:
  "\<exists>receipt. (\<forall>url rest n. transactionReceipt scripted_node url (''0x'' @ sha256Hex ''transaction'') (sample_receipt_json # rest, n) =
     (Inr (Some receipt), rest, n)) \<and> er_Status receipt = ''0x1''"
proof -
  obtain receipt where r: "decode_receipt (json_print sample_receipt_json) = Some receipt" "er_Status receipt = ''0x1''"
    "er_TransactionHash receipt = ''0x'' @ sha256Hex ''transaction''" "er_BlockHash receipt = ''0x'' @ sha256Hex ''forked''"
    using decode_sample_receipt by (elim exE conjE)
  have "transactionReceipt scripted_node url (''0x'' @ sha256Hex ''transaction'') (sample_receipt_json # rest, n) =
     (Inr (Some receipt), rest, n)" for url rest n
    unfolding transactionReceipt_def bindIO_def scripted_call [OF proper_sample_receipt]
    using r by (simp add: fromOption_def returnIO_def validHex32_0x [simplified])
  with r(2) show ?thesis by (intro exI [of _ receipt] conjI allI)
qed

lemma scripted_polls:
  "waitForAnvil scripted_os scripted_node url d (JStr ''0x1'' # rest, n) = Some (Ok (), rest, n)"
  "requireSuccessfulReceipt scripted_os scripted_node url (''0x'' @ sha256Hex ''transaction'') (sample_receipt_json # rest, n) =
     Some (Ok (), rest, n)"
proof -
  have p: "poll_loop os e (ready_probe scripted_node url) (JStr ''0x1'' # rest, n) = Some (Ok (), rest, n)" for os e
    by (rule poll_loop_done) (simp add: ready_probe_def scripted_head)
  show "waitForAnvil scripted_os scripted_node url d (JStr ''0x1'' # rest, n) = Some (Ok (), rest, n)"
    unfolding waitForAnvil_def bindR_def effectR_def scripted_os_simps by (simp add: p)
  obtain receipt where r: "\<forall>url rest n. transactionReceipt scripted_node url (''0x'' @ sha256Hex ''transaction'')
      (sample_receipt_json # rest, n) = (Inr (Some receipt), rest, n)" "er_Status receipt = ''0x1''"
    using scripted_receipt by (elim exE conjE)
  have l: "ToLower ''0x1'' = ''0x1''" by code_simp
  have "receipt_probe scripted_node url (''0x'' @ sha256Hex ''transaction'') (sample_receipt_json # rest, n) = (Some (Ok ()), rest, n)"
    unfolding receipt_probe_def r(1) [rule_format] prod.case sum.case option.case r(2) l by (simp only: simp_thms if_False)
  then have p: "poll_loop os e (receipt_probe scripted_node url (''0x'' @ sha256Hex ''transaction'')) (sample_receipt_json # rest, n) =
      Some (Ok (), rest, n)" for os e
    by (rule poll_loop_done)
  show "requireSuccessfulReceipt scripted_os scripted_node url (''0x'' @ sha256Hex ''transaction'') (sample_receipt_json # rest, n) =
     Some (Ok (), rest, n)"
    unfolding requireSuccessfulReceipt_def bindR_def effectR_def scripted_os_simps by (simp only: prod.case option.case outcome.case p)
qed

lemma scripted_digest:
  "\<exists>d. \<forall>url rest n. transactionReceiptDigest scripted_node url (''0x'' @ sha256Hex ''transaction'') (sample_receipt_json # rest, n) =
     (Inr d, rest, n)"
proof -
  obtain receipt where r: "\<forall>url rest n. transactionReceipt scripted_node url (''0x'' @ sha256Hex ''transaction'')
      (sample_receipt_json # rest, n) = (Inr (Some receipt), rest, n)" "er_Status receipt = ''0x1''"
    using scripted_receipt by (elim exE conjE)
  have l: "ToLower ''0x1'' = ''0x1''" by code_simp
  show ?thesis
    unfolding transactionReceiptDigest_def bindIO_def r(1) [rule_format] prod.case sum.case option.case r(2) l
    by (simp only: simp_thms if_False returnIO_def prod.inject sum.inject)
qed

lemma scripted_send:
  "sendNativeMaterializationV04 scripted_node url native_tx (JStr (''0x'' @ sha256Hex ''transaction'') # rest, n) =
     (Inr (''0x'' @ sha256Hex ''transaction''), rest, n)"
  unfolding sendNativeMaterializationV04_def bindIO_def scripted_call [OF proper_answers(3)]
  by (simp add: string_result_def fromOption_def returnIO_def validHex32_0x [simplified])

text \<open>One run, from the start of the process to its kill: all of the script is used.\<close>

definition run_script :: "keccak \<Rightarrow> json list" where
  "run_script K = JStr ''0x1'' # head_script @ snapshot_script @ JStr ''0x7'' # trace_answer K # JBool True #
     effect_script @ snapshot_script @ [JStr ''0x7'', JBool True]"

lemma effect_eq: "effect_script @ rest =
    JStr (''0x'' @ sha256Hex ''transaction'') # sample_receipt_json # sample_receipt_json # rest"
  and head_eq: "head_script @ rest = JStr ''0x1'' # JObj [(''hash'', JStr (''0x'' @ sha256Hex ''block''))] # rest"
  by (simp_all add: effect_script_def head_script_def)

lemma native_run:
  "\<exists>result. ExecuteExactSafe K scripted_os sample_safe_engine native_input native_tx (run_script K, n) =
     Some (Ok result, [], n) \<and> si_AssetMovements result = native_movements native_tx"
proof -
  obtain st where st: "\<forall>url tag rest n.
     snapshotSafeStateV04 K scripted_node url sample_target tag (snapshot_script @ rest, n) = Some (Ok st, rest, n)"
    using sample_snapshot_run [of K] by (elim exE conjE)
  obtain d where d: "\<forall>url rest n. transactionReceiptDigest scripted_node url (''0x'' @ sha256Hex ''transaction'')
      (sample_receipt_json # rest, n) = (Inr d, rest, n)"
    by (rule exE [OF scripted_digest])
  have m: "\<exists>result. (\<forall>url. materialize K scripted_os scripted_node url native_tx st (int_text 10 7) (native_trace K)
      (effect_script @ snapshot_script @ [JStr ''0x7'', JBool True], Suc n) = Some (Ok result, [JBool True], Suc n)) \<and>
      si_AssetMovements result = native_movements native_tx"
    unfolding materialize_def Let_def effect_eq bindR_def
    by (simp add: mapErrR_def liftIO_def scripted_send scripted_polls d [rule_format] st [rule_format] scripted_balance okR_def
        del: append_Cons append_Nil)
  then obtain result where r: "\<forall>url. materialize K scripted_os scripted_node url native_tx st (int_text 10 7) (native_trace K)
      (effect_script @ snapshot_script @ [JStr ''0x7'', JBool True], Suc n) = Some (Ok result, [JBool True], Suc n)"
    "si_AssetMovements result = native_movements native_tx" by (elim exE conjE)
  have i: "equalHex32 (''0x'' @ sha256Hex ''block'') (ci_BlockHash native_input)" "ci_ChainID native_input = 1"
    "ci_Target native_input = sample_target"
    by (simp_all add: native_input_def)
  have s: "safe_session K scripted_os sample_safe_engine native_input native_tx url (run_script K, Suc n) = Some (Ok result, [], Suc n)" for url
    unfolding safe_session_def Let_def run_script_def head_eq bindR_def
    by (simp add: startup_def scripted_polls orFailR_def mapErrR_def liftIO_def scripted_head i st [rule_format] scripted_balance
        sample_safe_engine_def native_trace_run native_trace_accessor deferR_def r(1) [rule_format] del: append_Cons append_Nil)
  have trim: "TrimSpace ''anvil'' = ''anvil''" "TrimSpace ''node'' = ''node''"
    by (simp_all add: TrimSpace_all_visible visible_def)
  have e: "ae_AnvilPath sample_safe_engine = ''anvil''" "ae_ForkURL sample_safe_engine = ''node''"
    "ae_Accessor sample_safe_engine = sample_target" by (simp_all add: sample_safe_engine_def)
  have "ExecuteExactSafe K scripted_os sample_safe_engine native_input native_tx (run_script K, n) = Some (Ok result, [], n)"
    unfolding ExecuteExactSafe_def e trim
    by (simp add: bindR_def poll_ctx_def readR_def okR_def sample_target_valid native_tx_valid i mapErrR_def liftIO_def
        reserveLocalPort_def deferR_def s)
  with r(2) show ?thesis by (intro exI [of _ result] conjI)
qed

text \<open>The engine's other reports on the same node.\<close>

lemma native_accessor: "ae_Accessor sample_safe_engine = sample_target"
  by (simp add: sample_safe_engine_def)

lemma native_upstream: "upstreamClientV04 scripted_os sample_safe_engine = Inr (scripted_node, ''node'')"
  by (simp add: upstreamClientV04_def sample_safe_engine_def TrimSpace_all_visible visible_def)

lemma native_pinned:
  "PinnedBlock scripted_os sample_safe_engine (ci_ChainID native_input) (ci_BlockNumber native_input) (head_script @ rest, n) =
     Some (Ok (''0x'' @ sha256Hex ''block''), rest, n)"
  unfolding PinnedBlock_def native_upstream head_eq bindR_def Let_def
  by (simp add: liftO_def orFailR_def mapErrR_def liftIO_def scripted_head native_input_def del: append_Cons append_Nil)

lemma native_runner: "RunnerSHA256 scripted_os sample_safe_engine s = Some (Ok (sha256Hex ''runner''), s)"
proof -
  have "TrimSpace ''anvil'' = ''anvil''" by (simp add: TrimSpace_all_visible visible_def)
  then show ?thesis
    by (simp add: RunnerSHA256_def sample_safe_engine_def liftIO_def fileSHA256_def bindIO_def returnIO_def)
qed

lemma native_snapshot:
  "\<exists>pre. SnapshotSafe K scripted_os sample_safe_engine (ci_ChainID native_input) (ci_BlockNumber native_input)
     (tx_Safe native_tx) (head_script @ snapshot_script @ [], n) = Some (Ok pre, [], n)"
proof -
  obtain st where st: "\<forall>url tag rest n.
     snapshotSafeStateV04 K scripted_node url sample_target tag (snapshot_script @ rest, n) = Some (Ok st, rest, n)"
    using sample_snapshot_run [of K] by (elim exE conjE)
  show ?thesis
    unfolding SnapshotSafe_def native_upstream head_eq bindR_def Let_def
    by (simp add: liftO_def orFailR_def mapErrR_def liftIO_def scripted_head native_input_def st [rule_format] okR_def
        del: append_Cons append_Nil append_Nil2)
qed

lemma native_identities:
  "equalHex32 (''0x'' @ sha256Hex ''block'') (ci_BlockHash native_input)"
  "EqualFold (strip0x (sha256Hex ''runner'')) (strip0x (ci_ApprovedRunnerSHA256 native_input))"
  "ci_BlockNumber native_input \<noteq> 0"
  by (simp_all add: native_input_def)

end
