(* ===== verification/Safe_Engine_Sound.thy ===== *)
theory Safe_Engine_Sound
  imports Sample_Safe_Node Anvil_Sound
begin

text \<open>
  What the Safe engine guarantees: pagination is bounded and duplicate free, a collected call trace passes
  the trace verifier exactly on its contents, a result passes every check of the pinned backend, a run
  returns and leaves no process behind, and the one way in which a node can make it panic.
\<close>

subsection \<open>Address arrays and modules\<close>

lemma validAddress_0x: "length b = 20 \<Longrightarrow> validAddress (''0x'' @ hex_encode b)"
  by (simp add: validAddress_def)

lemma addressFromWordBytes_Inr:
  "addressFromWordBytesV04 w = Inr a \<Longrightarrow> validAddress a \<and> normalizeAddress a = a"
proof -
  assume "addressFromWordBytesV04 w = Inr a"
  then have a: "a = ''0x'' @ hex_encode (drop 12 w)" and l: "length w = 32"
    by (auto simp: addressFromWordBytesV04_def split: if_splits)
  from l have "validAddress a" unfolding a by (intro validAddress_0x) simp
  moreover have "normalizeAddress a = a" unfolding a by (simp add: normalizeAddress_def)
  ultimately show ?thesis by simp
qed

lemma abi_addresses_Ok:
  "abi_addresses data o1 is = Ok as \<Longrightarrow> length as = length is \<and> list_all validAddress as"
  by (induction "is" arbitrary: as) (auto simp: bindO_Ok dest!: addressFromWordBytes_Inr)

lemma array_bytes_Ok:
  "decodeABIAddressArrayBytesV04 data o1 = Ok as \<Longrightarrow> length as \<le> 4096 \<and> list_all validAddress as"
  by (auto simp: decodeABIAddressArrayBytesV04_def bindO_Ok word_le_nat_alt linorder_not_less split: if_splits
      dest!: abi_addresses_Ok)

lemma modules_page_Ok:
  "decodeModulesPageV04 v = Ok (ms, next) \<Longrightarrow> length ms \<le> 4096 \<and> list_all validAddress ms \<and> validAddress next"
  by (auto simp: decodeModulesPageV04_def bindO_Ok split: sum.splits if_splits
      dest!: array_bytes_Ok addressFromWordBytes_Inr)

lemma add_modules_Inr:
  "add_modules ms seen modules = Inr (seen', modules') \<Longrightarrow> seen = set modules \<Longrightarrow> distinct modules \<Longrightarrow>
    seen' = set modules' \<and> distinct modules' \<and> modules' = modules @ map normalizeAddress ms"
proof (induction ms arbitrary: seen modules)
  case (Cons m ms)
  from Cons.prems(1) have n: "normalizeAddress m \<notin> seen"
    and r: "add_modules ms (insert (normalizeAddress m) seen) (modules @ [normalizeAddress m]) = Inr (seen', modules')"
    by (simp_all add: Let_def split: if_splits)
  have eq: "(modules @ [normalizeAddress m]) @ map normalizeAddress ms = modules @ map normalizeAddress (m # ms)" by simp
  have "seen' = set modules' \<and> distinct modules' \<and> modules' = (modules @ [normalizeAddress m]) @ map normalizeAddress ms"
    by (rule Cons.IH [OF r]) (use n Cons.prems(2,3) in simp_all)
  then show ?case unfolding eq .
qed simp

text \<open>The lengths of the module list: at most 4096 for each page left.\<close>

lemma liftO_Ok: "liftO q s = Some (Ok x, t) \<longleftrightarrow> q = Ok x \<and> t = s"
  by auto

lemma module_pages_Suc:
  assumes "module_pages K http url safe tag (Suc pages) start seen modules s = Some (Ok result, t)"
  obtains v ms "next" seen' modules' u where "decodeModulesPageV04 v = Ok (ms, next)"
    "add_modules ms seen modules = Inr (seen', modules')"
    "result = modules' \<or> module_pages K http url safe tag pages next seen' modules' u = Some (Ok result, t)"
proof -
  from assms obtain v p q u where p: "decodeModulesPageV04 v = Ok p" and q: "add_modules (fst p) seen modules = Inr q"
    and r: "(if normalizeAddress (snd p) = normalizeAddress safeSentinelModulesV04 then okR (snd q)
     else if \<not> validAddress (snd p) \<or> normalizeAddress (snd p) = normalizeAddress start
     then failR (ErrMsg ''invalid Safe module pagination cursor'')
     else module_pages K http url safe tag pages (snd p) (fst q) (snd q)) u = Some (Ok result, t)"
    unfolding module_pages.simps bindR_Ok liftO_Ok case_prod_beta fromE_Ok by blast
  from r have "result = snd q \<or> module_pages K http url safe tag pages (snd p) (fst q) (snd q) u = Some (Ok result, t)"
    by (auto split: if_splits)
  with that [of v "fst p" "snd p" "fst q" "snd q" u] p q show thesis by simp
qed

lemma module_pages_Ok:
  assumes "module_pages K http url safe tag pages start seen modules s = Some (Ok result, t)"
    and "seen = set modules" and "distinct modules" and "list_all validAddress modules"
  shows "distinct result \<and> list_all validAddress result \<and> length result \<le> length modules + 4096 * pages"
  using assms
proof (induction pages arbitrary: start seen modules s)
  case (Suc pages)
  from Suc.prems(1) obtain v ms "next" seen' modules' u where
    p: "decodeModulesPageV04 v = Ok (ms, next)" and a: "add_modules ms seen modules = Inr (seen', modules')"
    and r: "result = modules' \<or> module_pages K http url safe tag pages next seen' modules' u = Some (Ok result, t)"
    by (rule module_pages_Suc)
  note a' = add_modules_Inr [OF a Suc.prems(2,3)]
  have v: "list_all validAddress modules'" "length modules' \<le> length modules + 4096"
    using modules_page_Ok [OF p] a' Suc.prems(4) by (auto simp: list_all_iff normalizeAddress_valid)
  from r show ?case
  proof
    assume "module_pages K http url safe tag pages next seen' modules' u = Some (Ok result, t)"
    from Suc.IH [OF this] a' v(1) have "distinct result \<and> list_all validAddress result \<and>
      length result \<le> length modules' + 4096 * pages" by blast
    with v(2) show ?thesis by simp
  next
    assume "result = modules'"
    with a' v show ?thesis by (metis trans_le_add1 mult_Suc_right add.assoc le_add1 order_trans nat_add_left_cancel_le)
  qed
qed simp

subsection \<open>The collected trace\<close>

text \<open>The frames of a tree in the order of a depth-first walk, each with its depth.\<close>

fun preorder :: "callTracerFrameV04 \<Rightarrow> nat \<Rightarrow> (callTracerFields \<times> nat) list" where
  "preorder (Frame f calls) d = (f, d) # concat (map (\<lambda>c. preorder c (Suc d)) calls)"

fun frame_height :: "callTracerFrameV04 \<Rightarrow> nat" where
  "frame_height (Frame f calls) = Suc (fold max (map frame_height calls) 0)"

lemma append_preorder:
  "appendSafeTraceFramesV04 out frame w = Inr r \<Longrightarrow> w = of_nat d \<Longrightarrow>
     \<exists>fs. r = out @ fs \<and> list_all2 (\<lambda>(f, n) g. trace_frame f (of_nat n) = Inr g) (preorder frame d) fs"
  and append_children_preorder:
  "append_children out frames w = Inr r \<Longrightarrow> w = of_nat d \<Longrightarrow>
     \<exists>fs. r = out @ fs \<and> list_all2 (\<lambda>(f, n) g. trace_frame f (of_nat n) = Inr g) (concat (map (\<lambda>c. preorder c d) frames)) fs"
proof (induction out frame w and out frames w arbitrary: r d and r d
    rule: appendSafeTraceFramesV04_append_children.induct)
  case (1 out f calls depth)
  then obtain g where g: "trace_frame f depth = Inr g" "append_children (out @ [g]) calls (depth + 1) = Inr r"
    by (auto split: sum.splits)
  from "1.IH" [OF g, of "Suc d"] "1.prems"(2) obtain fs where "r = (out @ [g]) @ fs"
    "list_all2 (\<lambda>(f, n) g. trace_frame f (of_nat n) = Inr g) (concat (map (\<lambda>c. preorder c (Suc d)) calls)) fs"
    by (auto simp: add.commute)
  with g(1) "1.prems"(2) show ?case by (intro exI [of _ "g # fs"]) simp
next
  case (2 out depth)
  then show ?case by simp
next
  case (3 out child children depth)
  then obtain out' where o: "appendSafeTraceFramesV04 out child depth = Inr out'" "append_children out' children depth = Inr r"
    by (auto split: sum.splits)
  from "3.IH"(1) [OF o(1) "3.prems"(2)] obtain fs where f: "out' = out @ fs"
    "list_all2 (\<lambda>(f, n) g. trace_frame f (of_nat n) = Inr g) (preorder child d) fs" by blast
  from "3.IH"(2) [OF o(1,2) "3.prems"(2)] obtain gs where "r = out' @ gs"
    "list_all2 (\<lambda>(f, n) g. trace_frame f (of_nat n) = Inr g) (concat (map (\<lambda>c. preorder c d) children)) gs" by blast
  with f show ?case by (intro exI [of _ "fs @ gs"]) (simp add: list_all2_appendI)
qed

lemma preorder_height: "(f, n) \<in> set (preorder frame d) \<Longrightarrow> d \<le> n \<and> n < d + frame_height frame"
proof (induction frame arbitrary: d)
  case (Frame g calls)
  show ?case
  proof (cases "(f, n) = (g, d)")
    case False
    then obtain c where c: "c \<in> set calls" "(f, n) \<in> set (preorder c (Suc d))" using Frame.prems by auto
    from Frame.IH [OF c] fold_max_le [OF c(1), of frame_height 0] show ?thesis by auto
  qed simp
qed

text \<open>Depths never skip a level on the walk.\<close>

fun steps_ok :: "nat \<Rightarrow> (callTracerFields \<times> nat) list \<Rightarrow> bool" where
  "steps_ok p [] = True"
| "steps_ok p ((f, n) # xs) \<longleftrightarrow> n \<le> Suc p \<and> steps_ok n xs"

lemma steps_ok_append: "steps_ok p xs \<Longrightarrow> (\<And>q. d \<le> q \<Longrightarrow> steps_ok q ys) \<Longrightarrow> d \<le> p \<Longrightarrow> \<forall>(f, n) \<in> set xs. d \<le> n \<Longrightarrow>
    steps_ok p (xs @ ys)"
  by (induction xs arbitrary: p) auto

lemma steps_ok_preorder: "d \<le> Suc p \<Longrightarrow> steps_ok p (preorder frame d)"
proof (induction frame arbitrary: d p)
  case (Frame g calls)
  have "steps_ok q (concat (map (\<lambda>c. preorder c (Suc d)) cs))" if "set cs \<subseteq> set calls" "d \<le> q" for cs q
    using that
  proof (induction cs arbitrary: q)
    case (Cons c cs)
    have h: "\<forall>(f, n) \<in> set (preorder c (Suc d)). d \<le> n" by (auto dest: preorder_height)
    have "steps_ok q (preorder c (Suc d))" using Frame.IH [of c "Suc d" q] Cons.prems by simp
    with Cons h show ?case by (auto intro: steps_ok_append [of _ _ d])
  qed simp
  with Frame.prems show ?case by simp
qed


subsection \<open>Runs of the engine\<close>

lemma keeps_engine_queries [keeps_intros]:
  assumes "transport_keeps P http url"
  shows "keepsIO P (ethCallAtV04 http url to data tag)" "keepsIO P (storageAtV04 http url address slot tag)"
    "keepsIO P (codeAtV04 http url address tag)" "keepsIO P (balanceAtV04 http url address tag)"
    "keepsIO P (sendNativeMaterializationV04 http url tx)"
  unfolding ethCallAtV04_def storageAtV04_def codeAtV04_def balanceAtV04_def sendNativeMaterializationV04_def
  by (intro keeps_intros assms)+

lemma keeps_module_pages [keeps_intros]:
  "transport_keeps P http url \<Longrightarrow> keeps P (module_pages K http url safe tag pages start seen modules)"
proof (induction pages arbitrary: start seen modules)
  case (Suc pages)
  then show ?case unfolding module_pages.simps by (intro keeps_intros)
qed (simp add: keeps_basic)

lemma keeps_orFailR [keeps_intros]: "keeps P m \<Longrightarrow> keeps P (orFailR e m)"
  unfolding orFailR_def by (rule keeps_mapErrR)

lemma keeps_snapshot [keeps_intros]:
  assumes "transport_keeps P http url"
  shows "keeps P (snapshotSafeStateV04 K http url safe tag)"
  unfolding snapshotSafeStateV04_def safeModulesAtV04_def Let_def by (intro keeps_intros assms)

lemma keeps_trace [keeps_intros]:
  "transport_keeps P http url \<Longrightarrow> keeps P (traceSafeSimulationV04 K http url tx accessor)"
  unfolding traceSafeSimulationV04_def Let_def by (intro keeps_intros)

lemma keeps_safe_session [keeps_intros]:
  assumes "local_os P os"
  shows "keeps P (safe_session K os e input tx (local_url port))"
proof -
  note h = local_osD(1) [OF assms]
  have "P s \<Longrightarrow> P (snd (rpc_call (os_http os BackgroundCtx d) (local_url port) m ps (out :: jvalue option \<Rightarrow> unit option) s))"
    for d m ps out s
    using keepsIOD [OF keeps_rpc_call [OF h]] by (metis prod.collapse)
  with h assms show ?thesis unfolding safe_session_def materialize_def Let_def by (intro keeps_intros)
qed

lemma returns_module_pages [returns_intros]: "returns (module_pages K http url safe tag pages start seen modules)"
proof (induction pages arbitrary: start seen modules)
  case (Suc pages)
  then show ?case unfolding module_pages.simps by (intro returns_intros)
qed (simp add: returns_basic)

lemma returns_snapshot [returns_intros]: "returns (snapshotSafeStateV04 K http url safe tag)"
  unfolding snapshotSafeStateV04_def safeModulesAtV04_def orFailR_def Let_def by (intro returns_intros)

lemma returns_trace [returns_intros]: "returns (traceSafeSimulationV04 K http url tx accessor)"
  unfolding traceSafeSimulationV04_def Let_def by (intro returns_intros)

subsection \<open>What a run reports\<close>

lemma snapshot_Ok:
  assumes "snapshotSafeStateV04 K http url safe tag s = Some (Ok st, t)"
  shows "validAuthoritySnapshot (ss_Authority st) \<and> (\<exists>j. ss_StateSHA256 st = json_digest j)"
  using assms unfolding snapshotSafeStateV04_def Let_def
  by (auto simp: run_Ok)

lemma validSHA256Text_json_digest [simp]: "validSHA256Text (json_digest j)"
  by (simp add: json_digest_def)

lemma native_movements_valid: "validSafeTransaction tx \<Longrightarrow> list_all validAssetMovement (native_movements tx)"
proof -
  assume v: "validSafeTransaction tx"
  have "TrimSpace ''native'' \<noteq> []" "TrimSpace [] = []"
    by (simp_all add: TrimSpace_all_visible visible_def)
  with v show ?thesis
    by (simp add: native_movements_def validAssetMovement_def validSafeTransaction_def normalizeAddress_valid nonneg_decimal_def)
qed

lemma ExecuteExactSafe_Ok:
  assumes "ExecuteExactSafe K os e input tx s = Some (Ok result, t)"
  shows "validAddress (ae_Accessor e) \<and> validSafeTransaction tx \<and> tx_Operation tx = 0 \<and> tx_Data tx = [] \<and>
    tx_ChainID tx = ci_ChainID input \<and> EqualFold (normalizeAddress (tx_To tx)) (normalizeAddress (ci_Target input)) \<and>
    validAuthoritySnapshot (si_PostAuthority result) \<and> validSHA256Text (si_PostStateSHA256 result) \<and>
    validSHA256Text (si_EffectSetSHA256 result) \<and> si_AssetMovements result = native_movements tx \<and>
    VerifyAccessorSemantics K (ae_Accessor e) tx (si_Trace result)"
proof -
  from assms have pre: "validAddress (ae_Accessor e)" "validSafeTransaction tx" "tx_Operation tx = 0" "tx_Data tx = []"
    "tx_ChainID tx = ci_ChainID input" "EqualFold (normalizeAddress (tx_To tx)) (normalizeAddress (ci_Target input))"
    unfolding ExecuteExactSafe_def by (auto simp: run_Ok)
  from assms obtain url u v where r: "safe_session K os e input tx url u = Some (Ok result, v)"
    unfolding ExecuteExactSafe_def by (auto simp: run_Ok)
  from r obtain http pre' target trace w x where v: "VerifyAccessorSemantics K (ae_Accessor e) tx trace"
    and m: "materialize K os http url tx pre' target trace w = Some (Ok result, x)"
    unfolding safe_session_def Let_def by (auto simp: run_Ok)
  from m obtain post y z where post: "snapshotSafeStateV04 K http url (tx_Safe tx) ''latest'' y = Some (Ok post, z)"
    "si_PostAuthority result = ss_Authority post" "si_PostStateSHA256 result = ss_StateSHA256 post"
    and eff: "si_AssetMovements result = native_movements tx" "si_Trace result = trace" "validSHA256Text (si_EffectSetSHA256 result)"
    unfolding materialize_def Let_def by (auto simp: run_Ok safeMaterializedEffectDigestV04_def)
  from snapshot_Ok [OF post(1)] obtain j where "validAuthoritySnapshot (ss_Authority post)" "ss_StateSHA256 post = json_digest j"
    by blast
  with pre v post(2,3) eff show ?thesis by simp
qed

text \<open>A frame of the collected trace, and the verifier's loop over the frames of a walk.\<close>

lemma trace_frame_Inr:
  "trace_frame f d = Inr g \<Longrightarrow> tf_Depth g = d \<and> validAddress (tf_From g) \<and> validAddress (tf_To g) \<and>
    tf_From g = normalizeAddress (ct_From f) \<and> validSHA256Text (tf_InputSHA256 g) \<and>
    tf_Type g = ToLower (TrimSpace (ct_Type f)) \<and> (tf_Success g \<longleftrightarrow> TrimSpace (ct_Error f) = [])"
  by (auto simp: trace_frame_def bindE_def normalizeAddress_valid split: if_splits sum.splits)

definition kind_ok :: "callTracerFields \<times> nat \<Rightarrow> bool" where
  "kind_ok x \<longleftrightarrow> ToLower (TrimSpace (ct_Type (fst x))) \<in> set trace_kinds"

lemma of_nat_step: "n \<le> Suc p \<Longrightarrow> Suc p < 2 ^ 64 \<Longrightarrow> \<not> (of_nat n :: u64) > of_nat p + 1"
proof -
  assume n: "n \<le> Suc p" "Suc p < 2 ^ 64"
  have e: "(of_nat p + 1 :: u64) = of_nat (Suc p)" by simp
  from n have "unat (of_nat n :: u64) \<le> unat (of_nat (Suc p) :: u64)"
    unfolding unat_of_nat by (simp only: len_num1 len_bit0) simp
  then show ?thesis unfolding e not_less word_le_nat_alt .
qed

lemma traceFramesOk_walk:
  assumes "list_all2 (\<lambda>(f, n) g. trace_frame f (of_nat n) = Inr g) xs fs" and "steps_ok p xs"
    and "\<And>f n. (f, n) \<in> set xs \<Longrightarrow> Suc n < 2 ^ 64" and "Suc p < 2 ^ 64"
    and "\<And>q. prev = Some q \<Longrightarrow> tf_Depth q = of_nat p"
  shows "traceFramesOk prev fs \<longleftrightarrow> list_all kind_ok xs"
  using assms
proof (induction xs arbitrary: fs p prev)
  case (Cons x xs)
  obtain f n where x: "x = (f, n)" by (cases x)
  from Cons.prems(1) x obtain g gs where fs: "fs = g # gs" and g: "trace_frame f (of_nat n) = Inr g"
    and gs: "list_all2 (\<lambda>(f, n) g. trace_frame f (of_nat n) = Inr g) xs gs"
    by (auto simp: list_all2_Cons1)
  note t = trace_frame_Inr [OF g]
  have n: "n \<le> Suc p" "steps_ok n xs" "Suc n < 2 ^ 64" using Cons.prems(2,3) x by auto
  have "traceFramesOk (Some g) gs \<longleftrightarrow> list_all kind_ok xs"
    by (rule Cons.IH [OF gs n(2)]) (use Cons.prems(3) n(3) t in auto)
  moreover have "(case prev of None \<Rightarrow> False | Some p \<Rightarrow> tf_Depth p + 1 < tf_Depth g) = False"
    using t of_nat_step [OF n(1) Cons.prems(4)] Cons.prems(5) by (cases prev) simp_all
  moreover have "kind_ok x \<longleftrightarrow> ToLower (TrimSpace (tf_Type g)) \<in> set trace_kinds" using t by (simp add: kind_ok_def x)
  moreover have "validAddress (tf_From g)" "validAddress (tf_To g)" "validSHA256Text (tf_InputSHA256 g)" using t by blast+
  ultimately show ?case unfolding fs traceFramesOk.simps Let_def by simp
qed simp

subsection \<open>Properties\<close>

text \<open>The module list of a snapshot never grows without bound and never repeats an address, whatever pages a node
returns: sixteen pages of at most 4096 valid addresses.\<close>

theorem safe_modules_bounded:
  assumes "safeModulesAtV04 K http url safe tag s = Some (Ok modules, t)"
  shows "distinct modules \<and> list_all validAddress modules \<and> length modules \<le> 16 * 4096"
  using module_pages_Ok [OF assms [unfolded safeModulesAtV04_def]] by simp

theorem safe_modules_bounded_witness:
  "safeModulesAtV04 Sum256 scripted_node ''node'' sample_target ''latest''
     ([JStr (hex_text ((abi_word 64 @ abi_word 1) @ abi_tail [zero20]))], 0) = Some (Ok [zero_address], [], 0) \<and>
   list_all validAddress [zero_address]"
  using safe_modules_bounded [OF sample_modules [of Sum256 "''node''" sample_target "''latest''" "[]" 0]] sample_modules by blast

text \<open>The trace the engine collects from a node's call tree, sealed with its digest, passes the trace verifier exactly
when the outermost call comes from the Safe and did not fail and every call is of a known kind: order, depths, addresses,
input digests and the trace digest are right for every tree, however deep.\<close>

theorem collected_trace_verifies:
  assumes "appendSafeTraceFramesV04 [] (Frame f calls) 0 = Inr frames" and "frame_height (Frame f calls) < 2 ^ 64"
    and "validAddress safe" and "trace = \<lparr>te_RootSafe = normalizeAddress safe, te_Frames = frames, te_Truncated = False, te_TraceSHA256 = []\<rparr>"
  shows "VerifySafeTrace (trace\<lparr>te_TraceSHA256 := safeTraceDigest trace\<rparr>) \<longleftrightarrow>
    normalizeAddress (ct_From f) = normalizeAddress safe \<and> TrimSpace (ct_Error f) = [] \<and>
    list_all kind_ok (preorder (Frame f calls) 0)"
proof -
  let ?xs = "preorder (Frame f calls) 0"
  from append_preorder [OF assms(1), of 0]
  have l: "list_all2 (\<lambda>(f, n) g. trace_frame f (of_nat n) = Inr g) ?xs frames" by simp
  then obtain g gs where fs: "frames = g # gs" and g: "trace_frame f 0 = Inr g"
    by (auto simp: list_all2_Cons1)
  note t = trace_frame_Inr [OF g]
  have h: "Suc n < 2 ^ 64" if "(f', n) \<in> set ?xs" for f' n
    using preorder_height [OF that] assms(2) by linarith
  have ok: "traceFramesOk None frames \<longleftrightarrow> list_all kind_ok ?xs"
    by (rule traceFramesOk_walk [OF l steps_ok_preorder [of 0 0] h]) simp_all
  have d: "safeTraceDigest (trace\<lparr>te_TraceSHA256 := safeTraceDigest trace\<rparr>) = safeTraceDigest trace"
    by (simp add: safeTraceDigest_def trace_payload_def)
  have n: "normalizeAddress (normalizeAddress a) = normalizeAddress a" if "validAddress a" for a
    using that by (simp add: normalizeAddress_valid)
  have f: "validAddress (ct_From f)" using g by (simp add: trace_frame_def split: if_splits)
  have "validSHA256Text (safeTraceDigest trace)" "TrimPrefix (TrimSpace (safeTraceDigest trace)) ''0x'' = safeTraceDigest trace"
    by (simp_all add: safeTraceDigest_def json_digest_def)
  then show ?thesis
    unfolding VerifySafeTrace_def d
    using assms(3) t n [OF assms(3)] n [OF f] ok fs assms(4) by (auto simp: normalizeAddress_valid)
qed

theorem collected_trace_verifies_witness:
  "VerifySafeTrace (native_trace Sum256) \<and> length (te_Frames (native_trace Sum256)) = 2"
proof -
  let ?f = "traced ''DELEGATECALL'' sample_target sample_target ''0x0'' (hex_text (accessor_calldata Sum256 native_tx))"
  let ?g = "traced ''CALL'' sample_target sample_target ''0x5'' ''0x''"
  have k: "kind_ok (?f, 0)" "kind_ok (?g, 1)" unfolding kind_ok_def fst_conv traced_def callTracerFields.select_convs native_kinds
    by (simp_all add: trace_kinds_def)
  have "VerifySafeTrace (native_trace Sum256)"
    unfolding native_trace_def Let_def
    by (subst collected_trace_verifies [OF native_collected [unfolded native_subtree_def] _ sample_target_valid])
       (use k in \<open>simp_all add: traced_def\<close>)
  then show ?thesis by (simp add: native_trace_def native_frames_def Let_def)
qed

text \<open>C25: What the engine reports passes every check of the pinned backend: given the four reports of one run, the backend
accepts them exactly when the block hash is the approved one and the engine's binary is the approved one, and the evidence
it builds is then valid for every block but block zero. Snapshots, movements, digests and the accessor's trace always pass.\<close>

theorem engine_reports_accepted:
  assumes "PinnedBlock os e (ci_ChainID i) (ci_BlockNumber i) s1 = Some (Ok pinned, t1)"
    and "RunnerSHA256 os e s2 = Some (Ok runner, t2)"
    and "SnapshotSafe K os e (ci_ChainID i) (ci_BlockNumber i) (tx_Safe tx) s3 = Some (Ok pre, t3)"
    and "ExecuteExactSafe K os e i tx s4 = Some (Ok result, t4)"
    and "engine = \<lparr>se_PinnedBlock = (\<lambda>_ _ _. Inr pinned), se_RunnerSHA256 = (\<lambda>_. Inr runner),
      se_SnapshotSafe = (\<lambda>_ _ _ _. Inr pre), se_ExecuteExactSafe = (\<lambda>_ _ _. Inr result)\<rparr>"
  shows "(\<exists>ev. ExecuteSafe K \<lparr>pb_Engine = Some engine, pb_Accessor = ae_Accessor e\<rparr> background i tx = Inr ev \<and>
            (validateSafeExecutionEvidence ev = None \<longleftrightarrow> ci_BlockNumber i \<noteq> 0)) \<longleftrightarrow>
    equalHex32 pinned (ci_BlockHash i) \<and> EqualFold (strip0x runner) (strip0x (ci_ApprovedRunnerSHA256 i))"
proof -
  note x = ExecuteExactSafe_Ok [OF assms(4)]
  have p: "validHex32 (TrimSpace pinned)"
    using assms(1) unfolding PinnedBlock_def by (auto simp: run_Ok Let_def dest!: rpc_blockHash_valid simp: validHex32_def)
  from assms(2) obtain c where r: "runner = sha256Hex c"
    unfolding RunnerSHA256_def fileSHA256_def by (auto simp: run_Ok bindIO_Inr)
  from assms(3) obtain http url st u where st: "snapshotSafeStateV04 K http url (tx_Safe tx) (''0x'' @ nat_text 16 (unat (ci_BlockNumber i))) u = Some (Ok st, t3)"
    and pre: "pre = (ss_Authority st, ss_StateSHA256 st)"
    unfolding SnapshotSafe_def by (auto simp: run_Ok Let_def)
  from snapshot_Ok [OF st] pre obtain j where pre': "validAuthoritySnapshot (fst pre)" "snd pre = json_digest j" by auto
  have strip: "validSHA256Text (strip0x v)" if "validSHA256Text v" for v
    using that hex_decode_TrimSpace [of "strip0x v"] TrimPrefix_0x_hex [of "strip0x v"]
    unfolding validSHA256Text_def strip0x_def Let_def by (simp split: if_splits)
  let ?b = "\<lparr>pb_Engine = Some engine, pb_Accessor = ae_Accessor e\<rparr>"
  let ?ok = "equalHex32 pinned (ci_BlockHash i) \<and> EqualFold (strip0x runner) (strip0x (ci_ApprovedRunnerSHA256 i))"
  let ?ev = "\<lparr>xe_ChainID = ci_ChainID i, xe_BlockNumber = ci_BlockNumber i, xe_BlockHash = TrimSpace pinned,
    xe_RunnerSHA256 = strip0x runner, xe_PreStateSHA256 = strip0x (snd pre),
    xe_PostStateSHA256 = strip0x (si_PostStateSHA256 result), xe_EffectSetSHA256 = strip0x (si_EffectSetSHA256 result),
    xe_Before = fst pre, xe_After = si_PostAuthority result, xe_AssetMovements = si_AssetMovements result,
    xe_Trace = si_Trace result\<rparr>"
  have m: "list_all validAssetMovement (si_AssetMovements result)" using x native_movements_valid by simp
  have w: "VerifySafeTrace (si_Trace result)" using x by (simp add: VerifyAccessorSemantics_def split: if_splits)
  have chain: "ci_ChainID i \<noteq> 0" using x by (auto simp: validSafeTransaction_def)
  have "validateSafeExecutionEvidence ?ev = None \<longleftrightarrow> ci_BlockNumber i \<noteq> 0"
    using p r pre' x m w chain strip by (simp add: validateSafeExecutionEvidence_def)
  moreover have "ExecuteSafe K ?b background i tx =
      (if \<not> equalHex32 pinned (ci_BlockHash i) then Inl (ErrMsg ''pinned block identity mismatch'')
       else if \<not> EqualFold (strip0x runner) (strip0x (ci_ApprovedRunnerSHA256 i)) then Inl (ErrMsg ''runner identity mismatch'')
       else Inr ?ev)"
    using x m pre' r by (simp add: ExecuteSafe_def assms(5) wrapE_def bindE_def case_prod_beta)
  ultimately show ?thesis by simp
qed

theorem engine_reports_accepted_witness:
  "\<exists>engine ev. ExecuteSafe Sum256 \<lparr>pb_Engine = Some engine, pb_Accessor = sample_target\<rparr> background native_input native_tx = Inr ev \<and>
     validateSafeExecutionEvidence ev = None"
proof -
  obtain result where x: "ExecuteExactSafe Sum256 scripted_os sample_safe_engine native_input native_tx (run_script Sum256, 0) =
      Some (Ok result, [], 0)"
    using native_run [of Sum256 0] by (elim exE conjE)
  obtain pre where p: "SnapshotSafe Sum256 scripted_os sample_safe_engine (ci_ChainID native_input) (ci_BlockNumber native_input)
      (tx_Safe native_tx) (head_script @ snapshot_script @ [], 0) = Some (Ok pre, [], 0)"
    using native_snapshot [of Sum256 0] by (elim exE)
  from engine_reports_accepted [OF native_pinned [of "[]" 0] native_runner [of "([], 0)"] p x refl] native_identities
  show ?thesis unfolding native_accessor by auto
qed

text \<open>C24: The engine always comes back and leaves nothing behind: where an armed deadline bounds the ticks of a polling
loop, a run ends with a value, an error or a panic, and the number of live child processes is then what it was before.\<close>

theorem safe_engine_returns_clean:
  fixes live :: "'s \<Rightarrow> nat"
  assumes "deadlines left os"
    and "\<And>n. local_os (\<lambda>s. live s = n) os"
    and "\<And>path args env s r t. os_Start os path args env s = (r, t) \<Longrightarrow>
          live t = (case r of Inl _ \<Rightarrow> live s | Inr _ \<Rightarrow> Suc (live s))"
    and "\<And>s. live (os_KillWait os s) = live s - 1"
  shows "\<exists>r t. ExecuteExactSafe K os e input tx s = Some (r, t) \<and> live t = live s"
proof -
  note polls = returns_polling [OF assms(1)]
  have mat: "returns (materialize K os (os_http os c d) (local_url port) tx pre b trace)" for c d port pre b trace
    unfolding materialize_def Let_def by (intro returns_intros polls)
  have session: "returns (safe_session K os e input tx (local_url port))" for port
    unfolding safe_session_def orFailR_def Let_def by (intro returns_intros polls mat)
  have "returns (ExecuteExactSafe K os e input tx)"
    unfolding ExecuteExactSafe_def poll_ctx_def by (intro returns_intros session)
  from returnsD [OF this, of s] obtain r t where run: "ExecuteExactSafe K os e input tx s = Some (r, t)" by (elim exE)
  let ?P = "\<lambda>s'. live s' = live s"
  have start: "keeps ?P (bindR (mapErrR f (liftIO (os_Start os path args env)))
      (\<lambda>_. deferR (os_KillWait os) (safe_session K os e input tx (local_url port))))" for f path args env port
    by (intro keeps_process assms(3,4) keeps_safe_session assms(2))
  have "keeps ?P (ExecuteExactSafe K os e input tx)"
    unfolding ExecuteExactSafe_def poll_ctx_def reserveLocalPort_def
    by (intro keeps_intros(1-7) keeps_case_option keeps_if keepsIO_bindIO keepsIO_basic start local_osD(4) [OF assms(2)])
  from keepsD [OF this _ run] run show ?thesis by simp
qed

theorem safe_engine_returns_clean_witness:
  "\<exists>r t. ExecuteExactSafe Sum256 scripted_os sample_safe_engine native_input native_tx (run_script Sum256, 3) = Some (r, t) \<and>
     snd t = snd (run_script Sum256, 3 :: nat)"
proof (rule safe_engine_returns_clean)
  have "transport_keeps (\<lambda>s. length (fst s) \<le> n) scripted_node url" for n url
    by (auto simp: transport_keeps_def keepsIO_def scripted_node_def split: list.splits prod.splits)
  then show "deadlines (\<lambda>s. Some (length (fst s))) scripted_os"
    unfolding deadlines_def by (auto split: if_splits)
next
  fix n
  show "local_os (\<lambda>s. snd s = n) scripted_os"
    by (auto simp: local_os_def transport_keeps_def keepsIO_def scripted_node_def split: list.splits prod.splits)
qed (auto split: if_splits)

end
