(* ===== verification/Base58.thy ===== *)
theory Base58
  imports Sha256
begin

text \<open>
  Solana addresses: the base58 text of a 32-byte key. \<open>guardV3Base58Encode\<close> is the encoder of
  the transaction decoder (\<^verbatim>\<open>handlers/transaction_guard_v3_models.go\<close>); \<open>decodeBase58Exact\<close>,
  \<open>decodeSolanaPublicKey\<close> and \<open>isValidSolanaAddress\<close> are the decoder the wallet and the
  request handlers use (\<^verbatim>\<open>handlers/wallet_ownership.go\<close>, \<^verbatim>\<open>handlers/base58_compat.go\<close>). The
  decoder runs over runes; a byte above 127 belongs to no rune of the alphabet, so it runs over
  bytes here. The lemmas show that the decoder inverts the encoder, that it accepts a text only
  if it is the encoder's one up to leading ones, and that the text of a 32-byte key is 32 to 44
  characters long. The last section is \<^verbatim>\<open>encoding/base64\<close> for the four alphabets the code
  decodes.
\<close>

definition guardV3Base58Alphabet :: string where
  "guardV3Base58Alphabet = ''123456789ABCDEFGHJKLMNPQRSTUVWXYZabcdefghijkmnopqrstuvwxyz''"

definition base58_char :: "nat \<Rightarrow> char" where
  "base58_char n = guardV3Base58Alphabet ! n"

text \<open>\<^verbatim>\<open>strings.IndexRune\<close> in the alphabet.\<close>

definition base58_index :: "char \<Rightarrow> nat option" where
  "base58_index c = map_of (zip guardV3Base58Alphabet [0 ..< 58]) c"

subsection \<open>Encoding\<close>

text \<open>The loop over \<^verbatim>\<open>value.DivMod(value, base, mod)\<close>: least significant digit first.\<close>

function base58_digits :: "nat \<Rightarrow> string" where
  "base58_digits n = (if n = 0 then [] else base58_char (n mod 58) # base58_digits (n div 58))"
  by pat_completeness auto
termination
  by (relation "measure id") auto

declare base58_digits.simps [simp del]

definition zero_byte :: char where "zero_byte = char_of (0 :: nat)"

definition leading :: "'a \<Rightarrow> 'a list \<Rightarrow> nat" where
  "leading c s = length (takeWhile (\<lambda>d. d = c) s)"

definition guardV3Base58Encode :: "string \<Rightarrow> string" where
  "guardV3Base58Encode k =
     (let zeros = leading zero_byte k; encoded = base58_digits (nat (bytes_be k))
      in rev (encoded @ replicate zeros (base58_char 0)))"

subsection \<open>Decoding\<close>

fun base58_value :: "string \<Rightarrow> nat \<Rightarrow> nat option" where
  "base58_value [] acc = Some acc"
| "base58_value (c # s) acc =
     (case base58_index c of None \<Rightarrow> None | Some d \<Rightarrow> base58_value s (acc * 58 + d))"

text \<open>\<^verbatim>\<open>big.Int.Bytes\<close>: big endian, without leading zero bytes.\<close>

function big_bytes :: "nat \<Rightarrow> string" where
  "big_bytes n = (if n = 0 then [] else big_bytes (n div 256) @ [char_of (n mod 256)])"
  by pat_completeness auto
termination
  by (relation "measure id") auto

declare big_bytes.simps [simp del]

definition decodeBase58Exact :: "string \<Rightarrow> nat \<Rightarrow> go_error + string" where
  "decodeBase58Exact s expected =
     (if s = [] then Inl (ErrMsg ''empty base58 value'') else
      case base58_value s 0 of
        None \<Rightarrow> Inl (ErrMsg ''invalid base58 character'')
      | Some v \<Rightarrow>
          (let decoded = big_bytes v; leadingZeros = leading (CHR ''1'') s in
           if leadingZeros + length decoded > expected
           then Inl (ErrMsg ''decoded value is too large'')
           else Inr (replicate (expected - length decoded) zero_byte @ decoded)))"

definition decodeSolanaPublicKey :: "string \<Rightarrow> go_error + string" where
  "decodeSolanaPublicKey s =
     (let v = TrimSpace s in
      if length v < 32 \<or> length v > 44 then Inl (ErrMsg ''invalid public key length'')
      else decodeBase58Exact v 32)"

definition isValidSolanaAddress :: "string \<Rightarrow> bool" where
  "isValidSolanaAddress s = (case decodeSolanaPublicKey s of Inl _ \<Rightarrow> False | Inr _ \<Rightarrow> True)"

subsection \<open>Digits\<close>

lemma length_alphabet [simp]: "length guardV3Base58Alphabet = 58"
  by (simp add: guardV3Base58Alphabet_def)

lemma distinct_alphabet: "distinct guardV3Base58Alphabet"
  by (simp add: guardV3Base58Alphabet_def)

lemma alphabet_visible: "list_all visible guardV3Base58Alphabet"
  by (simp add: guardV3Base58Alphabet_def visible_def)

lemma base58_char_0 [simp]: "base58_char 0 = CHR ''1''"
  by (simp add: base58_char_def guardV3Base58Alphabet_def)

lemma base58_index_char [simp]: "n < 58 \<Longrightarrow> base58_index (base58_char n) = Some n"
  unfolding base58_index_def base58_char_def
  by (subst map_of_zip_nth) (simp_all add: distinct_alphabet)

lemma base58_index_Some: "base58_index c = Some n \<Longrightarrow> n < 58 \<and> base58_char n = c"
  unfolding base58_index_def base58_char_def
  by (drule map_of_SomeD) (auto simp: set_zip)

lemma base58_char_eq: "m < 58 \<Longrightarrow> n < 58 \<Longrightarrow> base58_char m = base58_char n \<longleftrightarrow> m = n"
  by (metis base58_index_char option.inject)

lemma base58_char_visible: "n < 58 \<Longrightarrow> visible (base58_char n)"
  using alphabet_visible by (simp add: base58_char_def list_all_length)

lemma base58_digits_0 [simp]: "base58_digits 0 = []"
  by (simp add: base58_digits.simps)

lemma base58_digits_eq_Nil [simp]: "base58_digits n = [] \<longleftrightarrow> n = 0"
  by (subst base58_digits.simps) simp

lemma base58_digits_step:
  "d < 58 \<Longrightarrow> 0 < v * 58 + d \<Longrightarrow> base58_digits (v * 58 + d) = base58_char d # base58_digits v"
  by (subst base58_digits.simps) simp

lemma base58_value_append:
  "base58_value (s @ t) a = (case base58_value s a of None \<Rightarrow> None | Some b \<Rightarrow> base58_value t b)"
  by (induction s arbitrary: a) (auto split: option.splits)

lemma base58_value_digits: "base58_value (rev (base58_digits n)) 0 = Some n"
proof (induction n rule: base58_digits.induct)
  case (1 n)
  then show ?case
    by (cases "n = 0") (simp_all add: base58_digits.simps [of n] base58_value_append)
qed

lemma base58_value_ones: "base58_value (replicate z (CHR ''1'') @ s) 0 = base58_value s 0"
proof (induction z)
  case (Suc z)
  have "base58_index (CHR ''1'') = Some 0"
    using base58_index_char [of 0] by simp
  with Suc show ?case by simp
qed simp

text \<open>A digit string with a nonzero leading digit is the one the encoder writes.\<close>

lemma base58_value_shift: "base58_value (replicate n (CHR ''1'')) acc = Some (acc * 58 ^ n)"
  using base58_index_char [of 0] by (induction n arbitrary: acc) (simp_all add: mult.assoc)

lemma digits_of_value:
  "base58_value t 0 = Some v \<Longrightarrow> t = [] \<or> hd t \<noteq> CHR ''1'' \<Longrightarrow> rev (base58_digits v) = t"
proof (induction t arbitrary: v rule: rev_induct)
  case (snoc c t)
  from snoc.prems(1) obtain u d where u: "base58_value t 0 = Some u" and d: "base58_index c = Some d"
    and v: "v = u * 58 + d"
    by (auto simp: base58_value_append split: option.splits)
  from snoc.prems(2) have "t = [] \<or> hd t \<noteq> CHR ''1''" by (cases t) auto
  with snoc.IH u have t: "rev (base58_digits u) = t" by simp
  from d have c: "d < 58" "base58_char d = c" by (auto dest: base58_index_Some)
  have "0 < v"
  proof (rule ccontr)
    assume "\<not> 0 < v"
    with v have "u = 0" "d = 0" by simp_all
    with t c snoc.prems(2) show False by simp
  qed
  with v c t show ?case by (simp add: base58_digits_step)
qed simp

lemma digits_leading_one: "leading (CHR ''1'') (rev (base58_digits n)) = 0"
proof (induction n rule: base58_digits.induct)
  case (1 n)
  show ?case
  proof (cases "n < 58")
    case True
    then have "n \<noteq> 0 \<Longrightarrow> base58_char n \<noteq> base58_char 0" by (simp add: base58_char_eq del: base58_char_0)
    with True show ?thesis by (simp add: base58_digits.simps [of n] leading_def)
  next
    case False
    then have "rev (base58_digits (n div 58)) \<noteq> []" by (simp add: div_greater_zero_iff)
    then obtain c s where "rev (base58_digits (n div 58)) = c # s" by (meson neq_Nil_conv)
    with 1 False show ?thesis by (simp add: base58_digits.simps [of n] leading_def split: if_splits)
  qed
qed

lemma leading_replicate [simp]: "leading c (replicate z c @ s) = z + leading c s"
  by (induction z) (simp_all add: leading_def)

lemma leading_split: "s = replicate (leading c s) c @ dropWhile (\<lambda>d. d = c) s"
proof -
  have "takeWhile (\<lambda>d. d = c) s = replicate (leading c s) c"
    unfolding leading_def by (rule replicate_length_same [symmetric]) (auto dest: set_takeWhileD)
  then show ?thesis by (metis takeWhile_dropWhile_id)
qed

subsection \<open>Bytes\<close>

lemma big_bytes_0 [simp]: "big_bytes 0 = []"
  by (simp add: big_bytes.simps)

lemma big_bytes_eq_Nil [simp]: "big_bytes n = [] \<longleftrightarrow> n = 0"
  by (subst big_bytes.simps) simp

lemma of_char_zero_byte [simp]: "of_char zero_byte = (0 :: 'a :: linordered_euclidean_semiring_bit_operations)"
  by (simp add: zero_byte_def char_of_def of_char_def)

lemma char_of_0: "char_of (0 :: int) = zero_byte"
  by (simp add: zero_byte_def char_of_def)

lemma char_of_int: "char_of (int n) = (char_of n :: char)"
  by (simp add: char_of_def bit_of_nat_iff_bit)

lemma be_bytes_0_replicate: "be_bytes k 0 = replicate k zero_byte"
  by (induction k) (simp_all add: be_bytes_Suc char_of_0 replicate_append_same)

lemma char_of_mod_256: "char_of (n mod 256) = (char_of n :: char)" for n :: nat
  by simp

lemma big_bytes_pad:
  "n < 256 ^ k \<Longrightarrow>
   length (big_bytes n) \<le> k \<and> replicate (k - length (big_bytes n)) zero_byte @ big_bytes n = be_bytes k (int n)"
proof (induction k arbitrary: n)
  case 0
  then show ?case by (simp add: big_bytes.simps [of n])
next
  case (Suc k)
  show ?case
  proof (cases "n = 0")
    case True
    then show ?thesis by (simp add: big_bytes.simps [of 0] be_bytes_0_replicate)
  next
    case False
    from Suc.prems have "n div 256 < 256 ^ k" by (simp add: div_less_iff_less_mult)
    from Suc.IH [OF this] False show ?thesis
      by (simp add: big_bytes.simps [of n] be_bytes_Suc zdiv_int char_of_int)
  qed
qed

lemma big_bytes_bound: "length (big_bytes n) \<le> k \<Longrightarrow> n < 256 ^ k"
proof (induction k arbitrary: n)
  case (Suc k)
  show ?case
  proof (cases "n = 0")
    case False
    with Suc.prems have "length (big_bytes (n div 256)) \<le> k" by (simp add: big_bytes.simps [of n])
    with Suc.IH have "n div 256 < 256 ^ k" by blast
    then show ?thesis by (simp add: div_less_iff_less_mult)
  qed simp
qed simp

lemma bytes_be_zeros: "bytes_be (replicate z zero_byte @ s) = bytes_be s"
  by (induction z) (simp_all add: bytes_be_def)

lemma leading_zero_be_bytes:
  assumes "n < 256 ^ k"
  shows "leading zero_byte (be_bytes k (int n)) = k - length (big_bytes n)"
proof -
  have "leading zero_byte (big_bytes n) = 0"
  proof (induction n rule: big_bytes.induct)
    case (1 n)
    show ?case
    proof (cases "n < 256")
      case True
      have "(of_char (char_of n :: char) :: nat) = n"
        using True by simp
      then have "n \<noteq> 0 \<Longrightarrow> char_of n \<noteq> zero_byte" by (metis of_char_zero_byte)
      with True show ?thesis by (simp add: big_bytes.simps [of n] leading_def)
    next
      case False
      then have "big_bytes (n div 256) \<noteq> []" by (simp add: big_bytes.simps [of "n div 256"] div_greater_zero_iff)
      then obtain c s where "big_bytes (n div 256) = c # s" by (meson neq_Nil_conv)
      with 1 False show ?thesis by (simp add: big_bytes.simps [of n] leading_def split: if_splits)
    qed
  qed
  then show ?thesis using big_bytes_pad [OF assms] by (metis add.right_neutral leading_replicate)
qed

subsection \<open>The decoder and the encoder\<close>

lemma encode_form:
  "guardV3Base58Encode k =
   replicate (leading zero_byte k) (CHR ''1'') @ rev (base58_digits (nat (bytes_be k)))"
  by (simp add: guardV3Base58Encode_def Let_def)

lemma be_bytes_nat: "be_bytes (length k) (int (nat (bytes_be k))) = k"
  using bytes_be_bounds [of k] by (simp add: be_bytes_bytes_be)

lemma int_nat_bytes_be [simp]: "int (nat (bytes_be k)) = bytes_be k"
  using bytes_be_bounds [of k] by simp

lemma bytes_be_nat_less: "nat (bytes_be k) < 256 ^ length k"
  using bytes_be_bounds [of k] by (simp add: nat_less_iff)

lemma leading_zero_bytes: "leading zero_byte k = length k - length (big_bytes (nat (bytes_be k)))"
  using leading_zero_be_bytes [OF bytes_be_nat_less, of k] by (simp only: be_bytes_nat)

lemma nat_bytes_be_be_bytes: "v < 256 ^ n \<Longrightarrow> nat (bytes_be (be_bytes n (int v))) = v"
proof -
  assume "v < 256 ^ n"
  then have "int v < 256 ^ n" by (metis of_nat_less_iff of_nat_numeral of_nat_power)
  then show ?thesis by (simp add: bytes_be_be_bytes)
qed

text \<open>
  The decoder returns a key exactly for the texts that are the encoder's with some of its
  leading ones removed.
\<close>

lemma decode_base58_exact:
  "decodeBase58Exact s n = Inr k \<longleftrightarrow>
   s \<noteq> [] \<and> length k = n \<and> (\<exists>j. guardV3Base58Encode k = replicate j (CHR ''1'') @ s)"
proof
  assume D: "decodeBase58Exact s n = Inr k"
  then obtain v where s: "s \<noteq> []" and v: "base58_value s 0 = Some v"
    and fits: "leading (CHR ''1'') s + length (big_bytes v) \<le> n"
    and k: "k = replicate (n - length (big_bytes v)) zero_byte @ big_bytes v"
    by (auto simp: decodeBase58Exact_def Let_def not_less split: if_splits option.splits)
  from fits have less: "v < 256 ^ n" by (intro big_bytes_bound) simp
  from big_bytes_pad [OF this] k have kb: "k = be_bytes n (int v)" by simp
  let ?t = "dropWhile (\<lambda>d. d = CHR ''1'') s"
  from v have "base58_value ?t 0 = Some v"
    by (subst (asm) leading_split [of s "CHR ''1''"]) (simp add: base58_value_ones)
  moreover have "?t = [] \<or> hd ?t \<noteq> CHR ''1''"
    using hd_dropWhile [of "\<lambda>d. d = CHR ''1''" s] by blast
  ultimately have t: "rev (base58_digits v) = ?t" by (rule digits_of_value)
  have "guardV3Base58Encode k = replicate (n - length (big_bytes v)) (CHR ''1'') @ ?t"
    using less by (simp add: encode_form kb nat_bytes_be_be_bytes leading_zero_be_bytes t)
  also have "\<dots> = replicate (n - length (big_bytes v) - leading (CHR ''1'') s) (CHR ''1'') @ s"
    using fits by (subst (3) leading_split [of s "CHR ''1''"])
      (simp flip: append_assoc replicate_add)
  finally show "s \<noteq> [] \<and> length k = n \<and> (\<exists>j. guardV3Base58Encode k = replicate j (CHR ''1'') @ s)"
    using s kb by auto
next
  assume "s \<noteq> [] \<and> length k = n \<and> (\<exists>j. guardV3Base58Encode k = replicate j (CHR ''1'') @ s)"
  then obtain j where s: "s \<noteq> []" and n: "n = length k"
    and j: "replicate (leading zero_byte k) (CHR ''1'') @ rev (base58_digits (nat (bytes_be k)))
            = replicate j (CHR ''1'') @ s"
    by (auto simp: encode_form)
  from arg_cong [OF j, of "\<lambda>t. base58_value t 0"]
  have v: "base58_value s 0 = Some (nat (bytes_be k))"
    by (simp add: base58_value_ones base58_value_digits)
  from arg_cong [OF j, of "leading (CHR ''1'')"]
  have "leading (CHR ''1'') s \<le> leading zero_byte k" by (simp add: digits_leading_one)
  moreover have "length (big_bytes (nat (bytes_be k))) \<le> length k \<and>
    replicate (length k - length (big_bytes (nat (bytes_be k)))) zero_byte @ big_bytes (nat (bytes_be k)) = k"
    using big_bytes_pad [OF bytes_be_nat_less, of k] by (simp only: be_bytes_nat)
  ultimately show "decodeBase58Exact s n = Inr k"
    using s n v by (auto simp: decodeBase58Exact_def leading_zero_bytes Let_def)
qed

lemma encode_nonempty: "k \<noteq> [] \<Longrightarrow> guardV3Base58Encode k \<noteq> []"
proof -
  assume "k \<noteq> []"
  then have "nat (bytes_be k) = 0 \<Longrightarrow> leading zero_byte k \<noteq> 0" by (simp add: leading_zero_bytes)
  then show ?thesis by (auto simp: encode_form)
qed

lemma decode_encode [simp]:
  "k \<noteq> [] \<Longrightarrow> length k = n \<Longrightarrow> decodeBase58Exact (guardV3Base58Encode k) n = Inr k"
  by (auto simp: decode_base58_exact encode_nonempty intro!: exI [of _ 0])

lemma encode_inject:
  "length a = length b \<Longrightarrow> guardV3Base58Encode a = guardV3Base58Encode b \<longleftrightarrow> a = b"
  by (metis Inr_inject decode_encode length_0_conv)

lemma base58_digits_visible: "list_all visible (base58_digits n)"
proof (induction n rule: base58_digits.induct)
  case (1 n)
  then show ?case by (cases "n = 0") (simp_all add: base58_digits.simps [of n] base58_char_visible)
qed

lemma encode_visible: "list_all visible (guardV3Base58Encode k)"
  using base58_digits_visible [of "nat (bytes_be k)"] base58_char_visible [of 0]
  by (auto simp: encode_form list_all_iff)

lemma TrimSpace_encode [simp]: "TrimSpace (guardV3Base58Encode k) = guardV3Base58Encode k"
  by (rule TrimSpace_all_visible) (rule encode_visible)

text \<open>Bounds on the length of the text.\<close>

lemma digits_length_le: "n < 58 ^ d \<Longrightarrow> length (base58_digits n) \<le> d"
proof (induction d arbitrary: n)
  case (Suc d)
  then have "n div 58 < 58 ^ d" by (simp add: div_less_iff_less_mult)
  with Suc.IH show ?case by (cases "n = 0") (simp_all add: base58_digits.simps [of n])
qed simp

lemma digits_length_ge: "58 ^ d \<le> n \<Longrightarrow> Suc d \<le> length (base58_digits n)"
proof (induction d arbitrary: n)
  case 0
  then show ?case by (simp add: base58_digits.simps [of n])
next
  case (Suc d)
  then have "58 ^ d \<le> n div 58" by (simp add: less_eq_div_iff_mult_less_eq)
  with Suc.IH [OF this] Suc.prems show ?case
    by (cases "n = 0") (simp_all add: base58_digits.simps [of n])
qed

lemma big_bytes_length_ge: "big_bytes n \<noteq> [] \<Longrightarrow> 256 ^ (length (big_bytes n) - 1) \<le> n"
proof (induction n rule: big_bytes.induct)
  case (1 n)
  show ?case
  proof (cases "n < 256")
    case True
    with "1.prems" show ?thesis by (cases "n = 0") (simp_all add: big_bytes.simps [of n])
  next
    case False
    then have ne: "big_bytes (n div 256) \<noteq> []" by (simp add: div_greater_zero_iff)
    with 1 False have "256 ^ (length (big_bytes (n div 256)) - 1) \<le> n div 256" by simp
    then have "256 ^ Suc (length (big_bytes (n div 256)) - 1) \<le> n"
      by (simp add: less_eq_div_iff_mult_less_eq mult.commute)
    with ne show ?thesis using False by (simp add: big_bytes.simps [of n])
  qed
qed

lemma encode_length:
  assumes "length k = 32"
  shows "32 \<le> length (guardV3Base58Encode k) \<and> length (guardV3Base58Encode k) \<le> 44"
proof -
  define v where "v = nat (bytes_be k)"
  define b where "b = length (big_bytes v)"
  have vb: "v < 256 ^ b" unfolding b_def by (rule big_bytes_bound) simp
  have b: "b \<le> 32" using big_bytes_pad [OF bytes_be_nat_less, of k] assms by (simp add: b_def v_def)
  have len: "length (guardV3Base58Encode k) = (32 - b) + length (base58_digits v)"
    using assms by (simp add: encode_form leading_zero_bytes b_def v_def)
  have "b \<le> length (base58_digits v)"
  proof (cases "b = 0")
    case False
    then have "256 ^ (b - 1) \<le> v" using big_bytes_length_ge [of v] by (simp add: b_def)
    moreover have "(58 :: nat) ^ (b - 1) \<le> 256 ^ (b - 1)" by (rule power_mono) simp_all
    ultimately show ?thesis using digits_length_ge [of "b - 1" v] False by simp
  qed simp
  moreover have "length (base58_digits v) \<le> 12 + b"
  proof (rule digits_length_le)
    have "(256 :: nat) ^ b * 256 ^ (32 - b) = 256 ^ 32" using b by (simp flip: power_add)
    also have "\<dots> \<le> 58 ^ 44" by simp
    also have "(58 :: nat) ^ 44 = 58 ^ (12 + b) * 58 ^ (32 - b)" using b by (simp flip: power_add)
    also have "\<dots> \<le> 58 ^ (12 + b) * 256 ^ (32 - b)" by (intro mult_left_mono power_mono) simp_all
    finally have "(256 :: nat) ^ b \<le> 58 ^ (12 + b)" by simp
    with vb show "v < 58 ^ (12 + b)" by simp
  qed
  ultimately show ?thesis using b unfolding len by arith
qed

subsection \<open>Addresses\<close>

lemma solana_public_key:
  "decodeSolanaPublicKey s = Inr k \<longleftrightarrow>
   32 \<le> length (TrimSpace s) \<and> length (TrimSpace s) \<le> 44 \<and> length k = 32 \<and>
   (\<exists>j. guardV3Base58Encode k = replicate j (CHR ''1'') @ TrimSpace s)"
  by (auto simp: decodeSolanaPublicKey_def Let_def decode_base58_exact)

lemma solana_public_key_encode [simp]:
  "length k = 32 \<Longrightarrow> decodeSolanaPublicKey (guardV3Base58Encode k) = Inr k"
  using encode_length [of k] by (auto simp: solana_public_key intro!: exI [of _ 0])

lemma isValidSolanaAddress_encode: "length k = 32 \<Longrightarrow> isValidSolanaAddress (guardV3Base58Encode k)"
  by (simp add: isValidSolanaAddress_def)

lemma isValidSolanaAddress_iff: "isValidSolanaAddress s \<longleftrightarrow> (\<exists>k. decodeSolanaPublicKey s = Inr k)"
  by (auto simp: isValidSolanaAddress_def split: sum.splits)

text \<open>C32: The accepted spellings of a Solana address are exactly, up to surrounding space, the texts of 32 to
  44 characters that are the base58 form of a 32-byte key with some of its leading ones removed; the
  key is the one they spell, and every key is read back from its own base58 form.\<close>

theorem solana_address_exact:
  "(decodeSolanaPublicKey s = Inr key \<longleftrightarrow>
      32 \<le> length (TrimSpace s) \<and> length (TrimSpace s) \<le> 44 \<and> length key = 32 \<and>
      (\<exists>ones. guardV3Base58Encode key = replicate ones (CHR ''1'') @ TrimSpace s)) \<and>
   (isValidSolanaAddress s \<longleftrightarrow> (\<exists>k. decodeSolanaPublicKey s = Inr k)) \<and>
   (decodeSolanaPublicKey (guardV3Base58Encode key) = Inr key \<longleftrightarrow> length key = 32)"
proof -
  have "length key = 32" if "decodeSolanaPublicKey (guardV3Base58Encode key) = Inr key"
    using that solana_public_key by blast
  then show ?thesis using solana_public_key isValidSolanaAddress_iff solana_public_key_encode by blast
qed

subsection \<open>Spellings\<close>

definition short_spelling :: string where "short_spelling = CHR ''2'' # replicate 31 (CHR ''1'')"

text \<open>The decoder pads instead of rejecting: a text that spells a number of 23 bytes is accepted as a
  32-byte key, so this key has two accepted spellings, of 32 and of 41 characters, and the shorter one
  is not the form in which the service itself writes the key.\<close>

theorem solana_address_aliases:
  "\<exists>key. decodeSolanaPublicKey short_spelling = Inr key \<and>
     decodeSolanaPublicKey (replicate 9 (CHR ''1'') @ short_spelling) = Inr key \<and>
     guardV3Base58Encode key = replicate 9 (CHR ''1'') @ short_spelling"
proof -
  have visible: "list_all visible short_spelling" by (simp add: short_spelling_def visible_def list_all_iff)
  then have trims: "TrimSpace short_spelling = short_spelling"
    "TrimSpace (replicate 9 (CHR ''1'') @ short_spelling) = replicate 9 (CHR ''1'') @ short_spelling"
    by (auto intro!: TrimSpace_all_visible simp: visible_def list_all_iff)
  let ?v = "58 ^ 31 :: nat" and ?n = "length (big_bytes (58 ^ 31))"
  define key where "key = be_bytes 32 (int ?v)"
  have "base58_value short_spelling 0 = Some ?v"
    using base58_value_shift [of 31 1] base58_index_char [of 1]
    by (simp add: short_spelling_def base58_char_def guardV3Base58Alphabet_def)
  then have digits: "rev (base58_digits ?v) = short_spelling"
    by (rule digits_of_value) (simp add: short_spelling_def)
  have "?n \<le> 23" using big_bytes_pad [of ?v 23] by simp
  moreover have "\<not> ?n \<le> 22" using big_bytes_bound [of ?v 22] by auto
  ultimately have n: "?n = 23" by simp
  have key: "length key = 32" "nat (bytes_be key) = ?v"
    using nat_bytes_be_be_bytes [of ?v 32] by (simp_all add: key_def)
  have form: "guardV3Base58Encode key = replicate 9 (CHR ''1'') @ short_spelling"
    unfolding encode_form leading_zero_bytes key digits n by (simp add: numeral_eq_Suc)
  have lengths: "length short_spelling = 32" by (simp add: short_spelling_def)
  have "decodeSolanaPublicKey short_spelling = Inr key"
    unfolding solana_public_key trims using key form lengths by auto
  moreover have "decodeSolanaPublicKey (replicate 9 (CHR ''1'') @ short_spelling) = Inr key"
    using solana_public_key_encode [OF key(1)] by (simp only: form)
  ultimately show ?thesis using form by blast
qed

end
