(* ===== verification/Solana_Wire.thy ===== *)
theory Solana_Wire
  imports Base58 Evm_Rpc
begin

text \<open>
  The wire format of a Solana transaction as the Transaction Guard reads it
  (\<^verbatim>\<open>handlers/transaction_guard_v3_models.go\<close>, the parsing half of
  \<^verbatim>\<open>handlers/transaction_guard_v3_decode.go\<close>). \<open>readGuardV3ShortVec\<close> is the compact length,
  and \<open>parse_message\<close> is \<^verbatim>\<open>parseTransactionGuardV3\<close> up to its final call, block by block. The
  code keeps an offset into the bytes and fills \<^verbatim>\<open>*out\<close> as it goes; the model keeps the bytes
  after the offset (\<open>ws_rest\<close>) and the output so far (\<open>ws_out\<close>), which an error leaves as
  the code does. Counts come from bytes and compact lengths, so they are naturals and the code's
  tests for a negative count have no counterpart. Two fields of the decoded transaction that other
  files fill (\<^verbatim>\<open>AutomaticBalance\<close>, \<^verbatim>\<open>SignedIntent\<close>) are not in the record.
\<close>

unbundle bit_operations_syntax

subsection \<open>Data\<close>

record transactionGuardDecodedAccount =
  da_Index :: nat
  da_Address :: string
  da_Signer :: bool
  da_Writable :: bool
  da_Source :: string

record transactionGuardDecodedLookupTable =
  dl_TableAddress :: string
  dl_WritableIndexes :: "nat list"
  dl_ReadonlyIndexes :: "nat list"
  dl_Resolved :: bool
  dl_WritableAddresses :: "string list"
  dl_ReadonlyAddresses :: "string list"
  dl_Status :: string

record transactionGuardDecodedInstruction =
  di_Index :: nat
  di_ProgramID :: string
  di_ProgramResolved :: bool
  di_AccountIndexes :: "nat list"
  di_Accounts :: "string list"
  di_DataLength :: nat
  di_DataPrefixHex :: string
  di_Kind :: string

record transactionGuardDecodedSOLTransfer =
  st_Kind :: string
  st_Source :: string
  st_Recipient :: string
  st_Lamports :: string
  st_Owner :: string
  st_SpaceBytes :: string

record transactionGuardDecodedTokenOperation =
  to_Kind :: string
  to_ProgramID :: string
  to_Account :: string
  to_Source :: string
  to_Destination :: string
  to_Mint :: string
  to_Authority :: string
  to_Delegate :: string
  to_AmountRaw :: string
  to_Decimals :: "nat option"
  to_AuthorityType :: "nat option"
  to_NewAuthority :: string

record guardV3ParsedInstruction =
  gp_ProgramIndex :: nat
  gp_AccountIndexes :: "nat list"
  gp_Data :: string

record transactionGuardDecodedTransaction =
  dt_Available :: bool
  dt_Complete :: bool
  dt_Status :: string
  dt_Version :: string
  dt_SignatureCount :: nat
  dt_RequiredSignatureCount :: nat
  dt_FeePayer :: string
  dt_StaticAccountCount :: nat
  dt_AddressLookupCount :: nat
  dt_LoadedWritableCount :: nat
  dt_LoadedReadonlyCount :: nat
  dt_UnresolvedLookupAccountCount :: nat
  dt_StaticAccounts :: "transactionGuardDecodedAccount list"
  dt_LoadedAccounts :: "transactionGuardDecodedAccount list"
  dt_LookupTables :: "transactionGuardDecodedLookupTable list"
  dt_ProgramIDs :: "string list"
  dt_Instructions :: "transactionGuardDecodedInstruction list"
  dt_SOLTransfers :: "transactionGuardDecodedSOLTransfer list"
  dt_TokenOperations :: "transactionGuardDecodedTokenOperation list"
  dt_ExplicitSOLTransferLamports :: string
  dt_DeclaredWalletSOLSpend :: string
  dt_Limitations :: "string list"
  dt_staticAddresses :: "string list"
  dt_parsedInstructions :: "guardV3ParsedInstruction list"
  dt_loadedWritableAddresses :: "string list"
  dt_loadedReadonlyAddresses :: "string list"
  dt_declaredWallet :: string

text \<open>The offset into the bytes and the output that is being filled.\<close>

record wire_state =
  ws_rest :: string
  ws_out :: transactionGuardDecodedTransaction

type_synonym 'a wire = "(wire_state, 'a) io"

definition modifyOut ::
  "(transactionGuardDecodedTransaction \<Rightarrow> transactionGuardDecodedTransaction) \<Rightarrow> unit wire" where
  "modifyOut f s = (Inr (), s\<lparr>ws_out := f (ws_out s)\<rparr>)"

definition bytesLeft :: "nat wire" where
  "bytesLeft s = (Inr (length (ws_rest s)), s)"

text \<open>\<^verbatim>\<open>if offset+n > len(raw) { return err }; x := raw[offset : offset+n]; offset += n\<close>.\<close>

definition takeBytes :: "nat \<Rightarrow> go_error \<Rightarrow> string wire" where
  "takeBytes n e s =
     (if length (ws_rest s) < n then (Inl e, s)
      else (Inr (take n (ws_rest s)), s\<lparr>ws_rest := drop n (ws_rest s)\<rparr>))"

definition byte_of :: "char \<Rightarrow> nat" where
  "byte_of c = of_char c"

text \<open>\<^verbatim>\<open>raw[offset]\<close> without advancing, where a byte is left, and a field of the output.\<close>

definition peekByte :: "nat wire" where
  "peekByte s = (Inr (byte_of (hd (ws_rest s))), s)"

definition readOut :: "(transactionGuardDecodedTransaction \<Rightarrow> 'a) \<Rightarrow> 'a wire" where
  "readOut f s = (Inr (f (ws_out s)), s)"

subsection \<open>The compact length\<close>

fun shortVecLoop :: "nat \<Rightarrow> nat \<Rightarrow> nat \<Rightarrow> string \<Rightarrow> (go_error + nat) \<times> string" where
  "shortVecLoop 0 acc shift rest = (Inl (ErrMsg ''shortvec exceeds the supported length''), rest)"
| "shortVecLoop (Suc k) acc shift [] = (Inl (ErrMsg ''shortvec is truncated''), [])"
| "shortVecLoop (Suc k) acc shift (c # rest) =
     (let v = acc OR push_bit shift (byte_of c AND 0x7F)
      in if byte_of c AND 0x80 = 0 then (Inr v, rest) else shortVecLoop k v (shift + 7) rest)"

definition readGuardV3ShortVec :: "nat wire" where
  "readGuardV3ShortVec s =
     (case shortVecLoop 4 0 0 (ws_rest s) of (r, rest) \<Rightarrow> (r, s\<lparr>ws_rest := rest\<rparr>))"

definition shortVec :: "string \<Rightarrow> nat wire" where
  "shortVec what = mapError (ErrWrap what) readGuardV3ShortVec"

subsection \<open>The parser\<close>

definition parseSignatures :: "nat wire" where
  "parseSignatures =
     bindIO (shortVec ''signature count'') (\<lambda>signatureCount.
     bindIO (modifyOut (\<lambda>d. d\<lparr>dt_SignatureCount := signatureCount\<rparr>)) (\<lambda>_.
     bindIO (guardIO (signatureCount \<le> 64)
       (ErrMsg (''signature count '' @ show_nat signatureCount @ '' is outside the supported range''))) (\<lambda>_.
     bindIO (takeBytes (signatureCount * 64) (ErrMsg ''serialized transaction signatures are truncated'')) (\<lambda>_.
     bindIO bytesLeft (\<lambda>n.
     bindIO (guardIO (0 < n) (ErrMsg ''serialized transaction message is missing'')) (\<lambda>_.
     returnIO signatureCount))))))"

text \<open>The version byte is read without advancing, and skipped only when it is one.\<close>

definition parseVersion :: "bool wire" where
  "parseVersion =
     bindIO peekByte (\<lambda>b.
       if b AND 0x80 \<noteq> 0 then
         bindIO (modifyOut (\<lambda>d. d\<lparr>dt_Version := CHR ''v'' # show_nat (b AND 0x7F)\<rparr>)) (\<lambda>_.
         bindIO (guardIO (b AND 0x7F = 0)
           (ErrMsg (''unsupported Solana message version '' @ show_nat (b AND 0x7F)))) (\<lambda>_.
         bindIO (takeBytes 1 (ErrMsg [])) (\<lambda>_. returnIO True)))
       else bindIO (modifyOut (\<lambda>d. d\<lparr>dt_Version := ''legacy''\<rparr>)) (\<lambda>_. returnIO False))"

definition parseHeader :: "nat \<Rightarrow> (nat \<times> nat \<times> nat) wire" where
  "parseHeader signatureCount =
     bindIO (takeBytes 3 (ErrMsg ''message header is truncated'')) (\<lambda>header.
       let requiredSignatures = byte_of (header ! 0); readonlySigned = byte_of (header ! 1);
           readonlyUnsigned = byte_of (header ! 2)
       in bindIO (modifyOut (\<lambda>d. d\<lparr>dt_RequiredSignatureCount := requiredSignatures\<rparr>)) (\<lambda>_.
          bindIO (guardIO (signatureCount = requiredSignatures)
            (ErrMsg (''signature count '' @ show_nat signatureCount @
                     '' does not match required signature count '' @ show_nat requiredSignatures))) (\<lambda>_.
          returnIO (requiredSignatures, readonlySigned, readonlyUnsigned))))"

definition staticAccount :: "nat \<Rightarrow> nat \<Rightarrow> nat \<Rightarrow> nat \<times> string \<Rightarrow> transactionGuardDecodedAccount" where
  "staticAccount requiredSignatures writableSigned writableUnsignedEnd = (\<lambda>(index, address).
     \<lparr>da_Index = index, da_Address = address, da_Signer = index < requiredSignatures,
      da_Writable = (if index < requiredSignatures then index < writableSigned else index < writableUnsignedEnd),
      da_Source = ''static_message''\<rparr>)"

definition parseAccounts :: "nat \<times> nat \<times> nat \<Rightarrow> string list wire" where
  "parseAccounts = (\<lambda>(requiredSignatures, readonlySigned, readonlyUnsigned).
     bindIO (shortVec ''static account count'') (\<lambda>accountCount.
     bindIO (guardIO (0 < accountCount \<and> accountCount \<le> 256)
       (ErrMsg (''static account count '' @ show_nat accountCount @ '' is outside the supported range''))) (\<lambda>_.
     bindIO (guardIO (requiredSignatures \<le> accountCount \<and> readonlySigned \<le> requiredSignatures \<and>
                      readonlyUnsigned \<le> accountCount - requiredSignatures)
       (ErrMsg ''message header account permissions are inconsistent'')) (\<lambda>_.
     bindIO (takeBytes (accountCount * 32) (ErrMsg ''static account keys are truncated'')) (\<lambda>keys.
       let staticAddresses = map guardV3Base58Encode (chunks 32 keys);
           writableSigned = requiredSignatures - readonlySigned;
           writableUnsignedEnd = accountCount - readonlyUnsigned
       in bindIO (modifyOut (\<lambda>d. d\<lparr>
            dt_StaticAccounts := dt_StaticAccounts d @
              map (staticAccount requiredSignatures writableSigned writableUnsignedEnd)
                (enumerate 0 staticAddresses),
            dt_StaticAccountCount := length staticAddresses,
            dt_FeePayer := (if staticAddresses = [] then dt_FeePayer d else hd staticAddresses)\<rparr>)) (\<lambda>_.
          returnIO staticAddresses))))))"

definition numbered :: "string \<Rightarrow> nat \<Rightarrow> string \<Rightarrow> string" where
  "numbered item index what = item @ '' '' @ show_nat index @ '' '' @ what"

definition parseInstruction :: "nat \<Rightarrow> guardV3ParsedInstruction wire" where
  "parseInstruction index =
     bindIO (takeBytes 1 (ErrMsg (numbered ''instruction'' index ''program index is truncated''))) (\<lambda>program.
     bindIO (shortVec (numbered ''instruction'' index ''account indexes'')) (\<lambda>accountIndexCount.
     bindIO (guardIO (accountIndexCount \<le> 256)
       (ErrMsg (numbered ''instruction'' index ''account indexes are truncated''))) (\<lambda>_.
     bindIO (takeBytes accountIndexCount
       (ErrMsg (numbered ''instruction'' index ''account indexes are truncated''))) (\<lambda>accountIndexes.
     bindIO (shortVec (numbered ''instruction'' index ''data length'')) (\<lambda>dataLength.
     bindIO (takeBytes dataLength
       (ErrMsg (numbered ''instruction'' index ''data is truncated''))) (\<lambda>data.
     returnIO \<lparr>gp_ProgramIndex = byte_of (hd program), gp_AccountIndexes = map byte_of accountIndexes,
               gp_Data = data\<rparr>))))))"

fun parseEach :: "(nat \<Rightarrow> 'a wire) \<Rightarrow> nat \<Rightarrow> nat \<Rightarrow> 'a list wire" where
  "parseEach p index 0 = returnIO []"
| "parseEach p index (Suc k) =
     bindIO (p index) (\<lambda>x. bindIO (parseEach p (Suc index) k) (\<lambda>xs. returnIO (x # xs)))"

definition parseInstructions :: "guardV3ParsedInstruction list wire" where
  "parseInstructions =
     bindIO (shortVec ''instruction count'') (\<lambda>instructionCount.
     bindIO (guardIO (instructionCount \<le> 256)
       (ErrMsg (''instruction count '' @ show_nat instructionCount @ '' is outside the supported range''))) (\<lambda>_.
     parseEach parseInstruction 0 instructionCount))"

definition appendLookup :: "string \<Rightarrow> nat list \<Rightarrow> nat list \<Rightarrow> transactionGuardDecodedTransaction \<Rightarrow> transactionGuardDecodedTransaction" where
  "appendLookup key writableIndexes readonlyIndexes d = d\<lparr>
     dt_LoadedWritableCount := dt_LoadedWritableCount d + length writableIndexes,
     dt_LoadedReadonlyCount := dt_LoadedReadonlyCount d + length readonlyIndexes,
     dt_LookupTables := dt_LookupTables d @
       [\<lparr>dl_TableAddress = guardV3Base58Encode key, dl_WritableIndexes = writableIndexes,
         dl_ReadonlyIndexes = readonlyIndexes, dl_Resolved = False, dl_WritableAddresses = [],
         dl_ReadonlyAddresses = [], dl_Status = ''rpc_resolution_required''\<rparr>]\<rparr>"

definition parseLookup :: "nat \<Rightarrow> unit wire" where
  "parseLookup index =
     bindIO (takeBytes 32 (ErrMsg (numbered ''address lookup'' index ''account key is truncated''))) (\<lambda>key.
     bindIO (shortVec (numbered ''address lookup'' index ''writable indexes'')) (\<lambda>writableCount.
     bindIO (takeBytes writableCount
       (ErrMsg (numbered ''address lookup'' index ''writable indexes are truncated''))) (\<lambda>writableIndexes.
     bindIO (shortVec (numbered ''address lookup'' index ''readonly indexes'')) (\<lambda>readonlyCount.
     bindIO (takeBytes readonlyCount
       (ErrMsg (numbered ''address lookup'' index ''readonly indexes are truncated''))) (\<lambda>readonlyIndexes.
     modifyOut (appendLookup key (map byte_of writableIndexes) (map byte_of readonlyIndexes)))))))"

definition parseLookups :: "unit wire" where
  "parseLookups =
     bindIO (shortVec ''address lookup count'') (\<lambda>lookupCount.
     bindIO (modifyOut (\<lambda>d. d\<lparr>dt_AddressLookupCount := lookupCount\<rparr>)) (\<lambda>_.
     bindIO (parseEach parseLookup 0 lookupCount) (\<lambda>_. returnIO ())))"

definition parseEnd ::
  "string \<Rightarrow> string list \<Rightarrow> guardV3ParsedInstruction list \<Rightarrow> unit wire" where
  "parseEnd wallet staticAddresses parsedInstructions =
     bindIO bytesLeft (\<lambda>n.
     bindIO (guardIO (n = 0) (ErrMsg (''serialized transaction contains '' @ show_nat n @ '' trailing byte(s)''))) (\<lambda>_.
     bindIO (modifyOut (\<lambda>d. d\<lparr>dt_UnresolvedLookupAccountCount :=
       dt_LoadedWritableCount d + dt_LoadedReadonlyCount d\<rparr>)) (\<lambda>_.
     bindIO (readOut dt_UnresolvedLookupAccountCount) (\<lambda>unresolved.
     bindIO (guardIO (length staticAddresses + unresolved \<le> 256)
       (ErrMsg ''message account count exceeds the compiled-index range'')) (\<lambda>_.
     modifyOut (\<lambda>d. d\<lparr>dt_staticAddresses := staticAddresses, dt_parsedInstructions := parsedInstructions,
                       dt_declaredWallet := wallet\<rparr>))))))"

definition parse_message :: "string \<Rightarrow> unit wire" where
  "parse_message wallet =
     bindIO parseSignatures (\<lambda>signatureCount.
     bindIO parseVersion (\<lambda>versioned.
     bindIO (parseHeader signatureCount) (\<lambda>header.
     bindIO (parseAccounts header) (\<lambda>staticAddresses.
     bindIO (takeBytes 32 (ErrMsg ''recent blockhash is truncated'')) (\<lambda>_.
     bindIO parseInstructions (\<lambda>parsedInstructions.
     bindIO (if versioned then parseLookups else returnIO ()) (\<lambda>_.
     parseEnd wallet staticAddresses parsedInstructions)))))))"

end
