(* ===== verification/Solana_Authority.thy ===== *)
theory Solana_Authority
  imports Solana_Wire
begin

text \<open>
  Token instructions that grant, move or revoke authority, as
  \<^verbatim>\<open>handlers/transaction_guard_v3_authority_decode.go\<close> and \<^verbatim>\<open>..._authority_extensions.go\<close> decode
  them: \<open>decodeTransactionGuardV3AuthorityEvent\<close> returns the event (as far as it was filled), whether
  the instruction is relevant, and the error. Only Token-2022 has the extension opcodes 26, 35 and
  36. The names and scopes of the authority types come from
  \<^verbatim>\<open>handlers/transaction_guard_v3_authority_findings.go\<close>, the decimal amounts from
  \<^verbatim>\<open>handlers/transaction_guard_v3_explanation.go\<close>.
\<close>

definition guardV3SystemProgramID :: string where
  "guardV3SystemProgramID = ''11111111111111111111111111111111''"
definition guardV3SPLTokenProgramID :: string where
  "guardV3SPLTokenProgramID = ''TokenkegQfeZyiNwAJbNbGKPFXCWuBvf9Ss623VQ5DA''"
definition guardV3Token2022ProgramID :: string where
  "guardV3Token2022ProgramID = ''TokenzQdBNbLqP5VEhdkAS6EPFLC1PHnBqCXEpPxuEb''"
definition guardV3AddressLookupTableProgramID :: string where
  "guardV3AddressLookupTableProgramID = ''AddressLookupTab1e1111111111111111111111111''"

subsection \<open>Fields of instruction data\<close>

text \<open>\<^verbatim>\<open>data[a:b]\<close> and \<^verbatim>\<open>binary.LittleEndian\<close>.\<close>

definition slice_of :: "nat \<Rightarrow> nat \<Rightarrow> string \<Rightarrow> string" where
  "slice_of a b s = take (b - a) (drop a s)"

definition uint_le :: "string \<Rightarrow> nat" where
  "uint_le s = nat (bytes_be (rev s))"

definition guardV3AuthorityOpcode :: "nat \<Rightarrow> bool" where
  "guardV3AuthorityOpcode opcode \<longleftrightarrow> opcode \<in> set [4, 5, 6, 13, 26, 35, 36]"

subsection \<open>Amounts\<close>

definition normalizedPositiveBigInt :: "string \<Rightarrow> nat" where
  "normalizedPositiveBigInt raw =
     (case SetString 10 (TrimSpace raw) of None \<Rightarrow> 0 | Some v \<Rightarrow> nat \<bar>v\<bar>)"

definition TrimRight :: "char \<Rightarrow> string \<Rightarrow> string" where
  "TrimRight c s = rev (dropWhile (\<lambda>d. d = c) (rev s))"

definition formatGuardRawAmount :: "string \<Rightarrow> nat option \<Rightarrow> string" where
  "formatGuardRawAmount raw decimals =
     (let value = normalizedPositiveBigInt raw; digits = show_nat value in
      case decimals of
        None \<Rightarrow> digits
      | Some places \<Rightarrow>
          if places = 0 then digits else
          let padded = (if length digits \<le> places
                        then replicate (places - length digits + 1) (CHR ''0'') @ digits else digits);
              whole = take (length padded - places) padded;
              fraction = TrimRight (CHR ''0'') (drop (length padded - places) padded)
          in if fraction = [] then whole else whole @ ''.'' @ fraction)"

subsection \<open>Authority types\<close>

definition authority_types :: "(string \<times> string \<times> bool \<times> bool \<times> bool) list" where
  "authority_types =
     [(''mint_tokens'', ''mint_supply'', True, False, False),
      (''freeze_account'', ''all_token_accounts_for_mint'', True, False, False),
      (''account_owner'', ''single_token_account'', False, True, False),
      (''close_account'', ''single_token_account'', False, False, False),
      (''transfer_fee_config'', ''all_future_transfers_for_mint'', True, False, False),
      (''withheld_withdraw'', ''withheld_transfer_fees_for_mint'', True, False, False),
      (''close_mint'', ''mint_account'', True, False, False),
      (''interest_rate'', ''ui_amount_for_mint'', True, False, False),
      (''permanent_delegate'', ''all_token_accounts_for_mint'', True, True, True),
      (''confidential_transfer_mint'', ''confidential_transfers_for_mint'', True, False, False),
      (''transfer_hook_program_id'', ''all_future_transfers_for_mint'', True, False, False),
      (''confidential_transfer_fee_config'', ''confidential_transfer_fees_for_mint'', True, False, False),
      (''metadata_pointer'', ''metadata_pointer_for_mint'', True, False, False),
      (''group_pointer'', ''group_pointer_for_mint'', True, False, False),
      (''group_member_pointer'', ''group_member_pointer_for_mint'', True, False, False),
      (''scaled_ui_amount'', ''ui_amount_for_mint'', True, False, False),
      (''pause'', ''minting_transfers_and_burning_for_mint'', True, False, False),
      (''permissioned_burn'', ''permissioned_burn_for_mint'', True, False, True)]"

definition guardV3AuthorityTypeSemantics :: "nat \<Rightarrow> string \<times> string \<times> bool \<times> bool \<times> bool" where
  "guardV3AuthorityTypeSemantics authorityType =
     (if length authority_types \<le> authorityType
      then (''unknown_authority_type_'' @ show_nat authorityType, ''unknown'', False, False, False)
      else authority_types ! authorityType)"

definition guardV3AuthorityTypeExplanation :: "nat \<Rightarrow> string \<Rightarrow> string" where
  "guardV3AuthorityTypeExplanation authorityType newAuthority =
     (case guardV3AuthorityTypeSemantics authorityType of (name, scope, _, canTransfer, canBurn) \<Rightarrow>
      if newAuthority = ''revoked''
      then ''The '' @ name @ '' authority is revoked for scope '' @ scope @ ''.''
      else
        let capability =
          (if canTransfer \<and> canBurn then ''may transfer or burn tokens across the mint''
           else if canTransfer then ''controls transfers from the token account''
           else if canBurn then ''may authorize token burns''
           else ''controls '' @ map (\<lambda>c. if c = CHR ''_'' then CHR '' '' else c) name)
        in ''The new authority '' @ newAuthority @ '' '' @ capability @ ''; scope='' @ scope @ ''.'')"

subsection \<open>Events\<close>

record transactionGuardAuthorityEvent =
  ev_InstructionSource :: string
  ev_InstructionIndex :: nat
  ev_InnerSequence :: nat
  ev_ParentProgramID :: string
  ev_ProgramID :: string
  ev_Kind :: string
  ev_Account :: string
  ev_Mint :: string
  ev_Source :: string
  ev_Destination :: string
  ev_CurrentAuthority :: string
  ev_NewAuthority :: string
  ev_Delegate :: string
  ev_WithdrawWithheldAuthority :: string
  ev_AuthorityType :: "nat option"
  ev_AuthorityTypeName :: string
  ev_Scope :: string
  ev_AmountRaw :: string
  ev_Decimals :: "nat option"
  ev_Amount :: string
  ev_TransferFeeBasisPoints :: "nat option"
  ev_MaximumFeeRaw :: string
  ev_ExpectedFeeRaw :: string
  ev_TransferHookProgramID :: string
  ev_Persistent :: bool
  ev_MintWide :: bool
  ev_CanTransfer :: bool
  ev_CanBurn :: bool
  ev_EffectivelyUnlimited :: bool
  ev_PostStateAvailable :: bool
  ev_ActiveAfterSimulation :: "bool option"
  ev_PostDelegate :: string
  ev_PostDelegatedAmountRaw :: string
  ev_PostOwner :: string
  ev_PostCloseAuthority :: string
  ev_PostMintAuthority :: string
  ev_PostFreezeAuthority :: string
  ev_EvidenceStatus :: string
  ev_Explanation :: string

record transactionGuardAuthorityInstruction =
  ai_Source :: string
  ai_Index :: nat
  ai_InnerSequence :: nat
  ai_ParentProgramID :: string
  ai_ProgramID :: string
  ai_Accounts :: "string list"
  ai_Data :: string

definition new_event :: "transactionGuardAuthorityInstruction \<Rightarrow> transactionGuardAuthorityEvent" where
  "new_event i =
     \<lparr>ev_InstructionSource = ai_Source i, ev_InstructionIndex = ai_Index i, ev_InnerSequence = ai_InnerSequence i,
      ev_ParentProgramID = ai_ParentProgramID i, ev_ProgramID = ai_ProgramID i, ev_Kind = [], ev_Account = [],
      ev_Mint = [], ev_Source = [], ev_Destination = [], ev_CurrentAuthority = [], ev_NewAuthority = [],
      ev_Delegate = [], ev_WithdrawWithheldAuthority = [], ev_AuthorityType = None, ev_AuthorityTypeName = [],
      ev_Scope = ''not_applicable'', ev_AmountRaw = [], ev_Decimals = None, ev_Amount = [],
      ev_TransferFeeBasisPoints = None, ev_MaximumFeeRaw = [], ev_ExpectedFeeRaw = [],
      ev_TransferHookProgramID = [], ev_Persistent = False, ev_MintWide = False, ev_CanTransfer = False,
      ev_CanBurn = False, ev_EffectivelyUnlimited = False, ev_PostStateAvailable = False,
      ev_ActiveAfterSimulation = None, ev_PostDelegate = [], ev_PostDelegatedAmountRaw = [], ev_PostOwner = [],
      ev_PostCloseAuthority = [], ev_PostMintAuthority = [], ev_PostFreezeAuthority = [],
      ev_EvidenceStatus = ''decoded_instruction'', ev_Explanation = []\<rparr>"

text \<open>The three results \<^verbatim>\<open>(event, relevant, err)\<close>.\<close>

type_synonym authority_result = "transactionGuardAuthorityEvent \<times> bool \<times> go_error option"

definition decoded_event :: "transactionGuardAuthorityEvent \<Rightarrow> authority_result" where
  "decoded_event e = (e, True, None)"
definition irrelevant_event :: "transactionGuardAuthorityEvent \<Rightarrow> authority_result" where
  "irrelevant_event e = (e, False, None)"
definition broken_event :: "transactionGuardAuthorityEvent \<Rightarrow> string \<Rightarrow> authority_result" where
  "broken_event e what = (e, True, Some (ErrMsg what))"

definition guardV3DecodeInstructionOptionalPubkey :: "string \<Rightarrow> go_error + string \<times> nat" where
  "guardV3DecodeInstructionOptionalPubkey data =
     (case data of
        [] \<Rightarrow> Inl (ErrMsg ''optional pubkey tag is missing'')
      | tag # _ \<Rightarrow>
          if byte_of tag = 0 then Inr (''revoked'', 1)
          else if byte_of tag = 1 then
            (if length data < 33 then Inl (ErrMsg ''optional pubkey value is truncated'')
             else Inr (guardV3Base58Encode (slice_of 1 33 data), 33))
          else Inl (ErrMsg (''invalid optional pubkey tag '' @ show_nat (byte_of tag))))"

definition guardV3DecodeOptionalNonZeroPubkey :: "string \<Rightarrow> string" where
  "guardV3DecodeOptionalNonZeroPubkey data =
     (if length data < 32 then []
      else if list_all (\<lambda>c. byte_of c = 0) (take 32 data) then ''revoked''
      else guardV3Base58Encode (take 32 data))"

definition max_uint64_text :: string where
  "max_uint64_text = show_nat (2 ^ 64 - 1)"

definition decodeTransactionGuardV3TransferFeeEvent ::
  "transactionGuardAuthorityEvent \<Rightarrow> string list \<Rightarrow> string \<Rightarrow> authority_result" where
  "decodeTransactionGuardV3TransferFeeEvent event accounts data =
     (if ev_ProgramID event \<noteq> guardV3Token2022ProgramID then irrelevant_event event
      else if length data < 2 then broken_event event ''TransferFee extension instruction is truncated''
      else let sub = byte_of (data ! 1) in
      if sub = 0 then
        (if accounts = [] then broken_event event ''InitializeTransferFeeConfig mint is missing'' else
         case guardV3DecodeInstructionOptionalPubkey (drop 2 data) of Inl err \<Rightarrow> (event, True, Some err)
         | Inr (configAuthority, used1) \<Rightarrow>
         (case guardV3DecodeInstructionOptionalPubkey (drop (2 + used1) data) of Inl err \<Rightarrow> (event, True, Some err)
         | Inr (withdrawAuthority, used2) \<Rightarrow>
         let offset = 2 + used1 + used2 in
         if length data < offset + 10 then broken_event event ''InitializeTransferFeeConfig values are truncated''
         else let bps = uint_le (slice_of offset (offset + 2) data);
                  maximumFee = show_nat (uint_le (slice_of (offset + 2) (offset + 10) data))
         in decoded_event (event\<lparr>ev_Kind := ''initialize_transfer_fee_config'', ev_Mint := accounts ! 0,
           ev_Account := accounts ! 0, ev_NewAuthority := configAuthority,
           ev_WithdrawWithheldAuthority := withdrawAuthority, ev_TransferFeeBasisPoints := Some bps,
           ev_MaximumFeeRaw := maximumFee, ev_Scope := ''all_future_transfers_for_mint'',
           ev_Persistent := configAuthority \<noteq> ''revoked'' \<or> withdrawAuthority \<noteq> ''revoked'', ev_MintWide := True,
           ev_Explanation := ''The mint charges '' @ show_nat bps @ '' basis points on transfers, capped at '' @
             maximumFee @ '' raw units; configured authorities may update fees or withdraw withheld fees.''\<rparr>)))
      else if sub = 1 then
        (if length data < 19 \<or> length accounts < 4
         then broken_event event ''TransferCheckedWithFee instruction is truncated''
         else let decimals = byte_of (data ! 10); amount = show_nat (uint_le (slice_of 2 10 data)) in
         decoded_event (event\<lparr>ev_Kind := ''transfer_checked_with_fee'', ev_Source := accounts ! 0,
           ev_Mint := accounts ! 1, ev_Destination := accounts ! 2, ev_CurrentAuthority := accounts ! 3,
           ev_AmountRaw := amount, ev_Decimals := Some decimals,
           ev_Amount := formatGuardRawAmount amount (Some decimals),
           ev_ExpectedFeeRaw := show_nat (uint_le (slice_of 11 19 data)), ev_Scope := ''single_transfer_fee'',
           ev_Explanation := ''This transfer declares the exact Token-2022 fee expected to be withheld in the destination account.''\<rparr>))
      else if sub = 2 then
        (if length accounts < 3 then broken_event event ''WithdrawWithheldTokensFromMint accounts are truncated''
         else decoded_event (event\<lparr>ev_Kind := ''withdraw_withheld_tokens_from_mint'', ev_Mint := accounts ! 0,
           ev_Destination := accounts ! 1, ev_CurrentAuthority := accounts ! 2, ev_Scope := ''withheld_fees_on_mint'',
           ev_Explanation := ''Withheld transfer fees stored on the mint are withdrawn to the destination token account.''\<rparr>))
      else if sub = 3 then
        (if length data < 3 \<or> length accounts < 3
         then broken_event event ''WithdrawWithheldTokensFromAccounts instruction is truncated''
         else decoded_event (event\<lparr>ev_Kind := ''withdraw_withheld_tokens_from_accounts'', ev_Mint := accounts ! 0,
           ev_Destination := accounts ! 1, ev_CurrentAuthority := accounts ! 2,
           ev_AmountRaw := show_nat (byte_of (data ! 2)), ev_Scope := ''withheld_fees_on_token_accounts'',
           ev_Explanation := ''Withheld transfer fees are collected from token accounts into the destination token account.''\<rparr>))
      else if sub = 4 then
        (if accounts = [] then broken_event event ''HarvestWithheldTokensToMint mint is missing''
         else decoded_event (event\<lparr>ev_Kind := ''harvest_withheld_tokens_to_mint'', ev_Mint := accounts ! 0,
           ev_Account := accounts ! 0, ev_Scope := ''withheld_fees_on_token_accounts'',
           ev_Explanation := ''Withheld fees are harvested from token accounts into the mint.''\<rparr>))
      else if sub = 5 then
        (if length data < 12 \<or> length accounts < 2 then broken_event event ''SetTransferFee instruction is truncated''
         else let bps = uint_le (slice_of 2 4 data); maximumFee = show_nat (uint_le (slice_of 4 12 data)) in
         decoded_event (event\<lparr>ev_Kind := ''set_transfer_fee'', ev_Mint := accounts ! 0, ev_Account := accounts ! 0,
           ev_CurrentAuthority := accounts ! 1, ev_TransferFeeBasisPoints := Some bps, ev_MaximumFeeRaw := maximumFee,
           ev_Scope := ''all_future_transfers_for_mint'', ev_Persistent := True, ev_MintWide := True,
           ev_Explanation := ''The transfer fee is set to '' @ show_nat bps @ '' basis points with a maximum fee of '' @
             maximumFee @ '' raw units.''\<rparr>))
      else broken_event event (''unknown TransferFee extension sub-instruction '' @ show_nat sub))"

definition decodeTransactionGuardV3TransferHookEvent ::
  "transactionGuardAuthorityEvent \<Rightarrow> string list \<Rightarrow> string \<Rightarrow> authority_result" where
  "decodeTransactionGuardV3TransferHookEvent event0 accounts data =
     (if ev_ProgramID event0 \<noteq> guardV3Token2022ProgramID then irrelevant_event event0
      else if length data < 2 \<or> accounts = []
      then broken_event event0 ''TransferHook extension instruction is truncated''
      else let sub = byte_of (data ! 1);
        event = event0\<lparr>ev_Mint := accounts ! 0, ev_Account := accounts ! 0,
          ev_Scope := ''all_future_transfers_for_mint'', ev_MintWide := True\<rparr> in
      if sub = 0 then
        (if length data < 66 then broken_event event ''TransferHook Initialize data is truncated''
         else let hook = guardV3DecodeOptionalNonZeroPubkey (slice_of 34 66 data); persistent = (hook \<noteq> ''revoked'') in
         decoded_event (event\<lparr>ev_Kind := ''initialize_transfer_hook'',
           ev_NewAuthority := guardV3DecodeOptionalNonZeroPubkey (slice_of 2 34 data),
           ev_TransferHookProgramID := hook, ev_Persistent := persistent,
           ev_ActiveAfterSimulation := Some persistent,
           ev_Explanation := ''Every future transfer for this mint may invoke the configured transfer-hook program.''\<rparr>))
      else if sub = 1 then
        (if length data < 34 \<or> length accounts < 2 then broken_event event ''TransferHook Update data is truncated''
         else let hook = guardV3DecodeOptionalNonZeroPubkey (slice_of 2 34 data); persistent = (hook \<noteq> ''revoked'') in
         decoded_event (event\<lparr>ev_Kind := ''update_transfer_hook'', ev_CurrentAuthority := accounts ! 1,
           ev_TransferHookProgramID := hook, ev_Persistent := persistent,
           ev_ActiveAfterSimulation := Some persistent,
           ev_Explanation := (if persistent
             then ''The program invoked by every future transfer for this mint is changed.''
             else ''The transfer-hook program is removed from the mint.'')\<rparr>))
      else broken_event event (''unknown TransferHook extension sub-instruction '' @ show_nat sub))"

definition decode_approve :: "transactionGuardAuthorityEvent \<Rightarrow> string list \<Rightarrow> string \<Rightarrow> authority_result" where
  "decode_approve event accounts data =
     (if length data < 9 \<or> length accounts < 3 then broken_event event ''Approve instruction is truncated''
      else let amount = show_nat (uint_le (slice_of 1 9 data)) in
      decoded_event (event\<lparr>ev_Kind := ''approve'', ev_Source := accounts ! 0, ev_Delegate := accounts ! 1,
        ev_CurrentAuthority := accounts ! 2, ev_Account := accounts ! 0, ev_AmountRaw := amount, ev_Amount := amount,
        ev_Scope := ''single_token_account_allowance'', ev_Persistent := True,
        ev_EffectivelyUnlimited := amount = max_uint64_text,
        ev_Explanation := ''The delegate may transfer up to the approved raw token amount until the allowance is spent or revoked.''\<rparr>))"

definition decode_revoke :: "transactionGuardAuthorityEvent \<Rightarrow> string list \<Rightarrow> authority_result" where
  "decode_revoke event accounts =
     (if length accounts < 2 then broken_event event ''Revoke instruction is truncated''
      else decoded_event (event\<lparr>ev_Kind := ''revoke'', ev_Source := accounts ! 0, ev_CurrentAuthority := accounts ! 1,
        ev_Account := accounts ! 0, ev_Scope := ''single_token_account_allowance'',
        ev_Explanation := ''The token-account delegate allowance is revoked.''\<rparr>))"

definition decode_set_authority ::
  "transactionGuardAuthorityEvent \<Rightarrow> string list \<Rightarrow> string \<Rightarrow> authority_result" where
  "decode_set_authority event accounts data =
     (if length data < 3 \<or> length accounts < 2 then broken_event event ''SetAuthority instruction is truncated''
      else let authorityType = byte_of (data ! 1) in
      (case guardV3AuthorityTypeSemantics authorityType of (name, scope, mintWide, canTransfer, canBurn) \<Rightarrow>
      let e = event\<lparr>ev_Kind := ''set_authority'', ev_Account := accounts ! 0, ev_CurrentAuthority := accounts ! 1,
        ev_AuthorityType := Some authorityType, ev_AuthorityTypeName := name, ev_Scope := scope,
        ev_MintWide := mintWide, ev_CanTransfer := canTransfer, ev_CanBurn := canBurn\<rparr> in
      (case guardV3DecodeInstructionOptionalPubkey (drop 2 data) of
        Inl err \<Rightarrow> (e, True, Some (ErrWrap ''decode SetAuthority new authority'' err))
      | Inr (newAuthority, _) \<Rightarrow>
          decoded_event (e\<lparr>ev_NewAuthority := newAuthority, ev_Persistent := newAuthority \<noteq> ''revoked'',
            ev_Explanation := guardV3AuthorityTypeExplanation authorityType newAuthority\<rparr>))))"

definition decode_approve_checked ::
  "transactionGuardAuthorityEvent \<Rightarrow> string list \<Rightarrow> string \<Rightarrow> authority_result" where
  "decode_approve_checked event accounts data =
     (if length data < 10 \<or> length accounts < 4 then broken_event event ''ApproveChecked instruction is truncated''
      else let decimals = byte_of (data ! 9); amount = show_nat (uint_le (slice_of 1 9 data)) in
      decoded_event (event\<lparr>ev_Kind := ''approve_checked'', ev_Source := accounts ! 0, ev_Mint := accounts ! 1,
        ev_Delegate := accounts ! 2, ev_CurrentAuthority := accounts ! 3, ev_Account := accounts ! 0,
        ev_Decimals := Some decimals, ev_AmountRaw := amount,
        ev_Amount := formatGuardRawAmount amount (Some decimals),
        ev_Scope := ''single_token_account_allowance'', ev_Persistent := True,
        ev_EffectivelyUnlimited := amount = max_uint64_text,
        ev_Explanation := ''The delegate may transfer up to the approved token amount without another owner signature until the allowance is spent or revoked.''\<rparr>))"

definition decode_permanent_delegate ::
  "transactionGuardAuthorityEvent \<Rightarrow> string list \<Rightarrow> string \<Rightarrow> authority_result" where
  "decode_permanent_delegate event accounts data =
     (if ev_ProgramID event \<noteq> guardV3Token2022ProgramID then irrelevant_event event
      else if length data < 33 \<or> accounts = []
      then broken_event event ''InitializePermanentDelegate instruction is truncated''
      else let delegate = guardV3Base58Encode (slice_of 1 33 data) in
      decoded_event (event\<lparr>ev_Kind := ''initialize_permanent_delegate'', ev_Mint := accounts ! 0,
        ev_Delegate := delegate, ev_Account := accounts ! 0, ev_NewAuthority := delegate,
        ev_Scope := ''all_token_accounts_for_mint'', ev_Persistent := True, ev_MintWide := True,
        ev_CanTransfer := True, ev_CanBurn := True, ev_ActiveAfterSimulation := Some True,
        ev_Explanation := ''This permanent delegate may transfer or burn tokens from any token account belonging to the mint.''\<rparr>))"

definition decodeTransactionGuardV3AuthorityEvent ::
  "transactionGuardAuthorityInstruction \<Rightarrow> authority_result" where
  "decodeTransactionGuardV3AuthorityEvent instruction =
     (let event = new_event instruction; data = ai_Data instruction; accounts = ai_Accounts instruction in
      if data = [] then irrelevant_event event
      else let opcode = byte_of (hd data) in
        if opcode = 4 then decode_approve event accounts data
        else if opcode = 5 then decode_revoke event accounts
        else if opcode = 6 then decode_set_authority event accounts data
        else if opcode = 13 then decode_approve_checked event accounts data
        else if opcode = 26 then decodeTransactionGuardV3TransferFeeEvent event accounts data
        else if opcode = 35 then decode_permanent_delegate event accounts data
        else if opcode = 36 then decodeTransactionGuardV3TransferHookEvent event accounts data
        else irrelevant_event event)"

definition empty_operation :: transactionGuardDecodedTokenOperation where
  "empty_operation =
     \<lparr>to_Kind = [], to_ProgramID = [], to_Account = [], to_Source = [], to_Destination = [], to_Mint = [],
      to_Authority = [], to_Delegate = [], to_AmountRaw = [], to_Decimals = None, to_AuthorityType = None,
      to_NewAuthority = []\<rparr>"

definition guardV3DecodedTokenOperationFromAuthorityEvent ::
  "transactionGuardAuthorityEvent \<Rightarrow> transactionGuardDecodedTokenOperation option" where
  "guardV3DecodedTokenOperationFromAuthorityEvent e =
     (let operation = empty_operation\<lparr>to_Kind := ev_Kind e, to_ProgramID := ev_ProgramID e\<rparr> in
      if ev_Kind e = ''approve'' \<or> ev_Kind e = ''approve_checked'' then
        Some (operation\<lparr>to_Source := ev_Source e, to_Mint := ev_Mint e, to_Authority := ev_CurrentAuthority e,
          to_Delegate := ev_Delegate e, to_AmountRaw := ev_AmountRaw e, to_Decimals := ev_Decimals e\<rparr>)
      else if ev_Kind e = ''revoke'' then
        Some (operation\<lparr>to_Source := ev_Source e, to_Authority := ev_CurrentAuthority e\<rparr>)
      else if ev_Kind e = ''set_authority'' then
        Some (operation\<lparr>to_Account := ev_Account e, to_Authority := ev_CurrentAuthority e,
          to_AuthorityType := ev_AuthorityType e, to_NewAuthority := ev_NewAuthority e\<rparr>)
      else if ev_Kind e = ''initialize_permanent_delegate'' then
        Some (operation\<lparr>to_Account := ev_Mint e, to_Mint := ev_Mint e, to_Delegate := ev_Delegate e,
          to_NewAuthority := ev_Delegate e\<rparr>)
      else if ev_Kind e = ''initialize_transfer_hook'' \<or> ev_Kind e = ''update_transfer_hook'' then
        Some (operation\<lparr>to_Account := ev_Mint e, to_Mint := ev_Mint e, to_Authority := ev_CurrentAuthority e,
          to_NewAuthority := ev_TransferHookProgramID e\<rparr>)
      else None)"

end
