(* ===== verification/Guard_Findings.thy ===== *)
theory Guard_Findings
  imports Go_Encoding
begin

text \<open>
  The findings every part of the Transaction Guard reports (\<^verbatim>\<open>transactionFirewallFinding\<close> in
  \<^verbatim>\<open>handlers/transaction_firewall.go\<close>) and the helpers on them from
  \<^verbatim>\<open>handlers/transaction_guard_v3_models.go\<close>: one finding per code, removal by code, and the
  evidence text on one line of at most 240 bytes. \<open>Error\<close> is the text of an error value; the
  guard's errors are messages and wrapped messages.
\<close>

record transactionFirewallFinding =
  ff_Code :: string
  ff_Severity :: string
  ff_Title :: string
  ff_Evidence :: string
  ff_Score :: int

definition finding :: "string \<Rightarrow> string \<Rightarrow> string \<Rightarrow> string \<Rightarrow> int \<Rightarrow> transactionFirewallFinding" where
  "finding code severity title evidence score =
     \<lparr>ff_Code = code, ff_Severity = severity, ff_Title = title, ff_Evidence = evidence, ff_Score = score\<rparr>"

fun Error :: "go_error \<Rightarrow> string" where
  "Error (ErrMsg s) = s"
| "Error (ErrWrap s e) = s @ '': '' @ Error e"
| "Error (ErrDetail e d) = Error e @ '': '' @ d"
| "Error (ErrQuoted s v) = s @ '' \"'' @ v @ ''\"''"

fun Join :: "string list \<Rightarrow> string \<Rightarrow> string" where
  "Join [] sep = []"
| "Join [s] sep = s"
| "Join (s # t # r) sep = s @ sep @ Join (t # r) sep"

lemma strip_any_shorter: "strip_any space_runes s = Some r \<Longrightarrow> length r < length s"
  using space_runes_nonempty by (fastforce dest: strip_any_Some)

text \<open>\<^verbatim>\<open>strings.Fields\<close>, with the field being read.\<close>

function fields_from :: "string \<Rightarrow> string \<Rightarrow> string list" where
  "fields_from cur s =
     (let done = (if cur = [] then [] else [rev cur]) in
      case s of [] \<Rightarrow> done
      | c # rest \<Rightarrow>
          (case strip_any space_runes s of
             Some after \<Rightarrow> done @ fields_from [] after
           | None \<Rightarrow> fields_from (c # cur) rest))"
  by pat_completeness auto
termination
  by (relation "measure (\<lambda>(cur, s). length s)") (auto dest: strip_any_shorter)

declare fields_from.simps [simp del]

definition Fields :: "string \<Rightarrow> string list" where
  "Fields s = fields_from [] s"

definition compactGuardV3Evidence :: "string \<Rightarrow> string" where
  "compactGuardV3Evidence value = take 240 (Join (Fields (TrimSpace value)) '' '')"

definition finding_key :: "transactionFirewallFinding \<Rightarrow> string" where
  "finding_key f =
     (let key = TrimSpace (ff_Code f) in if key = [] then ff_Title f @ ''|'' @ ff_Evidence f else key)"

fun unique_from :: "string list \<Rightarrow> transactionFirewallFinding list \<Rightarrow> transactionFirewallFinding list" where
  "unique_from seen [] = []"
| "unique_from seen (f # fs) =
     (if finding_key f \<in> set seen then unique_from seen fs
      else f # unique_from (finding_key f # seen) fs)"

definition uniqueGuardV3Findings :: "transactionFirewallFinding list \<Rightarrow> transactionFirewallFinding list" where
  "uniqueGuardV3Findings fs = unique_from [] fs"

definition removeGuardV3Finding ::
  "transactionFirewallFinding list \<Rightarrow> string \<Rightarrow> transactionFirewallFinding list" where
  "removeGuardV3Finding values code = filter (\<lambda>f. ff_Code f \<noteq> code) values"

definition removeGuardV3Limitation :: "string list \<Rightarrow> string \<Rightarrow> string list" where
  "removeGuardV3Limitation values target = filter (\<lambda>v. v \<noteq> target) values"

text \<open>Every code that was reported is still reported once, and nothing else is.\<close>

lemma unique_from_keys:
  "distinct (map finding_key (unique_from seen fs)) \<and>
   finding_key ` set (unique_from seen fs) = finding_key ` set fs - set seen"
  by (induction fs arbitrary: seen) auto

lemma unique_from_subset: "set (unique_from seen fs) \<subseteq> set fs"
  by (induction fs arbitrary: seen) auto

lemma unique_findings_keys:
  "distinct (map finding_key (uniqueGuardV3Findings fs))"
  "finding_key ` set (uniqueGuardV3Findings fs) = finding_key ` set fs"
  using unique_from_keys [of "[]" fs] by (simp_all add: uniqueGuardV3Findings_def)

lemma unique_findings_subset: "set (uniqueGuardV3Findings fs) \<subseteq> set fs"
  by (simp add: uniqueGuardV3Findings_def unique_from_subset)

lemma unique_findings_Nil [simp]: "uniqueGuardV3Findings [] = []"
  by (simp add: uniqueGuardV3Findings_def)

end
