(* ===== verification/Go_Base64.thy ===== *)
theory Go_Base64
  imports Go_Encoding
begin

text \<open>
  \<^verbatim>\<open>encoding/base64\<close> beyond the raw URL alphabet of \<open>Go_Encoding\<close>: the decoder for the four
  encodings the code uses, over the value of a digit and whether the encoding is padded. Line
  breaks are skipped anywhere; a padded text ends with a full group whose last one or two
  characters may be the padding; the unused low bits of a final group are ignored, as Go's
  non-strict decoder does. \<open>StdEncoding_EncodeToString\<close> is the encoder of the standard alphabet.
\<close>

definition std64_val :: "char \<Rightarrow> nat option" where
  "std64_val c =
     (if c = CHR ''+'' then Some 62 else if c = CHR ''/'' then Some 63
      else if c = CHR ''-'' \<or> c = CHR ''_'' then None else b64_val c)"

definition b64_bytes :: "nat \<Rightarrow> nat \<Rightarrow> nat \<Rightarrow> nat \<Rightarrow> string" where
  "b64_bytes i j k l = [char_of (i * 4 + j div 16), char_of (j mod 16 * 16 + k div 4), char_of (k mod 4 * 64 + l)]"

definition b64_last2 :: "(char \<Rightarrow> nat option) \<Rightarrow> char \<Rightarrow> char \<Rightarrow> string option" where
  "b64_last2 v p q =
     (case (v p, v q) of (Some i, Some j) \<Rightarrow> Some (take 1 (b64_bytes i j 0 0)) | _ \<Rightarrow> None)"

definition b64_last3 :: "(char \<Rightarrow> nat option) \<Rightarrow> char \<Rightarrow> char \<Rightarrow> char \<Rightarrow> string option" where
  "b64_last3 v p q r =
     (case (v p, v q, v r) of (Some i, Some j, Some k) \<Rightarrow> Some (take 2 (b64_bytes i j k 0)) | _ \<Rightarrow> None)"

fun b64_quads :: "(char \<Rightarrow> nat option) \<Rightarrow> bool \<Rightarrow> string \<Rightarrow> string option" where
  "b64_quads v pad [] = Some []"
| "b64_quads v pad [p] = None"
| "b64_quads v pad [p, q] = (if pad then None else b64_last2 v p q)"
| "b64_quads v pad [p, q, r] = (if pad then None else b64_last3 v p q r)"
| "b64_quads v pad (p # q # r # t # s) =
     (if pad \<and> t = CHR ''='' \<and> s = [] then
        (if r = CHR ''='' then b64_last2 v p q else b64_last3 v p q r)
      else
        (case (v p, v q, v r, v t, b64_quads v pad s) of
           (Some i, Some j, Some k, Some l, Some rest) \<Rightarrow> Some (b64_bytes i j k l @ rest)
         | _ \<Rightarrow> None))"

definition base64_DecodeString :: "(char \<Rightarrow> nat option) \<Rightarrow> bool \<Rightarrow> string \<Rightarrow> string option" where
  "base64_DecodeString v pad s =
     b64_quads v pad (filter (\<lambda>c. c \<noteq> char_of (10::nat) \<and> c \<noteq> char_of (13::nat)) s)"

definition StdEncoding_DecodeString :: "string \<Rightarrow> string option" where
  "StdEncoding_DecodeString = base64_DecodeString std64_val True"
definition RawStdEncoding_DecodeString :: "string \<Rightarrow> string option" where
  "RawStdEncoding_DecodeString = base64_DecodeString std64_val False"
definition URLEncoding_DecodeString :: "string \<Rightarrow> string option" where
  "URLEncoding_DecodeString = base64_DecodeString b64_val True"
definition RawURLEncoding_DecodeString :: "string \<Rightarrow> string option" where
  "RawURLEncoding_DecodeString = base64_DecodeString b64_val False"

definition std64_swap :: "char \<Rightarrow> char" where
  "std64_swap c = (if c = CHR ''-'' then CHR ''+'' else if c = CHR ''_'' then CHR ''/'' else c)"

definition StdEncoding_EncodeToString :: "string \<Rightarrow> string" where
  "StdEncoding_EncodeToString s =
     map std64_swap (b64_encode s) @ replicate ((3 - length s mod 3) mod 3) (CHR ''='')"

lemma b64_quads_raw: "b64_quads b64_val False s = b64_quanta s"
  by (induction s rule: b64_quanta.induct)
     (auto simp: b64_last2_def b64_last3_def b64_bytes_def split: option.splits)

lemma RawURLEncoding_eq: "RawURLEncoding_DecodeString = b64_decode"
  by (rule ext) (simp add: RawURLEncoding_DecodeString_def base64_DecodeString_def b64_decode_def b64_quads_raw)

lemma std64_val_char: "n < 64 \<Longrightarrow> std64_val (std64_swap (b64_char n)) = Some n"
proof -
  assume "n < 64"
  then have v: "b64_val (b64_char n) = Some n" by simp
  have "b64_val (CHR ''+'') = None" "b64_val (CHR ''/'') = None"
    and "b64_val (CHR ''-'') = Some 62" "b64_val (CHR ''_'') = Some 63"
    by (simp_all add: b64_val_def Let_def)
  with v have ne: "b64_char n \<noteq> CHR ''+''" "b64_char n \<noteq> CHR ''/''"
    and d: "b64_char n = CHR ''-'' \<Longrightarrow> n = 62" "b64_char n = CHR ''_'' \<Longrightarrow> n = 63"
    by auto
  show ?thesis
  proof (cases "b64_char n = CHR ''-'' \<or> b64_char n = CHR ''_''")
    case True
    then show ?thesis using d by (auto simp: std64_val_def std64_swap_def)
  next
    case False
    with v ne show ?thesis by (simp add: std64_val_def std64_swap_def)
  qed
qed

lemma std64_char_not_pad: "std64_swap (b64_char n) \<noteq> CHR ''=''"
proof (cases "n < 64")
  case True
  have "std64_val (CHR ''='') = None" by (simp add: std64_val_def b64_val_def Let_def)
  with std64_val_char [OF True] show ?thesis by (metis option.distinct(1))
next
  case False
  then show ?thesis by (simp add: std64_swap_def b64_char_def)
qed

lemma std64_char_visible: "visible (std64_swap (b64_char n))"
  using b64_char_visible [of n] by (auto simp: std64_swap_def visible_def)

lemma StdEncoding_visible: "list_all visible (StdEncoding_EncodeToString s)"
proof -
  have "list_all visible (map std64_swap (b64_encode s))"
    by (induction s rule: b64_encode.induct) (simp_all add: Let_def std64_char_visible)
  moreover have "visible (CHR ''='')" by (simp add: visible_def)
  ultimately show ?thesis by (auto simp: StdEncoding_EncodeToString_def list_all_iff)
qed

lemma TrimSpace_StdEncoding [simp]:
  "TrimSpace (StdEncoding_EncodeToString s) = StdEncoding_EncodeToString s"
  by (rule TrimSpace_all_visible) (rule StdEncoding_visible)

lemma b64_quads_std:
  "b64_quads std64_val True (StdEncoding_EncodeToString s) = Some s"
proof (induction s rule: b64_encode.induct)
  case (2 a)
  show ?case
    using regroup_4 [of 0 "of_char a"]
    by (simp add: StdEncoding_EncodeToString_def b64_last2_def b64_bytes_def std64_val_char b64_digit_bounds Let_def
        numeral_2_eq_2)
next
  case (3 a b)
  show ?case
    using regroup_4 [of "of_char b div 16" "of_char a"]
      regroup_16 [of "of_char b" 0 "of_char a mod 4"]
    by (simp add: StdEncoding_EncodeToString_def b64_last3_def b64_bytes_def std64_val_char std64_char_not_pad
        b64_digit_bounds byte_div_mod Let_def del: div_mult_self1 mod_mult_self1)
next
  case (4 a b c s)
  have "(of_char c :: nat) div 64 < 4"
    by (rule less_mult_imp_div_less) simp
  with 4 show ?case
    using regroup_4 [of "of_char b div 16" "of_char a"]
      regroup_16 [of "of_char b" "of_char c div 64" "of_char a mod 4"]
      regroup_64 [of "of_char c" "of_char b mod 16"]
    by (simp add: StdEncoding_EncodeToString_def b64_bytes_def std64_val_char std64_char_not_pad
        b64_digit_bounds byte_div_mod Let_def)
qed (simp add: StdEncoding_EncodeToString_def)

lemma StdEncoding_decode_encode [simp]:
  "StdEncoding_DecodeString (StdEncoding_EncodeToString s) = Some s"
proof -
  have "filter (\<lambda>c. c \<noteq> char_of (10::nat) \<and> c \<noteq> char_of (13::nat)) (StdEncoding_EncodeToString s)
        = StdEncoding_EncodeToString s"
    using StdEncoding_visible [of s] by (auto simp: filter_id_conv list_all_iff dest: visible_not_break)
  then show ?thesis by (simp add: StdEncoding_DecodeString_def base64_DecodeString_def b64_quads_std)
qed

end
