(* ===== verification/Solana_Decode.thy ===== *)
theory Solana_Decode
  imports Solana_Authority Guard_Findings Go_Base64
begin

text \<open>
  From the parsed message to the decoded transaction: the instructions of the system and token
  programs (\<^verbatim>\<open>handlers/transaction_guard_v3_instructions.go\<close>), the account addresses and the totals
  (\<^verbatim>\<open>rebuildTransactionGuardV3DecodedInstructions\<close>) and the entry point
  \<^verbatim>\<open>decodeTransactionGuardV3\<close> of \<^verbatim>\<open>handlers/transaction_guard_v3_decode.go\<close>. A classified
  instruction appends to the lists of the output, so the classifiers take and return it. An
  instruction whose indexes leave the account range ends the rebuild with an error and the
  instructions decoded so far.
\<close>

subsection \<open>Instructions\<close>

type_synonym dtx = transactionGuardDecodedTransaction

definition add_sol :: "transactionGuardDecodedSOLTransfer \<Rightarrow> dtx \<Rightarrow> dtx" where
  "add_sol t d = d\<lparr>dt_SOLTransfers := dt_SOLTransfers d @ [t]\<rparr>"

definition add_operation :: "transactionGuardDecodedTokenOperation \<Rightarrow> dtx \<Rightarrow> dtx" where
  "add_operation t d = d\<lparr>dt_TokenOperations := dt_TokenOperations d @ [t]\<rparr>"

definition classifyTransactionGuardV3SystemInstruction ::
  "string list \<Rightarrow> string \<Rightarrow> dtx \<Rightarrow> string \<times> dtx" where
  "classifyTransactionGuardV3SystemInstruction accounts data d =
     (if length data < 4 then (''system_unparsed'', d) else
      let opcode = uint_le (take 4 data) in
      if opcode = 0 then
        (if length data < 52 \<or> length accounts < 2 then (''system_create_account_unparsed'', d)
         else (''system_create_account'', add_sol
           \<lparr>st_Kind = ''create_account'', st_Source = accounts ! 0, st_Recipient = accounts ! 1,
            st_Lamports = show_nat (uint_le (slice_of 4 12 data)),
            st_Owner = guardV3Base58Encode (slice_of 20 52 data),
            st_SpaceBytes = show_nat (uint_le (slice_of 12 20 data))\<rparr> d))
      else if opcode = 2 then
        (if length data < 12 \<or> length accounts < 2 then (''system_transfer_unparsed'', d)
         else (''system_transfer'', add_sol
           \<lparr>st_Kind = ''transfer'', st_Source = accounts ! 0, st_Recipient = accounts ! 1,
            st_Lamports = show_nat (uint_le (slice_of 4 12 data)), st_Owner = [], st_SpaceBytes = []\<rparr> d))
      else (''system_instruction_'' @ show_nat opcode, d))"

definition amount_at :: "nat \<Rightarrow> string \<Rightarrow> string" where
  "amount_at i data = show_nat (uint_le (slice_of i (i + 8) data))"

definition token_operation :: "string \<Rightarrow> string list \<Rightarrow> string \<Rightarrow> string + transactionGuardDecodedTokenOperation" where
  "token_operation programID accounts data =
     (let opcode = byte_of (hd data); operation = empty_operation\<lparr>to_ProgramID := programID\<rparr> in
      if opcode = 3 then
        (if length data < 9 \<or> length accounts < 3 then Inl ''token_transfer_unparsed''
         else Inr (operation\<lparr>to_Kind := ''transfer'', to_Source := accounts ! 0, to_Destination := accounts ! 1,
           to_Authority := accounts ! 2, to_AmountRaw := amount_at 1 data\<rparr>))
      else if opcode = 8 then
        (if length data < 9 \<or> length accounts < 3 then Inl ''token_burn_unparsed''
         else Inr (operation\<lparr>to_Kind := ''burn'', to_Account := accounts ! 0, to_Mint := accounts ! 1,
           to_Authority := accounts ! 2, to_AmountRaw := amount_at 1 data\<rparr>))
      else if opcode = 9 then
        (if length accounts < 3 then Inl ''token_close_account_unparsed''
         else Inr (operation\<lparr>to_Kind := ''close_account'', to_Account := accounts ! 0,
           to_Destination := accounts ! 1, to_Authority := accounts ! 2\<rparr>))
      else if opcode = 10 then
        (if length accounts < 3 then Inl ''token_freeze_account_unparsed''
         else Inr (operation\<lparr>to_Kind := ''freeze_account'', to_Account := accounts ! 0, to_Mint := accounts ! 1,
           to_Authority := accounts ! 2\<rparr>))
      else if opcode = 11 then
        (if length accounts < 3 then Inl ''token_thaw_account_unparsed''
         else Inr (operation\<lparr>to_Kind := ''thaw_account'', to_Account := accounts ! 0, to_Mint := accounts ! 1,
           to_Authority := accounts ! 2\<rparr>))
      else if opcode = 12 then
        (if length data < 10 \<or> length accounts < 4 then Inl ''token_transfer_checked_unparsed''
         else Inr (operation\<lparr>to_Kind := ''transfer_checked'', to_Source := accounts ! 0, to_Mint := accounts ! 1,
           to_Destination := accounts ! 2, to_Authority := accounts ! 3, to_AmountRaw := amount_at 1 data,
           to_Decimals := Some (byte_of (data ! 9))\<rparr>))
      else if opcode = 15 then
        (if length data < 10 \<or> length accounts < 3 then Inl ''token_burn_checked_unparsed''
         else Inr (operation\<lparr>to_Kind := ''burn_checked'', to_Account := accounts ! 0, to_Mint := accounts ! 1,
           to_Authority := accounts ! 2, to_AmountRaw := amount_at 1 data,
           to_Decimals := Some (byte_of (data ! 9))\<rparr>))
      else Inl (''token_instruction_'' @ show_nat opcode))"

definition plain_token :: "string \<Rightarrow> string list \<Rightarrow> string \<Rightarrow> dtx \<Rightarrow> string \<times> dtx" where
  "plain_token programID accounts data d =
     (case token_operation programID accounts data of
        Inl kind \<Rightarrow> (kind, d)
      | Inr operation \<Rightarrow> (''token_'' @ to_Kind operation, add_operation operation d))"

definition authority_operation :: "string \<Rightarrow> transactionGuardAuthorityEvent \<Rightarrow> dtx \<Rightarrow> dtx" where
  "authority_operation programID event d =
     (case guardV3DecodedTokenOperationFromAuthorityEvent event of
        Some operation \<Rightarrow> add_operation operation d
      | None \<Rightarrow>
          if ev_Kind event = ''transfer_checked_with_fee'' then
            add_operation (empty_operation\<lparr>to_Kind := ''transfer_checked'', to_ProgramID := programID,
              to_Source := ev_Source event, to_Destination := ev_Destination event, to_Mint := ev_Mint event,
              to_Authority := ev_CurrentAuthority event, to_AmountRaw := ev_AmountRaw event,
              to_Decimals := ev_Decimals event\<rparr>) d
          else d)"

definition classifyTransactionGuardV3TokenInstruction ::
  "string \<Rightarrow> string list \<Rightarrow> string \<Rightarrow> dtx \<Rightarrow> string \<times> dtx" where
  "classifyTransactionGuardV3TokenInstruction programID accounts data d =
     (if data = [] then (''token_unparsed'', d)
      else if guardV3AuthorityOpcode (byte_of (hd data)) then
        (case decodeTransactionGuardV3AuthorityEvent
           \<lparr>ai_Source = ''decoded'', ai_Index = 0, ai_InnerSequence = 0, ai_ParentProgramID = [],
            ai_ProgramID = programID, ai_Accounts = accounts, ai_Data = data\<rparr> of (event, relevant, err) \<Rightarrow>
         if err \<noteq> None then (''token_authority_instruction_unparsed'', d)
         else if relevant then (''token_'' @ ev_Kind event, authority_operation programID event d)
         else plain_token programID accounts data d)
      else plain_token programID accounts data d)"

definition classifyTransactionGuardV3Instruction ::
  "string \<Rightarrow> string list \<Rightarrow> string \<Rightarrow> dtx \<Rightarrow> string \<times> dtx" where
  "classifyTransactionGuardV3Instruction programID accounts data d =
     (if programID = guardV3SystemProgramID then classifyTransactionGuardV3SystemInstruction accounts data d
      else if programID = guardV3SPLTokenProgramID \<or> programID = guardV3Token2022ProgramID
      then classifyTransactionGuardV3TokenInstruction programID accounts data d
      else (''unclassified'', d))"

subsection \<open>Addresses\<close>

definition guardV3LookupPlaceholder :: "nat \<Rightarrow> nat \<Rightarrow> nat \<Rightarrow> string" where
  "guardV3LookupPlaceholder index staticCount loadedWritable =
     (if index < staticCount then ''unresolved-account:'' @ show_nat index
      else if index - staticCount < loadedWritable then ''lookup-writable:'' @ show_nat (index - staticCount)
      else ''lookup-readonly:'' @ show_nat (index - staticCount - loadedWritable))"

text \<open>\<^verbatim>\<open>index < len(xs) && strings.TrimSpace(xs[index]) != ""\<close>.\<close>

definition known_address :: "string list \<Rightarrow> nat \<Rightarrow> bool" where
  "known_address xs index \<longleftrightarrow> index < length xs \<and> TrimSpace (xs ! index) \<noteq> []"

definition transactionGuardV3AccountAddress :: "dtx \<Rightarrow> nat \<Rightarrow> string \<times> bool" where
  "transactionGuardV3AccountAddress d index =
     (let static = length (dt_staticAddresses d);
          placeholder = guardV3LookupPlaceholder index static (dt_LoadedWritableCount d) in
      if index < static then (dt_staticAddresses d ! index, True)
      else let loadedIndex = index - static in
      if loadedIndex < dt_LoadedWritableCount d then
        (if known_address (dt_loadedWritableAddresses d) loadedIndex
         then (dt_loadedWritableAddresses d ! loadedIndex, True) else (placeholder, False))
      else let readonlyIndex = loadedIndex - dt_LoadedWritableCount d in
      if readonlyIndex < dt_LoadedReadonlyCount d then
        (if known_address (dt_loadedReadonlyAddresses d) readonlyIndex
         then (dt_loadedReadonlyAddresses d ! readonlyIndex, True) else (placeholder, False))
      else (''unresolved-account:'' @ show_nat index, False))"

subsection \<open>Rebuilding\<close>

definition loaded_account :: "nat \<Rightarrow> nat \<Rightarrow> string list \<Rightarrow> nat \<Rightarrow> bool \<Rightarrow> nat \<Rightarrow> transactionGuardDecodedAccount" where
  "loaded_account staticCount loadedWritable addresses base writable index =
     \<lparr>da_Index = base + index,
      da_Address = (if known_address addresses index then addresses ! index
                    else guardV3LookupPlaceholder (base + index) staticCount loadedWritable),
      da_Signer = False, da_Writable = writable, da_Source = ''address_lookup_table''\<rparr>"

definition resetDecoded :: "string list \<Rightarrow> dtx \<Rightarrow> dtx" where
  "resetDecoded staticAddresses d = d\<lparr>
     dt_Instructions := [], dt_ProgramIDs := [], dt_SOLTransfers := [], dt_TokenOperations := [],
     dt_LoadedAccounts :=
       map (loaded_account (length staticAddresses) (dt_LoadedWritableCount d) (dt_loadedWritableAddresses d)
              (length staticAddresses) True) [0 ..< dt_LoadedWritableCount d] @
       map (loaded_account (length staticAddresses) (dt_LoadedWritableCount d) (dt_loadedReadonlyAddresses d)
              (length staticAddresses + dt_LoadedWritableCount d) False) [0 ..< dt_LoadedReadonlyCount d],
     dt_ExplicitSOLTransferLamports := ''0'', dt_DeclaredWalletSOLSpend := []\<rparr>"

definition outside_error :: "nat \<Rightarrow> string \<Rightarrow> nat \<Rightarrow> nat \<Rightarrow> go_error" where
  "outside_error index what i totalAccounts =
     ErrMsg (''instruction '' @ show_nat index @ '' references '' @ what @ '' index '' @ show_nat i @
             '' outside '' @ show_nat totalAccounts @ '' accounts'')"

fun resolveAccounts :: "dtx \<Rightarrow> nat \<Rightarrow> nat \<Rightarrow> nat list \<Rightarrow> go_error + string list" where
  "resolveAccounts d index totalAccounts [] = Inr []"
| "resolveAccounts d index totalAccounts (i # is) =
     (if totalAccounts \<le> i then Inl (outside_error index ''account'' i totalAccounts)
      else bindE (resolveAccounts d index totalAccounts is)
             (\<lambda>as. Inr (fst (transactionGuardV3AccountAddress d i) # as)))"

definition rebuildInstruction ::
  "nat \<Rightarrow> nat \<Rightarrow> guardV3ParsedInstruction \<Rightarrow> dtx \<Rightarrow> go_error + (string \<times> bool) \<times> dtx" where
  "rebuildInstruction totalAccounts index p d =
     (if totalAccounts \<le> gp_ProgramIndex p
      then Inl (outside_error index ''program'' (gp_ProgramIndex p) totalAccounts)
      else case transactionGuardV3AccountAddress d (gp_ProgramIndex p) of (program, resolved) \<Rightarrow>
        bindE (resolveAccounts d index totalAccounts (gp_AccountIndexes p)) (\<lambda>accounts.
          case (if resolved then classifyTransactionGuardV3Instruction program accounts (gp_Data p) d
                else (''unresolved_program'', d)) of (kind, d') \<Rightarrow>
          Inr ((program, resolved), d'\<lparr>dt_Instructions := dt_Instructions d' @
            [\<lparr>di_Index = index, di_ProgramID = program, di_ProgramResolved = resolved,
              di_AccountIndexes = gp_AccountIndexes p, di_Accounts = accounts,
              di_DataLength = length (gp_Data p), di_DataPrefixHex = hex_encode (take 16 (gp_Data p)),
              di_Kind = kind\<rparr>]\<rparr>)))"

text \<open>The program set is kept as the list of the resolved programs in order of occurrence.\<close>

fun rebuildInstructions ::
  "nat \<Rightarrow> nat \<Rightarrow> guardV3ParsedInstruction list \<Rightarrow> string list \<Rightarrow> dtx \<Rightarrow> (go_error + string list) \<times> dtx" where
  "rebuildInstructions totalAccounts index [] programs d = (Inr programs, d)"
| "rebuildInstructions totalAccounts index (p # ps) programs d =
     (case rebuildInstruction totalAccounts index p d of
        Inl e \<Rightarrow> (Inl e, d)
      | Inr ((program, resolved), d') \<Rightarrow>
          rebuildInstructions totalAccounts (Suc index) ps
            (if resolved then programs @ [program] else programs) d')"

fun sum_lamports :: "(transactionGuardDecodedSOLTransfer \<Rightarrow> bool) \<Rightarrow> transactionGuardDecodedSOLTransfer list \<Rightarrow> int" where
  "sum_lamports P [] = 0"
| "sum_lamports P (t # ts) =
     (case SetString 10 (st_Lamports t) of
        None \<Rightarrow> sum_lamports P ts
      | Some amount \<Rightarrow> (if P t then amount else 0) + sum_lamports P ts)"

definition wallet_source :: "string \<Rightarrow> transactionGuardDecodedSOLTransfer \<Rightarrow> bool" where
  "wallet_source wallet t \<longleftrightarrow> wallet \<noteq> [] \<and> EqualFold wallet (st_Source t)"

definition totalSOLTransfers :: "dtx \<Rightarrow> dtx" where
  "totalSOLTransfers d = d\<lparr>
     dt_ExplicitSOLTransferLamports := int_text 10 (sum_lamports (\<lambda>_. True) (dt_SOLTransfers d)),
     dt_DeclaredWalletSOLSpend :=
       (if dt_declaredWallet d = [] then dt_DeclaredWalletSOLSpend d
        else int_text 10 (sum_lamports (wallet_source (dt_declaredWallet d)) (dt_SOLTransfers d)))\<rparr>"

definition rebuildTransactionGuardV3DecodedInstructions :: "(dtx, unit) io" where
  "rebuildTransactionGuardV3DecodedInstructions d0 =
     (let staticAddresses =
        (if dt_staticAddresses d0 = [] \<and> dt_StaticAccounts d0 \<noteq> []
         then map da_Address (dt_StaticAccounts d0) else dt_staticAddresses d0);
        d1 = resetDecoded staticAddresses d0;
        totalAccounts = length staticAddresses + dt_LoadedWritableCount d0 + dt_LoadedReadonlyCount d0 in
      case rebuildInstructions totalAccounts 0 (dt_parsedInstructions d1) [] d1 of
        (Inl e, d2) \<Rightarrow> (Inl e, d2)
      | (Inr programs, d2) \<Rightarrow>
          (Inr (), totalSOLTransfers (d2\<lparr>dt_ProgramIDs := sort (remdups programs)\<rparr>)))"

subsection \<open>Findings on the decoded instructions\<close>

definition operation_findings :: "transactionGuardDecodedTokenOperation \<Rightarrow> transactionFirewallFinding list" where
  "operation_findings t =
     (if to_Kind t = ''approve'' \<or> to_Kind t = ''approve_checked'' then
        [finding ''decoded_delegate_approval'' ''info'' ''Token delegate approval decoded''
          (''source='' @ to_Source t @ '' delegate='' @ to_Delegate t @ '' amount_raw='' @ to_AmountRaw t) 0]
      else if to_Kind t = ''set_authority'' then
        [finding ''decoded_authority_change'' ''info'' ''Token authority change decoded''
          (''account='' @ to_Account t @ '' authority_type='' @
             (case to_AuthorityType t of None \<Rightarrow> ''-1'' | Some n \<Rightarrow> show_nat n) @
             '' new_authority='' @ to_NewAuthority t) 0]
      else if to_Kind t = ''close_account'' then
        [finding ''decoded_close_account'' ''medium'' ''Token account closure decoded''
          (''account='' @ to_Account t @ '' rent_destination='' @ to_Destination t) 20]
      else if to_Kind t = ''freeze_account'' then
        [finding ''decoded_freeze_account'' ''high'' ''Token account freeze decoded''
          (''account='' @ to_Account t @ '' mint='' @ to_Mint t @ '' authority='' @ to_Authority t) 30]
      else if to_Kind t = ''burn'' \<or> to_Kind t = ''burn_checked'' then
        [finding ''decoded_token_burn'' ''medium'' ''Token burn decoded''
          (''account='' @ to_Account t @ '' mint='' @ to_Mint t @ '' amount_raw='' @ to_AmountRaw t) 15]
      else [])"

definition sol_finding :: "transactionGuardDecodedSOLTransfer \<Rightarrow> transactionFirewallFinding" where
  "sol_finding t = finding ''decoded_sol_transfer'' ''info'' ''Explicit SOL movement decoded''
     (st_Source t @ '' sends '' @ st_Lamports t @ '' lamports to '' @ st_Recipient t @ '' via '' @ st_Kind t @ ''.'') 0"

definition transactionGuardV3InstructionFindings :: "dtx \<Rightarrow> transactionFirewallFinding list" where
  "transactionGuardV3InstructionFindings d =
     uniqueGuardV3Findings
       (map sol_finding (dt_SOLTransfers d) @ concat (map operation_findings (dt_TokenOperations d)))"

subsection \<open>The entry point\<close>

definition onOut :: "(dtx, 'a) io \<Rightarrow> 'a wire" where
  "onOut m s = (case m (ws_out s) of (r, d) \<Rightarrow> (r, s\<lparr>ws_out := d\<rparr>))"

definition parseTransactionGuardV3 :: "string \<Rightarrow> string \<Rightarrow> (dtx, unit) io" where
  "parseTransactionGuardV3 raw wallet d =
     (case bindIO (parse_message wallet) (\<lambda>_. onOut rebuildTransactionGuardV3DecodedInstructions)
             \<lparr>ws_rest = raw, ws_out = d\<rparr> of (r, s) \<Rightarrow> (r, ws_out s))"

definition guardV3UnresolvedLookupLimitation :: string where
  "guardV3UnresolvedLookupLimitation = ''Versioned address-table accounts were counted but not resolved; recipient and program coverage is incomplete until lookup tables are fetched.''"

definition newDecoded :: dtx where
  "newDecoded =
     \<lparr>dt_Available = False, dt_Complete = False, dt_Status = ''decode_failed'', dt_Version = [],
      dt_SignatureCount = 0, dt_RequiredSignatureCount = 0, dt_FeePayer = [], dt_StaticAccountCount = 0,
      dt_AddressLookupCount = 0, dt_LoadedWritableCount = 0, dt_LoadedReadonlyCount = 0,
      dt_UnresolvedLookupAccountCount = 0, dt_StaticAccounts = [], dt_LoadedAccounts = [], dt_LookupTables = [],
      dt_ProgramIDs = [], dt_Instructions = [], dt_SOLTransfers = [], dt_TokenOperations = [],
      dt_ExplicitSOLTransferLamports = [], dt_DeclaredWalletSOLSpend = [], dt_Limitations = [],
      dt_staticAddresses = [], dt_parsedInstructions = [], dt_loadedWritableAddresses = [],
      dt_loadedReadonlyAddresses = [], dt_declaredWallet = []\<rparr>"

definition decodeTransactionGuardV3 ::
  "string \<Rightarrow> string \<Rightarrow> string \<Rightarrow> dtx \<times> transactionFirewallFinding list" where
  "decodeTransactionGuardV3 transaction encoding wallet =
     (if ToLower (TrimSpace encoding) \<noteq> ''base64'' then
        (newDecoded, [finding ''transaction_decode_unsupported_encoding'' ''high''
           ''Serialized transaction could not be decoded'' ''Transaction Guard v3 requires base64 transaction bytes.'' 30])
      else case StdEncoding_DecodeString (TrimSpace transaction) of
        None \<Rightarrow>
          (newDecoded, [finding ''transaction_decode_failed'' ''high''
             ''Serialized transaction could not be decoded'' ''Invalid base64 transaction payload.'' 30])
      | Some raw \<Rightarrow>
          (case parseTransactionGuardV3 raw (TrimSpace wallet) newDecoded of
             (Inl err, d) \<Rightarrow>
               (d\<lparr>dt_Limitations := dt_Limitations d @ [Error err]\<rparr>,
                [finding ''transaction_decode_failed'' ''high'' ''Serialized transaction structure is invalid''
                   (compactGuardV3Evidence (Error err)) 30])
           | (Inr _, d0) \<Rightarrow>
               let complete = (dt_UnresolvedLookupAccountCount d0 = 0);
                   d = d0\<lparr>dt_Available := True, dt_Complete := complete,
                          dt_Status := (if complete then ''complete'' else ''complete_with_unresolved_address_lookups''),
                          dt_Limitations := dt_Limitations d0 @
                            (if complete then [] else [guardV3UnresolvedLookupLimitation]) @
                            [''Decoded amounts cover explicit outer instructions only; CPI transfers, rent changes and the network fee require simulation balance deltas.'',
                             ''A decoded transfer is factual transaction intent and is not, by itself, a maliciousness finding.'']\<rparr>;
                   unresolved = (if complete then [] else
                     [finding ''transaction_address_lookup_unresolved'' ''high''
                        ''Versioned address-table accounts are unresolved''
                        (show_nat (dt_UnresolvedLookupAccountCount d) @ '' loaded account(s) across '' @
                         show_nat (dt_AddressLookupCount d) @ '' lookup table(s) require RPC resolution.'') 30])
               in (d, uniqueGuardV3Findings (unresolved @ transactionGuardV3InstructionFindings d))))"

end
