(* ===== verification/Solana_Wire_Sound.thy ===== *)
theory Solana_Wire_Sound
  imports Solana_Decode
begin

text \<open>
  The wire format as a grammar, and the proof that the parser accepts exactly its sentences. A
  message is \<open>solana_message\<close>; \<open>wire_message\<close> relates it to its bytes, with any encoding of a
  compact length the reader accepts (it also accepts encodings longer than the shortest);
  \<open>message_ok\<close> are the limits of the format and of the code. \<open>parse_message_exact\<close> says that
  the parser succeeds exactly on the encodings of well-formed messages, consumes every byte and
  records what \<open>message_image\<close> says.
\<close>

unbundle bit_operations_syntax

subsection \<open>Bytes\<close>

lemma byte_of_less [simp]: "byte_of c < 256"
  by (simp add: byte_of_def)

lemma byte_of_char_of: "n < 256 \<Longrightarrow> byte_of (char_of n) = n"
  by (simp add: byte_of_def)

lemma char_of_byte_of [simp]: "char_of (byte_of c) = c"
  by (simp add: byte_of_def)

lemma and_7F: "n AND 0x7F = n mod 128" for n :: nat
proof -
  have "(0x7F :: nat) = mask 7" by (simp add: mask_eq_exp_minus_1)
  then have "n AND 0x7F = take_bit 7 n" by (simp only: take_bit_eq_mask)
  then show ?thesis by (simp add: take_bit_eq_mod)
qed

lemma and_80: "n < 256 \<Longrightarrow> n AND 0x80 = 0 \<longleftrightarrow> n < 128" for n :: nat
proof -
  assume n: "n < 256"
  have "(0x80 :: nat) = 2 ^ 7" by simp
  then have "(n AND 0x80 = 0) = (\<not> bit n 7)" by (simp only: and_exp_eq_0_iff_not_bit)
  moreover have "bit n 7 \<longleftrightarrow> odd (n div 128)" by (simp add: bit_iff_odd)
  moreover have "odd (n div 128) \<longleftrightarrow> 128 \<le> n"
  proof (cases "128 \<le> n")
    case True
    with n have "n div 128 = 1" by (simp add: div_nat_eqI)
    with True show ?thesis by simp
  qed simp
  ultimately show ?thesis by auto
qed

lemma marker_byte: "byte_of c AND 0x80 \<noteq> 0 \<and> byte_of c AND 0x7F = 0 \<longleftrightarrow> c = char_of (128 :: nat)"
proof -
  have "byte_of c AND 0x80 \<noteq> 0 \<and> byte_of c AND 0x7F = 0 \<longleftrightarrow> byte_of c = 128"
    by (simp add: and_80 and_7F) (use byte_of_less [of c] in presburger)
  also have "\<dots> \<longleftrightarrow> c = char_of (128 :: nat)"
    using byte_of_char_of [of 128] by (metis char_of_byte_of numeral_less_iff semiring_norm(76,78))
  finally show ?thesis .
qed

subsection \<open>Compact lengths\<close>

definition short_form :: "nat \<Rightarrow> string \<Rightarrow> bool" where
  "short_form n s \<longleftrightarrow> (\<forall>rest. shortVecLoop 4 0 0 (s @ rest) = (Inr n, rest))"

lemma shortVecLoop_prefix:
  "shortVecLoop k a sh r = (Inr n, rest) \<Longrightarrow>
   \<exists>s. r = s @ rest \<and> (\<forall>rest'. shortVecLoop k a sh (s @ rest') = (Inr n, rest'))"
proof (induction k a sh r rule: shortVecLoop.induct)
  case (3 k a sh c r)
  show ?case
  proof (cases "byte_of c AND 0x80 = 0")
    case True
    with "3.prems" show ?thesis by (intro exI [of _ "[c]"]) (simp add: Let_def)
  next
    case False
    with "3.prems" have "shortVecLoop k (a OR push_bit sh (byte_of c AND 0x7F)) (sh + 7) r = (Inr n, rest)"
      by (simp add: Let_def)
    from "3.IH" [OF refl False this] obtain s where
      s: "r = s @ rest" "\<forall>rest'. shortVecLoop k (a OR push_bit sh (byte_of c AND 0x7F)) (sh + 7) (s @ rest') = (Inr n, rest')"
      by (elim exE conjE)
    from s False show ?thesis by (intro exI [of _ "c # s"]) (simp add: Let_def)
  qed
qed simp_all

lemma read_short: "shortVecLoop 4 0 0 r = (Inr n, rest) \<longleftrightarrow> (\<exists>s. short_form n s \<and> r = s @ rest)"
  using shortVecLoop_prefix [of 4 0 0 r n rest] by (auto simp: short_form_def)

text \<open>The shortest encoding of a length below \<open>2 ^ 28\<close>.\<close>

fun put_short :: "nat \<Rightarrow> nat \<Rightarrow> string" where
  "put_short 0 n = [char_of n]"
| "put_short (Suc k) n =
     (if n < 128 then [char_of n] else char_of (128 + n mod 128) # put_short k (n div 128))"

lemma or_push: "a < 2 ^ sh \<Longrightarrow> a OR push_bit sh b = a + b * 2 ^ sh" for a b :: nat
proof -
  assume a: "a < 2 ^ sh"
  have "a AND push_bit sh b = 0"
  proof (rule bit_eqI)
    fix n
    have "\<not> (bit a n \<and> sh \<le> n)"
    proof
      assume "bit a n \<and> sh \<le> n"
      then have "take_bit sh a \<noteq> a" by (metis bit_take_bit_iff not_less)
      with a show False by (simp add: take_bit_nat_eq_self_iff)
    qed
    then show "bit (a AND push_bit sh b) n = bit 0 n"
      by (auto simp: bit_and_iff bit_push_bit_iff)
  qed
  then have "a OR push_bit sh b = a + push_bit sh b" by (simp add: disjunctive_add_eq_or)
  then show ?thesis by (simp add: push_bit_eq_mult)
qed

lemma put_short_read:
  "n < 128 ^ Suc k \<Longrightarrow> a < 2 ^ sh \<Longrightarrow>
   shortVecLoop (Suc k) a sh (put_short k n @ rest) = (Inr (a + n * 2 ^ sh), rest)"
proof (induction k arbitrary: n a sh)
  case 0
  then show ?case by (simp add: byte_of_char_of and_80 and_7F or_push Let_def)
next
  case (Suc k)
  show ?case
  proof (cases "n < 128")
    case True
    with Suc.prems show ?thesis by (simp add: byte_of_char_of and_80 and_7F or_push Let_def)
  next
    case False
    let ?b = "128 + n mod 128"
    have b: "byte_of (char_of ?b) = ?b" by (rule byte_of_char_of) simp
    have d: "n div 128 < 128 ^ Suc k" using Suc.prems by (simp add: div_less_iff_less_mult mult.commute)
    have "(n mod 128) * 2 ^ sh \<le> 127 * 2 ^ sh" by (rule mult_le_mono1) simp
    moreover have p: "(2 :: nat) ^ (sh + 7) = 128 * 2 ^ sh" by (simp add: power_add)
    ultimately have a: "a + (n mod 128) * 2 ^ sh < 2 ^ (sh + 7)" using Suc.prems(2) by linarith
    have "a + (n mod 128) * 2 ^ sh + n div 128 * 2 ^ (sh + 7) = a + (128 * (n div 128) + n mod 128) * 2 ^ sh"
      by (simp only: p distrib_right distrib_left ac_simps)
    also have "\<dots> = a + n * 2 ^ sh" by (simp only: mult_div_mod_eq)
    finally have n: "a + (n mod 128) * 2 ^ sh + n div 128 * 2 ^ (sh + 7) = a + n * 2 ^ sh" .
    have ge: "byte_of (char_of ?b) AND 0x80 \<noteq> 0" by (simp add: b and_80)
    have m: "byte_of (char_of ?b) AND 0x7F = n mod 128" by (simp add: b and_7F)
    show ?thesis
      using False Suc.IH [OF d a] Suc.prems(2)
      by (simp only: put_short.simps if_False append_Cons shortVecLoop.simps Let_def ge m or_push n)
  qed
qed

lemma put_short_form: "n < 2 ^ 28 \<Longrightarrow> short_form n (put_short 3 n)"
proof -
  assume n: "n < 2 ^ 28"
  have "(2 :: nat) ^ 28 = 128 ^ Suc 3" and four: "(4 :: nat) = Suc 3" by simp_all
  with n put_short_read [of n 3 0 0] show ?thesis unfolding short_form_def four by simp
qed

subsection \<open>Steps of the reader\<close>

text \<open>What a successful step reads and leaves, for every step: the rules the blocks are taken apart with.\<close>

named_theorems wire_steps \<open>successful steps of the transaction reader\<close>

abbreviation at_bytes :: "string \<Rightarrow> dtx \<Rightarrow> wire_state" where
  "at_bytes r d \<equiv> \<lparr>ws_rest = r, ws_out = d\<rparr>"

lemma ex_wire_state: "(\<exists>u. P u) \<longleftrightarrow> (\<exists>r d. P (at_bytes r d))"
  by (metis wire_state.surjective old.unit.exhaust)

lemma bind_wire [wire_steps]:
  "bindIO m k s = (Inr y, t) \<longleftrightarrow> (\<exists>x r d. m s = (Inr x, at_bytes r d) \<and> k x (at_bytes r d) = (Inr y, t))"
  by (simp add: bindIO_Inr ex_wire_state)

lemma modifyOut_wire [wire_steps]: "modifyOut f (at_bytes r d) = (Inr x, at_bytes r' d') \<longleftrightarrow> r' = r \<and> d' = f d"
  by (auto simp: modifyOut_def)

lemma bytesLeft_wire [wire_steps]:
  "bytesLeft (at_bytes r d) = (Inr n, at_bytes r' d') \<longleftrightarrow> n = length r \<and> r' = r \<and> d' = d"
  by (auto simp: bytesLeft_def)

lemma peekByte_wire [wire_steps]:
  "peekByte (at_bytes r d) = (Inr b, at_bytes r' d') \<longleftrightarrow> b = byte_of (hd r) \<and> r' = r \<and> d' = d"
  by (auto simp: peekByte_def)

lemma readOut_wire [wire_steps]:
  "readOut f (at_bytes r d) = (Inr x, at_bytes r' d') \<longleftrightarrow> x = f d \<and> r' = r \<and> d' = d"
  by (auto simp: readOut_def)

lemma takeBytes_wire [wire_steps]:
  "takeBytes n e (at_bytes r d) = (Inr x, at_bytes r' d') \<longleftrightarrow> length x = n \<and> r = x @ r' \<and> d' = d"
  by (auto simp: takeBytes_def)

lemma shortVec_wire [wire_steps]:
  "shortVec what (at_bytes r d) = (Inr n, at_bytes r' d') \<longleftrightarrow> (\<exists>p. short_form n p \<and> r = p @ r') \<and> d' = d"
  by (auto simp: shortVec_def readGuardV3ShortVec_def mapError_Inr read_short split: prod.splits)
     (auto simp: short_form_def)

lemma guard_wire [wire_steps]:
  "guardIO b e (at_bytes r d) = (Inr x, at_bytes r' d') \<longleftrightarrow> b \<and> r' = r \<and> d' = d"
  by (auto simp: guardIO_Inr)

lemma return_wire [wire_steps]:
  "returnIO x (at_bytes r d) = (Inr y, at_bytes r' d') \<longleftrightarrow> y = x \<and> r' = r \<and> d' = d"
  by auto

text \<open>The same steps forwards: running them on bytes that begin with what they read.\<close>

named_theorems wire_runs \<open>steps of the transaction reader on matching bytes\<close>

lemma bind_run [wire_runs]: "bindIO m k s = (case m s of (Inl e, t) \<Rightarrow> (Inl e, t) | (Inr x, t) \<Rightarrow> k x t)"
  by (rule bindIO_def)

lemma take_run [wire_runs]: "length x = n \<Longrightarrow> takeBytes n e (at_bytes (x @ r) d) = (Inr x, at_bytes r d)"
  by (simp add: takeBytes_wire)

lemma take_all_run: "length x = n \<Longrightarrow> takeBytes n e (at_bytes x d) = (Inr x, at_bytes [] d)"
  by (simp add: takeBytes_wire)

lemma take_one_run [wire_runs]: "takeBytes (Suc 0) e (at_bytes (c # r) d) = (Inr [c], at_bytes r d)"
  by (simp add: takeBytes_wire)

lemma short_run [wire_runs]: "short_form n p \<Longrightarrow> shortVec what (at_bytes (p @ r) d) = (Inr n, at_bytes r d)"
  by (auto simp: shortVec_wire)

lemma modify_run [wire_runs]: "modifyOut f (at_bytes r d) = (Inr (), at_bytes r (f d))"
  and left_run [wire_runs]: "bytesLeft (at_bytes r d) = (Inr (length r), at_bytes r d)"
  and guard_run [wire_runs]: "b \<Longrightarrow> guardIO b e s = (Inr (), s)"
  and return_run [wire_runs]: "returnIO x s = (Inr x, s)"
  by (simp_all add: modifyOut_wire bytesLeft_wire guardIO_Inr)

subsection \<open>The grammar\<close>

record solana_message =
  sm_Signatures :: "string list"
  sm_Versioned :: bool
  sm_Required :: nat
  sm_ReadonlySigned :: nat
  sm_ReadonlyUnsigned :: nat
  sm_Keys :: "string list"
  sm_Blockhash :: string
  sm_Instructions :: "guardV3ParsedInstruction list"
  sm_Lookups :: "(string \<times> nat list \<times> nat list) list"

inductive wire_list :: "('a \<Rightarrow> string \<Rightarrow> bool) \<Rightarrow> 'a list \<Rightarrow> string \<Rightarrow> bool" for form where
  wire_Nil: "wire_list form [] []"
| wire_Cons: "form x a \<Longrightarrow> wire_list form xs s \<Longrightarrow> wire_list form (x # xs) (a @ s)"

inductive_simps wire_list_Nil [simp]: "wire_list form [] s"
inductive_simps wire_list_Cons: "wire_list form (x # xs) s"

definition instruction_ok :: "guardV3ParsedInstruction \<Rightarrow> bool" where
  "instruction_ok i \<longleftrightarrow> length (gp_AccountIndexes i) \<le> 256"

definition wire_instruction :: "guardV3ParsedInstruction \<Rightarrow> string \<Rightarrow> bool" where
  "wire_instruction i s \<longleftrightarrow>
     (\<exists>c p accounts q. byte_of c = gp_ProgramIndex i \<and> short_form (length (gp_AccountIndexes i)) p \<and>
        map byte_of accounts = gp_AccountIndexes i \<and> short_form (length (gp_Data i)) q \<and>
        s = [c] @ p @ accounts @ q @ gp_Data i)"

definition wire_lookup :: "string \<times> nat list \<times> nat list \<Rightarrow> string \<Rightarrow> bool" where
  "wire_lookup l s \<longleftrightarrow>
     (case l of (key, writable, readonly) \<Rightarrow>
       \<exists>p w q r. short_form (length writable) p \<and> map byte_of w = writable \<and>
         short_form (length readonly) q \<and> map byte_of r = readonly \<and> s = key @ p @ w @ q @ r)"

definition lookup_ok :: "string \<times> nat list \<times> nat list \<Rightarrow> bool" where
  "lookup_ok l \<longleftrightarrow> length (fst l) = 32"

definition loaded_writable :: "solana_message \<Rightarrow> nat" where
  "loaded_writable m = sum_list (map (\<lambda>(key, w, r). length w) (sm_Lookups m))"

definition loaded_readonly :: "solana_message \<Rightarrow> nat" where
  "loaded_readonly m = sum_list (map (\<lambda>(key, w, r). length r) (sm_Lookups m))"

definition account_count :: "solana_message \<Rightarrow> nat" where
  "account_count m = length (sm_Keys m) + (loaded_writable m + loaded_readonly m)"

definition message_ok :: "solana_message \<Rightarrow> bool" where
  "message_ok m \<longleftrightarrow>
     length (sm_Signatures m) \<le> 64 \<and> list_all (\<lambda>s. length s = 64) (sm_Signatures m) \<and>
     sm_Required m = length (sm_Signatures m) \<and>
     0 < length (sm_Keys m) \<and> length (sm_Keys m) \<le> 256 \<and> list_all (\<lambda>k. length k = 32) (sm_Keys m) \<and>
     sm_Required m \<le> length (sm_Keys m) \<and> sm_ReadonlySigned m \<le> sm_Required m \<and>
     sm_ReadonlyUnsigned m \<le> length (sm_Keys m) - sm_Required m \<and>
     length (sm_Blockhash m) = 32 \<and>
     length (sm_Instructions m) \<le> 256 \<and> list_all instruction_ok (sm_Instructions m) \<and>
     list_all lookup_ok (sm_Lookups m) \<and> (\<not> sm_Versioned m \<longrightarrow> sm_Lookups m = []) \<and>
     account_count m \<le> 256"

definition wire_message :: "solana_message \<Rightarrow> string \<Rightarrow> bool" where
  "wire_message m raw \<longleftrightarrow>
     (\<exists>p1 a b c p2 p3 is ls.
        short_form (length (sm_Signatures m)) p1 \<and>
        byte_of a = sm_Required m \<and> byte_of b = sm_ReadonlySigned m \<and> byte_of c = sm_ReadonlyUnsigned m \<and>
        short_form (length (sm_Keys m)) p2 \<and>
        short_form (length (sm_Instructions m)) p3 \<and> wire_list wire_instruction (sm_Instructions m) is \<and>
        (if sm_Versioned m
         then \<exists>p4 l. short_form (length (sm_Lookups m)) p4 \<and> wire_list wire_lookup (sm_Lookups m) l \<and> ls = p4 @ l
         else ls = []) \<and>
        raw = p1 @ concat (sm_Signatures m) @ (if sm_Versioned m then [char_of (128 :: nat)] else []) @ [a, b, c] @
              p2 @ concat (sm_Keys m) @ sm_Blockhash m @ p3 @ is @ ls)"

subsection \<open>Lists of pieces\<close>

lemma parse_each_wire:
  assumes "\<And>index r d x r' d'. p index (at_bytes r d) = (Inr x, at_bytes r' d') \<longleftrightarrow>
    (\<exists>y a. ok y \<and> form y a \<and> x = g y \<and> r = a @ r' \<and> d' = f y d)"
  shows "parseEach p index k (at_bytes r d) = (Inr xs, at_bytes r' d') \<longleftrightarrow>
    (\<exists>ys s. length ys = k \<and> list_all ok ys \<and> wire_list form ys s \<and> xs = map g ys \<and> r = s @ r' \<and> d' = fold f ys d)"
proof (induction k arbitrary: index r d xs)
  case 0
  show ?case by (auto simp: return_wire)
next
  case (Suc k)
  show ?case (is "?L = ?R")
  proof
    assume ?L
    then obtain y a ys s where "ok y" "form y a" "length ys = k" "list_all ok ys" "wire_list form ys s"
      "xs = g y # map g ys" "r = a @ s @ r'" "d' = fold f ys (f y d)"
      by (auto simp: wire_steps assms Suc.IH)
    then show ?R by (intro exI [of _ "y # ys"] exI [of _ "a @ s"]) (simp add: wire_Cons)
  next
    assume ?R
    then obtain ys' s' where ys': "length ys' = Suc k" "list_all ok ys'" "wire_list form ys' s'" "xs = map g ys'"
      "r = s' @ r'" "d' = fold f ys' d" by (elim exE conjE)
    then obtain y ys where y: "ys' = y # ys" by (cases ys') auto
    with ys' obtain a s where a: "form y a" "wire_list form ys s" "s' = a @ s" by (auto simp: wire_list_Cons)
    have "p index (at_bytes (a @ s @ r') d) = (Inr (g y), at_bytes (s @ r') (f y d))"
      using ys' y a by (auto simp: assms)
    moreover have "parseEach p (Suc index) k (at_bytes (s @ r') (f y d)) = (Inr (map g ys), at_bytes r' d')"
      by (intro Suc.IH [THEN iffD2] exI [of _ ys] exI [of _ s]) (use ys' y a in simp)
    ultimately show ?L using ys' y a by (simp add: wire_runs)
  qed
qed

lemma length_1: "length x = Suc 0 \<longleftrightarrow> (\<exists>c. x = [c])"
  by (cases x) auto

lemma length_3: "length x = 3 \<longleftrightarrow> (\<exists>a b c. x = [a, b, c])"
  by (auto simp: length_Suc_conv numeral_eq_Suc)

lemma parse_instruction_wire:
  "parseInstruction index (at_bytes r d) = (Inr x, at_bytes r' d') \<longleftrightarrow>
   (\<exists>y a. instruction_ok y \<and> wire_instruction y a \<and> x = id y \<and> r = a @ r' \<and> d' = id d)"
  (is "?L = ?R")
proof
  assume ?L
  then obtain c p accounts q data where "length accounts \<le> 256" "short_form (length accounts) p"
    "short_form (length data) q" "r = [c] @ p @ accounts @ q @ data @ r'" "d' = d"
    "x = \<lparr>gp_ProgramIndex = byte_of c, gp_AccountIndexes = map byte_of accounts, gp_Data = data\<rparr>"
    by (auto simp: parseInstruction_def wire_steps length_1)
  then show ?R
    by (intro exI [of _ x] exI [of _ "[c] @ p @ accounts @ q @ data"])
       (auto simp: instruction_ok_def wire_instruction_def)
next
  assume ?R
  then obtain c p accounts q data where "length accounts \<le> 256" "short_form (length accounts) p"
    "short_form (length data) q" "r = [c] @ p @ accounts @ q @ data @ r'" "d' = d"
    "x = \<lparr>gp_ProgramIndex = byte_of c, gp_AccountIndexes = map byte_of accounts, gp_Data = data\<rparr>"
    by (cases x) (auto simp: instruction_ok_def wire_instruction_def)
  then show ?L
    by (simp add: parseInstruction_def wire_runs)
qed

subsection \<open>Lookups\<close>

definition lookup_table :: "string \<times> nat list \<times> nat list \<Rightarrow> transactionGuardDecodedLookupTable" where
  "lookup_table = (\<lambda>(key, writable, readonly).
     \<lparr>dl_TableAddress = guardV3Base58Encode key, dl_WritableIndexes = writable, dl_ReadonlyIndexes = readonly,
      dl_Resolved = False, dl_WritableAddresses = [], dl_ReadonlyAddresses = [], dl_Status = ''rpc_resolution_required''\<rparr>)"

definition add_lookup :: "string \<times> nat list \<times> nat list \<Rightarrow> dtx \<Rightarrow> dtx" where
  "add_lookup l = appendLookup (fst l) (fst (snd l)) (snd (snd l))"

lemma parse_lookup_wire:
  "parseLookup index (at_bytes r d) = (Inr x, at_bytes r' d') \<longleftrightarrow>
   (\<exists>y a. lookup_ok y \<and> wire_lookup y a \<and> x = () \<and> r = a @ r' \<and> d' = add_lookup y d)"
  (is "?L = ?R")
proof
  assume ?L
  then obtain key p w q ro where "length key = 32" "short_form (length w) p" "short_form (length ro) q"
    "r = key @ p @ w @ q @ ro @ r'" "d' = add_lookup (key, map byte_of w, map byte_of ro) d"
    by (auto simp: parseLookup_def wire_steps add_lookup_def)
  then show ?R
    by (intro exI [of _ "(key, map byte_of w, map byte_of ro)"] exI [of _ "key @ p @ w @ q @ ro"])
       (auto simp: lookup_ok_def wire_lookup_def)
next
  assume ?R
  then obtain key p w q ro where "length key = 32" "short_form (length w) p" "short_form (length ro) q"
    "r = key @ p @ w @ q @ ro @ r'" "d' = add_lookup (key, map byte_of w, map byte_of ro) d"
    by (auto simp: lookup_ok_def wire_lookup_def)
  then show ?L
    by (simp add: parseLookup_def wire_runs add_lookup_def)
qed

lemma fold_add_lookup:
  "fold add_lookup ls d = d\<lparr>
     dt_LoadedWritableCount := dt_LoadedWritableCount d + sum_list (map (\<lambda>(key, w, r). length w) ls),
     dt_LoadedReadonlyCount := dt_LoadedReadonlyCount d + sum_list (map (\<lambda>(key, w, r). length r) ls),
     dt_LookupTables := dt_LookupTables d @ map lookup_table ls\<rparr>"
  by (induction ls arbitrary: d) (auto simp: add_lookup_def appendLookup_def lookup_table_def)

lemma parse_lookups_wire:
  "parseLookups (at_bytes r d) = (Inr x, at_bytes r' d') \<longleftrightarrow>
   (\<exists>ls p s. short_form (length ls) p \<and> list_all lookup_ok ls \<and> wire_list wire_lookup ls s \<and> r = p @ s @ r' \<and>
      d' = fold add_lookup ls (d\<lparr>dt_AddressLookupCount := length ls\<rparr>))" (is "?L = ?R")
proof
  assume ?L
  then show ?R
    by (auto simp: parseLookups_def wire_steps parse_each_wire [OF parse_lookup_wire])
next
  assume ?R
  then obtain ls p s where ls: "short_form (length ls) p" "list_all lookup_ok ls" "wire_list wire_lookup ls s"
    "r = p @ s @ r'" "d' = fold add_lookup ls (d\<lparr>dt_AddressLookupCount := length ls\<rparr>)"
    by (elim exE conjE)
  have "parseEach parseLookup 0 (length ls) (at_bytes (s @ r') (d\<lparr>dt_AddressLookupCount := length ls\<rparr>))
        = (Inr (map (\<lambda>_. ()) ls), at_bytes r' d')"
    by (rule parse_each_wire [OF parse_lookup_wire, THEN iffD2]) (use ls in auto)
  with ls show ?L by (simp add: parseLookups_def wire_runs)
qed

lemma fold_keep [simp]: "fold (\<lambda>x d. d) xs d = d"
  by (induction xs) simp_all

lemma parse_instructions_wire:
  "parseInstructions (at_bytes r d) = (Inr is, at_bytes r' d') \<longleftrightarrow>
   (\<exists>p s. short_form (length is) p \<and> length is \<le> 256 \<and> list_all instruction_ok is \<and>
      wire_list wire_instruction is s \<and> r = p @ s @ r' \<and> d' = d)" (is "?L = ?R")
proof
  assume ?L
  then show ?R
    by (auto simp: parseInstructions_def wire_steps parse_each_wire [OF parse_instruction_wire] comp_def id_def)
next
  assume ?R
  then obtain p s where p: "short_form (length is) p" "length is \<le> 256" "list_all instruction_ok is"
    "wire_list wire_instruction is s" "r = p @ s @ r'" "d' = d" by (elim exE conjE)
  have "parseEach parseInstruction 0 (length is) (at_bytes (s @ r') d) = (Inr (map id is), at_bytes r' d)"
    by (rule parse_each_wire [OF parse_instruction_wire, THEN iffD2]) (use p in auto)
  with p show ?L by (simp add: parseInstructions_def wire_runs)
qed

subsection \<open>Keys and signatures\<close>

declare chunks.simps [simp del]

lemma chunks_Nil [simp]: "chunks n [] = []"
  by (subst chunks.simps) simp

lemma chunks_step: "0 < n \<Longrightarrow> xs \<noteq> [] \<Longrightarrow> chunks n xs = take n xs # chunks n (drop n xs)"
  by (subst chunks.simps) simp

lemma chunks_concat: "0 < n \<Longrightarrow> list_all (\<lambda>x. length x = n) xs \<Longrightarrow> chunks n (concat xs) = xs"
  by (induction xs) (auto simp: chunks_step)

lemma concat_chunks: "0 < n \<Longrightarrow> concat (chunks n xs) = xs"
  by (induction n xs rule: chunks.induct) (subst chunks.simps, simp)

lemma chunks_of_length:
  "0 < n \<Longrightarrow> length xs = k * n \<Longrightarrow> length (chunks n xs) = k \<and> list_all (\<lambda>x. length x = n) (chunks n xs)"
proof (induction k arbitrary: xs)
  case (Suc k)
  then have "length (drop n xs) = k * n" "xs \<noteq> []" "n \<le> length xs" by auto
  with Suc.IH [of "drop n xs"] Suc.prems(1) show ?case by (simp add: chunks_step)
qed simp

text \<open>A block of \<open>k\<close> pieces of \<open>n\<close> bytes.\<close>

lemma pieces:
  assumes "0 < n"
  shows "length x = k * n \<longleftrightarrow> (\<exists>xs. length xs = k \<and> list_all (\<lambda>y. length y = n) xs \<and> x = concat xs)"
proof
  assume "length x = k * n"
  with assms show "\<exists>xs. length xs = k \<and> list_all (\<lambda>y. length y = n) xs \<and> x = concat xs"
    by (intro exI [of _ "chunks n x"]) (simp add: chunks_of_length concat_chunks)
next
  have "list_all (\<lambda>y. length y = n) xs \<Longrightarrow> length (concat xs) = length xs * n" for xs :: "'a list list"
    by (induction xs) auto
  then show "\<exists>xs. length xs = k \<and> list_all (\<lambda>y. length y = n) xs \<and> x = concat xs \<Longrightarrow> length x = k * n"
    by auto
qed

subsection \<open>The blocks of a message\<close>

lemma parse_signatures_wire:
  "parseSignatures (at_bytes r d) = (Inr n, at_bytes r' d') \<longleftrightarrow>
   (\<exists>p sigs. short_form n p \<and> n \<le> 64 \<and> length sigs = n \<and> list_all (\<lambda>s. length s = 64) sigs \<and>
      r = p @ concat sigs @ r' \<and> r' \<noteq> [] \<and> d' = d\<lparr>dt_SignatureCount := n\<rparr>)"
  by (auto simp: parseSignatures_def wire_steps pieces)

lemma parse_version_wire:
  "r \<noteq> [] \<Longrightarrow> parseVersion (at_bytes r d) = (Inr v, at_bytes r' d') \<longleftrightarrow>
   r = (if v then [char_of (128 :: nat)] else []) @ r' \<and> (v \<or> byte_of (hd r) < 128) \<and>
   d' = d\<lparr>dt_Version := (if v then ''v0'' else ''legacy'')\<rparr>"
proof -
  assume "r \<noteq> []"
  then obtain c s where r: "r = c # s" by (cases r) auto
  have zero: "CHR ''v'' # show_nat 0 = ''v0''" by code_simp
  show ?thesis
  proof (cases "byte_of c AND 0x80 = 0")
    case True
    then have "c \<noteq> char_of (128 :: nat)" "byte_of c < 128" using marker_byte [of c] by (auto simp: and_80)
    with True r show ?thesis by (auto simp: parseVersion_def wire_steps Let_def)
  next
    case False
    then have "\<not> byte_of c < 128" by (simp add: and_80)
    with False r marker_byte [of c] zero show ?thesis
      by (auto simp: parseVersion_def wire_steps Let_def length_1)
  qed
qed

lemma parse_header_wire:
  "parseHeader n (at_bytes r d) = (Inr (x, y, z), at_bytes r' d') \<longleftrightarrow>
   (\<exists>a b c. r = [a, b, c] @ r' \<and> x = byte_of a \<and> y = byte_of b \<and> z = byte_of c \<and> n = byte_of a \<and>
      d' = d\<lparr>dt_RequiredSignatureCount := byte_of a\<rparr>)"
  by (auto simp: parseHeader_def wire_steps Let_def length_3)

definition account_image :: "nat \<times> nat \<times> nat \<Rightarrow> string list \<Rightarrow> dtx \<Rightarrow> dtx" where
  "account_image = (\<lambda>(required, roSigned, roUnsigned) keys d.
     let addresses = map guardV3Base58Encode keys in
     d\<lparr>dt_StaticAccounts := dt_StaticAccounts d @
         map (staticAccount required (required - roSigned) (length keys - roUnsigned)) (enumerate 0 addresses),
       dt_StaticAccountCount := length keys,
       dt_FeePayer := (if addresses = [] then dt_FeePayer d else hd addresses)\<rparr>)"

lemma parse_accounts_wire:
  "parseAccounts (x, y, z) (at_bytes r d) = (Inr addresses, at_bytes r' d') \<longleftrightarrow>
   (\<exists>p keys. short_form (length keys) p \<and> 0 < length keys \<and> length keys \<le> 256 \<and>
      list_all (\<lambda>k. length k = 32) keys \<and> x \<le> length keys \<and> y \<le> x \<and> z \<le> length keys - x \<and>
      r = p @ concat keys @ r' \<and> addresses = map guardV3Base58Encode keys \<and> d' = account_image (x, y, z) keys d)"
  (is "?L = ?R")
proof
  assume ?L
  then obtain p keys where "short_form (length keys) p" "0 < length keys" "length keys \<le> 256"
    "list_all (\<lambda>k. length k = 32) keys" "x \<le> length keys" "y \<le> x" "z \<le> length keys - x"
    "r = p @ concat keys @ r'" "addresses = map guardV3Base58Encode keys" "d' = account_image (x, y, z) keys d"
    by (auto simp: parseAccounts_def wire_steps Let_def pieces chunks_concat account_image_def)
  then show ?R by (intro exI [of _ p] exI [of _ keys]) simp
next
  assume ?R
  then obtain p keys where k: "short_form (length keys) p" "0 < length keys" "length keys \<le> 256"
    "list_all (\<lambda>k. length k = 32) keys" "x \<le> length keys" "y \<le> x" "z \<le> length keys - x"
    "r = p @ concat keys @ r'" "addresses = map guardV3Base58Encode keys" "d' = account_image (x, y, z) keys d"
    by (elim exE conjE)
  have "length (concat keys) = length keys * 32" using k(4) pieces [of 32 "concat keys" "length keys"] by auto
  with k show ?L by (simp add: parseAccounts_def wire_runs Let_def chunks_concat account_image_def)
qed

lemma parse_end_wire:
  "parseEnd wallet addresses parsed (at_bytes r d) = (Inr x, at_bytes r' d') \<longleftrightarrow>
   r = [] \<and> r' = [] \<and> length addresses + (dt_LoadedWritableCount d + dt_LoadedReadonlyCount d) \<le> 256 \<and>
   d' = d\<lparr>dt_UnresolvedLookupAccountCount := dt_LoadedWritableCount d + dt_LoadedReadonlyCount d,
          dt_staticAddresses := addresses, dt_parsedInstructions := parsed, dt_declaredWallet := wallet\<rparr>"
  by (auto simp: parseEnd_def wire_steps)

subsection \<open>The message\<close>

definition message_image :: "solana_message \<Rightarrow> string \<Rightarrow> dtx" where
  "message_image m wallet =
     (let addresses = map guardV3Base58Encode (sm_Keys m) in
      newDecoded\<lparr>
        dt_SignatureCount := length (sm_Signatures m),
        dt_Version := (if sm_Versioned m then ''v0'' else ''legacy''),
        dt_RequiredSignatureCount := sm_Required m,
        dt_StaticAccounts := map (staticAccount (sm_Required m) (sm_Required m - sm_ReadonlySigned m)
          (length (sm_Keys m) - sm_ReadonlyUnsigned m)) (enumerate 0 addresses),
        dt_StaticAccountCount := length (sm_Keys m),
        dt_FeePayer := hd addresses,
        dt_AddressLookupCount := length (sm_Lookups m),
        dt_LoadedWritableCount := loaded_writable m,
        dt_LoadedReadonlyCount := loaded_readonly m,
        dt_LookupTables := map lookup_table (sm_Lookups m),
        dt_UnresolvedLookupAccountCount := loaded_writable m + loaded_readonly m,
        dt_staticAddresses := addresses,
        dt_parsedInstructions := sm_Instructions m,
        dt_declaredWallet := wallet\<rparr>)"

lemma parse_message_sound:
  assumes "parse_message wallet (at_bytes raw newDecoded) = (Inr (), at_bytes rest d)"
  shows "rest = [] \<and> (\<exists>m. message_ok m \<and> wire_message m raw \<and> d = message_image m wallet)"
proof -
  obtain n r1 d1 v r2 d2 h r3 d3 addresses r4 d4 blockhash r5 d5 parsed r6 d6 u r7 d7 where
    sig: "parseSignatures (at_bytes raw newDecoded) = (Inr n, at_bytes r1 d1)" and
    ver: "parseVersion (at_bytes r1 d1) = (Inr v, at_bytes r2 d2)" and
    hdr': "parseHeader n (at_bytes r2 d2) = (Inr h, at_bytes r3 d3)" and
    acc': "parseAccounts h (at_bytes r3 d3) = (Inr addresses, at_bytes r4 d4)" and
    bh': "takeBytes 32 (ErrMsg ''recent blockhash is truncated'') (at_bytes r4 d4) = (Inr blockhash, at_bytes r5 d5)" and
    ins': "parseInstructions (at_bytes r5 d5) = (Inr parsed, at_bytes r6 d6)" and
    lks': "(if v then parseLookups else returnIO ()) (at_bytes r6 d6) = (Inr u, at_bytes r7 d7)" and
    fin: "parseEnd wallet addresses parsed (at_bytes r7 d7) = (Inr (), at_bytes rest d)"
    using assms unfolding parse_message_def bind_wire by (elim exE conjE)
  obtain x y z where h: "h = (x, y, z)" by (cases h)
  note hdr = hdr' [unfolded h] and acc = acc' [unfolded h]
  from bh' have bh: "length blockhash = 32" "r4 = blockhash @ r5" and d5: "d5 = d4"
    unfolding takeBytes_wire by simp_all
  from ins' have d6: "d6 = d4" unfolding parse_instructions_wire d5 by (elim exE conjE)
  note ins = ins' [unfolded d5 d6] and lks = lks' [unfolded d6]
  from sig obtain p1 sigs where p1: "short_form n p1" "n \<le> 64" "length sigs = n"
    "list_all (\<lambda>s. length s = 64) sigs" "raw = p1 @ concat sigs @ r1" "r1 \<noteq> []"
    "d1 = newDecoded\<lparr>dt_SignatureCount := n\<rparr>" unfolding parse_signatures_wire by (elim exE conjE)
  note v = ver [unfolded parse_version_wire [OF p1(6)]]
  from hdr obtain a b c where abc: "r2 = [a, b, c] @ r3" "x = byte_of a" "y = byte_of b" "z = byte_of c"
    "n = byte_of a" "d3 = d2\<lparr>dt_RequiredSignatureCount := byte_of a\<rparr>" unfolding parse_header_wire by (elim exE conjE)
  from acc obtain p2 keys where p2: "short_form (length keys) p2" "0 < length keys" "length keys \<le> 256"
    "list_all (\<lambda>k. length k = 32) keys" "x \<le> length keys" "y \<le> x" "z \<le> length keys - x"
    "r3 = p2 @ concat keys @ r4" "addresses = map guardV3Base58Encode keys" "d4 = account_image (x, y, z) keys d3"
    unfolding parse_accounts_wire by (elim exE conjE)
  from ins obtain p3 s3 where p3: "short_form (length parsed) p3" "length parsed \<le> 256" "list_all instruction_ok parsed"
    "wire_list wire_instruction parsed s3" "r5 = p3 @ s3 @ r6" unfolding parse_instructions_wire by (elim exE conjE)
  have "\<exists>ls s4. list_all lookup_ok ls \<and> (if v then \<exists>p4 l. short_form (length ls) p4 \<and> wire_list wire_lookup ls l \<and>
      s4 = p4 @ l else ls = [] \<and> s4 = []) \<and> r6 = s4 @ r7 \<and>
      d7 = fold add_lookup ls (d4\<lparr>dt_AddressLookupCount := length ls\<rparr>)"
  proof (cases v)
    case True
    with lks obtain ls p s where "short_form (length ls) p" "list_all lookup_ok ls" "wire_list wire_lookup ls s"
      "r6 = p @ s @ r7" "d7 = fold add_lookup ls (d4\<lparr>dt_AddressLookupCount := length ls\<rparr>)"
      by (auto simp: parse_lookups_wire)
    with True show ?thesis by (intro exI [of _ ls] exI [of _ "p @ s"]) auto
  next
    case False
    have "dt_AddressLookupCount d4 = 0"
      using p2 v abc p1 by (simp add: account_image_def Let_def newDecoded_def)
    with False lks show ?thesis by (intro exI [of _ "[]"]) simp
  qed
  then obtain ls s4 where ls: "list_all lookup_ok ls" "if v then \<exists>p4 l. short_form (length ls) p4 \<and>
      wire_list wire_lookup ls l \<and> s4 = p4 @ l else ls = [] \<and> s4 = []" "r6 = s4 @ r7"
      "d7 = fold add_lookup ls (d4\<lparr>dt_AddressLookupCount := length ls\<rparr>)" by (elim exE conjE)
  let ?m = "\<lparr>sm_Signatures = sigs, sm_Versioned = v, sm_Required = x, sm_ReadonlySigned = y,
    sm_ReadonlyUnsigned = z, sm_Keys = keys, sm_Blockhash = blockhash, sm_Instructions = parsed, sm_Lookups = ls\<rparr>"
  from fin have e: "r7 = []" "rest = []" "length keys + (loaded_writable ?m + loaded_readonly ?m) \<le> 256"
    and d: "d = d7\<lparr>dt_UnresolvedLookupAccountCount := dt_LoadedWritableCount d7 + dt_LoadedReadonlyCount d7,
          dt_staticAddresses := addresses, dt_parsedInstructions := parsed, dt_declaredWallet := wallet\<rparr>"
    by (auto simp: parse_end_wire ls p2 fold_add_lookup loaded_writable_def loaded_readonly_def account_image_def Let_def
        abc v p1 newDecoded_def)
  have "message_ok ?m"
    using p1 p2 abc bh p3 ls e by (auto simp: message_ok_def account_count_def split: if_splits)
  moreover have "raw = p1 @ concat sigs @ (if v then [char_of (128 :: nat)] else []) @ [a, b, c] @
      p2 @ concat keys @ blockhash @ p3 @ s3 @ s4"
    by (simp only: p1(5) v abc(1) p2(8) bh(2) p3(5) ls(3) e(1) append_assoc append_Nil2)
  moreover have "short_form (length sigs) p1" using p1(1,3) by simp
  moreover have "if v then \<exists>p4 l. short_form (length ls) p4 \<and> wire_list wire_lookup ls l \<and> s4 = p4 @ l else s4 = []"
    using ls(2) by (cases v) simp_all
  ultimately have "message_ok ?m \<and> wire_message ?m raw"
    unfolding wire_message_def solana_message.simps
    by (intro conjI exI) (assumption | rule abc(2-4) [symmetric] p2(1) p3(1,4))+
  moreover have "d = message_image ?m wallet"
    using p1 v abc p2 ls by (auto simp: d message_image_def Let_def fold_add_lookup account_image_def newDecoded_def
        loaded_writable_def loaded_readonly_def)
  ultimately show ?thesis using e(2) by blast
qed

lemma parse_message_complete:
  assumes ok: "message_ok m" and wire: "wire_message m raw"
  shows "parse_message wallet (at_bytes raw newDecoded) = (Inr (), at_bytes [] (message_image m wallet))"
proof -
  from wire obtain p1 a b c p2 p3 s3 s4 where
    p1: "short_form (length (sm_Signatures m)) p1" and
    abc: "byte_of a = sm_Required m" "byte_of b = sm_ReadonlySigned m" "byte_of c = sm_ReadonlyUnsigned m" and
    p2: "short_form (length (sm_Keys m)) p2" and p3: "short_form (length (sm_Instructions m)) p3" and
    s3: "wire_list wire_instruction (sm_Instructions m) s3" and
    s4: "if sm_Versioned m then \<exists>p4 l. short_form (length (sm_Lookups m)) p4 \<and> wire_list wire_lookup (sm_Lookups m) l \<and>
           s4 = p4 @ l else s4 = []" and
    raw: "raw = p1 @ concat (sm_Signatures m) @ (if sm_Versioned m then [char_of (128 :: nat)] else []) @ [a, b, c] @
            p2 @ concat (sm_Keys m) @ sm_Blockhash m @ p3 @ s3 @ s4"
    unfolding wire_message_def by (elim exE conjE)
  define r6 where "r6 = s4"
  define r5 where "r5 = p3 @ s3 @ r6"
  define r4 where "r4 = sm_Blockhash m @ r5"
  define r3 where "r3 = p2 @ concat (sm_Keys m) @ r4"
  define r2 where "r2 = [a, b, c] @ r3"
  define r1 where "r1 = (if sm_Versioned m then [char_of (128 :: nat)] else []) @ r2"
  define n where "n = length (sm_Signatures m)"
  define d1 where "d1 = newDecoded\<lparr>dt_SignatureCount := n\<rparr>"
  define d2 where "d2 = d1\<lparr>dt_Version := (if sm_Versioned m then ''v0'' else ''legacy'')\<rparr>"
  define d3 where "d3 = d2\<lparr>dt_RequiredSignatureCount := sm_Required m\<rparr>"
  define d4 where "d4 = account_image (sm_Required m, sm_ReadonlySigned m, sm_ReadonlyUnsigned m) (sm_Keys m) d3"
  define d7 where "d7 = fold add_lookup (sm_Lookups m) (d4\<lparr>dt_AddressLookupCount := length (sm_Lookups m)\<rparr>)"
  have n: "n = byte_of a" "n \<le> 64" using ok abc by (simp_all add: message_ok_def n_def)
  have "r1 \<noteq> []" by (simp add: r1_def r2_def)
  then have sig: "parseSignatures (at_bytes raw newDecoded) = (Inr n, at_bytes r1 d1)"
    unfolding parse_signatures_wire
    using ok p1 by (intro exI [of _ p1] exI [of _ "sm_Signatures m"])
      (simp add: message_ok_def n_def d1_def raw r1_def r2_def r3_def r4_def r5_def r6_def)
  have ver: "parseVersion (at_bytes r1 d1) = (Inr (sm_Versioned m), at_bytes r2 d2)"
    unfolding parse_version_wire [OF \<open>r1 \<noteq> []\<close>] using n by (simp add: r1_def r2_def d2_def)
  have hdr: "parseHeader n (at_bytes r2 d2) =
      (Inr (sm_Required m, sm_ReadonlySigned m, sm_ReadonlyUnsigned m), at_bytes r3 d3)"
    unfolding parse_header_wire using abc n by (intro exI [of _ a] exI [of _ b] exI [of _ c]) (simp add: r2_def d3_def)
  have acc: "parseAccounts (sm_Required m, sm_ReadonlySigned m, sm_ReadonlyUnsigned m) (at_bytes r3 d3) =
      (Inr (map guardV3Base58Encode (sm_Keys m)), at_bytes r4 d4)"
    unfolding parse_accounts_wire using ok p2
    by (intro exI [of _ p2] exI [of _ "sm_Keys m"]) (auto simp: message_ok_def r3_def d4_def)
  have bh: "takeBytes 32 (ErrMsg ''recent blockhash is truncated'') (at_bytes r4 d4) = (Inr (sm_Blockhash m), at_bytes r5 d4)"
    unfolding takeBytes_wire using ok by (simp add: message_ok_def r4_def)
  have ins: "parseInstructions (at_bytes r5 d4) = (Inr (sm_Instructions m), at_bytes r6 d4)"
    unfolding parse_instructions_wire using ok p3 s3
    by (intro exI [of _ p3] exI [of _ s3]) (simp add: message_ok_def r5_def)
  have zero: "dt_AddressLookupCount d4 = 0" "dt_LoadedWritableCount d4 = 0" "dt_LoadedReadonlyCount d4 = 0"
    "dt_LookupTables d4 = []"
    by (simp_all add: d4_def d3_def d2_def d1_def account_image_def Let_def newDecoded_def)
  have lks: "(if sm_Versioned m then parseLookups else returnIO ()) (at_bytes r6 d4) = (Inr (), at_bytes [] d7)"
  proof (cases "sm_Versioned m")
    case True
    with s4 obtain p4 l where "short_form (length (sm_Lookups m)) p4" "wire_list wire_lookup (sm_Lookups m) l" "s4 = p4 @ l"
      by auto
    with True ok show ?thesis
      by (simp add: parse_lookups_wire) (auto simp: message_ok_def r6_def d7_def intro!: exI [of _ "sm_Lookups m"])
  next
    case False
    with ok s4 zero show ?thesis by (simp add: return_wire r6_def d7_def message_ok_def)
  qed
  have counts: "dt_LoadedWritableCount d7 = loaded_writable m" "dt_LoadedReadonlyCount d7 = loaded_readonly m"
    by (simp_all add: d7_def fold_add_lookup zero loaded_writable_def loaded_readonly_def)
  have image: "d7\<lparr>dt_UnresolvedLookupAccountCount := loaded_writable m + loaded_readonly m,
        dt_staticAddresses := map guardV3Base58Encode (sm_Keys m), dt_parsedInstructions := sm_Instructions m,
        dt_declaredWallet := wallet\<rparr> = message_image m wallet"
    using ok by (simp add: d7_def d4_def d3_def d2_def d1_def n_def message_image_def Let_def fold_add_lookup account_image_def
        newDecoded_def loaded_writable_def loaded_readonly_def message_ok_def)
  have fin: "parseEnd wallet (map guardV3Base58Encode (sm_Keys m)) (sm_Instructions m) (at_bytes [] d7) =
      (Inr (), at_bytes [] (message_image m wallet))"
    unfolding parse_end_wire counts image using ok by (simp add: message_ok_def account_count_def)
  show ?thesis
    unfolding parse_message_def bind_run sig prod.case sum.case ver hdr acc bh ins lks by (rule fin)
qed

lemma parse_message_exact:
  "parse_message wallet (at_bytes raw newDecoded) = (Inr (), s) \<longleftrightarrow>
   (\<exists>m. message_ok m \<and> wire_message m raw \<and> s = at_bytes [] (message_image m wallet))"
proof
  obtain rest d where s: "s = at_bytes rest d" by (cases s) simp
  assume "parse_message wallet (at_bytes raw newDecoded) = (Inr (), s)"
  from parse_message_sound [OF this [unfolded s]] s
  show "\<exists>m. message_ok m \<and> wire_message m raw \<and> s = at_bytes [] (message_image m wallet)"
    by auto
qed (auto simp: parse_message_complete)

text \<open>One message per byte string.\<close>

lemma wire_message_functional:
  "message_ok m \<Longrightarrow> wire_message m raw \<Longrightarrow> message_ok m' \<Longrightarrow> wire_message m' raw \<Longrightarrow>
   message_image m wallet = message_image m' wallet"
  using parse_message_complete [of m raw wallet] parse_message_complete [of m' raw wallet] by simp

end
