(* ===== verification/Solana_Decode_Sound.thy ===== *)
theory Solana_Decode_Sound
  imports Solana_Wire_Sound Go_Run
begin

text \<open>
  What the decoded transaction says about the message. \<open>classify_effect\<close>: classifying an
  instruction appends what the instruction alone determines. \<open>rebuild_exact\<close>: the rebuild
  succeeds exactly when every program and account index is below the number of accounts, and then
  its lists are the maps of \<open>decoded_instruction\<close> and \<open>instruction_effect\<close> over the instructions.
  The properties combine this with the grammar of \<open>Solana_Wire_Sound\<close>.
\<close>

subsection \<open>One instruction\<close>

definition instruction_effect ::
  "string \<Rightarrow> string list \<Rightarrow> string \<Rightarrow> string \<times> dtx" where
  "instruction_effect program accounts data = classifyTransactionGuardV3Instruction program accounts data newDecoded"

definition instruction_kind :: "string \<Rightarrow> string list \<Rightarrow> string \<Rightarrow> string" where
  "instruction_kind program accounts data = fst (instruction_effect program accounts data)"

definition instruction_sols :: "string \<Rightarrow> string list \<Rightarrow> string \<Rightarrow> transactionGuardDecodedSOLTransfer list" where
  "instruction_sols program accounts data = dt_SOLTransfers (snd (instruction_effect program accounts data))"

definition instruction_tokens :: "string \<Rightarrow> string list \<Rightarrow> string \<Rightarrow> transactionGuardDecodedTokenOperation list" where
  "instruction_tokens program accounts data = dt_TokenOperations (snd (instruction_effect program accounts data))"

definition append_effects ::
  "transactionGuardDecodedSOLTransfer list \<Rightarrow> transactionGuardDecodedTokenOperation list \<Rightarrow> dtx \<Rightarrow> dtx" where
  "append_effects ss ts d =
     d\<lparr>dt_SOLTransfers := dt_SOLTransfers d @ ss, dt_TokenOperations := dt_TokenOperations d @ ts\<rparr>"

text \<open>Every classifier is an append of something that does not depend on the output so far.\<close>

definition appends :: "(dtx \<Rightarrow> string \<times> dtx) \<Rightarrow> bool" where
  "appends f \<longleftrightarrow> (\<exists>k ss ts. \<forall>d. f d = (k, append_effects ss ts d))"

named_theorems appends_intros \<open>classifiers that only append\<close>

lemma appends_keep [appends_intros]: "appends (Pair k)"
  unfolding appends_def by (intro exI [of _ k] exI [of _ "[]"]) (simp add: append_effects_def)

lemma appends_sol [appends_intros]: "appends (\<lambda>d. (k, add_sol t d))"
  unfolding appends_def
  by (intro exI [of _ k] exI [of _ "[t]"] exI [of _ "[]"]) (simp add: append_effects_def add_sol_def)

lemma appends_operation [appends_intros]: "appends (\<lambda>d. (k, add_operation t d))"
  unfolding appends_def
  by (intro exI [of _ k] exI [of _ "[]"] exI [of _ "[t]"]) (simp add: append_effects_def add_operation_def)

lemma appends_if [appends_intros]: "appends f \<Longrightarrow> appends g \<Longrightarrow> appends (\<lambda>d. if b then f d else g d)"
  by (cases b) simp_all

lemma appends_case_prod [appends_intros]:
  "(\<And>x y z. appends (f x y z)) \<Longrightarrow> appends (\<lambda>d. case p of (x, y, z) \<Rightarrow> f x y z d)"
  by (cases p) simp

lemma appends_system: "appends (classifyTransactionGuardV3SystemInstruction accounts data)"
  unfolding classifyTransactionGuardV3SystemInstruction_def [abs_def] Let_def by (intro appends_intros)

lemma appends_plain: "appends (plain_token program accounts data)"
  unfolding plain_token_def [abs_def]
  by (cases "token_operation program accounts data") (auto intro: appends_intros)

lemma appends_authority: "appends (\<lambda>d. (k, authority_operation program event d))"
  unfolding authority_operation_def
  by (cases "guardV3DecodedTokenOperationFromAuthorityEvent event";
      cases "ev_Kind event = ''transfer_checked_with_fee''")
     (auto intro: appends_intros)

lemma appends_token: "appends (classifyTransactionGuardV3TokenInstruction program accounts data)"
  unfolding classifyTransactionGuardV3TokenInstruction_def [abs_def]
  by (intro appends_intros appends_plain appends_authority)

lemma appends_instruction: "appends (classifyTransactionGuardV3Instruction program accounts data)"
  unfolding classifyTransactionGuardV3Instruction_def [abs_def]
  by (intro appends_intros appends_system appends_token)

lemma classify_effect:
  "classifyTransactionGuardV3Instruction program accounts data d =
   (instruction_kind program accounts data,
    append_effects (instruction_sols program accounts data) (instruction_tokens program accounts data) d)"
proof -
  obtain k ss ts where e: "\<And>d. classifyTransactionGuardV3Instruction program accounts data d = (k, append_effects ss ts d)"
    using appends_instruction [of program accounts data] unfolding appends_def by (elim exE) auto
  show ?thesis
    by (simp add: instruction_kind_def instruction_sols_def instruction_tokens_def instruction_effect_def e)
       (simp add: append_effects_def newDecoded_def)
qed

subsection \<open>The rebuild as maps over the instructions\<close>

type_synonym addressing = "nat \<Rightarrow> string \<times> bool"

definition indexes_below :: "nat \<Rightarrow> guardV3ParsedInstruction \<Rightarrow> bool" where
  "indexes_below bound p \<longleftrightarrow> gp_ProgramIndex p < bound \<and> list_all (\<lambda>i. i < bound) (gp_AccountIndexes p)"

definition accounts_of :: "addressing \<Rightarrow> guardV3ParsedInstruction \<Rightarrow> string list" where
  "accounts_of addr p = map (\<lambda>i. fst (addr i)) (gp_AccountIndexes p)"

definition decoded_instruction :: "addressing \<Rightarrow> nat \<times> guardV3ParsedInstruction \<Rightarrow> transactionGuardDecodedInstruction" where
  "decoded_instruction addr = (\<lambda>(index, p).
     case addr (gp_ProgramIndex p) of (program, resolved) \<Rightarrow>
     \<lparr>di_Index = index, di_ProgramID = program, di_ProgramResolved = resolved,
      di_AccountIndexes = gp_AccountIndexes p, di_Accounts = accounts_of addr p,
      di_DataLength = length (gp_Data p), di_DataPrefixHex = hex_encode (take 16 (gp_Data p)),
      di_Kind = (if resolved then instruction_kind program (accounts_of addr p) (gp_Data p) else ''unresolved_program'')\<rparr>)"

definition sols_of :: "addressing \<Rightarrow> guardV3ParsedInstruction \<Rightarrow> transactionGuardDecodedSOLTransfer list" where
  "sols_of addr p =
     (case addr (gp_ProgramIndex p) of (program, resolved) \<Rightarrow>
      if resolved then instruction_sols program (accounts_of addr p) (gp_Data p) else [])"

definition tokens_of :: "addressing \<Rightarrow> guardV3ParsedInstruction \<Rightarrow> transactionGuardDecodedTokenOperation list" where
  "tokens_of addr p =
     (case addr (gp_ProgramIndex p) of (program, resolved) \<Rightarrow>
      if resolved then instruction_tokens program (accounts_of addr p) (gp_Data p) else [])"

definition programs_of :: "addressing \<Rightarrow> guardV3ParsedInstruction \<Rightarrow> string list" where
  "programs_of addr p = (case addr (gp_ProgramIndex p) of (program, resolved) \<Rightarrow> if resolved then [program] else [])"

lemma resolve_accounts_exact:
  "resolveAccounts d index bound is = Inr as \<longleftrightarrow>
   list_all (\<lambda>i. i < bound) is \<and> as = map (\<lambda>i. fst (transactionGuardV3AccountAddress d i)) is"
  by (induction "is" arbitrary: as) (auto simp: bindE_Inr)

lemma address_frame:
  "transactionGuardV3AccountAddress (append_effects ss ts d\<lparr>dt_Instructions := is\<rparr>) = transactionGuardV3AccountAddress d"
  by (rule ext) (simp add: transactionGuardV3AccountAddress_def append_effects_def Let_def)

lemma rebuild_instruction_exact:
  "rebuildInstruction bound index p d = Inr ((program, resolved), d') \<longleftrightarrow>
   indexes_below bound p \<and> (program, resolved) = transactionGuardV3AccountAddress d (gp_ProgramIndex p) \<and>
   d' = append_effects (sols_of (transactionGuardV3AccountAddress d) p) (tokens_of (transactionGuardV3AccountAddress d) p) d
     \<lparr>dt_Instructions := dt_Instructions d @ [decoded_instruction (transactionGuardV3AccountAddress d) (index, p)]\<rparr>"
  by (cases "transactionGuardV3AccountAddress d (gp_ProgramIndex p)")
     (auto simp: rebuildInstruction_def indexes_below_def bindE_Inr resolve_accounts_exact classify_effect
        decoded_instruction_def accounts_of_def sols_of_def tokens_of_def append_effects_def not_le)

lemma append_effects_twice:
  "append_effects ss' ts' (append_effects ss ts d\<lparr>dt_Instructions := is\<rparr>)\<lparr>dt_Instructions := is'\<rparr> =
   append_effects (ss @ ss') (ts @ ts') d\<lparr>dt_Instructions := is'\<rparr>"
  by (simp add: append_effects_def)

lemma rebuild_instructions_exact:
  "rebuildInstructions bound index ps programs d = (Inr programs', d') \<longleftrightarrow>
   list_all (indexes_below bound) ps \<and>
   programs' = programs @ concat (map (programs_of (transactionGuardV3AccountAddress d)) ps) \<and>
   d' = append_effects (concat (map (sols_of (transactionGuardV3AccountAddress d)) ps))
          (concat (map (tokens_of (transactionGuardV3AccountAddress d)) ps)) d
     \<lparr>dt_Instructions := dt_Instructions d @ map (decoded_instruction (transactionGuardV3AccountAddress d)) (enumerate index ps)\<rparr>"
proof (induction ps arbitrary: index programs d)
  case Nil
  show ?case by (auto simp: append_effects_def)
next
  case (Cons p ps)
  let ?addr = "transactionGuardV3AccountAddress d"
  show ?case
  proof (cases "indexes_below bound p")
    case True
    obtain program resolved where a: "?addr (gp_ProgramIndex p) = (program, resolved)" by (cases "?addr (gp_ProgramIndex p)")
    define d1 where "d1 = append_effects (sols_of ?addr p) (tokens_of ?addr p) d
      \<lparr>dt_Instructions := dt_Instructions d @ [decoded_instruction ?addr (index, p)]\<rparr>"
    have r: "rebuildInstruction bound index p d = Inr ((program, resolved), d1)"
      using True a by (simp add: rebuild_instruction_exact d1_def)
    have addr: "transactionGuardV3AccountAddress d1 = ?addr" unfolding d1_def by (rule address_frame)
    have i: "dt_Instructions d1 = dt_Instructions d @ [decoded_instruction ?addr (index, p)]" by (simp add: d1_def)
    have "rebuildInstructions bound index (p # ps) programs d = (Inr programs', d') \<longleftrightarrow>
      list_all (indexes_below bound) ps \<and>
      programs' = (if resolved then programs @ [program] else programs) @ concat (map (programs_of ?addr) ps) \<and>
      d' = append_effects (concat (map (sols_of ?addr) ps)) (concat (map (tokens_of ?addr) ps)) d1
        \<lparr>dt_Instructions := dt_Instructions d1 @ map (decoded_instruction ?addr) (enumerate (Suc index) ps)\<rparr>"
      using Cons.IH [of "Suc index" "if resolved then programs @ [program] else programs" d1] r
      by (simp only: rebuildInstructions.simps sum.case prod.case addr)
    also have "\<dots> \<longleftrightarrow> list_all (indexes_below bound) (p # ps) \<and>
      programs' = programs @ concat (map (programs_of ?addr) (p # ps)) \<and>
      d' = append_effects (concat (map (sols_of ?addr) (p # ps))) (concat (map (tokens_of ?addr) (p # ps))) d
        \<lparr>dt_Instructions := dt_Instructions d @ map (decoded_instruction ?addr) (enumerate index (p # ps))\<rparr>"
      using True a by (simp add: i append_effects_twice programs_of_def) (simp add: d1_def append_effects_twice)
    finally show ?thesis .
  next
    case False
    then have "\<nexists>x. rebuildInstruction bound index p d = Inr x"
      by (auto simp: rebuild_instruction_exact)
    then obtain e where "rebuildInstruction bound index p d = Inl e" by (cases "rebuildInstruction bound index p d") auto
    with False show ?thesis by simp
  qed
qed

definition rebuilt :: "dtx \<Rightarrow> dtx" where
  "rebuilt d0 =
     (let d = resetDecoded (dt_staticAddresses d0) d0; addr = transactionGuardV3AccountAddress d0; ps = dt_parsedInstructions d0
      in totalSOLTransfers (d\<lparr>
           dt_SOLTransfers := concat (map (sols_of addr) ps),
           dt_TokenOperations := concat (map (tokens_of addr) ps),
           dt_Instructions := map (decoded_instruction addr) (enumerate 0 ps),
           dt_ProgramIDs := sort (remdups (concat (map (programs_of addr) ps)))\<rparr>))"

definition accounts_total :: "dtx \<Rightarrow> nat" where
  "accounts_total d = length (dt_staticAddresses d) + dt_LoadedWritableCount d + dt_LoadedReadonlyCount d"

lemma rebuild_exact:
  assumes "dt_staticAddresses d0 \<noteq> []"
  shows "rebuildTransactionGuardV3DecodedInstructions d0 = (Inr (), d) \<longleftrightarrow>
    list_all (indexes_below (accounts_total d0)) (dt_parsedInstructions d0) \<and> d = rebuilt d0"
proof -
  let ?d1 = "resetDecoded (dt_staticAddresses d0) d0"
  have addr: "transactionGuardV3AccountAddress ?d1 = transactionGuardV3AccountAddress d0"
    by (rule ext) (simp add: transactionGuardV3AccountAddress_def resetDecoded_def Let_def)
  have p: "dt_parsedInstructions ?d1 = dt_parsedInstructions d0" by (simp add: resetDecoded_def)
  obtain r d2 where run: "rebuildInstructions (accounts_total d0) 0 (dt_parsedInstructions d0) [] ?d1 = (r, d2)"
    by (cases "rebuildInstructions (accounts_total d0) 0 (dt_parsedInstructions d0) [] ?d1")
  show ?thesis
  proof (cases r)
    case (Inl e)
    with run rebuild_instructions_exact [of "accounts_total d0" 0 "dt_parsedInstructions d0" "[]" ?d1]
    have "\<not> list_all (indexes_below (accounts_total d0)) (dt_parsedInstructions d0)" by auto
    with Inl run assms show ?thesis
      by (auto simp: rebuildTransactionGuardV3DecodedInstructions_def Let_def p accounts_total_def)
  next
    case (Inr programs)
    with run have "list_all (indexes_below (accounts_total d0)) (dt_parsedInstructions d0) \<and>
      programs = concat (map (programs_of (transactionGuardV3AccountAddress d0)) (dt_parsedInstructions d0)) \<and>
      d2 = append_effects (concat (map (sols_of (transactionGuardV3AccountAddress d0)) (dt_parsedInstructions d0)))
          (concat (map (tokens_of (transactionGuardV3AccountAddress d0)) (dt_parsedInstructions d0))) ?d1
        \<lparr>dt_Instructions := map (decoded_instruction (transactionGuardV3AccountAddress d0)) (enumerate 0 (dt_parsedInstructions d0))\<rparr>"
      by (simp add: rebuild_instructions_exact addr) (simp add: resetDecoded_def)
    with Inr run assms show ?thesis
      by (auto simp: rebuildTransactionGuardV3DecodedInstructions_def Let_def p accounts_total_def rebuilt_def
          append_effects_def resetDecoded_def)
  qed
qed

subsection \<open>The whole parse\<close>

lemma account_totals:
  "accounts_total (message_image m wallet) = account_count m"
  "dt_parsedInstructions (message_image m wallet) = sm_Instructions m"
  "message_ok m \<Longrightarrow> dt_staticAddresses (message_image m wallet) \<noteq> []"
  by (simp_all add: accounts_total_def account_count_def message_image_def message_ok_def Let_def)

definition indexes_ok :: "solana_message \<Rightarrow> bool" where
  "indexes_ok m \<longleftrightarrow> list_all (indexes_below (account_count m)) (sm_Instructions m)"

lemma parse_transaction_exact:
  "parseTransactionGuardV3 raw wallet newDecoded = (Inr (), d) \<longleftrightarrow>
   (\<exists>m. message_ok m \<and> wire_message m raw \<and> indexes_ok m \<and> d = rebuilt (message_image m wallet))"
  (is "?L = ?R")
proof
  assume ?L
  then obtain s where s: "parse_message wallet (at_bytes raw newDecoded) = (Inr (), s)"
    "rebuildTransactionGuardV3DecodedInstructions (ws_out s) = (Inr (), d)"
    by (auto simp: parseTransactionGuardV3_def bindIO_def onOut_def split: prod.splits sum.splits)
  from s(1) obtain m where m: "message_ok m" "wire_message m raw" "s = at_bytes [] (message_image m wallet)"
    unfolding parse_message_exact by (elim exE conjE)
  with s(2) show ?R by (intro exI [of _ m]) (simp add: rebuild_exact account_totals indexes_ok_def)
next
  assume ?R
  then obtain m where m: "message_ok m" "wire_message m raw" "indexes_ok m" "d = rebuilt (message_image m wallet)"
    by (elim exE conjE)
  then have "rebuildTransactionGuardV3DecodedInstructions (message_image m wallet) = (Inr (), d)"
    by (simp add: rebuild_exact account_totals indexes_ok_def)
  with m show ?L
    by (simp add: parseTransactionGuardV3_def bindIO_def parse_message_complete onOut_def)
qed

text \<open>Nothing before the entry point marks the output as available.\<close>

lemma keeps_wire_steps [keeps_intros]:
  "(\<And>d. dt_Available (f d) = dt_Available d) \<Longrightarrow> keepsIO (\<lambda>s. \<not> dt_Available (ws_out s)) (modifyOut f)"
  "keepsIO (\<lambda>s. \<not> dt_Available (ws_out s)) bytesLeft"
  "keepsIO (\<lambda>s. \<not> dt_Available (ws_out s)) peekByte"
  "keepsIO (\<lambda>s. \<not> dt_Available (ws_out s)) (readOut g)"
  "keepsIO (\<lambda>s. \<not> dt_Available (ws_out s)) (takeBytes n e)"
  "keepsIO (\<lambda>s. \<not> dt_Available (ws_out s)) (shortVec what)"
  by (auto simp: keepsIO_def modifyOut_def bytesLeft_def peekByte_def readOut_def takeBytes_def shortVec_def mapError_def
      readGuardV3ShortVec_def split: if_splits prod.splits sum.splits)

lemma keeps_parse_each [keeps_intros]:
  "(\<And>index. keepsIO P (p index)) \<Longrightarrow> keepsIO P (parseEach p index k)"
  by (induction k arbitrary: index) (auto intro!: keeps_intros)

lemma keeps_parse_message: "keepsIO (\<lambda>s. \<not> dt_Available (ws_out s)) (parse_message wallet)"
proof -
  let ?P = "\<lambda>s. \<not> dt_Available (ws_out s)"
  have "keepsIO ?P parseSignatures" unfolding parseSignatures_def by (intro keeps_intros) simp
  moreover have "keepsIO ?P parseVersion"
    unfolding parseVersion_def by (intro keeps_intros) simp_all
  moreover have "keepsIO ?P (parseHeader n)" for n
    unfolding parseHeader_def Let_def by (intro keeps_intros) simp
  moreover have "keepsIO ?P (parseAccounts h)" for h
    unfolding parseAccounts_def Let_def by (intro keeps_intros) simp
  moreover have "keepsIO ?P parseInstructions"
    unfolding parseInstructions_def parseInstruction_def by (intro keeps_intros)
  moreover have "keepsIO ?P parseLookups"
    unfolding parseLookups_def parseLookup_def by (intro keeps_intros) (simp_all add: appendLookup_def)
  moreover have "keepsIO ?P (parseEnd wallet a i)" for a i
    unfolding parseEnd_def by (intro keeps_intros) simp_all
  ultimately show ?thesis unfolding parse_message_def by (intro keeps_intros) simp_all
qed

lemma rebuild_keeps_available:
  "rebuildTransactionGuardV3DecodedInstructions d0 = (r, d) \<Longrightarrow> dt_Available d = dt_Available d0"
proof -
  have step: "rebuildInstruction n index p d = Inr ((program, resolved), d') \<Longrightarrow> dt_Available d' = dt_Available d"
    for n index p d program resolved d'
    by (simp add: rebuild_instruction_exact append_effects_def)
  have loop: "rebuildInstructions n index ps programs d = (r, d') \<Longrightarrow> dt_Available d' = dt_Available d"
    for n index ps programs d r d'
    by (induction ps arbitrary: index programs d) (auto dest!: step split: sum.splits)
  assume "rebuildTransactionGuardV3DecodedInstructions d0 = (r, d)"
  then show ?thesis
    by (auto simp: rebuildTransactionGuardV3DecodedInstructions_def Let_def resetDecoded_def totalSOLTransfers_def
        dest!: loop split: prod.splits sum.splits)
qed

lemma parse_error_unavailable:
  assumes "parseTransactionGuardV3 raw wallet newDecoded = (Inl e, d)"
  shows "\<not> dt_Available d"
proof -
  obtain r s where s: "parse_message wallet (at_bytes raw newDecoded) = (r, s)" by (cases "parse_message wallet (at_bytes raw newDecoded)")
  have "\<not> dt_Available (ws_out s)"
    by (rule keepsIOD [OF keeps_parse_message _ s]) (simp add: newDecoded_def)
  with assms s show ?thesis
    by (auto simp: parseTransactionGuardV3_def bindIO_def onOut_def dest: rebuild_keeps_available
        split: prod.splits sum.splits)
qed

subsection \<open>Totals\<close>

text \<open>The lamports an instruction moves: the transfers and account creations of the system program.\<close>

definition lamports_moved :: "addressing \<Rightarrow> guardV3ParsedInstruction \<Rightarrow> nat" where
  "lamports_moved addr p =
     (let data = gp_Data p; opcode = uint_le (take 4 data) in
      if addr (gp_ProgramIndex p) = (guardV3SystemProgramID, True) \<and> 2 \<le> length (gp_AccountIndexes p) \<and>
         4 \<le> length data \<and> (opcode = 0 \<and> 52 \<le> length data \<or> opcode = 2 \<and> 12 \<le> length data)
      then uint_le (slice_of 4 12 data) else 0)"

definition funding_account :: "addressing \<Rightarrow> guardV3ParsedInstruction \<Rightarrow> string" where
  "funding_account addr p = hd (accounts_of addr p)"

lemma not_system: "guardV3SPLTokenProgramID \<noteq> guardV3SystemProgramID" "guardV3Token2022ProgramID \<noteq> guardV3SystemProgramID"
  by (simp_all add: guardV3SPLTokenProgramID_def guardV3Token2022ProgramID_def guardV3SystemProgramID_def)

lemma token_adds_no_sol:
  "dt_SOLTransfers (snd (classifyTransactionGuardV3TokenInstruction program accounts data d)) = dt_SOLTransfers d"
  by (auto simp: classifyTransactionGuardV3TokenInstruction_def plain_token_def authority_operation_def add_operation_def
      split: prod.splits sum.splits option.splits)

lemma sum_lamports_append: "sum_lamports P (xs @ ys) = sum_lamports P xs + sum_lamports P ys"
  by (induction xs) (auto split: option.splits)

lemma SetString_show_nat [simp]: "SetString 10 (show_nat n) = Some (int n)"
  by (simp add: show_nat_def)

lemma sum_lamports_system:
  "sum_lamports P (instruction_sols guardV3SystemProgramID accounts data) =
   (if 2 \<le> length accounts \<and> 4 \<le> length data \<and>
       (uint_le (take 4 data) = 0 \<and> 52 \<le> length data \<or> uint_le (take 4 data) = 2 \<and> 12 \<le> length data) \<and>
       P (hd (instruction_sols guardV3SystemProgramID accounts data))
    then int (uint_le (slice_of 4 12 data)) else 0)"
  by (simp add: instruction_sols_def instruction_effect_def classifyTransactionGuardV3Instruction_def
      classifyTransactionGuardV3SystemInstruction_def Let_def add_sol_def newDecoded_def)

lemma system_source:
  "instruction_sols guardV3SystemProgramID accounts data \<noteq> [] \<Longrightarrow>
   st_Source (hd (instruction_sols guardV3SystemProgramID accounts data)) = hd accounts"
  by (cases accounts)
     (auto simp: instruction_sols_def instruction_effect_def classifyTransactionGuardV3Instruction_def
      classifyTransactionGuardV3SystemInstruction_def Let_def add_sol_def newDecoded_def split: if_splits)

lemma other_sols: "program \<noteq> guardV3SystemProgramID \<Longrightarrow> instruction_sols program accounts data = []"
  using token_adds_no_sol [of program accounts data newDecoded]
  by (auto simp: instruction_sols_def instruction_effect_def classifyTransactionGuardV3Instruction_def)
     (auto simp: newDecoded_def)

lemma sum_lamports_sols_of:
  "sum_lamports P (sols_of addr p) =
   (if 0 < lamports_moved addr p \<and> P (hd (sols_of addr p)) then int (lamports_moved addr p) else 0)"
proof (cases "addr (gp_ProgramIndex p)")
  case (Pair program resolved)
  show ?thesis
  proof (cases "program = guardV3SystemProgramID \<and> resolved")
    case True
    with Pair show ?thesis
      by (auto simp: sols_of_def sum_lamports_system lamports_moved_def Let_def accounts_of_def)
  next
    case False
    with Pair show ?thesis by (auto simp: sols_of_def other_sols lamports_moved_def Let_def)
  qed
qed

lemma int_text_nat: "int_text 10 (int n) = show_nat n"
  by (simp add: int_text_def show_nat_def)

lemma sum_lamports_all:
  "sum_lamports (\<lambda>_. True) (concat (map (sols_of addr) ps)) = int (sum_list (map (lamports_moved addr) ps))"
  by (induction ps) (auto simp: sum_lamports_append sum_lamports_sols_of)

end
