(* ===== verification/Solana_Accounts.thy ===== *)
theory Solana_Accounts
  imports Solana_Authority Go_Base64 Go_Json
begin

text \<open>
  Solana account state as the RPC reports it: \<^verbatim>\<open>services/solana_transaction_guard_accounts.go\<close> and
  \<^verbatim>\<open>services/solana_token_authority_snapshot.go\<close>. The \<^verbatim>\<open>any\<close> that holds the account data is a JSON
  value. Base64 names the offset of the first illegal byte in its error; \<open>corrupt\<close> stands for that
  error. The request that asks the provider for accounts is the argument \<open>getMultipleAccounts\<close>:
  given the addresses it returns the accounts, \<^verbatim>\<open>nil\<close> for one that does not exist.
\<close>

record SolanaAccountInfo =
  sa_Data :: json
  sa_Executable :: bool
  sa_Lamports :: int
  sa_Owner :: string
  sa_RentEpoch :: json
  sa_Space :: int

type_synonym base64_error = "string \<Rightarrow> go_error"
type_synonym account_rpc = "string list \<Rightarrow> go_error + SolanaAccountInfo option list"

subsection \<open>Requests\<close>

definition maxTransactionGuardAccounts :: nat where
  "maxTransactionGuardAccounts = 32"

fun clean_addresses :: "string list \<Rightarrow> string list \<Rightarrow> string list" where
  "clean_addresses out [] = out"
| "clean_addresses out (a # as) =
     (let address = TrimSpace a in
      if address = [] \<or> address \<in> set out then clean_addresses out as
      else if length (out @ [address]) = maxTransactionGuardAccounts then out @ [address]
      else clean_addresses (out @ [address]) as)"

definition cleanGuardAccountAddresses :: "string list \<Rightarrow> string list" where
  "cleanGuardAccountAddresses = clean_addresses []"

text \<open>\<open>rpcURL\<close> is the resolved address of the provider.\<close>

definition SolanaGetMultipleAccountsBase64 ::
  "account_rpc \<Rightarrow> string \<Rightarrow> string list \<Rightarrow> go_error + SolanaAccountInfo option list \<times> string list" where
  "SolanaGetMultipleAccountsBase64 getMultipleAccounts rpcURL addresses =
     (let clean = cleanGuardAccountAddresses addresses in
      if rpcURL = [] then Inl (ErrMsg ''solana rpc url is empty'')
      else if clean = [] then Inl (ErrMsg ''transaction guard account list is empty'')
      else bindE (getMultipleAccounts clean) (\<lambda>infos. Inr (infos, clean)))"

subsection \<open>Token accounts and mints\<close>

definition isGuardTokenProgram :: "string \<Rightarrow> bool" where
  "isGuardTokenProgram owner \<longleftrightarrow>
     TrimSpace owner = guardV3SPLTokenProgramID \<or> TrimSpace owner = guardV3Token2022ProgramID"

definition encoded_data :: "json \<Rightarrow> string" where
  "encoded_data raw = (case raw of JArr (JStr s # _) \<Rightarrow> s | JStr s \<Rightarrow> s | _ \<Rightarrow> [])"

definition account_bytes :: "base64_error \<Rightarrow> string \<Rightarrow> string \<Rightarrow> json \<Rightarrow> go_error + string" where
  "account_bytes corrupt unavailable broken raw =
     (let encoded = TrimSpace (encoded_data raw) in
      if encoded = [] then Inl (ErrMsg unavailable)
      else case StdEncoding_DecodeString encoded of
        None \<Rightarrow> Inl (ErrWrap broken (corrupt encoded))
      | Some decoded \<Rightarrow> Inr decoded)"

definition solanaAccountDataBytes :: "base64_error \<Rightarrow> json \<Rightarrow> go_error + string" where
  "solanaAccountDataBytes corrupt =
     account_bytes corrupt ''base64 account data is unavailable'' ''decode token account data''"

definition guardV3AccountDataBytes :: "base64_error \<Rightarrow> json \<Rightarrow> go_error + string" where
  "guardV3AccountDataBytes corrupt =
     account_bytes corrupt ''lookup table base64 account data is unavailable'' ''decode lookup table account data''"

record SolanaTokenAccountSnapshot =
  ts_Mint :: string
  ts_Owner :: string
  ts_Amount :: "64 word"

definition minimumTokenAccountSize :: nat where "minimumTokenAccountSize = 165"
definition minimumTokenMintSize :: nat where "minimumTokenMintSize = 82"

text \<open>What both token-account readers check before they read a field.\<close>

definition token_account_bytes ::
  "base64_error \<Rightarrow> string \<Rightarrow> string \<Rightarrow> nat \<Rightarrow> SolanaAccountInfo option \<Rightarrow> go_error + string" where
  "token_account_bytes corrupt unavailable short minimum info =
     (case info of
        None \<Rightarrow> Inl (ErrMsg unavailable)
      | Some i \<Rightarrow>
          if \<not> isGuardTokenProgram (sa_Owner i) then Inl (ErrMsg ''account is not owned by an SPL token program'')
          else bindE (solanaAccountDataBytes corrupt (sa_Data i)) (\<lambda>data.
            if length data < minimum then Inl (ErrMsg short) else Inr data))"

definition SolanaTokenAccountSnapshotFromInfo ::
  "base64_error \<Rightarrow> SolanaAccountInfo option \<Rightarrow> go_error + SolanaTokenAccountSnapshot" where
  "SolanaTokenAccountSnapshotFromInfo corrupt info =
     bindE (token_account_bytes corrupt ''token account is unavailable'' ''token account data is too short''
              minimumTokenAccountSize info) (\<lambda>data.
       Inr \<lparr>ts_Mint = slice_of 0 32 data, ts_Owner = slice_of 32 64 data,
            ts_Amount = of_nat (uint_le (slice_of 64 72 data))\<rparr>)"

text \<open>A \<^verbatim>\<open>COption<Pubkey>\<close>: a 32-bit tag and a key.\<close>

definition unpackGuardCOptionPubkey :: "string \<Rightarrow> go_error + string option" where
  "unpackGuardCOptionPubkey data =
     (if length data < 36 then Inl (ErrMsg ''COption pubkey is truncated'')
      else let tag = uint_le (take 4 data) in
        if tag = 0 then Inr None
        else if tag = 1 then Inr (Some (slice_of 4 36 data))
        else Inl (ErrMsg ''invalid COption pubkey tag''))"

definition zero_key :: string where "zero_key = replicate 32 zero_byte"

definition wrapError :: "string \<Rightarrow> go_error + 'a \<Rightarrow> go_error + 'a" where
  "wrapError what r = (case r of Inl e \<Rightarrow> Inl (ErrWrap what e) | Inr x \<Rightarrow> Inr x)"

record SolanaTokenAuthoritySnapshot =
  tas_Mint :: string
  tas_Owner :: string
  tas_Amount :: "64 word"
  tas_State :: "8 word"
  tas_HasDelegate :: bool
  tas_Delegate :: string
  tas_DelegatedAmount :: "64 word"
  tas_HasCloseAuthority :: bool
  tas_CloseAuthority :: string

definition SolanaTokenAuthoritySnapshotFromInfo ::
  "base64_error \<Rightarrow> SolanaAccountInfo option \<Rightarrow> go_error + SolanaTokenAuthoritySnapshot" where
  "SolanaTokenAuthoritySnapshotFromInfo corrupt info =
     bindE (token_account_bytes corrupt ''token account is unavailable'' ''token account data is too short''
              minimumTokenAccountSize info) (\<lambda>data.
     bindE (wrapError ''decode delegate'' (unpackGuardCOptionPubkey (slice_of 72 108 data))) (\<lambda>delegate.
     bindE (wrapError ''decode close authority'' (unpackGuardCOptionPubkey (slice_of 129 165 data))) (\<lambda>close.
       Inr \<lparr>tas_Mint = slice_of 0 32 data, tas_Owner = slice_of 32 64 data,
            tas_Amount = of_nat (uint_le (slice_of 64 72 data)), tas_State = of_nat (byte_of (data ! 108)),
            tas_HasDelegate = delegate \<noteq> None, tas_Delegate = (case delegate of None \<Rightarrow> zero_key | Some k \<Rightarrow> k),
            tas_DelegatedAmount = of_nat (uint_le (slice_of 121 129 data)),
            tas_HasCloseAuthority = close \<noteq> None,
            tas_CloseAuthority = (case close of None \<Rightarrow> zero_key | Some k \<Rightarrow> k)\<rparr>)))"

record SolanaMintAuthoritySnapshot =
  mas_HasMintAuthority :: bool
  mas_MintAuthority :: string
  mas_Supply :: "64 word"
  mas_Decimals :: "8 word"
  mas_Initialized :: bool
  mas_HasFreezeAuthority :: bool
  mas_FreezeAuthority :: string

definition SolanaMintAuthoritySnapshotFromInfo ::
  "base64_error \<Rightarrow> SolanaAccountInfo option \<Rightarrow> go_error + SolanaMintAuthoritySnapshot" where
  "SolanaMintAuthoritySnapshotFromInfo corrupt info =
     bindE (token_account_bytes corrupt ''mint account is unavailable'' ''mint account data is too short''
              minimumTokenMintSize info) (\<lambda>data.
     bindE (wrapError ''decode mint authority'' (unpackGuardCOptionPubkey (slice_of 0 36 data))) (\<lambda>mint.
     bindE (wrapError ''decode freeze authority'' (unpackGuardCOptionPubkey (slice_of 46 82 data))) (\<lambda>freeze.
       Inr \<lparr>mas_HasMintAuthority = mint \<noteq> None, mas_MintAuthority = (case mint of None \<Rightarrow> zero_key | Some k \<Rightarrow> k),
            mas_Supply = of_nat (uint_le (slice_of 36 44 data)), mas_Decimals = of_nat (byte_of (data ! 44)),
            mas_Initialized = byte_of (data ! 45) = 1, mas_HasFreezeAuthority = freeze \<noteq> None,
            mas_FreezeAuthority = (case freeze of None \<Rightarrow> zero_key | Some k \<Rightarrow> k)\<rparr>)))"

lemma clean_addresses_props:
  "length out < 32 \<Longrightarrow> distinct out \<Longrightarrow> [] \<notin> set out \<Longrightarrow>
   distinct (clean_addresses out as) \<and> length (clean_addresses out as) \<le> 32 \<and> [] \<notin> set (clean_addresses out as)"
  by (induction as arbitrary: out) (auto simp: maxTransactionGuardAccounts_def Let_def)

lemma clean_addresses_few:
  "length out + length as < 32 \<Longrightarrow> set (clean_addresses out as) = set out \<union> (TrimSpace ` set as - {[]})"
  by (induction as arbitrary: out) (auto simp: maxTransactionGuardAccounts_def Let_def)

end
