(* ===== verification/Solana_Lookup.thy ===== *)
theory Solana_Lookup
  imports Solana_Decode Solana_Accounts
begin

text \<open>
  Address lookup tables (\<^verbatim>\<open>handlers/transaction_guard_v3_lookups.go\<close>): the accounts of a versioned
  transaction that are named by table and index are read from the tables' account state, and the
  instructions are rebuilt with them. Any table that is missing, not owned by the lookup-table
  program, malformed or too short for an index leaves the decoded transaction as it was, with one
  finding.
\<close>

definition guardV3LookupTableMetaSize :: nat where "guardV3LookupTableMetaSize = 56"

definition parseTransactionGuardV3LookupTableAddresses :: "string \<Rightarrow> go_error + string list" where
  "parseTransactionGuardV3LookupTableAddresses data =
     (if length data < guardV3LookupTableMetaSize
      then Inl (ErrMsg (''lookup table account data is shorter than '' @ show_nat guardV3LookupTableMetaSize @ '' bytes''))
      else if uint_le (take 4 data) \<noteq> 1
      then Inl (ErrMsg ''lookup table account state discriminator is not initialized'')
      else let addressBytes = drop guardV3LookupTableMetaSize data in
        if length addressBytes mod 32 \<noteq> 0
        then Inl (ErrMsg (''lookup table address region has '' @ show_nat (length addressBytes mod 32) @ '' trailing byte(s)''))
        else Inr (map guardV3Base58Encode (chunks 32 addressBytes)))"

definition guardV3LookupResolutionFailure :: "string \<Rightarrow> string \<Rightarrow> string \<Rightarrow> transactionFirewallFinding list" where
  "guardV3LookupResolutionFailure code table evidence =
     (let evidence' = (if TrimSpace table = [] then evidence else ''table='' @ TrimSpace table @ '' '' @ evidence)
      in [finding code ''high'' ''Address lookup table resolution is incomplete'' (compactGuardV3Evidence evidence') 30])"

text \<open>The addresses at the indexes, or the first index outside the table.\<close>

fun pick_addresses :: "string list \<Rightarrow> nat list \<Rightarrow> nat + string list" where
  "pick_addresses addresses [] = Inr []"
| "pick_addresses addresses (i # is) =
     (if length addresses \<le> i then Inl i
      else case pick_addresses addresses is of Inl j \<Rightarrow> Inl j | Inr as \<Rightarrow> Inr (addresses ! i # as))"

definition index_failure :: "transactionGuardDecodedLookupTable \<Rightarrow> string \<Rightarrow> nat \<Rightarrow> nat \<Rightarrow> transactionFirewallFinding list" where
  "index_failure lookup what i n =
     guardV3LookupResolutionFailure ''transaction_address_lookup_index_out_of_range'' (dl_TableAddress lookup)
       (what @ '' index '' @ show_nat i @ '' exceeds '' @ show_nat n @ '' stored addresses'')"

definition accountByAddress ::
  "string list \<Rightarrow> SolanaAccountInfo option list \<Rightarrow> string \<Rightarrow> SolanaAccountInfo option" where
  "accountByAddress ordered infos address =
     (case map_of (rev (zip (map TrimSpace ordered) infos)) (TrimSpace address) of
        None \<Rightarrow> None | Some info \<Rightarrow> info)"

definition resolveLookup ::
  "base64_error \<Rightarrow> (string \<Rightarrow> SolanaAccountInfo option) \<Rightarrow> transactionGuardDecodedLookupTable
   \<Rightarrow> transactionFirewallFinding list + transactionGuardDecodedLookupTable" where
  "resolveLookup corrupt account lookup =
     (case account (dl_TableAddress lookup) of
        None \<Rightarrow> Inl (guardV3LookupResolutionFailure ''transaction_address_lookup_account_unavailable''
                  (dl_TableAddress lookup) ''Lookup table account was not returned by RPC.'')
      | Some info \<Rightarrow>
          if \<not> EqualFold (TrimSpace (sa_Owner info)) guardV3AddressLookupTableProgramID
          then Inl (guardV3LookupResolutionFailure ''transaction_address_lookup_owner_mismatch''
                  (dl_TableAddress lookup)
                  ''Lookup table account is not owned by the pinned Solana Address Lookup Table program.'')
          else (case guardV3AccountDataBytes corrupt (sa_Data info) of
            Inl err \<Rightarrow> Inl (guardV3LookupResolutionFailure ''transaction_address_lookup_decode_failed''
                         (dl_TableAddress lookup) (Error err))
          | Inr data \<Rightarrow>
              (case parseTransactionGuardV3LookupTableAddresses data of
                 Inl err \<Rightarrow> Inl (guardV3LookupResolutionFailure ''transaction_address_lookup_invalid_layout''
                              (dl_TableAddress lookup) (Error err))
               | Inr addresses \<Rightarrow>
                   (case pick_addresses addresses (dl_WritableIndexes lookup) of
                      Inl i \<Rightarrow> Inl (index_failure lookup ''writable'' i (length addresses))
                    | Inr writable \<Rightarrow>
                        (case pick_addresses addresses (dl_ReadonlyIndexes lookup) of
                           Inl i \<Rightarrow> Inl (index_failure lookup ''readonly'' i (length addresses))
                         | Inr readonly \<Rightarrow>
                             Inr (lookup\<lparr>dl_WritableAddresses := writable, dl_ReadonlyAddresses := readonly,
                               dl_Resolved := True, dl_Status := ''verified_rpc_address_lookup''\<rparr>))))))"

fun resolveLookups ::
  "base64_error \<Rightarrow> (string \<Rightarrow> SolanaAccountInfo option) \<Rightarrow> transactionGuardDecodedLookupTable list
   \<Rightarrow> transactionFirewallFinding list + transactionGuardDecodedLookupTable list" where
  "resolveLookups corrupt account [] = Inr []"
| "resolveLookups corrupt account (lookup # lookups) =
     (case resolveLookup corrupt account lookup of
        Inl failure \<Rightarrow> Inl failure
      | Inr l \<Rightarrow>
          (case resolveLookups corrupt account lookups of Inl failure \<Rightarrow> Inl failure | Inr ls \<Rightarrow> Inr (l # ls)))"

definition resolveTransactionGuardV3LookupAccounts ::
  "base64_error \<Rightarrow> dtx \<Rightarrow> string list \<Rightarrow> SolanaAccountInfo option list \<Rightarrow> dtx \<times> transactionFirewallFinding list" where
  "resolveTransactionGuardV3LookupAccounts corrupt decoded ordered infos =
     (case resolveLookups corrupt (accountByAddress ordered infos) (dt_LookupTables decoded) of
        Inl failure \<Rightarrow> (decoded, failure)
      | Inr tables \<Rightarrow>
          let writable = concat (map dl_WritableAddresses tables);
              readonly = concat (map dl_ReadonlyAddresses tables) in
          if length writable \<noteq> dt_LoadedWritableCount decoded \<or> length readonly \<noteq> dt_LoadedReadonlyCount decoded
          then (decoded, guardV3LookupResolutionFailure ''transaction_address_lookup_count_mismatch'' []
                 (''resolved writable='' @ show_nat (length writable) @ ''/'' @ show_nat (dt_LoadedWritableCount decoded) @
                  '' readonly='' @ show_nat (length readonly) @ ''/'' @ show_nat (dt_LoadedReadonlyCount decoded)))
          else
            let candidate = decoded\<lparr>dt_LookupTables := tables, dt_loadedWritableAddresses := writable,
                  dt_loadedReadonlyAddresses := readonly, dt_UnresolvedLookupAccountCount := 0, dt_Complete := True,
                  dt_Status := ''complete_with_verified_address_lookups'',
                  dt_Limitations := removeGuardV3Limitation (dt_Limitations decoded) guardV3UnresolvedLookupLimitation\<rparr>
            in (case rebuildTransactionGuardV3DecodedInstructions candidate of
                  (Inl err, _) \<Rightarrow>
                    (decoded, guardV3LookupResolutionFailure ''transaction_address_lookup_rebuild_failed'' [] (Error err))
                | (Inr _, d) \<Rightarrow>
                    (d, uniqueGuardV3Findings
                      (finding ''transaction_address_lookup_resolved'' ''info'' ''Versioned address lookup tables resolved''
                         (''Resolved '' @ show_nat (dt_AddressLookupCount d) @ '' lookup table(s), '' @
                          show_nat (dt_LoadedWritableCount d) @ '' writable and '' @ show_nat (dt_LoadedReadonlyCount d) @
                          '' readonly loaded account(s) through Solana RPC.'') 0
                       # transactionGuardV3InstructionFindings d))))"

definition resolveTransactionGuardV3AddressLookups ::
  "base64_error \<Rightarrow> account_rpc \<Rightarrow> string \<Rightarrow> dtx \<Rightarrow> dtx \<times> transactionFirewallFinding list" where
  "resolveTransactionGuardV3AddressLookups corrupt getMultipleAccounts rpcURL decoded =
     (if dt_AddressLookupCount decoded = 0 then (decoded, []) else
      let tableAddresses = filter (\<lambda>a. TrimSpace a \<noteq> []) (map dl_TableAddress (dt_LookupTables decoded)) in
      if length tableAddresses \<noteq> dt_AddressLookupCount decoded then
        (decoded, [finding ''transaction_address_lookup_metadata_incomplete'' ''high''
           ''Address lookup metadata is incomplete''
           (''decoded_lookup_tables='' @ show_nat (length tableAddresses) @ '' expected='' @
            show_nat (dt_AddressLookupCount decoded)) 30])
      else case SolanaGetMultipleAccountsBase64 getMultipleAccounts rpcURL tableAddresses of
        Inl err \<Rightarrow>
          (decoded, [finding ''transaction_address_lookup_rpc_failed'' ''high''
             ''Address lookup tables could not be resolved'' (compactGuardV3Evidence (Error err)) 30])
      | Inr (infos, ordered) \<Rightarrow> resolveTransactionGuardV3LookupAccounts corrupt decoded ordered infos)"

definition instruction_codes :: "string list" where
  "instruction_codes =
     [''decoded_sol_transfer'', ''decoded_delegate_approval'', ''decoded_authority_change'',
      ''decoded_close_account'', ''decoded_freeze_account'', ''decoded_token_burn'']"

definition refreshTransactionGuardV3InstructionFindings ::
  "transactionFirewallFinding list \<Rightarrow> dtx \<Rightarrow> transactionFirewallFinding list \<Rightarrow> transactionFirewallFinding list" where
  "refreshTransactionGuardV3InstructionFindings findings decoded replacement =
     (let kept = fold (\<lambda>code fs. removeGuardV3Finding fs code) instruction_codes findings;
          kept' = (if dt_Complete decoded then removeGuardV3Finding kept ''transaction_address_lookup_unresolved''
                   else kept)
      in uniqueGuardV3Findings (kept' @ replacement))"

end
