(* ===== verification/Solana_Tx_Sound.thy ===== *)
theory Solana_Tx_Sound
  imports Solana_Decode_Sound Solana_Lookup
begin

text \<open>
  The properties of the decoder as a whole, from the text of a request to the decoded transaction:
  which texts are accepted, that a serialised message comes back, what the SOL totals are and
  which SOL movements they miss, and that lookup tables are resolved completely or not at all.
  \<open>put_message\<close> is a reference serialiser with shortest lengths.
\<close>

declare chunks.simps [simp del]

subsection \<open>Messages and their addresses\<close>

definition message_address :: "solana_message \<Rightarrow> addressing" where
  "message_address m i =
     (if i < length (sm_Keys m) then (guardV3Base58Encode (sm_Keys m ! i), True)
      else if i < account_count m
      then (guardV3LookupPlaceholder i (length (sm_Keys m)) (loaded_writable m), False)
      else (''unresolved-account:'' @ show_nat i, False))"

lemma message_image_address: "transactionGuardV3AccountAddress (message_image m wallet) = message_address m"
  by (rule ext) (auto simp: transactionGuardV3AccountAddress_def message_address_def message_image_def Let_def
      known_address_def newDecoded_def account_count_def guardV3LookupPlaceholder_def)

definition decoded_text :: "string \<Rightarrow> string \<Rightarrow> solana_message \<Rightarrow> bool" where
  "decoded_text transaction encoding m \<longleftrightarrow>
     ToLower (TrimSpace encoding) = ''base64'' \<and>
     (\<exists>raw. StdEncoding_DecodeString (TrimSpace transaction) = Some raw \<and> message_ok m \<and> wire_message m raw \<and> indexes_ok m)"

lemma rebuilt_image:
  "dt_staticAddresses (rebuilt (message_image m wallet)) = map guardV3Base58Encode (sm_Keys m)"
  "dt_StaticAccounts (rebuilt (message_image m wallet)) = dt_StaticAccounts (message_image m wallet)"
  "dt_FeePayer (rebuilt (message_image m wallet)) = guardV3Base58Encode (hd (sm_Keys m)) \<or> sm_Keys m = []"
  "dt_parsedInstructions (rebuilt (message_image m wallet)) = sm_Instructions m"
  "dt_LookupTables (rebuilt (message_image m wallet)) = map lookup_table (sm_Lookups m)"
  "dt_AddressLookupCount (rebuilt (message_image m wallet)) = length (sm_Lookups m)"
  "dt_LoadedWritableCount (rebuilt (message_image m wallet)) = loaded_writable m"
  "dt_LoadedReadonlyCount (rebuilt (message_image m wallet)) = loaded_readonly m"
  "dt_UnresolvedLookupAccountCount (rebuilt (message_image m wallet)) = loaded_writable m + loaded_readonly m"
  "dt_Instructions (rebuilt (message_image m wallet)) =
     map (decoded_instruction (message_address m)) (enumerate 0 (sm_Instructions m))"
  "dt_ExplicitSOLTransferLamports (rebuilt (message_image m wallet)) =
     show_nat (sum_list (map (lamports_moved (message_address m)) (sm_Instructions m)))"
  by (simp_all add: rebuilt_def Let_def message_image_address totalSOLTransfers_def resetDecoded_def sum_lamports_all
      int_text_nat) (auto simp: message_image_def Let_def hd_map)

lemma decode_accepted:
  assumes "decoded_text transaction encoding m"
  obtains limitations where
    "fst (decodeTransactionGuardV3 transaction encoding wallet) =
       rebuilt (message_image m (TrimSpace wallet))\<lparr>dt_Available := True,
         dt_Complete := loaded_writable m + loaded_readonly m = 0,
         dt_Status := (if loaded_writable m + loaded_readonly m = 0 then ''complete''
                       else ''complete_with_unresolved_address_lookups''),
         dt_Limitations := limitations\<rparr>"
proof -
  from assms obtain raw where raw: "StdEncoding_DecodeString (TrimSpace transaction) = Some raw"
    and m: "message_ok m" "wire_message m raw" "indexes_ok m" and e: "ToLower (TrimSpace encoding) = ''base64''"
    unfolding decoded_text_def by (elim exE conjE)
  have "parseTransactionGuardV3 raw (TrimSpace wallet) newDecoded = (Inr (), rebuilt (message_image m (TrimSpace wallet)))"
    unfolding parse_transaction_exact using m by (intro exI [of _ m]) simp
  then show ?thesis
    using raw e by (intro that) (simp add: decodeTransactionGuardV3_def Let_def rebuilt_image)
qed

text \<open>C29: A request's transaction is decoded exactly when its encoding is base64, its text decodes to
  bytes that are one well-formed Solana message to the last byte, and every program and account
  index of its instructions names an account of the message; every other text is reported as not
  decoded.\<close>

theorem transaction_accepted_iff:
  "dt_Available (fst (decodeTransactionGuardV3 transaction encoding wallet)) \<longleftrightarrow>
   (\<exists>m. decoded_text transaction encoding m)"
proof
  assume A: "dt_Available (fst (decodeTransactionGuardV3 transaction encoding wallet))"
  have e: "ToLower (TrimSpace encoding) = ''base64''"
    using A by (rule contrapos_pp) (simp add: decodeTransactionGuardV3_def newDecoded_def)
  with A obtain raw where raw: "StdEncoding_DecodeString (TrimSpace transaction) = Some raw"
    by (cases "StdEncoding_DecodeString (TrimSpace transaction)")
       (simp_all add: decodeTransactionGuardV3_def newDecoded_def)
  obtain r d where p: "parseTransactionGuardV3 raw (TrimSpace wallet) newDecoded = (r, d)"
    by (cases "parseTransactionGuardV3 raw (TrimSpace wallet) newDecoded")
  with A e raw have "r = Inr ()"
    using parse_error_unavailable [of raw "TrimSpace wallet"]
    by (cases r) (auto simp: decodeTransactionGuardV3_def)
  with p obtain m where "message_ok m" "wire_message m raw" "indexes_ok m"
    by (auto simp: parse_transaction_exact)
  with e raw show "\<exists>m. decoded_text transaction encoding m" unfolding decoded_text_def by (intro exI conjI)
next
  assume "\<exists>m. decoded_text transaction encoding m"
  then obtain m where "decoded_text transaction encoding m" by (elim exE)
  then obtain limitations where "fst (decodeTransactionGuardV3 transaction encoding wallet) =
       rebuilt (message_image m (TrimSpace wallet))\<lparr>dt_Available := True,
         dt_Complete := loaded_writable m + loaded_readonly m = 0,
         dt_Status := (if loaded_writable m + loaded_readonly m = 0 then ''complete''
                       else ''complete_with_unresolved_address_lookups''),
         dt_Limitations := limitations\<rparr>" by (rule decode_accepted)
  then show "dt_Available (fst (decodeTransactionGuardV3 transaction encoding wallet))" by simp
qed

subsection \<open>Serialising\<close>

definition put_length :: "nat \<Rightarrow> string" where "put_length n = put_short 3 n"

definition put_bytes :: "nat list \<Rightarrow> string" where "put_bytes = map char_of"

definition put_instruction :: "guardV3ParsedInstruction \<Rightarrow> string" where
  "put_instruction i =
     put_bytes [gp_ProgramIndex i] @ put_length (length (gp_AccountIndexes i)) @ put_bytes (gp_AccountIndexes i) @
     put_length (length (gp_Data i)) @ gp_Data i"

definition put_lookup :: "string \<times> nat list \<times> nat list \<Rightarrow> string" where
  "put_lookup = (\<lambda>(key, writable, readonly).
     key @ put_length (length writable) @ put_bytes writable @ put_length (length readonly) @ put_bytes readonly)"

definition put_message :: "solana_message \<Rightarrow> string" where
  "put_message m =
     put_length (length (sm_Signatures m)) @ concat (sm_Signatures m) @
     (if sm_Versioned m then [char_of (128 :: nat)] else []) @
     put_bytes [sm_Required m, sm_ReadonlySigned m, sm_ReadonlyUnsigned m] @
     put_length (length (sm_Keys m)) @ concat (sm_Keys m) @ sm_Blockhash m @
     put_length (length (sm_Instructions m)) @ concat (map put_instruction (sm_Instructions m)) @
     (if sm_Versioned m then put_length (length (sm_Lookups m)) @ concat (map put_lookup (sm_Lookups m)) else [])"

text \<open>What fits the bytes and lengths of the format.\<close>

definition message_fits :: "solana_message \<Rightarrow> bool" where
  "message_fits m \<longleftrightarrow>
     sm_ReadonlyUnsigned m < 256 \<and> length (sm_Lookups m) < 2 ^ 28 \<and>
     list_all (\<lambda>i. length (gp_Data i) < 2 ^ 28) (sm_Instructions m) \<and>
     list_all (\<lambda>(key, w, r). list_all (\<lambda>i. i < 256) w \<and> list_all (\<lambda>i. i < 256) r) (sm_Lookups m)"

lemma put_length_form: "n < 2 ^ 28 \<Longrightarrow> short_form n (put_length n)"
  unfolding put_length_def by (rule put_short_form)

lemma put_bytes_of: "list_all (\<lambda>i. i < 256) xs \<Longrightarrow> map byte_of (put_bytes xs) = xs"
  by (induction xs) (simp_all add: put_bytes_def byte_of_char_of)

lemma put_bytes_header: "put_bytes [a] = [char_of a]" "put_bytes [a, b, c] = [char_of a, char_of b, char_of c]"
  by (simp_all add: put_bytes_def)

lemma put_instruction_wire:
  assumes "indexes_below n i" "n \<le> 256" "instruction_ok i" "length (gp_Data i) < 2 ^ 28"
  shows "wire_instruction i (put_instruction i)"
proof -
  have "list_all (\<lambda>i. i < 256) (gp_AccountIndexes i)" "gp_ProgramIndex i < 256"
    using assms(1,2) by (auto simp: indexes_below_def list_all_iff)
  then show ?thesis
    unfolding wire_instruction_def put_instruction_def put_bytes_header
    using assms(3,4)
    by (intro exI [of _ "char_of (gp_ProgramIndex i)"] exI [of _ "put_length (length (gp_AccountIndexes i))"]
          exI [of _ "put_bytes (gp_AccountIndexes i)"] exI [of _ "put_length (length (gp_Data i))"])
       (simp add: byte_of_char_of put_bytes_of put_length_form instruction_ok_def)
qed

lemma put_lookup_wire:
  assumes "length w < 2 ^ 28" "length r < 2 ^ 28" "list_all (\<lambda>i. i < 256) w" "list_all (\<lambda>i. i < 256) r"
  shows "wire_lookup (key, w, r) (put_lookup (key, w, r))"
  unfolding wire_lookup_def put_lookup_def prod.case
  using assms by (intro exI [of _ "put_length (length w)"] exI [of _ "put_bytes w"]
    exI [of _ "put_length (length r)"] exI [of _ "put_bytes r"]) (simp add: put_bytes_of put_length_form)

lemma wire_list_concat: "list_all (\<lambda>x. form x (put x)) xs \<Longrightarrow> wire_list form xs (concat (map put xs))"
  by (induction xs) (auto intro: wire_list.intros)

lemma put_message_wire:
  assumes ok: "message_ok m" and ix: "indexes_ok m" and fits: "message_fits m"
  shows "wire_message m (put_message m)"
proof -
  have n: "account_count m \<le> 256" using ok by (simp add: message_ok_def)
  have i: "list_all (\<lambda>i. wire_instruction i (put_instruction i)) (sm_Instructions m)"
    using ok ix fits n by (auto simp: list_all_iff message_ok_def indexes_ok_def message_fits_def
        intro!: put_instruction_wire [OF _ n])
  have l: "list_all (\<lambda>l. wire_lookup l (put_lookup l)) (sm_Lookups m)"
  proof (unfold list_all_iff, rule ballI)
    fix l assume l: "l \<in> set (sm_Lookups m)"
    obtain key w r where k: "l = (key, w, r)" by (cases l)
    have "length w \<le> loaded_writable m" "length r \<le> loaded_readonly m"
      using l k unfolding loaded_writable_def loaded_readonly_def
      by (auto intro!: member_le_sum_list image_eqI [where x = "(key, w, r)"])
    with n have "length w \<le> 256" "length r \<le> 256" by (simp_all add: account_count_def)
    with l k fits show "wire_lookup l (put_lookup l)"
      by (auto simp: message_fits_def list_all_iff intro!: put_lookup_wire)
  qed
  have bytes: "sm_Required m < 256" "sm_ReadonlySigned m < 256" "sm_ReadonlyUnsigned m < 256"
    using ok fits by (auto simp: message_ok_def message_fits_def)
  have lens: "length (sm_Signatures m) < 2 ^ 28" "length (sm_Keys m) < 2 ^ 28" "length (sm_Instructions m) < 2 ^ 28"
    "length (sm_Lookups m) < 2 ^ 28"
    using ok fits by (auto simp: message_ok_def message_fits_def)
  have ins: "wire_list wire_instruction (sm_Instructions m) (concat (map put_instruction (sm_Instructions m)))"
    using i by (rule wire_list_concat)
  have ls: "wire_list wire_lookup (sm_Lookups m) (concat (map put_lookup (sm_Lookups m)))"
    using l by (rule wire_list_concat)
  let ?ls = "if sm_Versioned m then put_length (length (sm_Lookups m)) @ concat (map put_lookup (sm_Lookups m)) else []"
  have lk: "if sm_Versioned m
     then \<exists>p4 l. short_form (length (sm_Lookups m)) p4 \<and> wire_list wire_lookup (sm_Lookups m) l \<and> ?ls = p4 @ l
     else ?ls = []"
  proof (cases "sm_Versioned m")
    case True
    have "short_form (length (sm_Lookups m)) (put_length (length (sm_Lookups m)))" by (rule put_length_form) (rule lens)
    with True ls show ?thesis
      by (simp only: if_True) (intro exI [of _ "put_length (length (sm_Lookups m))"]
        exI [of _ "concat (map put_lookup (sm_Lookups m))"] conjI refl; assumption)
  qed simp
  show ?thesis
    unfolding wire_message_def put_message_def put_bytes_header
    by (intro exI conjI) (rule put_length_form byte_of_char_of bytes lens ins lk refl)+
qed

lemma base64_text: "ToLower (TrimSpace ''base64'') = ''base64''"
proof -
  have "TrimSpace ''base64'' = ''base64''" by (rule TrimSpace_all_visible) (simp add: visible_def)
  moreover have "ToLower ''base64'' = ''base64''" by code_simp
  ultimately show ?thesis by simp
qed

lemma decoded_text_put:
  assumes "message_ok m" "indexes_ok m" "message_fits m"
  shows "decoded_text (StdEncoding_EncodeToString (put_message m)) ''base64'' m"
  unfolding decoded_text_def
  using assms put_message_wire [OF assms] base64_text by (intro conjI exI [of _ "put_message m"]) simp_all

text \<open>A serialised transaction comes back: from the base64 text of a well-formed message the decoder
  recovers its account keys as addresses, its instructions with every account index replaced by an
  address, and its lookup tables, and calls it complete exactly when no account is loaded from a
  table.\<close>

theorem transaction_round_trip:
  assumes "message_ok m" and "indexes_ok m" and "message_fits m"
  shows "let d = fst (decodeTransactionGuardV3 (StdEncoding_EncodeToString (put_message m)) ''base64'' wallet) in
    dt_Available d \<and> dt_Complete d = (account_count m = length (sm_Keys m)) \<and>
    dt_staticAddresses d = map guardV3Base58Encode (sm_Keys m) \<and>
    dt_parsedInstructions d = sm_Instructions m \<and>
    dt_Instructions d = map (decoded_instruction (message_address m)) (enumerate 0 (sm_Instructions m)) \<and>
    dt_LookupTables d = map lookup_table (sm_Lookups m)"
proof -
  define d where "d = fst (decodeTransactionGuardV3 (StdEncoding_EncodeToString (put_message m)) ''base64'' wallet)"
  from decoded_text_put [OF assms(1-3)] obtain limitations where
    "d = rebuilt (message_image m (TrimSpace wallet))\<lparr>dt_Available := True,
         dt_Complete := loaded_writable m + loaded_readonly m = 0,
         dt_Status := (if loaded_writable m + loaded_readonly m = 0 then ''complete''
                       else ''complete_with_unresolved_address_lookups''),
         dt_Limitations := limitations\<rparr>" unfolding d_def by (rule decode_accepted)
  then show ?thesis unfolding d_def [symmetric] Let_def by (simp add: rebuilt_image account_count_def)
qed

subsection \<open>SOL totals\<close>

lemma sum_lamports_wallet:
  "wallet \<noteq> [] \<Longrightarrow> sum_lamports (wallet_source wallet) (concat (map (sols_of addr) ps)) =
   int (sum_list (map (\<lambda>p. if EqualFold wallet (funding_account addr p) then lamports_moved addr p else 0) ps))"
proof (induction ps)
  case (Cons p ps)
  have "0 < lamports_moved addr p \<Longrightarrow> st_Source (hd (sols_of addr p)) = funding_account addr p"
  proof -
    assume pos: "0 < lamports_moved addr p"
    then have a: "addr (gp_ProgramIndex p) = (guardV3SystemProgramID, True)"
      by (auto simp: lamports_moved_def Let_def split: if_splits)
    have "sum_lamports (\<lambda>_. True) (sols_of addr p) = int (lamports_moved addr p)"
      using pos by (simp add: sum_lamports_sols_of)
    with pos have "sols_of addr p \<noteq> []" by auto
    with a show ?thesis by (simp add: sols_of_def funding_account_def system_source)
  qed
  with Cons show ?case
    by (cases "lamports_moved addr p = 0")
       (auto simp: sum_lamports_append sum_lamports_sols_of wallet_source_def)
qed simp

lemma rebuilt_spend:
  "dt_DeclaredWalletSOLSpend (rebuilt (message_image m wallet)) =
   (if wallet = [] then [] else show_nat (sum_list (map (\<lambda>p.
      if EqualFold wallet (funding_account (message_address m) p) then lamports_moved (message_address m) p else 0)
      (sm_Instructions m))))"
  by (simp add: rebuilt_def Let_def message_image_address totalSOLTransfers_def resetDecoded_def)
     (simp add: message_image_def Let_def sum_lamports_wallet int_text_nat)

text \<open>C30: The reported SOL totals are exact and never wrap around: the explicit total is the sum of the
  lamports of the system program's transfers and account creations over the instructions of the
  message, and the spend of the declared wallet is the sum over those whose funding account is the
  wallet up to letter case.\<close>

theorem sol_totals_exact:
  assumes "decoded_text transaction encoding m"
  shows "let d = fst (decodeTransactionGuardV3 transaction encoding wallet) in
    dt_ExplicitSOLTransferLamports d =
      show_nat (\<Sum>p\<leftarrow>sm_Instructions m. lamports_moved (message_address m) p) \<and>
    dt_DeclaredWalletSOLSpend d =
      (if TrimSpace wallet = [] then [] else
       show_nat (\<Sum>p\<leftarrow>sm_Instructions m.
         if EqualFold (TrimSpace wallet) (funding_account (message_address m) p)
         then lamports_moved (message_address m) p else 0))"
proof -
  define d where "d = fst (decodeTransactionGuardV3 transaction encoding wallet)"
  from assms(1) obtain limitations where
    "d = rebuilt (message_image m (TrimSpace wallet))\<lparr>dt_Available := True,
         dt_Complete := loaded_writable m + loaded_readonly m = 0,
         dt_Status := (if loaded_writable m + loaded_readonly m = 0 then ''complete''
                       else ''complete_with_unresolved_address_lookups''),
         dt_Limitations := limitations\<rparr>" unfolding d_def by (rule decode_accepted)
  then show ?thesis unfolding d_def [symmetric] Let_def by (simp add: rebuilt_image rebuilt_spend)
qed

text \<open>SOL moved by the system program's other instructions is not in the total: a transaction whose
  instructions are all \<^verbatim>\<open>TransferWithSeed\<close> (opcode 11) decodes with no SOL transfer and an explicit
  total of zero, whatever amounts they carry.\<close>

theorem seed_transfers_uncounted:
  assumes "decoded_text transaction encoding m"
    and "\<forall>p \<in> set (sm_Instructions m). uint_le (take 4 (gp_Data p)) = 11"
  shows "let d = fst (decodeTransactionGuardV3 transaction encoding wallet) in
    dt_Available d \<and> dt_SOLTransfers d = [] \<and> dt_ExplicitSOLTransferLamports d = ''0''"
proof -
  define d where "d = fst (decodeTransactionGuardV3 transaction encoding wallet)"
  from assms(1) obtain limitations where
    d: "d = rebuilt (message_image m (TrimSpace wallet))\<lparr>dt_Available := True,
         dt_Complete := loaded_writable m + loaded_readonly m = 0,
         dt_Status := (if loaded_writable m + loaded_readonly m = 0 then ''complete''
                       else ''complete_with_unresolved_address_lookups''),
         dt_Limitations := limitations\<rparr>" unfolding d_def by (rule decode_accepted)
  have none: "lamports_moved addr p = 0" if "p \<in> set (sm_Instructions m)" for addr p
    using that assms(2) by (simp add: lamports_moved_def Let_def)
  then have z: "(\<Sum>p\<leftarrow>sm_Instructions m. lamports_moved (message_address m) p) = 0" by simp
  have "sols_of (message_address m) p = []" if p: "p \<in> set (sm_Instructions m)" for p
  proof (cases "message_address m (gp_ProgramIndex p)")
    case (Pair program resolved)
    have op: "uint_le (take 4 (gp_Data p)) = 11" using p assms(2) by blast
    then have "instruction_sols guardV3SystemProgramID accounts (gp_Data p) = []" for accounts
      by (simp add: instruction_sols_def instruction_effect_def classifyTransactionGuardV3Instruction_def
          classifyTransactionGuardV3SystemInstruction_def Let_def newDecoded_def)
    with Pair show ?thesis using other_sols by (cases "program = guardV3SystemProgramID") (auto simp: sols_of_def)
  qed
  then have "concat (map (sols_of (message_address m)) (sm_Instructions m)) = []" by simp
  then have "dt_SOLTransfers (rebuilt (message_image m (TrimSpace wallet))) = []"
    by (simp add: rebuilt_def Let_def message_image_address totalSOLTransfers_def) (simp add: message_image_def Let_def)
  moreover have "show_nat 0 = ''0''" by code_simp
  ultimately show ?thesis unfolding d_def [symmetric] Let_def by (simp add: d rebuilt_image z)
qed

subsection \<open>Lookup tables\<close>

definition stored_addresses :: "base64_error \<Rightarrow> SolanaAccountInfo option \<Rightarrow> string list \<Rightarrow> bool" where
  "stored_addresses corrupt account addresses \<longleftrightarrow>
     (case account of None \<Rightarrow> False | Some info \<Rightarrow>
        EqualFold (TrimSpace (sa_Owner info)) guardV3AddressLookupTableProgramID \<and>
        (case guardV3AccountDataBytes corrupt (sa_Data info) of Inl _ \<Rightarrow> False | Inr data \<Rightarrow>
           parseTransactionGuardV3LookupTableAddresses data = Inr addresses))"

text \<open>A lookup as resolved: its addresses are the table's at the indexes of the message.\<close>

definition lookup_verified ::
  "base64_error \<Rightarrow> (string \<Rightarrow> SolanaAccountInfo option) \<Rightarrow>
   transactionGuardDecodedLookupTable \<Rightarrow> transactionGuardDecodedLookupTable \<Rightarrow> bool" where
  "lookup_verified corrupt account l l' \<longleftrightarrow>
     (\<exists>addresses. stored_addresses corrupt (account (dl_TableAddress l)) addresses \<and>
        list_all (\<lambda>i. i < length addresses) (dl_WritableIndexes l @ dl_ReadonlyIndexes l) \<and>
        l' = l\<lparr>dl_WritableAddresses := map ((!) addresses) (dl_WritableIndexes l),
               dl_ReadonlyAddresses := map ((!) addresses) (dl_ReadonlyIndexes l),
               dl_Resolved := True, dl_Status := ''verified_rpc_address_lookup''\<rparr>)"

definition single_failure :: "transactionFirewallFinding list \<Rightarrow> bool" where
  "single_failure fs \<longleftrightarrow> (\<exists>f. fs = [f] \<and> ff_Severity f = ''high'' \<and> ff_Score f = 30)"

lemma lookup_failure_single [simp]: "single_failure (guardV3LookupResolutionFailure code table evidence)"
  by (simp add: single_failure_def guardV3LookupResolutionFailure_def finding_def Let_def)

lemma index_failure_single [simp]: "single_failure (index_failure l what i n)"
  by (simp add: index_failure_def)

lemma pick_addresses_Inr:
  "pick_addresses addresses is = Inr as \<longleftrightarrow> list_all (\<lambda>i. i < length addresses) is \<and> as = map ((!) addresses) is"
proof (induction "is" arbitrary: as)
  case (Cons i "is")
  show ?case
  proof (cases "pick_addresses addresses is")
    case (Inl j)
    with Cons [of "map ((!) addresses) is"] show ?thesis by auto
  next
    case (Inr xs)
    with Cons [of xs] show ?thesis by auto
  qed
qed auto

lemma resolve_lookup_cases:
  "case resolveLookup corrupt account l of Inl fs \<Rightarrow> single_failure fs | Inr l' \<Rightarrow> lookup_verified corrupt account l l'"
  by (auto simp: resolveLookup_def lookup_verified_def stored_addresses_def pick_addresses_Inr
      split: option.splits sum.splits)

lemma resolve_lookups_cases:
  "case resolveLookups corrupt account ls of
     Inl fs \<Rightarrow> single_failure fs | Inr ls' \<Rightarrow> list_all2 (lookup_verified corrupt account) ls ls'"
proof (induction ls)
  case (Cons l ls)
  then show ?case using resolve_lookup_cases [of corrupt account l] by (auto split: sum.splits)
qed simp

lemma parse_table_Inr:
  "parseTransactionGuardV3LookupTableAddresses data = Inr addresses \<Longrightarrow>
   length (drop 56 data) mod 32 = 0 \<and> addresses = map guardV3Base58Encode (chunks 32 (drop 56 data))"
  by (auto simp: parseTransactionGuardV3LookupTableAddresses_def guardV3LookupTableMetaSize_def Let_def split: if_splits)

lemma stored_addresses_known:
  assumes "stored_addresses corrupt account addresses"
  shows "list_all (\<lambda>a. TrimSpace a \<noteq> []) addresses"
proof -
  from assms obtain data where "parseTransactionGuardV3LookupTableAddresses data = Inr addresses"
    unfolding stored_addresses_def by (cases account) (auto split: sum.splits)
  then have d: "length (drop 56 data) mod 32 = 0" and a: "addresses = map guardV3Base58Encode (chunks 32 (drop 56 data))"
    using parse_table_Inr by blast+
  define x where "x = drop 56 data"
  have "length x = (length x div 32) * 32" using d unfolding x_def by (simp only: minus_mod_eq_div_mult [symmetric] diff_zero)
  then have "list_all (\<lambda>k. length k = 32) (chunks 32 x)" by (simp add: chunks_of_length)
  then show ?thesis unfolding a x_def [symmetric]
    by (auto simp: list_all_iff) (metis encode_nonempty list.size(3) zero_neq_numeral)
qed

lemma verified_known:
  "lookup_verified corrupt account l l' \<Longrightarrow>
   list_all (\<lambda>a. TrimSpace a \<noteq> []) (dl_WritableAddresses l') \<and> list_all (\<lambda>a. TrimSpace a \<noteq> []) (dl_ReadonlyAddresses l')"
  by (auto simp: lookup_verified_def list_all_iff dest!: stored_addresses_known)

lemma tables_known:
  "list_all2 (lookup_verified corrupt account) ls ls' \<Longrightarrow>
   list_all (\<lambda>a. TrimSpace a \<noteq> []) (concat (map dl_WritableAddresses ls') @ concat (map dl_ReadonlyAddresses ls'))"
  by (induction rule: list_all2_induct) (auto dest: verified_known)

lemma rebuilt_address: "transactionGuardV3AccountAddress (rebuilt d) = transactionGuardV3AccountAddress d"
  by (rule ext) (simp add: transactionGuardV3AccountAddress_def rebuilt_def resetDecoded_def totalSOLTransfers_def Let_def)

lemma accounts_total_rebuilt: "accounts_total (rebuilt d) = accounts_total d"
  by (simp add: accounts_total_def rebuilt_def resetDecoded_def totalSOLTransfers_def Let_def)

lemma address_resolved:
  assumes "length (dt_loadedWritableAddresses d) = dt_LoadedWritableCount d"
    and "length (dt_loadedReadonlyAddresses d) = dt_LoadedReadonlyCount d"
    and "list_all (\<lambda>a. TrimSpace a \<noteq> []) (dt_loadedWritableAddresses d @ dt_loadedReadonlyAddresses d)"
    and "i < accounts_total d"
  shows "snd (transactionGuardV3AccountAddress d i)"
proof -
  have w: "TrimSpace (dt_loadedWritableAddresses d ! n) \<noteq> []" if "n < dt_LoadedWritableCount d" for n
    using that assms(1,3) by (simp add: list_all_iff)
  have r: "TrimSpace (dt_loadedReadonlyAddresses d ! n) \<noteq> []" if "n < dt_LoadedReadonlyCount d" for n
    using that assms(2,3) by (simp add: list_all_iff)
  show ?thesis
    using assms(1,2,4) w r
    by (auto simp: transactionGuardV3AccountAddress_def accounts_total_def known_address_def Let_def)
qed

text \<open>C31: Lookup tables are resolved completely or not at all. Either the decoded transaction is returned
  unchanged with a single high finding, or it is complete: every table was read from an account of
  the lookup-table program, every loaded address is the one that account stores at the index of the
  message, and every account and every program of the instructions has a real address.\<close>

theorem lookup_all_or_nothing:
  assumes "resolveTransactionGuardV3LookupAccounts corrupt d ordered infos = (d', fs)"
    and "dt_staticAddresses d \<noteq> []"
  shows "d' = d \<and> single_failure fs \<or>
    dt_Complete d' \<and> dt_UnresolvedLookupAccountCount d' = 0 \<and>
    list_all2 (lookup_verified corrupt (accountByAddress ordered infos)) (dt_LookupTables d) (dt_LookupTables d') \<and>
    dt_loadedWritableAddresses d' = concat (map dl_WritableAddresses (dt_LookupTables d')) \<and>
    dt_loadedReadonlyAddresses d' = concat (map dl_ReadonlyAddresses (dt_LookupTables d')) \<and>
    (\<forall>i < accounts_total d'. snd (transactionGuardV3AccountAddress d' i)) \<and>
    list_all di_ProgramResolved (dt_Instructions d')"
proof (cases "resolveLookups corrupt (accountByAddress ordered infos) (dt_LookupTables d)")
  case (Inl failure)
  with assms(1) resolve_lookups_cases [of corrupt "accountByAddress ordered infos" "dt_LookupTables d"]
  show ?thesis by (simp add: resolveTransactionGuardV3LookupAccounts_def)
next
  case (Inr tables)
  let ?w = "concat (map dl_WritableAddresses tables)" and ?r = "concat (map dl_ReadonlyAddresses tables)"
  define c where "c = d\<lparr>dt_LookupTables := tables, dt_loadedWritableAddresses := ?w,
    dt_loadedReadonlyAddresses := ?r, dt_UnresolvedLookupAccountCount := 0, dt_Complete := True,
    dt_Status := ''complete_with_verified_address_lookups'',
    dt_Limitations := removeGuardV3Limitation (dt_Limitations d) guardV3UnresolvedLookupLimitation\<rparr>"
  have verified: "list_all2 (lookup_verified corrupt (accountByAddress ordered infos)) (dt_LookupTables d) tables"
    using resolve_lookups_cases [of corrupt "accountByAddress ordered infos" "dt_LookupTables d"] Inr by simp
  show ?thesis
  proof (cases "length ?w = dt_LoadedWritableCount d \<and> length ?r = dt_LoadedReadonlyCount d")
    case False
    with assms(1) Inr show ?thesis
      by (auto simp: resolveTransactionGuardV3LookupAccounts_def Let_def)
  next
    case True
    obtain q d2 where run: "rebuildTransactionGuardV3DecodedInstructions c = (q, d2)"
      by (cases "rebuildTransactionGuardV3DecodedInstructions c")
    show ?thesis
    proof (cases q)
      case (Inl e)
      with assms(1) Inr True run show ?thesis
        by (auto simp: resolveTransactionGuardV3LookupAccounts_def Let_def c_def)
    next
      case (Inr u)
      with assms(1) \<open>resolveLookups corrupt _ _ = Inr tables\<close> True run have d': "d' = d2"
        by (auto simp: resolveTransactionGuardV3LookupAccounts_def Let_def c_def)
      have "dt_staticAddresses c \<noteq> []" using assms(2) by (simp add: c_def)
      from run [unfolded Inr, unfolded old.unit.exhaust] this
      have b: "list_all (indexes_below (accounts_total c)) (dt_parsedInstructions c)" and d2: "d2 = rebuilt c"
        by (simp_all add: rebuild_exact)
      have known: "snd (transactionGuardV3AccountAddress c i)" if "i < accounts_total c" for i
        by (rule address_resolved [OF _ _ _ that]) (use True tables_known [OF verified] in \<open>simp_all add: c_def\<close>)
      have "list_all di_ProgramResolved (dt_Instructions (rebuilt c))"
        using b known
        by (auto simp: rebuilt_def Let_def totalSOLTransfers_def list_all_iff indexes_below_def decoded_instruction_def
            in_set_enumerate_eq split: prod.splits) (metis snd_conv nth_mem)
      moreover have "dt_LookupTables (rebuilt c) = tables" "dt_loadedWritableAddresses (rebuilt c) = ?w"
        "dt_loadedReadonlyAddresses (rebuilt c) = ?r" "dt_Complete (rebuilt c)" "dt_UnresolvedLookupAccountCount (rebuilt c) = 0"
        by (simp_all add: rebuilt_def Let_def totalSOLTransfers_def resetDecoded_def) (simp_all add: c_def)
      ultimately show ?thesis
        using verified known by (simp add: d' d2 rebuilt_address accounts_total_rebuilt)
    qed
  qed
qed

subsection \<open>Sample transactions\<close>

definition sample_key :: "nat \<Rightarrow> string" where
  "sample_key n = char_of n # replicate 31 zero_byte"

definition sample_message :: "bool \<Rightarrow> nat list \<Rightarrow> solana_message" where
  "sample_message versioned data =
     \<lparr>sm_Signatures = [replicate 64 zero_byte], sm_Versioned = versioned, sm_Required = 1, sm_ReadonlySigned = 0,
      sm_ReadonlyUnsigned = 1, sm_Keys = [sample_key 1, zero_key], sm_Blockhash = zero_key,
      sm_Instructions = [\<lparr>gp_ProgramIndex = 1, gp_AccountIndexes = [0, if versioned then 2 else 0], gp_Data = put_bytes data\<rparr>],
      sm_Lookups = (if versioned then [(sample_key 7, [0], [])] else [])\<rparr>"

definition transfer_data :: "nat list" where "transfer_data = [2, 0, 0, 0, 5, 0, 0, 0, 0, 0, 0, 0]"
definition seed_data :: "nat list" where "seed_data = [11, 0, 0, 0, 5, 0, 0, 0, 0, 0, 0, 0]"

lemma system_key: "guardV3Base58Encode zero_key = guardV3SystemProgramID"
proof -
  have "bytes_be zero_key = 0" using bytes_be_zeros [of 32 "[]"] by (simp add: zero_key_def)
  moreover have "leading zero_byte zero_key = 32"
    using leading_replicate [of zero_byte 32 "[]"] by (simp add: zero_key_def leading_def del: leading_replicate)
  ultimately have "guardV3Base58Encode zero_key = replicate 32 (CHR ''1'')" by (simp add: encode_form)
  then show ?thesis by (simp add: guardV3SystemProgramID_def numeral_eq_Suc)
qed

lemma sample_ok:
  "message_ok (sample_message v data)" "indexes_ok (sample_message v data)"
  "length data < 2 ^ 28 \<Longrightarrow> message_fits (sample_message v data)"
  by (auto simp: sample_message_def message_ok_def account_count_def loaded_writable_def loaded_readonly_def
      indexes_ok_def indexes_below_def message_fits_def instruction_ok_def lookup_ok_def sample_key_def zero_key_def put_bytes_def)

lemma sample_data:
  "uint_le (take 4 (put_bytes transfer_data)) = 2" "uint_le (slice_of 4 12 (put_bytes transfer_data)) = 5"
  "length (put_bytes transfer_data) = 12" "uint_le (take 4 (put_bytes seed_data)) = 11"
  by code_simp+

lemma sample_lengths: "length transfer_data < 2 ^ 28" "length seed_data < 2 ^ 28"
  by (simp_all add: transfer_data_def seed_data_def)

definition sample_text :: "bool \<Rightarrow> nat list \<Rightarrow> string" where
  "sample_text versioned data = StdEncoding_EncodeToString (put_message (sample_message versioned data))"

lemma sample_decoded: "length data < 2 ^ 28 \<Longrightarrow> decoded_text (sample_text v data) ''base64'' (sample_message v data)"
  unfolding sample_text_def by (rule decoded_text_put) (auto intro: sample_ok)

lemma sample_lamports:
  "(\<Sum>p\<leftarrow>sm_Instructions (sample_message False transfer_data).
      lamports_moved (message_address (sample_message False transfer_data)) p) = 5"
  by (simp add: lamports_moved_def message_address_def sample_message_def system_key sample_data)

theorem transaction_round_trip_witness:
  "dt_Available (fst (decodeTransactionGuardV3 (sample_text True transfer_data) ''base64'' [])) \<and>
   \<not> dt_Complete (fst (decodeTransactionGuardV3 (sample_text True transfer_data) ''base64'' [])) \<and>
   dt_parsedInstructions (fst (decodeTransactionGuardV3 (sample_text True transfer_data) ''base64'' [])) =
     [\<lparr>gp_ProgramIndex = 1, gp_AccountIndexes = [0, 2], gp_Data = put_bytes transfer_data\<rparr>]"
proof -
  have "account_count (sample_message True transfer_data) \<noteq> length (sm_Keys (sample_message True transfer_data))"
    "sm_Instructions (sample_message True transfer_data) =
      [\<lparr>gp_ProgramIndex = 1, gp_AccountIndexes = [0, 2], gp_Data = put_bytes transfer_data\<rparr>]"
    by (simp_all add: account_count_def loaded_writable_def loaded_readonly_def sample_message_def)
  with transaction_round_trip [OF sample_ok(1,2) sample_ok(3) [OF sample_lengths(1)], of True "[]"]
  show ?thesis by (simp add: sample_text_def Let_def)
qed

theorem sol_totals_exact_witness:
  "dt_ExplicitSOLTransferLamports (fst (decodeTransactionGuardV3 (sample_text False transfer_data) ''base64'' [])) = ''5''"
proof -
  have "show_nat 5 = ''5''" by code_simp
  with sol_totals_exact [OF sample_decoded [OF sample_lengths(1)], of False "[]"]
  show ?thesis by (simp add: sample_lamports Let_def)
qed

theorem seed_transfers_uncounted_witness:
  "decoded_text (sample_text False seed_data) ''base64'' (sample_message False seed_data) \<and>
   dt_ExplicitSOLTransferLamports (fst (decodeTransactionGuardV3 (sample_text False seed_data) ''base64'' [])) = ''0''"
proof -
  have "\<forall>p \<in> set (sm_Instructions (sample_message False seed_data)). uint_le (take 4 (gp_Data p)) = 11"
    by (simp add: sample_message_def sample_data)
  from seed_transfers_uncounted [OF sample_decoded [OF sample_lengths(2)] this, of "[]"]
  show ?thesis using sample_decoded [OF sample_lengths(2), of False] by (simp add: Let_def)
qed

text \<open>A lookup table with one address, and the versioned transaction resolved with it.\<close>

definition table_data :: string where
  "table_data = put_bytes [1, 0, 0, 0] @ replicate 52 zero_byte @ sample_key 9"

definition table_account :: SolanaAccountInfo where
  "table_account = \<lparr>sa_Data = JArr [JStr (StdEncoding_EncodeToString table_data), JStr ''base64''], sa_Executable = False,
     sa_Lamports = 1, sa_Owner = guardV3AddressLookupTableProgramID, sa_RentEpoch = JNull, sa_Space = 88\<rparr>"

definition sample_corrupt :: base64_error where
  "sample_corrupt = (\<lambda>_. ErrMsg ''illegal base64 data'')"

lemma table_addresses: "parseTransactionGuardV3LookupTableAddresses table_data = Inr [guardV3Base58Encode (sample_key 9)]"
proof -
  have "uint_le (take 4 table_data) = 1"
  proof -
    have "take 4 table_data = put_bytes [1, 0, 0, 0]" by (simp add: table_data_def put_bytes_def)
    moreover have "uint_le (put_bytes [1, 0, 0, 0]) = 1" by code_simp
    ultimately show ?thesis by simp
  qed
  moreover have "drop 56 table_data = sample_key 9" "length table_data = 88"
    by (simp_all add: table_data_def put_bytes_def sample_key_def)
  moreover have "chunks 32 (sample_key 9) = [sample_key 9]"
    using chunks_concat [of 32 "[sample_key 9]"] by (simp add: sample_key_def)
  ultimately show ?thesis
    by (simp add: parseTransactionGuardV3LookupTableAddresses_def guardV3LookupTableMetaSize_def sample_key_def)
qed

lemma encode_text_empty: "StdEncoding_EncodeToString s = [] \<Longrightarrow> s = []"
  using StdEncoding_decode_encode [of s] by (simp add: StdEncoding_DecodeString_def base64_DecodeString_def)

lemma table_bytes: "guardV3AccountDataBytes corrupt (sa_Data table_account) = Inr table_data"
proof -
  have "table_data \<noteq> []" by (simp add: table_data_def put_bytes_def)
  then have "StdEncoding_EncodeToString table_data \<noteq> []" by (rule contrapos_nn) (rule encode_text_empty)
  then show ?thesis
    by (simp add: guardV3AccountDataBytes_def account_bytes_def table_account_def encoded_data_def)
qed

definition sample_resolved :: "dtx \<times> transactionFirewallFinding list" where
  "sample_resolved =
     resolveTransactionGuardV3LookupAccounts sample_corrupt
       (fst (decodeTransactionGuardV3 (sample_text True transfer_data) ''base64'' []))
       [guardV3Base58Encode (sample_key 7)] [Some table_account]"

lemma table_stored:
  "stored_addresses corrupt (accountByAddress [guardV3Base58Encode (sample_key 7)] [Some table_account]
     (guardV3Base58Encode (sample_key 7))) [guardV3Base58Encode (sample_key 9)]"
proof -
  have "TrimSpace guardV3AddressLookupTableProgramID = guardV3AddressLookupTableProgramID"
    by (rule TrimSpace_all_visible) (simp add: guardV3AddressLookupTableProgramID_def visible_def)
  then have "EqualFold (TrimSpace (sa_Owner table_account)) guardV3AddressLookupTableProgramID"
    by (simp add: table_account_def EqualFold_def)
  then show ?thesis by (simp add: stored_addresses_def accountByAddress_def table_bytes table_addresses)
qed

lemma sample_tables:
  "resolveLookups corrupt (accountByAddress [guardV3Base58Encode (sample_key 7)] [Some table_account])
     [lookup_table (sample_key 7, [0], [])] =
   Inr [lookup_table (sample_key 7, [0], [])\<lparr>dl_WritableAddresses := [guardV3Base58Encode (sample_key 9)],
          dl_ReadonlyAddresses := [], dl_Resolved := True, dl_Status := ''verified_rpc_address_lookup''\<rparr>]"
proof -
  obtain info data where "accountByAddress [guardV3Base58Encode (sample_key 7)] [Some table_account]
      (guardV3Base58Encode (sample_key 7)) = Some info"
    "EqualFold (TrimSpace (sa_Owner info)) guardV3AddressLookupTableProgramID"
    "guardV3AccountDataBytes corrupt (sa_Data info) = Inr data"
    "parseTransactionGuardV3LookupTableAddresses data = Inr [guardV3Base58Encode (sample_key 9)]"
    using table_stored [of corrupt] by (auto simp: stored_addresses_def split: option.splits sum.splits)
  then show ?thesis by (simp add: resolveLookup_def lookup_table_def)
qed

lemma resolve_accounts_complete:
  assumes "resolveLookups corrupt (accountByAddress ordered infos) (dt_LookupTables d) = Inr tables"
    and "length (concat (map dl_WritableAddresses tables)) = dt_LoadedWritableCount d"
    and "length (concat (map dl_ReadonlyAddresses tables)) = dt_LoadedReadonlyCount d"
    and "dt_staticAddresses d \<noteq> []" and "list_all (indexes_below (accounts_total d)) (dt_parsedInstructions d)"
  shows "dt_Complete (fst (resolveTransactionGuardV3LookupAccounts corrupt d ordered infos)) \<and>
    dt_LookupTables (fst (resolveTransactionGuardV3LookupAccounts corrupt d ordered infos)) = tables"
proof -
  define c where "c = d\<lparr>dt_LookupTables := tables, dt_loadedWritableAddresses := concat (map dl_WritableAddresses tables),
    dt_loadedReadonlyAddresses := concat (map dl_ReadonlyAddresses tables), dt_UnresolvedLookupAccountCount := 0,
    dt_Complete := True, dt_Status := ''complete_with_verified_address_lookups'',
    dt_Limitations := removeGuardV3Limitation (dt_Limitations d) guardV3UnresolvedLookupLimitation\<rparr>"
  have "dt_staticAddresses c \<noteq> []" "accounts_total c = accounts_total d" "dt_parsedInstructions c = dt_parsedInstructions d"
    using assms(4) by (simp_all add: c_def accounts_total_def)
  then have "rebuildTransactionGuardV3DecodedInstructions c = (Inr (), rebuilt c)"
    using assms(5) by (simp add: rebuild_exact)
  moreover have "dt_Complete (rebuilt c)" "dt_LookupTables (rebuilt c) = tables"
    by (simp_all add: rebuilt_def Let_def totalSOLTransfers_def resetDecoded_def) (simp_all add: c_def)
  ultimately show ?thesis
    using assms(1-3) by (simp add: resolveTransactionGuardV3LookupAccounts_def Let_def c_def)
qed

theorem lookup_all_or_nothing_witness:
  "dt_Complete (fst sample_resolved) \<and>
   dt_loadedWritableAddresses (fst sample_resolved) = [guardV3Base58Encode (sample_key 9)] \<and>
   list_all di_ProgramResolved (dt_Instructions (fst sample_resolved))"
proof -
  let ?m = "sample_message True transfer_data"
  define d where "d = fst (decodeTransactionGuardV3 (sample_text True transfer_data) ''base64'' [])"
  from sample_decoded [OF sample_lengths(1), of True] obtain limitations where
    d: "d = rebuilt (message_image ?m (TrimSpace []))\<lparr>dt_Available := True,
         dt_Complete := loaded_writable ?m + loaded_readonly ?m = 0,
         dt_Status := (if loaded_writable ?m + loaded_readonly ?m = 0 then ''complete''
                       else ''complete_with_unresolved_address_lookups''),
         dt_Limitations := limitations\<rparr>" unfolding d_def by (rule decode_accepted)
  have counts: "loaded_writable ?m = 1" "loaded_readonly ?m = 0" "sm_Lookups ?m = [(sample_key 7, [0], [])]"
    by (simp_all add: loaded_writable_def loaded_readonly_def sample_message_def)
  have f: "\<not> dt_Complete d" "dt_LoadedWritableCount d = 1" "dt_LoadedReadonlyCount d = 0" "dt_staticAddresses d \<noteq> []"
    "dt_LookupTables d = [lookup_table (sample_key 7, [0], [])]" "dt_parsedInstructions d = sm_Instructions ?m"
    using counts by (simp_all add: d rebuilt_image) (simp add: sample_message_def)
  have "accounts_total d = account_count ?m"
    by (simp add: accounts_total_def account_count_def d rebuilt_image)
  with sample_ok(2) [of True transfer_data] f(6)
  have ix: "list_all (indexes_below (accounts_total d)) (dt_parsedInstructions d)" by (simp add: indexes_ok_def)
  obtain d' fs where run: "resolveTransactionGuardV3LookupAccounts sample_corrupt d [guardV3Base58Encode (sample_key 7)]
      [Some table_account] = (d', fs)" by (cases "resolveTransactionGuardV3LookupAccounts sample_corrupt d
      [guardV3Base58Encode (sample_key 7)] [Some table_account]")
  have complete: "dt_Complete d'" "map dl_WritableAddresses (dt_LookupTables d') = [[guardV3Base58Encode (sample_key 9)]]"
    using resolve_accounts_complete [OF sample_tables [folded f(5)] _ _ f(4) ix, of sample_corrupt] f(2,3) run by simp_all
  with lookup_all_or_nothing [OF run f(4)] f(1) show ?thesis
    by (auto simp: sample_resolved_def d_def [symmetric] run)
qed

end
