(* ===== verification/Guard_Firewall.thy ===== *)
theory Guard_Firewall
  imports Guard_Findings Go_Base64 Go_Json
begin

text \<open>
  The transaction firewall, \<^verbatim>\<open>handlers/transaction_firewall.go\<close>: a transaction is simulated by an RPC
  provider and the log of the simulation is searched for dangerous instructions; their scores give the
  action. The provider is the argument \<open>simulate\<close>. A value of Go type \<^verbatim>\<open>any\<close> that was decoded from JSON is
  a JSON value. Writing the report to the database and the clock are left out.
\<close>

subsection \<open>Strings\<close>

fun Contains :: "string \<Rightarrow> string \<Rightarrow> bool" where
  "Contains [] t \<longleftrightarrow> t = []"
| "Contains (c # s) t \<longleftrightarrow> strip_prefix t (c # s) \<noteq> None \<or> Contains s t"

text \<open>\<^verbatim>\<open>strconv.ParseBool\<close>.\<close>

definition ParseBool :: "string \<Rightarrow> bool option" where
  "ParseBool s =
     (if s \<in> {''1'', ''t'', ''T'', ''true'', ''TRUE'', ''True''} then Some True
      else if s \<in> {''0'', ''f'', ''F'', ''false'', ''FALSE'', ''False''} then Some False
      else None)"

subsection \<open>Assessments\<close>

record transactionFirewallAssessment =
  as_Action :: string
  as_RiskLevel :: string
  as_RiskIndex :: int
  as_Summary :: string
  as_Findings :: "transactionFirewallFinding list"
  as_ProgramIDs :: "string list"
  as_Logs :: "string list"
  as_UnitsConsumed :: int
  as_SimulationOK :: bool
  as_SimulationErr :: json

record transactionFirewallPolicy =
  fp_Mode :: string
  fp_EnforcementEnabled :: bool

text \<open>What the code reads of a simulation; \<^verbatim>\<open>nil\<close> is \<open>JNull\<close> and no unit count is \<open>None\<close>.\<close>

record SolanaSimulationResult =
  sim_Err :: json
  sim_Logs :: "string list"
  sim_UnitsConsumed :: "int option"

subsection \<open>Policy\<close>

definition transactionFirewallShadowMode :: string where "transactionFirewallShadowMode = ''shadow''"
definition transactionFirewallEnforceMode :: string where "transactionFirewallEnforceMode = ''enforce''"

text \<open>\<open>mode\<close> and \<open>appEnv\<close> are the environment variables the function reads.\<close>

definition currentTransactionFirewallPolicy :: "string \<Rightarrow> string \<Rightarrow> transactionFirewallPolicy" where
  "currentTransactionFirewallPolicy mode appEnv =
     (let m = ToLower (TrimSpace mode);
          m' = (if m = [] then
                  if EqualFold (TrimSpace appEnv) ''production'' then transactionFirewallEnforceMode
                  else transactionFirewallShadowMode
                else m)
      in if m' = transactionFirewallEnforceMode
         then \<lparr>fp_Mode = transactionFirewallEnforceMode, fp_EnforcementEnabled = True\<rparr>
         else \<lparr>fp_Mode = transactionFirewallShadowMode, fp_EnforcementEnabled = False\<rparr>)"

definition firewallPolicyBlocks :: "transactionFirewallPolicy \<Rightarrow> string \<Rightarrow> bool" where
  "firewallPolicyBlocks policy action \<longleftrightarrow>
     fp_EnforcementEnabled policy \<and> (let a = ToLower (TrimSpace action) in a = ''block'' \<or> a = ''withhold'')"

definition firewallPolicyOutcome :: "transactionFirewallPolicy \<Rightarrow> string \<Rightarrow> string" where
  "firewallPolicyOutcome policy action =
     (if \<not> fp_EnforcementEnabled policy then ''observed''
      else let a = ToLower (TrimSpace action) in
        if a = ''block'' then ''blocked'' else if a = ''withhold'' then ''withheld''
        else if a = ''warn'' then ''allowed_with_warning'' else ''allowed'')"

definition transactionFirewallEnabled :: "string \<Rightarrow> bool" where
  "transactionFirewallEnabled env =
     (let raw = TrimSpace env in raw = [] \<or> ParseBool raw = Some True)"

subsection \<open>Input\<close>

definition maxFirewallTransactionSize :: nat where "maxFirewallTransactionSize = 4096"
definition maxFirewallLogs :: nat where "maxFirewallLogs = 200"

definition validateFirewallTransaction :: "string \<Rightarrow> string \<Rightarrow> string" where
  "validateFirewallTransaction transaction encoding =
     (if transaction = [] then ''Serialized transaction is required.''
      else if encoding \<noteq> ''base64'' then ''Only base64-encoded serialized transactions are supported.''
      else case StdEncoding_DecodeString transaction of
        None \<Rightarrow> ''Transaction is not valid base64.''
      | Some decoded \<Rightarrow>
          if length decoded < 64 then ''Serialized transaction is too short.''
          else if maxFirewallTransactionSize < length decoded
          then ''Serialized transaction exceeds the firewall size limit.'' else [])"

definition transactionFingerprint :: "string \<Rightarrow> string" where
  "transactionFingerprint transaction = ''txf_'' @ take 32 (sha256Hex (TrimSpace transaction))"

subsection \<open>Logs\<close>

definition sanitizeFirewallLogs :: "string list \<Rightarrow> string list" where
  "sanitizeFirewallLogs input =
     map (take 700) (filter (\<lambda>line. line \<noteq> []) (map TrimSpace (take maxFirewallLogs input)))"

text \<open>
  The pattern \<^verbatim>\<open>(?i)^Program ([1-9A-HJ-NP-Za-km-z]{32,44}) invoke\<close>. Under \<^verbatim>\<open>(?i)\<close> the class holds every
  ASCII letter, and also the Kelvin sign (for k) and the long s.
\<close>

definition fold_variants :: "(char \<times> string) list" where
  "fold_variants = [(CHR ''k'', map char_of [0xE2 :: nat, 0x84, 0xAA]), (CHR ''s'', map char_of [0xC5 :: nat, 0xBF])]"

fun strip_fold :: "string \<Rightarrow> string \<Rightarrow> string option" where
  "strip_fold [] s = Some s"
| "strip_fold (p # ps) s =
     (case s of
        c # rest \<Rightarrow>
          if lower_char c = lower_char p then strip_fold ps rest
          else (case map_of fold_variants (lower_char p) of
                  None \<Rightarrow> None
                | Some v \<Rightarrow> (case strip_prefix v s of None \<Rightarrow> None | Some r \<Rightarrow> strip_fold ps r))
      | [] \<Rightarrow> None)"

definition program_char :: "char \<Rightarrow> bool" where
  "program_char c \<longleftrightarrow> (let n = (of_char c :: nat) in
     49 \<le> n \<and> n \<le> 57 \<or> 65 \<le> n \<and> n \<le> 90 \<or> 97 \<le> n \<and> n \<le> 122)"

text \<open>The longest run of the class: its characters and the rest.\<close>

fun program_run :: "nat \<Rightarrow> string \<Rightarrow> string list \<times> string" where
  "program_run 0 s = ([], s)"
| "program_run (Suc n) s =
     (case s of
        [] \<Rightarrow> ([], s)
      | c # rest \<Rightarrow>
          if program_char c then (let (cs, r) = program_run n rest in ([c] # cs, r))
          else (case strip_any (map snd fold_variants) s of
                  None \<Rightarrow> ([], s)
                | Some r \<Rightarrow>
                    (let (cs, r') = program_run n r in (take (length s - length r) s # cs, r'))))"

text \<open>No character of the class is a space, so a match of the group is the whole run.\<close>

definition invoked_program :: "string \<Rightarrow> string option" where
  "invoked_program line =
     (case strip_fold ''Program '' line of
        None \<Rightarrow> None
      | Some s \<Rightarrow>
          (let (cs, r) = program_run 44 s in
           if 32 \<le> length cs \<and> strip_fold '' invoke'' r \<noteq> None then Some (concat cs) else None))"

definition extractFirewallProgramIDs :: "string list \<Rightarrow> string list" where
  "extractFirewallProgramIDs logs = sort (remdups (List.map_filter invoked_program logs))"

subsection \<open>Findings\<close>

record firewall_rule =
  fr_Needles :: "string list"
  fr_Code :: string
  fr_Severity :: string
  fr_Title :: string
  fr_Score :: int

definition firewall_rules :: "firewall_rule list" where
  "firewall_rules =
    [\<lparr>fr_Needles = [''instruction: upgrade'', ''upgradeableloader'', ''program upgrade''], fr_Code = ''program_upgrade'',
      fr_Severity = ''critical'', fr_Title = ''Upgradeable program mutation'', fr_Score = 55\<rparr>,
     \<lparr>fr_Needles = [''instruction: initializepermanentdelegate'', ''permanent delegate''], fr_Code = ''permanent_delegate'',
      fr_Severity = ''critical'', fr_Title = ''Permanent delegate capability'', fr_Score = 50\<rparr>,
     \<lparr>fr_Needles = [''instruction: setauthority'', ''set authority''], fr_Code = ''authority_change'',
      fr_Severity = ''high'', fr_Title = ''Authority change'', fr_Score = 35\<rparr>,
     \<lparr>fr_Needles = [''instruction: freezeaccount'', ''freeze account''], fr_Code = ''freeze_account'',
      fr_Severity = ''high'', fr_Title = ''Token account freeze'', fr_Score = 30\<rparr>,
     \<lparr>fr_Needles = [''instruction: assign'', ''system instruction: assign''], fr_Code = ''account_owner_change'',
      fr_Severity = ''high'', fr_Title = ''Account owner assignment'', fr_Score = 30\<rparr>,
     \<lparr>fr_Needles = [''instruction: closeaccount'', ''close account''], fr_Code = ''close_account'',
      fr_Severity = ''medium'', fr_Title = ''Account closure'', fr_Score = 20\<rparr>,
     \<lparr>fr_Needles = [''instruction: approvechecked'', ''instruction: approve'', ''approve delegate''], fr_Code = ''delegate_approval'',
      fr_Severity = ''medium'', fr_Title = ''Delegate approval'', fr_Score = 18\<rparr>,
     \<lparr>fr_Needles = [''instruction: burnchecked'', ''instruction: burn''], fr_Code = ''token_burn'',
      fr_Severity = ''medium'', fr_Title = ''Token burn'', fr_Score = 15\<rparr>,
     \<lparr>fr_Needles = [''transfer hook'', ''instruction: executetransferhook''], fr_Code = ''transfer_hook'',
      fr_Severity = ''medium'', fr_Title = ''Transfer hook execution'', fr_Score = 15\<rparr>]"

definition rule_matches :: "string \<Rightarrow> firewall_rule \<Rightarrow> bool" where
  "rule_matches line r \<longleftrightarrow> list_ex (\<lambda>needle. Contains (ToLower line) (ToLower needle)) (fr_Needles r)"

definition rule_finding :: "string \<Rightarrow> firewall_rule \<Rightarrow> transactionFirewallFinding" where
  "rule_finding line r = finding (fr_Code r) (fr_Severity r) (fr_Title r) line (fr_Score r)"

fun match_rules :: "string \<Rightarrow> firewall_rule list \<Rightarrow> string list \<Rightarrow> transactionFirewallFinding list \<times> string list" where
  "match_rules line [] seen = ([], seen)"
| "match_rules line (r # rs) seen =
     (if fr_Code r \<in> set seen \<or> \<not> rule_matches line r then match_rules line rs seen
      else (let (fs, seen') = match_rules line rs (fr_Code r # seen) in (rule_finding line r # fs, seen')))"

fun match_logs :: "string list \<Rightarrow> string list \<Rightarrow> transactionFirewallFinding list" where
  "match_logs [] seen = []"
| "match_logs (line # lines) seen =
     (let (fs, seen') = match_rules line firewall_rules seen in fs @ match_logs lines seen')"

definition detectFirewallFindings :: "string list \<Rightarrow> int \<Rightarrow> nat \<Rightarrow> transactionFirewallFinding list" where
  "detectFirewallFindings logs units programCount =
     match_logs logs [] @
     (if 1200000 \<le> units then
        [finding ''high_compute_usage'' ''medium'' ''High compute usage''
           (''Simulation consumed '' @ int_text 10 units @ '' compute units.'') 15] else []) @
     (if 10 \<le> programCount then
        [finding ''broad_program_surface'' ''medium'' ''Broad program call surface''
           (''Simulation invoked '' @ show_nat programCount @ '' distinct programs.'') 12] else [])"

definition firewallDecision :: "int \<Rightarrow> string \<times> string" where
  "firewallDecision score =
     (if 75 \<le> score then (''block'', ''critical'') else if 50 \<le> score then (''warn'', ''high'')
      else if 25 \<le> score then (''warn'', ''medium'') else (''allow'', ''low''))"

text \<open>The sum of the scores, at most 100.\<close>

definition total_score :: "transactionFirewallFinding list \<Rightarrow> int" where
  "total_score fs = (\<Sum>f\<leftarrow>fs. ff_Score f)"

definition capped_score :: "transactionFirewallFinding list \<Rightarrow> int" where
  "capped_score fs = (if 100 < total_score fs then 100 else total_score fs)"

definition compactJSON :: "json \<Rightarrow> string" where
  "compactJSON v = take 700 (json_print v)"

definition assessTransactionSimulation :: "SolanaSimulationResult \<Rightarrow> transactionFirewallAssessment" where
  "assessTransactionSimulation simulation =
     (let logs = sanitizeFirewallLogs (sim_Logs simulation);
          programIDs = extractFirewallProgramIDs logs;
          units = (case sim_UnitsConsumed simulation of None \<Rightarrow> 0 | Some u \<Rightarrow> u)
      in if sim_Err simulation \<noteq> JNull then
           \<lparr>as_Action = ''block'', as_RiskLevel = ''critical'', as_RiskIndex = 100,
            as_Summary = ''Transaction simulation failed. Do not sign until the failure is understood.'',
            as_Findings = [finding ''simulation_failed'' ''critical'' ''Simulation failed'' (compactJSON (sim_Err simulation)) 100],
            as_ProgramIDs = programIDs, as_Logs = logs, as_UnitsConsumed = units, as_SimulationOK = False,
            as_SimulationErr = sim_Err simulation\<rparr>
         else if logs = [] then
           \<lparr>as_Action = ''withhold'', as_RiskLevel = ''unknown'', as_RiskIndex = 0,
            as_Summary = ''Simulation returned no logs; the firewall withheld a decision.'', as_Findings = [],
            as_ProgramIDs = programIDs, as_Logs = logs, as_UnitsConsumed = units, as_SimulationOK = True,
            as_SimulationErr = JNull\<rparr>
         else let findings = detectFirewallFindings logs units (length programIDs); score = capped_score findings in
           \<lparr>as_Action = fst (firewallDecision score), as_RiskLevel = snd (firewallDecision score), as_RiskIndex = score,
            as_Summary = (if findings \<noteq> [] then
              ''Simulation completed with instruction or execution signals that require review before signing.''
              else ''Simulation completed without a high-confidence dangerous instruction signal.''),
            as_Findings = findings, as_ProgramIDs = programIDs, as_Logs = logs, as_UnitsConsumed = units,
            as_SimulationOK = True, as_SimulationErr = JNull\<rparr>)"

definition publicFirewallError :: "string \<Rightarrow> string" where
  "publicFirewallError raw =
     (let lower = ToLower (TrimSpace raw) in
      if Contains lower ''429'' \<or> Contains lower ''rate limit'' then ''Solana RPC capacity is temporarily exhausted.''
      else if Contains lower ''timeout'' \<or> Contains lower ''deadline'' then ''Solana RPC simulation timed out.''
      else ''Solana RPC simulation could not be completed.'')"

definition unavailable_assessment :: "string \<Rightarrow> go_error \<Rightarrow> transactionFirewallAssessment" where
  "unavailable_assessment summary err =
     \<lparr>as_Action = ''withhold'', as_RiskLevel = ''unknown'', as_RiskIndex = 0, as_Summary = summary, as_Findings = [],
      as_ProgramIDs = [], as_Logs = [], as_UnitsConsumed = 0, as_SimulationOK = False,
      as_SimulationErr = JObj [(''code'', JStr ''rpc_unavailable''), (''message'', JStr (publicFirewallError (Error err)))]\<rparr>"

subsection \<open>The endpoint\<close>

text \<open>What the response carries of the decision: its status, code, and the members that depend on the policy.\<close>

datatype firewall_reply =
    Refused nat string string
  | Reported nat transactionFirewallPolicy transactionFirewallAssessment

definition reply_ok :: "transactionFirewallPolicy \<Rightarrow> transactionFirewallAssessment \<Rightarrow> bool" where
  "reply_ok policy assessment \<longleftrightarrow> as_SimulationOK assessment \<and> \<not> firewallPolicyBlocks policy (as_Action assessment)"

record firewall_env =
  fe_Enabled :: string
  fe_Mode :: string
  fe_AppEnv :: string

definition transactionFirewallSimulate ::
  "firewall_env \<Rightarrow> (string \<Rightarrow> string \<Rightarrow> go_error + SolanaSimulationResult) \<Rightarrow> string \<Rightarrow> string \<Rightarrow> string \<Rightarrow> firewall_reply" where
  "transactionFirewallSimulate env simulate inputTransaction inputEncoding inputNetwork =
     (if \<not> transactionFirewallEnabled (fe_Enabled env)
      then Refused 503 ''transaction_firewall_disabled'' ''Transaction Firewall is disabled by configuration.''
      else
        let policy = currentTransactionFirewallPolicy (fe_Mode env) (fe_AppEnv env);
            transaction = TrimSpace inputTransaction;
            encoding = (let e = ToLower (TrimSpace inputEncoding) in if e = [] then ''base64'' else e);
            err = validateFirewallTransaction transaction encoding;
            network = (let n = TrimSpace inputNetwork in if n = [] then ''solana-mainnet'' else n)
        in if err \<noteq> [] then Refused 400 ''invalid_transaction'' err
           else if network \<noteq> ''solana-mainnet''
           then Refused 400 ''unsupported_network'' ''Transaction Firewall currently supports solana-mainnet only.''
           else case simulate transaction encoding of
             Inl e \<Rightarrow> Reported 503 policy
               (unavailable_assessment ''Simulation provider is unavailable; no safe decision was produced.'' e)
           | Inr simulation \<Rightarrow>
               (let assessment = assessTransactionSimulation simulation in
                Reported (if firewallPolicyBlocks policy (as_Action assessment) then 403 else 200) policy assessment))"

end
