(* ===== verification/Guard_Policy.thy ===== *)
theory Guard_Policy
  imports Guard_Firewall Solana_Accounts
begin

text \<open>
  The declared policies of the transaction guard, \<^verbatim>\<open>handlers/transaction_guard_v2.go\<close>,
  \<^verbatim>\<open>transaction_guard_v2_config.go\<close> and \<^verbatim>\<open>transaction_guard_v2_evidence_first.go\<close>: validation of a request,
  the program policy, the token-account policy over the account states before and after the
  simulation, and the final decision. \<open>blockedEnv\<close> is the operator's blocklist variable.
\<close>

subsection \<open>Requests\<close>

record transactionGuardAccount =
  ga_Address :: string
  ga_Mint :: string
  ga_Role :: string
  ga_Decimals :: "int option"
  ga_MaximumSpendRaw :: string
  ga_MinimumReceiveRaw :: string
  ga_QuotedReceiveRaw :: string
  ga_MaxSlippageBPS :: int

record transactionGuardV2Request =
  gr_Transaction :: string
  gr_Encoding :: string
  gr_Network :: string
  gr_Wallet :: string
  gr_ExpectedPrograms :: "string list"
  gr_RequiredPrograms :: "string list"
  gr_BlockedPrograms :: "string list"
  gr_Accounts :: "transactionGuardAccount list"

definition optionalRawAmount :: "string \<Rightarrow> go_error + int option" where
  "optionalRawAmount raw =
     (let r = TrimSpace raw in
      if r = [] then Inr None
      else case SetString 10 r of
        None \<Rightarrow> Inl (ErrMsg ''raw amount must be a non-negative base-10 integer'')
      | Some v \<Rightarrow> if v < 0 then Inl (ErrMsg ''raw amount must be a non-negative base-10 integer'') else Inr (Some v))"

definition raw_amount :: "string \<Rightarrow> int option" where
  "raw_amount raw = (case optionalRawAmount raw of Inl _ \<Rightarrow> None | Inr v \<Rightarrow> v)"

text \<open>The loop over the runes looks each up in the base58 alphabet.\<close>

definition looksLikeGuardPubkey :: "string \<Rightarrow> bool" where
  "looksLikeGuardPubkey value \<longleftrightarrow>
     (let v = TrimSpace value in
      32 \<le> length v \<and> length v \<le> 44 \<and> list_all (\<lambda>c. c \<in> set guardV3Base58Alphabet) v)"

fun normalize_from :: "string list \<Rightarrow> string list \<Rightarrow> string list" where
  "normalize_from out [] = out"
| "normalize_from out (v # vs) =
     (let value = TrimSpace v in
      if \<not> looksLikeGuardPubkey value \<or> value \<in> set out then normalize_from out vs
      else normalize_from (out @ [value]) vs)"

definition normalizeGuardProgramList :: "string list \<Rightarrow> string list" where
  "normalizeGuardProgramList input = sort (normalize_from [] input)"

text \<open>\<^verbatim>\<open>strings.Split(raw, ",")\<close>.\<close>

fun split_commas :: "string \<Rightarrow> string \<Rightarrow> string list" where
  "split_commas cur [] = [rev cur]"
| "split_commas cur (c # s) = (if c = CHR '','' then rev cur # split_commas [] s else split_commas (c # cur) s)"

definition splitGuardPrograms :: "string \<Rightarrow> string list" where
  "splitGuardPrograms raw = (if TrimSpace raw = [] then [] else split_commas [] raw)"

definition guardBuiltinPrograms :: "string list" where
  "guardBuiltinPrograms =
     [''11111111111111111111111111111111'', ''ComputeBudget111111111111111111111111111111'',
      ''TokenkegQfeZyiNwAJbNbGKPFXCWuBvf9Ss623VQ5DA'', ''TokenzQdBNbLqP5VEhdkAS6EPFLC1PHnBqCXEpPxuEb'',
      ''ATokenGPvbdGVxr1b2hvZbsiqW5xWH25efTNsLJA8knL'', ''MemoSq4gqABAXKb96qnH8TysNcWxMyWCqXgDLGmfcHr'']"

definition normalize_account :: "transactionGuardAccount \<Rightarrow> transactionGuardAccount" where
  "normalize_account a =
     a\<lparr>ga_Address := TrimSpace (ga_Address a), ga_Mint := TrimSpace (ga_Mint a), ga_Role := ToLower (TrimSpace (ga_Role a))\<rparr>"

definition account_problem :: "nat \<Rightarrow> string list \<Rightarrow> transactionGuardAccount \<Rightarrow> string option" where
  "account_problem i seen a =
     (let account = (\<lambda>what. Some (''account '' @ show_nat i @ what)); invalid = (\<lambda>r. isl (optionalRawAmount r)) in
      if \<not> looksLikeGuardPubkey (ga_Address a) then account '' has an invalid Solana address''
      else if ga_Address a \<in> set seen then Some (''duplicate guarded account: '' @ ga_Address a)
      else if ga_Role a \<notin> {''input'', ''output'', ''observe''} then account '' role must be input, output or observe''
      else if (case ga_Decimals a of None \<Rightarrow> False | Some d \<Rightarrow> d < 0 \<or> 18 < d)
      then account '' decimals must be between 0 and 18''
      else if invalid (ga_MaximumSpendRaw a) then account '' maximum_spend_raw is invalid''
      else if invalid (ga_MinimumReceiveRaw a) then account '' minimum_receive_raw is invalid''
      else if invalid (ga_QuotedReceiveRaw a) then account '' quoted_receive_raw is invalid''
      else if ga_MaxSlippageBPS a < 0 \<or> 10000 < ga_MaxSlippageBPS a
      then account '' max_slippage_bps must be between 0 and 10000''
      else None)"

fun validate_accounts ::
  "nat \<Rightarrow> string list \<Rightarrow> transactionGuardAccount list \<Rightarrow> go_error + transactionGuardAccount list" where
  "validate_accounts i seen [] = Inr []"
| "validate_accounts i seen (a # as) =
     (let a' = normalize_account a in
      case account_problem i seen a' of
        Some problem \<Rightarrow> Inl (ErrMsg problem)
      | None \<Rightarrow>
          (case validate_accounts (Suc i) (ga_Address a' # seen) as of
             Inl e \<Rightarrow> Inl e | Inr as' \<Rightarrow> Inr (a' # as')))"

text \<open>The request as normalised, or the error; on an error the handler reads no more of the request.\<close>

definition validateTransactionGuardInput ::
  "transactionGuardV2Request \<Rightarrow> go_error + transactionGuardV2Request" where
  "validateTransactionGuardInput input =
     (if 64 < length (gr_ExpectedPrograms input) \<or> 64 < length (gr_RequiredPrograms input) \<or>
         64 < length (gr_BlockedPrograms input)
      then Inl (ErrMsg ''program policy exceeds the 64-program limit'')
      else if 32 < length (gr_Accounts input) then Inl (ErrMsg ''account policy exceeds the 32-account limit'')
      else bindE (validate_accounts 0 [] (gr_Accounts input)) (\<lambda>accounts.
        Inr (input\<lparr>gr_Accounts := accounts,
          gr_ExpectedPrograms := normalizeGuardProgramList (gr_ExpectedPrograms input),
          gr_RequiredPrograms := normalizeGuardProgramList (gr_RequiredPrograms input),
          gr_BlockedPrograms := normalizeGuardProgramList (gr_BlockedPrograms input)\<rparr>)))"

definition maxConfiguredGuardPrograms :: nat where "maxConfiguredGuardPrograms = 64"

fun blocklist_from :: "nat \<Rightarrow> string list \<Rightarrow> go_error option" where
  "blocklist_from i [] = None"
| "blocklist_from i (v # vs) =
     (if TrimSpace v = [] \<or> \<not> isValidSolanaAddress (TrimSpace v)
      then Some (ErrMsg (''operator blocklist entry '' @ show_nat i @ '' is not a valid Solana program address''))
      else blocklist_from (Suc i) vs)"

definition validateGuardOperatorBlocklist :: "string \<Rightarrow> go_error option" where
  "validateGuardOperatorBlocklist raw =
     (if TrimSpace raw = [] then None
      else let values = split_commas [] raw in
        if maxConfiguredGuardPrograms < length values
        then Some (ErrMsg (''operator blocklist exceeds '' @ show_nat maxConfiguredGuardPrograms @ '' programs''))
        else blocklist_from 0 values)"

subsection \<open>Program policy\<close>

record transactionGuardProgramPolicy =
  pp_Invoked :: "string list"
  pp_Expected :: "string list"
  pp_Required :: "string list"
  pp_Blocked :: "string list"
  pp_Unexpected :: "string list"
  pp_MissingRequired :: "string list"
  pp_BlockedInvoked :: "string list"
  pp_Complete :: bool

definition listed :: "string \<Rightarrow> string \<Rightarrow> string \<Rightarrow> int \<Rightarrow> string list \<Rightarrow> transactionFirewallFinding list" where
  "listed code severity title score programs =
     (if programs = [] then [] else [finding code severity title (Join programs '', '') score])"

definition evaluateTransactionGuardPrograms ::
  "string \<Rightarrow> string list \<Rightarrow> string list \<Rightarrow> string list \<Rightarrow> string list
   \<Rightarrow> transactionGuardProgramPolicy \<times> transactionFirewallFinding list" where
  "evaluateTransactionGuardPrograms blockedEnv invoked expected required blocked =
     (let invoked = normalizeGuardProgramList invoked; expected = normalizeGuardProgramList expected;
          required = normalizeGuardProgramList required;
          blocked = normalizeGuardProgramList (blocked @ splitGuardPrograms blockedEnv);
          allowed = guardBuiltinPrograms @ expected;
          blockedInvoked = filter (\<lambda>p. p \<in> set blocked) invoked;
          unexpected = filter (\<lambda>p. expected \<noteq> [] \<and> p \<notin> set allowed) invoked;
          missing = filter (\<lambda>p. p \<notin> set invoked) required
      in (\<lparr>pp_Invoked = invoked, pp_Expected = expected, pp_Required = required, pp_Blocked = blocked,
           pp_Unexpected = unexpected, pp_MissingRequired = missing, pp_BlockedInvoked = blockedInvoked,
           pp_Complete = (blockedInvoked = [] \<and> unexpected = [] \<and> missing = [])\<rparr>,
          listed ''blocked_program_invoked'' ''critical'' ''Blocked program invoked'' 100 blockedInvoked @
          listed ''unexpected_program'' ''high'' ''Unexpected program in transaction route'' 45 unexpected @
          listed ''required_program_missing'' ''high'' ''Required route program was not invoked'' 35 missing))"

subsection \<open>Token-account policy\<close>

record transactionGuardAccountDelta =
  ad_Address :: string
  ad_Mint :: string
  ad_MintVerified :: bool
  ad_Role :: string
  ad_Decimals :: "int option"
  ad_PreAmountRaw :: string
  ad_PostAmountRaw :: string
  ad_DeltaRaw :: string
  ad_SpentRaw :: string
  ad_ReceivedRaw :: string
  ad_MaximumSpendRaw :: string
  ad_MinimumReceiveRaw :: string
  ad_QuotedReceiveRaw :: string
  ad_SlippageBPS :: "int option"
  ad_MaxSlippageBPS :: int
  ad_PolicyStatus :: string
  ad_EvidenceStatus :: string

record transactionGuardIntentPolicy =
  ip_Requested :: bool
  ip_Complete :: bool
  ip_Accounts :: "transactionGuardAccountDelta list"

definition addressIndex :: "string list \<Rightarrow> string \<Rightarrow> nat option" where
  "addressIndex addresses = map_of (rev (zip (map TrimSpace addresses) [0 ..< length addresses]))"

definition account_at :: "string list \<Rightarrow> 'a list \<Rightarrow> string \<Rightarrow> 'a option" where
  "account_at order infos address =
     (case addressIndex order address of None \<Rightarrow> None | Some i \<Rightarrow> if length infos \<le> i then None else Some (infos ! i))"

definition guardTokenAccountSide ::
  "base64_error \<Rightarrow> SolanaAccountInfo option \<Rightarrow> bool \<Rightarrow> go_error + SolanaTokenAccountSnapshot option" where
  "guardTokenAccountSide corrupt info allowMissing =
     (case info of
        None \<Rightarrow> if allowMissing then Inr None else Inl (ErrMsg ''token account side is unavailable'')
      | Some _ \<Rightarrow>
          (case SolanaTokenAccountSnapshotFromInfo corrupt info of Inl e \<Rightarrow> Inl e | Inr s \<Rightarrow> Inr (Some s)))"

definition new_delta :: "transactionGuardAccount \<Rightarrow> transactionGuardAccountDelta" where
  "new_delta spec =
     \<lparr>ad_Address = ga_Address spec, ad_Mint = ga_Mint spec, ad_MintVerified = False, ad_Role = ga_Role spec,
      ad_Decimals = ga_Decimals spec, ad_PreAmountRaw = [], ad_PostAmountRaw = [], ad_DeltaRaw = [], ad_SpentRaw = [],
      ad_ReceivedRaw = [], ad_MaximumSpendRaw = ga_MaximumSpendRaw spec, ad_MinimumReceiveRaw = ga_MinimumReceiveRaw spec,
      ad_QuotedReceiveRaw = ga_QuotedReceiveRaw spec, ad_SlippageBPS = None, ad_MaxSlippageBPS = ga_MaxSlippageBPS spec,
      ad_PolicyStatus = ''pass'', ad_EvidenceStatus = ''verified_rpc_simulation''\<rparr>"

text \<open>The outcome for one account: its delta, whether evidence was complete, and its findings.\<close>

type_synonym account_outcome = "transactionGuardAccountDelta \<times> bool \<times> transactionFirewallFinding list"

definition appendGuardAccountWithhold ::
  "transactionGuardAccountDelta \<Rightarrow> string \<Rightarrow> string \<Rightarrow> string \<Rightarrow> account_outcome" where
  "appendGuardAccountWithhold result evidenceStatus code title =
     (result\<lparr>ad_PolicyStatus := ''withhold'', ad_EvidenceStatus := evidenceStatus\<rparr>, False,
      [finding code ''high'' title (ad_Address result) 30])"

definition account_failed :: "transactionGuardAccountDelta \<Rightarrow> string \<Rightarrow> string \<Rightarrow> string \<Rightarrow> account_outcome" where
  "account_failed result evidenceStatus code title =
     (result\<lparr>ad_PolicyStatus := ''fail'', ad_EvidenceStatus := evidenceStatus\<rparr>, True,
      [finding code ''critical'' title (ad_Address result) 100])"

definition side_amount :: "SolanaTokenAccountSnapshot option \<Rightarrow> int" where
  "side_amount side = (case side of None \<Rightarrow> 0 | Some s \<Rightarrow> uint (ts_Amount s))"

definition slippage_bps :: "int \<Rightarrow> int \<Rightarrow> int" where
  "slippage_bps quote received =
     (if received < quote then
        let bps = (quote - received) * 10000 div quote in if bps < 2 ^ 63 then bps else 10000
      else 0)"

definition limit_findings ::
  "transactionGuardAccount \<Rightarrow> int \<Rightarrow> int \<Rightarrow> transactionFirewallFinding list" where
  "limit_findings spec spent received =
     (case raw_amount (ga_MaximumSpendRaw spec) of
        Some m \<Rightarrow> if m < spent then [finding ''maximum_spend_exceeded'' ''critical'' ''Maximum token spend exceeded''
          (ga_Address spec @ '' spent='' @ int_text 10 spent @ '' max='' @ int_text 10 m) 80] else []
      | None \<Rightarrow> []) @
     (case raw_amount (ga_MinimumReceiveRaw spec) of
        Some m \<Rightarrow> if received < m then [finding ''minimum_receive_not_met'' ''critical'' ''Minimum token receive amount was not met''
          (ga_Address spec @ '' received='' @ int_text 10 received @ '' minimum='' @ int_text 10 m) 80] else []
      | None \<Rightarrow> []) @
     (case raw_amount (ga_QuotedReceiveRaw spec) of
        Some q \<Rightarrow>
          if 0 < q \<and> 0 < ga_MaxSlippageBPS spec \<and> ga_MaxSlippageBPS spec < slippage_bps q received
          then [finding ''slippage_limit_exceeded'' ''high'' ''Swap slippage exceeds the declared limit''
            (ga_Address spec @ '' slippage_bps='' @ int_text 10 (slippage_bps q received) @ '' max_bps='' @
             int_text 10 (ga_MaxSlippageBPS spec)) 50] else []
      | None \<Rightarrow> [])"

definition account_amounts ::
  "transactionGuardAccount \<Rightarrow> bool \<Rightarrow> SolanaTokenAccountSnapshot option \<Rightarrow> SolanaTokenAccountSnapshot option
   \<Rightarrow> account_outcome" where
  "account_amounts spec verified pre post =
     (let delta = side_amount post - side_amount pre;
          spent = (if delta < 0 then - delta else 0); received = (if delta < 0 then 0 else delta);
          fs = limit_findings spec spent received;
          quoted = (case raw_amount (ga_QuotedReceiveRaw spec) of
                      Some q \<Rightarrow> if 0 < q then Some (slippage_bps q received) else None | None \<Rightarrow> None);
          status = (if post = None then ''verified_rpc_simulation_closed_account''
                    else if pre = None then ''verified_rpc_simulation_created_account'' else ''verified_rpc_simulation'')
      in ((new_delta spec)\<lparr>ad_MintVerified := verified, ad_PreAmountRaw := int_text 10 (side_amount pre),
            ad_PostAmountRaw := int_text 10 (side_amount post), ad_DeltaRaw := int_text 10 delta,
            ad_SpentRaw := int_text 10 spent, ad_ReceivedRaw := int_text 10 received, ad_SlippageBPS := quoted,
            ad_PolicyStatus := (if fs = [] then ''pass'' else ''fail''), ad_EvidenceStatus := status\<rparr>, True, fs))"

text \<open>One account of the loop, with its states before and after.\<close>

definition evaluateGuardAccount ::
  "base64_error \<Rightarrow> transactionGuardAccount \<Rightarrow> SolanaAccountInfo option option \<Rightarrow> SolanaAccountInfo option option
   \<Rightarrow> account_outcome" where
  "evaluateGuardAccount corrupt spec before after =
     (let result = new_delta spec in
      case (before, after) of
        (Some preInfo, Some postInfo) \<Rightarrow>
          (case (guardTokenAccountSide corrupt preInfo (ga_Role spec = ''output''),
                 guardTokenAccountSide corrupt postInfo (ga_Role spec = ''input'')) of
             (Inr pre, Inr post) \<Rightarrow>
               if pre = None \<and> post = None
               then appendGuardAccountWithhold result ''account_decode_failed'' ''guard_account_decode_failed''
                      ''Guarded token account could not be decoded''
               else if pre \<noteq> None \<and> post \<noteq> None \<and> ts_Mint (the pre) \<noteq> ts_Mint (the post)
               then account_failed result ''account_mint_changed'' ''guard_account_mint_changed''
                      ''Guarded token account mint changed''
               else if ga_Mint spec \<noteq> [] \<and>
                 (case decodeSolanaPublicKey (ga_Mint spec) of
                    Inl _ \<Rightarrow> True
                  | Inr mint \<Rightarrow> pre \<noteq> None \<and> ts_Mint (the pre) \<noteq> mint \<or> post \<noteq> None \<and> ts_Mint (the post) \<noteq> mint)
               then account_failed result ''mint_mismatch'' ''guard_account_mint_mismatch''
                      ''Guarded token account mint does not match the declared asset''
               else account_amounts spec (ga_Mint spec \<noteq> []) pre post
           | _ \<Rightarrow> appendGuardAccountWithhold result ''account_decode_failed'' ''guard_account_decode_failed''
                    ''Guarded token account could not be decoded'')
      | _ \<Rightarrow> appendGuardAccountWithhold result ''account_missing'' ''guard_account_missing''
               ''Guarded account evidence is unavailable'')"

definition evaluateTransactionGuardAccounts ::
  "base64_error \<Rightarrow> transactionGuardAccount list \<Rightarrow> string list \<Rightarrow> string list \<Rightarrow> SolanaAccountInfo option list
   \<Rightarrow> SolanaAccountInfo option list \<Rightarrow> transactionGuardIntentPolicy \<times> transactionFirewallFinding list" where
  "evaluateTransactionGuardAccounts corrupt specs preOrder postOrder pre post =
     (let outcomes = map (\<lambda>spec. evaluateGuardAccount corrupt spec (account_at preOrder pre (ga_Address spec))
                                  (account_at postOrder post (ga_Address spec))) specs
      in (\<lparr>ip_Requested = specs \<noteq> [], ip_Complete = list_all (\<lambda>(_, complete, _). complete) outcomes,
           ip_Accounts = map fst outcomes\<rparr>,
          concat (map (snd \<circ> snd) outcomes)))"

subsection \<open>Owners\<close>

definition owner_differs :: "base64_error \<Rightarrow> string \<Rightarrow> SolanaAccountInfo option option \<Rightarrow> bool" where
  "owner_differs corrupt owner side =
     (case side of
        Some (Some info) \<Rightarrow>
          (case SolanaTokenAccountSnapshotFromInfo corrupt (Some info) of
             Inl _ \<Rightarrow> False | Inr snapshot \<Rightarrow> ts_Owner snapshot \<noteq> owner)
      | _ \<Rightarrow> False)"

definition markGuardIntentAccountOwnerMismatch ::
  "string \<Rightarrow> transactionGuardIntentPolicy \<Rightarrow> transactionGuardIntentPolicy" where
  "markGuardIntentAccountOwnerMismatch address intent =
     intent\<lparr>ip_Accounts := map (\<lambda>a. if ad_Address a = address
       then a\<lparr>ad_PolicyStatus := ''fail'', ad_EvidenceStatus := ''owner_mismatch''\<rparr> else a) (ip_Accounts intent)\<rparr>"

definition evaluateTransactionGuardAccountOwners ::
  "base64_error \<Rightarrow> string \<Rightarrow> transactionGuardAccount list \<Rightarrow> string list \<Rightarrow> string list \<Rightarrow> SolanaAccountInfo option list
   \<Rightarrow> SolanaAccountInfo option list \<Rightarrow> transactionGuardIntentPolicy
   \<Rightarrow> transactionFirewallFinding list \<times> transactionGuardIntentPolicy" where
  "evaluateTransactionGuardAccountOwners corrupt wallet0 specs preOrder postOrder pre post intent =
     (let wallet = TrimSpace wallet0 in
      if wallet = [] then ([], intent)
      else case decodeSolanaPublicKey wallet of
        Inl _ \<Rightarrow> ([finding ''guard_wallet_decode_failed'' ''critical'' ''Declared wallet could not be decoded'' wallet 100], intent)
      | Inr owner \<Rightarrow>
          let mismatched = map ga_Address (filter (\<lambda>spec.
                owner_differs corrupt owner (account_at preOrder pre (ga_Address spec)) \<or>
                owner_differs corrupt owner (account_at postOrder post (ga_Address spec))) specs)
          in (map (\<lambda>address. finding ''guard_account_owner_mismatch'' ''critical''
                ''Guarded token account owner does not match the declared wallet''
                (address @ '' wallet='' @ wallet) 100) mismatched,
              fold markGuardIntentAccountOwnerMismatch mismatched intent))"

subsection \<open>Assessments\<close>

definition assessTransactionGuardSimulation :: "SolanaSimulationResult \<Rightarrow> transactionFirewallAssessment" where
  "assessTransactionGuardSimulation simulation =
     (assessTransactionSimulation simulation)\<lparr>as_ProgramIDs := extractFirewallProgramIDs (sim_Logs simulation)\<rparr>"

definition unavailableGuardAssessment :: "go_error \<Rightarrow> transactionFirewallAssessment" where
  "unavailableGuardAssessment =
     unavailable_assessment ''Simulation provider is unavailable; Transaction Guard withheld a decision.''"

definition json_member :: "string \<Rightarrow> json \<Rightarrow> json option" where
  "json_member key v = (case v of JObj members \<Rightarrow> map_of (rev members) key | _ \<Rightarrow> None)"

definition guardProviderUnavailable :: "transactionFirewallAssessment \<Rightarrow> bool" where
  "guardProviderUnavailable assessment \<longleftrightarrow>
     (case json_member ''code'' (as_SimulationErr assessment) of
        Some (JStr code) \<Rightarrow> EqualFold (TrimSpace code) ''rpc_unavailable'' | _ \<Rightarrow> False)"

definition guardHTTPStatus :: "transactionFirewallAssessment \<Rightarrow> nat" where
  "guardHTTPStatus assessment = (if guardProviderUnavailable assessment then 503 else 200)"

definition guard_summary :: "string \<Rightarrow> string" where
  "guard_summary action =
     (if action = ''block'' then ''Transaction Guard detected a policy violation or dangerous execution signal. Do not sign.''
      else if action = ''warn'' then ''Transaction Guard detected execution evidence that requires review before signing.''
      else if action = ''withhold''
      then ''Transaction Guard could not complete every required evidence check and withheld a safe decision.''
      else ''Transaction Guard verified the declared program and token-account policies without a blocking finding.'')"

definition decide :: "bool \<Rightarrow> transactionFirewallAssessment \<Rightarrow> transactionFirewallAssessment" where
  "decide withheld assessment =
     (let (action, level) = (if withheld then (''withhold'', ''unknown'')
                             else firewallDecision (capped_score (as_Findings assessment)))
      in assessment\<lparr>as_RiskIndex := capped_score (as_Findings assessment), as_Action := action, as_RiskLevel := level,
           as_Summary := guard_summary action\<rparr>)"

definition finalizeGuardAssessment ::
  "transactionFirewallAssessment \<Rightarrow> transactionGuardProgramPolicy \<Rightarrow> transactionGuardIntentPolicy
   \<Rightarrow> transactionFirewallAssessment" where
  "finalizeGuardAssessment assessment program intent =
     decide (guardProviderUnavailable assessment \<or>
             (\<not> pp_Complete program \<or> \<not> ip_Complete intent) \<and>
             fst (firewallDecision (capped_score (as_Findings assessment))) = ''allow'') assessment"

definition finalizeEvidenceFirstGuardAssessment ::
  "transactionFirewallAssessment \<Rightarrow> transactionGuardProgramPolicy \<Rightarrow> transactionGuardIntentPolicy
   \<Rightarrow> transactionFirewallAssessment" where
  "finalizeEvidenceFirstGuardAssessment assessment program intent =
     (let originalWithhold = as_Action assessment = ''withhold'' \<or> as_RiskLevel assessment = ''unknown'' in
      decide (fst (firewallDecision (capped_score (as_Findings assessment))) \<noteq> ''block'' \<and>
              (guardProviderUnavailable assessment \<or> originalWithhold \<or> \<not> pp_Complete program \<or> \<not> ip_Complete intent))
        assessment)"

end
