(* ===== verification/Guard_Balances.thy ===== *)
theory Guard_Balances
  imports Guard_Policy Solana_Decode
begin

text \<open>
  Automatic balance coverage, \<^verbatim>\<open>handlers/transaction_guard_v3_balances.go\<close>: the accounts a transaction can
  write are read before and after the simulation, and the differences in lamports, tokens, owners and
  programs are reported with what could not be observed.
\<close>

record transactionGuardAutomaticBalanceDelta =
  bd_Address :: string
  bd_Writable :: bool
  bd_PrePresent :: bool
  bd_PostPresent :: bool
  bd_AccountCreated :: bool
  bd_AccountClosed :: bool
  bd_PreProgramOwner :: string
  bd_PostProgramOwner :: string
  bd_PreLamports :: string
  bd_PostLamports :: string
  bd_LamportDelta :: string
  bd_TokenAccount :: bool
  bd_Mint :: string
  bd_PreTokenOwner :: string
  bd_PostTokenOwner :: string
  bd_PreTokenAmountRaw :: string
  bd_PostTokenAmountRaw :: string
  bd_TokenDeltaRaw :: string
  bd_Changed :: bool
  bd_EvidenceStatus :: string

record transactionGuardAutomaticBalanceAnalysis =
  ba_Requested :: bool
  ba_Available :: bool
  ba_Complete :: bool
  ba_Status :: string
  ba_Wallet :: string
  ba_AddressesRequired :: nat
  ba_AddressesRequested :: nat
  ba_AddressesObserved :: nat
  ba_ChangedAccountCount :: nat
  ba_TokenAccountChangeCount :: nat
  ba_CreatedAccountCount :: nat
  ba_ClosedAccountCount :: nat
  ba_WalletSOLDeltaLamports :: string
  ba_WalletSOLSpentLamports :: string
  ba_WalletSOLReceivedLamports :: string
  ba_Accounts :: "transactionGuardAutomaticBalanceDelta list"
  ba_Limitations :: "string list"

subsection \<open>The accounts to read\<close>

definition guardV3AutomaticAccountLimit :: int where "guardV3AutomaticAccountLimit = 32"

definition placeholder_address :: "string \<Rightarrow> bool" where
  "placeholder_address a \<longleftrightarrow> HasPrefix a ''lookup-'' \<or> HasPrefix a ''unresolved-account:''"

text \<open>The addresses so far and whether all were known.\<close>

definition append_address :: "string \<Rightarrow> string list \<times> bool \<Rightarrow> string list \<times> bool" where
  "append_address address0 = (\<lambda>(addresses, complete).
     (let address = TrimSpace address0 in
      if placeholder_address address then (addresses, False)
      else if address = [] \<or> address \<in> set addresses then (addresses, complete)
      else (addresses @ [address], complete)))"

definition writable_addresses :: "transactionGuardDecodedAccount list \<Rightarrow> string list" where
  "writable_addresses accounts = map da_Address (filter da_Writable accounts)"

definition candidate_addresses :: "dtx \<Rightarrow> string \<Rightarrow> string list \<Rightarrow> string list" where
  "candidate_addresses decoded wallet0 declared =
     (let wallet = TrimSpace wallet0 in
      declared @ (if wallet \<noteq> [] \<and> looksLikeGuardPubkey wallet then [wallet] else []) @
      writable_addresses (dt_StaticAccounts decoded) @ writable_addresses (dt_LoadedAccounts decoded))"

definition transactionGuardV3BalanceAddresses ::
  "dtx \<Rightarrow> string \<Rightarrow> string list \<Rightarrow> int \<Rightarrow> string list \<times> bool \<times> nat" where
  "transactionGuardV3BalanceAddresses decoded wallet declared limit0 =
     (let limit = nat (if limit0 \<le> 0 then guardV3AutomaticAccountLimit else limit0);
          (addresses, complete) = fold append_address (candidate_addresses decoded wallet declared)
            ([], dt_Available decoded \<and> dt_Complete decoded)
      in (take limit addresses, complete \<and> length addresses \<le> limit, length addresses))"

definition transactionGuardV3AddressWritable :: "dtx \<Rightarrow> string \<Rightarrow> bool" where
  "transactionGuardV3AddressWritable decoded address =
     (case List.find (\<lambda>a. da_Address a = address) (dt_StaticAccounts decoded @ dt_LoadedAccounts decoded) of
        None \<Rightarrow> False | Some a \<Rightarrow> da_Writable a)"

subsection \<open>One account\<close>

text \<open>\<open>Inr None\<close> is an account that is absent or no token account, \<open>Inl\<close> one that could not be read.\<close>

definition transactionGuardV3TokenSnapshot ::
  "base64_error \<Rightarrow> SolanaAccountInfo option \<Rightarrow> go_error + SolanaTokenAccountSnapshot option" where
  "transactionGuardV3TokenSnapshot corrupt info =
     (case info of
        None \<Rightarrow> Inr None
      | Some i \<Rightarrow>
          if TrimSpace (sa_Owner i) \<noteq> guardV3SPLTokenProgramID \<and> TrimSpace (sa_Owner i) \<noteq> guardV3Token2022ProgramID
          then Inr None
          else (case SolanaTokenAccountSnapshotFromInfo corrupt info of Inl e \<Rightarrow> Inl e | Inr s \<Rightarrow> Inr (Some s)))"

definition token_side :: "go_error + SolanaTokenAccountSnapshot option \<Rightarrow> SolanaTokenAccountSnapshot option" where
  "token_side r = (case r of Inl _ \<Rightarrow> None | Inr s \<Rightarrow> s)"

definition new_balance_delta :: "dtx \<Rightarrow> string \<Rightarrow> transactionGuardAutomaticBalanceDelta" where
  "new_balance_delta decoded address =
     \<lparr>bd_Address = address, bd_Writable = transactionGuardV3AddressWritable decoded address, bd_PrePresent = False,
      bd_PostPresent = False, bd_AccountCreated = False, bd_AccountClosed = False, bd_PreProgramOwner = [],
      bd_PostProgramOwner = [], bd_PreLamports = ''0'', bd_PostLamports = ''0'', bd_LamportDelta = ''0'',
      bd_TokenAccount = False, bd_Mint = [], bd_PreTokenOwner = [], bd_PostTokenOwner = [], bd_PreTokenAmountRaw = [],
      bd_PostTokenAmountRaw = [], bd_TokenDeltaRaw = [], bd_Changed = False,
      bd_EvidenceStatus = ''verified_rpc_simulation''\<rparr>"

definition lamports_of :: "SolanaAccountInfo option \<Rightarrow> int" where
  "lamports_of info = (case info of None \<Rightarrow> 0 | Some i \<Rightarrow> sa_Lamports i)"

definition program_of :: "SolanaAccountInfo option \<Rightarrow> string" where
  "program_of info = (case info of None \<Rightarrow> [] | Some i \<Rightarrow> TrimSpace (sa_Owner i))"

definition key_of :: "(SolanaTokenAccountSnapshot \<Rightarrow> string) \<Rightarrow> SolanaTokenAccountSnapshot option \<Rightarrow> string" where
  "key_of field s = (case s of None \<Rightarrow> [] | Some t \<Rightarrow> guardV3Base58Encode (field t))"

definition before_after :: "string \<Rightarrow> string \<Rightarrow> string \<Rightarrow> string" where
  "before_after address before after = ''account='' @ address @ '' before='' @ before @ '' after='' @ after"

definition differing ::
  "(SolanaTokenAccountSnapshot \<Rightarrow> string) \<Rightarrow> SolanaTokenAccountSnapshot option \<Rightarrow> SolanaTokenAccountSnapshot option \<Rightarrow> bool" where
  "differing field pre post \<longleftrightarrow> pre \<noteq> None \<and> post \<noteq> None \<and> field (the pre) \<noteq> field (the post)"

text \<open>What one account adds: its delta, whether its evidence is missing, and its findings.\<close>

record balance_step =
  bs_Delta :: transactionGuardAutomaticBalanceDelta
  bs_Missing :: bool
  bs_Observed :: bool
  bs_LamportDelta :: int
  bs_TokenDelta :: int
  bs_ClosedToken :: bool
  bs_Findings :: "transactionFirewallFinding list"

definition unseen_step :: "transactionGuardAutomaticBalanceDelta \<Rightarrow> balance_step" where
  "unseen_step delta =
     \<lparr>bs_Delta = delta, bs_Missing = True, bs_Observed = False, bs_LamportDelta = 0, bs_TokenDelta = 0,
      bs_ClosedToken = False, bs_Findings = []\<rparr>"

definition balance_account ::
  "base64_error \<Rightarrow> dtx \<Rightarrow> string \<Rightarrow> SolanaAccountInfo option \<Rightarrow> SolanaAccountInfo option \<Rightarrow> balance_step" where
  "balance_account corrupt decoded address preInfo postInfo =
     (let created = (preInfo = None); closed = (postInfo = None);
          lamports = lamports_of postInfo - lamports_of preInfo;
          preProgram = program_of preInfo; postProgram = program_of postInfo;
          preRead = transactionGuardV3TokenSnapshot corrupt preInfo; postRead = transactionGuardV3TokenSnapshot corrupt postInfo;
          pre = token_side preRead; post = token_side postRead;
          failed = (isl preRead \<or> isl postRead); token = (pre \<noteq> None \<or> post \<noteq> None);
          tokens = side_amount post - side_amount pre;
          mint = (if pre \<noteq> None then key_of ts_Mint pre else key_of ts_Mint post);
          delta = (new_balance_delta decoded address)\<lparr>bd_PrePresent := \<not> created, bd_PostPresent := \<not> closed,
            bd_AccountCreated := created, bd_AccountClosed := closed, bd_PreProgramOwner := preProgram,
            bd_PostProgramOwner := postProgram, bd_PreLamports := int_text 10 (lamports_of preInfo),
            bd_PostLamports := int_text 10 (lamports_of postInfo), bd_LamportDelta := int_text 10 lamports,
            bd_TokenAccount := token, bd_Mint := mint, bd_PreTokenOwner := key_of ts_Owner pre,
            bd_PostTokenOwner := key_of ts_Owner post,
            bd_PreTokenAmountRaw := (if token then int_text 10 (side_amount pre) else []),
            bd_PostTokenAmountRaw := (if token then int_text 10 (side_amount post) else []),
            bd_TokenDeltaRaw := (if token then int_text 10 tokens else []),
            bd_Changed := created \<or> closed \<or> lamports \<noteq> 0 \<or> token \<and> tokens \<noteq> 0 \<or> preProgram \<noteq> postProgram,
            bd_EvidenceStatus := (if failed then ''token_account_decode_failed''
              else if closed then ''verified_rpc_simulation_closed_account''
              else if created then ''verified_rpc_simulation_created_account'' else ''verified_rpc_simulation'')\<rparr>;
          owners = (if preInfo \<noteq> None \<and> postInfo \<noteq> None \<and> preProgram \<noteq> postProgram
            then [finding ''automatic_account_program_owner_changed'' ''high'' ''Writable account program owner changed''
                    (before_after address preProgram postProgram) 30] else []);
          mints = (if differing ts_Mint pre post
            then [finding ''automatic_token_account_mint_changed'' ''critical'' ''Writable token account mint changed''
                    (before_after address mint (key_of ts_Mint post)) 100] else []);
          holders = (if differing ts_Owner pre post
            then [finding ''automatic_token_account_owner_changed'' ''critical'' ''Writable token account authority owner changed''
                    (before_after address (key_of ts_Owner pre) (key_of ts_Owner post)) 100] else [])
      in \<lparr>bs_Delta = delta, bs_Missing = failed, bs_Observed = True, bs_LamportDelta = lamports,
          bs_TokenDelta = (if token then tokens else 0), bs_ClosedToken = (closed \<and> pre \<noteq> None),
          bs_Findings = owners @ mints @ holders\<rparr>)"

definition observe_balance ::
  "base64_error \<Rightarrow> dtx \<Rightarrow> string list \<Rightarrow> string list \<Rightarrow> SolanaAccountInfo option list \<Rightarrow> SolanaAccountInfo option list
   \<Rightarrow> string \<Rightarrow> balance_step" where
  "observe_balance corrupt decoded preOrder postOrder pre post address =
     (case (account_at preOrder pre address, account_at postOrder post address) of
        (Some preInfo, Some postInfo) \<Rightarrow>
          if preInfo = None \<and> postInfo = None
          then unseen_step ((new_balance_delta decoded address)\<lparr>bd_EvidenceStatus := ''transient_or_unavailable''\<rparr>)
          else balance_account corrupt decoded address preInfo postInfo
      | _ \<Rightarrow> unseen_step ((new_balance_delta decoded address)\<lparr>bd_EvidenceStatus := ''account_order_missing''\<rparr>))"

subsection \<open>The analysis\<close>

definition wallet_delta :: "string \<Rightarrow> balance_step list \<Rightarrow> int" where
  "wallet_delta wallet steps =
     (case filter (\<lambda>s. bs_Observed s \<and> bd_Address (bs_Delta s) = TrimSpace wallet) steps of
        [] \<Rightarrow> 0 | mine \<Rightarrow> bs_LamportDelta (last mine))"

definition steps_where :: "(balance_step \<Rightarrow> bool) \<Rightarrow> balance_step list \<Rightarrow> nat" where
  "steps_where P steps = length (filter P steps)"

definition evaluateTransactionGuardV3AutomaticBalances ::
  "base64_error \<Rightarrow> dtx \<Rightarrow> string \<Rightarrow> string list \<Rightarrow> nat \<Rightarrow> bool \<Rightarrow> string list \<Rightarrow> string list
   \<Rightarrow> SolanaAccountInfo option list \<Rightarrow> SolanaAccountInfo option list
   \<Rightarrow> transactionGuardAutomaticBalanceAnalysis \<times> transactionFirewallFinding list" where
  "evaluateTransactionGuardV3AutomaticBalances corrupt decoded wallet addresses addressesRequired coverageComplete
     preOrder postOrder pre post =
     (let analysis = \<lparr>ba_Requested = addresses \<noteq> [], ba_Available = False, ba_Complete = False, ba_Status = ''not_requested'',
            ba_Wallet = TrimSpace wallet, ba_AddressesRequired = addressesRequired, ba_AddressesRequested = length addresses,
            ba_AddressesObserved = 0, ba_ChangedAccountCount = 0, ba_TokenAccountChangeCount = 0,
            ba_CreatedAccountCount = 0, ba_ClosedAccountCount = 0, ba_WalletSOLDeltaLamports = ''0'',
            ba_WalletSOLSpentLamports = ''0'', ba_WalletSOLReceivedLamports = ''0'', ba_Accounts = [], ba_Limitations = []\<rparr>
      in if addresses = [] then (analysis, [])
      else let steps = map (observe_balance corrupt decoded preOrder postOrder pre post) addresses;
          observed = steps_where bs_Observed steps; missing = steps_where bs_Missing steps;
          delta = wallet_delta wallet steps;
          changed = steps_where (\<lambda>s. bs_Observed s \<and> bd_Changed (bs_Delta s)) steps;
          tokenChanges = steps_where (\<lambda>s. bs_TokenDelta s \<noteq> 0) steps;
          closedTokens = map (\<lambda>s. bd_Address (bs_Delta s)) (filter bs_ClosedToken steps);
          complete = (coverageComplete \<and> missing = 0 \<and> length addresses = addressesRequired);
          spent = (if delta < 0 then int_text 10 (- delta) else ''0'');
          received = (if 0 < delta then int_text 10 delta else ''0'');
          result = analysis\<lparr>ba_Available := 0 < observed, ba_Complete := complete,
            ba_Status := (if complete then ''verified_rpc_simulation_balance_changes'' else ''evidence_incomplete''),
            ba_AddressesObserved := observed, ba_ChangedAccountCount := changed, ba_TokenAccountChangeCount := tokenChanges,
            ba_CreatedAccountCount := steps_where (\<lambda>s. bd_AccountCreated (bs_Delta s)) steps,
            ba_ClosedAccountCount := steps_where (\<lambda>s. bd_AccountClosed (bs_Delta s)) steps,
            ba_WalletSOLDeltaLamports := int_text 10 delta, ba_WalletSOLSpentLamports := spent,
            ba_WalletSOLReceivedLamports := received, ba_Accounts := map bs_Delta steps,
            ba_Limitations := (if complete then [] else
              [''Automatic balance coverage did not observe every required account; missing evidence is not treated as a safe result.''])\<rparr>;
          incomplete = (if complete then [] else
            [finding ''automatic_balance_coverage_incomplete'' ''high'' ''Automatic balance-change coverage is incomplete''
               (''required='' @ show_nat addressesRequired @ '' requested='' @ show_nat (length addresses) @
                '' observed='' @ show_nat observed @ '' missing='' @ show_nat missing) 30]);
          sol = (if TrimSpace wallet \<noteq> [] \<and> delta \<noteq> 0 then
            [finding ''automatic_wallet_sol_delta'' ''info'' ''Simulated wallet SOL balance change''
               (''wallet='' @ wallet @ '' delta_lamports='' @ int_text 10 delta @ '' spent_lamports='' @ spent @
                '' received_lamports='' @ received) 0] else []);
          tokens = (if 0 < tokenChanges then
            [finding ''automatic_token_balance_changes'' ''info'' ''Simulated token balance changes observed''
               (''changed_token_accounts='' @ show_nat tokenChanges @ '' changed_accounts='' @ show_nat changed) 0] else []);
          closed = (if closedTokens = [] then [] else
            [finding ''automatic_token_account_closed'' ''medium'' ''Simulated transaction closes token account''
               (Join closedTokens '', '') 20])
        in (result, uniqueGuardV3Findings (concat (map bs_Findings steps) @ incomplete @ sol @ tokens @ closed)))"

end
