(* ===== verification/Guard_Authority.thy ===== *)
theory Guard_Authority
  imports Guard_Policy Solana_Lookup
begin

text \<open>
  The token-authority surface of the transaction guard: which delegations, authority changes, fees and
  hooks a transaction leaves behind. \<^verbatim>\<open>handlers/transaction_guard_v3_authority_collect.go\<close> collects the
  token instructions of the message and of the simulation's inner groups, \<open>_post_state.go\<close> compares each
  with the account state after the simulation, \<open>_findings.go\<close> scores it, \<open>_integration.go\<close> and
  \<open>transaction_guard_v3_response.go\<close> merge the result into the assessment. \<open>requiredEnv\<close> is the variable that says
  whether the surface is required; \<open>corrupt\<close> is the base64 error, as in \<open>Solana_Accounts\<close>.
\<close>

subsection \<open>Helpers\<close>

definition envBool :: "string \<Rightarrow> bool \<Rightarrow> bool" where
  "envBool value fallback =
     (let raw = ToLower (TrimSpace value) in
      if raw = [] then fallback else raw = ''1'' \<or> raw = ''true'' \<or> raw = ''yes'' \<or> raw = ''on'')"

fun firstNonEmptyString :: "string list \<Rightarrow> string" where
  "firstNonEmptyString [] = []"
| "firstNonEmptyString (v # vs) = (if TrimSpace v \<noteq> [] then TrimSpace v else firstNonEmptyString vs)"

fun unique_strings :: "string list \<Rightarrow> string list \<Rightarrow> string list" where
  "unique_strings out [] = out"
| "unique_strings out (v # vs) =
     (let value = TrimSpace v in
      if value = [] \<or> value \<in> set out then unique_strings out vs else unique_strings (out @ [value]) vs)"

definition uniqueExplanationStrings :: "string list \<Rightarrow> string list" where
  "uniqueExplanationStrings = unique_strings []"

definition mapKeysSorted :: "string list \<Rightarrow> string list" where
  "mapKeysSorted keys = sort (remdups (filter (\<lambda>v. TrimSpace v \<noteq> []) keys))"

definition guardV3CompactAddressHash :: "string \<Rightarrow> string" where
  "guardV3CompactAddressHash value = hex_encode (take 6 (Sum256 (TrimSpace value)))"

definition guardV3Base58DecodeVariable :: "string \<Rightarrow> go_error + string" where
  "guardV3Base58DecodeVariable value =
     (let v = TrimSpace value in
      if v = [] then Inr []
      else case base58_value v 0 of
        None \<Rightarrow> Inl (ErrMsg ''invalid base58 character'')
      | Some n \<Rightarrow> Inr (replicate (leading (CHR ''1'') v) zero_byte @ big_bytes n))"

text \<open>The addresses by account index; the code sizes the slice by the largest index.\<close>

definition transactionGuardV3CombinedAddresses :: "dtx \<Rightarrow> string list" where
  "transactionGuardV3CombinedAddresses decoded =
     (let accounts = dt_StaticAccounts decoded @ dt_LoadedAccounts decoded in
      if accounts = [] then []
      else fold (\<lambda>a out. out[da_Index a := da_Address a]) accounts
             (replicate (Suc (Max (set (map da_Index accounts)))) []))"

subsection \<open>Instructions\<close>

record SolanaInnerInstruction =
  ii_ProgramIDIndex :: int
  ii_Accounts :: "int list"
  ii_Data :: string
  ii_StackHeight :: "int option"

record SolanaInnerInstructionGroup =
  ig_Index :: int
  ig_Instructions :: "SolanaInnerInstruction list"

record transactionGuardAuthoritySnapshots =
  sn_PreOrder :: "string list"
  sn_PostOrder :: "string list"
  sn_Pre :: "SolanaAccountInfo option list"
  sn_Post :: "SolanaAccountInfo option list"

definition token_program :: "string \<Rightarrow> bool" where
  "token_program p \<longleftrightarrow> p = guardV3SPLTokenProgramID \<or> p = guardV3Token2022ProgramID"

definition authority_data :: "string \<Rightarrow> bool" where
  "authority_data data \<longleftrightarrow> data \<noteq> [] \<and> guardV3AuthorityOpcode (byte_of (hd data))"

definition guardV3ResolveAuthorityAccounts :: "int list \<Rightarrow> string list \<Rightarrow> string list option" where
  "guardV3ResolveAuthorityAccounts indexes addresses =
     (if list_all (\<lambda>i. 0 \<le> i \<and> i < int (length addresses) \<and> looksLikeGuardPubkey (addresses ! nat i)) indexes
      then Some (map (\<lambda>i. addresses ! nat i) indexes) else None)"

text \<open>The instructions found so far and the number that could not be resolved.\<close>

type_synonym collected = "transactionGuardAuthorityInstruction list \<times> nat"

definition outer_instruction :: "string list \<Rightarrow> nat \<times> guardV3ParsedInstruction \<Rightarrow> collected \<Rightarrow> collected" where
  "outer_instruction addresses = (\<lambda>(index, parsed) (out, unresolved).
     (if length addresses \<le> gp_ProgramIndex parsed then (out, unresolved)
      else let programID = addresses ! gp_ProgramIndex parsed in
        if \<not> token_program programID \<or> \<not> authority_data (gp_Data parsed) then (out, unresolved)
        else case guardV3ResolveAuthorityAccounts (map int (gp_AccountIndexes parsed)) addresses of
          None \<Rightarrow> (out, Suc unresolved)
        | Some accounts \<Rightarrow>
            (out @ [\<lparr>ai_Source = ''outer'', ai_Index = index, ai_InnerSequence = 0, ai_ParentProgramID = [],
                    ai_ProgramID = programID, ai_Accounts = accounts, ai_Data = gp_Data parsed\<rparr>], unresolved)))"

text \<open>The last component counts the inner instructions that were added. A negative group index names no instruction and is shown as 0.\<close>

definition inner_instruction ::
  "string list \<Rightarrow> int \<Rightarrow> string \<Rightarrow> SolanaInnerInstruction \<Rightarrow> collected \<times> nat \<Rightarrow> collected \<times> nat" where
  "inner_instruction addresses groupIndex parentProgram inner = (\<lambda>((out, unresolved), sequence).
     (if ii_ProgramIDIndex inner < 0 \<or> int (length addresses) \<le> ii_ProgramIDIndex inner then ((out, unresolved), sequence)
      else let programID = addresses ! nat (ii_ProgramIDIndex inner) in
        if \<not> token_program programID then ((out, unresolved), sequence)
        else case guardV3Base58DecodeVariable (ii_Data inner) of
          Inl _ \<Rightarrow> ((out, Suc unresolved), sequence)
        | Inr data \<Rightarrow>
            if \<not> authority_data data then ((out, unresolved), sequence)
            else case guardV3ResolveAuthorityAccounts (ii_Accounts inner) addresses of
              None \<Rightarrow> ((out, Suc unresolved), sequence)
            | Some accounts \<Rightarrow>
                ((out @ [\<lparr>ai_Source = ''cpi'', ai_Index = nat groupIndex, ai_InnerSequence = Suc sequence,
                          ai_ParentProgramID = parentProgram, ai_ProgramID = programID, ai_Accounts = accounts,
                          ai_Data = data\<rparr>], unresolved), Suc sequence)))"

definition parent_program :: "dtx \<Rightarrow> int \<Rightarrow> string" where
  "parent_program decoded index =
     (if 0 \<le> index \<and> index < int (length (dt_Instructions decoded))
      then di_ProgramID (dt_Instructions decoded ! nat index) else [])"

definition transactionGuardV3AuthorityInstructions ::
  "dtx \<Rightarrow> SolanaInnerInstructionGroup list \<Rightarrow> collected" where
  "transactionGuardV3AuthorityInstructions decoded innerGroups =
     (let addresses = transactionGuardV3CombinedAddresses decoded;
          outer = fold (outer_instruction addresses) (enumerate 0 (dt_parsedInstructions decoded)) ([], 0)
      in fst (fold (\<lambda>group. fold (inner_instruction addresses (ig_Index group) (parent_program decoded (ig_Index group)))
                (ig_Instructions group)) innerGroups (outer, 0)))"

subsection \<open>State after the simulation\<close>

fun guardV3AuthorityAccountInfo ::
  "string \<Rightarrow> string list \<Rightarrow> SolanaAccountInfo option list \<Rightarrow> SolanaAccountInfo option" where
  "guardV3AuthorityAccountInfo address (a # order) (v # infos) =
     (if a = address then v else guardV3AuthorityAccountInfo address order infos)"
| "guardV3AuthorityAccountInfo address _ _ = None"

definition guardV3AddressArray :: "string \<Rightarrow> string" where
  "guardV3AddressArray address = (case decodeSolanaPublicKey address of Inl _ \<Rightarrow> zero_key | Inr k \<Rightarrow> k)"

definition guardV3AuthorityMatchesExpected :: "string \<Rightarrow> string \<Rightarrow> bool" where
  "guardV3AuthorityMatchesExpected actual expected =
     (let actual = TrimSpace actual; expected = TrimSpace expected in
      if expected = ''revoked'' then actual = [] else actual = expected)"

definition optional_address :: "bool \<Rightarrow> string \<Rightarrow> string" where
  "optional_address has k = (if has then guardV3Base58Encode k else [])"

definition parse_failed :: "transactionGuardAuthorityEvent \<Rightarrow> transactionGuardAuthorityEvent" where
  "parse_failed e = e\<lparr>ev_EvidenceStatus := ''decoded_instruction_post_state_parse_failed''\<rparr>"

definition enrich_delegation ::
  "transactionGuardAuthorityEvent \<Rightarrow> SolanaTokenAuthoritySnapshot \<Rightarrow> transactionGuardAuthorityEvent" where
  "enrich_delegation e s =
     (let active = tas_HasDelegate s \<and> 0 < tas_DelegatedAmount s \<and>
            (ev_Kind e = ''revoke'' \<or> tas_Delegate s = guardV3AddressArray (ev_Delegate e))
      in e\<lparr>ev_PostStateAvailable := True,
           ev_PostDelegate := (if tas_HasDelegate s then guardV3Base58Encode (tas_Delegate s) else ev_PostDelegate e),
           ev_PostDelegatedAmountRaw := show_nat (unat (tas_DelegatedAmount s)),
           ev_ActiveAfterSimulation := Some active, ev_Persistent := active,
           ev_EvidenceStatus := ''verified_final_simulated_token_account_state''\<rparr>)"

definition with_activity :: "string \<Rightarrow> string \<Rightarrow> transactionGuardAuthorityEvent \<Rightarrow> transactionGuardAuthorityEvent" where
  "with_activity actual status e =
     (let active = guardV3AuthorityMatchesExpected actual (ev_NewAuthority e)
      in e\<lparr>ev_ActiveAfterSimulation := Some active, ev_Persistent := active \<and> ev_NewAuthority e \<noteq> ''revoked'',
           ev_EvidenceStatus := status\<rparr>)"

definition enrich_mint_authority ::
  "nat \<Rightarrow> transactionGuardAuthorityEvent \<Rightarrow> SolanaMintAuthoritySnapshot \<Rightarrow> transactionGuardAuthorityEvent" where
  "enrich_mint_authority authorityType e s =
     (let mint = optional_address (mas_HasMintAuthority s) (mas_MintAuthority s);
          freeze = optional_address (mas_HasFreezeAuthority s) (mas_FreezeAuthority s)
      in with_activity (if authorityType = 1 then freeze else mint) ''verified_final_simulated_mint_state''
           (e\<lparr>ev_PostStateAvailable := True, ev_PostMintAuthority := mint, ev_PostFreezeAuthority := freeze\<rparr>))"

definition enrich_account_authority ::
  "nat \<Rightarrow> transactionGuardAuthorityEvent \<Rightarrow> SolanaTokenAuthoritySnapshot \<Rightarrow> transactionGuardAuthorityEvent" where
  "enrich_account_authority authorityType e s =
     (let owner = guardV3Base58Encode (tas_Owner s);
          close = optional_address (tas_HasCloseAuthority s) (tas_CloseAuthority s)
      in with_activity (if authorityType = 3 then close else owner) ''verified_final_simulated_token_account_state''
           (e\<lparr>ev_PostStateAvailable := True, ev_PostOwner := owner, ev_PostCloseAuthority := close\<rparr>))"

definition delegation_kind :: "string \<Rightarrow> bool" where
  "delegation_kind kind \<longleftrightarrow> kind = ''approve'' \<or> kind = ''approve_checked'' \<or> kind = ''revoke''"

definition enrichTransactionGuardV3AuthorityPostState ::
  "base64_error \<Rightarrow> transactionGuardAuthoritySnapshots \<Rightarrow> transactionGuardAuthorityEvent \<Rightarrow> transactionGuardAuthorityEvent" where
  "enrichTransactionGuardV3AuthorityPostState corrupt snapshots e =
     (let address = firstNonEmptyString [ev_Account e, ev_Source e, ev_Mint e] in
      case guardV3AuthorityAccountInfo address (sn_PostOrder snapshots) (sn_Post snapshots) of
        None \<Rightarrow>
          if delegation_kind (ev_Kind e) \<or> ev_Kind e = ''set_authority''
          then e\<lparr>ev_EvidenceStatus := ''decoded_instruction_post_state_unavailable''\<rparr> else e
      | Some postInfo \<Rightarrow>
          if delegation_kind (ev_Kind e) then
            (case SolanaTokenAuthoritySnapshotFromInfo corrupt (Some postInfo) of
               Inl _ \<Rightarrow> parse_failed e | Inr s \<Rightarrow> enrich_delegation e s)
          else if ev_Kind e = ''set_authority'' then
            (case ev_AuthorityType e of
               None \<Rightarrow> e
             | Some t \<Rightarrow>
                 if t \<le> 1 then
                   (case SolanaMintAuthoritySnapshotFromInfo corrupt (Some postInfo) of
                      Inl _ \<Rightarrow> parse_failed e | Inr s \<Rightarrow> enrich_mint_authority t e s)
                 else if t \<le> 3 then
                   (case SolanaTokenAuthoritySnapshotFromInfo corrupt (Some postInfo) of
                      Inl _ \<Rightarrow> parse_failed e | Inr s \<Rightarrow> enrich_account_authority t e s)
                 else e\<lparr>ev_EvidenceStatus := ''decoded_extension_authority_final_state_not_parsed''\<rparr>)
          else e)"

subsection \<open>Findings\<close>

definition bool_text :: "bool \<Rightarrow> string" where "bool_text b = (if b then ''true'' else ''false'')"

definition guardV3AuthorityEvidence :: "transactionGuardAuthorityEvent \<Rightarrow> string" where
  "guardV3AuthorityEvidence e =
     Join ([''kind='' @ ev_Kind e, ''scope='' @ ev_Scope e] @
       map (\<lambda>(key, v). key @ ''='' @ v) (filter (\<lambda>(key, v). v \<noteq> [])
         [(''account'', ev_Account e), (''mint'', ev_Mint e), (''delegate'', ev_Delegate e),
          (''new_authority'', ev_NewAuthority e), (''amount_raw'', ev_AmountRaw e),
          (''hook_program'', ev_TransferHookProgramID e), (''maximum_fee_raw'', ev_MaximumFeeRaw e)]) @
       (case ev_TransferFeeBasisPoints e of None \<Rightarrow> [] | Some bps \<Rightarrow> [''fee_bps='' @ show_nat bps]) @
       (case ev_ActiveAfterSimulation e of None \<Rightarrow> [] | Some a \<Rightarrow> [''active_after_simulation='' @ bool_text a])) '' ''"

definition transactionGuardV3AuthorityFinding :: "transactionGuardAuthorityEvent \<Rightarrow> transactionFirewallFinding option" where
  "transactionGuardV3AuthorityFinding e =
     (let evidence = compactGuardV3Evidence (guardV3AuthorityEvidence e); kind = ev_Kind e;
          result = (\<lambda>code address severity title score.
            Some (finding (code @ guardV3CompactAddressHash address) severity title evidence score)) in
      if kind = ''approve'' \<or> kind = ''approve_checked'' then
        (if ev_ActiveAfterSimulation e = Some False then None
         else if ev_EffectivelyUnlimited e
         then result ''authority_delegate_approval_'' (ev_Account e) ''high'' ''Maximum-size token delegation'' 35
         else result ''authority_delegate_approval_'' (ev_Account e) ''medium''
                ''Token spending delegation remains after signing'' 18)
      else if kind = ''initialize_permanent_delegate'' then
        result ''authority_permanent_delegate_'' (ev_Mint e) ''critical'' ''Mint-wide permanent delegate capability'' 75
      else if kind = ''set_authority'' then
        (if ev_NewAuthority e = ''revoked'' \<or> ev_ActiveAfterSimulation e = Some False \<or> ev_AuthorityType e = None then None
         else let code = ''authority_change_'' @ ev_AuthorityTypeName e @ ''_'' in
           if ev_AuthorityType e \<in> {Some 8, Some 16, Some 17}
           then result code (ev_Account e) ''critical'' ''Critical mint-wide authority capability'' 75
           else result code (ev_Account e) ''high'' ''Persistent token authority change'' 35)
      else if kind = ''initialize_transfer_hook'' \<or> kind = ''update_transfer_hook'' then
        (if ev_TransferHookProgramID e = ''revoked'' then None
         else result ''authority_transfer_hook_'' (ev_Mint e) ''high'' ''Mint-wide transfer hook program configured'' 35)
      else if kind = ''initialize_transfer_fee_config'' \<or> kind = ''set_transfer_fee'' then
        (case ev_TransferFeeBasisPoints e of
           None \<Rightarrow> None
         | Some bps \<Rightarrow>
             if bps = 0 then None
             else if 1000 < bps
             then result ''authority_transfer_fee_'' (ev_Mint e) ''high'' ''Transfer fee exceeds 10%'' 50
             else result ''authority_transfer_fee_'' (ev_Mint e) ''medium'' ''Mint-wide transfer fee configured'' 25)
      else if kind = ''withdraw_withheld_tokens_from_mint'' \<or> kind = ''withdraw_withheld_tokens_from_accounts'' then
        result ''authority_withheld_fee_withdrawal_'' (ev_Mint e) ''medium'' ''Withheld transfer fees are withdrawn'' 20
      else None)"

definition guardV3RequiredSeverity :: "bool \<Rightarrow> string" where
  "guardV3RequiredSeverity required = (if required then ''high'' else ''info'')"

definition transactionGuardAuthorityUnavailableFinding :: "bool \<Rightarrow> string \<Rightarrow> transactionFirewallFinding list" where
  "transactionGuardAuthorityUnavailableFinding required evidence =
     [finding ''authority_surface_unavailable'' (guardV3RequiredSeverity required) ''Token authority surface is unavailable''
        (compactGuardV3Evidence evidence) 0]"

definition guardV3AuthorityRequiresFinalState :: "transactionGuardAuthorityEvent \<Rightarrow> bool" where
  "guardV3AuthorityRequiresFinalState e \<longleftrightarrow>
     delegation_kind (ev_Kind e) \<or>
     ev_Kind e = ''set_authority'' \<and> (case ev_AuthorityType e of None \<Rightarrow> False | Some t \<Rightarrow> t \<le> 3)"

subsection \<open>The surface\<close>

record transactionGuardAuthoritySurfaceAnalysis =
  au_Requested :: bool
  au_Required :: bool
  au_Available :: bool
  au_Complete :: bool
  au_Status :: string
  au_EventCount :: nat
  au_PersistentEventCount :: nat
  au_MintWideEventCount :: nat
  au_ActiveDelegateCount :: nat
  au_TransferHookProgramIDs :: "string list"
  au_Events :: "transactionGuardAuthorityEvent list"
  au_Limitations :: "string list"

definition authority_required :: "string \<Rightarrow> bool" where
  "authority_required requiredEnv = envBool requiredEnv True"

definition new_surface :: "string \<Rightarrow> dtx \<Rightarrow> transactionGuardAuthoritySurfaceAnalysis" where
  "new_surface requiredEnv decoded =
     \<lparr>au_Requested = True, au_Required = authority_required requiredEnv, au_Available = dt_Available decoded,
      au_Complete = dt_Complete decoded, au_Status = ''none_observed'', au_EventCount = 0, au_PersistentEventCount = 0,
      au_MintWideEventCount = 0, au_ActiveDelegateCount = 0, au_TransferHookProgramIDs = [], au_Events = [],
      au_Limitations =
        [''Token-2022 extension instructions are decoded from the signed transaction and successful simulation path.'',
         ''Base SPL token-account and mint authority fields are verified from final simulated account state when RPC returns those accounts.'']\<rparr>"

definition unavailableTransactionGuardV3AuthoritySurface :: "string \<Rightarrow> transactionGuardAuthoritySurfaceAnalysis" where
  "unavailableTransactionGuardV3AuthoritySurface requiredEnv =
     (new_surface requiredEnv newDecoded)\<lparr>au_Available := False, au_Complete := False, au_Status := ''simulation_unavailable'',
       au_Limitations := [''Authority persistence evidence requires a decoded transaction and successful Solana simulation.'']\<rparr>"

text \<open>One instruction of the loop: its event or its failure.\<close>

datatype surface_step =
    Unresolved transactionFirewallFinding
  | Irrelevant
  | Observed transactionGuardAuthorityEvent

definition surface_instruction ::
  "base64_error \<Rightarrow> bool \<Rightarrow> transactionGuardAuthoritySnapshots \<Rightarrow> transactionGuardAuthorityInstruction \<Rightarrow> surface_step" where
  "surface_instruction corrupt required snapshots i =
     (case decodeTransactionGuardV3AuthorityEvent i of (event, relevant, err) \<Rightarrow>
        (case err of
           Some e \<Rightarrow> Unresolved (finding
             (''authority_instruction_unresolved_'' @ show_nat (ai_Index i) @ ''_'' @ show_nat (ai_InnerSequence i))
             (guardV3RequiredSeverity required) ''Authority-changing token instruction could not be fully decoded''
             (compactGuardV3Evidence (Error e)) 0)
         | None \<Rightarrow>
             if \<not> relevant then Irrelevant
             else Observed (enrichTransactionGuardV3AuthorityPostState corrupt snapshots event)))"

definition unevidenced :: "transactionGuardAuthorityEvent \<Rightarrow> bool" where
  "unevidenced e \<longleftrightarrow> guardV3AuthorityRequiresFinalState e \<and> \<not> ev_PostStateAvailable e"

definition step_events :: "surface_step list \<Rightarrow> transactionGuardAuthorityEvent list" where
  "step_events steps = List.map_filter (\<lambda>s. case s of Observed e \<Rightarrow> Some e | _ \<Rightarrow> None) steps"

definition step_finding :: "surface_step \<Rightarrow> transactionFirewallFinding option" where
  "step_finding s = (case s of Unresolved f \<Rightarrow> Some f | Irrelevant \<Rightarrow> None | Observed e \<Rightarrow> transactionGuardV3AuthorityFinding e)"

definition step_complete :: "surface_step \<Rightarrow> bool" where
  "step_complete s \<longleftrightarrow> (case s of Unresolved f \<Rightarrow> False | Irrelevant \<Rightarrow> True | Observed e \<Rightarrow> \<not> unevidenced e)"

text \<open>\<^verbatim>\<open>sort.SliceStable\<close> by instruction, then by position in its inner group.\<close>

definition event_order :: "transactionGuardAuthorityEvent \<Rightarrow> nat \<times> nat" where
  "event_order e = (ev_InstructionIndex e, ev_InnerSequence e)"

fun insert_event :: "transactionGuardAuthorityEvent \<Rightarrow> transactionGuardAuthorityEvent list \<Rightarrow> transactionGuardAuthorityEvent list" where
  "insert_event e [] = [e]"
| "insert_event e (f # fs) =
     (if ev_InstructionIndex f < ev_InstructionIndex e \<or>
         ev_InstructionIndex f = ev_InstructionIndex e \<and> ev_InnerSequence f < ev_InnerSequence e
      then f # insert_event e fs else e # f # fs)"

definition analyzeTransactionGuardV3AuthoritySurface ::
  "base64_error \<Rightarrow> string \<Rightarrow> dtx \<Rightarrow> SolanaInnerInstructionGroup list \<Rightarrow> transactionGuardAuthoritySnapshots
   \<Rightarrow> transactionGuardAuthoritySurfaceAnalysis \<times> transactionFirewallFinding list" where
  "analyzeTransactionGuardV3AuthoritySurface corrupt requiredEnv decoded innerGroups snapshots =
     (let analysis = new_surface requiredEnv decoded; required = au_Required analysis in
      if \<not> dt_Available decoded then
        (analysis\<lparr>au_Complete := False, au_Status := ''transaction_decode_unavailable''\<rparr>,
         transactionGuardAuthorityUnavailableFinding required ''serialized transaction could not be decoded'')
      else
        let (instructions, unresolved) = transactionGuardV3AuthorityInstructions decoded innerGroups;
            steps = map (surface_instruction corrupt required snapshots) instructions;
            events = step_events steps;
            complete = dt_Complete decoded \<and> unresolved = 0 \<and> list_all step_complete steps;
            limitations =
              (if 0 < unresolved
               then [show_nat unresolved @ '' authority-relevant instruction(s) could not be resolved.''] else []) @
              map (\<lambda>e. ''Final simulated state was unavailable for '' @ ev_Kind e @ '' on '' @
                         firstNonEmptyString [ev_Account e, ev_Source e, ev_Mint e] @ ''.'') (filter unevidenced events)
        in (analysis\<lparr>au_Complete := complete,
              au_Status := (if \<not> complete then ''partial'' else if events \<noteq> [] then ''complete'' else ''none_observed''),
              au_EventCount := length events,
              au_PersistentEventCount := length (filter ev_Persistent events),
              au_MintWideEventCount := length (filter ev_MintWide events),
              au_ActiveDelegateCount := length (filter (\<lambda>e. ev_ActiveAfterSimulation e = Some True \<and>
                 (ev_Kind e = ''approve'' \<or> ev_Kind e = ''approve_checked'')) events),
              au_TransferHookProgramIDs := mapKeysSorted (filter looksLikeGuardPubkey (map ev_TransferHookProgramID events)),
              au_Events := foldr insert_event events [],
              au_Limitations := uniqueExplanationStrings (au_Limitations analysis @ limitations)\<rparr>,
            uniqueGuardV3Findings (List.map_filter step_finding steps)))"

subsection \<open>Integration\<close>

definition guardV3TokenOperationKey :: "transactionGuardDecodedTokenOperation \<Rightarrow> string" where
  "guardV3TokenOperationKey v =
     Join [to_Kind v, to_ProgramID v, to_Account v, to_Source v, to_Mint v, to_Authority v, to_Delegate v,
           to_NewAuthority v, (case to_AuthorityType v of None \<Rightarrow> [] | Some t \<Rightarrow> show_nat t)] ''|''"

definition guardV3TokenOperationExists ::
  "transactionGuardDecodedTokenOperation list \<Rightarrow> transactionGuardDecodedTokenOperation \<Rightarrow> bool" where
  "guardV3TokenOperationExists values candidate \<longleftrightarrow>
     list_ex (\<lambda>v. guardV3TokenOperationKey v = guardV3TokenOperationKey candidate) values"

definition add_event_operation :: "transactionGuardAuthorityEvent \<Rightarrow> dtx \<Rightarrow> dtx" where
  "add_event_operation e decoded =
     (case guardV3DecodedTokenOperationFromAuthorityEvent e of
        None \<Rightarrow> decoded
      | Some operation \<Rightarrow>
          if guardV3TokenOperationExists (dt_TokenOperations decoded) operation then decoded
          else add_operation operation decoded)"

definition transactionGuardV3DecodedWithAuthoritySurface ::
  "dtx \<Rightarrow> transactionGuardAuthoritySurfaceAnalysis \<Rightarrow> dtx" where
  "transactionGuardV3DecodedWithAuthoritySurface decoded authority =
     fold add_event_operation (au_Events authority)
       (decoded\<lparr>dt_ProgramIDs := normalizeGuardProgramList (dt_ProgramIDs decoded @ au_TransferHookProgramIDs authority)\<rparr>)"

text \<open>The codes of log findings that an operation of the message supersedes.\<close>

definition superseded_codes :: "transactionGuardDecodedTokenOperation \<Rightarrow> string list" where
  "superseded_codes operation =
     (let kind = to_Kind operation in
      if delegation_kind kind then [''delegate_approval'']
      else if kind = ''set_authority'' then
        ''authority_change'' # (if to_AuthorityType operation = Some 8 then [''permanent_delegate''] else [])
      else if kind = ''initialize_permanent_delegate'' then [''permanent_delegate'']
      else if kind = ''initialize_transfer_hook'' \<or> kind = ''update_transfer_hook'' then [''transfer_hook'']
      else [])"

definition removeTransactionGuardV3SupersededAuthorityFindings ::
  "transactionFirewallFinding list \<Rightarrow> dtx \<Rightarrow> transactionFirewallFinding list" where
  "removeTransactionGuardV3SupersededAuthorityFindings existing decoded =
     (let codes = concat (map superseded_codes (dt_TokenOperations decoded))
      in filter (\<lambda>f. ff_Code f \<notin> set codes) existing)"

definition finding_aliases :: "(string \<times> string) list" where
  "finding_aliases =
     [(''decoded_delegate_approval'', ''delegate_approval''), (''decoded_authority_change'', ''authority_change''),
      (''decoded_close_account'', ''close_account''), (''decoded_freeze_account'', ''freeze_account''),
      (''decoded_token_burn'', ''token_burn'')]"

fun merge_from :: "string list \<Rightarrow> transactionFirewallFinding list \<Rightarrow> transactionFirewallFinding list" where
  "merge_from seen [] = []"
| "merge_from seen (f # fs) =
     (if ff_Code f \<in> set seen \<or>
         (case map_of finding_aliases (ff_Code f) of None \<Rightarrow> False | Some alias \<Rightarrow> alias \<in> set seen)
      then merge_from seen fs
      else f # merge_from (ff_Code f # seen) fs)"

definition mergeTransactionGuardV3Findings ::
  "transactionFirewallFinding list \<Rightarrow> transactionFirewallFinding list \<Rightarrow> transactionFirewallFinding list" where
  "mergeTransactionGuardV3Findings existing decoded = existing @ merge_from (map ff_Code existing) decoded"

end
