(* ===== verification/Guard_Sound.thy ===== *)
theory Guard_Sound
  imports Guard_Policy "HOL-Library.Multiset"
begin

text \<open>
  What the firewall and the declared policies of the transaction guard decide: which transactions the
  firewall releases, when a guarded token account passes, when the program policy is complete, and
  which action the guard takes.
\<close>

subsection \<open>Searching the log\<close>

definition hit :: "string list \<Rightarrow> firewall_rule \<Rightarrow> bool" where
  "hit lines r \<longleftrightarrow> list_ex (\<lambda>line. rule_matches line r) lines"

definition finding_weight :: "transactionFirewallFinding \<Rightarrow> string \<times> int" where
  "finding_weight f = (ff_Code f, ff_Score f)"

definition rule_weight :: "firewall_rule \<Rightarrow> string \<times> int" where
  "rule_weight r = (fr_Code r, fr_Score r)"

lemma match_rules_exact:
  "distinct (map fr_Code rs) \<Longrightarrow> match_rules line rs seen = (fs, seen') \<Longrightarrow>
   fs = map (rule_finding line) (filter (\<lambda>r. fr_Code r \<notin> set seen \<and> rule_matches line r) rs) \<and>
   set seen' = set seen \<union> fr_Code ` {r \<in> set rs. rule_matches line r}"
proof (induction rs arbitrary: seen fs seen')
  case (Cons r rs)
  have neq: "fr_Code r' \<noteq> fr_Code r" if "r' \<in> set rs" for r' using that Cons.prems(1) by (auto simp: image_iff)
  show ?case
  proof (cases "fr_Code r \<in> set seen \<or> \<not> rule_matches line r")
    case True
    with Cons.prems Cons.IH [of seen fs seen'] show ?thesis by auto
  next
    case False
    obtain fs0 seen0 where m: "match_rules line rs (fr_Code r # seen) = (fs0, seen0)" by fastforce
    have "filter (\<lambda>r'. fr_Code r' \<notin> set (fr_Code r # seen) \<and> rule_matches line r') rs =
          filter (\<lambda>r'. fr_Code r' \<notin> set seen \<and> rule_matches line r') rs"
      using neq by (intro filter_cong) auto
    with Cons.IH [OF _ m] Cons.prems False m show ?thesis by auto
  qed
qed simp

lemma rules_distinct: "distinct (map fr_Code firewall_rules)"
  by (simp add: firewall_rules_def)

lemma inject_code: "r \<in> set firewall_rules \<Longrightarrow> r' \<in> set firewall_rules \<Longrightarrow> fr_Code r = fr_Code r' \<Longrightarrow> r = r'"
  using rules_distinct by (auto simp: distinct_map inj_on_def)

lemma match_logs_weights:
  "mset (map finding_weight (match_logs lines seen)) =
   mset (map rule_weight (filter (\<lambda>r. fr_Code r \<notin> set seen \<and> hit lines r) firewall_rules))"
proof (induction lines arbitrary: seen)
  case (Cons line lines)
  obtain fs seen' where m: "match_rules line firewall_rules seen = (fs, seen')" by fastforce
  from match_rules_exact [OF rules_distinct m]
  have fs: "fs = map (rule_finding line) (filter (\<lambda>r. fr_Code r \<notin> set seen \<and> rule_matches line r) firewall_rules)"
    and seen': "set seen' = set seen \<union> fr_Code ` {r \<in> set firewall_rules. rule_matches line r}" by auto
  have w: "finding_weight \<circ> rule_finding line = rule_weight"
    by (auto simp: finding_weight_def rule_weight_def rule_finding_def finding_def)
  have later: "filter (\<lambda>r. fr_Code r \<notin> set seen' \<and> hit lines r) firewall_rules =
        filter (\<lambda>r. fr_Code r \<notin> set seen \<and> \<not> rule_matches line r \<and> hit lines r) firewall_rules"
    unfolding seen' by (intro filter_cong refl) (auto dest: inject_code)
  have split: "filter_mset (\<lambda>r. fr_Code r \<notin> set seen \<and> hit (line # lines) r) R =
      filter_mset (\<lambda>r. fr_Code r \<notin> set seen \<and> rule_matches line r) R +
      filter_mset (\<lambda>r. fr_Code r \<notin> set seen \<and> \<not> rule_matches line r \<and> hit lines r) R" for R
    by (induction R) (auto simp: hit_def)
  have "mset (map finding_weight (match_logs (line # lines) seen)) =
    mset (map finding_weight fs) + mset (map finding_weight (match_logs lines seen'))"
    by (simp add: m)
  also have "\<dots> = mset (map rule_weight (filter (\<lambda>r. fr_Code r \<notin> set seen \<and> hit (line # lines) r) firewall_rules))"
    unfolding Cons.IH later using split [of "mset firewall_rules"]
    by (simp add: fs w flip: mset_filter image_mset_union)
  finally show ?case .
qed (simp add: hit_def)

definition rule_total :: "string list \<Rightarrow> int" where
  "rule_total lines = (\<Sum>r\<leftarrow>filter (hit lines) firewall_rules. fr_Score r)"

lemma total_by_weight: "total_score fs = sum_mset (image_mset snd (mset (map finding_weight fs)))"
  by (simp add: total_score_def finding_weight_def sum_mset_sum_list comp_def flip: mset_map)

lemma match_logs_total: "total_score (match_logs lines []) = rule_total lines"
  unfolding total_by_weight match_logs_weights
  by (simp add: rule_total_def rule_weight_def sum_mset_sum_list comp_def flip: mset_map)

lemma total_append [simp]: "total_score (fs @ gs) = total_score fs + total_score gs"
  by (simp add: total_score_def)

text \<open>The risk of a simulation: the scores of the rules its log hits, and of its size.\<close>

definition inspected :: "SolanaSimulationResult \<Rightarrow> string list" where
  "inspected s = sanitizeFirewallLogs (sim_Logs s)"

definition simulation_risk :: "SolanaSimulationResult \<Rightarrow> int" where
  "simulation_risk s =
     rule_total (inspected s) +
     (if (case sim_UnitsConsumed s of None \<Rightarrow> False | Some u \<Rightarrow> 1200000 \<le> u) then 15 else 0) +
     (if 10 \<le> card (set (List.map_filter invoked_program (inspected s))) then 12 else 0)"

lemma length_programs: "length (extractFirewallProgramIDs logs) = card (set (List.map_filter invoked_program logs))"
  by (simp add: extractFirewallProgramIDs_def length_remdups_card_conv)

lemma detect_total:
  "total_score (detectFirewallFindings (inspected s) (case sim_UnitsConsumed s of None \<Rightarrow> 0 | Some u \<Rightarrow> u)
     (length (extractFirewallProgramIDs (inspected s)))) = simulation_risk s"
  by (simp add: detectFirewallFindings_def match_logs_total simulation_risk_def length_programs
      total_score_def [of "[]"] split: option.split) (simp add: total_score_def finding_def)

definition clears :: "SolanaSimulationResult \<Rightarrow> bool" where
  "clears s \<longleftrightarrow> sim_Err s = JNull \<and> inspected s \<noteq> [] \<and> simulation_risk s < 75"

lemma decision_cases:
  "fst (firewallDecision n) = ''block'' \<longleftrightarrow> 75 \<le> n"
  "fst (firewallDecision n) = ''warn'' \<longleftrightarrow> 25 \<le> n \<and> n < 75"
  "fst (firewallDecision n) = ''allow'' \<longleftrightarrow> n < 25"
  "fst (firewallDecision n) \<noteq> ''withhold''"
  by (auto simp: firewallDecision_def)

lemma capped_thresholds: "75 \<le> capped_score fs \<longleftrightarrow> 75 \<le> total_score fs" "25 \<le> capped_score fs \<longleftrightarrow> 25 \<le> total_score fs"
  "capped_score fs < 25 \<longleftrightarrow> total_score fs < 25" "capped_score fs < 75 \<longleftrightarrow> total_score fs < 75"
  by (auto simp: capped_score_def)

lemma trims: "TrimSpace ''block'' = ''block''" "TrimSpace ''withhold'' = ''withhold''" "TrimSpace ''warn'' = ''warn''"
  "TrimSpace ''allow'' = ''allow''"
  by (rule TrimSpace_all_visible; simp add: visible_def)+

lemma lowers: "ToLower ''block'' = ''block''" "ToLower ''withhold'' = ''withhold''" "ToLower ''warn'' = ''warn''"
  "ToLower ''allow'' = ''allow''"
  by code_simp+

lemma decision_blocks:
  "firewallPolicyBlocks p (fst (firewallDecision n)) \<longleftrightarrow> fp_EnforcementEnabled p \<and> 75 \<le> n"
  by (auto simp: firewallPolicyBlocks_def firewallDecision_def trims lowers)

lemma assess_blocks:
  "firewallPolicyBlocks p (as_Action (assessTransactionSimulation s)) \<longleftrightarrow> fp_EnforcementEnabled p \<and> \<not> clears s"
proof (cases "sim_Err s = JNull \<and> inspected s \<noteq> []")
  case True
  then have "as_Action (assessTransactionSimulation s) = fst (firewallDecision (capped_score
      (detectFirewallFindings (inspected s) (case sim_UnitsConsumed s of None \<Rightarrow> 0 | Some u \<Rightarrow> u)
        (length (extractFirewallProgramIDs (inspected s))))))"
    by (simp add: assessTransactionSimulation_def Let_def inspected_def)
  with True show ?thesis by (auto simp: decision_blocks capped_thresholds detect_total clears_def)
next
  case False
  then show ?thesis
    by (auto simp: assessTransactionSimulation_def Let_def firewallPolicyBlocks_def trims lowers clears_def inspected_def)
qed

definition request_admitted :: "string \<Rightarrow> string \<Rightarrow> string \<Rightarrow> bool" where
  "request_admitted transaction encoding network \<longleftrightarrow>
     (TrimSpace encoding = [] \<or> ToLower (TrimSpace encoding) = ''base64'') \<and>
     (TrimSpace network = [] \<or> TrimSpace network = ''solana-mainnet'') \<and>
     (\<exists>bytes. StdEncoding_DecodeString (TrimSpace transaction) = Some bytes \<and>
        64 \<le> length bytes \<and> length bytes \<le> 4096)"

definition enforcing :: "firewall_env \<Rightarrow> bool" where
  "enforcing env \<longleftrightarrow> ToLower (TrimSpace (fe_Mode env)) = ''enforce'' \<or>
     TrimSpace (fe_Mode env) = [] \<and> EqualFold (TrimSpace (fe_AppEnv env)) ''production''"

lemma enforcing_policy: "fp_EnforcementEnabled (currentTransactionFirewallPolicy (fe_Mode env) (fe_AppEnv env)) \<longleftrightarrow> enforcing env"
  by (auto simp: currentTransactionFirewallPolicy_def enforcing_def Let_def transactionFirewallEnforceMode_def
      transactionFirewallShadowMode_def ToLower_def)

lemma validate_ok:
  "validateFirewallTransaction transaction encoding = [] \<longleftrightarrow>
   encoding = ''base64'' \<and> (\<exists>bytes. StdEncoding_DecodeString transaction = Some bytes \<and> 64 \<le> length bytes \<and> length bytes \<le> 4096)"
proof (cases "transaction = []")
  case True
  then show ?thesis by (simp add: validateFirewallTransaction_def StdEncoding_DecodeString_def base64_DecodeString_def)
next
  case False
  then show ?thesis
    by (auto simp: validateFirewallTransaction_def maxFirewallTransactionSize_def split: option.splits)
qed

text \<open>C33: The enforcing firewall lets a transaction through exactly when it is switched on, the request is a
  base64 transaction of 64 to 4096 bytes for the main network, the provider simulated it without an
  error and with a log, and the scores of the rules that the inspected log lines hit, with those for
  many compute units and many programs, add up to less than 75.\<close>

theorem firewall_release_iff:
  "(\<exists>policy assessment. transactionFirewallSimulate env simulate transaction encoding network = Reported 200 policy assessment \<and>
      fp_EnforcementEnabled policy) \<longleftrightarrow>
   transactionFirewallEnabled (fe_Enabled env) \<and> enforcing env \<and> request_admitted transaction encoding network \<and>
   (\<exists>s. simulate (TrimSpace transaction) ''base64'' = Inr s \<and> clears s)"
proof -
  let ?e = "let e = ToLower (TrimSpace encoding) in if e = [] then ''base64'' else e"
  have e: "?e = ''base64'' \<longleftrightarrow> TrimSpace encoding = [] \<or> ToLower (TrimSpace encoding) = ''base64''"
    by (auto simp: Let_def ToLower_def)
  show ?thesis
  proof (cases "transactionFirewallEnabled (fe_Enabled env) \<and> request_admitted transaction encoding network")
    case True
    then have "validateFirewallTransaction (TrimSpace transaction) ?e = []" "?e = ''base64''"
      "(let n = TrimSpace network in if n = [] then ''solana-mainnet'' else n) = ''solana-mainnet''"
      using e by (auto simp: request_admitted_def validate_ok Let_def)
    with True show ?thesis
      by (simp add: transactionFirewallSimulate_def Let_def assess_blocks enforcing_policy split: sum.split)
        (auto simp: clears_def)
  next
    case False
    then have "\<not> (\<exists>policy assessment. transactionFirewallSimulate env simulate transaction encoding network = Reported 200 policy assessment)"
      using e by (auto simp: transactionFirewallSimulate_def request_admitted_def validate_ok Let_def split: if_splits)
    with False show ?thesis by blast
  qed
qed

text \<open>C34: The danger rules read only the first 200 log lines: whatever the rest of a longer log says, the
  guard's action, index and findings stay the same, although the programs that the rest invokes are
  listed.\<close>

theorem unread_log_tail:
  assumes "200 \<le> length (sim_Logs s)"
  shows "let a = assessTransactionGuardSimulation s;
             b = assessTransactionGuardSimulation (s\<lparr>sim_Logs := sim_Logs s @ tail\<rparr>)
    in as_Action b = as_Action a \<and> as_RiskIndex b = as_RiskIndex a \<and> as_Findings b = as_Findings a \<and>
       set (as_ProgramIDs b) = set (as_ProgramIDs a) \<union> set (List.map_filter invoked_program tail)"
proof -
  have "sanitizeFirewallLogs (sim_Logs s @ tail) = sanitizeFirewallLogs (sim_Logs s)"
    using assms by (simp add: sanitizeFirewallLogs_def maxFirewallLogs_def)
  then show ?thesis
    by (simp add: assessTransactionGuardSimulation_def assessTransactionSimulation_def Let_def
        extractFirewallProgramIDs_def List.map_filter_def)
qed

definition quiet_log :: "string list" where "quiet_log = replicate 200 ''Program log: ok''"

definition quiet_simulation :: SolanaSimulationResult where
  "quiet_simulation = \<lparr>sim_Err = JNull, sim_Logs = quiet_log, sim_UnitsConsumed = None\<rparr>"

definition danger :: string where "danger = ''Program log: Instruction: SetAuthority''"

lemma sanitize_visible:
  "length lines \<le> 200 \<Longrightarrow>
   list_all (\<lambda>l. l \<noteq> [] \<and> visible (hd l) \<and> visible (last l) \<and> length l \<le> 700) lines \<Longrightarrow>
   sanitizeFirewallLogs lines = lines"
proof (induction lines)
  case (Cons l lines)
  then show ?case
    by (simp add: sanitizeFirewallLogs_def maxFirewallLogs_def TrimSpace_visible)
qed (simp add: sanitizeFirewallLogs_def)

lemma assess_guard_action:
  assumes "sanitizeFirewallLogs (sim_Logs s) = lines" "lines \<noteq> []" "sim_Err s = JNull" "sim_UnitsConsumed s = None"
    and "List.map_filter invoked_program lines = []"
  shows "as_Action (assessTransactionGuardSimulation s) = fst (firewallDecision (capped_score (match_logs lines [])))"
  using assms by (simp add: assessTransactionGuardSimulation_def assessTransactionSimulation_def Let_def
      extractFirewallProgramIDs_def detectFirewallFindings_def)

lemma quiet_lines: "match_logs (replicate n ''Program log: ok'') seen = []"
proof -
  have "list_all (\<lambda>r. \<not> rule_matches ''Program log: ok'' r) firewall_rules" by code_simp
  then have "filter (\<lambda>r. fr_Code r \<notin> set seen \<and> rule_matches ''Program log: ok'' r) firewall_rules = []" for seen
    by (auto simp: list_all_iff filter_empty_conv)
  then have "fst (match_rules ''Program log: ok'' firewall_rules seen) = []" for seen
    using match_rules_exact [OF rules_distinct, of "''Program log: ok''" seen] by (cases "match_rules ''Program log: ok'' firewall_rules seen") auto
  then show ?thesis by (induction n arbitrary: seen) (auto simp: case_prod_beta)
qed

lemma quiet_programs: "List.map_filter invoked_program (replicate n ''Program log: ok'') = []"
proof -
  have "invoked_program ''Program log: ok'' = None" by code_simp
  then show ?thesis by (induction n) (simp_all add: List.map_filter_def)
qed

lemma danger_facts:
  "invoked_program danger = None" "map finding_weight (match_logs [danger] []) = [(''authority_change'', 35)]"
  by code_simp+

theorem unread_log_tail_witness:
  "as_Action (assessTransactionGuardSimulation (quiet_simulation\<lparr>sim_Logs := quiet_log @ [danger]\<rparr>)) = ''allow'' \<and>
   as_Action (assessTransactionGuardSimulation (quiet_simulation\<lparr>sim_Logs := [danger]\<rparr>)) = ''warn''"
proof
  have quiet: "sanitizeFirewallLogs quiet_log = quiet_log"
    by (rule sanitize_visible) (simp_all add: quiet_log_def list_all_iff visible_def)
  have "as_Action (assessTransactionGuardSimulation quiet_simulation) = ''allow''"
    using assess_guard_action [of quiet_simulation quiet_log] quiet quiet_programs [of 200] quiet_lines [of 200 "[]"]
    by (simp add: quiet_simulation_def capped_score_def total_score_def firewallDecision_def flip: quiet_log_def)
       (simp add: quiet_log_def)
  then show "as_Action (assessTransactionGuardSimulation (quiet_simulation\<lparr>sim_Logs := quiet_log @ [danger]\<rparr>)) = ''allow''"
    using unread_log_tail [of quiet_simulation "[danger]"] by (simp add: Let_def quiet_simulation_def quiet_log_def)
  have "sanitizeFirewallLogs [danger] = [danger]"
    by (rule sanitize_visible) (simp_all add: danger_def visible_def)
  moreover have "total_score (match_logs [danger] []) = 35"
    by (simp only: total_by_weight danger_facts) simp
  ultimately show "as_Action (assessTransactionGuardSimulation (quiet_simulation\<lparr>sim_Logs := [danger]\<rparr>)) = ''warn''"
    using assess_guard_action [of "quiet_simulation\<lparr>sim_Logs := [danger]\<rparr>" "[danger]"]
    by (simp add: quiet_simulation_def List.map_filter_def danger_facts capped_score_def firewallDecision_def)
qed

subsection \<open>Guarded token accounts\<close>

text \<open>An account state as the policy reads it: absent where the role allows it, or a token account.\<close>

definition reads_side :: "base64_error \<Rightarrow> bool \<Rightarrow> SolanaAccountInfo option option \<Rightarrow> SolanaTokenAccountSnapshot option \<Rightarrow> bool" where
  "reads_side corrupt mayBeAbsent side s \<longleftrightarrow>
     (case side of
        None \<Rightarrow> False
      | Some None \<Rightarrow> mayBeAbsent \<and> s = None
      | Some (Some info) \<Rightarrow> s \<noteq> None \<and> SolanaTokenAccountSnapshotFromInfo corrupt (Some info) = Inr (the s))"

definition same_mint :: "transactionGuardAccount \<Rightarrow> SolanaTokenAccountSnapshot option \<Rightarrow> SolanaTokenAccountSnapshot option \<Rightarrow> bool" where
  "same_mint spec pre post \<longleftrightarrow>
     (\<exists>mint. (pre = None \<or> ts_Mint (the pre) = mint) \<and> (post = None \<or> ts_Mint (the post) = mint) \<and>
        (ga_Mint spec = [] \<or> decodeSolanaPublicKey (ga_Mint spec) = Inr mint))"

text \<open>The declared limits, over the integers; \<open>change\<close> is the balance after less the balance before.\<close>

definition within_limits :: "transactionGuardAccount \<Rightarrow> int \<Rightarrow> bool" where
  "within_limits spec change \<longleftrightarrow>
     (case raw_amount (ga_MaximumSpendRaw spec) of None \<Rightarrow> True | Some m \<Rightarrow> - change \<le> m) \<and>
     (case raw_amount (ga_MinimumReceiveRaw spec) of None \<Rightarrow> True | Some m \<Rightarrow> m = 0 \<or> m \<le> change) \<and>
     (case raw_amount (ga_QuotedReceiveRaw spec) of
        None \<Rightarrow> True
      | Some q \<Rightarrow> ga_MaxSlippageBPS spec \<le> 0 \<or>
          (q - max 0 change) * 10000 < (ga_MaxSlippageBPS spec + 1) * q \<or> q = 0)"

definition account_evidenced :: "base64_error \<Rightarrow> transactionGuardAccount \<Rightarrow> SolanaAccountInfo option option \<Rightarrow>
    SolanaAccountInfo option option \<Rightarrow> SolanaTokenAccountSnapshot option \<Rightarrow> SolanaTokenAccountSnapshot option \<Rightarrow> bool" where
  "account_evidenced corrupt spec before after pre post \<longleftrightarrow>
     reads_side corrupt (ga_Role spec = ''output'') before pre \<and> reads_side corrupt (ga_Role spec = ''input'') after post \<and>
     (pre \<noteq> None \<or> post \<noteq> None)"

definition account_passes :: "base64_error \<Rightarrow> transactionGuardAccount \<Rightarrow> SolanaAccountInfo option option \<Rightarrow>
    SolanaAccountInfo option option \<Rightarrow> bool" where
  "account_passes corrupt spec before after \<longleftrightarrow>
     (\<exists>pre post. account_evidenced corrupt spec before after pre post \<and> same_mint spec pre post \<and>
        within_limits spec (side_amount post - side_amount pre))"

lemma raw_amount_nonneg: "raw_amount r = Some m \<Longrightarrow> 0 \<le> m"
  by (auto simp: raw_amount_def optionalRawAmount_def Let_def split: sum.splits option.splits if_splits)

lemma below_div: "0 < (q :: int) \<Longrightarrow> l < a div q \<longleftrightarrow> (l + 1) * q \<le> a"
proof
  assume q: "0 < q" and l: "l < a div q"
  then have "(l + 1) * q \<le> a div q * q" by (intro mult_right_mono) simp_all
  also have "\<dots> \<le> a" using q by (simp add: minus_mod_eq_div_mult [symmetric])
  finally show "(l + 1) * q \<le> a" .
next
  assume q: "0 < q" and "(l + 1) * q \<le> a"
  then have "(l + 1) * q div q \<le> a div q" by (intro zdiv_mono1)
  with q show "l < a div q" by simp
qed

lemma slippage_limit:
  assumes "0 < q" "0 \<le> received" "0 < limit"
  shows "limit < slippage_bps q received \<longleftrightarrow> (limit + 1) * q \<le> (q - received) * 10000"
proof (cases "received < q")
  case True
  have "(q - received) * 10000 div q \<le> 10000 * q div q" using assms by (intro zdiv_mono1) simp_all
  then have "(q - received) * 10000 div q \<le> 10000" using assms(1) by simp
  then have "slippage_bps q received = (q - received) * 10000 div q"
    using True by (simp add: slippage_bps_def Let_def)
  then show ?thesis using assms(1) by (simp add: below_div)
next
  case False
  have "(q - received) * 10000 \<le> 0" "0 < (limit + 1) * q" using False assms by simp_all
  then have "\<not> (limit + 1) * q \<le> (q - received) * 10000" by linarith
  with False assms(3) show ?thesis by (simp add: slippage_bps_def)
qed

lemma limits_met:
  "limit_findings spec (if d < 0 then - d else 0) (if d < 0 then 0 else d) = [] \<longleftrightarrow> within_limits spec d"
proof -
  have r: "(if d < 0 then 0 else d) = max 0 d" by simp
  have slip: "0 < q \<and> 0 < ga_MaxSlippageBPS spec \<and> ga_MaxSlippageBPS spec < slippage_bps q (max 0 d) \<longleftrightarrow>
    \<not> (ga_MaxSlippageBPS spec \<le> 0 \<or> (q - max 0 d) * 10000 < (ga_MaxSlippageBPS spec + 1) * q \<or> q = 0)"
    if "0 \<le> q" for q
    using that slippage_limit [of q "max 0 d" "ga_MaxSlippageBPS spec"] by auto
  have "limit_findings spec (if d < 0 then - d else 0) (max 0 d) = [] \<longleftrightarrow> within_limits spec d"
    using raw_amount_nonneg [of "ga_MaximumSpendRaw spec"] raw_amount_nonneg [of "ga_MinimumReceiveRaw spec"]
      raw_amount_nonneg [of "ga_QuotedReceiveRaw spec"] slip
    unfolding limit_findings_def within_limits_def
    by (auto split: option.splits)
  then show ?thesis unfolding r .
qed

lemma token_side_reads:
  "side = Some info \<Longrightarrow> guardTokenAccountSide corrupt info absent = Inr s \<longleftrightarrow> reads_side corrupt absent side s"
  by (auto simp: guardTokenAccountSide_def reads_side_def split: option.splits sum.splits)

lemma side_token_reads:
  "reads_side corrupt absent side s \<longleftrightarrow> (\<exists>info. side = Some info \<and> guardTokenAccountSide corrupt info absent = Inr s)"
  by (cases side) (auto simp: token_side_reads, simp add: reads_side_def)

lemma reads_side_unique: "reads_side corrupt absent side s \<Longrightarrow> reads_side corrupt absent side t \<Longrightarrow> s = t"
  by (auto simp: side_token_reads)

lemma same_mint_iff:
  "same_mint spec pre post \<longleftrightarrow>
   \<not> (pre \<noteq> None \<and> post \<noteq> None \<and> ts_Mint (the pre) \<noteq> ts_Mint (the post)) \<and>
   \<not> (ga_Mint spec \<noteq> [] \<and>
      (case decodeSolanaPublicKey (ga_Mint spec) of
         Inl _ \<Rightarrow> True
       | Inr mint \<Rightarrow> pre \<noteq> None \<and> ts_Mint (the pre) \<noteq> mint \<or> post \<noteq> None \<and> ts_Mint (the post) \<noteq> mint))"
  unfolding same_mint_def by (cases pre; cases post) (auto split: sum.splits)

lemma account_amounts_facts:
  "case account_amounts spec verified pre post of (delta, complete, fs) \<Rightarrow>
     complete \<and> ad_Address delta = ga_Address spec \<and> ad_PolicyStatus delta = (if fs = [] then ''pass'' else ''fail'') \<and>
     (fs = [] \<longleftrightarrow> within_limits spec (side_amount post - side_amount pre))"
proof -
  let ?d = "side_amount post - side_amount pre"
  define fs where "fs = limit_findings spec (if ?d < 0 then - ?d else 0) (if ?d < 0 then 0 else ?d)"
  have "fs = [] \<longleftrightarrow> within_limits spec ?d" unfolding fs_def by (rule limits_met)
  then show ?thesis
    unfolding account_amounts_def Let_def fs_def [symmetric] prod.case by (simp add: new_delta_def)
qed

lemma account_outcome_exact:
  assumes "evaluateGuardAccount corrupt spec before after = (delta, complete, fs)"
  shows "ad_Address delta = ga_Address spec" "complete \<longleftrightarrow> (\<exists>pre post. account_evidenced corrupt spec before after pre post)"
    "fs = [] \<longleftrightarrow> account_passes corrupt spec before after"
    "ad_PolicyStatus delta = ''pass'' \<longleftrightarrow> account_passes corrupt spec before after"
    "ad_PolicyStatus delta = ''withhold'' \<longleftrightarrow> \<not> complete"
proof -
  have "ad_Address delta = ga_Address spec \<and> (complete \<longleftrightarrow> (\<exists>pre post. account_evidenced corrupt spec before after pre post)) \<and>
    (fs = [] \<longleftrightarrow> account_passes corrupt spec before after) \<and>
    (ad_PolicyStatus delta = ''pass'' \<longleftrightarrow> account_passes corrupt spec before after) \<and>
    (ad_PolicyStatus delta = ''withhold'' \<longleftrightarrow> \<not> complete)"
  proof (cases "\<exists>pre post. account_evidenced corrupt spec before after pre post")
    case False
    then have none: "\<not> account_passes corrupt spec before after" by (auto simp: account_passes_def)
    from False have "(delta, complete, fs) = appendGuardAccountWithhold (new_delta spec) ''account_missing'' ''guard_account_missing''
               ''Guarded account evidence is unavailable'' \<or>
      (delta, complete, fs) = appendGuardAccountWithhold (new_delta spec) ''account_decode_failed'' ''guard_account_decode_failed''
                      ''Guarded token account could not be decoded''"
      unfolding assms [symmetric] account_evidenced_def side_token_reads evaluateGuardAccount_def Let_def
      by (cases before; cases after) (auto split: sum.splits)
    with False none show ?thesis by (auto simp: appendGuardAccountWithhold_def new_delta_def)
  next
    case True
    then obtain pre post b a where ev: "before = Some b" "after = Some a" "guardTokenAccountSide corrupt b (ga_Role spec = ''output'') = Inr pre"
      "guardTokenAccountSide corrupt a (ga_Role spec = ''input'') = Inr post" "\<not> (pre = None \<and> post = None)"
      by (auto simp: account_evidenced_def side_token_reads)
    then have ae: "account_evidenced corrupt spec before after pre post" by (auto simp: account_evidenced_def side_token_reads)
    have passes: "account_passes corrupt spec before after \<longleftrightarrow>
        same_mint spec pre post \<and> within_limits spec (side_amount post - side_amount pre)"
      using ae reads_side_unique unfolding account_passes_def account_evidenced_def by metis
    show ?thesis
    proof (cases "same_mint spec pre post")
      case False
      with assms ev have "(delta, complete, fs) = account_failed (new_delta spec) ''account_mint_changed'' ''guard_account_mint_changed''
           ''Guarded token account mint changed'' \<or>
         (delta, complete, fs) = account_failed (new_delta spec) ''mint_mismatch'' ''guard_account_mint_mismatch''
           ''Guarded token account mint does not match the declared asset''"
        unfolding same_mint_iff by (simp add: evaluateGuardAccount_def Let_def split: if_splits)
      with True False passes show ?thesis by (auto simp: account_failed_def new_delta_def)
    next
      case same: True
      note c = same [unfolded same_mint_iff]
      have "(delta, complete, fs) = account_amounts spec (ga_Mint spec \<noteq> []) pre post"
        unfolding assms [symmetric] evaluateGuardAccount_def Let_def ev(1-4)
        by (simp only: prod.case option.case sum.case ev conjunct1 [OF c] conjunct2 [OF c] if_False)
      with account_amounts_facts [of spec post pre "ga_Mint spec \<noteq> []"] True same passes show ?thesis by (auto split: if_splits)
    qed
  qed
  then show "ad_Address delta = ga_Address spec" "complete \<longleftrightarrow> (\<exists>pre post. account_evidenced corrupt spec before after pre post)"
    "fs = [] \<longleftrightarrow> account_passes corrupt spec before after"
    "ad_PolicyStatus delta = ''pass'' \<longleftrightarrow> account_passes corrupt spec before after"
    "ad_PolicyStatus delta = ''withhold'' \<longleftrightarrow> \<not> complete" by blast+
qed

text \<open>C35: The guard reports a guarded token account as passing exactly when its states before and after the
  simulation are evidenced (absent only where its role allows), all carry one mint, the declared one
  if there is one, and the change of its balance, over the integers, stays within the declared
  spend, receive and slippage limits; findings are raised exactly when some account does not pass,
  and the policy is incomplete exactly when the evidence for some account is missing.\<close>

theorem guarded_accounts_exact:
  "let (policy, findings) = evaluateTransactionGuardAccounts corrupt specs preOrder postOrder pre post;
       before = (\<lambda>spec. account_at preOrder pre (ga_Address spec));
       after = (\<lambda>spec. account_at postOrder post (ga_Address spec))
   in map ad_Address (ip_Accounts policy) = map ga_Address specs \<and>
      map (\<lambda>a. ad_PolicyStatus a = ''pass'') (ip_Accounts policy) =
        map (\<lambda>spec. account_passes corrupt spec (before spec) (after spec)) specs \<and>
      (findings = [] \<longleftrightarrow> list_all (\<lambda>spec. account_passes corrupt spec (before spec) (after spec)) specs) \<and>
      (ip_Complete policy \<longleftrightarrow>
         list_all (\<lambda>spec. \<exists>s t. account_evidenced corrupt spec (before spec) (after spec) s t) specs)"
proof -
  define run where "run spec = evaluateGuardAccount corrupt spec (account_at preOrder pre (ga_Address spec))
      (account_at postOrder post (ga_Address spec))" for spec
  have eq: "evaluateGuardAccount corrupt spec (account_at preOrder pre (ga_Address spec))
      (account_at postOrder post (ga_Address spec)) = (fst (run spec), fst (snd (run spec)), snd (snd (run spec)))" for spec
    by (simp add: run_def)
  note o = account_outcome_exact [OF eq]
  show ?thesis
    by (simp add: evaluateTransactionGuardAccounts_def Let_def flip: run_def)
       (simp add: o comp_def list_all_iff case_prod_beta)
qed

subsection \<open>Programs\<close>

text \<open>The well-formed entries of a list of program ids.\<close>

definition well_formed_ids :: "string list \<Rightarrow> string set" where
  "well_formed_ids ps = {p \<in> TrimSpace ` set ps. looksLikeGuardPubkey p}"

lemma set_normalize_from: "set (normalize_from out ps) = set out \<union> well_formed_ids ps"
  by (induction ps arbitrary: out) (auto simp: well_formed_ids_def Let_def)

lemma set_normalize [simp]: "set (normalizeGuardProgramList ps) = well_formed_ids ps"
  by (simp add: normalizeGuardProgramList_def set_normalize_from)

lemma normalize_empty: "normalizeGuardProgramList ps = [] \<longleftrightarrow> well_formed_ids ps = {}"
  using set_normalize [of ps] by (metis set_empty)

lemma listed_empty [simp]: "listed code severity title score ps = [] \<longleftrightarrow> ps = []"
  by (simp add: listed_def)

text \<open>C36: The program policy is complete exactly when no invoked program is on the request's or the
  operator's blocklist, every invoked one is built in or expected where something is expected, and
  every required one is invoked; a finding is raised exactly when it is not. Entries that do not look
  like addresses do not count: a list of expected programs without a single well-formed entry
  restricts nothing.\<close>

theorem program_policy_exact:
  "let (policy, findings) = evaluateTransactionGuardPrograms blockedEnv invoked expected required blocked
   in (pp_Complete policy \<longleftrightarrow>
        well_formed_ids invoked \<inter> (well_formed_ids blocked \<union> well_formed_ids (splitGuardPrograms blockedEnv)) = {} \<and>
        (well_formed_ids expected = {} \<or>
         well_formed_ids invoked \<subseteq> set guardBuiltinPrograms \<union> well_formed_ids expected) \<and>
        well_formed_ids required \<subseteq> well_formed_ids invoked) \<and>
      (findings = [] \<longleftrightarrow> pp_Complete policy)"
proof -
  have app: "well_formed_ids (xs @ ys) = well_formed_ids xs \<union> well_formed_ids ys" for xs ys
    by (auto simp: well_formed_ids_def)
  show ?thesis
    unfolding evaluateTransactionGuardPrograms_def Let_def
    by (simp add: filter_empty_conv normalize_empty app del: set_append) (simp, blast)
qed

subsection \<open>The decision\<close>

text \<open>C37: The guard's decision is exact and fails closed: it blocks exactly from a total score of 75, whatever
  evidence is missing; below that it allows or warns exactly when the provider answered, the
  simulation was not withheld and both policies are complete, and withholds otherwise; the reported
  index is the total, at most 100.\<close>

theorem evidence_first_exact:
  "let b = finalizeEvidenceFirstGuardAssessment a program intent;
       total = total_score (as_Findings a);
       evidenced = (\<not> guardProviderUnavailable a \<and> as_Action a \<noteq> ''withhold'' \<and> as_RiskLevel a \<noteq> ''unknown'' \<and>
                    pp_Complete program \<and> ip_Complete intent)
   in as_RiskIndex b = min 100 total \<and>
      (as_Action b = ''block'' \<longleftrightarrow> 75 \<le> total) \<and>
      (as_Action b = ''withhold'' \<longleftrightarrow> total < 75 \<and> \<not> evidenced) \<and>
      (as_Action b = ''warn'' \<longleftrightarrow> evidenced \<and> 25 \<le> total \<and> total < 75) \<and>
      (as_Action b = ''allow'' \<longleftrightarrow> evidenced \<and> total < 25)"
proof -
  define total where "total = total_score (as_Findings a)"
  have c: "capped_score (as_Findings a) = min 100 total" by (simp add: capped_score_def total_def)
  show ?thesis
    unfolding finalizeEvidenceFirstGuardAssessment_def decide_def Let_def c total_def [symmetric]
    by (auto simp: firewallDecision_def)
qed

end
