(* ===== verification/Guard_Authority_Sound.thy ===== *)
theory Guard_Authority_Sound
  imports Guard_Authority Guard_Sound Solana_Tx_Sound
begin

text \<open>
  What the authority surface shows. Findings with one code are merged into the first of them, which
  lets a small delegation hide an unlimited one.
\<close>

lemma insert_event_set [simp]: "set (insert_event e es) = insert e (set es)"
  by (induction es) auto

lemma sorted_events_set [simp]: "set (foldr insert_event es []) = set es"
  by (induction es) auto

lemma show_nat_inject [simp]: "show_nat m = show_nat n \<longleftrightarrow> m = n"
  by (metis SetString_show_nat nat_int option.inject)

subsection \<open>Delegations\<close>

definition approves :: "transactionGuardAuthorityInstruction \<Rightarrow> string \<Rightarrow> string \<Rightarrow> nat \<Rightarrow> bool" where
  "approves i account delegate amount \<longleftrightarrow>
     ai_Data i \<noteq> [] \<and> byte_of (hd (ai_Data i)) = 4 \<and> 9 \<le> length (ai_Data i) \<and> uint_le (slice_of 1 9 (ai_Data i)) = amount \<and>
     (\<exists>owner more. ai_Accounts i = account # delegate # owner # more)"

text \<open>After the simulation the token account has the delegate, with an allowance.\<close>

definition delegated_finally :: "base64_error \<Rightarrow> transactionGuardAuthoritySnapshots \<Rightarrow> string \<Rightarrow> string \<Rightarrow> bool" where
  "delegated_finally corrupt snapshots account delegate \<longleftrightarrow>
     TrimSpace account \<noteq> [] \<and>
     (case guardV3AuthorityAccountInfo (TrimSpace account) (sn_PostOrder snapshots) (sn_Post snapshots) of
        None \<Rightarrow> False
      | Some info \<Rightarrow>
          (case SolanaTokenAuthoritySnapshotFromInfo corrupt (Some info) of
             Inl _ \<Rightarrow> False
           | Inr s \<Rightarrow> tas_HasDelegate s \<and> 0 < tas_DelegatedAmount s \<and> tas_Delegate s = guardV3AddressArray delegate))"

lemma approve_event:
  assumes "approves i account delegate amount"
  obtains e where "decodeTransactionGuardV3AuthorityEvent i = (e, True, None)" "ev_Kind e = ''approve''"
    "ev_Account e = account" "ev_Delegate e = delegate" "ev_EffectivelyUnlimited e \<longleftrightarrow> amount = 2 ^ 64 - 1"
proof -
  define e where "e = fst (decodeTransactionGuardV3AuthorityEvent i)"
  from assms have "decodeTransactionGuardV3AuthorityEvent i = (e, True, None)" "ev_Kind e = ''approve''"
    "ev_Account e = account" "ev_Delegate e = delegate" "ev_EffectivelyUnlimited e \<longleftrightarrow> amount = 2 ^ 64 - 1"
    unfolding e_def by (auto simp: approves_def decodeTransactionGuardV3AuthorityEvent_def decode_approve_def decoded_event_def
        max_uint64_text_def Let_def)
  then show ?thesis by (rule that)
qed

lemma approve_observed:
  assumes "approves i account delegate amount" "delegated_finally corrupt snapshots account delegate"
  obtains e where "surface_instruction corrupt required snapshots i = Observed e" "ev_Kind e = ''approve''"
    "ev_Account e = account" "ev_EffectivelyUnlimited e \<longleftrightarrow> amount = 2 ^ 64 - 1" "ev_PostStateAvailable e"
    "ev_ActiveAfterSimulation e = Some True"
proof -
  obtain e0 where e0: "decodeTransactionGuardV3AuthorityEvent i = (e0, True, None)" "ev_Kind e0 = ''approve''"
    "ev_Account e0 = account" "ev_Delegate e0 = delegate" "ev_EffectivelyUnlimited e0 \<longleftrightarrow> amount = 2 ^ 64 - 1"
    using assms(1) by (rule approve_event)
  from assms(2) obtain info s where
    s: "TrimSpace account \<noteq> []" "guardV3AuthorityAccountInfo (TrimSpace account) (sn_PostOrder snapshots) (sn_Post snapshots) = Some info"
      "SolanaTokenAuthoritySnapshotFromInfo corrupt (Some info) = Inr s"
      "tas_HasDelegate s" "0 < tas_DelegatedAmount s" "tas_Delegate s = guardV3AddressArray delegate"
    by (auto simp: delegated_finally_def split: option.splits sum.splits)
  have "enrichTransactionGuardV3AuthorityPostState corrupt snapshots e0 = enrich_delegation e0 s"
    using e0 s by (simp add: enrichTransactionGuardV3AuthorityPostState_def delegation_kind_def)
  then show ?thesis
    using e0 s by (intro that [of "enrich_delegation e0 s"])
      (simp_all add: surface_instruction_def enrich_delegation_def Let_def)
qed

lemma approve_finding:
  assumes "ev_Kind e = ''approve''" "ev_ActiveAfterSimulation e = Some True"
  shows "transactionGuardV3AuthorityFinding e = Some (finding (''authority_delegate_approval_'' @ guardV3CompactAddressHash (ev_Account e))
     (if ev_EffectivelyUnlimited e then ''high'' else ''medium'')
     (if ev_EffectivelyUnlimited e then ''Maximum-size token delegation'' else ''Token spending delegation remains after signing'')
     (compactGuardV3Evidence (guardV3AuthorityEvidence e)) (if ev_EffectivelyUnlimited e then 35 else 18))"
  using assms by (simp add: transactionGuardV3AuthorityFinding_def Let_def)

lemma approve_complete: "ev_Kind e = ''approve'' \<Longrightarrow> ev_PostStateAvailable e \<Longrightarrow> \<not> unevidenced e"
  by (simp add: unevidenced_def)

definition approval_code :: "string \<Rightarrow> string" where
  "approval_code account = ''authority_delegate_approval_'' @ guardV3CompactAddressHash account"

lemma approval_key: "ff_Code f = approval_code account \<Longrightarrow> finding_key f = approval_code account"
proof -
  assume f: "ff_Code f = approval_code account"
  have "list_all visible (approval_code account)"
    using hex_encode_visible [of "take 6 (Sum256 (TrimSpace account))"]
    by (simp add: approval_code_def guardV3CompactAddressHash_def visible_def list_all_iff)
  then have "TrimSpace (approval_code account) = approval_code account" by (rule TrimSpace_all_visible)
  then show ?thesis by (simp add: finding_key_def f Let_def) (simp add: approval_code_def)
qed

lemma approval_merged:
  assumes "ff_Code f = approval_code account" "ff_Code g = approval_code account"
  shows "uniqueGuardV3Findings [f, g] = [f]" "uniqueGuardV3Findings [g] = [g]"
  using approval_key [OF assms(1)] approval_key [OF assms(2)] by (simp_all add: uniqueGuardV3Findings_def)

lemma approve_reported:
  assumes "ev_Kind e = ''approve''" "ev_ActiveAfterSimulation e = Some True" "ev_Account e = account"
  obtains f where "transactionGuardV3AuthorityFinding e = Some f" "ff_Code f = approval_code account"
    "ff_Score f = (if ev_EffectivelyUnlimited e then 35 else 18)"
    "ff_Severity f = (if ev_EffectivelyUnlimited e then ''high'' else ''medium'')"
  using approve_finding [OF assms(1,2)] assms(3) by (intro that) (auto simp: finding_def approval_code_def)

text \<open>C38: A delegation of the largest amount can be hidden behind a small one. When a transaction approves a
  delegate of a token account twice, first for less than the maximum and then for all of it, the
  surface is complete and records an unlimited delegation that is active after the simulation, yet
  the only finding is the one for the small delegation, with score 18; the unlimited approval alone
  is scored 35.\<close>

theorem unlimited_approval_hidden:
  assumes "approves small account delegate amount" and "amount < 2 ^ 64 - 1"
    and "approves unlimited account delegate (2 ^ 64 - 1)" and "approves alone account delegate (2 ^ 64 - 1)"
    and "delegated_finally corrupt snapshots account delegate"
    and "dt_Available both" and "dt_Complete both" and "dt_Available one"
    and "transactionGuardV3AuthorityInstructions both groups = ([small, unlimited], 0)"
    and "transactionGuardV3AuthorityInstructions one groups = ([alone], 0)"
  shows "(let (surface, findings) = analyzeTransactionGuardV3AuthoritySurface corrupt env both groups snapshots in
      au_Complete surface \<and>
      (\<exists>e \<in> set (au_Events surface). ev_EffectivelyUnlimited e \<and> ev_ActiveAfterSimulation e = Some True) \<and>
      map ff_Severity findings = [''medium''] \<and> total_score findings = 18) \<and>
    total_score (snd (analyzeTransactionGuardV3AuthoritySurface corrupt env one groups snapshots)) = 35"
proof -
  let ?req = "authority_required env"
  obtain e where e: "surface_instruction corrupt ?req snapshots small = Observed e" "ev_Kind e = ''approve''"
    "ev_Account e = account" "ev_EffectivelyUnlimited e \<longleftrightarrow> amount = 2 ^ 64 - 1" "ev_PostStateAvailable e"
    "ev_ActiveAfterSimulation e = Some True"
    using assms(1,5) by (rule approve_observed)
  obtain f where f: "surface_instruction corrupt ?req snapshots unlimited = Observed f" "ev_Kind f = ''approve''"
    "ev_Account f = account" "ev_EffectivelyUnlimited f \<longleftrightarrow> (2 :: nat) ^ 64 - 1 = 2 ^ 64 - 1" "ev_PostStateAvailable f"
    "ev_ActiveAfterSimulation f = Some True"
    using assms(3,5) by (rule approve_observed)
  obtain k where k: "surface_instruction corrupt ?req snapshots alone = Observed k" "ev_Kind k = ''approve''"
    "ev_Account k = account" "ev_EffectivelyUnlimited k \<longleftrightarrow> (2 :: nat) ^ 64 - 1 = 2 ^ 64 - 1" "ev_PostStateAvailable k"
    "ev_ActiveAfterSimulation k = Some True"
    using assms(4,5) by (rule approve_observed)
  have size: "\<not> ev_EffectivelyUnlimited e" "ev_EffectivelyUnlimited f" "ev_EffectivelyUnlimited k" using e(4) f(4) k(4) assms(2) by simp_all
  obtain g where g: "transactionGuardV3AuthorityFinding e = Some g" "ff_Code g = approval_code account"
    "ff_Score g = 18" "ff_Severity g = ''medium''"
    using approve_reported [OF e(2,6,3)] size by auto
  obtain h where h: "transactionGuardV3AuthorityFinding f = Some h" "ff_Code h = approval_code account"
    using approve_reported [OF f(2,6,3)] by auto
  obtain l where l: "transactionGuardV3AuthorityFinding k = Some l" "ff_Code l = approval_code account" "ff_Score l = 35"
    using approve_reported [OF k(2,6,3)] size by auto
  have complete: "\<not> unevidenced e" "\<not> unevidenced f" using approve_complete e(2,5) f(2,5) by blast+
  have both: "analyzeTransactionGuardV3AuthoritySurface corrupt env both groups snapshots = (surface, findings) \<Longrightarrow>
      au_Complete surface \<and> set (au_Events surface) = {e, f} \<and> findings = [g]" for surface findings
    using assms(6,7,9) e(1) f(1) g h complete approval_merged(1) [OF g(2) h(2)]
    by (auto simp: analyzeTransactionGuardV3AuthoritySurface_def Let_def new_surface_def step_events_def List.map_filter_def
        step_finding_def step_complete_def simp del: insert_event.simps foldr.simps)
  have one: "snd (analyzeTransactionGuardV3AuthoritySurface corrupt env one groups snapshots) = [l]"
    using assms(8,10) k(1) l approval_merged(2) [OF g(2) l(2)]
    by (simp add: analyzeTransactionGuardV3AuthoritySurface_def Let_def new_surface_def List.map_filter_def step_finding_def)
  show ?thesis
    using both g(3,4) l(3) size(2) f(6)
    by (cases "analyzeTransactionGuardV3AuthoritySurface corrupt env both groups snapshots")
       (simp add: one total_score_def)
qed

subsection \<open>A transaction with two approvals\<close>

lemma set_replicate_subset: "set (replicate n x) \<subseteq> {x}"
  by (simp add: set_replicate_conv_if)

lemma base58_digits_alphabet: "set (base58_digits n) \<subseteq> set guardV3Base58Alphabet"
proof (induction n rule: base58_digits.induct)
  case (1 n)
  have "base58_char (n mod 58) \<in> set guardV3Base58Alphabet"
    by (simp add: base58_char_def)
  with 1 show ?case by (cases "n = 0") (simp_all add: base58_digits.simps [of n])
qed

lemma looks_like_encode: "length k = 32 \<Longrightarrow> looksLikeGuardPubkey (guardV3Base58Encode k)"
proof -
  assume k: "length k = 32"
  have "base58_char 0 \<in> set guardV3Base58Alphabet"
    unfolding base58_char_def by (rule nth_mem) simp
  then have "set (guardV3Base58Encode k) \<subseteq> set guardV3Base58Alphabet"
    unfolding encode_form set_append set_rev
    using base58_digits_alphabet [of "nat (bytes_be k)"] set_replicate_subset
    by (metis Un_least base58_char_0 empty_subsetI insert_subset subset_trans)
  then show ?thesis
    using encode_length [OF k] by (simp add: looksLikeGuardPubkey_def list_all_iff subset_iff)
qed

definition approval_account :: string where "approval_account = guardV3Base58Encode (sample_key 7)"
definition approval_delegate :: string where "approval_delegate = guardV3Base58Encode (sample_key 8)"
definition approval_owner :: string where "approval_owner = guardV3Base58Encode (sample_key 9)"

definition approve_data :: "bool \<Rightarrow> string" where
  "approve_data unlimited = put_bytes (if unlimited then 4 # replicate 8 255 else 4 # 1 # replicate 7 0)"

definition approve_instruction :: "nat \<Rightarrow> bool \<Rightarrow> transactionGuardAuthorityInstruction" where
  "approve_instruction index unlimited =
     \<lparr>ai_Source = ''outer'', ai_Index = index, ai_InnerSequence = 0, ai_ParentProgramID = [],
      ai_ProgramID = guardV3SPLTokenProgramID, ai_Accounts = [approval_account, approval_delegate, approval_owner],
      ai_Data = approve_data unlimited\<rparr>"

definition static_account :: "nat \<times> string \<Rightarrow> transactionGuardDecodedAccount" where
  "static_account = (\<lambda>(i, a). \<lparr>da_Index = i, da_Address = a, da_Signer = False, da_Writable = True, da_Source = ''static_message''\<rparr>)"

definition approvals :: "bool list \<Rightarrow> dtx" where
  "approvals sizes = newDecoded\<lparr>dt_Available := True, dt_Complete := True,
     dt_StaticAccounts := map static_account
       [(0, approval_account), (1, approval_delegate), (2, approval_owner), (3, guardV3SPLTokenProgramID)],
     dt_parsedInstructions :=
       map (\<lambda>u. \<lparr>gp_ProgramIndex = 3, gp_AccountIndexes = [0, 1, 2], gp_Data = approve_data u\<rparr>) sizes\<rparr>"

definition delegated_data :: string where
  "delegated_data = replicate 72 zero_byte @ put_bytes [1, 0, 0, 0] @ sample_key 8 @ put_bytes [1] @ replicate 12 zero_byte @
     put_bytes (replicate 8 255) @ replicate 36 zero_byte"

definition delegated_info :: SolanaAccountInfo where
  "delegated_info = \<lparr>sa_Data = JArr [JStr (StdEncoding_EncodeToString delegated_data), JStr ''base64''], sa_Executable = False,
     sa_Lamports = 1, sa_Owner = guardV3SPLTokenProgramID, sa_RentEpoch = JNull, sa_Space = 165\<rparr>"

definition delegated_snapshots :: transactionGuardAuthoritySnapshots where
  "delegated_snapshots = \<lparr>sn_PreOrder = [approval_account], sn_PostOrder = [approval_account], sn_Pre = [None],
     sn_Post = [Some delegated_info]\<rparr>"

lemma approval_addresses:
  "transactionGuardV3CombinedAddresses (approvals sizes) =
   [approval_account, approval_delegate, approval_owner, guardV3SPLTokenProgramID]"
  by (simp add: transactionGuardV3CombinedAddresses_def approvals_def static_account_def newDecoded_def Let_def
      numeral_eq_Suc Max_insert)

lemma approve_data_opcode: "authority_data (approve_data u)" "byte_of (hd (approve_data u)) = 4"
  by (simp_all add: authority_data_def approve_data_def put_bytes_def byte_of_char_of guardV3AuthorityOpcode_def)

lemma approvals_instructions:
  "transactionGuardV3AuthorityInstructions (approvals [False, True]) [] = ([approve_instruction 0 False, approve_instruction 1 True], 0)"
  "transactionGuardV3AuthorityInstructions (approvals [True]) [] = ([approve_instruction 0 True], 0)"
proof -
  have keys: "looksLikeGuardPubkey approval_account" "looksLikeGuardPubkey approval_delegate" "looksLikeGuardPubkey approval_owner"
    by (simp_all add: approval_account_def approval_delegate_def approval_owner_def looks_like_encode sample_key_def)
  show "transactionGuardV3AuthorityInstructions (approvals [False, True]) [] = ([approve_instruction 0 False, approve_instruction 1 True], 0)"
    "transactionGuardV3AuthorityInstructions (approvals [True]) [] = ([approve_instruction 0 True], 0)"
    unfolding transactionGuardV3AuthorityInstructions_def Let_def approval_addresses
    using keys by (simp_all add: approvals_def outer_instruction_def guardV3ResolveAuthorityAccounts_def approve_data_opcode
        token_program_def approve_instruction_def)
qed

lemma uint_le_Cons [simp]: "uint_le [] = 0" "uint_le (c # s) = byte_of c + 256 * uint_le s"
proof -
  have "nat (256 * b + int k) = k + 256 * nat b" if "0 \<le> b" for b k using that by simp
  moreover have "uint_le (c # s) = nat (256 * bytes_be (rev s) + int (of_char c))"
    using of_nat_of_char [of c, where 'a = int] by (simp add: uint_le_def)
  ultimately show "uint_le (c # s) = byte_of c + 256 * uint_le s"
    using bytes_be_bounds [of "rev s"] by (metis byte_of_def uint_le_def)
qed (simp add: uint_le_def)

lemma uint_le_zeros [simp]: "uint_le (replicate n zero_byte) = 0"
  by (induction n) (simp_all add: byte_of_def)

lemma replicate_bytes: "replicate 8 x = [x, x, x, x, x, x, x, x]" "replicate 7 x = [x, x, x, x, x, x, x]"
  by (simp_all add: eval_nat_numeral)

lemma approvals_approve:
  "approves (approve_instruction i u) approval_account approval_delegate (if u then 2 ^ 64 - 1 else 1)"
proof -
  have "uint_le (slice_of 1 9 (approve_data False)) = 1" "uint_le (slice_of 1 9 (approve_data True)) = 2 ^ 64 - 1"
    by (simp_all add: approve_data_def put_bytes_def slice_of_def replicate_bytes byte_of_char_of)
  then show ?thesis
    by (simp add: approves_def approve_instruction_def approve_data_opcode) (simp add: approve_data_def put_bytes_def)
qed

lemma account_data_bytes:
  "data \<noteq> [] \<Longrightarrow> solanaAccountDataBytes corrupt (JArr [JStr (StdEncoding_EncodeToString data), x]) = Inr data"
  using encode_text_empty by (auto simp: solanaAccountDataBytes_def account_bytes_def encoded_data_def Let_def)

lemma delegated_fields:
  "length delegated_data = 165" "slice_of 72 108 delegated_data = put_bytes [1, 0, 0, 0] @ sample_key 8"
  "slice_of 129 165 delegated_data = replicate 36 zero_byte" "slice_of 121 129 delegated_data = put_bytes (replicate 8 255)"
  by (simp_all add: delegated_data_def slice_of_def put_bytes_def sample_key_def)

lemma delegated_options:
  "unpackGuardCOptionPubkey (put_bytes [1, 0, 0, 0] @ sample_key 8) = Inr (Some (sample_key 8))"
  "unpackGuardCOptionPubkey (replicate 36 zero_byte) = Inr None"
  "uint_le (put_bytes (replicate 8 255)) = 2 ^ 64 - 1"
  by (simp_all add: unpackGuardCOptionPubkey_def replicate_bytes put_bytes_def sample_key_def slice_of_def byte_of_char_of)

lemma token_program_owner: "isGuardTokenProgram guardV3SPLTokenProgramID"
  using TrimSpace_all_visible [of guardV3SPLTokenProgramID]
  by (simp add: isGuardTokenProgram_def) (simp add: guardV3SPLTokenProgramID_def visible_def)

lemma approvals_final: "delegated_finally corrupt delegated_snapshots approval_account approval_delegate"
proof -
  have account: "TrimSpace approval_account = approval_account" "approval_account \<noteq> []"
    using encode_length [of "sample_key 7"] by (auto simp: approval_account_def sample_key_def)
  have "delegated_data \<noteq> []" using delegated_fields(1) by auto
  then have bytes: "solanaAccountDataBytes corrupt (sa_Data delegated_info) = Inr delegated_data"
    by (simp add: delegated_info_def account_data_bytes)
  have owner: "isGuardTokenProgram (sa_Owner delegated_info)"
    by (simp add: delegated_info_def token_program_owner)
  have data: "token_account_bytes corrupt unavailable short minimumTokenAccountSize (Some delegated_info) = Inr delegated_data"
    for unavailable short
    by (simp add: token_account_bytes_def owner bytes delegated_fields minimumTokenAccountSize_def)
  obtain s where "SolanaTokenAuthoritySnapshotFromInfo corrupt (Some delegated_info) = Inr s" "tas_HasDelegate s"
    "tas_Delegate s = sample_key 8" "tas_DelegatedAmount s = of_nat (2 ^ 64 - 1)"
    unfolding SolanaTokenAuthoritySnapshotFromInfo_def data bindE_simps
    unfolding delegated_fields delegated_options wrapError_def sum.case bindE_simps
    by simp
  then show ?thesis
    by (simp add: delegated_finally_def account delegated_snapshots_def)
       (simp add: guardV3AddressArray_def approval_delegate_def sample_key_def)
qed

theorem unlimited_approval_hidden_witness:
  "total_score (snd (analyzeTransactionGuardV3AuthoritySurface sample_corrupt [] (approvals [False, True]) [] delegated_snapshots)) = 18 \<and>
   total_score (snd (analyzeTransactionGuardV3AuthoritySurface sample_corrupt [] (approvals [True]) [] delegated_snapshots)) = 35"
proof -
  have d: "dt_Available (approvals sizes)" "dt_Complete (approvals sizes)" for sizes by (simp_all add: approvals_def)
  have a: "approves (approve_instruction 0 False) approval_account approval_delegate 1"
    "approves (approve_instruction 1 True) approval_account approval_delegate (2 ^ 64 - 1)"
    "approves (approve_instruction 0 True) approval_account approval_delegate (2 ^ 64 - 1)"
    using approvals_approve [of 0 False] approvals_approve [of 1 True] approvals_approve [of 0 True] by simp_all
  show ?thesis
    using unlimited_approval_hidden [of "approve_instruction 0 False" approval_account approval_delegate 1
        "approve_instruction 1 True" "approve_instruction 0 True" sample_corrupt delegated_snapshots
        "approvals [False, True]" "approvals [True]" "[]" "[]", OF a(1) _ a(2,3) approvals_final d d(1) approvals_instructions]
    by (auto split: prod.splits)
qed

end
