(* ===== verification/Guard_Balances_Sound.thy ===== *)
theory Guard_Balances_Sound
  imports Guard_Balances Guard_Authority_Sound
begin

text \<open>
  What the automatic balance coverage shows: when it is complete, and what it makes of a mint account.
\<close>

subsection \<open>The accounts that are read\<close>

definition wanted_addresses :: "dtx \<Rightarrow> string \<Rightarrow> string list \<Rightarrow> string set" where
  "wanted_addresses decoded wallet declared = TrimSpace ` set (candidate_addresses decoded wallet declared) - {[]}"

definition address_limit :: "int \<Rightarrow> nat" where
  "address_limit limit = nat (if limit \<le> 0 then guardV3AutomaticAccountLimit else limit)"

lemma append_addresses:
  assumes "fold append_address cs (acc, c) = (out, d)" and "distinct acc"
  shows "distinct out \<and> set out = set acc \<union> {a \<in> TrimSpace ` set cs - {[]}. \<not> placeholder_address a} \<and>
    (d \<longleftrightarrow> c \<and> (TrimSpace ` set cs) \<inter> Collect placeholder_address = {})"
  using assms
proof (induction cs arbitrary: acc c)
  case (Cons a cs)
  obtain acc' c' where step: "append_address a (acc, c) = (acc', c')" by (cases "append_address a (acc, c)")
  have "fold append_address cs (acc', c') = (out, d)" "distinct acc'"
    using Cons.prems step by simp (use Cons.prems(2) step in \<open>auto simp: append_address_def Let_def split: if_splits\<close>)
  note ih = Cons.IH [OF this]
  consider (placeholder) "placeholder_address (TrimSpace a)" "acc' = acc" "\<not> c'"
    | (known) "\<not> placeholder_address (TrimSpace a)" "TrimSpace a = [] \<or> TrimSpace a \<in> set acc" "acc' = acc" "c' = c"
    | (new) "\<not> placeholder_address (TrimSpace a)" "TrimSpace a \<noteq> []" "acc' = acc @ [TrimSpace a]" "c' = c"
    using step by (auto simp: append_address_def Let_def split: if_splits)
  then show ?case
  proof cases
    case placeholder
    then show ?thesis using ih by auto
  next
    case known
    then show ?thesis using ih by auto
  next
    case new
    then show ?thesis using ih by auto
  qed
qed auto

lemma empty_no_placeholder [simp]: "\<not> placeholder_address []"
  by (simp add: placeholder_address_def HasPrefix_def)

lemma balance_addresses:
  assumes "transactionGuardV3BalanceAddresses decoded wallet declared limit = (addresses, complete, required)"
  obtains out where "distinct out" "addresses = take (address_limit limit) out" "required = length out"
    "set out = {a \<in> wanted_addresses decoded wallet declared. \<not> placeholder_address a}"
    "complete \<longleftrightarrow> dt_Available decoded \<and> dt_Complete decoded \<and>
       wanted_addresses decoded wallet declared \<inter> Collect placeholder_address = {} \<and> length out \<le> address_limit limit"
proof -
  obtain out c where f: "fold append_address (candidate_addresses decoded wallet declared)
      ([], dt_Available decoded \<and> dt_Complete decoded) = (out, c)"
    by (cases "fold append_address (candidate_addresses decoded wallet declared) ([], dt_Available decoded \<and> dt_Complete decoded)")
  have "TrimSpace ` set (candidate_addresses decoded wallet declared) \<inter> Collect placeholder_address =
      wanted_addresses decoded wallet declared \<inter> Collect placeholder_address"
    by (auto simp: wanted_addresses_def)
  then show ?thesis
    using append_addresses [OF f] assms
    by (intro that [of out])
       (auto simp: transactionGuardV3BalanceAddresses_def Let_def f wanted_addresses_def address_limit_def)
qed

subsection \<open>One account\<close>

text \<open>Both sides were returned, the account exists on one of them, and a token account can be decoded.\<close>

definition readable_account ::
  "base64_error \<Rightarrow> string list \<Rightarrow> string list \<Rightarrow> SolanaAccountInfo option list \<Rightarrow> SolanaAccountInfo option list \<Rightarrow> string \<Rightarrow> bool" where
  "readable_account corrupt preOrder postOrder pre post address \<longleftrightarrow>
     (case (account_at preOrder pre address, account_at postOrder post address) of
        (Some preInfo, Some postInfo) \<Rightarrow>
          (preInfo \<noteq> None \<or> postInfo \<noteq> None) \<and> \<not> isl (transactionGuardV3TokenSnapshot corrupt preInfo) \<and>
          \<not> isl (transactionGuardV3TokenSnapshot corrupt postInfo)
      | _ \<Rightarrow> False)"

definition lamport_change ::
  "string list \<Rightarrow> string list \<Rightarrow> SolanaAccountInfo option list \<Rightarrow> SolanaAccountInfo option list \<Rightarrow> string \<Rightarrow> int" where
  "lamport_change preOrder postOrder pre post address =
     (case (account_at preOrder pre address, account_at postOrder post address) of
        (Some preInfo, Some postInfo) \<Rightarrow> lamports_of postInfo - lamports_of preInfo
      | _ \<Rightarrow> 0)"

lemma new_balance_address [simp]: "bd_Address (new_balance_delta decoded address) = address"
  by (simp add: new_balance_delta_def)

lemma balance_account_fields [simp]:
  "bs_Observed (balance_account corrupt decoded address preInfo postInfo)"
  "bd_Address (bs_Delta (balance_account corrupt decoded address preInfo postInfo)) = address"
  "bs_LamportDelta (balance_account corrupt decoded address preInfo postInfo) = lamports_of postInfo - lamports_of preInfo"
  "bs_Missing (balance_account corrupt decoded address preInfo postInfo) \<longleftrightarrow>
     isl (transactionGuardV3TokenSnapshot corrupt preInfo) \<or> isl (transactionGuardV3TokenSnapshot corrupt postInfo)"
  by (simp_all add: balance_account_def Let_def)

lemma unseen_step_fields [simp]:
  "\<not> bs_Observed (unseen_step delta)" "bs_Missing (unseen_step delta)" "bs_Delta (unseen_step delta) = delta"
  by (simp_all add: unseen_step_def)

lemma observe_missing:
  "bs_Missing (observe_balance corrupt decoded preOrder postOrder pre post address) \<longleftrightarrow>
   \<not> readable_account corrupt preOrder postOrder pre post address"
  by (auto simp: observe_balance_def readable_account_def split: option.splits)

lemma observe_address [simp]:
  "bd_Address (bs_Delta (observe_balance corrupt decoded preOrder postOrder pre post address)) = address"
  by (simp add: observe_balance_def split: option.splits)

lemma observe_change:
  "bs_Observed (observe_balance corrupt decoded preOrder postOrder pre post address) \<Longrightarrow>
   bs_LamportDelta (observe_balance corrupt decoded preOrder postOrder pre post address) =
   lamport_change preOrder postOrder pre post address"
  by (auto simp: observe_balance_def lamport_change_def split: option.splits if_splits)

lemma unobserved_change:
  "\<not> bs_Observed (observe_balance corrupt decoded preOrder postOrder pre post address) \<Longrightarrow>
   lamport_change preOrder postOrder pre post address = 0"
  by (auto simp: observe_balance_def lamport_change_def lamports_of_def split: option.splits if_splits)

lemma no_steps_where: "steps_where P steps = 0 \<longleftrightarrow> (\<forall>s \<in> set steps. \<not> P s)"
  by (auto simp: steps_where_def filter_empty_conv)

lemma wallet_delta_change:
  "wallet_delta wallet (map (observe_balance corrupt decoded preOrder postOrder pre post) addresses) =
   (if TrimSpace wallet \<in> set addresses then lamport_change preOrder postOrder pre post (TrimSpace wallet) else 0)"
proof -
  let ?obs = "observe_balance corrupt decoded preOrder postOrder pre post"
  let ?mine = "filter (\<lambda>s. bs_Observed s \<and> bd_Address (bs_Delta s) = TrimSpace wallet) (map ?obs addresses)"
  have mine: "set ?mine = ?obs ` {a \<in> set addresses. bs_Observed (?obs a) \<and> a = TrimSpace wallet}" by auto
  show ?thesis
  proof (cases "TrimSpace wallet \<in> set addresses \<and> bs_Observed (?obs (TrimSpace wallet))")
    case True
    with mine have single: "set ?mine = {?obs (TrimSpace wallet)}" by auto
    then have "?mine \<noteq> []" by (simp only: set_empty [symmetric]) simp
    with last_in_set [OF this] single have "last ?mine = ?obs (TrimSpace wallet)" by (simp only: singleton_iff)
    note last = \<open>?mine \<noteq> []\<close> this
    have "wallet_delta wallet (map ?obs addresses) = bs_LamportDelta (last ?mine)"
      using last(1) unfolding wallet_delta_def by (cases ?mine) (simp_all only: list.case, blast)
    then show ?thesis using True last(2) by (simp only: observe_change if_True)
  next
    case False
    then have "{a \<in> set addresses. bs_Observed (?obs a) \<and> a = TrimSpace wallet} = {}" by blast
    with mine have "?mine = []" by (simp only: set_empty [symmetric]) simp
    then have "wallet_delta wallet (map ?obs addresses) = 0" unfolding wallet_delta_def by (simp only: list.case)
    then show ?thesis using False unobserved_change [of corrupt decoded preOrder postOrder pre post "TrimSpace wallet"] by auto
  qed
qed

subsection \<open>The analysis\<close>

lemma evaluate_complete:
  "ba_Complete (fst (evaluateTransactionGuardV3AutomaticBalances corrupt decoded wallet addresses required complete
      preOrder postOrder pre post)) \<longleftrightarrow>
   addresses \<noteq> [] \<and> complete \<and> length addresses = required \<and>
   set addresses \<subseteq> Collect (readable_account corrupt preOrder postOrder pre post)"
  by (auto simp: evaluateTransactionGuardV3AutomaticBalances_def Let_def no_steps_where observe_missing)

lemma evaluate_wallet:
  "ba_WalletSOLDeltaLamports (fst (evaluateTransactionGuardV3AutomaticBalances corrupt decoded wallet addresses required complete
      preOrder postOrder pre post)) =
   int_text 10 (if TrimSpace wallet \<in> set addresses then lamport_change preOrder postOrder pre post (TrimSpace wallet) else 0)"
proof (cases "addresses = []")
  case True
  have "int_text 10 0 = ''0''" by code_simp
  then show ?thesis by (simp add: True evaluateTransactionGuardV3AutomaticBalances_def)
next
  case False
  then show ?thesis by (simp only: evaluateTransactionGuardV3AutomaticBalances_def Let_def wallet_delta_change) simp
qed

text \<open>C39: Coverage is complete exactly when the transaction was decoded completely, there are accounts to read and
  no more than the limit, none of them is a placeholder of an unresolved lookup, and each account was
  returned on both sides, exists on one of them and decodes if a token program owns it. The accounts are
  the declared ones, a well-formed wallet and every writable account, trimmed. The wallet's reported
  change is the exact difference of its lamports, 0 where it was not read.\<close>

theorem balance_coverage_exact:
  "(let (addresses, complete, required) = transactionGuardV3BalanceAddresses decoded wallet declared limit;
        analysis = fst (evaluateTransactionGuardV3AutomaticBalances corrupt decoded wallet addresses required complete
                     preOrder postOrder pre post);
        wanted = wanted_addresses decoded wallet declared in
      (ba_Complete analysis \<longleftrightarrow>
         dt_Available decoded \<and> dt_Complete decoded \<and> wanted \<noteq> {} \<and> card wanted \<le> address_limit limit \<and>
         wanted \<subseteq> {a. \<not> placeholder_address a \<and> readable_account corrupt preOrder postOrder pre post a}) \<and>
      ba_WalletSOLDeltaLamports analysis = int_text 10
        (if TrimSpace wallet \<in> set addresses then lamport_change preOrder postOrder pre post (TrimSpace wallet) else 0))"
proof -
  obtain addresses complete required where
    a: "transactionGuardV3BalanceAddresses decoded wallet declared limit = (addresses, complete, required)"
    by (cases "transactionGuardV3BalanceAddresses decoded wallet declared limit")
  obtain out where o: "distinct out" "addresses = take (address_limit limit) out" "required = length out"
    "set out = {a \<in> wanted_addresses decoded wallet declared. \<not> placeholder_address a}"
    "complete \<longleftrightarrow> dt_Available decoded \<and> dt_Complete decoded \<and>
       wanted_addresses decoded wallet declared \<inter> Collect placeholder_address = {} \<and> length out \<le> address_limit limit"
    using a by (rule balance_addresses)
  let ?w = "wanted_addresses decoded wallet declared"
  have all: "set out = ?w \<and> length out = card ?w" if "?w \<inter> Collect placeholder_address = {}"
  proof -
    have "set out = ?w" using that o(4) by auto
    then show ?thesis using distinct_card [OF o(1)] by simp
  qed
  have "(addresses \<noteq> [] \<and> complete \<and> length addresses = required \<and>
      set addresses \<subseteq> Collect (readable_account corrupt preOrder postOrder pre post)) \<longleftrightarrow>
     dt_Available decoded \<and> dt_Complete decoded \<and> ?w \<noteq> {} \<and> card ?w \<le> address_limit limit \<and>
     ?w \<subseteq> {a. \<not> placeholder_address a \<and> readable_account corrupt preOrder postOrder pre post a}"
  proof (cases "?w \<inter> Collect placeholder_address = {}")
    case True
    note w = all [OF True]
    then have "?w = {} \<longleftrightarrow> out = []" by auto
    with True w show ?thesis using o(2,3,5) by auto
  next
    case False
    then show ?thesis using o(5) by auto
  qed
  then show ?thesis by (simp add: a evaluate_complete evaluate_wallet Let_def)
qed

subsection \<open>Mint accounts\<close>

definition token_program_bytes :: "base64_error \<Rightarrow> SolanaAccountInfo \<Rightarrow> string \<Rightarrow> bool" where
  "token_program_bytes corrupt info data \<longleftrightarrow>
     isGuardTokenProgram (sa_Owner info) \<and> solanaAccountDataBytes corrupt (sa_Data info) = Inr data"

lemma isGuardTokenProgram_trim:
  "isGuardTokenProgram owner \<longleftrightarrow> TrimSpace owner = guardV3SPLTokenProgramID \<or> TrimSpace owner = guardV3Token2022ProgramID"
  by (simp add: isGuardTokenProgram_def)

lemma short_unreadable:
  assumes "token_program_bytes corrupt info data" and "length data < minimumTokenAccountSize"
  shows "isl (transactionGuardV3TokenSnapshot corrupt (Some info))"
  using assms by (auto simp: token_program_bytes_def isGuardTokenProgram_trim transactionGuardV3TokenSnapshot_def
      SolanaTokenAccountSnapshotFromInfo_def token_account_bytes_def)

lemma long_readable:
  assumes "token_program_bytes corrupt info data" and "minimumTokenAccountSize \<le> length data"
  shows "transactionGuardV3TokenSnapshot corrupt (Some info) =
    Inr (Some \<lparr>ts_Mint = slice_of 0 32 data, ts_Owner = slice_of 32 64 data, ts_Amount = of_nat (uint_le (slice_of 64 72 data))\<rparr>)"
  using assms by (auto simp: token_program_bytes_def isGuardTokenProgram_trim transactionGuardV3TokenSnapshot_def
      SolanaTokenAccountSnapshotFromInfo_def token_account_bytes_def)

text \<open>The supply of a mint lies in what a token account has as its owner.\<close>

lemma supply_in_owner: "slice_of 32 64 x = slice_of 32 64 y \<Longrightarrow> slice_of 36 44 x = slice_of 36 44 y"
proof -
  have "slice_of 36 44 z = take 8 (drop 4 (slice_of 32 64 z))" for z :: string
    by (simp add: slice_of_def drop_take)
  then show "slice_of 32 64 x = slice_of 32 64 y \<Longrightarrow> slice_of 36 44 x = slice_of 36 44 y" by simp
qed

lemma mint_supply:
  assumes "SolanaMintAuthoritySnapshotFromInfo corrupt (Some info) = Inr m" and "token_program_bytes corrupt info data"
  shows "mas_Supply m = of_nat (uint_le (slice_of 36 44 data))"
  using assms by (auto simp: SolanaMintAuthoritySnapshotFromInfo_def token_program_bytes_def token_account_bytes_def
      bindE_Inr split: if_splits)

lemma supply_changes_owner:
  assumes "token_program_bytes corrupt before x" "token_program_bytes corrupt after y"
    and "minimumTokenAccountSize \<le> length x" "minimumTokenAccountSize \<le> length y"
    and "SolanaMintAuthoritySnapshotFromInfo corrupt (Some before) = Inr m"
    and "SolanaMintAuthoritySnapshotFromInfo corrupt (Some after) = Inr n" and "mas_Supply m \<noteq> mas_Supply n"
  shows "finding_key ` set (bs_Findings (balance_account corrupt decoded address (Some before) (Some after)))
    \<supseteq> {''automatic_token_account_owner_changed''}"
proof -
  from mint_supply [OF assms(5,1)] mint_supply [OF assms(6,2)] assms(7) supply_in_owner [of x y]
  have "slice_of 32 64 x \<noteq> slice_of 32 64 y" by auto
  moreover have "TrimSpace ''automatic_token_account_owner_changed'' = ''automatic_token_account_owner_changed''"
    by (rule TrimSpace_all_visible) (simp add: visible_def)
  ultimately show ?thesis
    by (simp add: balance_account_def Let_def long_readable [OF assms(1,3)] long_readable [OF assms(2,4)]
        token_side_def differing_def finding_key_def finding_def)
qed

text \<open>Only a changed owner is reported under that code.\<close>

lemma fixed_key: "list_all visible code \<Longrightarrow> code \<noteq> [] \<Longrightarrow> finding_key (finding code severity title evidence score) = code"
  by (simp add: finding_key_def finding_def TrimSpace_all_visible)

lemma balance_account_codes:
  assumes "f \<in> set (bs_Findings (balance_account corrupt decoded address i j))"
  shows "ff_Code f \<in> {''automatic_account_program_owner_changed'', ''automatic_token_account_mint_changed''} \<or>
    ff_Code f = ''automatic_token_account_owner_changed'' \<and> ff_Score f = 100"
  using assms unfolding balance_account_def Let_def balance_step.simps set_append Un_iff
  by (elim disjE) (simp_all add: finding_def split: if_splits)

lemma observe_balance_codes:
  assumes "f \<in> set (bs_Findings (observe_balance corrupt decoded preOrder postOrder pre post address))"
  shows "ff_Code f \<in> {''automatic_account_program_owner_changed'', ''automatic_token_account_mint_changed''} \<or>
    ff_Code f = ''automatic_token_account_owner_changed'' \<and> ff_Score f = 100"
  using assms balance_account_codes
  unfolding observe_balance_def unseen_step_def
  by (simp only: prod.case option.splits balance_step.simps list.set empty_iff split: option.splits if_splits)

lemma single_finding:
  "P g \<Longrightarrow> \<forall>f \<in> set (if b then [g] else []). P f" "P g \<Longrightarrow> \<forall>f \<in> set (if b then [] else [g]). P f"
  by simp_all

lemma evaluate_findings:
  assumes "addresses \<noteq> []"
  shows "\<exists>rest. snd (evaluateTransactionGuardV3AutomaticBalances corrupt decoded wallet addresses required complete
      preOrder postOrder pre post) =
      uniqueGuardV3Findings (concat (map bs_Findings (map (observe_balance corrupt decoded preOrder postOrder pre post) addresses)) @ rest) \<and>
    (\<forall>f \<in> set rest. ff_Code f \<in> {''automatic_balance_coverage_incomplete'', ''automatic_wallet_sol_delta'',
      ''automatic_token_balance_changes'', ''automatic_token_account_closed''})"
  unfolding evaluateTransactionGuardV3AutomaticBalances_def Let_def if_not_P [OF assms] snd_conv
  by (rule exI, rule conjI, rule refl, unfold set_append ball_Un, intro conjI single_finding)
     (simp_all add: finding_def)

lemma balance_findings_score:
  assumes "f \<in> set (snd (evaluateTransactionGuardV3AutomaticBalances corrupt decoded wallet addresses required complete
      preOrder postOrder pre post))"
    and "addresses \<noteq> []" and "finding_key f = ''automatic_token_account_owner_changed''"
  shows "ff_Code f = ''automatic_token_account_owner_changed'' \<and> ff_Score f = 100"
proof -
  obtain rest where r: "snd (evaluateTransactionGuardV3AutomaticBalances corrupt decoded wallet addresses required complete
      preOrder postOrder pre post) =
      uniqueGuardV3Findings (concat (map bs_Findings (map (observe_balance corrupt decoded preOrder postOrder pre post) addresses)) @ rest)"
    "\<And>f. f \<in> set rest \<Longrightarrow> ff_Code f \<in> {''automatic_balance_coverage_incomplete'', ''automatic_wallet_sol_delta'',
      ''automatic_token_balance_changes'', ''automatic_token_account_closed''}"
    using evaluate_findings [OF assms(2), of corrupt decoded wallet required complete preOrder postOrder pre post] by blast
  let ?others = "{''automatic_account_program_owner_changed'', ''automatic_token_account_mint_changed''} \<union>
    {''automatic_balance_coverage_incomplete'', ''automatic_wallet_sol_delta'',
      ''automatic_token_balance_changes'', ''automatic_token_account_closed''}"
  have "f \<in> set (concat (map bs_Findings (map (observe_balance corrupt decoded preOrder postOrder pre post) addresses)) @ rest)"
    using assms(1) unfolding r(1) by (rule subsetD [OF unique_findings_subset])
  then have "(\<exists>address. f \<in> set (bs_Findings (observe_balance corrupt decoded preOrder postOrder pre post address))) \<or> f \<in> set rest"
    by auto
  then have "ff_Code f \<in> ?others \<or> ff_Code f = ''automatic_token_account_owner_changed'' \<and> ff_Score f = 100"
    using r(2) observe_balance_codes by blast
  moreover have "ff_Code f \<notin> ?others"
  proof
    assume "ff_Code f \<in> ?others"
    then have "TrimSpace (ff_Code f) = ff_Code f" "ff_Code f \<noteq> []" "ff_Code f \<noteq> ''automatic_token_account_owner_changed''"
      by (auto simp: TrimSpace_all_visible visible_def)
    with assms(3) show False by (simp add: finding_key_def)
  qed
  ultimately show ?thesis by blast
qed

lemma evaluate_step_findings:
  assumes "address \<in> set addresses"
  shows "finding_key ` set (bs_Findings (observe_balance corrupt decoded preOrder postOrder pre post address)) \<subseteq>
    finding_key ` set (snd (evaluateTransactionGuardV3AutomaticBalances corrupt decoded wallet addresses required complete
      preOrder postOrder pre post))"
proof -
  have "addresses \<noteq> []" using assms by auto
  from evaluate_findings [OF this, of corrupt decoded wallet required complete preOrder postOrder pre post] obtain rest where r: "snd (evaluateTransactionGuardV3AutomaticBalances corrupt decoded
      wallet addresses required complete preOrder postOrder pre post) =
      uniqueGuardV3Findings (concat (map bs_Findings (map (observe_balance corrupt decoded preOrder postOrder pre post) addresses)) @ rest)"
    by blast
  show ?thesis unfolding r unique_findings_keys using assms by (intro image_mono) auto
qed

text \<open>C40: Every account of a token program is read as a token account, mints included. If the bytes of a
  writable account of a token program are too short for a token account on either side, as the 82 bytes of a
  plain mint are, coverage is not complete. If they are long enough on both sides, as those of a mint with
  extensions are, and the two sides are mints of different supply, a minting or burning transaction is reported
  as a critical change of a token account's owner, of score 100: the supply lies where a token account has its owner.\<close>

theorem mint_accounts_misread:
  assumes "a \<in> set (dt_StaticAccounts decoded @ dt_LoadedAccounts decoded)" and "da_Writable a"
    and "address = TrimSpace (da_Address a)" and "address \<noteq> []"
    and "transactionGuardV3BalanceAddresses decoded wallet declared limit = (addresses, complete, required)"
    and "evaluateTransactionGuardV3AutomaticBalances corrupt decoded wallet addresses required complete
      preOrder postOrder pre post = (analysis, findings)"
  shows "((\<exists>info data. (account_at preOrder pre address = Some (Some info) \<or> account_at postOrder post address = Some (Some info)) \<and>
            token_program_bytes corrupt info data \<and> length data < minimumTokenAccountSize) \<longrightarrow> \<not> ba_Complete analysis) \<and>
         (address \<in> set addresses \<and> (\<exists>before after x y m n. account_at preOrder pre address = Some (Some before) \<and>
            account_at postOrder post address = Some (Some after) \<and>
            token_program_bytes corrupt before x \<and> token_program_bytes corrupt after y \<and>
            minimumTokenAccountSize \<le> length x \<and> minimumTokenAccountSize \<le> length y \<and>
            SolanaMintAuthoritySnapshotFromInfo corrupt (Some before) = Inr m \<and>
            SolanaMintAuthoritySnapshotFromInfo corrupt (Some after) = Inr n \<and> mas_Supply m \<noteq> mas_Supply n) \<longrightarrow>
          (\<exists>f \<in> set findings. ff_Code f = ''automatic_token_account_owner_changed'' \<and> ff_Score f = 100))"
proof -
  obtain out where o: "addresses = take (address_limit limit) out" "required = length out"
    "set out = {a \<in> wanted_addresses decoded wallet declared. \<not> placeholder_address a}"
    "complete \<longleftrightarrow> dt_Available decoded \<and> dt_Complete decoded \<and>
       wanted_addresses decoded wallet declared \<inter> Collect placeholder_address = {} \<and> length out \<le> address_limit limit"
    using balance_addresses [OF assms(5)] by metis
  have "address \<in> wanted_addresses decoded wallet declared"
    using assms(1-4) by (auto simp: wanted_addresses_def candidate_addresses_def writable_addresses_def Let_def)
  then have member: "address \<in> set out \<or> \<not> complete" using o(3,4) by auto
  have complete: "ba_Complete analysis \<longleftrightarrow> addresses \<noteq> [] \<and> complete \<and> length addresses = required \<and>
      set addresses \<subseteq> Collect (readable_account corrupt preOrder postOrder pre post)"
    using evaluate_complete [of corrupt decoded wallet addresses required complete preOrder postOrder pre post] assms(6) by simp
  show ?thesis
  proof (intro conjI impI)
    assume "\<exists>info data. (account_at preOrder pre address = Some (Some info) \<or> account_at postOrder post address = Some (Some info)) \<and>
      token_program_bytes corrupt info data \<and> length data < minimumTokenAccountSize"
    then have "\<not> readable_account corrupt preOrder postOrder pre post address"
      using short_unreadable by (auto simp: readable_account_def split: option.splits)
    moreover have "address \<in> set addresses \<and> set addresses \<subseteq> Collect (readable_account corrupt preOrder postOrder pre post)"
      if "ba_Complete analysis"
    proof -
      from that complete have c: "complete" "set addresses \<subseteq> Collect (readable_account corrupt preOrder postOrder pre post)"
        by simp_all
      from c(1) o(4) have "length out \<le> address_limit limit" by simp
      then have "addresses = out" using o(1) by simp
      with c member show ?thesis by simp
    qed
    ultimately show "\<not> ba_Complete analysis" by blast
  next
    assume "address \<in> set addresses \<and> (\<exists>before after x y m n. account_at preOrder pre address = Some (Some before) \<and>
            account_at postOrder post address = Some (Some after) \<and>
            token_program_bytes corrupt before x \<and> token_program_bytes corrupt after y \<and>
            minimumTokenAccountSize \<le> length x \<and> minimumTokenAccountSize \<le> length y \<and>
            SolanaMintAuthoritySnapshotFromInfo corrupt (Some before) = Inr m \<and>
            SolanaMintAuthoritySnapshotFromInfo corrupt (Some after) = Inr n \<and> mas_Supply m \<noteq> mas_Supply n)"
    then obtain before after x y m n where read: "address \<in> set addresses"
      and at: "account_at preOrder pre address = Some (Some before)" "account_at postOrder post address = Some (Some after)"
      and mints: "token_program_bytes corrupt before x" "token_program_bytes corrupt after y"
        "minimumTokenAccountSize \<le> length x" "minimumTokenAccountSize \<le> length y"
        "SolanaMintAuthoritySnapshotFromInfo corrupt (Some before) = Inr m"
        "SolanaMintAuthoritySnapshotFromInfo corrupt (Some after) = Inr n" "mas_Supply m \<noteq> mas_Supply n"
      by blast
    have "''automatic_token_account_owner_changed'' \<in> finding_key `
        set (bs_Findings (observe_balance corrupt decoded preOrder postOrder pre post address))"
      using supply_changes_owner [OF mints] by (simp add: observe_balance_def at)
    with read have "''automatic_token_account_owner_changed'' \<in> finding_key ` set findings"
      using evaluate_step_findings [of address addresses corrupt decoded preOrder postOrder pre post wallet required complete] assms(6)
      by (simp only: snd_conv subset_eq)
    then obtain f where f: "f \<in> set findings" "finding_key f = ''automatic_token_account_owner_changed''" by auto
    have "addresses \<noteq> []" using read by auto
    with balance_findings_score [of f corrupt decoded wallet addresses required complete preOrder postOrder pre post] assms(6) f
    show "\<exists>f \<in> set findings. ff_Code f = ''automatic_token_account_owner_changed'' \<and> ff_Score f = 100" by auto
  qed
qed

text \<open>A plain mint, and mints with extensions before and after a unit is minted.\<close>

definition mint_data :: "nat \<Rightarrow> string" where
  "mint_data supply = put_bytes [1, 0, 0, 0] @ sample_key 5 @ put_bytes [supply] @ replicate 7 zero_byte @ put_bytes [6, 1] @
     replicate 36 zero_byte"

definition mint_info :: "string \<Rightarrow> SolanaAccountInfo" where
  "mint_info data = \<lparr>sa_Data = JArr [JStr (StdEncoding_EncodeToString data), JStr ''base64''], sa_Executable = False,
     sa_Lamports = 1, sa_Owner = guardV3SPLTokenProgramID, sa_RentEpoch = JNull, sa_Space = 82\<rparr>"

lemma mint_data_length [simp]: "length (mint_data n) = 82"
  by (simp add: mint_data_def put_bytes_def sample_key_def)

lemma mint_data_nonempty: "mint_data n \<noteq> []"
  using mint_data_length [of n] by (metis list.size(3) zero_neq_numeral)

lemma mint_bytes: "data \<noteq> [] \<Longrightarrow> token_program_bytes corrupt (mint_info data) data"
  by (simp add: token_program_bytes_def mint_info_def account_data_bytes token_program_owner)

lemma mint_snapshot:
  assumes "data = mint_data n @ rest"
  shows "\<exists>m. SolanaMintAuthoritySnapshotFromInfo corrupt (Some (mint_info data)) = Inr m \<and> mas_Supply m = of_nat (uint_le (put_bytes [n] @ replicate 7 zero_byte))"
proof -
  have "data \<noteq> []" using assms by (simp add: mint_data_nonempty)
  from mint_bytes [OF this, of corrupt] have "token_account_bytes corrupt u s minimumTokenMintSize (Some (mint_info data)) = Inr data" for u s
    using assms by (simp add: token_account_bytes_def token_program_bytes_def minimumTokenMintSize_def)
  moreover have "slice_of 0 36 data = put_bytes [1, 0, 0, 0] @ sample_key 5" "slice_of 36 44 data = put_bytes [n] @ replicate 7 zero_byte"
    "slice_of 46 82 data = replicate 36 zero_byte"
    by (simp_all add: assms mint_data_def slice_of_def put_bytes_def sample_key_def)
  moreover have "uint_le (replicate 4 zero_byte) = 0" by (rule uint_le_zeros)
  moreover have "uint_le (put_bytes [1, 0, 0, 0]) = 1" by (simp add: put_bytes_def byte_of_char_of)
  ultimately show ?thesis
    by (simp add: SolanaMintAuthoritySnapshotFromInfo_def unpackGuardCOptionPubkey_def wrapError_def sample_key_def put_bytes_def)
qed

lemma mint_lengths:
  "length (mint_data n) < minimumTokenAccountSize"
  "minimumTokenAccountSize \<le> length (mint_data n @ replicate 100 zero_byte)"
  by (simp_all add: minimumTokenAccountSize_def)

lemma pubkey_no_placeholder: "looksLikeGuardPubkey a \<Longrightarrow> TrimSpace a = a \<Longrightarrow> \<not> placeholder_address a"
proof
  assume "looksLikeGuardPubkey a" and "TrimSpace a = a" and p: "placeholder_address a"
  then have "set a \<subseteq> set guardV3Base58Alphabet"
    unfolding looksLikeGuardPubkey_def Let_def list_all_iff by (metis subsetI)
  moreover have "CHR ''-'' \<notin> set guardV3Base58Alphabet" by (simp add: guardV3Base58Alphabet_def)
  moreover obtain r where "a = ''lookup-'' @ r \<or> a = ''unresolved-account:'' @ r"
    using p unfolding placeholder_address_def HasPrefix_def by (meson not_None_eq strip_prefix_Some)
  then have "CHR ''-'' \<in> set a" by (elim disjE) simp_all
  ultimately show False by blast
qed

lemma approvals_read:
  assumes "transactionGuardV3BalanceAddresses (approvals [True]) [] [] 0 = (addresses, complete, required)"
  shows "approval_account \<in> set addresses"
proof -
  let ?d = "approvals [True]"
  obtain out where o: "distinct out" "addresses = take (address_limit 0) out"
    "set out = {a \<in> wanted_addresses ?d [] []. \<not> placeholder_address a}"
    using balance_addresses [OF assms] by metis
  have w: "wanted_addresses ?d [] [] \<subseteq> TrimSpace ` set [approval_account, approval_delegate, approval_owner, guardV3SPLTokenProgramID]"
    "TrimSpace approval_account \<noteq> [] \<Longrightarrow> TrimSpace approval_account \<in> wanted_addresses ?d [] []"
    by (auto simp: wanted_addresses_def candidate_addresses_def writable_addresses_def approvals_def static_account_def newDecoded_def)
  have "card (set out) \<le> card (TrimSpace ` set [approval_account, approval_delegate, approval_owner, guardV3SPLTokenProgramID])"
    using w(1) o(3) by (intro card_mono) auto
  also have "\<dots> \<le> 4"
    by (rule order_trans [OF card_image_le [OF finite_set] order_trans [OF card_length]]) simp
  finally have "length out \<le> address_limit 0"
    using distinct_card [OF o(1)] by (simp add: address_limit_def guardV3AutomaticAccountLimit_def)
  then have "addresses = out" using o(2) by simp
  moreover have account: "TrimSpace approval_account = approval_account" "approval_account \<noteq> []"
    using encode_length [of "sample_key 7"] by (auto simp: approval_account_def sample_key_def)
  moreover have "\<not> placeholder_address approval_account"
    using account(1) by (intro pubkey_no_placeholder) (simp add: approval_account_def looks_like_encode sample_key_def)
  ultimately show ?thesis using w(2) o(3) by simp
qed

theorem mint_accounts_misread_witness:
  "(case transactionGuardV3BalanceAddresses (approvals [True]) [] [] 0 of (addresses, complete, required) \<Rightarrow>
      \<not> ba_Complete (fst (evaluateTransactionGuardV3AutomaticBalances sample_corrupt (approvals [True]) [] addresses required complete
        [approval_account] [approval_account] [Some (mint_info (mint_data 0))] [Some (mint_info (mint_data 0))])) \<and>
      (\<exists>f \<in> set (snd (evaluateTransactionGuardV3AutomaticBalances sample_corrupt (approvals [True]) [] addresses required complete
        [approval_account] [approval_account] [Some (mint_info (mint_data 0 @ replicate 100 zero_byte))]
        [Some (mint_info (mint_data 1 @ replicate 100 zero_byte))])).
         ff_Code f = ''automatic_token_account_owner_changed'' \<and> ff_Score f = 100))"
proof -
  let ?d = "approvals [True]" and ?x = "mint_data 0 @ replicate 100 zero_byte" and ?y = "mint_data 1 @ replicate 100 zero_byte"
  have account: "TrimSpace approval_account = approval_account" "approval_account \<noteq> []"
    using encode_length [of "sample_key 7"] by (auto simp: approval_account_def sample_key_def)
  have at: "account_at [approval_account] [Some i] approval_account = Some (Some i)" for i :: SolanaAccountInfo
    by (simp add: account_at_def addressIndex_def account)
  have a: "static_account (0, approval_account) \<in> set (dt_StaticAccounts ?d @ dt_LoadedAccounts ?d)"
    "da_Writable (static_account (0, approval_account))" "approval_account = TrimSpace (da_Address (static_account (0, approval_account)))"
    by (simp_all add: approvals_def static_account_def account)
  obtain addresses complete required where b: "transactionGuardV3BalanceAddresses ?d [] [] 0 = (addresses, complete, required)"
    by (metis prod.exhaust)
  have read: "approval_account \<in> set addresses" by (rule approvals_read [OF b])
  have short: "token_program_bytes sample_corrupt (mint_info (mint_data 0)) (mint_data 0)" and
    bytes: "token_program_bytes sample_corrupt (mint_info ?x) ?x" "token_program_bytes sample_corrupt (mint_info ?y) ?y"
    by (simp_all add: mint_bytes mint_data_nonempty)
  obtain m n where mints: "SolanaMintAuthoritySnapshotFromInfo sample_corrupt (Some (mint_info ?x)) = Inr m"
      "SolanaMintAuthoritySnapshotFromInfo sample_corrupt (Some (mint_info ?y)) = Inr n"
      "mas_Supply m = of_nat (uint_le (put_bytes [0] @ replicate 7 zero_byte))"
      "mas_Supply n = of_nat (uint_le (put_bytes [1] @ replicate 7 zero_byte))"
    using mint_snapshot [of ?x 0 "replicate 100 zero_byte" sample_corrupt] mint_snapshot [of ?y 1 "replicate 100 zero_byte" sample_corrupt]
    by auto
  then have "mas_Supply m \<noteq> mas_Supply n" by (simp add: put_bytes_def byte_of_char_of)
  have "\<not> ba_Complete (fst (evaluateTransactionGuardV3AutomaticBalances sample_corrupt ?d [] addresses required complete
        [approval_account] [approval_account] [Some (mint_info (mint_data 0))] [Some (mint_info (mint_data 0))]))"
    using mint_accounts_misread [OF a account(2) b surjective_pairing] at short
      mint_lengths(1) by blast
  moreover have "\<exists>f \<in> set (snd (evaluateTransactionGuardV3AutomaticBalances sample_corrupt ?d [] addresses required complete
        [approval_account] [approval_account] [Some (mint_info ?x)] [Some (mint_info ?y)])).
         ff_Code f = ''automatic_token_account_owner_changed'' \<and> ff_Score f = 100"
    using mint_accounts_misread [OF a account(2) b surjective_pairing] at bytes mints(1,2) \<open>mas_Supply m \<noteq> mas_Supply n\<close> read
      mint_lengths(2) by blast
  ultimately show ?thesis unfolding b prod.case by blast
qed

end
