(* ===== verification/Spec2Isabelle.thy ===== *)
theory Spec2Isabelle
  imports Safe_Runner Safe_Forward Fork_Forward Invariant_Sound Attestation_Sound Decision
    Rate_Limit_Sound Single_Flight Anvil_Sound Safe_Engine_Sound
    Solana_Tx_Sound Guard_Balances_Sound
begin

text \<open>
  \<^bold>\<open>Koschei Bridge: the execution-proof core and the services around it.\<close>

  Koschei is a Go service (under \<^verbatim>\<open>koschei/api/internal\<close>) that decides whether a blockchain transaction may
  be signed and forwarded. Its core turns evidence into receipts and lets a transaction out only under a
  receipt that it recomputes itself. This library models that core, from the bytes up, and states what
  it guarantees. All paths below are relative to \<^verbatim>\<open>koschei/api/internal\<close>.

  \<^bold>\<open>Parts and how they interact.\<close>

  \<^item> \<^verbatim>\<open>executioncontainment\<close>: a containment cell compares an observation with its input and issues a receipt
    RELEASE, CONTAIN or UNAVAILABLE (\<open>Containment\<close>). \<^verbatim>\<open>decision\<close> translates receipts, guard verdicts and radar
    grades into the one decision contract of the API (\<open>Decision\<close>).
  \<^item> \<^verbatim>\<open>executionproof\<close>, proof and gates: an envelope of build, artifact, payload and simulation evidence is
    evaluated; the signing gate recomputes it (\<open>Proof_Gate\<close>). A Safe transaction has its native hash
    (\<open>Safe_Hash\<close>) and its canonical action bytes (\<open>Safe_Action\<close>). The forwarding boundaries compose these
    with the forwarder, an interface whose calls are logged (\<open>Safe_Forward\<close>).
  \<^item> The Safe runner executes one transaction in isolation and turns its trace and balances into an
    observation: the call-trace verifier (\<open>Safe_Trace\<close>), accessor semantics and outflow budget
    (\<open>Safe_Effects\<close>), and the runner and pinned backend (\<open>Safe_Runner\<close>).
  \<^item> The fork path, v0.3: required invariant checks on a fork (\<open>Fork_Sim\<close>), the verified execution with its
    canonical payload and receipt (\<open>Fork_Binding\<close>, \<open>Fork_Receipt\<close>), the JSON-RPC client and canonicality
    (\<open>Evm_Rpc\<close>), the policy-bound evaluator (\<open>Invariant_Eval\<close>, \<open>Invariant_Sound\<close>) and the boundary that
    puts them together (\<open>Fork_Forward\<close>).
  \<^item> The two engines that touch the outside: the backend that executes a verified fork on a local Anvil
    process (\<open>Anvil_Client\<close>, \<open>Anvil_Sound\<close>) and the Safe engine with its ABI layer (\<open>Safe_Abi\<close>), snapshots,
    trace and effects (\<open>Safe_Engine\<close>, \<open>Safe_Engine_Sound\<close>). The operating system is a record of functions
    over a state about which nothing is assumed; \<open>Go_Run\<close> gives a run its three ends (value, error, panic),
    deferred calls and the rules for what it keeps and whether it returns. \<open>Sample_Node\<close> and
    \<open>Sample_Safe_Node\<close> hold concrete nodes for the witnesses.
  \<^item> \<^verbatim>\<open>securityevidence\<close>: sealed and signed events (\<open>Evidence\<close>, \<open>Evidence_Sound\<close>); the Safe execution
    attestation is such an event, bound to one execution and fresh (\<open>Attestation\<close>, \<open>Attestation_Sound\<close>).
  \<^item> Around the core: the rate limit of the sensitive routes with its bounded memory store (\<open>Rate_Limit\<close>,
    \<open>Rate_Limit_Sound\<close>), and duplicate suppression as a step relation over all interleavings
    (\<open>Single_Flight\<close>).

  \<^item> The transaction guard for Solana (\<^verbatim>\<open>handlers/transaction_guard_*\<close>): addresses (\<open>Base58\<close>), the bytes of a
    message (\<open>Solana_Wire\<close>), the authority instructions of the token programs (\<open>Solana_Authority\<close>), findings
    (\<open>Guard_Findings\<close>), the decoded transaction (\<open>Solana_Decode\<close>), account state as the RPC reports it
    (\<open>Solana_Accounts\<close>) and address lookup tables (\<open>Solana_Lookup\<close>). \<open>Solana_Wire_Sound\<close> gives the grammar of
    a message and shows that the parser accepts exactly it, \<open>Solana_Decode_Sound\<close> what the classification
    adds, and \<open>Solana_Tx_Sound\<close> puts both together from the text of a request.
  \<^item> What the guard decides from it: the log-based firewall (\<open>Guard_Firewall\<close>), request validation, program and
    account policies and the final decision (\<open>Guard_Policy\<close>, shown exact in \<open>Guard_Sound\<close>), the authority surface
    with the state after the simulation (\<open>Guard_Authority\<close>, \<open>Guard_Authority_Sound\<close>) and the automatic balance
    coverage (\<open>Guard_Balances\<close>, \<open>Guard_Balances_Sound\<close>). The simulation and the account reader of the RPC are arguments.

  \<^bold>\<open>Shared layers.\<close> \<open>Prelude\<close>: results, 64-bit types, generic lemmas. \<open>Go_Strings\<close>: \<^verbatim>\<open>strings\<close> functions on byte
  strings. \<open>Go_Encoding\<close>: hexadecimal, base64url, numbers as text. \<open>Go_Json\<close> and \<open>Go_Json_Parse\<close>: what
  \<^verbatim>\<open>encoding/json\<close> writes and accepts; \<open>Go_Json_Raw\<close>: the raw texts of its members. \<open>Go_Base64\<close>: the four base64 encodings. \<open>Go_Time\<close>: instants and 64-bit durations. \<open>Sha256\<close>: SHA-256 from its
  standard; \<open>Digests\<close>: digests as hexadecimal text and the collision predicate.

  \<^bold>\<open>Correspondence.\<close> A Go struct is a record with one field for each of its own, an error is a value of
  \<open>go_error\<close> on the left of a sum, a function that mutates returns its state, an \<^verbatim>\<open>int64\<close> or \<^verbatim>\<open>uint64\<close> is a
  64-bit word, a \<^verbatim>\<open>big.Int\<close> pointer is an optional integer (\<open>None\<close> is \<^verbatim>\<open>nil\<close>), strings and byte slices are
  lists of bytes. Definitions keep the names of the source; a package prefix is added where two packages
  use one name.

  \<^bold>\<open>Parameters.\<close> Keccak-256 is a third-party package and the argument \<open>K\<close>; ed25519 is a pair of functions
  whose documented laws are the locale \<open>ed25519\<close>; a node is a function from requests to answers; a
  forwarder, a backend, a verifier and a registry are interfaces and function arguments; a database is
  the function of its one statement; the order in which Go iterates a map is an argument that ranges
  over all orders.

  \<^bold>\<open>What the lemmas show.\<close> Gates allow exactly the evidence that meets an independent specification, and
  report exactly what they did; canonical forms are idempotent, independent of order and decoded back;
  digests and hashes identify what they are taken of, or two byte strings with one digest are exhibited
  (no property assumes that collisions do not exist); bounds hold over the integers although the code
  computes in 64 bits; step relations keep their invariants in every interleaving, and whoever waits in one comes nearer to
  its result with every step of its own and of the thread it waits for.

  \<^bold>\<open>Bounds.\<close> The JSON parser recurses on the text with the nesting bound of \<^verbatim>\<open>encoding/json\<close> (10000). A node's
  answer is cut at 1 MiB as the client's \<^verbatim>\<open>io.LimitReader\<close> does. Every other recursion is structural, or
  over a list the code ranges over; the page loop of the Safe engine counts its 16 pages down. The two loops
  that poll a node may run forever, so they are partial functions; each arms a deadline before it starts,
  and that they return is a property that rests on it (\<open>deadlines\<close> in \<open>Anvil_Sound\<close>). Case folding is that of
  ASCII (\<open>ToLower\<close>, \<open>EqualFold\<close> in \<open>Go_Strings\<close>), where Go folds all of Unicode.

  \<^bold>\<open>Not modelled.\<close> What an operating system, an HTTP server or client, PostgreSQL and the text of its
  statements do beyond the arguments above, log output and audit events. Next in the plan are the guard's
  CPI flow, signed intents and enforcement permits, \<^verbatim>\<open>web3\<close> (governor, cache, evidence court), \<^verbatim>\<open>jobs\<close>, \<^verbatim>\<open>requestmeta\<close> and \<^verbatim>\<open>defense\<close>. Handlers and stream workers are
  mostly input and output.
\<close>

end
